(* ===== verification/Interfaces.thy ===== *)
theory Interfaces
  imports Bytes
begin

text \<open>
  The contracts several components share, each a locale whose laws the components discharge
  on their own operations.

  \<^item> \<open>slot_table\<close>: a fixed-length array used as a keyed table (mints, vaults and vault
    contributions).  What a lookup returns after an insertion, and that keys stay distinct, is
    proved once.
  \<^item> \<open>transactional\<close>, \<open>guarded_step\<close>, \<open>monotone_counter\<close>, \<open>exact_counter\<close>: instructions that either fail and leave
    the state as it was or succeed; invariants and counters lift to any sequence of instructions.
  \<^item> \<open>codec\<close>: a self-delimiting canonical encoding; sequences and pairs of codecs are codecs.
\<close>

subsection \<open>Keyed tables in fixed-length arrays\<close>

definition table_lookup :: "('e \<Rightarrow> bool) \<Rightarrow> ('e \<Rightarrow> 'k) \<Rightarrow> 'e list \<Rightarrow> 'k \<Rightarrow> 'e option" where
  "table_lookup occupied key xs k = List.find (\<lambda>e. occupied e \<and> key e = k) xs"

definition keyed :: "('e \<Rightarrow> bool) \<Rightarrow> ('e \<Rightarrow> 'k) \<Rightarrow> 'e list \<Rightarrow> bool" where
  "keyed occupied key xs \<longleftrightarrow>
     (\<forall>i < length xs. \<forall>j < length xs. occupied (xs ! i) \<and> occupied (xs ! j) \<and>
        key (xs ! i) = key (xs ! j) \<longrightarrow> i = j)"

lemma table_lookup_NoneI:
  "(\<And>e. e \<in> set xs \<Longrightarrow> occupied e \<Longrightarrow> key e \<noteq> k) \<Longrightarrow> table_lookup occupied key xs k = None"
  by (auto simp: table_lookup_def find_None_iff)

lemma table_lookup_SomeI:
  assumes "keyed occupied key xs" "i < length xs" "occupied (xs ! i)" "key (xs ! i) = k"
  shows "table_lookup occupied key xs k = Some (xs ! i)"
proof -
  have "\<forall>j < i. \<not> (occupied (xs ! j) \<and> key (xs ! j) = k)"
    using assms unfolding keyed_def by (metis less_irrefl less_trans)
  with assms have "position (\<lambda>e. occupied e \<and> key e = k) xs = Some i"
    by (intro position_first) auto
  then show ?thesis by (simp add: table_lookup_def find_position)
qed

lemma table_lookup_SomeD:
  "table_lookup occupied key xs k = Some e \<Longrightarrow> e \<in> set xs \<and> occupied e \<and> key e = k"
  by (auto simp: table_lookup_def find_Some_iff)

lemma table_lookup_cong_nth:
  assumes k: "keyed occupied key xs" "keyed occupied key ys" and len: "length ys = length xs"
    and same: "\<And>i. i < length xs \<Longrightarrow> (occupied (ys ! i) \<and> key (ys ! i) = k \<longleftrightarrow>
      occupied (xs ! i) \<and> key (xs ! i) = k) \<and> (occupied (xs ! i) \<and> key (xs ! i) = k \<longrightarrow> ys ! i = xs ! i)"
  shows "table_lookup occupied key ys k = table_lookup occupied key xs k"
proof (cases "\<exists>i < length xs. occupied (xs ! i) \<and> key (xs ! i) = k")
  case True
  then obtain i where i: "i < length xs" "occupied (xs ! i)" "key (xs ! i) = k" by auto
  with same have "ys ! i = xs ! i" by blast
  with i k len show ?thesis
    using table_lookup_SomeI [of occupied key xs i k] table_lookup_SomeI [of occupied key ys i k] by simp
next
  case False
  with same len have "table_lookup occupied key ys k = None"
    by (intro table_lookup_NoneI) (metis in_set_conv_nth)
  moreover from False have "table_lookup occupied key xs k = None"
    by (intro table_lookup_NoneI) (metis in_set_conv_nth)
  ultimately show ?thesis by simp
qed

locale slot_table =
  fixes occupied :: "'e \<Rightarrow> bool"
    and key :: "'e \<Rightarrow> 'k"
    and put :: "'e \<Rightarrow> 'e list \<Rightarrow> 'e list option"
  assumes put_slot:
    "put e xs = Some ys \<Longrightarrow> \<exists>i < length xs. ys = xs[i := e] \<and>
       (occupied (xs ! i) \<longrightarrow> key (xs ! i) = key e) \<and>
       (keyed occupied key xs \<longrightarrow> (\<forall>j < length xs. j \<noteq> i \<and> occupied (xs ! j) \<longrightarrow> key (xs ! j) \<noteq> key e))"
begin

lemma put_length: "put e xs = Some ys \<Longrightarrow> length ys = length xs"
  using put_slot by fastforce

lemma put_keyed:
  assumes "put e xs = Some ys" "keyed occupied key xs"
  shows "keyed occupied key ys"
proof -
  from put_slot [OF assms(1)] assms(2) obtain i where i: "i < length xs" "ys = xs[i := e]"
    and fresh: "\<And>j. j < length xs \<Longrightarrow> j \<noteq> i \<Longrightarrow> occupied (xs ! j) \<Longrightarrow> key (xs ! j) \<noteq> key e" by blast
  show ?thesis
    unfolding keyed_def
  proof (intro allI impI)
    fix a b
    assume ab: "a < length ys" "b < length ys"
      "occupied (ys ! a) \<and> occupied (ys ! b) \<and> key (ys ! a) = key (ys ! b)"
    show "a = b"
      using ab i fresh [of a] fresh [of b] assms(2)
      by (cases "a = i"; cases "b = i") (auto simp: keyed_def)
  qed
qed

lemma put_lookup:
  assumes "put e xs = Some ys" "keyed occupied key xs" "occupied e"
  shows "table_lookup occupied key ys = (table_lookup occupied key xs)(key e \<mapsto> e)"
proof
  fix k
  from put_slot [OF assms(1)] assms(2) obtain i where i: "i < length xs" "ys = xs[i := e]"
    and old: "occupied (xs ! i) \<longrightarrow> key (xs ! i) = key e"
    and fresh: "\<And>j. j < length xs \<Longrightarrow> j \<noteq> i \<Longrightarrow> occupied (xs ! j) \<Longrightarrow> key (xs ! j) \<noteq> key e" by blast
  have keyed: "keyed occupied key ys" using assms by (blast intro: put_keyed)
  show "table_lookup occupied key ys k = ((table_lookup occupied key xs)(key e \<mapsto> e)) k"
  proof (cases "k = key e")
    case True
    with i assms(3) keyed table_lookup_SomeI [of occupied key ys i k] show ?thesis by simp
  next
    case False
    have "table_lookup occupied key ys k = table_lookup occupied key xs k"
    proof (rule table_lookup_cong_nth [OF assms(2) keyed])
      show "length ys = length xs" using i by simp
      fix j
      assume "j < length xs"
      then show "(occupied (ys ! j) \<and> key (ys ! j) = k \<longleftrightarrow> occupied (xs ! j) \<and> key (xs ! j) = k) \<and>
        (occupied (xs ! j) \<and> key (xs ! j) = k \<longrightarrow> ys ! j = xs ! j)"
        using i old False by (cases "j = i") auto
    qed
    with False show ?thesis by simp
  qed
qed

lemma put_set_subset: "put e xs = Some ys \<Longrightarrow> set ys \<subseteq> insert e (set xs)"
  using put_slot by (metis set_update_subset_insert)

end

subsection \<open>Transactional state: a failed instruction changes nothing\<close>

fun run_all :: "('op \<Rightarrow> 's \<Rightarrow> 'err + 's) \<Rightarrow> 'op list \<Rightarrow> 's \<Rightarrow> 's" where
  "run_all step [] s = s"
| "run_all step (a # ops) s = (case step a s of Inl _ \<Rightarrow> run_all step ops s | Inr t \<Rightarrow> run_all step ops t)"

fun accepted :: "('op \<Rightarrow> 's \<Rightarrow> 'err + 's) \<Rightarrow> 'op list \<Rightarrow> 's \<Rightarrow> 'op list" where
  "accepted step [] s = []"
| "accepted step (a # ops) s =
     (case step a s of Inl _ \<Rightarrow> accepted step ops s | Inr t \<Rightarrow> a # accepted step ops t)"

lemma run_all_append: "run_all step (xs @ ys) s = run_all step ys (run_all step xs s)"
  by (induction xs arbitrary: s) (auto split: sum.splits)

locale transactional =
  fixes step :: "'op \<Rightarrow> 's \<Rightarrow> 'err + 's"
    and ok :: "'op \<Rightarrow> bool"
    and inv :: "'s \<Rightarrow> bool"
  assumes step_inv: "inv s \<Longrightarrow> ok a \<Longrightarrow> step a s = Inr t \<Longrightarrow> inv t"
begin

lemma run_inv: "inv s \<Longrightarrow> list_all ok ops \<Longrightarrow> inv (run_all step ops s)"
  by (induction ops arbitrary: s) (auto split: sum.splits intro: step_inv)

end

text \<open>
  A run in which every accepted operation meets a condition on the state it finds; what a step
  keeps under the condition, such a run keeps.
\<close>

fun guarded_run :: "('op \<Rightarrow> 's \<Rightarrow> 'err + 's) \<Rightarrow> ('op \<Rightarrow> 's \<Rightarrow> bool) \<Rightarrow> 'op list \<Rightarrow> 's \<Rightarrow> bool" where
  "guarded_run step guard [] s = True"
| "guarded_run step guard (a # ops) s =
     (case step a s of Inl _ \<Rightarrow> guarded_run step guard ops s
      | Inr t \<Rightarrow> guard a s \<and> guarded_run step guard ops t)"

locale guarded_step =
  fixes step :: "'op \<Rightarrow> 's \<Rightarrow> 'err + 's"
    and guard :: "'op \<Rightarrow> 's \<Rightarrow> bool"
    and inv :: "'s \<Rightarrow> bool"
  assumes step_guarded: "inv s \<Longrightarrow> guard a s \<Longrightarrow> step a s = Inr t \<Longrightarrow> inv t"
begin

lemma run_guarded: "inv s \<Longrightarrow> guarded_run step guard ops s \<Longrightarrow> inv (run_all step ops s)"
  by (induction ops arbitrary: s) (auto split: sum.splits intro: step_guarded)

end

text \<open>A counter that no successful instruction decreases.\<close>

locale monotone_counter = transactional +
  fixes count :: "'s \<Rightarrow> nat"
  assumes step_count: "inv s \<Longrightarrow> ok a \<Longrightarrow> step a s = Inr t \<Longrightarrow> count s \<le> count t"
begin

lemma run_count: "inv s \<Longrightarrow> list_all ok ops \<Longrightarrow> count s \<le> count (run_all step ops s)"
proof (induction ops arbitrary: s)
  case Nil
  then show ?case by simp
next
  case (Cons a ops)
  show ?case
  proof (cases "step a s")
    case (Inl e)
    with Cons show ?thesis by simp
  next
    case (Inr t)
    then have "inv t" and "count s \<le> count t"
      using Cons.prems by (auto intro: step_inv step_count)
    with Cons.IH [of t] Cons.prems Inr show ?thesis by simp
  qed
qed

end

text \<open>A counter that every successful instruction increases by exactly one.\<close>

locale exact_counter = transactional +
  fixes count :: "'s \<Rightarrow> nat"
  assumes step_Suc: "inv s \<Longrightarrow> ok a \<Longrightarrow> step a s = Inr t \<Longrightarrow> count t = Suc (count s)"
begin

sublocale monotone_counter step ok inv count
  by unfold_locales (simp add: step_Suc)

lemma run_exact:
  "inv s \<Longrightarrow> list_all ok ops \<Longrightarrow>
     count (run_all step ops s) = count s + length (accepted step ops s)"
proof (induction ops arbitrary: s)
  case Nil
  then show ?case by simp
next
  case (Cons a ops)
  show ?case
  proof (cases "step a s")
    case (Inl e)
    with Cons show ?thesis by simp
  next
    case (Inr t)
    with Cons.prems have "inv t" and "count t = Suc (count s)"
      by (auto intro: step_inv step_Suc)
    with Cons.IH [of t] Cons.prems Inr show ?thesis by simp
  qed
qed

end

subsection \<open>Canonical self-delimiting encodings\<close>

locale codec =
  fixes enc :: "'a \<Rightarrow> bytes"
    and dec :: "bytes \<Rightarrow> ('a \<times> bytes) option"
    and wf :: "'a \<Rightarrow> bool"
  assumes dec_enc: "wf x \<Longrightarrow> dec (enc x @ r) = Some (x, r)"
    and dec_canonical: "dec bs = Some (x, r) \<Longrightarrow> wf x \<and> bs = enc x @ r"
begin

lemma enc_prefix_free: "wf x \<Longrightarrow> wf y \<Longrightarrow> enc x @ r = enc y @ s \<Longrightarrow> x = y \<and> r = s"
  by (metis dec_enc option.inject prod.inject)

lemma enc_inject: "wf x \<Longrightarrow> wf y \<Longrightarrow> enc x = enc y \<Longrightarrow> x = y"
  using enc_prefix_free [of x y "[]" "[]"] by simp

lemma dec_enc_nil: "wf x \<Longrightarrow> dec (enc x) = Some (x, [])"
  using dec_enc [of x "[]"] by simp

end

definition dec_pair :: "(bytes \<Rightarrow> ('a \<times> bytes) option) \<Rightarrow> (bytes \<Rightarrow> ('b \<times> bytes) option) \<Rightarrow>
    bytes \<Rightarrow> (('a \<times> 'b) \<times> bytes) option" where
  "dec_pair da db bs = (case da bs of None \<Rightarrow> None
     | Some (a, r) \<Rightarrow> (case db r of None \<Rightarrow> None | Some (b, r') \<Rightarrow> Some ((a, b), r')))"

definition enc_pair :: "('a \<Rightarrow> bytes) \<Rightarrow> ('b \<Rightarrow> bytes) \<Rightarrow> 'a \<times> 'b \<Rightarrow> bytes" where
  "enc_pair ea eb p = ea (fst p) @ eb (snd p)"

definition wf_pair :: "('a \<Rightarrow> bool) \<Rightarrow> ('b \<Rightarrow> bool) \<Rightarrow> 'a \<times> 'b \<Rightarrow> bool" where
  "wf_pair wa wb p \<longleftrightarrow> wa (fst p) \<and> wb (snd p)"

locale codec_pair = first: codec ea da wa + second: codec eb db wb
  for ea :: "'a \<Rightarrow> bytes" and da wa and eb :: "'b \<Rightarrow> bytes" and db wb
begin

sublocale both: codec "enc_pair ea eb" "dec_pair da db" "wf_pair wa wb"
proof unfold_locales
  fix p :: "'a \<times> 'b" and r
  assume "wf_pair wa wb p"
  then show "dec_pair da db (enc_pair ea eb p @ r) = Some (p, r)"
    by (simp add: dec_pair_def enc_pair_def wf_pair_def first.dec_enc second.dec_enc)
next
  fix bs r and p :: "'a \<times> 'b"
  assume "dec_pair da db bs = Some (p, r)"
  then show "wf_pair wa wb p \<and> bs = enc_pair ea eb p @ r"
    by (auto simp: dec_pair_def enc_pair_def wf_pair_def split: option.splits
        dest!: first.dec_canonical second.dec_canonical)
qed

end

fun dec_seq :: "(bytes \<Rightarrow> ('a \<times> bytes) option) \<Rightarrow> nat \<Rightarrow> bytes \<Rightarrow> ('a list \<times> bytes) option" where
  "dec_seq d 0 bs = Some ([], bs)"
| "dec_seq d (Suc n) bs = (case d bs of None \<Rightarrow> None
     | Some (x, r) \<Rightarrow> (case dec_seq d n r of None \<Rightarrow> None | Some (xs, r') \<Rightarrow> Some (x # xs, r')))"

text \<open>\<open>Vec<T>\<close>: the number of elements as a little-endian \<open>u32\<close>, then the elements.\<close>

definition enc_vec :: "('a \<Rightarrow> bytes) \<Rightarrow> 'a list \<Rightarrow> bytes" where
  "enc_vec e xs = le_bytes 4 (of_nat (length xs) :: u32) @ concat (map e xs)"

definition dec_vec :: "(bytes \<Rightarrow> ('a \<times> bytes) option) \<Rightarrow> bytes \<Rightarrow> ('a list \<times> bytes) option" where
  "dec_vec d bs = (if length bs < 4 then None
     else dec_seq d (unat (le_word (take 4 bs) :: u32)) (drop 4 bs))"

definition wf_vec :: "('a \<Rightarrow> bool) \<Rightarrow> 'a list \<Rightarrow> bool" where
  "wf_vec w xs \<longleftrightarrow> list_all w xs \<and> length xs < 2 ^ 32"

context codec
begin

lemma dec_seq_concat:
  "list_all wf xs \<Longrightarrow> dec_seq dec (length xs) (concat (map enc xs) @ r) = Some (xs, r)"
  by (induction xs) (simp_all add: dec_enc)

lemma dec_seq_canonical:
  "dec_seq dec n bs = Some (xs, r) \<Longrightarrow> list_all wf xs \<and> length xs = n \<and> bs = concat (map enc xs) @ r"
proof (induction n arbitrary: bs xs)
  case 0
  then show ?case by simp
next
  case (Suc n)
  then show ?case
    by (fastforce split: option.splits dest!: dec_canonical)
qed

end

locale vec_codec = elem: codec enc dec wf
  for enc :: "'a \<Rightarrow> bytes" and dec wf
begin

sublocale vec: codec "enc_vec enc" "dec_vec dec" "wf_vec wf"
proof unfold_locales
  fix xs r
  assume "wf_vec wf xs"
  moreover from this have "unat (of_nat (length xs) :: u32) = length xs"
    by (simp add: wf_vec_def unat_of_nat)
  ultimately show "dec_vec dec (enc_vec enc xs @ r) = Some (xs, r)"
    by (simp add: dec_vec_def enc_vec_def wf_vec_def le_word_le_bytes elem.dec_seq_concat)
next
  fix bs xs r
  assume a: "dec_vec dec bs = Some (xs, r)"
  let ?n = "le_word (take 4 bs) :: u32"
  from a have len: "4 \<le> length bs" and d: "dec_seq dec (unat ?n) (drop 4 bs) = Some (xs, r)"
    by (auto simp: dec_vec_def split: if_splits)
  from elem.dec_seq_canonical [OF d] have xs: "list_all wf xs" "length xs = unat ?n"
    "drop 4 bs = concat (map enc xs) @ r" by auto
  have "le_bytes 4 ?n = take 4 bs"
    using le_bytes_le_word [of "take 4 bs", where 'a = 32] len by simp
  with xs show "wf_vec wf xs \<and> bs = enc_vec enc xs @ r"
    using unat_lt_length [of ?n]
    by (simp add: wf_vec_def enc_vec_def) (metis append_take_drop_id)
qed

end

end
