(* ===== verification/Errors.thy ===== *)
theory Errors
  imports Interfaces
begin

text \<open>
  The errors of the two programs (\<open>core/src/error.rs\<close>, \<open>settlement_core/src/error.rs\<close>) with
  the numeric codes they surface as, and the runtime's \<open>ProgramError\<close> that both convert into.
  \<open>ProgramError\<close> is the Solana SDK's enum; its constructors carry the prefix \<open>PE\<close>, the
  settlement program's the prefix \<open>SE\<close>, the NCN program's keep their names.
  \<open>PE_Panic\<close> is not one of the SDK's: it stands for a Rust panic, which aborts the instruction as
  an error does.
\<close>

subsection \<open>The NCN program's errors\<close>

datatype (plugins only:) ncn_error =
  NoValidBallots | DenominatorIsZero | ArithmeticOverflow | ArithmeticUnderflowError
  | ArithmeticFloorError | ModuloOverflow | NewPreciseNumberError | CastToImpreciseNumberError
  | CastToU64Error | CastToU128Error | NCNOperatorOptInInactive | G1PointAdditionError
  | G2PointAdditionError | IncorrectWeightTableAdmin | DuplicateMintsInTable | NoMintsInTable
  | TableNotInitialized | RegistryNotInitialized | NoVaultsInRegistry | VaultNotInRegistry
  | MintInTable | TooManyMintsForTable | TooManyVaultsForRegistry
  | WeightTableAlreadyInitialized | CannotCreateFutureWeightTables | WeightMintsDoNotMatchLength
  | WeightMintsDoNotMatchMintHash | InvalidMintForWeightTable | ConfigMintsNotUpdated
  | ConfigMintListFull | VaultRegistryListFull | OperatorRegistryListFull
  | VaultRegistryVaultLocked | VaultIndexAlreadyInUse | MintEntryNotFound | FeeCapExceeded
  | TotalFeesCannotBeZero | DefaultProtocolWallet | DefaultNcnWallet | IncorrectNcnAdmin
  | IncorrectNcn | IncorrectFeeAdmin | WeightTableNotFinalized | WeightNotFound | NoOperators
  | VaultOperatorDelegationFinalized | OperatorSnapshotIsNotActive
  | OperatorSnapshotAlreadyTaked | OperatorHasNoMinimumStake | OperatorSnapshotOutdated
  | SnapshotAlreadyFinalized | TooManyVaultOperatorDelegations
  | DuplicateVaultOperatorDelegation | DuplicateVoteCast | CannotVoteWithZeroStake
  | OperatorAlreadyVoted | OperatorVotesFull | BallotTallyFull | BallotTallyNotFoundFull
  | BallotTallyNotEmpty | ConsensusAlreadyReached | ConsensusNotReached | SnapshotNotFinalized
  | VotingNotValid | TieBreakerAdminInvalid | VotingNotFinalized | TieBreakerNotInPriorVotes
  | InvalidMerkleProof | InvalidOperatorVoter | InvalidNcnFeeGroup | InvalidBaseFeeGroup
  | DestinationMismatch | FeeNotActive | WeightNotSet | InvalidEpochsBeforeStall
  | InvalidEpochsBeforeClose | InvalidSlotsAfterConsensus | VaultNeedsUpdate
  | InvalidAccountStatus | AccountAlreadyInitialized | BadBallot | OperatorIsNotInSnapshot
  | InvalidAccountToCloseDiscriminator | CannotCloseAccount | CannotCloseAccountAlreadyClosed
  | CannotCloseAccountNotEnoughEpochs | CannotCloseAccountNoReceiverProvided
  | CannotCloseAccountNoEnoughAccounts | CannotCloseEpochStateAccount | InvalidNCNFeeWallet
  | EpochIsClosingDown | MarkerExists | SecretKeyError | AltBN128AddError | AltBN128MulError
  | AltBN128PairingError | HashToCurveError | BLSSigningError | BLSVerificationError
  | SerializationError | G1PointCompressionError | G1PointDecompressionError
  | G2PointCompressionError | G2PointDecompressionError | InvalidInputLength | InvalidG1Pubkey
  | InvalidMinimumStakeWeight | MissingRequiredSignature | SignatureVerificationFailed
  | NoNonSignersAggregatedPubkey | QuorumNotMet | OperatorNcnConnectionNotActive
  | NCNOperatorAccountDosentExist | NoOperatorsRegistered | InvalidOperatorCount
  | InvalidConsensusThresholdBps | SnapshotGenerationMismatch | InsufficientStakeBps
  | CannotRemoveOperator | InvalidWeightBps

primrec ncn_error_code :: "ncn_error \<Rightarrow> u32" where
  "ncn_error_code NoValidBallots = 0"
| "ncn_error_code DenominatorIsZero = 0x2100"
| "ncn_error_code ArithmeticOverflow = 0x2101"
| "ncn_error_code ArithmeticUnderflowError = 0x2102"
| "ncn_error_code ArithmeticFloorError = 0x2103"
| "ncn_error_code ModuloOverflow = 0x2104"
| "ncn_error_code NewPreciseNumberError = 0x2105"
| "ncn_error_code CastToImpreciseNumberError = 0x2106"
| "ncn_error_code CastToU64Error = 0x2107"
| "ncn_error_code CastToU128Error = 0x2108"
| "ncn_error_code NCNOperatorOptInInactive = 0x2109"
| "ncn_error_code G1PointAdditionError = 0x210a"
| "ncn_error_code G2PointAdditionError = 0x210b"
| "ncn_error_code IncorrectWeightTableAdmin = 0x2200"
| "ncn_error_code DuplicateMintsInTable = 0x2201"
| "ncn_error_code NoMintsInTable = 0x2202"
| "ncn_error_code TableNotInitialized = 0x2203"
| "ncn_error_code RegistryNotInitialized = 0x2204"
| "ncn_error_code NoVaultsInRegistry = 0x2205"
| "ncn_error_code VaultNotInRegistry = 0x2206"
| "ncn_error_code MintInTable = 0x2207"
| "ncn_error_code TooManyMintsForTable = 0x2208"
| "ncn_error_code TooManyVaultsForRegistry = 0x2209"
| "ncn_error_code WeightTableAlreadyInitialized = 0x220a"
| "ncn_error_code CannotCreateFutureWeightTables = 0x220b"
| "ncn_error_code WeightMintsDoNotMatchLength = 0x220c"
| "ncn_error_code WeightMintsDoNotMatchMintHash = 0x220d"
| "ncn_error_code InvalidMintForWeightTable = 0x220e"
| "ncn_error_code ConfigMintsNotUpdated = 0x220f"
| "ncn_error_code ConfigMintListFull = 0x2210"
| "ncn_error_code VaultRegistryListFull = 0x2211"
| "ncn_error_code OperatorRegistryListFull = 0x2212"
| "ncn_error_code VaultRegistryVaultLocked = 0x2213"
| "ncn_error_code VaultIndexAlreadyInUse = 0x2214"
| "ncn_error_code MintEntryNotFound = 0x2215"
| "ncn_error_code FeeCapExceeded = 0x2216"
| "ncn_error_code TotalFeesCannotBeZero = 0x2217"
| "ncn_error_code DefaultProtocolWallet = 0x2218"
| "ncn_error_code DefaultNcnWallet = 0x2219"
| "ncn_error_code IncorrectNcnAdmin = 0x221a"
| "ncn_error_code IncorrectNcn = 0x221b"
| "ncn_error_code IncorrectFeeAdmin = 0x221c"
| "ncn_error_code WeightTableNotFinalized = 0x221d"
| "ncn_error_code WeightNotFound = 0x221e"
| "ncn_error_code NoOperators = 0x221f"
| "ncn_error_code VaultOperatorDelegationFinalized = 0x2220"
| "ncn_error_code OperatorSnapshotIsNotActive = 0x2221"
| "ncn_error_code OperatorSnapshotAlreadyTaked = 0x2222"
| "ncn_error_code OperatorHasNoMinimumStake = 0x2223"
| "ncn_error_code OperatorSnapshotOutdated = 0x2224"
| "ncn_error_code SnapshotAlreadyFinalized = 0x2225"
| "ncn_error_code TooManyVaultOperatorDelegations = 0x2226"
| "ncn_error_code DuplicateVaultOperatorDelegation = 0x2227"
| "ncn_error_code DuplicateVoteCast = 0x2228"
| "ncn_error_code CannotVoteWithZeroStake = 0x2229"
| "ncn_error_code OperatorAlreadyVoted = 0x222a"
| "ncn_error_code OperatorVotesFull = 0x222b"
| "ncn_error_code BallotTallyFull = 0x222c"
| "ncn_error_code BallotTallyNotFoundFull = 0x222d"
| "ncn_error_code BallotTallyNotEmpty = 0x222e"
| "ncn_error_code ConsensusAlreadyReached = 0x222f"
| "ncn_error_code ConsensusNotReached = 0x2230"
| "ncn_error_code SnapshotNotFinalized = 0x2231"
| "ncn_error_code VotingNotValid = 0x2232"
| "ncn_error_code TieBreakerAdminInvalid = 0x2233"
| "ncn_error_code VotingNotFinalized = 0x2234"
| "ncn_error_code TieBreakerNotInPriorVotes = 0x2235"
| "ncn_error_code InvalidMerkleProof = 0x2236"
| "ncn_error_code InvalidOperatorVoter = 0x2237"
| "ncn_error_code InvalidNcnFeeGroup = 0x2238"
| "ncn_error_code InvalidBaseFeeGroup = 0x2239"
| "ncn_error_code DestinationMismatch = 0x223a"
| "ncn_error_code FeeNotActive = 0x223b"
| "ncn_error_code WeightNotSet = 0x223c"
| "ncn_error_code InvalidEpochsBeforeStall = 0x223d"
| "ncn_error_code InvalidEpochsBeforeClose = 0x223e"
| "ncn_error_code InvalidSlotsAfterConsensus = 0x223f"
| "ncn_error_code VaultNeedsUpdate = 0x2240"
| "ncn_error_code InvalidAccountStatus = 0x2241"
| "ncn_error_code AccountAlreadyInitialized = 0x2242"
| "ncn_error_code BadBallot = 0x2243"
| "ncn_error_code OperatorIsNotInSnapshot = 0x2244"
| "ncn_error_code InvalidAccountToCloseDiscriminator = 0x2245"
| "ncn_error_code CannotCloseAccount = 0x2246"
| "ncn_error_code CannotCloseAccountAlreadyClosed = 0x2247"
| "ncn_error_code CannotCloseAccountNotEnoughEpochs = 0x2248"
| "ncn_error_code CannotCloseAccountNoReceiverProvided = 0x2249"
| "ncn_error_code CannotCloseAccountNoEnoughAccounts = 0x224a"
| "ncn_error_code CannotCloseEpochStateAccount = 0x224b"
| "ncn_error_code InvalidNCNFeeWallet = 0x224c"
| "ncn_error_code EpochIsClosingDown = 0x224d"
| "ncn_error_code MarkerExists = 0x224e"
| "ncn_error_code SecretKeyError = 0x224f"
| "ncn_error_code AltBN128AddError = 0x2250"
| "ncn_error_code AltBN128MulError = 0x2251"
| "ncn_error_code AltBN128PairingError = 0x2252"
| "ncn_error_code HashToCurveError = 0x2253"
| "ncn_error_code BLSSigningError = 0x2254"
| "ncn_error_code BLSVerificationError = 0x2255"
| "ncn_error_code SerializationError = 0x2256"
| "ncn_error_code G1PointCompressionError = 0x2257"
| "ncn_error_code G1PointDecompressionError = 0x2258"
| "ncn_error_code G2PointCompressionError = 0x2259"
| "ncn_error_code G2PointDecompressionError = 0x225a"
| "ncn_error_code InvalidInputLength = 0x225b"
| "ncn_error_code InvalidG1Pubkey = 0x225c"
| "ncn_error_code InvalidMinimumStakeWeight = 0x225d"
| "ncn_error_code MissingRequiredSignature = 0x225e"
| "ncn_error_code SignatureVerificationFailed = 0x225f"
| "ncn_error_code NoNonSignersAggregatedPubkey = 0x2260"
| "ncn_error_code QuorumNotMet = 0x2261"
| "ncn_error_code OperatorNcnConnectionNotActive = 0x2262"
| "ncn_error_code NCNOperatorAccountDosentExist = 0x2263"
| "ncn_error_code NoOperatorsRegistered = 0x2264"
| "ncn_error_code InvalidOperatorCount = 0x2265"
| "ncn_error_code InvalidConsensusThresholdBps = 0x2266"
| "ncn_error_code SnapshotGenerationMismatch = 0x2267"
| "ncn_error_code InsufficientStakeBps = 0x2268"
| "ncn_error_code CannotRemoveOperator = 0x2269"
| "ncn_error_code InvalidWeightBps = 0x226a"

definition all_ncn_errors :: "ncn_error list" where
  "all_ncn_errors = [
    NoValidBallots, DenominatorIsZero, ArithmeticOverflow, ArithmeticUnderflowError
    , ArithmeticFloorError, ModuloOverflow, NewPreciseNumberError, CastToImpreciseNumberError
    , CastToU64Error, CastToU128Error, NCNOperatorOptInInactive, G1PointAdditionError
    , G2PointAdditionError, IncorrectWeightTableAdmin, DuplicateMintsInTable, NoMintsInTable
    , TableNotInitialized, RegistryNotInitialized, NoVaultsInRegistry, VaultNotInRegistry
    , MintInTable, TooManyMintsForTable, TooManyVaultsForRegistry, WeightTableAlreadyInitialized
    , CannotCreateFutureWeightTables, WeightMintsDoNotMatchLength, WeightMintsDoNotMatchMintHash
    , InvalidMintForWeightTable, ConfigMintsNotUpdated, ConfigMintListFull
    , VaultRegistryListFull, OperatorRegistryListFull, VaultRegistryVaultLocked
    , VaultIndexAlreadyInUse, MintEntryNotFound, FeeCapExceeded, TotalFeesCannotBeZero
    , DefaultProtocolWallet, DefaultNcnWallet, IncorrectNcnAdmin, IncorrectNcn
    , IncorrectFeeAdmin, WeightTableNotFinalized, WeightNotFound, NoOperators
    , VaultOperatorDelegationFinalized, OperatorSnapshotIsNotActive
    , OperatorSnapshotAlreadyTaked, OperatorHasNoMinimumStake, OperatorSnapshotOutdated
    , SnapshotAlreadyFinalized, TooManyVaultOperatorDelegations
    , DuplicateVaultOperatorDelegation, DuplicateVoteCast, CannotVoteWithZeroStake
    , OperatorAlreadyVoted, OperatorVotesFull, BallotTallyFull, BallotTallyNotFoundFull
    , BallotTallyNotEmpty, ConsensusAlreadyReached, ConsensusNotReached, SnapshotNotFinalized
    , VotingNotValid, TieBreakerAdminInvalid, VotingNotFinalized, TieBreakerNotInPriorVotes
    , InvalidMerkleProof, InvalidOperatorVoter, InvalidNcnFeeGroup, InvalidBaseFeeGroup
    , DestinationMismatch, FeeNotActive, WeightNotSet, InvalidEpochsBeforeStall
    , InvalidEpochsBeforeClose, InvalidSlotsAfterConsensus, VaultNeedsUpdate
    , InvalidAccountStatus, AccountAlreadyInitialized, BadBallot, OperatorIsNotInSnapshot
    , InvalidAccountToCloseDiscriminator, CannotCloseAccount, CannotCloseAccountAlreadyClosed
    , CannotCloseAccountNotEnoughEpochs, CannotCloseAccountNoReceiverProvided
    , CannotCloseAccountNoEnoughAccounts, CannotCloseEpochStateAccount, InvalidNCNFeeWallet
    , EpochIsClosingDown, MarkerExists, SecretKeyError, AltBN128AddError, AltBN128MulError
    , AltBN128PairingError, HashToCurveError, BLSSigningError, BLSVerificationError
    , SerializationError, G1PointCompressionError, G1PointDecompressionError
    , G2PointCompressionError, G2PointDecompressionError, InvalidInputLength, InvalidG1Pubkey
    , InvalidMinimumStakeWeight, MissingRequiredSignature, SignatureVerificationFailed
    , NoNonSignersAggregatedPubkey, QuorumNotMet, OperatorNcnConnectionNotActive
    , NCNOperatorAccountDosentExist, NoOperatorsRegistered, InvalidOperatorCount
    , InvalidConsensusThresholdBps, SnapshotGenerationMismatch, InsufficientStakeBps
    , CannotRemoveOperator, InvalidWeightBps] "

text \<open>The error a code stands for: the first enumerator with that code.\<close>

definition ncn_error_of_code :: "u32 \<Rightarrow> ncn_error option" where
  "ncn_error_of_code c = List.find (\<lambda>e. ncn_error_code e = c) all_ncn_errors"

subsection \<open>The settlement program's errors\<close>

datatype settlement_error =
  SE_InvalidTransitionIndex | SE_DigestMismatch | SE_InvalidStatePda | SE_MissingStore
  | SE_MultipleStore | SE_BufferHashMismatch | SE_EventTooLarge | SE_MissingBufferAccount
  | SE_BufferKeyMismatch | SE_InvalidBufferBounds | SE_BufferNotSettled | SE_InvalidBufferPayer
  | SE_MalformedStoryMeta | SE_SerializationError | SE_ArithmeticOverflow
  | SE_EventAuthorityNotSigner

primrec settlement_error_code :: "settlement_error \<Rightarrow> u32" where
  "settlement_error_code SE_InvalidTransitionIndex = 0x9100"
| "settlement_error_code SE_DigestMismatch = 0x9101"
| "settlement_error_code SE_InvalidStatePda = 0x9102"
| "settlement_error_code SE_MissingStore = 0x9103"
| "settlement_error_code SE_MultipleStore = 0x9104"
| "settlement_error_code SE_BufferHashMismatch = 0x9105"
| "settlement_error_code SE_EventTooLarge = 0x9106"
| "settlement_error_code SE_MissingBufferAccount = 0x9107"
| "settlement_error_code SE_BufferKeyMismatch = 0x9108"
| "settlement_error_code SE_InvalidBufferBounds = 0x9109"
| "settlement_error_code SE_BufferNotSettled = 0x910a"
| "settlement_error_code SE_InvalidBufferPayer = 0x910b"
| "settlement_error_code SE_MalformedStoryMeta = 0x910c"
| "settlement_error_code SE_SerializationError = 0x910d"
| "settlement_error_code SE_ArithmeticOverflow = 0x910e"
| "settlement_error_code SE_EventAuthorityNotSigner = 0x910f"

subsection \<open>The runtime's errors\<close>

datatype program_error =
  PE_Custom u32 | PE_InvalidArgument | PE_InvalidInstructionData | PE_InvalidAccountData
  | PE_AccountDataTooSmall | PE_InsufficientFunds | PE_IncorrectProgramId
  | PE_MissingRequiredSignature | PE_AccountAlreadyInitialized | PE_UninitializedAccount
  | PE_NotEnoughAccountKeys | PE_AccountBorrowFailed | PE_MaxSeedLengthExceeded | PE_InvalidSeeds
  | PE_BorshIoError | PE_AccountNotRentExempt | PE_UnsupportedSysvar | PE_IllegalOwner
  | PE_MaxAccountsDataAllocationsExceeded | PE_InvalidRealloc
  | PE_MaxInstructionTraceLengthExceeded | PE_BuiltinProgramsMustConsumeComputeUnits
  | PE_InvalidAccountOwner | PE_ArithmeticOverflow | PE_Immutable | PE_IncorrectAuthority
  | PE_Panic

definition from_ncn :: "ncn_error \<Rightarrow> program_error" where
  "from_ncn e = PE_Custom (ncn_error_code e)"

definition from_settlement :: "settlement_error \<Rightarrow> program_error" where
  "from_settlement e = PE_Custom (settlement_error_code e)"

text \<open>The question-mark operator where it converts the core's error into a program error.\<close>

definition lift_ncn :: "ncn_error + 'a \<Rightarrow> program_error + 'a" where
  "lift_ncn m = map_err from_ncn m"

definition lift_settlement :: "settlement_error + 'a \<Rightarrow> program_error + 'a" where
  "lift_settlement m = map_err from_settlement m"

lemma lift_ncn_simps [simp]:
  "lift_ncn (Inl e) = Inl (from_ncn e)"
  "lift_ncn (Inr x) = Inr x"
  by (simp_all add: lift_ncn_def)

lemma lift_ncn_eq_Inr [simp]: "lift_ncn m = Inr x \<longleftrightarrow> m = Inr x"
  by (cases m) simp_all

lemma lift_settlement_simps [simp]:
  "lift_settlement (Inl e) = Inl (from_settlement e)"
  "lift_settlement (Inr x) = Inr x"
  by (simp_all add: lift_settlement_def)

lemma lift_settlement_eq_Inr [simp]: "lift_settlement m = Inr x \<longleftrightarrow> m = Inr x"
  by (cases m) simp_all

subsection \<open>Codes identify errors\<close>

lemma ncn_error_of_code_inverse: "ncn_error_of_code (ncn_error_code e) = Some e"
  by (cases e) (simp_all add: ncn_error_of_code_def all_ncn_errors_def)

text \<open>Equality of errors is decided on their codes.\<close>

lemma ncn_error_code_inject [simp]: "ncn_error_code a = ncn_error_code b \<longleftrightarrow> a = b"
  by (metis ncn_error_of_code_inverse option.inject)

instantiation ncn_error :: equal
begin

definition equal_ncn_error :: "ncn_error \<Rightarrow> ncn_error \<Rightarrow> bool" where
  "equal_ncn_error a b \<longleftrightarrow> ncn_error_code a = ncn_error_code b"

instance
  by standard (simp add: equal_ncn_error_def)

end

lemma settlement_error_code_inject [simp]:
  "settlement_error_code a = settlement_error_code b \<longleftrightarrow> a = b"
  by (cases a; cases b) simp_all

lemma from_ncn_inject [simp]: "from_ncn a = from_ncn b \<longleftrightarrow> a = b"
  by (simp add: from_ncn_def)

lemma from_settlement_inject [simp]: "from_settlement a = from_settlement b \<longleftrightarrow> a = b"
  by (simp add: from_settlement_def)

lemma ncn_error_code_bound: "ncn_error_code e < 0x2300"
  by (cases e) simp_all

lemma settlement_error_code_bound: "0x9100 \<le> settlement_error_code e"
  by (cases e) simp_all

lemma from_ncn_neq [simp]:
  "from_ncn e \<noteq> PE_InvalidAccountData" "from_ncn e \<noteq> PE_MissingRequiredSignature"
  "from_ncn e \<noteq> PE_NotEnoughAccountKeys" "from_ncn e \<noteq> PE_InvalidSeeds"
  "from_ncn e \<noteq> PE_InvalidAccountOwner"
  by (simp_all add: from_ncn_def)

text \<open>
  Distinct errors of either program surface as distinct program errors, and no error of the
  settlement program can be mistaken for one of the NCN program.
\<close>

theorem error_codes_disjoint:
  "inj from_ncn \<and> inj from_settlement \<and> range from_ncn \<inter> range from_settlement = {}"
proof -
  have "from_ncn e \<noteq> from_settlement f" for e f
    using ncn_error_code_bound [of e] settlement_error_code_bound [of f]
    by (auto simp: from_ncn_def from_settlement_def word_less_nat_alt word_le_nat_alt)
  then show ?thesis by (auto simp: inj_def)
qed

end
