(* ===== verification/Borsh.thy ===== *)
theory Borsh
  imports Interfaces Errors
begin

text \<open>
  The Borsh byte form that the derived \<open>BorshSerialize\<close> and \<open>BorshDeserialize\<close> of the wire types
  have: fixed-width integers little-endian, byte arrays as they are, a vector as its \<open>u32\<close>
  length and its elements, an option and an enum as a one-byte tag and the fields, a struct as
  its fields in order.  Decoders return the rest of the input; \<open>try_from_slice\<close> requires that
  nothing is left.
\<close>

named_theorems codec_rules \<open>the byte forms of types from those of their parts\<close>

subsection \<open>Integers, arrays, bytes\<close>

definition dec_le :: "nat \<Rightarrow> bytes \<Rightarrow> ('a::len word \<times> bytes) option" where
  "dec_le n bs = (if length bs < n then None else Some (le_word (take n bs), drop n bs))"

definition dec_be :: "nat \<Rightarrow> bytes \<Rightarrow> ('a::len word \<times> bytes) option" where
  "dec_be n bs = (if length bs < n then None else Some (be_word (take n bs), drop n bs))"

definition enc_byte :: "u8 \<Rightarrow> bytes" where "enc_byte b = [b]"

fun dec_byte :: "bytes \<Rightarrow> (u8 \<times> bytes) option" where
  "dec_byte [] = None"
| "dec_byte (b # bs) = Some (b, bs)"

abbreviation any :: "'a \<Rightarrow> bool" where "any \<equiv> \<lambda>_. True"

lemma le_codec:
  assumes "LENGTH('a::len) = 8 * n"
  shows "codec (le_bytes n :: 'a word \<Rightarrow> bytes) (dec_le n) any"
proof
  fix w :: "'a word" and r
  show "dec_le n (le_bytes n w @ r) = Some (w, r)"
    using assms by (simp add: dec_le_def le_word_le_bytes)
next
  fix bs r and w :: "'a word"
  assume "dec_le n bs = Some (w, r)"
  then have "n \<le> length bs" "w = le_word (take n bs)" "r = drop n bs"
    by (auto simp: dec_le_def split: if_splits)
  moreover from this have "le_bytes n w = take n bs"
    using le_bytes_le_word [of "take n bs", where 'a = 'a] assms by simp
  ultimately show "True \<and> bs = le_bytes n w @ r" by simp
qed

lemma be_codec:
  assumes "LENGTH('a::len) = 8 * n"
  shows "codec (be_bytes n :: 'a word \<Rightarrow> bytes) (dec_be n) any"
proof
  fix w :: "'a word" and r
  show "dec_be n (be_bytes n w @ r) = Some (w, r)"
    using assms by (simp add: dec_be_def be_word_be_bytes)
next
  fix bs r and w :: "'a word"
  assume "dec_be n bs = Some (w, r)"
  then have "n \<le> length bs" "w = be_word (take n bs)" "r = drop n bs"
    by (auto simp: dec_be_def split: if_splits)
  moreover from this have "be_bytes n w = take n bs"
    using be_bytes_be_word [of "take n bs", where 'a = 'a] assms by simp
  ultimately show "True \<and> bs = be_bytes n w @ r" by simp
qed

lemma word_codecs [codec_rules]:
  "codec (le_bytes 2 :: u16 \<Rightarrow> bytes) (dec_le 2) any" "codec (le_bytes 4 :: u32 \<Rightarrow> bytes) (dec_le 4) any"
  "codec (le_bytes 8 :: u64 \<Rightarrow> bytes) (dec_le 8) any" "codec (le_bytes 16 :: u128 \<Rightarrow> bytes) (dec_le 16) any"
  "codec (be_bytes 4 :: u32 \<Rightarrow> bytes) (dec_be 4) any" "codec (be_bytes 8 :: bytes8 \<Rightarrow> bytes) (dec_be 8) any"
  "codec (be_bytes 32 :: bytes32 \<Rightarrow> bytes) (dec_be 32) any"
  "codec (be_bytes 64 :: bytes64 \<Rightarrow> bytes) (dec_be 64) any"
  by (simp_all add: le_codec be_codec)

interpretation byte_codec: codec enc_byte dec_byte any
proof
  fix b r
  show "dec_byte (enc_byte b @ r) = Some (b, r)" by (simp add: enc_byte_def)
next
  fix bs b r
  assume "dec_byte bs = Some (b, r)"
  then show "True \<and> bs = enc_byte b @ r" by (cases bs) (simp_all add: enc_byte_def)
qed

lemmas byte_codec_rule [codec_rules] = byte_codec.codec_axioms

subsection \<open>Structs\<close>

context codec_pair
begin

lemma both_codec: "codec (enc_pair ea eb) (dec_pair da db) (wf_pair wa wb)"
  by (rule both.codec_axioms)

end

context vec_codec
begin

lemma codec_vec: "codec (enc_vec enc) (dec_vec dec) (wf_vec wf)"
  by (rule vec.codec_axioms)

end

lemma pair_codec [codec_rules]:
  "codec ea da wa \<Longrightarrow> codec eb db wb \<Longrightarrow> codec (enc_pair ea eb) (dec_pair da db) (wf_pair wa wb)"
  by (rule codec_pair.both_codec) (rule codec_pair.intro)

lemma vec_codec_rule [codec_rules]:
  "codec e d w \<Longrightarrow> codec (enc_vec e) (dec_vec d) (wf_vec w)"
  by (rule vec_codec.codec_vec) (rule vec_codec.intro)

text \<open>A struct has the byte form of the tuple of its fields.\<close>

definition dec_map :: "('a \<Rightarrow> 'b) \<Rightarrow> (bytes \<Rightarrow> ('a \<times> bytes) option) \<Rightarrow> bytes \<Rightarrow> ('b \<times> bytes) option" where
  "dec_map mk d bs = (case d bs of None \<Rightarrow> None | Some (x, r) \<Rightarrow> Some (mk x, r))"

locale codec_image = fields: codec enc dec wf
  for enc :: "'a \<Rightarrow> bytes" and dec wf +
  fixes mk :: "'a \<Rightarrow> 'b" and un :: "'b \<Rightarrow> 'a"
  assumes mk_un: "mk (un y) = y"
    and un_mk: "un (mk x) = x"
begin

sublocale image: codec "\<lambda>y. enc (un y)" "dec_map mk dec" "\<lambda>y. wf (un y)"
proof unfold_locales
  fix y r
  assume "wf (un y)"
  then show "dec_map mk dec (enc (un y) @ r) = Some (y, r)"
    by (simp add: dec_map_def fields.dec_enc mk_un)
next
  fix bs y r
  assume "dec_map mk dec bs = Some (y, r)"
  then show "wf (un y) \<and> bs = enc (un y) @ r"
    by (auto simp: dec_map_def un_mk split: option.splits dest: fields.dec_canonical)
qed

lemma codec_of_image: "codec (\<lambda>y. enc (un y)) (dec_map mk dec) (\<lambda>y. wf (un y))"
  by (rule image.codec_axioms)

end

lemma image_codec:
  assumes "codec e d w" "\<And>y. mk (un y) = y" "\<And>x. un (mk x) = x"
  shows "codec (\<lambda>y. e (un y)) (dec_map mk d) (\<lambda>y. w (un y))"
  using assms by (intro codec_image.codec_of_image codec_image.intro) (simp_all add: codec_image_axioms_def)

subsection \<open>Options and byte vectors\<close>

fun enc_option :: "('a \<Rightarrow> bytes) \<Rightarrow> 'a option \<Rightarrow> bytes" where
  "enc_option e None = [0]"
| "enc_option e (Some x) = 1 # e x"

definition dec_option :: "(bytes \<Rightarrow> ('a \<times> bytes) option) \<Rightarrow> bytes \<Rightarrow> ('a option \<times> bytes) option" where
  "dec_option d bs = (case bs of [] \<Rightarrow> None
     | flag # r \<Rightarrow> if flag = 0 then Some (None, r) else if flag = 1 then dec_map Some d r else None)"

definition wf_option :: "('a \<Rightarrow> bool) \<Rightarrow> 'a option \<Rightarrow> bool" where
  "wf_option w m = (case m of None \<Rightarrow> True | Some x \<Rightarrow> w x)"

lemma option_codec [codec_rules]:
  assumes "codec e d w"
  shows "codec (enc_option e) (dec_option d) (wf_option w)"
proof
  fix m r
  assume "wf_option w m"
  then show "dec_option d (enc_option e m @ r) = Some (m, r)"
    by (cases m) (simp_all add: dec_option_def wf_option_def dec_map_def codec.dec_enc [OF assms])
next
  fix bs m r
  assume "dec_option d bs = Some (m, r)"
  then show "wf_option w m \<and> bs = enc_option e m @ r"
    by (auto simp: dec_option_def wf_option_def dec_map_def split: list.splits if_splits option.splits
        dest: codec.dec_canonical [OF assms])
qed

abbreviation enc_blob :: "bytes \<Rightarrow> bytes" where "enc_blob \<equiv> enc_vec enc_byte"
abbreviation dec_blob :: "bytes \<Rightarrow> (bytes \<times> bytes) option" where "dec_blob \<equiv> dec_vec dec_byte"
abbreviation wf_blob :: "bytes \<Rightarrow> bool" where "wf_blob \<equiv> wf_vec any"

lemma enc_blob: "enc_blob bs = le_bytes 4 (of_nat (length bs) :: u32) @ bs"
proof -
  have "concat (map enc_byte bs) = bs" by (induction bs) (simp_all add: enc_byte_def)
  then show ?thesis by (simp add: enc_vec_def)
qed

lemma wf_blob_iff [simp]: "wf_blob bs \<longleftrightarrow> length bs < 2 ^ 32"
  by (auto simp: wf_vec_def list_all_iff)

interpretation blob_codec: vec_codec enc_byte dec_byte any
  by (rule vec_codec.intro, rule byte_codec.codec_axioms)

subsection \<open>Whole inputs\<close>

text \<open>\<open>T::try_from_slice\<close>; the decoding error becomes the runtime's \<open>BorshIoError\<close>.\<close>

definition try_from_slice :: "(bytes \<Rightarrow> ('a \<times> bytes) option) \<Rightarrow> bytes \<Rightarrow> program_error + 'a" where
  "try_from_slice d bs = (case d bs of
     Some (x, r) \<Rightarrow> if r = [] then Inr x else Inl PE_BorshIoError
   | None \<Rightarrow> Inl PE_BorshIoError)"

text \<open>\<open>x.try_to_vec()\<close> fails exactly when a length does not fit in a \<open>u32\<close>.\<close>

definition try_to_vec :: "('a \<Rightarrow> bytes) \<Rightarrow> ('a \<Rightarrow> bool) \<Rightarrow> 'e \<Rightarrow> 'a \<Rightarrow> 'e + bytes" where
  "try_to_vec enc well_formed e x = (if well_formed x then Inr (enc x) else Inl e)"

context codec
begin

lemma try_from_slice_iff: "try_from_slice dec bs = Inr x \<longleftrightarrow> wf x \<and> bs = enc x"
  using dec_enc_nil [of x] dec_canonical [of bs x "[]"]
  by (auto simp: try_from_slice_def split: option.splits if_splits)

lemma try_from_slice_error: "try_from_slice dec bs = Inl e \<Longrightarrow> e = PE_BorshIoError"
  by (auto simp: try_from_slice_def split: option.splits if_splits)

end

end
