(* ===== verification/Constants.thy ===== *)
theory Constants
  imports Errors
begin

text \<open>
  The constants of \<open>core/src/constants.rs\<close> and \<open>core/src/discriminators.rs\<close>, and the
  arithmetic facts about the BN254 moduli the code relies on.  The four 64-bit limbs of a
  \<open>UBig\<close> constant are given least significant first, as in the source.
\<close>

definition MAX_FEE_BPS :: u64 where "MAX_FEE_BPS = 10000"
definition MAX_ST_MINTS :: nat where "MAX_ST_MINTS = 16"
definition MAX_VAULTS :: nat where "MAX_VAULTS = 16"
definition MAX_OPERATORS :: nat where "MAX_OPERATORS = 256"
definition MIN_EPOCHS_BEFORE_STALL :: u64 where "MIN_EPOCHS_BEFORE_STALL = 1"
definition MAX_EPOCHS_BEFORE_STALL :: u64 where "MAX_EPOCHS_BEFORE_STALL = 50"
definition MIN_EPOCHS_AFTER_CONSENSUS_BEFORE_CLOSE :: u64 where
  "MIN_EPOCHS_AFTER_CONSENSUS_BEFORE_CLOSE = 10"
definition MAX_EPOCHS_AFTER_CONSENSUS_BEFORE_CLOSE :: u64 where
  "MAX_EPOCHS_AFTER_CONSENSUS_BEFORE_CLOSE = 100"
definition MIN_VALID_SLOTS_AFTER_CONSENSUS :: u64 where "MIN_VALID_SLOTS_AFTER_CONSENSUS = 1000"

text \<open>\<open>DEFAULT_SLOTS_PER_EPOCH\<close> and \<open>MAX_PERMITTED_DATA_INCREASE\<close> are the runtime's.\<close>

definition DEFAULT_SLOTS_PER_EPOCH :: u64 where "DEFAULT_SLOTS_PER_EPOCH = 432000"
definition MAX_PERMITTED_DATA_INCREASE :: nat where "MAX_PERMITTED_DATA_INCREASE = 10240"

definition MAX_VALID_SLOTS_AFTER_CONSENSUS :: u64 where
  "MAX_VALID_SLOTS_AFTER_CONSENSUS = 50 * DEFAULT_SLOTS_PER_EPOCH"
definition DEFAULT_CONSENSUS_THRESHOLD_BPS :: u16 where "DEFAULT_CONSENSUS_THRESHOLD_BPS = 6667"
definition MIN_CONSENSUS_THRESHOLD_BPS :: u16 where "MIN_CONSENSUS_THRESHOLD_BPS = 1"
definition MAX_CONSENSUS_THRESHOLD_BPS :: u16 where "MAX_CONSENSUS_THRESHOLD_BPS = 10000"
definition MAX_REALLOC_BYTES :: u64 where
  "MAX_REALLOC_BYTES = of_nat MAX_PERMITTED_DATA_INCREASE"

text \<open>\<open>UBig::from_static_words\<close>: least significant limb first.\<close>

fun ubig_words :: "u64 list \<Rightarrow> nat" where
  "ubig_words [] = 0"
| "ubig_words (w # ws) = unat w + 2 ^ 64 * ubig_words ws"

definition MODULUS :: nat where
  "MODULUS = ubig_words
     [0x3c208c16d87cfd47, 0x97816a916871ca8d, 0xb85045b68181585d, 0x30644e72e131a029]"

definition FR_MODULUS :: nat where
  "FR_MODULUS = ubig_words
     [0x43e1f593f0000001, 0x2833e84879b97091, 0xb85045b68181585d, 0x30644e72e131a029]"

definition NORMALIZE_MODULUS :: nat where
  "NORMALIZE_MODULUS = ubig_words
     [0x2ca2bc723a70f263, 0xf58714d70a38f4c2, 0x99915c908786b9d3, 0xf1f5883e65f820d0]"

definition ascii :: "string \<Rightarrow> bytes" where "ascii s = map of_char s"

definition POP_MESSAGE_DOMAIN :: bytes where
  "POP_MESSAGE_DOMAIN = ascii ''JITO-NCN-BN254-POP-REGISTER-V001''"

definition HASH_TO_CURVE_DOMAIN :: bytes where
  "HASH_TO_CURVE_DOMAIN = ascii ''JITO-NCN-BN254-G1-SHA256NORM-V01''"

text \<open>The generator (1, 2): two 32-byte big-endian coordinates.\<close>

definition G1_GENERATOR :: bytes64 where
  "G1_GENERATOR = 0x10000000000000000000000000000000000000000000000000000000000000002"

definition G2_MINUS_ONE :: bytes128 where
  "G2_MINUS_ONE =
     0x198e9393920d483a7260bfb731fb5d25f1aa493335a9e71297e485b7aef312c21800deef121f1e76426a00665e5c4479674322d4f75edadd46debd5cd992f6ed275dc4a288d1afb3cbb1ac09187524c7db36395df7be3b99e673b13a075a65ec1d9befcd05a5323e6da4d435f3b617cdb3af83285c2df711ef39c01571827f9d"

definition BN128_ADDITION_SUCESS_RESULT :: bytes where
  "BN128_ADDITION_SUCESS_RESULT = replicate 31 0 @ [1]"

datatype discriminators =
  D_Config | D_VaultRegistry | D_OperatorRegistry | D_WeightTable | D_Snapshot | D_OperatorSnapshot

primrec discriminator :: "discriminators \<Rightarrow> u8" where
  "discriminator D_Config = 0x01"
| "discriminator D_VaultRegistry = 0x02"
| "discriminator D_OperatorRegistry = 0x03"
| "discriminator D_WeightTable = 0x10"
| "discriminator D_Snapshot = 0x11"
| "discriminator D_OperatorSnapshot = 0x12"

lemma discriminator_inject [simp]: "discriminator a = discriminator b \<longleftrightarrow> a = b"
  by (cases a; cases b) simp_all

lemma MODULUS_value: "MODULUS = 0x30644e72e131a029b85045b68181585d97816a916871ca8d3c208c16d87cfd47"
  by (simp add: MODULUS_def)

lemma FR_MODULUS_value: "FR_MODULUS = 0x30644e72e131a029b85045b68181585d2833e84879b9709143e1f593f0000001"
  by (simp add: FR_MODULUS_def)

lemma NORMALIZE_MODULUS_value: "NORMALIZE_MODULUS = 0xf1f5883e65f820d099915c908786b9d3f58714d70a38f4c22ca2bc723a70f263"
  by (simp add: NORMALIZE_MODULUS_def)

lemma MODULUS_bounds: "0 < MODULUS" "MODULUS < 2 ^ 256" "FR_MODULUS < MODULUS" "0 < FR_MODULUS"
  "FR_MODULUS < 2 ^ 256"
  by (simp_all add: MODULUS_value FR_MODULUS_value)

text \<open>
  \<open>NORMALIZE_MODULUS\<close> is the last multiple of the field modulus below \<open>2 ^ 256\<close>, as the
  rejection sampling of the hash to the curve needs.
\<close>

lemma normalize_modulus_last_multiple:
  "NORMALIZE_MODULUS = 5 * MODULUS" "NORMALIZE_MODULUS < 2 ^ 256"
  "2 ^ 256 < NORMALIZE_MODULUS + MODULUS"
  by (simp_all add: NORMALIZE_MODULUS_value MODULUS_value)

lemma length_domains: "length POP_MESSAGE_DOMAIN = 32" "length HASH_TO_CURVE_DOMAIN = 32"
  by (simp_all add: POP_MESSAGE_DOMAIN_def HASH_TO_CURVE_DOMAIN_def ascii_def)

end
