(* ===== verification/Curve.thy ===== *)
theory Curve
  imports Constants
begin

text \<open>
  Points of the pairing-friendly curve BN254 and BLS verification (\<open>core/src/g1_point.rs\<close>,
  \<open>core/src/g2_point.rs\<close>, \<open>core/src/privkey.rs\<close>, \<open>core/src/schemes/\<close> and the challenges and
  signer bitmap of \<open>core/src/utils.rs\<close>).  The curve's arithmetic and the hash functions are
  syscalls of the runtime: a record of functions the definitions take as a parameter.
\<close>

record syscalls =
  sc_g1_compress :: "bytes64 \<Rightarrow> bytes32 option"
  sc_g1_decompress :: "bytes32 \<Rightarrow> bytes64 option"
  sc_g2_compress :: "bytes128 \<Rightarrow> bytes64 option"
  sc_g2_decompress :: "bytes64 \<Rightarrow> bytes128 option"
  sc_addition :: "bytes \<Rightarrow> bytes option"
  sc_multiplication :: "bytes \<Rightarrow> bytes option"
  sc_pairing :: "bytes \<Rightarrow> bytes option"
  sc_sha256 :: "bytes \<Rightarrow> bytes32"
  sc_keccak256 :: "bytes \<Rightarrow> bytes32"

abbreviation b32 :: "bytes32 \<Rightarrow> bytes" where "b32 \<equiv> be_bytes 32"
abbreviation b64 :: "bytes64 \<Rightarrow> bytes" where "b64 \<equiv> be_bytes 64"
abbreviation b128 :: "bytes128 \<Rightarrow> bytes" where "b128 \<equiv> be_bytes 128"

subsection \<open>Data\<close>

datatype g1_point = G1Point (g1_bytes: bytes64)
datatype g1_compressed_point = G1CompressedPoint (g1c_bytes: bytes32)
datatype g2_point = G2Point (g2_bytes: bytes128)
datatype g2_compressed_point = G2CompressedPoint (g2c_bytes: bytes64)
datatype priv_key = PrivKey (priv_bytes: bytes32)
datatype message_digest = MessageDigest (digest_bytes: bytes32)

definition g1_default :: g1_point where "g1_default = G1Point 0"

definition g1_try_from_slice :: "bytes \<Rightarrow> ncn_error + g1_point" where
  "g1_try_from_slice bs =
     (if length bs \<noteq> 64 then Inl InvalidInputLength else Inr (G1Point (be_word bs)))"

definition g1c_try_from_slice :: "bytes \<Rightarrow> ncn_error + g1_compressed_point" where
  "g1c_try_from_slice bs =
     (if length bs \<noteq> 32 then Inl InvalidInputLength else Inr (G1CompressedPoint (be_word bs)))"

definition g2_try_from_slice :: "bytes \<Rightarrow> ncn_error + g2_point" where
  "g2_try_from_slice bs =
     (if length bs \<noteq> 128 then Inl InvalidInputLength else Inr (G2Point (be_word bs)))"

definition g2c_try_from_slice :: "bytes \<Rightarrow> ncn_error + g2_compressed_point" where
  "g2c_try_from_slice bs =
     (if length bs \<noteq> 64 then Inl InvalidInputLength else Inr (G2CompressedPoint (be_word bs)))"

subsection \<open>Compression\<close>

definition g1_compress :: "syscalls \<Rightarrow> g1_point \<Rightarrow> ncn_error + g1_compressed_point" where
  "g1_compress S p =
     try_bind (ok_or G1PointCompressionError (sc_g1_compress S (g1_bytes p))) (\<lambda>c.
     Inr (G1CompressedPoint c))"

definition g1_decompress :: "syscalls \<Rightarrow> g1_compressed_point \<Rightarrow> ncn_error + g1_point" where
  "g1_decompress S c =
     try_bind (ok_or G1PointDecompressionError (sc_g1_decompress S (g1c_bytes c))) (\<lambda>p.
     Inr (G1Point p))"

definition g2_compress :: "syscalls \<Rightarrow> g2_point \<Rightarrow> ncn_error + g2_compressed_point" where
  "g2_compress S p =
     try_bind (ok_or G2PointCompressionError (sc_g2_compress S (g2_bytes p))) (\<lambda>c.
     Inr (G2CompressedPoint c))"

definition g2_decompress :: "syscalls \<Rightarrow> g2_compressed_point \<Rightarrow> ncn_error + g2_point" where
  "g2_decompress S c =
     try_bind (ok_or G2PointDecompressionError (sc_g2_decompress S (g2c_bytes c))) (\<lambda>p.
     Inr (G2Point p))"

text \<open>\<open>BLSSignature::to_bytes\<close> for the two kinds of signature.\<close>

definition g1_to_bytes :: "g1_point \<Rightarrow> ncn_error + bytes64" where
  "g1_to_bytes p = Inr (g1_bytes p)"

definition g1c_to_bytes :: "syscalls \<Rightarrow> g1_compressed_point \<Rightarrow> ncn_error + bytes64" where
  "g1c_to_bytes S c = try_bind (g1_decompress S c) (\<lambda>p. Inr (g1_bytes p))"

subsection \<open>Arithmetic in G1\<close>

definition g1_checked_add :: "syscalls \<Rightarrow> g1_point \<Rightarrow> g1_point \<Rightarrow> g1_point option" where
  "g1_checked_add S p q = result_ok (
     try_bind (ok_or AltBN128AddError (sc_addition S (b64 (g1_bytes p) @ b64 (g1_bytes q)))) (\<lambda>r.
     try_bind (ok_or AltBN128AddError (try_into_array r)) (\<lambda>r.
     Inr (G1Point r))))"

definition g1_mul :: "syscalls \<Rightarrow> g1_point \<Rightarrow> bytes32 \<Rightarrow> ncn_error + g1_point" where
  "g1_mul S p scalar =
     try_bind (ok_or AltBN128MulError (sc_multiplication S (b64 (g1_bytes p) @ b32 scalar))) (\<lambda>r.
     try_bind (ok_or AltBN128MulError (try_into_array r)) (\<lambda>r.
     Inr (G1Point r)))"

text \<open>
  \<open>negate\<close> keeps the first coordinate and replaces \<open>y\<close> by \<open>p - y\<close>.  The subtraction of
  arbitrary-precision naturals panics when \<open>y\<close> exceeds the modulus.
\<close>

definition g1_x :: "g1_point \<Rightarrow> nat" where "g1_x p = unat (g1_bytes p) div 2 ^ 256"
definition g1_y :: "g1_point \<Rightarrow> nat" where "g1_y p = unat (g1_bytes p) mod 2 ^ 256"
definition g1_of_xy :: "nat \<Rightarrow> nat \<Rightarrow> g1_point" where
  "g1_of_xy x y = G1Point (of_nat (x * 2 ^ 256 + y))"

definition g1_negate :: "g1_point \<Rightarrow> program_error + g1_point" where
  "g1_negate p =
     (let y = g1_y p
      in if y = 0 then Inr (g1_of_xy (g1_x p) 0)
         else if MODULUS < y then Inl PE_Panic
         else Inr (g1_of_xy (g1_x p) ((MODULUS - y) mod MODULUS)))"

definition g1c_negate :: "syscalls \<Rightarrow> g1_compressed_point \<Rightarrow> program_error + g1_compressed_point" where
  "g1c_negate S c =
     try_bind (lift_ncn (g1_decompress S c)) (\<lambda>p.
     try_bind (g1_negate p) (\<lambda>n.
     lift_ncn (g1_compress S n)))"

subsection \<open>Hashing to the curve\<close>

text \<open>
  The rejection sampling: a hash at or above the last multiple of the field modulus is
  rejected, the others are reduced, and the first of the 255 candidates that decompresses to a
  point of the curve is taken.  \<open>x_bytes\<close> is the 32-byte big-endian form of the candidate.
\<close>

definition hash_preimage :: "message_digest \<Rightarrow> u8 \<Rightarrow> bytes" where
  "hash_preimage d n = HASH_TO_CURVE_DOMAIN @ b32 (digest_bytes d) @ [n]"

definition x_candidate :: "bytes32 \<Rightarrow> bytes32 option" where
  "x_candidate h = (if unat h \<ge> NORMALIZE_MODULUS then None else Some (of_nat (unat h mod MODULUS)))"

definition hash_attempt :: "syscalls \<Rightarrow> message_digest \<Rightarrow> nat \<Rightarrow> g1_point option" where
  "hash_attempt S d n =
     (case x_candidate (sc_sha256 S (hash_preimage d (of_nat n))) of
        None \<Rightarrow> None
      | Some x \<Rightarrow> map_option G1Point (sc_g1_decompress S x))"

fun find_map :: "('a \<Rightarrow> 'b option) \<Rightarrow> 'a list \<Rightarrow> 'b option" where
  "find_map f [] = None"
| "find_map f (x # xs) = (case f x of None \<Rightarrow> find_map f xs | Some y \<Rightarrow> Some y)"

definition try_hash_to_curve :: "syscalls \<Rightarrow> message_digest \<Rightarrow> ncn_error + g1_point" where
  "try_hash_to_curve S d = ok_or HashToCurveError (find_map (hash_attempt S d) [0..<255])"

text \<open>\<open>clone_from_slice\<close> panics when the product does not have 64 bytes.\<close>

definition sign :: "syscalls \<Rightarrow> priv_key \<Rightarrow> message_digest \<Rightarrow> program_error + g1_point" where
  "sign S k d =
     try_bind (lift_ncn (try_hash_to_curve S d)) (\<lambda>point.
     try_bind (ok_or (from_ncn BLSSigningError)
       (sc_multiplication S (b64 (g1_bytes point) @ b32 (priv_bytes k)))) (\<lambda>r.
     try_bind (ok_or PE_Panic (try_into_array r)) (\<lambda>r.
     Inr (G1Point r))))"

text \<open>
  The operators \<open>*\<close> and \<open>+\<close> panic where \<open>mul\<close> and \<open>checked_add\<close> fail; the key derivations call
  the operator, because the trait's method takes the point by value.
\<close>

definition g1_mul_op :: "syscalls \<Rightarrow> g1_point \<Rightarrow> bytes32 \<Rightarrow> program_error + g1_point" where
  "g1_mul_op S p scalar = map_err (\<lambda>_. PE_Panic) (g1_mul S p scalar)"

definition g1_add_op :: "syscalls \<Rightarrow> g1_point \<Rightarrow> g1_point \<Rightarrow> program_error + g1_point" where
  "g1_add_op S p q = ok_or PE_Panic (g1_checked_add S p q)"

definition g1_from_priv_key :: "syscalls \<Rightarrow> priv_key \<Rightarrow> program_error + g1_point" where
  "g1_from_priv_key S k = g1_mul_op S (G1Point G1_GENERATOR) (priv_bytes k)"

definition g1c_from_priv_key :: "syscalls \<Rightarrow> priv_key \<Rightarrow> program_error + g1_compressed_point" where
  "g1c_from_priv_key S k =
     try_bind (g1_mul_op S (G1Point G1_GENERATOR) (priv_bytes k)) (\<lambda>pubkey.
     lift_ncn (g1_compress S pubkey))"

subsection \<open>Challenges and digests\<close>

definition reduce_mod_fr :: "bytes32 \<Rightarrow> bytes32" where
  "reduce_mod_fr h = of_nat (unat h mod FR_MODULUS)"

definition certificate_gamma_preimage :: "bytes32 \<Rightarrow> bytes64 \<Rightarrow> bytes128 \<Rightarrow> bytes64 \<Rightarrow> bytes" where
  "certificate_gamma_preimage msg_digest apk1 apk_g2 sigma =
     b32 msg_digest @ b64 apk1 @ b128 apk_g2 @ b64 sigma"

definition compute_certificate_gamma ::
  "syscalls \<Rightarrow> bytes32 \<Rightarrow> bytes64 \<Rightarrow> bytes128 \<Rightarrow> bytes64 \<Rightarrow> bytes32" where
  "compute_certificate_gamma S msg_digest apk1 apk_g2 sigma =
     reduce_mod_fr (sc_keccak256 S (certificate_gamma_preimage msg_digest apk1 apk_g2 sigma))"

definition pop_gamma_preimage :: "bytes64 \<Rightarrow> bytes64 \<Rightarrow> bytes128 \<Rightarrow> bytes64 \<Rightarrow> bytes" where
  "pop_gamma_preimage signature pubkey_g1 pubkey_g2 msg_point =
     b64 signature @ b64 pubkey_g1 @ b128 pubkey_g2 @ b64 msg_point"

definition compute_pop_gamma ::
  "syscalls \<Rightarrow> bytes64 \<Rightarrow> bytes64 \<Rightarrow> bytes128 \<Rightarrow> bytes64 \<Rightarrow> bytes32" where
  "compute_pop_gamma S signature pubkey_g1 pubkey_g2 msg_point =
     reduce_mod_fr (sc_keccak256 S (pop_gamma_preimage signature pubkey_g1 pubkey_g2 msg_point))"

definition pop_preimage :: "pubkey \<Rightarrow> pubkey \<Rightarrow> bytes32 \<Rightarrow> bytes" where
  "pop_preimage ncn operator g1_compressed =
     POP_MESSAGE_DOMAIN @ b32 ncn @ b32 operator @ b32 g1_compressed"

definition pop_message_digest :: "syscalls \<Rightarrow> pubkey \<Rightarrow> pubkey \<Rightarrow> bytes32 \<Rightarrow> message_digest" where
  "pop_message_digest S ncn operator g1_compressed =
     MessageDigest (sc_sha256 S (pop_preimage ncn operator g1_compressed))"

subsection \<open>Pairing checks\<close>

text \<open>
  The 384 bytes every check hands to the pairing syscall: two pairs of a G1 and a G2 point,
  the second G2 point being the negated generator.
\<close>

definition pairing_input :: "bytes64 \<Rightarrow> bytes128 \<Rightarrow> bytes64 \<Rightarrow> bytes" where
  "pairing_input a g2 b = b64 a @ b128 g2 @ b64 b @ b128 G2_MINUS_ONE"

definition pairing_check :: "syscalls \<Rightarrow> bytes64 \<Rightarrow> bytes128 \<Rightarrow> bytes64 \<Rightarrow> ncn_error + unit" where
  "pairing_check S a g2 b =
     (case sc_pairing S (pairing_input a g2 b) of
        None \<Rightarrow> Inl AltBN128PairingError
      | Some r \<Rightarrow> if r = BN128_ADDITION_SUCESS_RESULT then Inr () else Inl BLSVerificationError)"

definition verify_signature ::
  "syscalls \<Rightarrow> g2_point \<Rightarrow> g1_point \<Rightarrow> message_digest \<Rightarrow> ncn_error + unit" where
  "verify_signature S g2 signature digest =
     try_bind (try_hash_to_curve S digest) (\<lambda>h.
     try_bind (g1_to_bytes signature) (\<lambda>s.
     pairing_check S (g1_bytes h) (g2_bytes g2) s))"

definition verify_operator_registeration ::
  "syscalls \<Rightarrow> g2_point \<Rightarrow> g1_point \<Rightarrow> bytes32 \<Rightarrow> message_digest \<Rightarrow> ncn_error + unit" where
  "verify_operator_registeration S g2 signature g1_pubkey pop_digest =
     try_bind (map_err (\<lambda>_. G1PointDecompressionError)
       (g1_decompress S (G1CompressedPoint g1_pubkey))) (\<lambda>g1_pubkey_point.
     try_bind (try_hash_to_curve S pop_digest) (\<lambda>message_hash.
     let alpha = compute_pop_gamma S (g1_bytes signature) (g1_bytes g1_pubkey_point) (g2_bytes g2)
                   (g1_bytes message_hash) in
     try_bind (g1_mul S (G1Point G1_GENERATOR) alpha) (\<lambda>scaled_g1_generator.
     try_bind (g1_mul S g1_pubkey_point alpha) (\<lambda>scaled_g1_pubkey.
     try_bind (ok_or AltBN128AddError (g1_checked_add S message_hash scaled_g1_generator)) (\<lambda>a.
     try_bind (ok_or AltBN128AddError (g1_checked_add S signature scaled_g1_pubkey)) (\<lambda>b.
     pairing_check S (g1_bytes a) (g2_bytes g2) (g1_bytes b)))))))"

definition verify_aggregated_signature ::
  "syscalls \<Rightarrow> g2_point \<Rightarrow> g1_point \<Rightarrow> message_digest \<Rightarrow> g1_point \<Rightarrow> ncn_error + unit" where
  "verify_aggregated_signature S g2 aggregated_signature digest apk1 =
     try_bind (try_hash_to_curve S digest) (\<lambda>message_hash.
     let alpha = compute_certificate_gamma S (digest_bytes digest) (g1_bytes apk1) (g2_bytes g2)
                   (g1_bytes aggregated_signature) in
     try_bind (g1_mul S (G1Point G1_GENERATOR) alpha) (\<lambda>scaled_g1.
     try_bind (g1_mul S apk1 alpha) (\<lambda>scaled_aggregated_g1.
     try_bind (ok_or AltBN128AddError (g1_checked_add S message_hash scaled_g1)) (\<lambda>a.
     try_bind (ok_or AltBN128AddError
       (g1_checked_add S aggregated_signature scaled_aggregated_g1)) (\<lambda>b.
     pairing_check S (g1_bytes a) (g2_bytes g2) (g1_bytes b))))))"

definition g1_verify_g2 :: "syscalls \<Rightarrow> g1_point \<Rightarrow> g2_point \<Rightarrow> ncn_error + bool" where
  "g1_verify_g2 S p g2 =
     (if list_all (\<lambda>x. x = 0) (b64 (g1_bytes p)) \<or> list_all (\<lambda>x. x = 0) (b128 (g2_bytes g2))
      then Inr False
      else (case sc_pairing S (pairing_input G1_GENERATOR (g2_bytes g2) (g1_bytes p)) of
        Some r \<Rightarrow> if length r = 32 \<and> r = BN128_ADDITION_SUCESS_RESULT then Inr True else Inr False
      | None \<Rightarrow> Inl AltBN128PairingError))"

definition g1c_verify_g2 :: "syscalls \<Rightarrow> g1_compressed_point \<Rightarrow> g2_point \<Rightarrow> ncn_error + bool" where
  "g1c_verify_g2 S c g2 = try_bind (g1_decompress S c) (\<lambda>p. g1_verify_g2 S p g2)"

definition g2c_verify_signature ::
  "syscalls \<Rightarrow> g2_compressed_point \<Rightarrow> g1_point \<Rightarrow> message_digest \<Rightarrow> ncn_error + unit" where
  "g2c_verify_signature S c signature digest =
     try_bind (try_hash_to_curve S digest) (\<lambda>h.
     try_bind (g2_decompress S c) (\<lambda>g2.
     try_bind (g1_to_bytes signature) (\<lambda>s.
     pairing_check S (g1_bytes h) (g2_bytes g2) s)))"

subsection \<open>The signer bitmap\<close>

definition clear_bit :: "bytes \<Rightarrow> nat \<Rightarrow> bytes" where
  "clear_bit bitmap index =
     (let byte_index = index div 8; bit_index = index mod 8
      in if byte_index < length bitmap
         then bitmap[byte_index := bitmap ! byte_index AND NOT (push_bit bit_index 1)]
         else bitmap)"

definition create_signer_bitmap :: "nat list \<Rightarrow> nat \<Rightarrow> bytes" where
  "create_signer_bitmap non_signer_indices total_operators =
     fold (\<lambda>index bitmap. clear_bit bitmap index) non_signer_indices
       (replicate (div_ceil total_operators 8) 255)"

subsection \<open>The hash to the curve is the first good candidate, and candidates are unbiased\<close>

lemma find_map_position:
  "find_map f xs = (case position (\<lambda>x. f x \<noteq> None) xs of None \<Rightarrow> None | Some i \<Rightarrow> f (xs ! i))"
  by (induction xs) (auto split: option.splits)

lemma find_map_Some_iff:
  "find_map f xs = Some y \<longleftrightarrow>
     (\<exists>i < length xs. f (xs ! i) = Some y \<and> (\<forall>j < i. f (xs ! j) = None))"
proof
  assume "find_map f xs = Some y"
  then obtain i where "position (\<lambda>x. f x \<noteq> None) xs = Some i" "f (xs ! i) = Some y"
    by (auto simp: find_map_position split: option.splits)
  with position_SomeD [OF this(1)]
  show "\<exists>i < length xs. f (xs ! i) = Some y \<and> (\<forall>j < i. f (xs ! j) = None)" by auto
next
  assume "\<exists>i < length xs. f (xs ! i) = Some y \<and> (\<forall>j < i. f (xs ! j) = None)"
  then obtain i where i: "i < length xs" "f (xs ! i) = Some y" "\<forall>j < i. f (xs ! j) = None" by auto
  then have "position (\<lambda>x. f x \<noteq> None) xs = Some i" by (intro position_first) auto
  with i show "find_map f xs = Some y" by (simp add: find_map_position)
qed

lemma find_map_None_iff: "find_map f xs = None \<longleftrightarrow> (\<forall>x \<in> set xs. f x = None)"
  by (induction xs) (auto split: option.splits)

lemma unat_of_nat_256: "n < 2 ^ 256 \<Longrightarrow> unat (of_nat n :: bytes32) = n"
  by (simp add: unat_of_nat take_bit_nat_eq_self)

lemma x_candidate_reduced: "x_candidate h = Some x \<Longrightarrow> unat x = unat h mod MODULUS"
  using MODULUS_bounds
  by (auto simp: x_candidate_def split: if_splits intro!: unat_of_nat_256
      intro: less_trans [OF mod_less_divisor])

lemma x_candidate_preimages:
  assumes "x < MODULUS"
  shows "{h. x_candidate h = Some (of_nat x)} = (\<lambda>k. of_nat (x + k * MODULUS)) ` {..<5}"
proof (intro set_eqI iffI)
  fix h
  assume "h \<in> {h. x_candidate h = Some (of_nat x)}"
  then have h: "x_candidate h = Some (of_nat x)" "unat h < NORMALIZE_MODULUS"
    by (auto simp: x_candidate_def split: if_splits)
  have "unat h mod MODULUS = x"
    using x_candidate_reduced [OF h(1)] assms MODULUS_bounds by (simp add: unat_of_nat_256)
  then have "unat h = x + (unat h div MODULUS) * MODULUS"
    using mod_div_mult_eq [of "unat h" MODULUS] by simp
  moreover have "unat h div MODULUS < 5"
    using h(2) normalize_modulus_last_multiple(1) MODULUS_bounds
    by (simp add: less_mult_imp_div_less mult.commute)
  ultimately show "h \<in> (\<lambda>k. of_nat (x + k * MODULUS)) ` {..<5}"
    by (intro image_eqI [of _ _ "unat h div MODULUS"]) (simp_all flip: of_nat_add of_nat_mult)
next
  fix h :: bytes32
  assume "h \<in> (\<lambda>k. of_nat (x + k * MODULUS)) ` {..<5}"
  then obtain k where k: "k < 5" "h = of_nat (x + k * MODULUS)" by auto
  have "x + k * MODULUS < MODULUS + 4 * MODULUS"
    using assms k(1) by (intro add_less_le_mono mult_right_mono) auto
  then have lt: "x + k * MODULUS < NORMALIZE_MODULUS"
    using normalize_modulus_last_multiple(1) by simp
  then have "unat h = x + k * MODULUS"
    unfolding k(2) using normalize_modulus_last_multiple(2) by (intro unat_of_nat_256) simp
  then show "h \<in> {h. x_candidate h = Some (of_nat x)}"
    using lt assms by (simp add: x_candidate_def)
qed

text \<open>
  Hashing to the curve takes the first of the 255 counters whose reduced hash is the
  x-coordinate of a point, and fails with \<open>HashToCurveError\<close> exactly when there is none.  The
  candidates carry no modulo bias: every residue is the candidate of exactly five of the
  \<open>2 ^ 256\<close> hash values, and no other value is a candidate.
\<close>

theorem try_hash_to_curve_spec:
  "(\<forall>p. try_hash_to_curve S d = Inr p \<longleftrightarrow>
      (\<exists>n < 255. hash_attempt S d n = Some p \<and> (\<forall>m < n. hash_attempt S d m = None))) \<and>
   (\<forall>e. try_hash_to_curve S d = Inl e \<longleftrightarrow>
      e = HashToCurveError \<and> (\<forall>n < 255. hash_attempt S d n = None)) \<and>
   (\<forall>h x. x_candidate h = Some x \<longrightarrow> unat x < MODULUS) \<and>
   (\<forall>x < MODULUS. card {h. x_candidate h = Some (of_nat x)} = 5)"
proof (intro conjI allI impI)
  fix p
  show "try_hash_to_curve S d = Inr p \<longleftrightarrow>
      (\<exists>n < 255. hash_attempt S d n = Some p \<and> (\<forall>m < n. hash_attempt S d m = None))"
    by (simp only: try_hash_to_curve_def ok_or_eq_Inr find_map_Some_iff length_upt)
      (intro ex_cong1 conj_cong refl, simp_all)
next
  fix e
  show "try_hash_to_curve S d = Inl e \<longleftrightarrow>
      e = HashToCurveError \<and> (\<forall>n < 255. hash_attempt S d n = None)"
    by (auto simp: try_hash_to_curve_def find_map_None_iff)
next
  fix h x
  assume "x_candidate h = Some x"
  then show "unat x < MODULUS" using MODULUS_bounds by (simp add: x_candidate_reduced)
next
  fix x
  assume x: "x < MODULUS"
  have "inj_on (\<lambda>k. of_nat (x + k * MODULUS) :: bytes32) {..<5}"
  proof (rule inj_onI)
    fix j k :: nat
    assume jk: "j \<in> {..<5}" "k \<in> {..<5}"
      and eq: "(of_nat (x + j * MODULUS) :: bytes32) = of_nat (x + k * MODULUS)"
    have bound: "x + i * MODULUS < 2 ^ 256" if "i < 5" for i
    proof -
      have "x + i * MODULUS < MODULUS + 4 * MODULUS"
        using x that by (intro add_less_le_mono mult_right_mono) auto
      then show ?thesis using normalize_modulus_last_multiple by simp
    qed
    then have "x + j * MODULUS = x + k * MODULUS"
      using eq jk by (metis lessThan_iff unat_of_nat_256)
    then show "j = k" using MODULUS_bounds by simp
  qed
  then show "card {h. x_candidate h = Some (of_nat x)} = 5"
    by (simp add: x_candidate_preimages [OF x] card_image)
qed

text \<open>A runtime for evaluation: hashes are constant and every x-coordinate is on the curve.\<close>

definition sample_syscalls :: syscalls where
  "sample_syscalls = \<lparr>sc_g1_compress = (\<lambda>p. Some (ucast p)), sc_g1_decompress = (\<lambda>c. Some (ucast c)),
     sc_g2_compress = (\<lambda>p. Some (ucast p)), sc_g2_decompress = (\<lambda>c. Some (ucast c)),
     sc_addition = (\<lambda>bs. Some (take 64 bs)), sc_multiplication = (\<lambda>bs. Some (take 64 bs)),
     sc_pairing = (\<lambda>_. Some BN128_ADDITION_SUCESS_RESULT), sc_sha256 = (\<lambda>_. 5),
     sc_keccak256 = (\<lambda>_. 7)\<rparr>"

theorem try_hash_to_curve_spec_witness:
  "try_hash_to_curve sample_syscalls (MessageDigest 1) = Inr (G1Point 5) \<and>
   card {h. x_candidate h = Some (of_nat 1)} = 5"
proof -
  have "hash_attempt sample_syscalls (MessageDigest 1) 0 = Some (G1Point 5)"
    by (simp add: hash_attempt_def sample_syscalls_def x_candidate_def NORMALIZE_MODULUS_value
        MODULUS_value)
  then have ex: "\<exists>n < 255. hash_attempt sample_syscalls (MessageDigest 1) n = Some (G1Point 5) \<and>
      (\<forall>m < n. hash_attempt sample_syscalls (MessageDigest 1) m = None)"
    by (intro exI [of _ 0]) simp
  have "1 < MODULUS" by (simp add: MODULUS_value)
  with ex try_hash_to_curve_spec [of sample_syscalls "MessageDigest 1"] show ?thesis by blast
qed

subsection \<open>Negation\<close>

lemma g1_of_xy_coords:
  assumes "x < 2 ^ 256" "y < 2 ^ 256"
  shows "g1_x (g1_of_xy x y) = x" "g1_y (g1_of_xy x y) = y"
proof -
  have "x * 2 ^ 256 + y < (x + 1) * 2 ^ 256" using assms(2) by simp
  also have "\<dots> \<le> 2 ^ 256 * 2 ^ 256" using assms(1) by (intro mult_right_mono) auto
  finally have "unat (of_nat (x * 2 ^ 256 + y) :: bytes64) = x * 2 ^ 256 + y"
    by (simp add: unat_of_nat take_bit_nat_eq_self del: of_nat_add of_nat_mult)
  then show "g1_x (g1_of_xy x y) = x" "g1_y (g1_of_xy x y) = y"
    using assms(2) by (simp_all add: g1_x_def g1_y_def g1_of_xy_def del: of_nat_add of_nat_mult)
qed

lemma g1_coords_bounds: "g1_x p < 2 ^ 256" "g1_y p < 2 ^ 256"
  using unat_lt_length [of "g1_bytes p"]
  by (simp_all add: g1_x_def g1_y_def less_mult_imp_div_less)

lemma g1_of_xy_eta: "g1_of_xy (g1_x p) (g1_y p) = p"
  using div_mult_mod_eq [of "unat (g1_bytes p)" "2 ^ 256"]
  by (cases p) (simp add: g1_of_xy_def g1_x_def g1_y_def del: of_nat_add of_nat_mult)

lemma g1_negate_reduced:
  assumes y: "g1_y p < MODULUS"
  shows "\<exists>q. g1_negate p = Inr q \<and> g1_x q = g1_x p \<and> g1_y q < MODULUS \<and>
      (g1_y p + g1_y q) mod MODULUS = 0 \<and> g1_negate q = Inr p"
proof (cases "g1_y p = 0")
  case True
  then have "g1_negate p = Inr p"
    using g1_of_xy_eta [of p] by (simp add: g1_negate_def)
  with True MODULUS_bounds show ?thesis by simp
next
  case False
  define q where "q = g1_of_xy (g1_x p) (MODULUS - g1_y p)"
  have q: "g1_x q = g1_x p" "g1_y q = MODULUS - g1_y p"
    using g1_of_xy_coords [of "g1_x p" "MODULUS - g1_y p"] g1_coords_bounds [of p] MODULUS_bounds(2)
    by (simp_all add: q_def)
  have "g1_negate p = Inr q" using y False by (simp add: g1_negate_def q_def)
  moreover have "g1_negate q = Inr p"
    using y False q g1_of_xy_eta [of p] by (simp add: g1_negate_def Let_def)
  ultimately show ?thesis using y False q by simp
qed

text \<open>The reduced inverse of a coordinate is unique.\<close>

lemma inverse_coordinate_unique:
  assumes "y < MODULUS" "y' < MODULUS" "(z + y) mod MODULUS = 0" "(z + y') mod MODULUS = 0"
  shows "y = y'"
proof -
  have "(z + y) mod MODULUS = (z + y') mod MODULUS" using assms by simp
  then have "y mod MODULUS = y' mod MODULUS" by (simp add: mod_add_cong nat_mod_eq_iff)
  with assms show ?thesis by simp
qed

text \<open>
  For a point whose y-coordinate is reduced, \<open>negate\<close> does not panic, keeps x, returns the
  additive inverse of y modulo the field prime, reduced again, and is an involution.  It panics
  exactly for a y-coordinate above the prime.
\<close>

theorem g1_negate_spec:
  "(g1_y p < MODULUS \<longrightarrow> (\<exists>q. g1_negate p = Inr q \<and> g1_x q = g1_x p \<and> g1_y q < MODULUS \<and>
      (g1_y p + g1_y q) mod MODULUS = 0 \<and> g1_negate q = Inr p)) \<and>
   (g1_negate p = Inl PE_Panic \<longleftrightarrow> MODULUS < g1_y p)"
  using g1_negate_reduced [of p] by (auto simp: g1_negate_def Let_def)

theorem g1_negate_spec_witness:
  "\<exists>q. g1_negate (G1Point G1_GENERATOR) = Inr q \<and> g1_y q = MODULUS - 2"
proof -
  have y: "g1_y (G1Point G1_GENERATOR) = 2"
    by (simp add: g1_y_def G1_GENERATOR_def)
  then have lt: "g1_y (G1Point G1_GENERATOR) < MODULUS" by (simp add: MODULUS_value)
  then obtain q where
    q: "g1_negate (G1Point G1_GENERATOR) = Inr q" "g1_y q < MODULUS" "(2 + g1_y q) mod MODULUS = 0"
    using conjunct1 [OF g1_negate_spec, THEN mp, OF lt] unfolding y by (elim exE conjE) rule
  have "g1_y q = MODULUS - 2"
  proof (cases "2 + g1_y q < MODULUS")
    case True
    with q(3) show ?thesis by simp
  next
    case False
    then have "2 + g1_y q - MODULUS < MODULUS" using q(2) lt y by simp
    with False q(3) show ?thesis by (simp add: le_mod_geq)
  qed
  with q(1) show ?thesis by blast
qed

subsection \<open>Challenges\<close>

lemma reduce_mod_fr_bound: "unat (reduce_mod_fr h) = unat h mod FR_MODULUS"
  unfolding reduce_mod_fr_def using MODULUS_bounds
  by (intro unat_of_nat_256) (auto intro: less_trans [OF mod_less_divisor])

lemma b_inject [simp]:
  "b32 v = b32 w \<longleftrightarrow> v = w" "b64 a = b64 b \<longleftrightarrow> a = b" "b128 c = b128 d \<longleftrightarrow> c = d"
  by (simp_all add: be_bytes_inject)

text \<open>
  A challenge is a reduced scalar congruent to the hash, and the hashed bytes determine
  every input: the certificate challenge binds digest, aggregate keys and signature, the
  registration challenge signature, both keys and message point, the possession digest the NCN,
  the operator and the key, the hash to the curve the digest and the counter.  No certificate
  challenge hashes the same bytes as a registration challenge.
\<close>

theorem challenges_bind_inputs:
  "unat (reduce_mod_fr h) < FR_MODULUS \<and> unat (reduce_mod_fr h) mod FR_MODULUS = unat h mod FR_MODULUS \<and>
   (certificate_gamma_preimage d a g s = certificate_gamma_preimage d' a' g' s' \<longleftrightarrow>
      (d, a, g, s) = (d', a', g', s')) \<and>
   (pop_gamma_preimage s a g m = pop_gamma_preimage s' a' g' m' \<longleftrightarrow> (s, a, g, m) = (s', a', g', m')) \<and>
   (pop_preimage n op k = pop_preimage n' op' k' \<longleftrightarrow> (n, op, k) = (n', op', k')) \<and>
   (hash_preimage md c = hash_preimage md' c' \<longleftrightarrow> (md, c) = (md', c')) \<and>
   certificate_gamma_preimage d a g s \<noteq> pop_gamma_preimage s' a' g' m'"
proof -
  have "certificate_gamma_preimage d a g s \<noteq> pop_gamma_preimage s' a' g' m'"
    by (rule notI, drule arg_cong [where f = length])
      (simp add: certificate_gamma_preimage_def pop_gamma_preimage_def)
  then show ?thesis
    using MODULUS_bounds
    by (cases md; cases md')
      (auto simp: reduce_mod_fr_bound certificate_gamma_preimage_def pop_gamma_preimage_def
        pop_preimage_def hash_preimage_def)
qed

subsection \<open>The bitmap\<close>

definition bitmap_bit :: "bytes \<Rightarrow> nat \<Rightarrow> bool" where
  "bitmap_bit bs i \<longleftrightarrow> bit (bs ! (i div 8)) (i mod 8)"

lemma length_clear_bit [simp]: "length (clear_bit bs k) = length bs"
  by (simp add: clear_bit_def Let_def)

lemma bitmap_bit_clear:
  assumes "i < 8 * length bs"
  shows "bitmap_bit (clear_bit bs k) i \<longleftrightarrow> bitmap_bit bs i \<and> i \<noteq> k"
proof -
  have "i div 8 < length bs" using assms by (simp add: less_mult_imp_div_less mult.commute)
  moreover have "i = k \<longleftrightarrow> i div 8 = k div 8 \<and> i mod 8 = k mod 8"
    by (metis div_mult_mod_eq)
  moreover have "i mod 8 < 8" by simp
  ultimately show ?thesis
    by (auto simp: bitmap_bit_def clear_bit_def Let_def bit_simps nth_list_update)
qed

lemma bitmap_fold:
  "length (fold (\<lambda>k bs. clear_bit bs k) ks bs) = length bs"
  "i < 8 * length bs \<Longrightarrow>
     bitmap_bit (fold (\<lambda>k bs. clear_bit bs k) ks bs) i \<longleftrightarrow> bitmap_bit bs i \<and> i \<notin> set ks"
  by (induction ks arbitrary: bs) (auto simp: bitmap_bit_clear)

lemma div_ceil_8: "m \<le> 8 * div_ceil m 8" "8 * div_ceil m 8 < m + 8"
  by (simp_all add: div_ceil_def)

lemma create_signer_bitmap_bit:
  assumes "i < 8 * div_ceil m 8"
  shows "bitmap_bit (create_signer_bitmap ks m) i \<longleftrightarrow> i \<notin> set ks"
proof -
  have "i div 8 < div_ceil m 8" using assms by (simp add: less_mult_imp_div_less mult.commute)
  moreover have "i mod 8 < 8" by simp
  moreover have "(255 :: u8) = - 1" by simp
  ultimately have "bitmap_bit (replicate (div_ceil m 8) 255) i"
    by (simp only: bitmap_bit_def nth_replicate) (simp only: bit_minus_1_iff, simp)
  then show ?thesis
    using assms by (simp add: create_signer_bitmap_def bitmap_fold)
qed

text \<open>
  The signer bitmap has one bit per operator, rounded up to bytes; the bit of an operator is
  set exactly when the operator is not among the non-signers, indices beyond the bitmap are
  ignored, and the padding bits are set.
\<close>

theorem create_signer_bitmap_spec:
  "length (create_signer_bitmap ks m) = div_ceil m 8 \<and>
   (\<forall>i < m. bitmap_bit (create_signer_bitmap ks m) i \<longleftrightarrow> i \<notin> set ks) \<and>
   (\<forall>i. m \<le> i \<and> i < 8 * div_ceil m 8 \<and> i \<notin> set ks \<longrightarrow>
      bitmap_bit (create_signer_bitmap ks m) i)"
proof -
  have "length (create_signer_bitmap ks m) = div_ceil m 8"
    by (simp add: create_signer_bitmap_def bitmap_fold)
  then show ?thesis
    using div_ceil_8 [of m] create_signer_bitmap_bit by (meson less_le_trans)
qed

theorem create_signer_bitmap_spec_witness:
  "length (create_signer_bitmap [0, 9] 10) = 2 \<and> \<not> bitmap_bit (create_signer_bitmap [0, 9] 10) 9 \<and>
   bitmap_bit (create_signer_bitmap [0, 9] 10) 8 \<and> bitmap_bit (create_signer_bitmap [0, 9] 10) 15"
  using create_signer_bitmap_spec [of "[0, 9]" 10] by (simp add: div_ceil_def)

end
