(* ===== verification/Stake_Weight.thy ===== *)
theory Stake_Weight
  imports Constants
begin

text \<open>
  Stake weights (\<open>core/src/stake_weight.rs\<close>): a 128-bit amount that is only ever changed
  through checked arithmetic.  A mutating method returns the new value.
\<close>

record stake_weights =
  sw_weight :: u128

definition sw_default :: stake_weights where
  "sw_default = \<lparr>sw_weight = 0\<rparr>"

definition sw_new :: "u128 \<Rightarrow> stake_weights" where
  "sw_new w = \<lparr>sw_weight = w\<rparr>"

definition increment_stake_weight :: "stake_weights \<Rightarrow> u128 \<Rightarrow> ncn_error + stake_weights" where
  "increment_stake_weight s w =
     try_bind (ok_or ArithmeticOverflow (checked_add (sw_weight s) w)) (\<lambda>t.
     Inr (s\<lparr>sw_weight := t\<rparr>))"

definition decrement_stake_weight :: "stake_weights \<Rightarrow> u128 \<Rightarrow> ncn_error + stake_weights" where
  "decrement_stake_weight s w =
     try_bind (ok_or ArithmeticOverflow (checked_sub (sw_weight s) w)) (\<lambda>t.
     Inr (s\<lparr>sw_weight := t\<rparr>))"

definition sw_increment :: "stake_weights \<Rightarrow> stake_weights \<Rightarrow> ncn_error + stake_weights" where
  "sw_increment s other = increment_stake_weight s (sw_weight other)"

definition sw_decrement :: "stake_weights \<Rightarrow> stake_weights \<Rightarrow> ncn_error + stake_weights" where
  "sw_decrement s other = decrement_stake_weight s (sw_weight other)"

definition sw_snapshot :: "u128 \<Rightarrow> ncn_error + stake_weights" where
  "sw_snapshot w = increment_stake_weight sw_default w"

lemma sw_increment_Inr:
  "sw_increment s x = Inr t \<longleftrightarrow> unat (sw_weight t) = unat (sw_weight s) + unat (sw_weight x)"
  by (cases s; cases t) (auto simp: sw_increment_def increment_stake_weight_def arith_simps)

lemma sw_increment_Inl:
  "sw_increment s x = Inl e \<longleftrightarrow>
     e = ArithmeticOverflow \<and> 2 ^ 128 \<le> unat (sw_weight s) + unat (sw_weight x)"
  by (auto simp: sw_increment_def increment_stake_weight_def arith_simps try_bind_eq_Inl)

lemma sw_decrement_Inr:
  "sw_decrement s x = Inr t \<longleftrightarrow> unat (sw_weight s) = unat (sw_weight x) + unat (sw_weight t)"
  by (cases s; cases t) (auto simp: sw_decrement_def decrement_stake_weight_def arith_simps)

lemma sw_snapshot_eq [simp]: "sw_snapshot w = Inr (sw_new w)"
  using unat_lt_length [of w]
  by (simp add: sw_snapshot_def increment_stake_weight_def sw_default_def sw_new_def
      checked_add_def)

end
