(* ===== verification/Precise.thy ===== *)
theory Precise
  imports Constants
begin

text \<open>
  The operations of \<open>spl_math\<close>'s \<open>PreciseNumber\<close> the program calls, as a parameter of the
  model: the crate is not part of the repository.  What its documentation promises is
  \<open>precise_laws\<close>: a 128-bit integer embeds and reads back, and subtraction is exact.
  \<open>precise_u128\<close> is an instance of these laws.  \<open>precise_consensus\<close> is the only use in
  \<open>core/src/constants.rs\<close>.
\<close>

record 'p precise_ops =
  pn_new :: "u128 \<Rightarrow> 'p option"
  pn_checked_sub :: "'p \<Rightarrow> 'p \<Rightarrow> 'p option"
  pn_checked_div :: "'p \<Rightarrow> 'p \<Rightarrow> 'p option"
  pn_to_imprecise :: "'p \<Rightarrow> u128 option"

definition precise_laws :: "'p precise_ops \<Rightarrow> bool" where
  "precise_laws P \<longleftrightarrow>
     (\<forall>a. \<exists>p. pn_new P a = Some p \<and> pn_to_imprecise P p = Some a) \<and>
     (\<forall>a b p q. pn_new P a = Some p \<and> pn_new P b = Some q \<longrightarrow>
        (if b \<le> a then \<exists>r. pn_checked_sub P p q = Some r \<and> pn_to_imprecise P r = Some (a - b)
         else pn_checked_sub P p q = None))"

definition precise_u128 :: "u128 precise_ops" where
  "precise_u128 = \<lparr>pn_new = Some, pn_checked_sub = checked_sub, pn_checked_div = checked_div,
     pn_to_imprecise = Some\<rparr>"

lemma precise_u128_laws: "precise_laws precise_u128"
  by (simp add: precise_laws_def precise_u128_def checked_sub_def)

lemma precise_newE:
  assumes "precise_laws P"
  obtains p where "pn_new P a = Some p" "pn_to_imprecise P p = Some a"
  using assms unfolding precise_laws_def by blast

lemma precise_subE:
  assumes "precise_laws P" "pn_new P a = Some p" "pn_new P b = Some q" "b \<le> a"
  obtains r where "pn_checked_sub P p q = Some r" "pn_to_imprecise P r = Some (a - b)"
  using assms unfolding precise_laws_def by (metis (no_types, lifting))

lemma precise_sub_None:
  "precise_laws P \<Longrightarrow> pn_new P a = Some p \<Longrightarrow> pn_new P b = Some q \<Longrightarrow> a < b \<Longrightarrow>
     pn_checked_sub P p q = None"
  unfolding precise_laws_def by (metis (no_types, lifting) linorder_not_less)

definition PRECISE_CONSENSUS_NUMERATOR :: u128 where "PRECISE_CONSENSUS_NUMERATOR = 2"
definition PRECISE_CONSENSUS_DENOMINATOR :: u128 where "PRECISE_CONSENSUS_DENOMINATOR = 3"

definition precise_consensus :: "'p precise_ops \<Rightarrow> ncn_error + 'p" where
  "precise_consensus P =
     try_bind (ok_or NewPreciseNumberError (pn_new P PRECISE_CONSENSUS_NUMERATOR)) (\<lambda>n.
     try_bind (ok_or NewPreciseNumberError (pn_new P PRECISE_CONSENSUS_DENOMINATOR)) (\<lambda>d.
     ok_or DenominatorIsZero (pn_checked_div P n d)))"

end
