(* ===== verification/Snapshot.thy ===== *)
theory Snapshot
  imports Curve Stake_Weight Precise
begin

text \<open>
  The snapshot of an NCN's operator set (\<open>core/src/snapshot.rs\<close>): 256 operator entries, the
  running aggregate of the operators' G1 keys and the generation that ties certificates to an
  operator set.  The error type is \<open>program_error\<close> where the source can panic.
\<close>

subsection \<open>Vault contributions\<close>

record vault_contribution =
  vc_registry_slot :: u64
  vc_stake_weight :: stake_weights
  vc_next_epoch_stake_weight :: stake_weights

definition EMPTY_REGISTRY_SLOT :: u64 where "EMPTY_REGISTRY_SLOT = u64_max"

definition vault_contribution_new ::
  "u64 \<Rightarrow> stake_weights \<Rightarrow> stake_weights \<Rightarrow> vault_contribution" where
  "vault_contribution_new registry_slot stake_weight next_epoch_stake_weight =
     \<lparr>vc_registry_slot = registry_slot, vc_stake_weight = stake_weight,
      vc_next_epoch_stake_weight = next_epoch_stake_weight\<rparr>"

definition vault_contribution_default :: vault_contribution where
  "vault_contribution_default = \<lparr>vc_registry_slot = EMPTY_REGISTRY_SLOT,
     vc_stake_weight = sw_default, vc_next_epoch_stake_weight = sw_default\<rparr>"

definition vc_is_empty :: "vault_contribution \<Rightarrow> bool" where
  "vc_is_empty c \<longleftrightarrow> vc_registry_slot c = EMPTY_REGISTRY_SLOT"

subsection \<open>Operator entries\<close>

record operator_snapshot =
  os_operator :: pubkey
  os_g1_pubkey :: bytes32
  os_slot_created :: u64
  os_last_snapshot_slot :: u64
  os_is_active :: bool
  os_ncn_operator_index :: u64
  os_operator_index :: u64
  os_has_minimum_stake :: bool
  os_has_minimum_stake_next_epoch :: bool
  os_stake_weight :: stake_weights
  os_next_epoch_stake_weight :: stake_weights
  os_vault_contributions :: "vault_contribution list"

definition operator_snapshot_default :: operator_snapshot where
  "operator_snapshot_default =
     \<lparr>os_operator = default_pubkey, os_g1_pubkey = 0, os_slot_created = 0,
      os_last_snapshot_slot = 0, os_is_active = False, os_ncn_operator_index = u64_max,
      os_operator_index = u64_max, os_has_minimum_stake = False,
      os_has_minimum_stake_next_epoch = False, os_stake_weight = sw_default,
      os_next_epoch_stake_weight = sw_default,
      os_vault_contributions = replicate MAX_VAULTS vault_contribution_default\<rparr>"

definition operator_snapshot_new ::
  "pubkey \<Rightarrow> u64 \<Rightarrow> bool \<Rightarrow> u64 \<Rightarrow> u64 \<Rightarrow> bytes32 \<Rightarrow> ncn_error + operator_snapshot" where
  "operator_snapshot_new operator current_slot is_active ncn_operator_index operator_index g1_pubkey =
     Inr \<lparr>os_operator = operator, os_g1_pubkey = g1_pubkey, os_slot_created = current_slot,
      os_last_snapshot_slot = 0, os_is_active = is_active,
      os_ncn_operator_index = ncn_operator_index, os_operator_index = operator_index,
      os_has_minimum_stake = False, os_has_minimum_stake_next_epoch = False,
      os_stake_weight = sw_default, os_next_epoch_stake_weight = sw_default,
      os_vault_contributions = replicate MAX_VAULTS vault_contribution_default\<rparr>"

definition operator_snapshot_initialize ::
  "operator_snapshot \<Rightarrow> pubkey \<Rightarrow> u64 \<Rightarrow> bool \<Rightarrow> u64 \<Rightarrow> u64 \<Rightarrow> bytes32 \<Rightarrow> u64 \<Rightarrow>
   ncn_error + operator_snapshot" where
  "operator_snapshot_initialize s operator current_slot is_active ncn_operator_index operator_index
     g1_pubkey vault_operator_delegation_count =
     (if vault_operator_delegation_count > of_nat MAX_VAULTS then Inl TooManyVaultOperatorDelegations
      else Inr (s\<lparr>os_operator := operator, os_slot_created := current_slot,
        os_last_snapshot_slot := 0, os_is_active := is_active,
        os_ncn_operator_index := ncn_operator_index, os_operator_index := operator_index,
        os_g1_pubkey := g1_pubkey, os_has_minimum_stake := False,
        os_has_minimum_stake_next_epoch := False, os_stake_weight := sw_default,
        os_next_epoch_stake_weight := sw_default,
        os_vault_contributions := replicate MAX_VAULTS vault_contribution_default\<rparr>))"

definition have_valid_bn128_g1_pubkey :: "operator_snapshot \<Rightarrow> bool" where
  "have_valid_bn128_g1_pubkey s \<longleftrightarrow> os_g1_pubkey s \<noteq> 0"

definition has_minimum_stake_now :: "operator_snapshot \<Rightarrow> u64 \<Rightarrow> u64 \<Rightarrow> ncn_error + bool" where
  "has_minimum_stake_now s current_epoch snapshot_epoch =
     try_bind (ok_or ArithmeticUnderflowError (checked_sub current_epoch snapshot_epoch)) (\<lambda>epoch_diff.
     if epoch_diff = 0 then Inr (os_has_minimum_stake s)
     else if epoch_diff = 1 then Inr (os_has_minimum_stake_next_epoch s)
     else Inl OperatorSnapshotOutdated)"

text \<open>\<open>can_operator_vote\<close> of \<open>core/src/utils.rs\<close>.\<close>

definition can_operator_vote :: "operator_snapshot \<Rightarrow> bool" where
  "can_operator_vote s \<longleftrightarrow> os_is_active s \<and> os_has_minimum_stake s"

definition update_g1_pubkey :: "operator_snapshot \<Rightarrow> bytes32 \<Rightarrow> operator_snapshot" where
  "update_g1_pubkey s g1_pubkey = s\<lparr>os_g1_pubkey := g1_pubkey\<rparr>"

text \<open>The upsert of a contribution: the slot of the same vault, else the first empty one.\<close>

definition upsert_contribution ::
  "vault_contribution \<Rightarrow> vault_contribution list \<Rightarrow> vault_contribution list option" where
  "upsert_contribution e cs =
     (case (case position (\<lambda>c. vc_registry_slot c = vc_registry_slot e) cs of
              Some i \<Rightarrow> Some i | None \<Rightarrow> position vc_is_empty cs) of
        None \<Rightarrow> None
      | Some i \<Rightarrow> Some (cs[i := e]))"

text \<open>The loop that recomputes the two totals.\<close>

fun sum_contributions ::
  "vault_contribution list \<Rightarrow> stake_weights \<Rightarrow> stake_weights \<Rightarrow> ncn_error + stake_weights \<times> stake_weights" where
  "sum_contributions [] tot next_epoch_total = Inr (tot, next_epoch_total)"
| "sum_contributions (c # cs) tot next_epoch_total =
     try_bind (sw_increment tot (vc_stake_weight c)) (\<lambda>tot.
     try_bind (sw_increment next_epoch_total (vc_next_epoch_stake_weight c)) (\<lambda>next_epoch_total.
     sum_contributions cs tot next_epoch_total))"

definition os_snapshot_delegation ::
  "operator_snapshot \<Rightarrow> u64 \<Rightarrow> u64 \<Rightarrow> stake_weights \<Rightarrow> stake_weights \<Rightarrow> stake_weights \<Rightarrow>
   ncn_error + operator_snapshot" where
  "os_snapshot_delegation s current_slot registry_slot stake_weights next_epoch_stake_weights
     minimum_stake =
     (if \<not> os_is_active s then Inl OperatorSnapshotIsNotActive
      else if registry_slot \<ge> of_nat MAX_VAULTS then Inl TooManyVaultOperatorDelegations
      else
        try_bind (ok_or TooManyVaultOperatorDelegations (upsert_contribution
          (vault_contribution_new registry_slot stake_weights next_epoch_stake_weights)
          (os_vault_contributions s))) (\<lambda>cs.
        try_bind (sum_contributions (filter (\<lambda>c. \<not> vc_is_empty c) cs) sw_default sw_default)
          (\<lambda>(tot, next_epoch_total).
        Inr (s\<lparr>os_vault_contributions := cs, os_stake_weight := tot,
          os_next_epoch_stake_weight := next_epoch_total,
          os_has_minimum_stake := sw_weight tot \<ge> sw_weight minimum_stake,
          os_has_minimum_stake_next_epoch := sw_weight next_epoch_total \<ge> sw_weight minimum_stake,
          os_last_snapshot_slot := current_slot\<rparr>))))"

text \<open>
  The vault program's delegation account, as far as the source reads it: its
  \<open>total_security()\<close> and \<open>cooling_down_amount()\<close>.
\<close>

record vault_operator_delegation =
  vod_total_security :: "program_error + u64"
  vod_cooling_down_amount :: u64

definition calculate_stake_weights ::
  "'p precise_ops \<Rightarrow> vault_operator_delegation \<Rightarrow> program_error + u128 \<times> u128" where
  "calculate_stake_weights P d =
     try_bind (vod_total_security d) (\<lambda>total_security.
     try_bind (lift_ncn (ok_or NewPreciseNumberError (pn_new P (ucast total_security)))) (\<lambda>precise_total.
     try_bind (lift_ncn (ok_or NewPreciseNumberError (pn_new P (ucast (vod_cooling_down_amount d)))))
       (\<lambda>precise_cooling.
     try_bind (lift_ncn (ok_or ArithmeticUnderflowError
       (pn_checked_sub P precise_total precise_cooling))) (\<lambda>precise_next.
     try_bind (lift_ncn (ok_or CastToImpreciseNumberError (pn_to_imprecise P precise_total))) (\<lambda>tot.
     try_bind (lift_ncn (ok_or CastToImpreciseNumberError (pn_to_imprecise P precise_next))) (\<lambda>next.
     Inr (tot, next)))))))"

subsection \<open>The snapshot\<close>

record snapshot =
  ss_ncn :: pubkey
  ss_bump :: u8
  ss_slot_created :: u64
  ss_operators_registered :: u64
  ss_operators_can_vote_count :: u64
  ss_total_aggregated_g1_pubkey :: bytes32
  ss_operator_snapshots :: "operator_snapshot list"
  ss_minimum_stake :: stake_weights
  ss_last_snapshot_slot :: u64
  ss_generation :: u64

definition OPERATOR_SNAPSHOT_SIZE :: nat where
  "OPERATOR_SNAPSHOT_SIZE = 32 + 32 + 8 + 8 + 1 + 8 + 8 + 1 + 1 + 16 + 16 + 16 * (8 + 16 + 16)"

definition SNAPSHOT_SIZE :: nat where
  "SNAPSHOT_SIZE = 8 + (32 + 1 + 8 + 8 + 8 + 32 + 256 * OPERATOR_SNAPSHOT_SIZE + 16 + 8 + 8)"

definition snapshot_new :: "pubkey \<Rightarrow> u8 \<Rightarrow> u64 \<Rightarrow> stake_weights \<Rightarrow> snapshot" where
  "snapshot_new ncn bump current_slot minimum_stake =
     \<lparr>ss_ncn = ncn, ss_bump = bump, ss_slot_created = current_slot, ss_operators_registered = 0,
      ss_operators_can_vote_count = 0, ss_total_aggregated_g1_pubkey = 0,
      ss_operator_snapshots = replicate MAX_OPERATORS operator_snapshot_default,
      ss_minimum_stake = minimum_stake, ss_last_snapshot_slot = 0, ss_generation = 0\<rparr>"

definition snapshot_initialize :: "snapshot \<Rightarrow> pubkey \<Rightarrow> u8 \<Rightarrow> u64 \<Rightarrow> stake_weights \<Rightarrow> snapshot" where
  "snapshot_initialize s ncn bump current_slot minimum_stake =
     s\<lparr>ss_ncn := ncn, ss_slot_created := current_slot, ss_last_snapshot_slot := 0, ss_bump := bump,
       ss_operators_registered := 0, ss_operators_can_vote_count := 0,
       ss_total_aggregated_g1_pubkey := 0,
       ss_operator_snapshots := replicate MAX_OPERATORS operator_snapshot_default,
       ss_minimum_stake := minimum_stake, ss_generation := 0\<rparr>"

definition set_last_snapshot_slot :: "snapshot \<Rightarrow> u64 \<Rightarrow> snapshot" where
  "set_last_snapshot_slot s slot = s\<lparr>ss_last_snapshot_slot := slot\<rparr>"

definition bump_generation :: "snapshot \<Rightarrow> ncn_error + snapshot" where
  "bump_generation s =
     try_bind (ok_or ArithmeticOverflow (checked_add (ss_generation s) 1)) (\<lambda>g.
     Inr (s\<lparr>ss_generation := g\<rparr>))"

definition increment_operator_registration :: "snapshot \<Rightarrow> u64 \<Rightarrow> ncn_error + snapshot" where
  "increment_operator_registration s current_slot =
     try_bind (ok_or ArithmeticOverflow (checked_add (ss_operators_registered s) 1)) (\<lambda>n.
     Inr (s\<lparr>ss_operators_registered := n, ss_last_snapshot_slot := current_slot\<rparr>))"

definition add_g1_pubkey_to_total_agg ::
  "syscalls \<Rightarrow> snapshot \<Rightarrow> bytes32 \<Rightarrow> ncn_error + snapshot" where
  "add_g1_pubkey_to_total_agg S s g1_pubkey =
     try_bind (ok_or InvalidG1Pubkey (sc_g1_decompress S g1_pubkey)) (\<lambda>_.
     if ss_total_aggregated_g1_pubkey s = 0 then Inr (s\<lparr>ss_total_aggregated_g1_pubkey := g1_pubkey\<rparr>)
     else
       try_bind (g1_decompress S (G1CompressedPoint (ss_total_aggregated_g1_pubkey s))) (\<lambda>tot.
       try_bind (g1_decompress S (G1CompressedPoint g1_pubkey)) (\<lambda>pk.
       try_bind (ok_or AltBN128AddError (g1_checked_add S tot pk)) (\<lambda>new_point.
       try_bind (g1_compress S new_point) (\<lambda>c.
       Inr (s\<lparr>ss_total_aggregated_g1_pubkey := g1c_bytes c\<rparr>))))))"

definition subtract_g1_pubkey_from_total_agg ::
  "syscalls \<Rightarrow> snapshot \<Rightarrow> bytes32 \<Rightarrow> program_error + snapshot" where
  "subtract_g1_pubkey_from_total_agg S s g1_pubkey =
     try_bind (lift_ncn (ok_or InvalidG1Pubkey (sc_g1_decompress S g1_pubkey))) (\<lambda>_.
     try_bind (lift_ncn (g1_decompress S (G1CompressedPoint (ss_total_aggregated_g1_pubkey s)))) (\<lambda>tot.
     try_bind (lift_ncn (g1_decompress S (G1CompressedPoint g1_pubkey))) (\<lambda>pk.
     try_bind (g1_negate pk) (\<lambda>neg.
     try_bind (lift_ncn (ok_or AltBN128AddError (g1_checked_add S tot neg))) (\<lambda>new_point.
     try_bind (lift_ncn (g1_compress S new_point)) (\<lambda>c.
     Inr (s\<lparr>ss_total_aggregated_g1_pubkey := g1c_bytes c\<rparr>)))))))"

definition register_operator_g1_pubkey ::
  "syscalls \<Rightarrow> snapshot \<Rightarrow> bytes32 \<Rightarrow> ncn_error + snapshot" where
  "register_operator_g1_pubkey S s operator_g1_pubkey = add_g1_pubkey_to_total_agg S s operator_g1_pubkey"

definition is_entry_of :: "pubkey \<Rightarrow> operator_snapshot \<Rightarrow> bool" where
  "is_entry_of operator e \<longleftrightarrow> os_operator e = operator \<and> os_ncn_operator_index e \<noteq> u64_max"

definition find_operator_snapshot :: "snapshot \<Rightarrow> pubkey \<Rightarrow> operator_snapshot option" where
  "find_operator_snapshot s operator = List.find (is_entry_of operator) (ss_operator_snapshots s)"

text \<open>\<open>find_mut_operator_snapshot\<close> and a write through it.\<close>

definition modify_operator_snapshot ::
  "snapshot \<Rightarrow> pubkey \<Rightarrow> (operator_snapshot \<Rightarrow> operator_snapshot) \<Rightarrow> snapshot" where
  "modify_operator_snapshot s operator f =
     (case position (is_entry_of operator) (ss_operator_snapshots s) of
        None \<Rightarrow> s
      | Some i \<Rightarrow> s\<lparr>ss_operator_snapshots :=
          (ss_operator_snapshots s)[i := f (ss_operator_snapshots s ! i)]\<rparr>)"

definition update_g1_operator_pubkey ::
  "syscalls \<Rightarrow> snapshot \<Rightarrow> bytes32 \<Rightarrow> pubkey \<Rightarrow> program_error + snapshot" where
  "update_g1_operator_pubkey S s operator_g1_pubkey operator =
     (let count = ss_operators_registered s in
      try_bind
        (if count = 0 then Inl (from_ncn NoOperatorsRegistered)
         else if count = 1 then
           Inr (modify_operator_snapshot (s\<lparr>ss_total_aggregated_g1_pubkey := operator_g1_pubkey\<rparr>)
             operator (\<lambda>e. update_g1_pubkey e operator_g1_pubkey))
         else if count < of_nat MAX_OPERATORS then
           (case map_option os_g1_pubkey (find_operator_snapshot s operator) of
              Some old_pubkey \<Rightarrow>
                try_bind (subtract_g1_pubkey_from_total_agg S s old_pubkey) (\<lambda>s.
                lift_ncn (add_g1_pubkey_to_total_agg S
                  (modify_operator_snapshot s operator (\<lambda>e. update_g1_pubkey e operator_g1_pubkey))
                  operator_g1_pubkey))
            | None \<Rightarrow> Inr s)
         else Inl (from_ncn InvalidOperatorCount))
        (\<lambda>s. lift_ncn (bump_generation s)))"

definition get_operator_snapshot :: "snapshot \<Rightarrow> u64 \<Rightarrow> program_error + operator_snapshot option" where
  "get_operator_snapshot s ncn_operator_index =
     (if ncn_operator_index \<ge> ss_operators_registered s then Inr None
      else if unat ncn_operator_index < length (ss_operator_snapshots s)
      then Inr (Some (ss_operator_snapshots s ! unat ncn_operator_index))
      else Inl PE_Panic)"

definition add_operator_snapshot ::
  "snapshot \<Rightarrow> operator_snapshot \<Rightarrow> u64 \<Rightarrow> ncn_error + snapshot" where
  "add_operator_snapshot s e slot =
     (let operator_index = os_ncn_operator_index e in
      if operator_index \<ge> of_nat MAX_OPERATORS then Inl TooManyVaultOperatorDelegations
      else if os_ncn_operator_index (ss_operator_snapshots s ! unat operator_index) \<noteq> u64_max
      then Inl DuplicateVaultOperatorDelegation
      else
        try_bind (increment_operator_registration
          (s\<lparr>ss_operator_snapshots := (ss_operator_snapshots s)[unat operator_index := e]\<rparr>) slot)
          bump_generation)"

definition remove_operator_snapshot ::
  "syscalls \<Rightarrow> snapshot \<Rightarrow> pubkey \<Rightarrow> program_error + snapshot \<times> u64" where
  "remove_operator_snapshot S s operator =
     try_bind (lift_ncn (ok_or OperatorIsNotInSnapshot (find_operator_snapshot s operator))) (\<lambda>e.
     let index = os_ncn_operator_index e; g1_pubkey = os_g1_pubkey e in
     try_bind (if g1_pubkey \<noteq> 0 then subtract_g1_pubkey_from_total_agg S s g1_pubkey else Inr s) (\<lambda>s.
     if unat index < length (ss_operator_snapshots s) then
       try_bind (lift_ncn (bump_generation (s\<lparr>ss_operator_snapshots :=
         (ss_operator_snapshots s)[unat index := operator_snapshot_default]\<rparr>))) (\<lambda>s.
       Inr (s, index))
     else Inl PE_Panic))"

definition get_active_operator_snapshots :: "snapshot \<Rightarrow> operator_snapshot list" where
  "get_active_operator_snapshots s =
     filter (\<lambda>e. os_ncn_operator_index e \<noteq> u64_max \<and> os_is_active e) (ss_operator_snapshots s)"

definition update_operator_snapshot ::
  "snapshot \<Rightarrow> nat \<Rightarrow> operator_snapshot \<Rightarrow> program_error + snapshot" where
  "update_operator_snapshot s operator_index e =
     (if operator_index < length (ss_operator_snapshots s)
      then Inr (s\<lparr>ss_operator_snapshots := (ss_operator_snapshots s)[operator_index := e]\<rparr>)
      else Inl PE_Panic)"

subsection \<open>Contributions as a keyed table\<close>

abbreviation vc_occupied :: "vault_contribution \<Rightarrow> bool" where "vc_occupied c \<equiv> \<not> vc_is_empty c"

definition contribution_put ::
  "vault_contribution \<Rightarrow> vault_contribution list \<Rightarrow> vault_contribution list option" where
  "contribution_put e cs = (if vc_is_empty e then None else upsert_contribution e cs)"

interpretation contribution_table: slot_table vc_occupied vc_registry_slot contribution_put
proof
  fix e xs ys
  assume "contribution_put e xs = Some ys"
  then have occ: "vc_occupied e" and up: "upsert_contribution e xs = Some ys"
    by (auto simp: contribution_put_def split: if_splits)
  show "\<exists>i < length xs. ys = xs[i := e] \<and>
       (vc_occupied (xs ! i) \<longrightarrow> vc_registry_slot (xs ! i) = vc_registry_slot e) \<and>
       (keyed vc_occupied vc_registry_slot xs \<longrightarrow>
         (\<forall>j < length xs. j \<noteq> i \<and> vc_occupied (xs ! j) \<longrightarrow> vc_registry_slot (xs ! j) \<noteq> vc_registry_slot e))"
  proof (cases "position (\<lambda>c. vc_registry_slot c = vc_registry_slot e) xs")
    case None
    with up obtain i where i: "position vc_is_empty xs = Some i" "ys = xs[i := e]"
      by (auto simp: upsert_contribution_def split: option.splits)
    have "\<forall>x \<in> set xs. vc_registry_slot x \<noteq> vc_registry_slot e"
      using None by (simp add: position_None_iff)
    with i position_SomeD [OF i(1)] show ?thesis by (intro exI [of _ i]) auto
  next
    case (Some i)
    with up have ys: "ys = xs[i := e]" by (simp add: upsert_contribution_def)
    from position_SomeD [OF Some] have i: "i < length xs" "vc_registry_slot (xs ! i) = vc_registry_slot e"
      by auto
    then have "vc_occupied (xs ! i)" using occ by (simp add: vc_is_empty_def)
    with i ys show ?thesis by (intro exI [of _ i]) (auto simp: keyed_def)
  qed
qed

lemma upsert_full_room:
  assumes len: "length cs = MAX_VAULTS" and keyed: "keyed vc_occupied vc_registry_slot cs"
    and slots: "\<forall>c \<in> set cs. vc_occupied c \<longrightarrow> vc_registry_slot c < of_nat MAX_VAULTS"
    and e: "vc_registry_slot e < of_nat MAX_VAULTS"
  shows "upsert_contribution e cs \<noteq> None"
proof
  assume "upsert_contribution e cs = None"
  then have none: "\<forall>c \<in> set cs. vc_registry_slot c \<noteq> vc_registry_slot e" "\<forall>c \<in> set cs. vc_occupied c"
    by (auto simp: upsert_contribution_def position_None_iff split: option.splits)
  have "inj_on (\<lambda>i. unat (vc_registry_slot (cs ! i))) {..<length cs}"
    using keyed none(2) by (simp add: inj_on_def keyed_def flip: word_unat_eq_iff)
  then have "card ((\<lambda>i. unat (vc_registry_slot (cs ! i))) ` {..<length cs}) = MAX_VAULTS"
    by (simp add: card_image len)
  moreover have "(\<lambda>i. unat (vc_registry_slot (cs ! i))) ` {..<length cs} \<subseteq>
      {..<MAX_VAULTS} - {unat (vc_registry_slot e)}"
    using slots none by (auto simp: MAX_VAULTS_def word_less_nat_alt word_unat_eq_iff)
  then have "card ((\<lambda>i. unat (vc_registry_slot (cs ! i))) ` {..<length cs}) \<le> MAX_VAULTS - 1"
    using e by (auto dest!: card_mono [rotated] simp: MAX_VAULTS_def word_less_nat_alt)
  ultimately show False by (simp add: MAX_VAULTS_def)
qed

subsection \<open>Totals\<close>

definition stake_sum :: "vault_contribution list \<Rightarrow> nat" where
  "stake_sum cs = (\<Sum>c \<leftarrow> filter vc_occupied cs. unat (sw_weight (vc_stake_weight c)))"

definition next_stake_sum :: "vault_contribution list \<Rightarrow> nat" where
  "next_stake_sum cs = (\<Sum>c \<leftarrow> filter vc_occupied cs. unat (sw_weight (vc_next_epoch_stake_weight c)))"

lemma sum_contributions_Inr:
  "sum_contributions cs t n = Inr (t', n') \<longleftrightarrow>
     unat (sw_weight t') = unat (sw_weight t) + (\<Sum>c \<leftarrow> cs. unat (sw_weight (vc_stake_weight c))) \<and>
     unat (sw_weight n') = unat (sw_weight n) + (\<Sum>c \<leftarrow> cs. unat (sw_weight (vc_next_epoch_stake_weight c)))"
proof (induction cs arbitrary: t n)
  case Nil
  then show ?case by (cases t; cases n; cases t'; cases n') (auto simp: word_unat_eq_iff)
next
  case (Cons c cs)
  have ex: "\<exists>w :: stake_weights. unat (sw_weight w) = k" if "k \<le> unat (sw_weight v)" for k and v :: stake_weights
  proof -
    have "k < 2 ^ 128" using that unat_lt_length [of "sw_weight v"] by simp
    then have "unat (of_nat k :: u128) = k" by (simp add: unat_of_nat take_bit_nat_eq_self)
    then show ?thesis by (intro exI [of _ "sw_new (of_nat k)"]) (simp add: sw_new_def)
  qed
  show ?case (is "_ \<longleftrightarrow> ?r")
  proof
    assume "sum_contributions (c # cs) t n = Inr (t', n')"
    then show ?r by (auto simp: sw_increment_Inr Cons.IH)
  next
    assume r: ?r
    obtain t1 :: stake_weights where "unat (sw_weight t1) = unat (sw_weight t) + unat (sw_weight (vc_stake_weight c))"
      using r ex [of "unat (sw_weight t) + unat (sw_weight (vc_stake_weight c))" t'] by auto
    moreover obtain n1 :: stake_weights where
      "unat (sw_weight n1) = unat (sw_weight n) + unat (sw_weight (vc_next_epoch_stake_weight c))"
      using r ex [of "unat (sw_weight n) + unat (sw_weight (vc_next_epoch_stake_weight c))" n'] by auto
    ultimately have "sw_increment t (vc_stake_weight c) = Inr t1"
      "sw_increment n (vc_next_epoch_stake_weight c) = Inr n1"
      "sum_contributions cs t1 n1 = Inr (t', n')"
      using r by (simp_all add: sw_increment_Inr Cons.IH)
    then show "sum_contributions (c # cs) t n = Inr (t', n')" by simp
  qed
qed

text \<open>What a well-formed operator entry satisfies.\<close>

definition entry_ok :: "operator_snapshot \<Rightarrow> bool" where
  "entry_ok s \<longleftrightarrow>
     length (os_vault_contributions s) = MAX_VAULTS \<and>
     keyed vc_occupied vc_registry_slot (os_vault_contributions s) \<and>
     (\<forall>c \<in> set (os_vault_contributions s). vc_occupied c \<longrightarrow> vc_registry_slot c < of_nat MAX_VAULTS) \<and>
     unat (sw_weight (os_stake_weight s)) = stake_sum (os_vault_contributions s) \<and>
     unat (sw_weight (os_next_epoch_stake_weight s)) = next_stake_sum (os_vault_contributions s)"

definition contributions_of :: "operator_snapshot \<Rightarrow> u64 \<rightharpoonup> stake_weights \<times> stake_weights" where
  "contributions_of s k = map_option (\<lambda>c. (vc_stake_weight c, vc_next_epoch_stake_weight c))
     (table_lookup vc_occupied vc_registry_slot (os_vault_contributions s) k)"

lemma entry_ok_new:
  "operator_snapshot_new op slot act i j g = Inr e \<Longrightarrow> entry_ok e"
  "entry_ok operator_snapshot_default"
  by (auto simp: operator_snapshot_new_def operator_snapshot_default_def entry_ok_def keyed_def
      vault_contribution_default_def vc_is_empty_def stake_sum_def next_stake_sum_def sw_default_def)

subsection \<open>Recording a delegation\<close>

lemma vault_slot_occupied: "k < of_nat MAX_VAULTS \<Longrightarrow> k \<noteq> (u64_max :: u64)"
  by (auto simp: MAX_VAULTS_def)

lemma os_snapshot_delegation_step:
  assumes ok: "entry_ok s"
    and rec: "os_snapshot_delegation s slot k w nw minimum = Inr s'"
  shows "entry_ok s'" "contributions_of s' = (contributions_of s)(k \<mapsto> (w, nw))"
proof -
  define e where "e = vault_contribution_new k w nw"
  from rec obtain cs t n where k: "k < of_nat MAX_VAULTS" and up: "upsert_contribution e (os_vault_contributions s) = Some cs"
    and sum: "sum_contributions (filter vc_occupied cs) sw_default sw_default = Inr (t, n)"
    and s': "os_vault_contributions s' = cs" "os_stake_weight s' = t" "os_next_epoch_stake_weight s' = n"
    by (auto simp: os_snapshot_delegation_def e_def split: if_splits)
  have occ: "vc_occupied e" "vc_registry_slot e = k"
    "vc_stake_weight e = w" "vc_next_epoch_stake_weight e = nw"
    using vault_slot_occupied [OF k]
    by (simp_all add: e_def vault_contribution_new_def vc_is_empty_def EMPTY_REGISTRY_SLOT_def)
  then have put: "contribution_put e (os_vault_contributions s) = Some cs"
    using up by (simp add: contribution_put_def)
  have keyed: "keyed vc_occupied vc_registry_slot (os_vault_contributions s)"
    using ok by (simp add: entry_ok_def)
  show "entry_ok s'"
    using ok contribution_table.put_length [OF put] contribution_table.put_keyed [OF put keyed]
      contribution_table.put_set_subset [OF put] sum k occ s'
    by (auto simp: entry_ok_def stake_sum_def next_stake_sum_def sum_contributions_Inr sw_default_def)
  have "table_lookup vc_occupied vc_registry_slot cs =
      (table_lookup vc_occupied vc_registry_slot (os_vault_contributions s))(k \<mapsto> e)"
    using contribution_table.put_lookup [OF put keyed occ(1)] occ(2) by simp
  then show "contributions_of s' = (contributions_of s)(k \<mapsto> (w, nw))"
    by (auto simp: contributions_of_def s' occ fun_eq_iff)
qed

text \<open>
  C24: Recording a vault's delegation for an active operator replaces that vault's contribution
  and no other, so repeating it counts the vault once; both totals are the sums over all
  recorded vaults, the minimum-stake flags compare them with the minimum, and identity, key and
  index of the operator are untouched.  It fails only for an inactive operator, a registry slot
  of 16 or more, or a total over 128 bits; the table never overflows.
\<close>

theorem os_snapshot_delegation_spec:
  assumes ok: "entry_ok s"
  shows "case os_snapshot_delegation s slot k w nw minimum of
      Inr s' \<Rightarrow> entry_ok s' \<and> contributions_of s' = (contributions_of s)(k \<mapsto> (w, nw)) \<and>
        unat (sw_weight (os_stake_weight s')) = stake_sum (os_vault_contributions s') \<and>
        unat (sw_weight (os_next_epoch_stake_weight s')) = next_stake_sum (os_vault_contributions s') \<and>
        (os_has_minimum_stake s' \<longleftrightarrow> sw_weight minimum \<le> sw_weight (os_stake_weight s')) \<and>
        (os_has_minimum_stake_next_epoch s' \<longleftrightarrow>
           sw_weight minimum \<le> sw_weight (os_next_epoch_stake_weight s')) \<and>
        os_last_snapshot_slot s' = slot \<and> os_operator s' = os_operator s \<and>
        os_g1_pubkey s' = os_g1_pubkey s \<and> os_ncn_operator_index s' = os_ncn_operator_index s
    | Inl e \<Rightarrow> e = OperatorSnapshotIsNotActive \<and> \<not> os_is_active s \<or>
        e = TooManyVaultOperatorDelegations \<and> 16 \<le> k \<or> e = ArithmeticOverflow"
proof (cases "os_snapshot_delegation s slot k w nw minimum")
  case (Inr s')
  then show ?thesis
    using os_snapshot_delegation_step [OF ok Inr]
    by (auto simp: os_snapshot_delegation_def entry_ok_def split: if_splits)
next
  case (Inl e)
  have sum_err: "sum_contributions cs t n = Inl err \<Longrightarrow> err = ArithmeticOverflow" for cs t n err
    by (induction cs arbitrary: t n) (auto simp: try_bind_eq_Inl sw_increment_Inl)
  have "upsert_contribution (vault_contribution_new k w nw) (os_vault_contributions s) \<noteq> None"
    if "k < of_nat MAX_VAULTS"
    using that ok by (intro upsert_full_room) (simp_all add: entry_ok_def vault_contribution_new_def)
  then show ?thesis
    using Inl sum_err
    by (auto simp: os_snapshot_delegation_def try_bind_eq_Inl MAX_VAULTS_def linorder_not_le
        split: if_splits)
qed

lemma replicate_update_0: "n \<noteq> 0 \<Longrightarrow> (replicate n x)[0 := y] = y # replicate (n - 1) x"
  by (cases n) simp_all

definition sample_entry :: operator_snapshot where
  "sample_entry = operator_snapshot_default\<lparr>os_operator := 3, os_g1_pubkey := 1, os_is_active := True,
     os_ncn_operator_index := 0, os_operator_index := 0\<rparr>"

lemma sample_entry_ok: "entry_ok sample_entry"
  using entry_ok_new(2) by (simp add: entry_ok_def sample_entry_def)

theorem os_snapshot_delegation_spec_witness:
  "\<exists>s'. os_snapshot_delegation sample_entry 50 2 (sw_new 700) (sw_new 600) (sw_new 500) = Inr s' \<and>
     contributions_of s' 2 = Some (sw_new 700, sw_new 600) \<and> os_has_minimum_stake s'"
proof -
  have up: "upsert_contribution (vault_contribution_new 2 (sw_new 700) (sw_new 600))
      (os_vault_contributions sample_entry) =
    Some ((replicate 16 vault_contribution_default)[0 := vault_contribution_new 2 (sw_new 700) (sw_new 600)])"
    by (simp add: upsert_contribution_def sample_entry_def operator_snapshot_default_def MAX_VAULTS_def
        vault_contribution_default_def vault_contribution_new_def EMPTY_REGISTRY_SLOT_def vc_is_empty_def)
  have "filter vc_occupied ((replicate 16 vault_contribution_default)
      [0 := vault_contribution_new 2 (sw_new 700) (sw_new 600)]) =
    [vault_contribution_new 2 (sw_new 700) (sw_new 600)]"
    by (simp add: replicate_update_0 vault_contribution_default_def vault_contribution_new_def
        vc_is_empty_def EMPTY_REGISTRY_SLOT_def)
  with up have "os_snapshot_delegation sample_entry 50 2 (sw_new 700) (sw_new 600) (sw_new 500) \<noteq> Inl e" for e
    by (simp add: os_snapshot_delegation_def sample_entry_def operator_snapshot_default_def
        MAX_VAULTS_def vault_contribution_new_def sw_default_def sw_new_def sw_increment_def
        increment_stake_weight_def checked_add_def)
  then obtain s' where s': "os_snapshot_delegation sample_entry 50 2 (sw_new 700) (sw_new 600) (sw_new 500) = Inr s'"
    by (meson sumE)
  have "os_has_minimum_stake s'"
    using s' up \<open>filter vc_occupied _ = _\<close>
    by (auto simp: os_snapshot_delegation_def vault_contribution_new_def sw_default_def sw_new_def
        sw_increment_def increment_stake_weight_def checked_add_def split: if_splits)
  with s' os_snapshot_delegation_spec [OF sample_entry_ok, where slot = 50 and k = 2
      and w = "sw_new 700" and nw = "sw_new 600" and minimum = "sw_new 500"]
  show ?thesis by auto
qed

subsection \<open>Delegated stake\<close>

lemma calculate_stake_weights_eq:
  assumes laws: "precise_laws P" and t: "vod_total_security d = Inr t"
  shows "calculate_stake_weights P d =
    (if vod_cooling_down_amount d \<le> t then Inr (ucast t, ucast t - ucast (vod_cooling_down_amount d))
     else Inl (from_ncn ArithmeticUnderflowError))"
proof -
  let ?c = "vod_cooling_down_amount d"
  have le: "(ucast ?c :: u128) \<le> ucast t \<longleftrightarrow> ?c \<le> t"
    by (simp add: word_le_nat_alt unat_ucast_up)
  obtain p where p: "pn_new P (ucast t) = Some p" "pn_to_imprecise P p = Some (ucast t)"
    using precise_newE [OF laws] by blast
  obtain q where q: "pn_new P (ucast ?c) = Some q"
    using precise_newE [OF laws] by blast
  show ?thesis
  proof (cases "?c \<le> t")
    case True
    then obtain r where "pn_checked_sub P p q = Some r"
      "pn_to_imprecise P r = Some (ucast t - ucast ?c)"
      using precise_subE [OF laws p(1) q] le by blast
    with True show ?thesis by (simp add: calculate_stake_weights_def t p q)
  next
    case False
    then have "pn_checked_sub P p q = None"
      using precise_sub_None [OF laws p(1) q] le by (simp add: linorder_not_le [symmetric])
    with False show ?thesis by (simp add: calculate_stake_weights_def t p q)
  qed
qed

text \<open>
  The stake recorded for a delegation is its total security, and for the next epoch the
  total less what is cooling down; a delegation cooling down more than its total is an
  underflow error, never a wrap.
\<close>

theorem calculate_stake_weights_spec:
  assumes laws: "precise_laws P" and t: "vod_total_security d = Inr t"
  shows "calculate_stake_weights P d =
    (if vod_cooling_down_amount d \<le> t then Inr (ucast t, ucast t - ucast (vod_cooling_down_amount d))
     else Inl (from_ncn ArithmeticUnderflowError))"
  by (rule calculate_stake_weights_eq [OF assms])

theorem calculate_stake_weights_spec_witness:
  "calculate_stake_weights precise_u128 \<lparr>vod_total_security = Inr 100, vod_cooling_down_amount = 30\<rparr> =
     Inr (100, 70)"
  using calculate_stake_weights_spec [OF precise_u128_laws,
      of "\<lparr>vod_total_security = Inr 100, vod_cooling_down_amount = 30\<rparr>" 100] by simp

end
