(* ===== verification/Bls_Group.thy ===== *)
theory Bls_Group
  imports Curve
begin

text \<open>
  What the documentation of the curve syscalls promises, as a named hypothesis: the points of
  both groups are the multiples of a generator of prime order, the syscalls compute in the
  exponents, and the pairing of two pairs is one exactly when the products of the exponents
  cancel.  Under it the BLS checks of \<open>g2_point.rs\<close> are equations between exponents.
\<close>

record bls_group =
  bg_order :: nat
  bg_e1 :: "nat \<Rightarrow> bytes64"
  bg_c1 :: "nat \<Rightarrow> bytes32"
  bg_e2 :: "nat \<Rightarrow> bytes128"
  bg_c2 :: "nat \<Rightarrow> bytes64"

definition bls_laws :: "syscalls \<Rightarrow> bls_group \<Rightarrow> bool" where
  "bls_laws S G \<longleftrightarrow>
     1 < bg_order G \<and>
     (\<forall>j k. bg_e1 G j = bg_e1 G k \<longleftrightarrow> j mod bg_order G = k mod bg_order G) \<and>
     bg_e1 G 0 = 0 \<and> bg_e1 G 1 = G1_GENERATOR \<and> bg_c1 G 0 = 0 \<and>
     bg_e2 G (bg_order G - 1) = G2_MINUS_ONE \<and>
     (\<forall>k. sc_g1_compress S (bg_e1 G k) = Some (bg_c1 G k)) \<and>
     (\<forall>k. sc_g1_decompress S (bg_c1 G k) = Some (bg_e1 G k)) \<and>
     (\<forall>c p. sc_g1_decompress S c = Some p \<longrightarrow> (\<exists>k. p = bg_e1 G k)) \<and>
     (\<forall>k. sc_g2_decompress S (bg_c2 G k) = Some (bg_e2 G k)) \<and>
     (\<forall>j k. sc_addition S (b64 (bg_e1 G j) @ b64 (bg_e1 G k)) = Some (b64 (bg_e1 G (j + k)))) \<and>
     (\<forall>k s. sc_multiplication S (b64 (bg_e1 G k) @ b32 s) = Some (b64 (bg_e1 G (k * unat s)))) \<and>
     (\<forall>k. g1_y (G1Point (bg_e1 G k)) < MODULUS) \<and>
     (\<forall>j k. (j + k) mod bg_order G = 0 \<longrightarrow>
        g1_x (G1Point (bg_e1 G j)) = g1_x (G1Point (bg_e1 G k)) \<and>
        (g1_y (G1Point (bg_e1 G j)) + g1_y (G1Point (bg_e1 G k))) mod MODULUS = 0) \<and>
     (\<forall>a b c d. sc_pairing S (b64 (bg_e1 G a) @ b128 (bg_e2 G b) @ b64 (bg_e1 G c) @ b128 (bg_e2 G d)) =
        Some (if (a * b + c * d) mod bg_order G = 0 then BN128_ADDITION_SUCESS_RESULT
              else replicate 32 0))"

lemma bls_orderD: "bls_laws S G \<Longrightarrow> 1 < bg_order G"
  by (simp add: bls_laws_def)

lemma bls_e1_eq: "bls_laws S G \<Longrightarrow> bg_e1 G j = bg_e1 G k \<longleftrightarrow> j mod bg_order G = k mod bg_order G"
  by (simp add: bls_laws_def)

lemma bls_zero: "bls_laws S G \<Longrightarrow> bg_e1 G 0 = 0" "bls_laws S G \<Longrightarrow> bg_c1 G 0 = 0"
  by (simp_all add: bls_laws_def)

lemma bls_generator: "bls_laws S G \<Longrightarrow> G1_GENERATOR = bg_e1 G 1"
  by (simp add: bls_laws_def)

lemma bls_minus_one: "bls_laws S G \<Longrightarrow> G2_MINUS_ONE = bg_e2 G (bg_order G - 1)"
  by (simp add: bls_laws_def)

lemma bls_compress: "bls_laws S G \<Longrightarrow> sc_g1_compress S (bg_e1 G k) = Some (bg_c1 G k)"
  by (simp add: bls_laws_def)

lemma bls_decompress: "bls_laws S G \<Longrightarrow> sc_g1_decompress S (bg_c1 G k) = Some (bg_e1 G k)"
  by (simp add: bls_laws_def)

lemma bls_decompressD:
  assumes "bls_laws S G" "sc_g1_decompress S c = Some p"
  obtains k where "p = bg_e1 G k"
  using assms unfolding bls_laws_def by blast

lemma bls_decompress2: "bls_laws S G \<Longrightarrow> sc_g2_decompress S (bg_c2 G k) = Some (bg_e2 G k)"
  by (simp add: bls_laws_def)

lemma try_into_b64: "try_into_array (b64 w) = Some w"
  by (simp add: try_into_array_be_bytes)

lemma bls_add:
  "bls_laws S G \<Longrightarrow> g1_checked_add S (G1Point (bg_e1 G j)) (G1Point (bg_e1 G k)) =
     Some (G1Point (bg_e1 G (j + k)))"
  by (simp add: bls_laws_def g1_checked_add_def try_into_b64)

lemma bls_mul:
  "bls_laws S G \<Longrightarrow> g1_mul S (G1Point (bg_e1 G k)) s = Inr (G1Point (bg_e1 G (k * unat s)))"
  by (simp add: bls_laws_def g1_mul_def try_into_b64)

lemma mod_neg_iff:
  assumes "0 < (r :: nat)"
  shows "(x + c * (r - 1)) mod r = 0 \<longleftrightarrow> x mod r = c mod r"
proof -
  obtain m where m: "r = Suc m" using assms gr0_implies_Suc by blast
  have "(x + c * (r - 1)) mod r = 0 \<longleftrightarrow> int r dvd int (x + c * (r - 1))"
    by (simp only: int_dvd_int_iff mod_0_imp_dvd mod_eq_0_iff_dvd)
  also have "int (x + c * (r - 1)) = (int x - int c) + int c * int r"
    by (simp add: m algebra_simps)
  also have "int r dvd (int x - int c) + int c * int r \<longleftrightarrow> int r dvd int x - int c"
    by (simp add: dvd_add_left_iff)
  also have "\<dots> \<longleftrightarrow> x mod r = c mod r"
    by (simp add: mod_eq_dvd_iff [symmetric] flip: zmod_int)
  finally show ?thesis .
qed

lemma bls_pairing:
  assumes "bls_laws S G"
  shows "pairing_check S (bg_e1 G a) (bg_e2 G b) (bg_e1 G c) =
    (if (a * b) mod bg_order G = c mod bg_order G then Inr () else Inl BLSVerificationError)"
proof -
  have "sc_pairing S (pairing_input (bg_e1 G a) (bg_e2 G b) (bg_e1 G c)) =
      Some (if (a * b + c * (bg_order G - 1)) mod bg_order G = 0 then BN128_ADDITION_SUCESS_RESULT
            else replicate 32 0)"
    using assms by (simp add: pairing_input_def bls_minus_one [OF assms] bls_laws_def)
  moreover have "replicate 32 0 \<noteq> BN128_ADDITION_SUCESS_RESULT"
    by (simp add: BN128_ADDITION_SUCESS_RESULT_def numeral_eq_Suc)
  ultimately show ?thesis
    using mod_neg_iff [of "bg_order G" "a * b" c] bls_orderD [OF assms]
    by (simp add: pairing_check_def)
qed

definition bls_neg :: "bls_group \<Rightarrow> nat \<Rightarrow> nat" where
  "bls_neg G k = k * (bg_order G - 1)"

lemma bls_neg_cancel: "bls_laws S G \<Longrightarrow> (k + bls_neg G k) mod bg_order G = 0"
  using mod_neg_iff [of "bg_order G" k k] bls_orderD [of S G] by (auto simp: bls_neg_def)

lemma bls_negate:
  assumes L: "bls_laws S G"
  shows "g1_negate (G1Point (bg_e1 G k)) = Inr (G1Point (bg_e1 G (bls_neg G k)))"
proof -
  let ?p = "G1Point (bg_e1 G k)" and ?n = "G1Point (bg_e1 G (bls_neg G k))"
  have y: "g1_y (G1Point (bg_e1 G j)) < MODULUS" for j using L by (simp add: bls_laws_def)
  have n: "g1_x ?p = g1_x ?n" "(g1_y ?p + g1_y ?n) mod MODULUS = 0"
    using L bls_neg_cancel [OF L, of k] by (simp_all add: bls_laws_def)
  obtain q where q: "g1_negate ?p = Inr q" "g1_x q = g1_x ?p" "g1_y q < MODULUS"
    "(g1_y ?p + g1_y q) mod MODULUS = 0"
    using g1_negate_reduced [OF y, of k] by (elim exE conjE) rule
  have "g1_y q = g1_y ?n"
    using inverse_coordinate_unique [OF q(3) y q(4) n(2)] .
  then have "q = ?n" using q(2) n(1) by (metis g1_of_xy_eta)
  with q(1) show ?thesis by simp
qed

subsection \<open>The checks in the exponent\<close>

lemma bls_verify_signature:
  assumes "bls_laws S G" "try_hash_to_curve S d = Inr (G1Point (bg_e1 G h))"
  shows "verify_signature S (G2Point (bg_e2 G k)) (G1Point (bg_e1 G s)) d =
    (if (h * k) mod bg_order G = s mod bg_order G then Inr () else Inl BLSVerificationError)"
  using assms by (simp add: verify_signature_def g1_to_bytes_def bls_pairing)

lemma bls_verify_aggregated:
  assumes L: "bls_laws S G" and h: "try_hash_to_curve S d = Inr (G1Point (bg_e1 G h))"
  shows "verify_aggregated_signature S (G2Point (bg_e2 G b)) (G1Point (bg_e1 G s)) d
      (G1Point (bg_e1 G a)) =
    (let \<gamma> = unat (compute_certificate_gamma S (digest_bytes d) (bg_e1 G a) (bg_e2 G b) (bg_e1 G s))
     in if ((h + \<gamma>) * b) mod bg_order G = (s + a * \<gamma>) mod bg_order G then Inr ()
        else Inl BLSVerificationError)"
  using h by (simp add: verify_aggregated_signature_def bls_generator [OF L] bls_mul [OF L]
      bls_add [OF L] bls_pairing [OF L] Let_def)

lemma bls_verify_registration:
  assumes L: "bls_laws S G" and h: "try_hash_to_curve S d = Inr (G1Point (bg_e1 G h))"
    and g1: "sc_g1_decompress S g1 = Some (bg_e1 G a)"
  shows "verify_operator_registeration S (G2Point (bg_e2 G b)) (G1Point (bg_e1 G s)) g1 d =
    (let \<gamma> = unat (compute_pop_gamma S (bg_e1 G s) (bg_e1 G a) (bg_e2 G b) (bg_e1 G h))
     in if ((h + \<gamma>) * b) mod bg_order G = (s + a * \<gamma>) mod bg_order G then Inr ()
        else Inl BLSVerificationError)"
  using h g1 by (simp add: verify_operator_registeration_def g1_decompress_def
      bls_generator [OF L] bls_mul [OF L] bls_add [OF L] bls_pairing [OF L] Let_def)

lemma bls_sign:
  assumes L: "bls_laws S G" and h: "try_hash_to_curve S d = Inr (G1Point (bg_e1 G h))"
  shows "sign S (PrivKey k) d = Inr (G1Point (bg_e1 G (h * unat k)))"
  using h L by (simp add: sign_def bls_laws_def try_into_b64)

lemma bls_from_priv_key:
  "bls_laws S G \<Longrightarrow> g1_from_priv_key S (PrivKey k) = Inr (G1Point (bg_e1 G (unat k)))"
  using bls_mul [of S G 1 k] by (simp add: g1_from_priv_key_def g1_mul_op_def bls_generator)

lemma bls_compressed_key:
  "bls_laws S G \<Longrightarrow> g1c_from_priv_key S (PrivKey k) = Inr (G1CompressedPoint (bg_c1 G (unat k)))"
  using bls_mul [of S G 1 k]
  by (simp add: g1c_from_priv_key_def g1_mul_op_def bls_generator g1_compress_def bls_compress)

lemma mod_cancel: "(x + z) mod r = (y + z) mod (r :: nat) \<longleftrightarrow> x mod r = y mod r"
proof -
  have "m mod r = n mod r \<longleftrightarrow> int r dvd int m - int n" for m n
    by (simp add: mod_eq_dvd_iff [symmetric] flip: zmod_int)
  then show ?thesis by simp
qed

subsection \<open>An instance\<close>

text \<open>The group of order three in which the negated generator is \<open>(1, p - 2)\<close>.\<close>

definition tri_neg :: bytes64 where "tri_neg = of_nat (2 ^ 256 + (MODULUS - 2))"

definition tri_e1 :: "nat \<Rightarrow> bytes64" where
  "tri_e1 k = (if k mod 3 = 0 then 0 else if k mod 3 = 1 then G1_GENERATOR else tri_neg)"

definition tri_e2 :: "nat \<Rightarrow> bytes128" where
  "tri_e2 k = (if k mod 3 = 0 then 0 else if k mod 3 = 1 then 1 else G2_MINUS_ONE)"

definition tri_log1 :: "bytes64 \<Rightarrow> nat option" where
  "tri_log1 p = (if p = 0 then Some 0 else if p = G1_GENERATOR then Some 1
                 else if p = tri_neg then Some 2 else None)"

definition tri_log2 :: "bytes128 \<Rightarrow> nat option" where
  "tri_log2 p = (if p = 0 then Some 0 else if p = 1 then Some 1
                 else if p = G2_MINUS_ONE then Some 2 else None)"

definition tri_group :: bls_group where
  "tri_group = \<lparr>bg_order = 3, bg_e1 = tri_e1, bg_c1 = (\<lambda>k. of_nat (k mod 3)), bg_e2 = tri_e2,
     bg_c2 = (\<lambda>k. of_nat (k mod 3))\<rparr>"

definition log1_bytes :: "bytes \<Rightarrow> nat option" where
  "log1_bytes bs = Option.bind (try_into_array bs) tri_log1"

definition log2_bytes :: "bytes \<Rightarrow> nat option" where
  "log2_bytes bs = Option.bind (try_into_array bs) tri_log2"

definition tri_syscalls :: syscalls where
  "tri_syscalls = \<lparr>
     sc_g1_compress = (\<lambda>p. map_option of_nat (tri_log1 p)),
     sc_g1_decompress = (\<lambda>c. if c < 3 then Some (tri_e1 (unat c)) else None),
     sc_g2_compress = (\<lambda>p. map_option of_nat (tri_log2 p)),
     sc_g2_decompress = (\<lambda>c. if c < 3 then Some (tri_e2 (unat c)) else None),
     sc_addition = (\<lambda>bs. case (log1_bytes (take 64 bs), log1_bytes (drop 64 bs)) of
        (Some j, Some k) \<Rightarrow> Some (b64 (tri_e1 (j + k))) | _ \<Rightarrow> None),
     sc_multiplication = (\<lambda>bs. case (log1_bytes (take 64 bs), try_into_array (drop 64 bs)) of
        (Some j, Some s) \<Rightarrow> Some (b64 (tri_e1 (j * unat (s :: bytes32)))) | _ \<Rightarrow> None),
     sc_pairing = (\<lambda>bs. case (log1_bytes (take 64 bs), log2_bytes (take 128 (drop 64 bs)),
          log1_bytes (take 64 (drop 192 bs)), log2_bytes (drop 256 bs)) of
        (Some a, Some b, Some c, Some d) \<Rightarrow> Some (if (a * b + c * d) mod 3 = 0
          then BN128_ADDITION_SUCESS_RESULT else replicate 32 0)
      | _ \<Rightarrow> None),
     sc_sha256 = (\<lambda>_. 1), sc_keccak256 = (\<lambda>_. 7)\<rparr>"

lemma mod_3_cases: obtains "k mod 3 = (0 :: nat)" | "k mod 3 = 1" | "k mod 3 = 2"
proof -
  have "k mod 3 < 3" by simp
  then consider "k mod 3 = 0" | "k mod 3 = 1" | "k mod 3 = 2" by linarith
  then show thesis using that by cases
qed

lemma tri_distinct: "tri_neg \<noteq> 0" "tri_neg \<noteq> G1_GENERATOR" "G1_GENERATOR \<noteq> 0"
  "G2_MINUS_ONE \<noteq> 0" "G2_MINUS_ONE \<noteq> 1"
  by (simp_all add: tri_neg_def G1_GENERATOR_def MODULUS_value G2_MINUS_ONE_def)

lemma tri_log1_e1: "tri_log1 (tri_e1 k) = Some (k mod 3)"
  by (rule mod_3_cases [of k]) (simp_all add: tri_log1_def tri_e1_def tri_distinct)

lemma tri_log2_e2: "tri_log2 (tri_e2 k) = Some (k mod 3)"
  by (rule mod_3_cases [of k]) (simp_all add: tri_log2_def tri_e2_def tri_distinct)

lemma tri_e1_mod [simp]: "tri_e1 (k mod 3) = tri_e1 k" "tri_e2 (k mod 3) = tri_e2 k"
  by (simp_all add: tri_e1_def tri_e2_def)

lemma tri_e1_mod_eq: "j mod 3 = k mod 3 \<Longrightarrow> tri_e1 j = tri_e1 k"
  by (simp add: tri_e1_def)

lemma log_bytes: "log1_bytes (b64 (tri_e1 k)) = Some (k mod 3)"
  "log2_bytes (b128 (tri_e2 k)) = Some (k mod 3)"
  by (simp_all add: log1_bytes_def log2_bytes_def try_into_array_be_bytes tri_log1_e1 tri_log2_e2)

lemma tri_coordinates:
  "g1_x (G1Point 0) = 0" "g1_y (G1Point 0) = 0"
  "g1_x (G1Point G1_GENERATOR) = 1" "g1_y (G1Point G1_GENERATOR) = 2"
  "g1_x (G1Point tri_neg) = 1" "g1_y (G1Point tri_neg) = MODULUS - 2"
  by (simp_all add: g1_x_def g1_y_def G1_GENERATOR_def tri_neg_def MODULUS_value)

lemma tri_coords:
  "g1_x (G1Point (tri_e1 k)) = (if k mod 3 = 0 then 0 else 1)"
  "g1_y (G1Point (tri_e1 k)) = (if k mod 3 = 0 then 0 else if k mod 3 = 1 then 2 else MODULUS - 2)"
  by (simp_all add: tri_e1_def tri_coordinates)

lemma tri_inverse_coords:
  assumes "(j + k) mod 3 = 0"
  shows "g1_x (G1Point (tri_e1 j)) = g1_x (G1Point (tri_e1 k)) \<and>
    (g1_y (G1Point (tri_e1 j)) + g1_y (G1Point (tri_e1 k))) mod MODULUS = 0"
proof -
  have "(j mod 3 + k mod 3) mod 3 = 0" using assms by (simp add: mod_simps)
  then have "j mod 3 = 0 \<and> k mod 3 = 0 \<or> j mod 3 = 1 \<and> k mod 3 = 2 \<or> j mod 3 = 2 \<and> k mod 3 = 1"
    by - (rule mod_3_cases [of j]; rule mod_3_cases [of k]; simp)
  then show ?thesis by (auto simp: tri_coords MODULUS_value)
qed

lemma tri_laws: "bls_laws tri_syscalls tri_group"
proof -
  have lt: "word_of_nat (k mod 3) < (3 :: bytes32)" "word_of_nat (k mod 3) < (3 :: bytes64)"
    "unat (word_of_nat (k mod 3) :: bytes32) = k mod 3" "unat (word_of_nat (k mod 3) :: bytes64) = k mod 3" for k
    by (rule mod_3_cases [of k]; simp)+
  have y: "g1_y (G1Point (tri_e1 k)) < MODULUS" for k
    by (simp add: tri_coords MODULUS_value)
  have inj: "tri_e1 j = tri_e1 k \<longleftrightarrow> j mod 3 = k mod 3" for j k
  proof
    assume "tri_e1 j = tri_e1 k"
    then have "tri_log1 (tri_e1 j) = tri_log1 (tri_e1 k)" by (rule arg_cong)
    then show "j mod 3 = k mod 3" unfolding tri_log1_e1 by simp
  qed (rule tri_e1_mod_eq)
  have dec: "sc_g1_decompress tri_syscalls c = Some p \<Longrightarrow> \<exists>k. p = tri_e1 k" for c p
    by (auto simp: tri_syscalls_def split: if_splits)
  have pairing: "sc_pairing tri_syscalls (b64 (tri_e1 a) @ b128 (tri_e2 b) @ b64 (tri_e1 c) @ b128 (tri_e2 d)) =
      Some (if (a * b + c * d) mod 3 = 0 then BN128_ADDITION_SUCESS_RESULT else replicate 32 0)" for a b c d
  proof -
    have "(a mod 3 * (b mod 3) + c mod 3 * (d mod 3)) mod 3 = (a * b + c * d) mod 3"
      by (intro mod_add_cong) (simp_all only: mod_mult_eq)
    then show ?thesis by (simp add: tri_syscalls_def log_bytes)
  qed
  have add: "sc_addition tri_syscalls (b64 (tri_e1 j) @ b64 (tri_e1 k)) = Some (b64 (tri_e1 (j + k)))" for j k
    by (simp add: tri_syscalls_def log_bytes inj mod_simps)
  have mul: "sc_multiplication tri_syscalls (b64 (tri_e1 k) @ b32 s) = Some (b64 (tri_e1 (k * unat s)))" for k s
    by (simp add: tri_syscalls_def log_bytes try_into_array_be_bytes inj mod_simps)
  show ?thesis
    unfolding bls_laws_def
    using inj dec pairing add mul y tri_inverse_coords
    by (simp add: tri_group_def tri_e1_def [of 0] tri_e1_def [of "Suc 0"] tri_e2_def [of 2])
      (simp add: tri_syscalls_def tri_log1_e1 tri_log2_e2 lt)
qed

subsection \<open>Signing and verifying\<close>

text \<open>
  Signing and verifying: for any secret key, the signature \<open>sign\<close> produces verifies under
  the key's G2 point, and passes as a proof of possession together with the key's G1 point; and
  among all signatures only this group element verifies.
\<close>

theorem sign_verify:
  assumes "bls_laws S G" "try_hash_to_curve S d = Inr (G1Point (bg_e1 G h))"
  shows "\<exists>\<sigma>. sign S (PrivKey sk) d = Inr \<sigma> \<and>
    verify_signature S (G2Point (bg_e2 G (unat sk))) \<sigma> d = Inr () \<and>
    verify_operator_registeration S (G2Point (bg_e2 G (unat sk))) \<sigma> (bg_c1 G (unat sk)) d = Inr () \<and>
    (\<forall>s. is_ok (verify_signature S (G2Point (bg_e2 G (unat sk))) (G1Point (bg_e1 G s)) d) \<longleftrightarrow>
       G1Point (bg_e1 G s) = \<sigma>)"
  using bls_sign [OF assms, of sk] bls_verify_signature [OF assms]
    bls_verify_registration [OF assms bls_decompress [OF assms(1)]] bls_e1_eq [OF assms(1)]
  by (auto simp: Let_def algebra_simps)

lemma tri_hash: "try_hash_to_curve tri_syscalls d = Inr (G1Point (bg_e1 tri_group 1))"
proof -
  have "hash_attempt tri_syscalls d 0 = Some (G1Point (tri_e1 1))"
    by (simp add: hash_attempt_def tri_syscalls_def x_candidate_def NORMALIZE_MODULUS_value
        MODULUS_value)
  then have "find_map (hash_attempt tri_syscalls d) [0..<255] = Some (G1Point (tri_e1 1))"
    unfolding find_map_Some_iff by (intro exI [of _ 0]) simp
  then show ?thesis by (simp add: try_hash_to_curve_def tri_group_def)
qed

theorem sign_verify_witness:
  "\<exists>\<sigma>. sign tri_syscalls (PrivKey 2) (MessageDigest 9) = Inr \<sigma> \<and>
     verify_signature tri_syscalls (G2Point (bg_e2 tri_group (unat (2 :: bytes32)))) \<sigma>
       (MessageDigest 9) = Inr ()"
  using sign_verify [OF tri_laws tri_hash, of 2 "MessageDigest 9"] by blast

lemma agg_sig_iff:
  assumes "bls_laws S G" "try_hash_to_curve S d = Inr (G1Point (bg_e1 G h))"
    "a mod bg_order G = b mod bg_order G"
  shows "verify_aggregated_signature S (G2Point (bg_e2 G b)) (G1Point (bg_e1 G s)) d (G1Point (bg_e1 G a)) =
    (if bg_e1 G s = bg_e1 G (h * b) then Inr () else Inl BLSVerificationError)"
proof -
  define g where "g = unat (compute_certificate_gamma S (digest_bytes d) (bg_e1 G a) (bg_e2 G b) (bg_e1 G s))"
  have "(s + a * g) mod bg_order G = (s + b * g) mod bg_order G"
    using assms(3) by (intro mod_add_cong mod_mult_cong) simp_all
  moreover have "(h + g) * b = h * b + b * g" by (simp add: algebra_simps)
  ultimately have "((h + g) * b) mod bg_order G = (s + a * g) mod bg_order G \<longleftrightarrow>
      s mod bg_order G = (h * b) mod bg_order G"
    using mod_cancel [of "h * b" "b * g" "bg_order G" s] by auto
  then show ?thesis
    using bls_verify_aggregated [OF assms(1,2), of b s a] bls_e1_eq [OF assms(1)]
    by (simp add: Let_def g_def)
qed

text \<open>
  The aggregate check accepts exactly when the exponents satisfy one equation.  When the
  aggregate G1 and G2 keys belong to the same secret \<open>b\<close>, this is the BLS equation: the
  signature is the hash times \<open>b\<close>, so the sum of the signers' signatures passes and no other
  group element does, whatever the challenge.
\<close>

theorem aggregated_signature_sound_complete:
  assumes "bls_laws S G" "try_hash_to_curve S d = Inr (G1Point (bg_e1 G h))"
    "a mod bg_order G = b mod bg_order G"
  shows "verify_aggregated_signature S (G2Point (bg_e2 G b)) (G1Point (bg_e1 G s)) d (G1Point (bg_e1 G a)) =
    (if bg_e1 G s = bg_e1 G (h * b) then Inr () else Inl BLSVerificationError)"
  by (rule agg_sig_iff [OF assms])

theorem aggregated_signature_sound_complete_witness:
  "verify_aggregated_signature tri_syscalls (G2Point (bg_e2 tri_group 2)) (G1Point (bg_e1 tri_group 2))
     (MessageDigest 9) (G1Point (bg_e1 tri_group 5)) = Inr ()"
proof -
  have "5 mod bg_order tri_group = 2 mod bg_order tri_group" by (simp add: tri_group_def)
  from aggregated_signature_sound_complete [OF tri_laws tri_hash this, where d = "MessageDigest 9" and s = 2]
  show ?thesis by simp
qed

text \<open>
  C33: The registration check has no test for the identity: the all-zero G1 key with the identity
  as G2 key and as signature passes as a proof of possession for every message, although nobody
  holds a secret for it.
\<close>

theorem registration_accepts_identity:
  assumes "bls_laws S G" "try_hash_to_curve S d = Inr (G1Point (bg_e1 G h))"
  shows "verify_operator_registeration S (G2Point (bg_e2 G 0)) g1_default 0 d = Inr ()"
proof -
  have "sc_g1_decompress S 0 = Some (bg_e1 G 0)"
    using bls_decompress [OF assms(1), of 0] bls_zero [OF assms(1)] by simp
  from bls_verify_registration [OF assms this, of 0 0] show ?thesis
    by (simp add: g1_default_def bls_zero [OF assms(1)] Let_def)
qed

theorem registration_accepts_identity_witness:
  "verify_operator_registeration tri_syscalls (G2Point 0) g1_default 0 (MessageDigest 9) = Inr ()"
  using registration_accepts_identity [OF tri_laws tri_hash, of "MessageDigest 9"]
  by (simp add: tri_group_def tri_e2_def)

end
