(* ===== verification/Certificate.thy ===== *)
theory Certificate
  imports Snapshot Bls_Group
begin

text \<open>
  Certificate verification (\<open>core/src/certificate.rs\<close>), shared by both programs: one walk over
  the operator set accumulates signed and total stake and the non-signers' keys, then the
  stake-weighted quorum and one pairing decide.
\<close>

definition MAX_BPS :: u128 where "MAX_BPS = 10000"

text \<open>\<open>get_epoch\<close> of \<open>core/src/utils.rs\<close>.\<close>

definition get_epoch :: "u64 \<Rightarrow> u64 \<Rightarrow> ncn_error + u64" where
  "get_epoch slot ncn_epoch_length = ok_or DenominatorIsZero (checked_div slot ncn_epoch_length)"

text \<open>What the walk accumulates.\<close>

record tally =
  ta_nonsigners :: "g1_point option"
  ta_non_signers_count :: u64
  ta_signed_stake :: u128
  ta_total_stake :: u128

definition tally_init :: tally where
  "tally_init = \<lparr>ta_nonsigners = None, ta_non_signers_count = 0, ta_signed_stake = 0, ta_total_stake = 0\<rparr>"

definition signed_bit :: "bytes \<Rightarrow> nat \<Rightarrow> bool" where
  "signed_bit bitmap i = ((drop_bit (i mod 8) (bitmap ! (i div 8)) AND 1) = 1)"

definition effective_stake :: "operator_snapshot \<Rightarrow> u64 \<Rightarrow> u128" where
  "effective_stake e epoch_diff =
     (if epoch_diff = 0 then sw_weight (os_stake_weight e)
      else if epoch_diff = 1 then sw_weight (os_next_epoch_stake_weight e)
      else 0)"

text \<open>The body of the loop for the operator entry at index \<open>i\<close>.\<close>

definition walk_step :: "syscalls \<Rightarrow> u64 \<Rightarrow> u64 \<Rightarrow> bytes \<Rightarrow> nat \<Rightarrow> operator_snapshot \<Rightarrow> tally \<Rightarrow>
    ncn_error + tally" where
  "walk_step S current_epoch ncn_epoch_length bitmap i e t =
     (let signed = signed_bit bitmap i in
      if os_ncn_operator_index e = u64_max then (if signed then Inl OperatorIsNotInSnapshot else Inr t)
      else
        try_bind (get_epoch (os_last_snapshot_slot e) ncn_epoch_length) (\<lambda>snapshot_epoch.
        try_bind (ok_or ArithmeticUnderflowError (checked_sub current_epoch snapshot_epoch)) (\<lambda>epoch_diff.
        let stake = effective_stake e epoch_diff in
        try_bind
          (if signed then
             try_bind (has_minimum_stake_now e current_epoch snapshot_epoch) (\<lambda>has_minimum_stake.
             if \<not> has_minimum_stake then Inl OperatorHasNoMinimumStake
             else try_bind (ok_or ArithmeticOverflow (checked_add (ta_signed_stake t) stake)) (\<lambda>x.
               Inr (t\<lparr>ta_signed_stake := x\<rparr>)))
           else
             try_bind (map_err (\<lambda>_. G1PointDecompressionError)
               (g1_decompress S (G1CompressedPoint (os_g1_pubkey e)))) (\<lambda>g1_point.
             try_bind (case ta_nonsigners t of
                 None \<Rightarrow> Inr g1_point
               | Some current \<Rightarrow> ok_or AltBN128AddError (g1_checked_add S current g1_point)) (\<lambda>agg.
             try_bind (ok_or ArithmeticOverflow (checked_add (ta_non_signers_count t) 1)) (\<lambda>n.
             Inr (t\<lparr>ta_nonsigners := Some agg, ta_non_signers_count := n\<rparr>)))))
          (\<lambda>t.
        try_bind (ok_or ArithmeticOverflow (checked_add (ta_total_stake t) stake)) (\<lambda>x.
        Inr (t\<lparr>ta_total_stake := x\<rparr>))))))"

fun walk :: "syscalls \<Rightarrow> u64 \<Rightarrow> u64 \<Rightarrow> bytes \<Rightarrow> nat \<Rightarrow> operator_snapshot list \<Rightarrow> tally \<Rightarrow> ncn_error + tally" where
  "walk S current_epoch ncn_epoch_length bitmap i [] t = Inr t"
| "walk S current_epoch ncn_epoch_length bitmap i (e # es) t =
     try_bind (walk_step S current_epoch ncn_epoch_length bitmap i e t)
       (walk S current_epoch ncn_epoch_length bitmap (Suc i) es)"

definition quorum_check :: "u16 \<Rightarrow> tally \<Rightarrow> ncn_error + unit" where
  "quorum_check consensus_threshold_bps t =
     (if ta_total_stake t = 0 then Inl InsufficientStakeBps
      else
        try_bind (ok_or ArithmeticOverflow (checked_mul (ta_signed_stake t) MAX_BPS)) (\<lambda>scaled_signed.
        try_bind (ok_or ArithmeticOverflow
          (checked_mul (ta_total_stake t) (ucast consensus_threshold_bps))) (\<lambda>scaled_required.
        if scaled_signed < scaled_required then Inl InsufficientStakeBps else Inr ())))"

definition signature_check ::
  "syscalls \<Rightarrow> snapshot \<Rightarrow> bytes32 \<Rightarrow> bytes64 \<Rightarrow> bytes32 \<Rightarrow> tally \<Rightarrow> program_error + unit" where
  "signature_check S snap digest aggregated_g2 aggregated_signature t =
     try_bind (lift_ncn (map_err (\<lambda>_. G2PointDecompressionError)
       (g2_decompress S (G2CompressedPoint aggregated_g2)))) (\<lambda>g2.
     if ss_total_aggregated_g1_pubkey snap = 0 then Inl (from_ncn NoOperatorsRegistered)
     else
       try_bind (lift_ncn (map_err (\<lambda>_. G1PointDecompressionError)
         (g1_decompress S (G1CompressedPoint (ss_total_aggregated_g1_pubkey snap))))) (\<lambda>agg.
       try_bind (lift_ncn (map_err (\<lambda>_. G1PointDecompressionError)
         (g1_decompress S (G1CompressedPoint aggregated_signature)))) (\<lambda>signature.
       try_bind (case ta_nonsigners t of
           None \<Rightarrow> Inr agg
         | Some nonsigners \<Rightarrow>
             try_bind (g1_negate nonsigners) (\<lambda>neg.
             lift_ncn (ok_or AltBN128AddError (g1_checked_add S agg neg)))) (\<lambda>apk1.
       lift_ncn (map_err (\<lambda>_. SignatureVerificationFailed)
         (verify_aggregated_signature S g2 signature (MessageDigest digest) apk1))))))"

definition verify_certificate ::
  "syscalls \<Rightarrow> snapshot \<Rightarrow> u16 \<Rightarrow> u64 \<Rightarrow> u64 \<Rightarrow> u64 \<Rightarrow> bytes32 \<Rightarrow> bytes64 \<Rightarrow> bytes32 \<Rightarrow> bytes \<Rightarrow> u64 \<Rightarrow>
   program_error + unit" where
  "verify_certificate S snap consensus_threshold_bps valid_slots_after_consensus ncn_epoch_length
     current_slot digest aggregated_g2 aggregated_signature bitmap expected_generation =
     (let operators_registered = ss_operators_registered snap in
      if length bitmap \<noteq> div_ceil (unat operators_registered) 8 then Inl (from_ncn InvalidInputLength)
      else if ss_generation snap \<noteq> expected_generation then Inl (from_ncn SnapshotGenerationMismatch)
      else
        try_bind (lift_ncn (ok_or ArithmeticUnderflowError
          (checked_sub current_slot (ss_last_snapshot_slot snap)))) (\<lambda>slots_since_snapshot.
        if slots_since_snapshot > valid_slots_after_consensus then Inl (from_ncn VotingNotValid)
        else
          try_bind (lift_ncn (get_epoch current_slot ncn_epoch_length)) (\<lambda>current_epoch.
          try_bind (lift_ncn (walk S current_epoch ncn_epoch_length bitmap 0
            (take (unat operators_registered) (ss_operator_snapshots snap)) tally_init)) (\<lambda>t.
          try_bind (lift_ncn (quorum_check consensus_threshold_bps t)) (\<lambda>_.
          signature_check S snap digest aggregated_g2 aggregated_signature t)))))"

subsection \<open>What the walk computes\<close>

abbreviation entry_live :: "operator_snapshot \<Rightarrow> bool" where
  "entry_live e \<equiv> os_ncn_operator_index e \<noteq> u64_max"

text \<open>The age in epochs of an entry's stake view, its stake, and its minimum-stake flag then.\<close>

definition entry_epoch :: "u64 \<Rightarrow> operator_snapshot \<Rightarrow> nat" where
  "entry_epoch len e = unat (os_last_snapshot_slot e) div unat len"

definition stake_at :: "u64 \<Rightarrow> u64 \<Rightarrow> operator_snapshot \<Rightarrow> nat" where
  "stake_at ce len e =
     (if unat ce = entry_epoch len e then unat (sw_weight (os_stake_weight e))
      else if unat ce = Suc (entry_epoch len e) then unat (sw_weight (os_next_epoch_stake_weight e))
      else 0)"

definition min_stake_at :: "u64 \<Rightarrow> u64 \<Rightarrow> operator_snapshot \<Rightarrow> bool" where
  "min_stake_at ce len e \<longleftrightarrow>
     (unat ce = entry_epoch len e \<and> os_has_minimum_stake e) \<or>
     (unat ce = Suc (entry_epoch len e) \<and> os_has_minimum_stake_next_epoch e)"

definition signed_total :: "u64 \<Rightarrow> u64 \<Rightarrow> bytes \<Rightarrow> nat \<Rightarrow> operator_snapshot list \<Rightarrow> nat" where
  "signed_total ce len bm i es =
     (\<Sum>j < length es. if entry_live (es ! j) \<and> signed_bit bm (i + j) then stake_at ce len (es ! j) else 0)"

definition live_total :: "u64 \<Rightarrow> u64 \<Rightarrow> operator_snapshot list \<Rightarrow> nat" where
  "live_total ce len es = (\<Sum>j < length es. if entry_live (es ! j) then stake_at ce len (es ! j) else 0)"

lemma signed_total_simps [simp]:
  "signed_total ce len bm i [] = 0"
  "signed_total ce len bm i (e # es) =
     (if entry_live e \<and> signed_bit bm i then stake_at ce len e else 0) + signed_total ce len bm (Suc i) es"
  by (simp_all add: signed_total_def sum.lessThan_Suc_shift cong: if_cong del: sum.lessThan_Suc)

lemma live_total_simps [simp]:
  "live_total ce len [] = 0"
  "live_total ce len (e # es) = (if entry_live e then stake_at ce len e else 0) + live_total ce len es"
  by (simp_all add: live_total_def sum.lessThan_Suc_shift cong: if_cong del: sum.lessThan_Suc)

lemma signed_le_live: "signed_total ce len bm i es \<le> live_total ce len es"
  unfolding signed_total_def live_total_def by (rule sum_mono) auto

lemma get_epoch_Inr: "get_epoch slot len = Inr ep \<longleftrightarrow> len \<noteq> 0 \<and> unat ep = unat slot div unat len"
  by (simp add: get_epoch_def checked_div_Some unat_eq_zero)

lemma get_epoch_Inl: "get_epoch slot len = Inl e \<longleftrightarrow> len = 0 \<and> e = DenominatorIsZero"
  by (auto simp: get_epoch_def checked_div_None unat_eq_zero)

lemma word_1_iff: "w = 1 \<longleftrightarrow> unat (w :: u64) = 1"
  by (simp add: word_unat_eq_iff)

lemma effective_stake_at:
  assumes "unat ce = entry_epoch len e + unat diff"
  shows "unat (effective_stake e diff) = stake_at ce len e"
  using assms by (auto simp: effective_stake_def stake_at_def word_1_iff unat_eq_zero [symmetric])

lemma has_minimum_stake_now_Inr:
  assumes "unat se = entry_epoch len e" "entry_epoch len e \<le> unat ce"
  shows "has_minimum_stake_now e ce se = Inr True \<longleftrightarrow> min_stake_at ce len e"
proof -
  obtain diff where d: "checked_sub ce se = Some diff" "unat ce = entry_epoch len e + unat diff"
    using assms by (cases "checked_sub ce se") (auto simp: arith_simps)
  then show ?thesis
    by (auto simp: has_minimum_stake_now_def min_stake_at_def word_1_iff unat_eq_zero [symmetric])
qed

lemma walk_step_live:
  assumes live: "entry_live e" and step: "walk_step S ce len bm i e t = Inr t'"
  shows "entry_epoch len e \<le> unat ce \<and> (signed_bit bm i \<longrightarrow> min_stake_at ce len e) \<and>
    unat (ta_total_stake t') = unat (ta_total_stake t) + stake_at ce len e \<and>
    unat (ta_signed_stake t') = unat (ta_signed_stake t) + (if signed_bit bm i then stake_at ce len e else 0)"
proof -
  from live step obtain se diff where se: "get_epoch (os_last_snapshot_slot e) len = Inr se"
    and diff: "checked_sub ce se = Some diff"
    by (auto simp: walk_step_def Let_def)
  have ep: "unat se = entry_epoch len e" using se by (simp add: get_epoch_Inr entry_epoch_def)
  have ce: "unat ce = entry_epoch len e + unat diff" using diff ep by (simp add: arith_simps)
  note stake = effective_stake_at [OF ce]
  have le: "entry_epoch len e \<le> unat ce" using ce by simp
  show ?thesis
    using step live se diff stake le has_minimum_stake_now_Inr [OF ep le]
    by (auto simp: walk_step_def Let_def arith_simps split: if_splits)
qed

lemma walk_step_empty:
  "\<not> entry_live e \<Longrightarrow> walk_step S ce len bm i e t =
     (if signed_bit bm i then Inl OperatorIsNotInSnapshot else Inr t)"
  by (simp add: walk_step_def Let_def)

lemma walk_sound:
  assumes "walk S ce len bm i es t = Inr t'"
  shows "unat (ta_total_stake t') = unat (ta_total_stake t) + live_total ce len es \<and>
    unat (ta_signed_stake t') = unat (ta_signed_stake t) + signed_total ce len bm i es \<and>
    (\<forall>j < length es. signed_bit bm (i + j) \<longrightarrow> entry_live (es ! j) \<and> min_stake_at ce len (es ! j)) \<and>
    (\<forall>e \<in> set es. entry_live e \<longrightarrow> entry_epoch len e \<le> unat ce)"
  using assms
proof (induction es arbitrary: i t)
  case Nil
  then show ?case by simp
next
  case (Cons e es)
  from Cons.prems obtain t1 where step: "walk_step S ce len bm i e t = Inr t1"
    and rest: "walk S ce len bm (Suc i) es t1 = Inr t'" by auto
  note IH = Cons.IH [OF rest]
  show ?case
  proof (cases "entry_live e")
    case True
    with IH walk_step_live [OF True step] show ?thesis
      by (auto simp: less_Suc_eq_0_disj)
  next
    case False
    with step have "\<not> signed_bit bm i" "t1 = t" by (auto simp: walk_step_empty split: if_splits)
    with False IH show ?thesis by (auto simp: less_Suc_eq_0_disj)
  qed
qed

subsection \<open>The quorum\<close>

lemma quorum_check_Inr:
  "quorum_check bps t = Inr u \<longleftrightarrow>
     0 < unat (ta_total_stake t) \<and>
     unat (ta_signed_stake t) * 10000 < 2 ^ 128 \<and> unat (ta_total_stake t) * unat bps < 2 ^ 128 \<and>
     unat (ta_total_stake t) * unat bps \<le> unat (ta_signed_stake t) * 10000"
proof (cases "ta_total_stake t = 0")
  case True
  then show ?thesis by (simp add: quorum_check_def)
next
  case False
  then have pos: "0 < unat (ta_total_stake t)" by (simp add: unat_gt_0)
  have bps: "unat (ucast bps :: u128) = unat bps" by (simp add: unat_ucast_up)
  have max: "unat MAX_BPS = 10000" by (simp add: MAX_BPS_def)
  let ?a = "ta_signed_stake t * MAX_BPS" and ?b = "ta_total_stake t * (ucast bps :: u128)"
  have a: "unat (ta_signed_stake t) * 10000 < 2 ^ 128 \<Longrightarrow> unat ?a = unat (ta_signed_stake t) * 10000"
    using unat_mult_lem [of "ta_signed_stake t" MAX_BPS] max by simp
  have b: "unat (ta_total_stake t) * unat bps < 2 ^ 128 \<Longrightarrow> unat ?b = unat (ta_total_stake t) * unat bps"
    using unat_mult_lem [of "ta_total_stake t" "ucast bps"] bps by simp
  have "quorum_check bps t =
    (if \<not> unat (ta_signed_stake t) * 10000 < 2 ^ 128 then Inl ArithmeticOverflow
     else if \<not> unat (ta_total_stake t) * unat bps < 2 ^ 128 then Inl ArithmeticOverflow
     else if unat ?a < unat ?b then Inl InsufficientStakeBps else Inr ())"
    using False by (simp add: quorum_check_def checked_mul_def max bps word_less_nat_alt)
  then show ?thesis using a b pos by (auto simp: not_less)
qed

subsection \<open>The walk succeeds on a sound snapshot\<close>

text \<open>
  \<open>key\<close> gives every operator's secret exponent; the entries' keys decompress to the points with
  these exponents.
\<close>

definition entry_keys :: "syscalls \<Rightarrow> bls_group \<Rightarrow> (pubkey \<Rightarrow> nat) \<Rightarrow> operator_snapshot list \<Rightarrow> bool" where
  "entry_keys S G key es \<longleftrightarrow> (\<forall>e \<in> set es. entry_live e \<longrightarrow>
     sc_g1_decompress S (os_g1_pubkey e) = Some (bg_e1 G (key (os_operator e))))"

definition nonsigner_keys :: "(pubkey \<Rightarrow> nat) \<Rightarrow> bytes \<Rightarrow> nat \<Rightarrow> operator_snapshot list \<Rightarrow> nat" where
  "nonsigner_keys key bm i es =
     (\<Sum>j < length es. if entry_live (es ! j) \<and> \<not> signed_bit bm (i + j) then key (os_operator (es ! j)) else 0)"

definition signer_keys :: "(pubkey \<Rightarrow> nat) \<Rightarrow> bytes \<Rightarrow> nat \<Rightarrow> operator_snapshot list \<Rightarrow> nat" where
  "signer_keys key bm i es =
     (\<Sum>j < length es. if entry_live (es ! j) \<and> signed_bit bm (i + j) then key (os_operator (es ! j)) else 0)"

definition live_keys :: "(pubkey \<Rightarrow> nat) \<Rightarrow> operator_snapshot list \<Rightarrow> nat" where
  "live_keys key es = (\<Sum>j < length es. if entry_live (es ! j) then key (os_operator (es ! j)) else 0)"

lemma live_keys_split: "live_keys key es = signer_keys key bm i es + nonsigner_keys key bm i es"
  unfolding live_keys_def signer_keys_def nonsigner_keys_def sum.distrib [symmetric]
  by (rule sum.cong) auto

lemma nonsigner_keys_simps [simp]:
  "nonsigner_keys key bm i [] = 0"
  "nonsigner_keys key bm i (e # es) =
     (if entry_live e \<and> \<not> signed_bit bm i then key (os_operator e) else 0) + nonsigner_keys key bm (Suc i) es"
  by (simp_all add: nonsigner_keys_def sum.lessThan_Suc_shift cong: if_cong del: sum.lessThan_Suc)

lemma signer_keys_simps [simp]:
  "signer_keys key bm i [] = 0"
  "signer_keys key bm i (e # es) =
     (if entry_live e \<and> signed_bit bm i then key (os_operator e) else 0) + signer_keys key bm (Suc i) es"
  "live_keys key [] = 0"
  "live_keys key (e # es) = (if entry_live e then key (os_operator e) else 0) + live_keys key es"
  by (simp_all add: signer_keys_def live_keys_def sum.lessThan_Suc_shift cong: if_cong del: sum.lessThan_Suc)

definition agg_rep :: "bls_group \<Rightarrow> g1_point option \<Rightarrow> nat \<Rightarrow> bool" where
  "agg_rep G p a \<longleftrightarrow> (case p of None \<Rightarrow> a = 0 | Some q \<Rightarrow> q = G1Point (bg_e1 G a))"

text \<open>One step under the group laws.\<close>

lemma walk_step_complete:
  assumes L: "bls_laws S G" and len: "len \<noteq> 0" and live: "entry_live e"
    and ep: "entry_epoch len e \<le> unat ce"
    and key: "sc_g1_decompress S (os_g1_pubkey e) = Some (bg_e1 G k)"
    and min: "signed_bit bm i \<longrightarrow> min_stake_at ce len e"
    and fit: "unat (ta_total_stake t) + stake_at ce len e < 2 ^ 128"
      "unat (ta_signed_stake t) \<le> unat (ta_total_stake t)" "unat (ta_non_signers_count t) < 2 ^ 64 - 1"
    and rep: "agg_rep G (ta_nonsigners t) a"
  shows "\<exists>t'. walk_step S ce len bm i e t = Inr t' \<and>
    agg_rep G (ta_nonsigners t') (a + (if signed_bit bm i then 0 else k)) \<and>
    unat (ta_signed_stake t') \<le> unat (ta_total_stake t') \<and>
    unat (ta_total_stake t') = unat (ta_total_stake t) + stake_at ce len e \<and>
    unat (ta_non_signers_count t') \<le> Suc (unat (ta_non_signers_count t))"
proof -
  obtain se where se: "get_epoch (os_last_snapshot_slot e) len = Inr se" "unat se = entry_epoch len e"
  proof -
    have "checked_div (os_last_snapshot_slot e) len = Some (os_last_snapshot_slot e div len)"
      using len by (simp add: checked_div_def)
    then show ?thesis
      using that [of "os_last_snapshot_slot e div len"] by (simp add: get_epoch_def entry_epoch_def unat_div)
  qed
  obtain diff where diff: "checked_sub ce se = Some diff" "unat ce = entry_epoch len e + unat diff"
    using ep se(2) by (cases "checked_sub ce se") (auto simp: arith_simps)
  note stake = effective_stake_at [OF diff(2)]
  obtain x where x: "checked_add (ta_total_stake t) (effective_stake e diff) = Some x"
    using fit(1) stake by (cases "checked_add (ta_total_stake t) (effective_stake e diff)") (auto simp: arith_simps)
  then have ux: "unat x = unat (ta_total_stake t) + stake_at ce len e" by (simp add: arith_simps stake)
  show ?thesis
  proof (cases "signed_bit bm i")
    case True
    then have "has_minimum_stake_now e ce se = Inr True"
      using min has_minimum_stake_now_Inr [OF se(2) ep] by simp
    moreover obtain y where y: "checked_add (ta_signed_stake t) (effective_stake e diff) = Some y"
      using fit stake by (cases "checked_add (ta_signed_stake t) (effective_stake e diff)") (auto simp: arith_simps)
    moreover have "unat y = unat (ta_signed_stake t) + stake_at ce len e"
      using y by (simp add: arith_simps stake)
    ultimately show ?thesis
      using True live se diff x ux rep fit by (simp add: walk_step_def Let_def)
  next
    case False
    obtain n where n: "checked_add (ta_non_signers_count t) 1 = Some n"
      using fit(3) by (cases "checked_add (ta_non_signers_count t) 1") (auto simp: arith_simps)
    then have un: "unat n = Suc (unat (ta_non_signers_count t))" by (simp add: arith_simps)
    show ?thesis
      using False live se diff x ux rep fit n un key
      by (cases "ta_nonsigners t")
        (simp_all add: walk_step_def Let_def agg_rep_def g1_decompress_def bls_add [OF L])
  qed
qed

lemma walk_complete:
  assumes L: "bls_laws S G" and len: "len \<noteq> 0"
    and ep: "\<forall>e \<in> set es. entry_live e \<longrightarrow> entry_epoch len e \<le> unat ce"
    and key: "entry_keys S G key es"
    and min: "\<forall>j < length es. signed_bit bm (i + j) \<longrightarrow> entry_live (es ! j) \<and> min_stake_at ce len (es ! j)"
    and fit: "unat (ta_total_stake t) + live_total ce len es < 2 ^ 128"
      "unat (ta_signed_stake t) \<le> unat (ta_total_stake t)"
      "unat (ta_non_signers_count t) + length es < 2 ^ 64"
    and rep: "agg_rep G (ta_nonsigners t) a"
  shows "\<exists>t'. walk S ce len bm i es t = Inr t' \<and>
    agg_rep G (ta_nonsigners t') (a + nonsigner_keys key bm i es)"
  using ep key min fit rep
proof (induction es arbitrary: i t a)
  case Nil
  then show ?case by simp
next
  case (Cons e es)
  have key': "entry_keys S G key es" and ep': "\<forall>e \<in> set es. entry_live e \<longrightarrow> entry_epoch len e \<le> unat ce"
    using Cons.prems by (auto simp: entry_keys_def)
  have min': "\<forall>j < length es. signed_bit bm (Suc i + j) \<longrightarrow> entry_live (es ! j) \<and> min_stake_at ce len (es ! j)"
    and min0: "signed_bit bm i \<longrightarrow> entry_live e \<and> min_stake_at ce len e"
    using Cons.prems(3) by (auto dest: spec [of _ "Suc _"] spec [of _ 0])
  show ?case
  proof (cases "entry_live e")
    case True
    have "sc_g1_decompress S (os_g1_pubkey e) = Some (bg_e1 G (key (os_operator e)))"
      using Cons.prems(2) True by (simp add: entry_keys_def)
    from walk_step_complete [OF L len True _ this, of ce bm i t a] Cons.prems True min0
    obtain t1 where t1: "walk_step S ce len bm i e t = Inr t1"
      "agg_rep G (ta_nonsigners t1) (a + (if signed_bit bm i then 0 else key (os_operator e)))"
      "unat (ta_signed_stake t1) \<le> unat (ta_total_stake t1)"
      "unat (ta_total_stake t1) = unat (ta_total_stake t) + stake_at ce len e"
      "unat (ta_non_signers_count t1) \<le> Suc (unat (ta_non_signers_count t))"
      by auto
    from Cons.IH [OF ep' key' min' _ t1(3) _ t1(2)] t1 Cons.prems(4,6) True
    show ?thesis by (auto simp: add.assoc)
  next
    case False
    with min0 have "\<not> signed_bit bm i" by auto
    with False Cons.IH [OF ep' key' min' _ Cons.prems(5) _ Cons.prems(7)] Cons.prems(4,6)
    show ?thesis by (simp add: walk_step_empty)
  qed
qed

subsection \<open>The signature\<close>

text \<open>
  The challenge of the combined check, and the equation it decides for a G2 key with exponent
  \<open>x\<close>, a signature with exponent \<open>s\<close> and signers whose G1 keys sum to the exponent \<open>b\<close>.
\<close>

definition challenge :: "syscalls \<Rightarrow> bls_group \<Rightarrow> bytes32 \<Rightarrow> nat \<Rightarrow> nat \<Rightarrow> nat \<Rightarrow> nat" where
  "challenge S G digest b x s =
     unat (compute_certificate_gamma S digest (bg_e1 G b) (bg_e2 G x) (bg_e1 G s))"

definition combined_equation :: "bls_group \<Rightarrow> nat \<Rightarrow> nat \<Rightarrow> nat \<Rightarrow> nat \<Rightarrow> nat \<Rightarrow> bool" where
  "combined_equation G h b x s \<gamma> \<longleftrightarrow> ((h + \<gamma>) * x) mod bg_order G = (s + b * \<gamma>) mod bg_order G"

text \<open>With the signers' own G2 key the challenge cancels.\<close>

lemma combined_equation_honest:
  assumes L: "bls_laws S G" and x: "x mod bg_order G = b mod bg_order G"
  shows "combined_equation G h b x s \<gamma> \<longleftrightarrow> bg_e1 G s = bg_e1 G (h * b)"
proof -
  have "((h + \<gamma>) * x) mod bg_order G = ((h + \<gamma>) * b) mod bg_order G"
    using x by (intro mod_mult_cong) simp_all
  moreover have "(h + \<gamma>) * b = h * b + b * \<gamma>" by (simp add: algebra_simps)
  ultimately show ?thesis
    using mod_cancel [of "h * b" "b * \<gamma>" "bg_order G" s]
    by (auto simp: combined_equation_def bls_e1_eq [OF L])
qed

text \<open>Any other G2 key leaves one challenge, modulo the order, under which it could pass.\<close>

lemma combined_equation_challenge:
  assumes eq: "combined_equation G h b x s \<gamma>" "combined_equation G h b x s \<gamma>'"
    and c: "coprime (int x - int b) (int (bg_order G))"
  shows "\<gamma> mod bg_order G = \<gamma>' mod bg_order G"
proof -
  let ?r = "int (bg_order G)"
  have dvd: "?r dvd int h * int x - int s + (int x - int b) * int g" if "combined_equation G h b x s g" for g
  proof -
    have "((int h + int g) * int x) mod ?r = (int s + int b * int g) mod ?r"
      using that unfolding combined_equation_def
      by (simp flip: of_nat_add of_nat_mult of_nat_mod)
    then have "?r dvd (int h + int g) * int x - (int s + int b * int g)" by (simp add: mod_eq_dvd_iff)
    then show ?thesis by (simp add: algebra_simps)
  qed
  have "?r dvd (int x - int b) * (int \<gamma> - int \<gamma>')"
    using dvd_diff [OF dvd [OF eq(1)] dvd [OF eq(2)]] by (simp add: algebra_simps)
  with c have "?r dvd int \<gamma> - int \<gamma>'"
    by (metis coprime_commute coprime_dvd_mult_right_iff)
  then have "int \<gamma> mod ?r = int \<gamma>' mod ?r" by (simp add: mod_eq_dvd_iff)
  then show ?thesis by (simp flip: of_nat_mod)
qed

lemma signature_check_keys:
  assumes L: "bls_laws S G" and h: "try_hash_to_curve S (MessageDigest digest) = Inr (G1Point (bg_e1 G h))"
    and agg: "sc_g1_decompress S (ss_total_aggregated_g1_pubkey snap) = Some (bg_e1 G (a + b))"
    and nonzero: "ss_total_aggregated_g1_pubkey snap \<noteq> 0"
    and g2: "sc_g2_decompress S g2 = Some (bg_e2 G x)"
    and sig: "sc_g1_decompress S sg = Some (bg_e1 G s)"
    and rep: "agg_rep G (ta_nonsigners t) a"
  shows "is_ok (signature_check S snap digest g2 sg t) \<longleftrightarrow>
    combined_equation G h b x s (challenge S G digest b x s)"
proof (cases "ta_nonsigners t")
  case None
  with rep have "a = 0" by (simp add: agg_rep_def)
  with None show ?thesis
    using agg nonzero sig g2
    by (simp add: signature_check_def g2_decompress_def g1_decompress_def bls_verify_aggregated [OF L h]
        Let_def combined_equation_def challenge_def)
next
  case (Some p)
  then have p: "p = G1Point (bg_e1 G a)" using rep by (simp add: agg_rep_def)
  have "(a + b + bls_neg G a) mod bg_order G = (a + bls_neg G a + b) mod bg_order G"
    by (simp add: algebra_simps)
  also have "\<dots> = b mod bg_order G"
    by (subst mod_add_left_eq [symmetric]) (simp add: bls_neg_cancel [OF L])
  finally have apk: "bg_e1 G (a + b + bls_neg G a) = bg_e1 G b" by (simp add: bls_e1_eq [OF L])
  show ?thesis
    using agg nonzero sig g2 Some
    by (simp add: p signature_check_def g2_decompress_def g1_decompress_def bls_negate [OF L]
        bls_add [OF L] apk bls_verify_aggregated [OF L h] Let_def combined_equation_def challenge_def)
qed

subsection \<open>Verification\<close>

text \<open>The stake conditions of a certificate at a slot, over the registered entries.\<close>

definition certificate_conditions ::
  "snapshot \<Rightarrow> u16 \<Rightarrow> u64 \<Rightarrow> u64 \<Rightarrow> u64 \<Rightarrow> bytes \<Rightarrow> u64 \<Rightarrow> bool" where
  "certificate_conditions snap bps window len slot bm gen \<longleftrightarrow>
     (let n = unat (ss_operators_registered snap);
          es = take n (ss_operator_snapshots snap);
          ce = slot div len;
          live = live_total ce len es;
          signed = signed_total ce len bm 0 es
      in length bm = div_ceil n 8 \<and> ss_generation snap = gen \<and>
         ss_last_snapshot_slot snap \<le> slot \<and> slot - ss_last_snapshot_slot snap \<le> window \<and> len \<noteq> 0 \<and>
         (\<forall>i < length es. signed_bit bm i \<longrightarrow> entry_live (es ! i) \<and> min_stake_at ce len (es ! i)) \<and>
         (\<forall>e \<in> set es. entry_live e \<longrightarrow> entry_epoch len e \<le> unat ce) \<and>
         0 < live \<and> live < 2 ^ 128 \<and> signed * 10000 < 2 ^ 128 \<and> live * unat bps < 2 ^ 128 \<and>
         live * unat bps \<le> signed * 10000)"

lemma freshness_iff:
  "(\<exists>d. checked_sub slot taken = Some d \<and> \<not> window < d) \<longleftrightarrow> taken \<le> slot \<and> slot - taken \<le> (window :: u64)"
  by (auto simp: checked_sub_def)

lemma get_epoch_div: "len \<noteq> 0 \<Longrightarrow> get_epoch slot len = Inr (slot div len)"
  by (simp add: get_epoch_def checked_div_def)

lemma verify_certificate_conditions:
  assumes "verify_certificate S snap bps window len slot digest g2 sg bm gen = Inr u"
  shows "certificate_conditions snap bps window len slot bm gen \<and>
    (\<exists>t. walk S (slot div len) len bm 0 (take (unat (ss_operators_registered snap))
       (ss_operator_snapshots snap)) tally_init = Inr t \<and> signature_check S snap digest g2 sg t = Inr ())"
proof -
  let ?es = "take (unat (ss_operators_registered snap)) (ss_operator_snapshots snap)"
  from assms obtain d ce t where
    shape: "length bm = div_ceil (unat (ss_operators_registered snap)) 8" "ss_generation snap = gen"
    and d: "checked_sub slot (ss_last_snapshot_slot snap) = Some d" "\<not> window < d"
    and ce: "get_epoch slot len = Inr ce" and w: "walk S ce len bm 0 ?es tally_init = Inr t"
    and q: "quorum_check bps t = Inr ()" and sc: "signature_check S snap digest g2 sg t = Inr ()"
    by (auto simp: verify_certificate_def Let_def split: if_splits)
  have len: "len \<noteq> 0" using ce by (simp add: get_epoch_Inr)
  then have ce': "ce = slot div len" using ce get_epoch_div [of len slot] by simp
  note ws = walk_sound [OF w [unfolded ce']]
  have tot: "unat (ta_total_stake t) = live_total (slot div len) len ?es"
    "unat (ta_signed_stake t) = signed_total (slot div len) len bm 0 ?es"
    using ws by (simp_all add: tally_init_def)
  then have "live_total (slot div len) len ?es < 2 ^ 128"
    using unat_lt_length [of "ta_total_stake t"] by simp
  then show ?thesis
    using shape d len ws q sc w tot freshness_iff [of slot "ss_last_snapshot_slot snap" window]
    by (auto simp: certificate_conditions_def Let_def quorum_check_Inr ce')
qed

text \<open>
  C2: A certificate verifies only if its bitmap covers the registered operators, its generation
  is the snapshot's, the snapshot was taken within the window before the slot, every signer bit
  belongs to a live operator with the minimum stake for the current epoch, and the signed
  stake, counted with the epoch decay, reaches the threshold share of a positive total.
\<close>

theorem verify_certificate_sound:
  assumes "verify_certificate S snap bps window len slot digest g2 sg bm gen = Inr ()"
  shows "certificate_conditions snap bps window len slot bm gen \<and> ss_total_aggregated_g1_pubkey snap \<noteq> 0"
  using verify_certificate_conditions [OF assms] by (auto simp: signature_check_def split: if_splits)

lemma verify_certificate_any_key:
  assumes L: "bls_laws S G" and h: "try_hash_to_curve S (MessageDigest digest) = Inr (G1Point (bg_e1 G h))"
    and keys: "entry_keys S G key (take (unat (ss_operators_registered snap)) (ss_operator_snapshots snap))"
    and agg: "sc_g1_decompress S (ss_total_aggregated_g1_pubkey snap) =
      Some (bg_e1 G (live_keys key (take (unat (ss_operators_registered snap)) (ss_operator_snapshots snap))))"
    and b: "b = signer_keys key bm 0 (take (unat (ss_operators_registered snap)) (ss_operator_snapshots snap))"
    and g2: "sc_g2_decompress S g2 = Some (bg_e2 G x)"
    and sig: "sc_g1_decompress S sg = Some (bg_e1 G s)"
  shows "verify_certificate S snap bps window len slot digest g2 sg bm gen = Inr () \<longleftrightarrow>
    certificate_conditions snap bps window len slot bm gen \<and> ss_total_aggregated_g1_pubkey snap \<noteq> 0 \<and>
    combined_equation G h b x s (challenge S G digest b x s)"
proof -
  let ?es = "take (unat (ss_operators_registered snap)) (ss_operator_snapshots snap)"
  let ?a = "nonsigner_keys key bm 0 ?es"
  have agg': "sc_g1_decompress S (ss_total_aggregated_g1_pubkey snap) = Some (bg_e1 G (?a + b))"
    using agg by (simp add: b live_keys_split [of key ?es bm 0] add.commute)
  have walk: "\<exists>t. walk S (slot div len) len bm 0 ?es tally_init = Inr t \<and> agg_rep G (ta_nonsigners t) ?a"
    if c: "certificate_conditions snap bps window len slot bm gen"
  proof -
    have "length ?es < 2 ^ 64"
      using unat_lt_length [of "ss_operators_registered snap"] by simp
    with c show ?thesis
      using walk_complete [OF L _ _ keys, where t = tally_init and a = 0 and i = 0 and bm = bm
        and len = len and ce = "slot div len"]
      by (auto simp: certificate_conditions_def Let_def tally_init_def agg_rep_def)
  qed
  note check = signature_check_keys [OF L h agg' _ g2 sig]
  show ?thesis
  proof
    assume v: "verify_certificate S snap bps window len slot digest g2 sg bm gen = Inr ()"
    from verify_certificate_conditions [OF this] have c: "certificate_conditions snap bps window len slot bm gen"
      by blast
    with walk verify_certificate_conditions [OF v] obtain t where
      t: "agg_rep G (ta_nonsigners t) ?a" "signature_check S snap digest g2 sg t = Inr ()" by auto
    then have "ss_total_aggregated_g1_pubkey snap \<noteq> 0" by (auto simp: signature_check_def split: if_splits)
    with check [of t] t c show "certificate_conditions snap bps window len slot bm gen \<and>
        ss_total_aggregated_g1_pubkey snap \<noteq> 0 \<and> combined_equation G h b x s (challenge S G digest b x s)"
      by simp
  next
    assume c: "certificate_conditions snap bps window len slot bm gen \<and>
      ss_total_aggregated_g1_pubkey snap \<noteq> 0 \<and> combined_equation G h b x s (challenge S G digest b x s)"
    with walk obtain t where w: "walk S (slot div len) len bm 0 ?es tally_init = Inr t"
      and r: "agg_rep G (ta_nonsigners t) ?a" by auto
    note ws = walk_sound [OF w]
    have "quorum_check bps t = Inr ()"
      using ws c by (simp add: quorum_check_Inr certificate_conditions_def Let_def tally_init_def)
    moreover have "signature_check S snap digest g2 sg t = Inr ()"
      using check [OF _ r] c by (simp add: is_ok_iff)
    moreover have "get_epoch slot len = Inr (slot div len)"
      using c by (intro get_epoch_div) (simp add: certificate_conditions_def Let_def)
    ultimately show "verify_certificate S snap bps window len slot digest g2 sg bm gen = Inr ()"
      using c w
      by (simp add: verify_certificate_def certificate_conditions_def Let_def checked_sub_def not_less)
  qed
qed

text \<open>With the signers' own aggregate as G2 key.\<close>

lemma verify_certificate_iff:
  assumes L: "bls_laws S G" and h: "try_hash_to_curve S (MessageDigest digest) = Inr (G1Point (bg_e1 G h))"
    and keys: "entry_keys S G key (take (unat (ss_operators_registered snap)) (ss_operator_snapshots snap))"
    and agg: "sc_g1_decompress S (ss_total_aggregated_g1_pubkey snap) =
      Some (bg_e1 G (live_keys key (take (unat (ss_operators_registered snap)) (ss_operator_snapshots snap))))"
    and nonzero: "ss_total_aggregated_g1_pubkey snap \<noteq> 0"
    and b: "b = signer_keys key bm 0 (take (unat (ss_operators_registered snap)) (ss_operator_snapshots snap))"
    and sig: "sc_g1_decompress S sg = Some (bg_e1 G s)"
  shows "verify_certificate S snap bps window len slot digest (bg_c2 G b) sg bm gen = Inr () \<longleftrightarrow>
    certificate_conditions snap bps window len slot bm gen \<and> bg_e1 G s = bg_e1 G (h * b)"
  using verify_certificate_any_key [OF L h keys agg b bls_decompress2 [OF L] sig]
    combined_equation_honest [OF L refl] nonzero by simp

text \<open>
  C1: Take a snapshot whose entries' keys are points of the curve and whose aggregate is the sum of
  the live ones, and any certificate whose G2 key and signature are points of the groups, with
  exponents \<open>x\<close> and \<open>s\<close>; let \<open>b\<close> be the sum of the signers' secrets.  It verifies exactly if the
  stake conditions hold, the aggregate key is not the encoding of the identity and the combined
  equation holds at the challenge hashed from digest, signers' G1 key, G2 key and signature.  With
  the signers' own G2 key the challenge cancels: every honest quorum is accepted, and no signature
  but the hash times \<open>b\<close>.  Any other G2 key is bound by the challenge: at most one value of it,
  modulo the order, lets this key and signature pass (for a prime order the differing exponents are
  coprime to it).
\<close>

theorem verify_certificate_accepts_iff:
  assumes L: "bls_laws S G" and h: "try_hash_to_curve S (MessageDigest digest) = Inr (G1Point (bg_e1 G h))"
    and keys: "entry_keys S G key (take (unat (ss_operators_registered snap)) (ss_operator_snapshots snap))"
    and agg: "sc_g1_decompress S (ss_total_aggregated_g1_pubkey snap) =
      Some (bg_e1 G (live_keys key (take (unat (ss_operators_registered snap)) (ss_operator_snapshots snap))))"
    and b: "b = signer_keys key bm 0 (take (unat (ss_operators_registered snap)) (ss_operator_snapshots snap))"
    and g2: "sc_g2_decompress S g2 = Some (bg_e2 G x)"
    and sig: "sc_g1_decompress S sg = Some (bg_e1 G s)"
  shows "(verify_certificate S snap bps window len slot digest g2 sg bm gen = Inr () \<longleftrightarrow>
      certificate_conditions snap bps window len slot bm gen \<and> ss_total_aggregated_g1_pubkey snap \<noteq> 0 \<and>
      combined_equation G h b x s (challenge S G digest b x s)) \<and>
    (x mod bg_order G = b mod bg_order G \<longrightarrow>
      (combined_equation G h b x s (challenge S G digest b x s) \<longleftrightarrow> bg_e1 G s = bg_e1 G (h * b))) \<and>
    (coprime (int x - int b) (int (bg_order G)) \<longrightarrow>
      verify_certificate S snap bps window len slot digest g2 sg bm gen = Inr () \<longrightarrow>
      (\<forall>\<gamma>. combined_equation G h b x s \<gamma> \<longrightarrow> \<gamma> mod bg_order G = challenge S G digest b x s mod bg_order G))"
  using verify_certificate_any_key [OF assms] combined_equation_honest [OF L]
    combined_equation_challenge by blast

subsection \<open>An example: one of two operators signs\<close>

definition sample_operator :: "pubkey \<Rightarrow> u64 \<Rightarrow> u128 \<Rightarrow> operator_snapshot" where
  "sample_operator op i w = operator_snapshot_default\<lparr>os_operator := op, os_g1_pubkey := 1,
     os_is_active := True, os_ncn_operator_index := i, os_operator_index := i,
     os_last_snapshot_slot := 40, os_has_minimum_stake := True, os_stake_weight := sw_new w\<rparr>"

definition sample_snapshot :: snapshot where
  "sample_snapshot = (snapshot_new 1 255 0 (sw_new 100))\<lparr>
     ss_operators_registered := 2, ss_total_aggregated_g1_pubkey := 2, ss_last_snapshot_slot := 40,
     ss_generation := 2, ss_operator_snapshots :=
       [sample_operator 11 0 700, sample_operator 12 1 300] @ replicate 254 operator_snapshot_default\<rparr>"

lemma sample_entries: "take (unat (ss_operators_registered sample_snapshot))
    (ss_operator_snapshots sample_snapshot) = [sample_operator 11 0 700, sample_operator 12 1 300]"
  by (simp add: sample_snapshot_def)

lemma sample_bits: "signed_bit [1] 0" "\<not> signed_bit [1] (Suc 0)"
  by (simp_all add: signed_bit_def)

lemma sample_entry_facts:
  "entry_live (sample_operator op 0 w)" "entry_live (sample_operator op 1 w)"
  "entry_epoch 100 (sample_operator op i w) = 0"
  "stake_at 0 100 (sample_operator op i w) = unat w" "min_stake_at 0 100 (sample_operator op i w)"
  "os_operator (sample_operator op i w) = op" "os_g1_pubkey (sample_operator op i w) = 1"
  by (simp_all add: sample_operator_def entry_epoch_def stake_at_def min_stake_at_def sw_new_def)

lemma sample_conditions: "certificate_conditions sample_snapshot 6667 100 100 50 [1] 2"
  unfolding certificate_conditions_def sample_entries Let_def
  by (simp add: sample_entry_facts sample_bits div_ceil_def less_Suc_eq nth_Cons')
    (simp add: sample_snapshot_def)

lemma sample_point: "sc_g1_decompress tri_syscalls 1 = Some (bg_e1 tri_group 1)"
  "sc_g1_decompress tri_syscalls 2 = Some (bg_e1 tri_group 2)"
  by (simp_all add: tri_syscalls_def tri_group_def)

lemma sample_keys:
  "entry_keys tri_syscalls tri_group (\<lambda>_. 1)
     (take (unat (ss_operators_registered sample_snapshot)) (ss_operator_snapshots sample_snapshot))"
  "sc_g1_decompress tri_syscalls (ss_total_aggregated_g1_pubkey sample_snapshot) =
     Some (bg_e1 tri_group (live_keys (\<lambda>_. 1)
       (take (unat (ss_operators_registered sample_snapshot)) (ss_operator_snapshots sample_snapshot))))"
  "ss_total_aggregated_g1_pubkey sample_snapshot \<noteq> 0"
  "1 = signer_keys (\<lambda>_. 1) [1] 0
     (take (unat (ss_operators_registered sample_snapshot)) (ss_operator_snapshots sample_snapshot))"
  unfolding sample_entries
  by (simp_all add: entry_keys_def sample_entry_facts sample_point sample_bits)
    (simp_all add: sample_snapshot_def sample_point numeral_2_eq_2 [symmetric])

lemmas sample_iff = verify_certificate_iff [OF tri_laws tri_hash sample_keys sample_point(1),
  where window = 100 and len = 100 and slot = 50 and bps = 6667 and gen = 2]

lemma sample_verifies:
  "verify_certificate tri_syscalls sample_snapshot 6667 100 100 50 9 (bg_c2 tri_group 1) 1 [1] 2 = Inr ()"
  using sample_iff [of 9] sample_conditions by simp

theorem verify_certificate_sound_witness:
  "certificate_conditions sample_snapshot 6667 100 100 50 [1] 2 \<and>
   ss_total_aggregated_g1_pubkey sample_snapshot \<noteq> 0"
  by (rule verify_certificate_sound [OF sample_verifies])

theorem verify_certificate_accepts_iff_witness:
  "verify_certificate tri_syscalls sample_snapshot 6667 100 100 50 9 (bg_c2 tri_group 1) 1 [1] 2 = Inr () \<and>
   verify_certificate tri_syscalls sample_snapshot 6667 100 100 50 9 (bg_c2 tri_group 1) 2 [1] 2 \<noteq> Inr () \<and>
   verify_certificate tri_syscalls sample_snapshot 6667 100 100 50 9 (bg_c2 tri_group 2) 2 [1] 2 \<noteq> Inr ()"
proof -
  have ne: "bg_e1 tri_group 2 \<noteq> bg_e1 tri_group (1 * 1)"
    using bls_e1_eq [OF tri_laws, of 2 1] by (simp add: tri_group_def)
  have \<gamma>: "challenge tri_syscalls tri_group 9 1 2 2 mod 3 = 1"
    by (simp add: challenge_def compute_certificate_gamma_def tri_syscalls_def reduce_mod_fr_def FR_MODULUS_value)
  have own: "combined_equation tri_group 1 1 1 s (challenge tri_syscalls tri_group 9 1 1 s) \<longleftrightarrow>
      bg_e1 tri_group s = bg_e1 tri_group (1 * 1)" for s
    by (rule combined_equation_honest [OF tri_laws refl])
  have "\<not> combined_equation tri_group 1 1 2 2 g" if "g mod 3 = 1" for g
  proof -
    have "((1 + g) * 2) mod 3 = 1" "(2 + 1 * g) mod 3 = 0" using that by presburger+
    then show ?thesis by (simp add: combined_equation_def tri_group_def)
  qed
  from this [OF \<gamma>] have other: "\<not> combined_equation tri_group 1 1 2 2 (challenge tri_syscalls tri_group 9 1 2 2)" .
  note iff = verify_certificate_accepts_iff [OF tri_laws tri_hash sample_keys(1,2,4),
      where window = 100 and len = 100 and slot = 50 and bps = 6667 and gen = 2 and digest = 9]
  show ?thesis
    using iff [OF bls_decompress2 [OF tri_laws] sample_point(1)]
      iff [OF bls_decompress2 [OF tri_laws] sample_point(2), of 1]
      iff [OF bls_decompress2 [OF tri_laws] sample_point(2), of 2]
      sample_conditions sample_keys(3) ne own [of 1] own [of 2] other by simp
qed

end
