(* ===== verification/Fees.thy ===== *)
theory Fees
  imports Precise
begin

text \<open>
  The fee configuration (\<open>core/src/fees.rs\<close>): two \<open>Fees\<close> slots with activation epochs.  At
  any epoch one of them is current; an update is prepared in the other and takes effect with
  the next epoch.  A method that returns \<open>&mut Fees\<close> is modelled by the slot it selects.
\<close>

subsection \<open>Data\<close>

datatype fee = Fee (fee_value: u16)

definition fee_default :: fee where "fee_default = Fee 0"

record fees =
  fs_activation_epoch :: u64
  fs_protocol_fee_bps :: fee
  fs_ncn_fee_bps :: fee

record fee_config =
  fc_protocol_fee_wallet :: pubkey
  fc_ncn_fee_wallets :: pubkey
  fc_fee_1 :: fees
  fc_fee_2 :: fees

datatype fee_slot = Fee_1 | Fee_2

primrec fee_at :: "fee_slot \<Rightarrow> fee_config \<Rightarrow> fees" where
  "fee_at Fee_1 c = fc_fee_1 c"
| "fee_at Fee_2 c = fc_fee_2 c"

primrec put_fee :: "fee_slot \<Rightarrow> fees \<Rightarrow> fee_config \<Rightarrow> fee_config" where
  "put_fee Fee_1 f c = c\<lparr>fc_fee_1 := f\<rparr>"
| "put_fee Fee_2 f c = c\<lparr>fc_fee_2 := f\<rparr>"

subsection \<open>One slot\<close>

definition PROTOCOL_FEE_BPS :: u16 where "PROTOCOL_FEE_BPS = 400"

definition fees_set_ncn_fee_bps :: "fees \<Rightarrow> u16 \<Rightarrow> ncn_error + fees" where
  "fees_set_ncn_fee_bps f v =
     (if (ucast v :: u64) > MAX_FEE_BPS then Inl FeeCapExceeded
      else Inr (f\<lparr>fs_ncn_fee_bps := Fee v\<rparr>))"

definition fees_new :: "u16 \<Rightarrow> u64 \<Rightarrow> ncn_error + fees" where
  "fees_new default_ncn_fee_bps epoch =
     (let f = \<lparr>fs_activation_epoch = epoch, fs_protocol_fee_bps = fee_default,
               fs_ncn_fee_bps = fee_default\<rparr>;
          f = f\<lparr>fs_protocol_fee_bps := Fee PROTOCOL_FEE_BPS\<rparr>
      in fees_set_ncn_fee_bps f default_ncn_fee_bps)"

definition fees_protocol_fee_bps :: "fees \<Rightarrow> ncn_error + u16" where
  "fees_protocol_fee_bps f = Inr (fee_value (fs_protocol_fee_bps f))"

definition fees_precise_protocol_fee_bps :: "'p precise_ops \<Rightarrow> fees \<Rightarrow> ncn_error + 'p" where
  "fees_precise_protocol_fee_bps P f =
     try_bind (fees_protocol_fee_bps f) (\<lambda>v. ok_or NewPreciseNumberError (pn_new P (ucast v)))"

definition fees_ncn_fee_bps :: "fees \<Rightarrow> ncn_error + u16" where
  "fees_ncn_fee_bps f = Inr (fee_value (fs_ncn_fee_bps f))"

definition fees_precise_ncn_fee_bps :: "'p precise_ops \<Rightarrow> fees \<Rightarrow> ncn_error + 'p" where
  "fees_precise_ncn_fee_bps P f =
     try_bind (fees_ncn_fee_bps f) (\<lambda>v. ok_or NewPreciseNumberError (pn_new P (ucast v)))"

definition fees_total_fees_bps :: "fees \<Rightarrow> ncn_error + u64" where
  "fees_total_fees_bps f =
     try_bind (fees_protocol_fee_bps f) (\<lambda>p.
     try_bind (ok_or ArithmeticOverflow (checked_add 0 (ucast p))) (\<lambda>total.
     try_bind (fees_ncn_fee_bps f) (\<lambda>n.
     ok_or ArithmeticOverflow (checked_add total (ucast n)))))"

definition fees_precise_total_fee_bps :: "'p precise_ops \<Rightarrow> fees \<Rightarrow> ncn_error + 'p" where
  "fees_precise_total_fee_bps P f =
     try_bind (fees_total_fees_bps f) (\<lambda>t. ok_or NewPreciseNumberError (pn_new P (ucast t)))"

subsection \<open>The configuration\<close>

definition PROTOCOL_FEE_WALLET :: pubkey where
  "PROTOCOL_FEE_WALLET = 0x451e3dd50d3b7b8536045c2b7ac2ec259473ebc25ae3bcbe1fbeb17d52fbc7be"

definition current_slot_of :: "fee_config \<Rightarrow> u64 \<Rightarrow> fee_slot" where
  "current_slot_of c cur =
     (if fs_activation_epoch (fc_fee_1 c) > cur then Fee_2
      else if fs_activation_epoch (fc_fee_2 c) > cur then Fee_1
      else if fs_activation_epoch (fc_fee_1 c) \<ge> fs_activation_epoch (fc_fee_2 c) then Fee_1
      else Fee_2)"

definition current_fees :: "fee_config \<Rightarrow> u64 \<Rightarrow> fees" where
  "current_fees c cur = fee_at (current_slot_of c cur) c"

definition updatable_fees :: "fee_config \<Rightarrow> u64 \<Rightarrow> fee_slot" where
  "updatable_fees c cur =
     (if fs_activation_epoch (fc_fee_1 c) > cur then Fee_1
      else if fs_activation_epoch (fc_fee_2 c) > cur then Fee_2
      else if fs_activation_epoch (fc_fee_1 c) \<le> fs_activation_epoch (fc_fee_2 c) then Fee_1
      else Fee_2)"

definition update_updatable_epoch :: "fee_config \<Rightarrow> u64 \<Rightarrow> ncn_error + fee_config" where
  "update_updatable_epoch c cur =
     try_bind (ok_or ArithmeticOverflow (checked_add cur 1)) (\<lambda>next_epoch.
     let s = updatable_fees c cur
     in Inr (put_fee s ((fee_at s c)\<lparr>fs_activation_epoch := next_epoch\<rparr>) c))"

definition total_fees_bps :: "fee_config \<Rightarrow> u64 \<Rightarrow> ncn_error + u64" where
  "total_fees_bps c cur = fees_total_fees_bps (current_fees c cur)"

definition precise_total_fee_bps :: "'p precise_ops \<Rightarrow> fee_config \<Rightarrow> u64 \<Rightarrow> ncn_error + 'p" where
  "precise_total_fee_bps P c cur = fees_precise_total_fee_bps P (current_fees c cur)"

definition protocol_fee_bps :: "fee_config \<Rightarrow> u64 \<Rightarrow> ncn_error + u16" where
  "protocol_fee_bps c cur = fees_protocol_fee_bps (current_fees c cur)"

definition precise_protocol_fee_bps :: "'p precise_ops \<Rightarrow> fee_config \<Rightarrow> u64 \<Rightarrow> ncn_error + 'p" where
  "precise_protocol_fee_bps P c cur = fees_precise_protocol_fee_bps P (current_fees c cur)"

definition ncn_fee_bps :: "fee_config \<Rightarrow> u64 \<Rightarrow> ncn_error + u16" where
  "ncn_fee_bps c cur = fees_ncn_fee_bps (current_fees c cur)"

definition precise_ncn_fee_bps :: "'p precise_ops \<Rightarrow> fee_config \<Rightarrow> u64 \<Rightarrow> ncn_error + 'p" where
  "precise_ncn_fee_bps P c cur = fees_precise_ncn_fee_bps P (current_fees c cur)"

definition set_ncn_fee_bps :: "fee_config \<Rightarrow> u16 \<Rightarrow> u64 \<Rightarrow> ncn_error + fee_config" where
  "set_ncn_fee_bps c v cur =
     (let s = updatable_fees c cur
      in try_bind (fees_set_ncn_fee_bps (fee_at s c) v) (\<lambda>f. Inr (put_fee s f c)))"

definition set_ncn_fee_wallet :: "fee_config \<Rightarrow> pubkey \<Rightarrow> fee_config" where
  "set_ncn_fee_wallet c w = c\<lparr>fc_ncn_fee_wallets := w\<rparr>"

definition set_protocol_fee_wallet :: "fee_config \<Rightarrow> pubkey \<Rightarrow> fee_config" where
  "set_protocol_fee_wallet c w = c\<lparr>fc_protocol_fee_wallet := w\<rparr>"

definition set_fees_to_current :: "fee_config \<Rightarrow> u64 \<Rightarrow> ncn_error + fee_config" where
  "set_fees_to_current c cur =
     (if fs_activation_epoch (fc_fee_1 c) > cur \<or> fs_activation_epoch (fc_fee_2 c) > cur
      then Inl FeeNotActive
      else Inr (put_fee (updatable_fees c cur) (current_fees c cur) c))"

definition check_fees_okay :: "'p precise_ops \<Rightarrow> fee_config \<Rightarrow> u64 \<Rightarrow> ncn_error + unit" where
  "check_fees_okay P c cur =
     try_bind (precise_protocol_fee_bps P c cur) (\<lambda>_.
     try_bind (precise_ncn_fee_bps P c cur) (\<lambda>_.
     try_bind (total_fees_bps c cur) (\<lambda>total.
     if total > MAX_FEE_BPS then Inl FeeCapExceeded
     else if total = 0 then Inl TotalFeesCannotBeZero
     else Inr ())))"

definition fee_config_new ::
  "'p precise_ops \<Rightarrow> pubkey \<Rightarrow> u16 \<Rightarrow> u64 \<Rightarrow> ncn_error + fee_config" where
  "fee_config_new P ncn_fee_wallet default_ncn_fee_bps cur =
     (if ncn_fee_wallet = default_pubkey then Inl DefaultNcnWallet
      else if (ucast default_ncn_fee_bps :: u64) > MAX_FEE_BPS then Inl FeeCapExceeded
      else try_bind (fees_new default_ncn_fee_bps cur) (\<lambda>fee.
        let c = \<lparr>fc_protocol_fee_wallet = PROTOCOL_FEE_WALLET,
                 fc_ncn_fee_wallets = ncn_fee_wallet, fc_fee_1 = fee, fc_fee_2 = fee\<rparr>
        in try_bind (check_fees_okay P c cur) (\<lambda>_. Inr c)))"

text \<open>
  \<open>update_fee_config\<close> works on \<open>&mut self\<close> and validates last: its result is the answer together with
  the configuration as the call leaves it.  A failing setter has written nothing; a failing final
  check leaves the new fees in place.
\<close>

definition or_keep :: "'s \<Rightarrow> 'e + 's \<Rightarrow> ('s \<Rightarrow> ('e + unit) \<times> 's) \<Rightarrow> ('e + unit) \<times> 's" where
  "or_keep s m k = (case m of Inl e \<Rightarrow> (Inl e, s) | Inr t \<Rightarrow> k t)"

definition update_fee_config ::
  "'p precise_ops \<Rightarrow> fee_config \<Rightarrow> u16 option \<Rightarrow> pubkey option \<Rightarrow> u64 \<Rightarrow>
   (ncn_error + unit) \<times> fee_config" where
  "update_fee_config P c new_ncn_fee_bps new_ncn_fee_wallet cur =
     or_keep c (if fs_activation_epoch (fee_at (updatable_fees c cur) c) \<le> cur
               then set_fees_to_current c cur else Inr c) (\<lambda>c.
     or_keep c (case new_ncn_fee_bps of None \<Rightarrow> Inr c | Some v \<Rightarrow> set_ncn_fee_bps c v cur) (\<lambda>c.
     let c = (case new_ncn_fee_wallet of None \<Rightarrow> c | Some w \<Rightarrow> set_ncn_fee_wallet c w) in
     or_keep c (update_updatable_epoch c cur) (\<lambda>c.
     (try_bind (check_fees_okay P c cur) (\<lambda>_.
      try_bind (ok_or ArithmeticOverflow (checked_add cur 1)) (\<lambda>next_epoch.
      check_fees_okay P c next_epoch)), c))))"

text \<open>A caller that keeps the configuration only after success, as the runtime does with accounts.\<close>

definition committed :: "('e + unit) \<times> 's \<Rightarrow> 'e + 's" where
  "committed r = (case r of (Inl e, _) \<Rightarrow> Inl e | (Inr _, s) \<Rightarrow> Inr s)"

definition applied_update ::
  "'p precise_ops \<Rightarrow> fee_config \<Rightarrow> u16 option \<Rightarrow> pubkey option \<Rightarrow> u64 \<Rightarrow> ncn_error + fee_config" where
  "applied_update P c nf nw cur = committed (update_fee_config P c nf nw cur)"

lemma committed_simps:
  "committed (or_keep s m k) = try_bind m (\<lambda>t. committed (k t))"
  "committed (r, s) = try_bind r (\<lambda>_. Inr s)"
  by (cases m; simp add: committed_def or_keep_def) (cases r; simp add: committed_def)

lemma try_bind_assoc: "try_bind (try_bind m f) g = try_bind m (\<lambda>x. try_bind (f x) g)"
  by (cases m) simp_all

lemma applied_update_eq:
  "applied_update P c new_ncn_fee_bps new_ncn_fee_wallet cur =
     try_bind (if fs_activation_epoch (fee_at (updatable_fees c cur) c) \<le> cur
               then set_fees_to_current c cur else Inr c) (\<lambda>c.
     try_bind (case new_ncn_fee_bps of None \<Rightarrow> Inr c | Some v \<Rightarrow> set_ncn_fee_bps c v cur) (\<lambda>c.
     let c = (case new_ncn_fee_wallet of None \<Rightarrow> c | Some w \<Rightarrow> set_ncn_fee_wallet c w) in
     try_bind (update_updatable_epoch c cur) (\<lambda>c.
     try_bind (check_fees_okay P c cur) (\<lambda>_.
     try_bind (ok_or ArithmeticOverflow (checked_add cur 1)) (\<lambda>next_epoch.
     try_bind (check_fees_okay P c next_epoch) (\<lambda>_. Inr c))))))"
  unfolding applied_update_def update_fee_config_def Let_def committed_simps try_bind_assoc ..

subsection \<open>Facts about one slot\<close>

definition fees_total :: "fees \<Rightarrow> nat" where
  "fees_total f = unat (fee_value (fs_protocol_fee_bps f)) + unat (fee_value (fs_ncn_fee_bps f))"

definition fees_valid :: "fees \<Rightarrow> bool" where
  "fees_valid f \<longleftrightarrow> 0 < fees_total f \<and> fees_total f \<le> 10000"

lemma fees_total_fees_bps_eq: "fees_total_fees_bps f = Inr (of_nat (fees_total f))"
proof -
  obtain p n where pn: "fee_value (fs_protocol_fee_bps f) = p" "fee_value (fs_ncn_fee_bps f) = n"
    by simp
  have bounds: "unat p < 65536" "unat n < 65536"
    using unat_lt_length [of p] unat_lt_length [of n] by simp_all
  have "unat (ucast p :: u64) = unat p" "unat (ucast n :: u64) = unat n"
    by (simp_all add: unat_ucast_up)
  then show ?thesis
    using bounds pn
    by (simp add: fees_total_fees_bps_def fees_protocol_fee_bps_def fees_ncn_fee_bps_def
        checked_add_def fees_total_def)
qed

lemma unat_fees_total: "unat (of_nat (fees_total f) :: u64) = fees_total f"
proof -
  have "fees_total f < 2 ^ 64"
    using unat_lt_length [of "fee_value (fs_protocol_fee_bps f)"]
      unat_lt_length [of "fee_value (fs_ncn_fee_bps f)"] by (simp add: fees_total_def)
  then show ?thesis by (simp add: unat_of_nat)
qed

lemma check_fees_okay_eq:
  assumes "precise_laws P"
  shows "check_fees_okay P c cur =
     (if fees_total (current_fees c cur) > 10000 then Inl FeeCapExceeded
      else if fees_total (current_fees c cur) = 0 then Inl TotalFeesCannotBeZero else Inr ())"
proof -
  have new: "\<exists>p. pn_new P v = Some p" for v
    using assms unfolding precise_laws_def by blast
  obtain p n where "pn_new P (ucast (fee_value (fs_protocol_fee_bps (current_fees c cur)))) = Some p"
    "pn_new P (ucast (fee_value (fs_ncn_fee_bps (current_fees c cur)))) = Some n"
    using new by blast
  moreover have "(of_nat (fees_total (current_fees c cur)) :: u64) > MAX_FEE_BPS \<longleftrightarrow>
      fees_total (current_fees c cur) > 10000"
    by (simp add: word_less_nat_alt unat_fees_total MAX_FEE_BPS_def)
  moreover have "(of_nat (fees_total (current_fees c cur)) :: u64) = 0 \<longleftrightarrow>
      fees_total (current_fees c cur) = 0"
    by (simp add: unat_eq_zero [symmetric] unat_fees_total del: unat_eq_zero unat_eq_0)
  ultimately show ?thesis
    unfolding check_fees_okay_def precise_protocol_fee_bps_def precise_ncn_fee_bps_def
      fees_precise_protocol_fee_bps_def fees_precise_ncn_fee_bps_def fees_protocol_fee_bps_def
      fees_ncn_fee_bps_def total_fees_bps_def fees_total_fees_bps_eq
    by (simp only: try_bind_simps ok_or_simps)
qed

subsection \<open>The invariant of the two slots\<close>

text \<open>
  At most one slot is pending, and slots with the same activation epoch agree.  The second
  clause is what makes the two selectors complementary.
\<close>

definition fee_inv :: "u64 \<Rightarrow> fee_config \<Rightarrow> bool" where
  "fee_inv cur c \<longleftrightarrow>
     (fs_activation_epoch (fc_fee_1 c) \<le> cur \<or> fs_activation_epoch (fc_fee_2 c) \<le> cur) \<and>
     (fs_activation_epoch (fc_fee_1 c) = fs_activation_epoch (fc_fee_2 c) \<longrightarrow>
        fc_fee_1 c = fc_fee_2 c)"

lemma fee_inv_mono: "fee_inv cur c \<Longrightarrow> cur \<le> cur' \<Longrightarrow> fee_inv cur' c"
  by (auto simp: fee_inv_def)

primrec other_slot :: "fee_slot \<Rightarrow> fee_slot" where
  "other_slot Fee_1 = Fee_2"
| "other_slot Fee_2 = Fee_1"

lemma fee_at_put [simp]:
  "fee_at s (put_fee s f c) = f" "fee_at (other_slot s) (put_fee s f c) = fee_at (other_slot s) c"
  by (cases s; simp)+

lemma put_fee_wallets [simp]:
  "fc_ncn_fee_wallets (put_fee s f c) = fc_ncn_fee_wallets c"
  "fc_protocol_fee_wallet (put_fee s f c) = fc_protocol_fee_wallet c"
  by (cases s; simp)+

text \<open>What an update starts from: the pending fees if there are any, else the current ones.\<close>

definition pending_fees :: "fee_config \<Rightarrow> u64 \<Rightarrow> fees" where
  "pending_fees c cur =
     (if fs_activation_epoch (fee_at (updatable_fees c cur) c) \<le> cur then current_fees c cur
      else fee_at (updatable_fees c cur) c)"

lemma current_other_updatable:
  "fee_inv cur c \<Longrightarrow> current_fees c cur = fee_at (other_slot (updatable_fees c cur)) c"
  by (auto simp: fee_inv_def current_fees_def current_slot_of_def updatable_fees_def)

text \<open>A configuration whose slot \<open>s\<close> is pending for the next epoch.\<close>

lemma pending_slot_facts:
  assumes "fs_activation_epoch (fee_at s c) = cur + 1" "cur < cur + 1"
    "fs_activation_epoch (fee_at (other_slot s) c) \<le> cur"
  shows "updatable_fees c cur = s" "current_fees c cur = fee_at (other_slot s) c"
    "cur < e \<Longrightarrow> current_fees c e = fee_at s c" "fee_inv cur c"
proof -
  have le: "cur < e \<Longrightarrow> cur + 1 \<le> e" for e
    by (metis inc_le)
  show "updatable_fees c cur = s" "current_fees c cur = fee_at (other_slot s) c"
    "cur < e \<Longrightarrow> current_fees c e = fee_at s c" "fee_inv cur c"
    using assms le [of e]
    by (cases s; fastforce simp: updatable_fees_def current_fees_def current_slot_of_def fee_inv_def)+
qed

subsection \<open>The update, step by step\<close>

lemma prepare_update:
  assumes "fee_inv cur c"
  shows "(if fs_activation_epoch (fee_at (updatable_fees c cur) c) \<le> cur
          then set_fees_to_current c cur else Inr c) =
         Inr (put_fee (updatable_fees c cur) (pending_fees c cur) c)"
  using assms
  by (auto simp: set_fees_to_current_def pending_fees_def fee_inv_def updatable_fees_def)

text \<open>
  After the preparation the slot to write holds the fees to start from, and the other one the
  current fees, whichever slot the tie picks.
\<close>

lemma prepared_slots:
  assumes "fee_inv cur c" and c1: "c1 = put_fee (updatable_fees c cur) (pending_fees c cur) c"
  shows "fee_at (updatable_fees c1 cur) c1 = pending_fees c cur"
    "fee_at (other_slot (updatable_fees c1 cur)) c1 = current_fees c cur"
    "fs_activation_epoch (current_fees c cur) \<le> cur"
  using assms(1) unfolding c1
  by (auto simp: fee_inv_def updatable_fees_def pending_fees_def current_fees_def current_slot_of_def)

lemma updatable_put_same_epoch:
  "fs_activation_epoch f = fs_activation_epoch (fee_at s c) \<Longrightarrow>
     updatable_fees (put_fee s f c) cur = updatable_fees c cur"
  by (cases s) (simp_all add: updatable_fees_def)

lemma updatable_wallet [simp]:
  "updatable_fees (set_ncn_fee_wallet c w) cur = updatable_fees c cur"
  by (simp add: updatable_fees_def set_ncn_fee_wallet_def)

lemma fee_at_wallet [simp]: "fee_at s (set_ncn_fee_wallet c w) = fee_at s c"
  by (cases s) (simp_all add: set_ncn_fee_wallet_def)

definition next_fees :: "fee_config \<Rightarrow> u16 option \<Rightarrow> u64 \<Rightarrow> fees" where
  "next_fees c new_ncn_fee_bps cur = (pending_fees c cur)\<lparr>
     fs_ncn_fee_bps := (case new_ncn_fee_bps of None \<Rightarrow> fs_ncn_fee_bps (pending_fees c cur)
                          | Some v \<Rightarrow> Fee v),
     fs_activation_epoch := cur + 1\<rparr>"

definition new_wallet :: "fee_config \<Rightarrow> pubkey option \<Rightarrow> pubkey" where
  "new_wallet c w = (case w of None \<Rightarrow> fc_ncn_fee_wallets c | Some w \<Rightarrow> w)"

lemma epoch_succ:
  "checked_add cur 1 = Some n \<Longrightarrow> n = cur + 1 \<and> cur < cur + (1 :: u64)"
  "checked_add cur (1 :: u64) = None \<longleftrightarrow> cur = u64_max"
proof -
  assume "checked_add cur 1 = Some n"
  then have n: "n = cur + 1" and "unat n = unat cur + 1"
    by (auto simp: checked_add_def checked_add_Some split: if_splits)
      (simp add: unat_add_lem [symmetric] unat_word_ariths)
  then show "n = cur + 1 \<and> cur < cur + 1" by (simp add: word_less_nat_alt)
next
  have "cur = u64_max \<longleftrightarrow> unat cur = 2 ^ 64 - 1"
    by (simp add: word_unat_eq_iff unsigned_minus_1_eq_mask mask_eq_exp_minus_1)
  then show "checked_add cur 1 = None \<longleftrightarrow> cur = u64_max"
    using unat_lt_length [of cur] by (auto simp: checked_add_def)
qed

definition updated_config :: "fee_config \<Rightarrow> u16 option \<Rightarrow> pubkey option \<Rightarrow> u64 \<Rightarrow> fee_config" where
  "updated_config c nf nw cur =
     (let c1 = put_fee (updatable_fees c cur) (pending_fees c cur) c;
          c2 = c1\<lparr>fc_ncn_fee_wallets := new_wallet c nw\<rparr>
      in put_fee (updatable_fees c1 cur) (next_fees c nf cur) c2)"

lemma updated_config_slots:
  assumes "fee_inv cur c" and c1: "c1 = put_fee (updatable_fees c cur) (pending_fees c cur) c"
  defines "s \<equiv> updatable_fees c1 cur"
  shows "fee_at s (updated_config c nf nw cur) = next_fees c nf cur"
    "fee_at (other_slot s) (updated_config c nf nw cur) = current_fees c cur"
    "fc_ncn_fee_wallets (updated_config c nf nw cur) = new_wallet c nw"
    "fc_protocol_fee_wallet (updated_config c nf nw cur) = fc_protocol_fee_wallet c"
proof -
  have u: "updated_config c nf nw cur =
      put_fee s (next_fees c nf cur) (c1\<lparr>fc_ncn_fee_wallets := new_wallet c nw\<rparr>)"
    by (simp add: updated_config_def c1 s_def Let_def)
  have at: "fee_at t (c1\<lparr>fc_ncn_fee_wallets := w\<rparr>) = fee_at t c1" for t w
    by (cases t) simp_all
  show "fee_at s (updated_config c nf nw cur) = next_fees c nf cur"
    "fee_at (other_slot s) (updated_config c nf nw cur) = current_fees c cur"
    "fc_ncn_fee_wallets (updated_config c nf nw cur) = new_wallet c nw"
    "fc_protocol_fee_wallet (updated_config c nf nw cur) = fc_protocol_fee_wallet c"
    using prepared_slots(2) [OF assms(1) c1] by (simp_all add: u at) (simp_all add: s_def c1)
qed

lemma updated_config_schedule:
  assumes "fee_inv cur c" "cur < cur + 1"
  shows "current_fees (updated_config c nf nw cur) cur = current_fees c cur"
    "cur < e \<Longrightarrow> current_fees (updated_config c nf nw cur) e = next_fees c nf cur"
    "fee_inv cur (updated_config c nf nw cur)"
proof -
  define s where
    "s = updatable_fees (put_fee (updatable_fees c cur) (pending_fees c cur) c) cur"
  have a: "fee_at s (updated_config c nf nw cur) = next_fees c nf cur"
    and b: "fee_at (other_slot s) (updated_config c nf nw cur) = current_fees c cur"
    using updated_config_slots [OF assms(1) refl] by (simp_all add: s_def)
  have "fs_activation_epoch (fee_at s (updated_config c nf nw cur)) = cur + 1"
    "fs_activation_epoch (fee_at (other_slot s) (updated_config c nf nw cur)) \<le> cur"
    using prepared_slots(3) [OF assms(1) refl] by (simp_all only: a b) (simp_all add: next_fees_def)
  from pending_slot_facts [OF this(1) assms(2) this(2)] a b
  show "current_fees (updated_config c nf nw cur) cur = current_fees c cur"
    "cur < e \<Longrightarrow> current_fees (updated_config c nf nw cur) e = next_fees c nf cur"
    "fee_inv cur (updated_config c nf nw cur)" by simp_all
qed

lemma set_ncn_fee_bps_eq:
  "set_ncn_fee_bps c v cur =
     (if unat v > 10000 then Inl FeeCapExceeded
      else Inr (put_fee (updatable_fees c cur)
        ((fee_at (updatable_fees c cur) c)\<lparr>fs_ncn_fee_bps := Fee v\<rparr>) c))"
  by (simp add: set_ncn_fee_bps_def fees_set_ncn_fee_bps_def Let_def MAX_FEE_BPS_def
      word_less_nat_alt unat_ucast_up)

lemma put_put [simp]: "put_fee s f (put_fee s g c) = put_fee s f c"
  by (cases s) simp_all

lemma put_fee_at [simp]: "put_fee s (fee_at s c) c = c"
  by (cases s) simp_all

lemma put_fee_wallet: "set_ncn_fee_wallet (put_fee s f c) w = put_fee s f (set_ncn_fee_wallet c w)"
  by (cases s) (simp_all add: set_ncn_fee_wallet_def)

lemma new_wallet_eq:
  "(case w of None \<Rightarrow> c | Some w \<Rightarrow> set_ncn_fee_wallet c w) =
     c\<lparr>fc_ncn_fee_wallets := new_wallet c w\<rparr>"
  by (cases w) (simp_all add: set_ncn_fee_wallet_def new_wallet_def)

lemma wallet_update [simp]:
  "fee_at t (c\<lparr>fc_ncn_fee_wallets := w\<rparr>) = fee_at t c"
  "updatable_fees (c\<lparr>fc_ncn_fee_wallets := w\<rparr>) cur = updatable_fees c cur"
  "(put_fee t f c)\<lparr>fc_ncn_fee_wallets := w\<rparr> = put_fee t f (c\<lparr>fc_ncn_fee_wallets := w\<rparr>)"
  by (cases t; simp add: updatable_fees_def)+

lemma new_wallet_put [simp]: "new_wallet (put_fee t f c) w = new_wallet c w"
  by (cases w) (simp_all add: new_wallet_def)

text \<open>The two writes of an update, on the slot selected before them.\<close>

lemma write_ncn_fee:
  assumes "s = updatable_fees c cur"
  shows "(case nf of None \<Rightarrow> Inr c | Some v \<Rightarrow> set_ncn_fee_bps c v cur) =
    (if case nf of None \<Rightarrow> False | Some v \<Rightarrow> unat v > 10000 then Inl FeeCapExceeded
     else Inr (put_fee s ((fee_at s c)\<lparr>fs_ncn_fee_bps :=
       (case nf of None \<Rightarrow> fs_ncn_fee_bps (fee_at s c) | Some v \<Rightarrow> Fee v)\<rparr>) c))"
  using assms by (cases nf) (simp_all add: set_ncn_fee_bps_eq)

lemma write_epoch:
  assumes "s = updatable_fees c cur"
  shows "update_updatable_epoch c cur =
    (if cur = u64_max then Inl ArithmeticOverflow
     else Inr (put_fee s ((fee_at s c)\<lparr>fs_activation_epoch := cur + 1\<rparr>) c))"
  using assms epoch_succ [of cur]
  by (cases "checked_add cur 1") (auto simp: update_updatable_epoch_def Let_def)

lemma update_pieces:
  assumes inv: "fee_inv cur c"
  obtains c1 c2 where
    "(if fs_activation_epoch (fee_at (updatable_fees c cur) c) \<le> cur
      then set_fees_to_current c cur else Inr c) = Inr c1"
    "(case nf of None \<Rightarrow> Inr c1 | Some v \<Rightarrow> set_ncn_fee_bps c1 v cur) =
      (if case nf of None \<Rightarrow> False | Some v \<Rightarrow> unat v > 10000 then Inl FeeCapExceeded else Inr c2)"
    "update_updatable_epoch (case nw of None \<Rightarrow> c2 | Some w \<Rightarrow> set_ncn_fee_wallet c2 w) cur =
      (if cur = u64_max then Inl ArithmeticOverflow else Inr (updated_config c nf nw cur))"
proof -
  define c1 where "c1 = put_fee (updatable_fees c cur) (pending_fees c cur) c"
  define s where "s = updatable_fees c1 cur"
  define g where "g = (pending_fees c cur)\<lparr>fs_ncn_fee_bps :=
    (case nf of None \<Rightarrow> fs_ncn_fee_bps (pending_fees c cur) | Some v \<Rightarrow> Fee v)\<rparr>"
  define c2 where "c2 = put_fee s g c1"
  define c3 where "c3 = c2\<lparr>fc_ncn_fee_wallets := new_wallet c nw\<rparr>"
  have at: "fee_at s c1 = pending_fees c cur"
    using prepared_slots(1) [OF inv c1_def] by (simp add: s_def)
  have s3: "s = updatable_fees c3 cur"
    using at by (simp add: c3_def c2_def updatable_put_same_epoch g_def s_def)
  have w: "new_wallet c2 nw = new_wallet c nw" by (simp add: c2_def c1_def)
  have "put_fee s ((fee_at s c3)\<lparr>fs_activation_epoch := cur + 1\<rparr>) c3 = updated_config c nf nw cur"
    by (simp add: c3_def c2_def g_def updated_config_def Let_def s_def c1_def next_fees_def)
  with write_epoch [OF s3] have "update_updatable_epoch c3 cur =
      (if cur = u64_max then Inl ArithmeticOverflow else Inr (updated_config c nf nw cur))"
    by simp
  moreover have "(case nf of None \<Rightarrow> Inr c1 | Some v \<Rightarrow> set_ncn_fee_bps c1 v cur) =
      (if case nf of None \<Rightarrow> False | Some v \<Rightarrow> unat v > 10000 then Inl FeeCapExceeded else Inr c2)"
    unfolding write_ncn_fee [OF s_def] c2_def g_def at ..
  ultimately show ?thesis
    using that [of c1 c2] prepare_update [OF inv, folded c1_def] new_wallet_eq [of c2 nw] w
    by (simp add: c3_def)
qed

lemma next_epoch_eq:
  "ok_or e (checked_add cur 1) = (if cur = u64_max then Inl e else Inr (cur + 1))"
  for e :: ncn_error
  using epoch_succ [of cur] by (cases "checked_add cur 1") auto

lemma update_fee_config_eq:
  assumes inv: "fee_inv cur c"
  shows "applied_update P c nf nw cur =
     (if case nf of None \<Rightarrow> False | Some v \<Rightarrow> unat v > 10000 then Inl FeeCapExceeded
      else if cur = u64_max then Inl ArithmeticOverflow
      else try_bind (check_fees_okay P (updated_config c nf nw cur) cur) (\<lambda>_.
           try_bind (check_fees_okay P (updated_config c nf nw cur) (cur + 1)) (\<lambda>_.
           Inr (updated_config c nf nw cur))))"
proof -
  obtain c1 c2 where p: "(if fs_activation_epoch (fee_at (updatable_fees c cur) c) \<le> cur
      then set_fees_to_current c cur else Inr c) = Inr c1"
    "(case nf of None \<Rightarrow> Inr c1 | Some v \<Rightarrow> set_ncn_fee_bps c1 v cur) =
      (if case nf of None \<Rightarrow> False | Some v \<Rightarrow> unat v > 10000 then Inl FeeCapExceeded else Inr c2)"
    "update_updatable_epoch (case nw of None \<Rightarrow> c2 | Some w \<Rightarrow> set_ncn_fee_wallet c2 w) cur =
      (if cur = u64_max then Inl ArithmeticOverflow else Inr (updated_config c nf nw cur))"
    by (rule update_pieces [OF inv])
  show ?thesis
    unfolding applied_update_eq p(1) try_bind_simps p(2) Let_def
    by (cases "case nf of None \<Rightarrow> False | Some v \<Rightarrow> unat v > 10000")
      (simp_all only: if_True if_False try_bind_simps p(3) next_epoch_eq
        if_distrib [where f = "\<lambda>m. try_bind m k" for k] cong: if_cong)
qed

subsection \<open>What an update promises\<close>

definition fees_sound :: "u64 \<Rightarrow> fee_config \<Rightarrow> bool" where
  "fees_sound cur c \<longleftrightarrow> fee_inv cur c \<and> (\<forall>e \<ge> cur. fees_valid (current_fees c e))"

lemma check_fees_okay_Inr:
  "precise_laws P \<Longrightarrow> check_fees_okay P c cur = Inr u \<longleftrightarrow> fees_valid (current_fees c cur)"
  by (auto simp: check_fees_okay_eq fees_valid_def)

lemma update_fee_config_Inr:
  assumes "fee_inv cur c" "applied_update P c nf nw cur = Inr c'"
  shows "c' = updated_config c nf nw cur" "cur < cur + 1"
    "check_fees_okay P c' cur = Inr ()" "check_fees_okay P c' (cur + 1) = Inr ()"
proof -
  from assms(2) show "c' = updated_config c nf nw cur" "check_fees_okay P c' cur = Inr ()"
    "check_fees_okay P c' (cur + 1) = Inr ()"
    unfolding update_fee_config_eq [OF assms(1)] by (auto split: if_splits)
  from assms(2) have "cur \<noteq> u64_max"
    unfolding update_fee_config_eq [OF assms(1)] by (auto split: if_splits)
  then show "cur < cur + 1" using epoch_succ [of cur] by (cases "checked_add cur 1") auto
qed

lemma update_fee_config_sound:
  assumes laws: "precise_laws P" and inv: "fee_inv cur c"
    and upd: "applied_update P c nf nw cur = Inr c'"
  shows "fees_sound cur c'"
proof -
  note u = update_fee_config_Inr [OF inv upd]
  note sched = updated_config_schedule [OF inv u(2), where nf = nf and nw = nw, folded u(1)]
  have valid: "fees_valid (current_fees c' cur)" "fees_valid (current_fees c' (cur + 1))"
    using u(3,4) check_fees_okay_Inr [OF laws] by simp_all
  have "fees_valid (current_fees c' e)" if "cur \<le> e" for e
    using that valid sched(2) [of e] sched(2) [OF u(2)] by (cases "e = cur") auto
  with sched(3) show ?thesis by (simp add: fees_sound_def)
qed

text \<open>
  A successful \<open>update_fee_config\<close> is delayed by one epoch: the fees of the current epoch
  are what they were, every later epoch charges the prepared fees (the pending ones, or else the
  current ones, with the new NCN fee), the wallet changes at once, the protocol wallet never,
  and at every epoch from now on the total fee is between 1 and 10000 basis points.
\<close>

theorem update_fee_config_next_epoch:
  assumes "precise_laws P" "fee_inv cur c" "applied_update P c nf nw cur = Inr c'"
  shows "current_fees c' cur = current_fees c cur \<and>
    (\<forall>e. cur < e \<longrightarrow> current_fees c' e = (pending_fees c cur)\<lparr>
       fs_ncn_fee_bps := (case nf of None \<Rightarrow> fs_ncn_fee_bps (pending_fees c cur) | Some v \<Rightarrow> Fee v),
       fs_activation_epoch := cur + 1\<rparr>) \<and>
    fc_ncn_fee_wallets c' = (case nw of None \<Rightarrow> fc_ncn_fee_wallets c | Some w \<Rightarrow> w) \<and>
    fc_protocol_fee_wallet c' = fc_protocol_fee_wallet c \<and>
    (\<forall>e \<ge> cur. 0 < fees_total (current_fees c' e) \<and> fees_total (current_fees c' e) \<le> 10000)"
proof -
  note u = update_fee_config_Inr [OF assms(2,3)]
  show ?thesis
    using updated_config_schedule [OF assms(2) u(2)] updated_config_slots(3,4) [OF assms(2) refl]
      update_fee_config_sound [OF assms]
    by (simp add: u(1) next_fees_def new_wallet_def fees_sound_def fees_valid_def)
qed

definition sample_fees :: fee_config where
  "sample_fees =
     (let f = \<lparr>fs_activation_epoch = 10, fs_protocol_fee_bps = Fee 400, fs_ncn_fee_bps = Fee 300\<rparr>
      in \<lparr>fc_protocol_fee_wallet = PROTOCOL_FEE_WALLET, fc_ncn_fee_wallets = 7,
          fc_fee_1 = f, fc_fee_2 = f\<rparr>)"

lemmas sample_eval = sample_fees_def precise_u128_def applied_update_def committed_simps update_fee_config_def fee_config_new_def
  fees_new_def fees_set_ncn_fee_bps_def MAX_FEE_BPS_def check_fees_okay_def
  precise_protocol_fee_bps_def precise_ncn_fee_bps_def fees_precise_protocol_fee_bps_def
  fees_precise_ncn_fee_bps_def fees_protocol_fee_bps_def fees_ncn_fee_bps_def total_fees_bps_def
  fees_total_fees_bps_def current_fees_def current_slot_of_def updatable_fees_def
  set_fees_to_current_def set_ncn_fee_bps_def set_ncn_fee_wallet_def update_updatable_epoch_def
  checked_add_def PROTOCOL_FEE_BPS_def fee_default_def Let_def

lemma sample_new: "fee_config_new precise_u128 7 300 10 = Inr sample_fees"
  by (simp add: sample_eval)

lemma sample_inv: "fee_inv 10 sample_fees"
  by (simp add: fee_inv_def sample_fees_def Let_def)

lemma sample_update: "is_ok (applied_update precise_u128 sample_fees (Some 700) (Some 9) 10)"
  by (simp add: sample_eval)

theorem update_fee_config_next_epoch_witness:
  "\<exists>c'. applied_update precise_u128 sample_fees (Some 700) (Some 9) 10 = Inr c' \<and>
     fs_ncn_fee_bps (current_fees c' 10) = Fee 300 \<and> fs_ncn_fee_bps (current_fees c' 11) = Fee 700"
proof -
  obtain c' where c': "applied_update precise_u128 sample_fees (Some 700) (Some 9) 10 = Inr c'"
    using sample_update by (auto simp: is_ok_iff)
  have "fs_ncn_fee_bps (current_fees sample_fees 10) = Fee 300"
    by (simp add: sample_eval)
  with update_fee_config_next_epoch [OF precise_u128_laws sample_inv c'] c' show ?thesis
    by auto
qed

text \<open>
  With valid current fees, \<open>update_fee_config\<close> fails exactly in these cases, in this order: a
  new NCN fee over 10000 (\<open>FeeCapExceeded\<close>), the last epoch (\<open>ArithmeticOverflow\<close>), a new
  total over 10000 (\<open>FeeCapExceeded\<close>), a new total of 0 (\<open>TotalFeesCannotBeZero\<close>).
  \<open>FeeNotActive\<close> is unreachable.
\<close>

theorem update_fee_config_errors:
  assumes "precise_laws P" "fee_inv cur c" "fees_valid (current_fees c cur)"
  shows "result_err (applied_update P c nf nw cur) =
    (if case nf of None \<Rightarrow> False | Some v \<Rightarrow> unat v > 10000 then Some FeeCapExceeded
     else if cur = u64_max then Some ArithmeticOverflow
     else if fees_total (next_fees c nf cur) > 10000 then Some FeeCapExceeded
     else if fees_total (next_fees c nf cur) = 0 then Some TotalFeesCannotBeZero
     else None)"
proof (cases "cur = u64_max")
  case True
  then show ?thesis unfolding update_fee_config_eq [OF assms(2)] by simp
next
  case False
  then have lt: "cur < cur + 1" using epoch_succ [of cur] by (cases "checked_add cur 1") auto
  note sched = updated_config_schedule(1,2) [OF assms(2) lt]
  have "check_fees_okay P (updated_config c nf nw cur) cur = Inr ()"
    using assms(3) by (simp add: check_fees_okay_Inr [OF assms(1)] sched(1))
  moreover have "check_fees_okay P (updated_config c nf nw cur) (cur + 1) =
      (if fees_total (next_fees c nf cur) > 10000 then Inl FeeCapExceeded
       else if fees_total (next_fees c nf cur) = 0 then Inl TotalFeesCannotBeZero else Inr ())"
    by (simp only: check_fees_okay_eq [OF assms(1)] sched(2) [OF lt])
  ultimately show ?thesis
    using False unfolding update_fee_config_eq [OF assms(2)] by auto
qed

theorem update_fee_config_errors_witness:
  "result_err (applied_update precise_u128 sample_fees (Some 9601) None 10) = Some FeeCapExceeded"
proof -
  have "fees_valid (current_fees sample_fees 10)"
    by (simp add: sample_eval fees_valid_def fees_total_def)
  from update_fee_config_errors [OF precise_u128_laws sample_inv this, of "Some 9601" None]
  show ?thesis
    by (simp add: next_fees_def pending_fees_def fees_total_def sample_eval)
qed

text \<open>
  The configuration in memory after a call whose setters succeed is the updated one whatever the
  final checks answer: a caller that kept it after an error would hold the refused fees.
\<close>

theorem refused_update_keeps_refused_fees:
  assumes "fee_inv cur c" "cur \<noteq> u64_max" "case nf of None \<Rightarrow> True | Some v \<Rightarrow> unat v \<le> 10000"
  shows "snd (update_fee_config P c nf nw cur) = updated_config c nf nw cur"
proof -
  obtain c1 c2 where p: "(if fs_activation_epoch (fee_at (updatable_fees c cur) c) \<le> cur
      then set_fees_to_current c cur else Inr c) = Inr c1"
    "(case nf of None \<Rightarrow> Inr c1 | Some v \<Rightarrow> set_ncn_fee_bps c1 v cur) =
      (if case nf of None \<Rightarrow> False | Some v \<Rightarrow> unat v > 10000 then Inl FeeCapExceeded else Inr c2)"
    "update_updatable_epoch (case nw of None \<Rightarrow> c2 | Some w \<Rightarrow> set_ncn_fee_wallet c2 w) cur =
      (if cur = u64_max then Inl ArithmeticOverflow else Inr (updated_config c nf nw cur))"
    by (rule update_pieces [OF assms(1)])
  have "\<not> (case nf of None \<Rightarrow> False | Some v \<Rightarrow> unat v > 10000)" using assms(3) by (cases nf) auto
  then show ?thesis
    using assms(2) by (simp add: update_fee_config_def or_keep_def p Let_def)
qed

theorem refused_update_keeps_refused_fees_witness:
  "fst (update_fee_config precise_u128 sample_fees (Some 9900) None 10) = Inl FeeCapExceeded \<and>
   total_fees_bps (snd (update_fee_config precise_u128 sample_fees (Some 9900) None 10)) 11 = Inr 10300"
proof
  show "fst (update_fee_config precise_u128 sample_fees (Some 9900) None 10) = Inl FeeCapExceeded"
    by (simp add: sample_eval or_keep_def)
  have "current_fees (updated_config sample_fees (Some 9900) None 10) 11 = next_fees sample_fees (Some 9900) 10"
    by (rule updated_config_schedule(2) [OF sample_inv]) simp_all
  then show "total_fees_bps (snd (update_fee_config precise_u128 sample_fees (Some 9900) None 10)) 11 = Inr 10300"
    using refused_update_keeps_refused_fees [OF sample_inv, of "Some 9900" precise_u128 None]
    by (simp add: total_fees_bps_def fees_total_fees_bps_eq fees_total_def next_fees_def pending_fees_def sample_eval)
qed

subsection \<open>Sequences of updates\<close>

text \<open>
  An administrator's updates over time: each happens at an epoch of the clock, which never goes
  back.
\<close>

definition fee_step :: "'p precise_ops \<Rightarrow> u16 option \<times> pubkey option \<times> u64 \<Rightarrow>
    u64 \<times> fee_config \<Rightarrow> ncn_error + u64 \<times> fee_config" where
  "fee_step P op s = (case (op, s) of ((nf, nw, e), (cur, c)) \<Rightarrow>
     try_bind (applied_update P c nf nw (max cur e)) (\<lambda>c'. Inr (max cur e, c')))"

lemma fee_step_inv:
  assumes "precise_laws P" "fees_sound (fst s) (snd s)" "fee_step P op s = Inr t"
  shows "fees_sound (fst t) (snd t)"
proof -
  obtain nf nw e where op: "op = (nf, nw, e)" by (cases op)
  obtain cur c where s: "s = (cur, c)" by (cases s)
  from assms(3) obtain c' where c': "applied_update P c nf nw (max cur e) = Inr c'"
    and t: "t = (max cur e, c')" by (auto simp: fee_step_def op s)
  from assms(2) have "fee_inv (max cur e) c"
    by (auto simp: s fees_sound_def intro: fee_inv_mono)
  from update_fee_config_sound [OF assms(1) this c'] show ?thesis by (simp add: t)
qed

interpretation fee_updates: transactional "fee_step P" "\<lambda>_. True"
  "\<lambda>s. precise_laws P \<and> fees_sound (fst s) (snd s)" for P :: "'p precise_ops"
  by unfold_locales (auto intro: fee_step_inv)

lemma fee_config_new_sound:
  assumes laws: "precise_laws P" and new: "fee_config_new P w f cur = Inr c"
  shows "fees_sound cur c"
proof -
  from new obtain fee where c: "fc_fee_1 c = fee" "fc_fee_2 c = fee"
    and chk: "check_fees_okay P c cur = Inr ()"
    by (auto simp: fee_config_new_def Let_def split: if_splits)
  from new c have act: "fs_activation_epoch fee = cur"
    by (auto simp: fee_config_new_def fees_new_def fees_set_ncn_fee_bps_def Let_def split: if_splits)
  have "fees_valid (current_fees c cur)" using chk check_fees_okay_Inr [OF laws] by simp
  then show ?thesis
    using c act by (auto simp: fees_sound_def fee_inv_def current_fees_def current_slot_of_def)
qed

text \<open>
  C25: From \<open>FeeConfig::new\<close> on, after any sequence of updates at non-decreasing epochs of which the
  refused ones are discarded, as the runtime discards what a failing instruction wrote, the total
  fee charged at the current and every later epoch is between 1 and 10000 basis points.  (A
  configuration kept after an error would hold the refused fees:
  \<open>refused_update_keeps_refused_fees\<close>.)
\<close>

theorem fee_history_sound:
  assumes "precise_laws P" "fee_config_new P w f cur = Inr c"
    "run_all (fee_step P) ops (cur, c) = (cur', c')" "cur' \<le> e"
  shows "\<exists>t. total_fees_bps c' e = Inr t \<and> 0 < t \<and> t \<le> 10000"
proof -
  have "fees_sound cur' c'"
    using fee_updates.run_inv [of P "(cur, c)" ops] list_all_True fee_config_new_sound [OF assms(1,2)] assms(1,3)
    by simp
  then have "0 < fees_total (current_fees c' e)" "fees_total (current_fees c' e) \<le> 10000"
    using assms(4) by (auto simp: fees_sound_def fees_valid_def)
  then show ?thesis
    using unat_fees_total [of "current_fees c' e"]
    by (simp add: total_fees_bps_def fees_total_fees_bps_eq word_less_nat_alt word_le_nat_alt)
qed

theorem fee_history_sound_witness:
  "\<exists>t. total_fees_bps (snd (run_all (fee_step precise_u128) [(Some 700, None, 10), (Some 9900, None, 11)]
     (10, sample_fees))) 12 = Inr t \<and> 0 < t \<and> t \<le> 10000"
proof -
  let ?r = "run_all (fee_step precise_u128) [(Some 700, None, 10), (Some 9900, None, 11)] (10, sample_fees)"
  have "fst ?r \<le> 12"
    by (simp add: fee_step_def sample_eval)
  then show ?thesis
    by (rule fee_history_sound [OF precise_u128_laws sample_new prod.collapse [symmetric]])
qed

end
