(* ===== verification/Config.thy ===== *)
theory Config
  imports Fees Stake_Weight
begin

text \<open>
  The program's configuration account (\<open>core/src/config.rs\<close>).  The getters of the source are
  the record's fields.
\<close>

record config =
  cf_ncn :: pubkey
  cf_tie_breaker_admin :: pubkey
  cf_valid_slots_after_consensus :: u64
  cf_epochs_before_stall :: u64
  cf_epochs_after_consensus_before_close :: u64
  cf_starting_valid_epoch :: u64
  cf_fee_config :: fee_config
  cf_bump :: u8
  cf_minimum_stake :: stake_weights
  cf_consensus_threshold_bps :: u16

definition config_new :: "pubkey \<Rightarrow> pubkey \<Rightarrow> u64 \<Rightarrow> u64 \<Rightarrow> u64 \<Rightarrow> u64 \<Rightarrow> fee_config \<Rightarrow> stake_weights \<Rightarrow>
    u8 \<Rightarrow> config" where
  "config_new ncn tie_breaker_admin starting_valid_epoch valid_slots_after_consensus
     epochs_before_stall epochs_after_consensus_before_close fee_config minimum_stake bump =
     \<lparr>cf_ncn = ncn, cf_tie_breaker_admin = tie_breaker_admin,
      cf_valid_slots_after_consensus = valid_slots_after_consensus,
      cf_epochs_before_stall = epochs_before_stall,
      cf_epochs_after_consensus_before_close = epochs_after_consensus_before_close,
      cf_starting_valid_epoch = starting_valid_epoch, cf_fee_config = fee_config, cf_bump = bump,
      cf_minimum_stake = minimum_stake,
      cf_consensus_threshold_bps = DEFAULT_CONSENSUS_THRESHOLD_BPS\<rparr>"

text \<open>\<open>size_of::<Config>()\<close>: the fields are packed (all have alignment 1).\<close>

definition CONFIG_SIZE :: nat where
  "CONFIG_SIZE = 8 + (32 + 32 + 8 + 8 + 8 + 8 + (32 + 32 + 2 * (8 + 2 + 2)) + 1 + 16 + 2)"

text \<open>The parameter ranges the administrator may set; they are checked in every handler.\<close>

definition config_params_ok :: "config \<Rightarrow> bool" where
  "config_params_ok c \<longleftrightarrow>
     MIN_EPOCHS_BEFORE_STALL \<le> cf_epochs_before_stall c \<and>
     cf_epochs_before_stall c \<le> MAX_EPOCHS_BEFORE_STALL \<and>
     MIN_EPOCHS_AFTER_CONSENSUS_BEFORE_CLOSE \<le> cf_epochs_after_consensus_before_close c \<and>
     cf_epochs_after_consensus_before_close c \<le> MAX_EPOCHS_AFTER_CONSENSUS_BEFORE_CLOSE \<and>
     MIN_VALID_SLOTS_AFTER_CONSENSUS \<le> cf_valid_slots_after_consensus c \<and>
     cf_valid_slots_after_consensus c \<le> MAX_VALID_SLOTS_AFTER_CONSENSUS \<and>
     MIN_CONSENSUS_THRESHOLD_BPS \<le> cf_consensus_threshold_bps c \<and>
     cf_consensus_threshold_bps c \<le> MAX_CONSENSUS_THRESHOLD_BPS"

end
