(* ===== verification/Vault_Registry.thy ===== *)
theory Vault_Registry
  imports Constants
begin

text \<open>
  The registry of supported mints and vaults (\<open>core/src/vault_registry.rs\<close>): two arrays of
  sixteen slots used as keyed tables.  A mint slot is free when its mint is the default key; a
  vault slot is free for insertion when its mint is the default key, and counts as empty when
  its registration slot is \<open>u64::MAX\<close>.
\<close>

definition FULL_WEIGHT_BPS :: u16 where "FULL_WEIGHT_BPS = 10000"

subsection \<open>Entries\<close>

record st_mint_entry =
  sm_st_mint :: pubkey
  sm_weight_bps :: u16
  sm_reserve_switchboard_feed :: bytes32

definition st_mint_entry_new :: "pubkey \<Rightarrow> u16 \<Rightarrow> st_mint_entry" where
  "st_mint_entry_new st_mint weight_bps =
     \<lparr>sm_st_mint = st_mint, sm_weight_bps = weight_bps, sm_reserve_switchboard_feed = 0\<rparr>"

definition st_mint_entry_default :: st_mint_entry where
  "st_mint_entry_default = st_mint_entry_new default_pubkey 0"

definition sm_is_empty :: "st_mint_entry \<Rightarrow> bool" where
  "sm_is_empty m \<longleftrightarrow> sm_st_mint m = default_pubkey"

record vault_entry =
  ve_vault :: pubkey
  ve_st_mint :: pubkey
  ve_vault_index :: u64
  ve_slot_registered :: u64

definition EMPTY_VAULT_INDEX :: u64 where "EMPTY_VAULT_INDEX = u64_max"
definition EMPTY_SLOT_REGISTERED :: u64 where "EMPTY_SLOT_REGISTERED = u64_max"

definition vault_entry_new :: "pubkey \<Rightarrow> pubkey \<Rightarrow> u64 \<Rightarrow> u64 \<Rightarrow> vault_entry" where
  "vault_entry_new vault st_mint vault_index slot_registered =
     \<lparr>ve_vault = vault, ve_st_mint = st_mint, ve_vault_index = vault_index,
      ve_slot_registered = slot_registered\<rparr>"

definition vault_entry_default :: vault_entry where
  "vault_entry_default =
     vault_entry_new default_pubkey default_pubkey EMPTY_VAULT_INDEX EMPTY_SLOT_REGISTERED"

definition ve_is_empty :: "vault_entry \<Rightarrow> bool" where
  "ve_is_empty v \<longleftrightarrow> ve_slot_registered v = u64_max"

subsection \<open>The registry\<close>

record vault_registry =
  vr_ncn :: pubkey
  vr_bump :: u8
  vr_st_mint_list :: "st_mint_entry list"
  vr_vault_list :: "vault_entry list"

definition vault_registry_new :: "pubkey \<Rightarrow> u8 \<Rightarrow> vault_registry" where
  "vault_registry_new ncn bump =
     \<lparr>vr_ncn = ncn, vr_bump = bump,
      vr_st_mint_list = replicate MAX_ST_MINTS st_mint_entry_default,
      vr_vault_list = replicate MAX_VAULTS vault_entry_default\<rparr>"

definition vault_registry_initialize :: "vault_registry \<Rightarrow> pubkey \<Rightarrow> u8 \<Rightarrow> vault_registry" where
  "vault_registry_initialize r ncn bump =
     r\<lparr>vr_ncn := ncn, vr_bump := bump,
       vr_st_mint_list := replicate MAX_ST_MINTS st_mint_entry_default,
       vr_vault_list := replicate MAX_VAULTS vault_entry_default\<rparr>"

definition VAULT_REGISTRY_SIZE :: nat where
  "VAULT_REGISTRY_SIZE = 8 + (32 + 1 + 16 * (32 + 2 + 32) + 16 * (32 + 32 + 8 + 8))"

definition has_st_mint :: "vault_registry \<Rightarrow> pubkey \<Rightarrow> bool" where
  "has_st_mint r mint = list_ex (\<lambda>m. sm_st_mint m = mint) (vr_st_mint_list r)"

definition check_st_mint_entry :: "st_mint_entry \<Rightarrow> program_error + unit" where
  "check_st_mint_entry e = Inr ()"

text \<open>
  \<open>iter_mut().find(P)\<close> followed by an assignment through the reference is the first position
  with \<open>P\<close> and a list update there.
\<close>

definition register_st_mint ::
  "vault_registry \<Rightarrow> pubkey \<Rightarrow> u16 \<Rightarrow> program_error + vault_registry" where
  "register_st_mint r st_mint weight_bps =
     (if weight_bps = 0 \<or> weight_bps > FULL_WEIGHT_BPS then Inl (from_ncn InvalidWeightBps)
      else if list_ex (\<lambda>m. sm_st_mint m = st_mint) (vr_st_mint_list r)
      then Inl (from_ncn MintInTable)
      else
        try_bind (ok_or (from_ncn VaultRegistryListFull)
          (position (\<lambda>m. sm_st_mint m = sm_st_mint st_mint_entry_default) (vr_st_mint_list r)))
        (\<lambda>i.
        let new_mint_entry = st_mint_entry_new st_mint weight_bps in
        try_bind (check_st_mint_entry new_mint_entry) (\<lambda>_.
        Inr (r\<lparr>vr_st_mint_list := (vr_st_mint_list r)[i := new_mint_entry]\<rparr>))))"

definition set_st_mint :: "vault_registry \<Rightarrow> pubkey \<Rightarrow> program_error + vault_registry" where
  "set_st_mint r st_mint =
     try_bind (ok_or (from_ncn MintEntryNotFound)
       (position (\<lambda>m. sm_st_mint m = st_mint) (vr_st_mint_list r))) (\<lambda>i.
     let updated_mint_entry = vr_st_mint_list r ! i in
     try_bind (check_st_mint_entry updated_mint_entry) (\<lambda>_.
     Inr (r\<lparr>vr_st_mint_list := (vr_st_mint_list r)[i := updated_mint_entry]\<rparr>)))"

definition register_vault_entry ::
  "vault_registry \<Rightarrow> pubkey \<Rightarrow> pubkey \<Rightarrow> u64 \<Rightarrow> u64 \<Rightarrow> program_error + vault_registry" where
  "register_vault_entry r vault st_mint vault_index current_slot =
     (if list_ex (\<lambda>m. ve_vault m = vault) (vr_vault_list r) then Inr r
      else
        try_bind (ok_or (from_ncn VaultRegistryListFull)
          (position (\<lambda>m. ve_st_mint m = ve_st_mint vault_entry_default) (vr_vault_list r)))
        (\<lambda>i. Inr (r\<lparr>vr_vault_list :=
          (vr_vault_list r)[i := vault_entry_new vault st_mint vault_index current_slot]\<rparr>)))"

definition get_vault_registry_slot :: "vault_registry \<Rightarrow> pubkey \<Rightarrow> ncn_error + nat" where
  "get_vault_registry_slot r vault =
     ok_or VaultNotInRegistry
       (position (\<lambda>e. \<not> ve_is_empty e \<and> ve_vault e = vault) (vr_vault_list r))"

definition get_vault_weight_bps :: "vault_registry \<Rightarrow> pubkey \<Rightarrow> ncn_error + u16" where
  "get_vault_weight_bps r vault =
     try_bind (ok_or VaultNotInRegistry
       (List.find (\<lambda>e. \<not> ve_is_empty e \<and> ve_vault e = vault) (vr_vault_list r))) (\<lambda>entry.
     try_bind (ok_or MintEntryNotFound
       (List.find (\<lambda>m. sm_st_mint m = ve_st_mint entry) (vr_st_mint_list r))) (\<lambda>mint_entry.
     Inr (sm_weight_bps mint_entry)))"

definition get_valid_vault_entries :: "vault_registry \<Rightarrow> vault_entry list" where
  "get_valid_vault_entries r = filter (\<lambda>m. \<not> ve_is_empty m) (vr_vault_list r)"

definition get_valid_mint_entries :: "vault_registry \<Rightarrow> st_mint_entry list" where
  "get_valid_mint_entries r = filter (\<lambda>m. \<not> sm_is_empty m) (vr_st_mint_list r)"

definition vault_count :: "vault_registry \<Rightarrow> u64" where
  "vault_count r = of_nat (length (filter (\<lambda>m. \<not> ve_is_empty m) (vr_vault_list r)))"

definition st_mint_count :: "vault_registry \<Rightarrow> nat" where
  "st_mint_count r = length (filter (\<lambda>m. \<not> sm_is_empty m) (vr_st_mint_list r))"

definition get_mint_entry :: "vault_registry \<Rightarrow> pubkey \<Rightarrow> program_error + st_mint_entry" where
  "get_mint_entry r st_mint =
     ok_or (from_ncn MintEntryNotFound)
       (List.find (\<lambda>m. sm_st_mint m = st_mint) (vr_st_mint_list r))"

subsection \<open>The tables\<close>

abbreviation sm_occupied :: "st_mint_entry \<Rightarrow> bool" where "sm_occupied m \<equiv> \<not> sm_is_empty m"
abbreviation ve_occupied :: "vault_entry \<Rightarrow> bool" where
  "ve_occupied v \<equiv> ve_st_mint v \<noteq> default_pubkey"

text \<open>The two insertions, as operations on the tables.\<close>

definition mint_put :: "vault_registry \<Rightarrow> st_mint_entry \<Rightarrow> st_mint_entry list \<Rightarrow>
    st_mint_entry list option" where
  "mint_put r e xs =
     (if sm_reserve_switchboard_feed e = 0
      then map_option vr_st_mint_list (result_ok
        (register_st_mint (r\<lparr>vr_st_mint_list := xs\<rparr>) (sm_st_mint e) (sm_weight_bps e)))
      else None)"

definition vault_put :: "vault_registry \<Rightarrow> vault_entry \<Rightarrow> vault_entry list \<Rightarrow>
    vault_entry list option" where
  "vault_put r e xs =
     (if list_ex (\<lambda>m. ve_vault m = ve_vault e) xs then None
      else map_option vr_vault_list (result_ok
        (register_vault_entry (r\<lparr>vr_vault_list := xs\<rparr>) (ve_vault e) (ve_st_mint e)
          (ve_vault_index e) (ve_slot_registered e))))"

lemma register_st_mint_Inr:
  "register_st_mint r m w = Inr r' \<longleftrightarrow>
     w \<noteq> 0 \<and> w \<le> FULL_WEIGHT_BPS \<and> (\<forall>e \<in> set (vr_st_mint_list r). sm_st_mint e \<noteq> m) \<and>
     (\<exists>i. position sm_is_empty (vr_st_mint_list r) = Some i \<and>
        r' = r\<lparr>vr_st_mint_list := (vr_st_mint_list r)[i := st_mint_entry_new m w]\<rparr>)"
proof -
  have "(\<lambda>m. sm_st_mint m = sm_st_mint st_mint_entry_default) = sm_is_empty"
    by (auto simp: sm_is_empty_def st_mint_entry_default_def st_mint_entry_new_def)
  then show ?thesis
    by (auto simp: register_st_mint_def Let_def check_st_mint_entry_def list_ex_iff)
qed

lemma register_vault_entry_new:
  assumes "\<forall>e \<in> set (vr_vault_list r). ve_vault e \<noteq> v"
  shows "register_vault_entry r v m ix slot = Inr r' \<longleftrightarrow>
     (\<exists>i. position (\<lambda>e. \<not> ve_occupied e) (vr_vault_list r) = Some i \<and>
        r' = r\<lparr>vr_vault_list := (vr_vault_list r)[i := vault_entry_new v m ix slot]\<rparr>)"
  using assms
  by (auto simp: register_vault_entry_def vault_entry_default_def vault_entry_new_def list_ex_iff)

lemma register_vault_entry_old:
  "\<exists>e \<in> set (vr_vault_list r). ve_vault e = v \<Longrightarrow> register_vault_entry r v m ix slot = Inr r"
  by (auto simp: register_vault_entry_def list_ex_iff)

interpretation mint_table: slot_table sm_occupied sm_st_mint "mint_put r" for r :: vault_registry
proof
  fix e xs ys
  assume "mint_put r e xs = Some ys"
  then obtain i where free: "position sm_is_empty xs = Some i"
    and fresh: "\<forall>x \<in> set xs. sm_st_mint x \<noteq> sm_st_mint e"
    and ys: "ys = xs[i := st_mint_entry_new (sm_st_mint e) (sm_weight_bps e)]"
    and feed: "sm_reserve_switchboard_feed e = 0"
    by (auto simp: mint_put_def register_st_mint_Inr split: if_splits)
  have "st_mint_entry_new (sm_st_mint e) (sm_weight_bps e) = e"
    using feed by (cases e) (simp add: st_mint_entry_new_def)
  with ys have ys': "ys = xs[i := e]" by simp
  from position_SomeD [OF free] have "i < length xs" "sm_is_empty (xs ! i)" by auto
  with ys' fresh show "\<exists>i < length xs. ys = xs[i := e] \<and>
       (sm_occupied (xs ! i) \<longrightarrow> sm_st_mint (xs ! i) = sm_st_mint e) \<and>
       (keyed sm_occupied sm_st_mint xs \<longrightarrow>
         (\<forall>j < length xs. j \<noteq> i \<and> sm_occupied (xs ! j) \<longrightarrow> sm_st_mint (xs ! j) \<noteq> sm_st_mint e))"
    by (auto intro!: exI [of _ i])
qed

interpretation vault_table: slot_table ve_occupied ve_vault "vault_put r" for r :: vault_registry
proof
  fix e xs ys
  assume put: "vault_put r e xs = Some ys"
  then have fresh: "\<forall>x \<in> set xs. ve_vault x \<noteq> ve_vault e"
    by (auto simp: vault_put_def list_ex_iff split: if_splits)
  with put obtain i where free: "position (\<lambda>e. \<not> ve_occupied e) xs = Some i"
    and ys: "ys = xs[i := vault_entry_new (ve_vault e) (ve_st_mint e) (ve_vault_index e)
      (ve_slot_registered e)]"
    by (auto simp: vault_put_def register_vault_entry_new split: if_splits)
  have "vault_entry_new (ve_vault e) (ve_st_mint e) (ve_vault_index e) (ve_slot_registered e) = e"
    by (cases e) (simp add: vault_entry_new_def)
  with ys have ys': "ys = xs[i := e]" by simp
  from position_SomeD [OF free] have "i < length xs" "\<not> ve_occupied (xs ! i)" by auto
  with ys' fresh show "\<exists>i < length xs. ys = xs[i := e] \<and>
       (ve_occupied (xs ! i) \<longrightarrow> ve_vault (xs ! i) = ve_vault e) \<and>
       (keyed ve_occupied ve_vault xs \<longrightarrow>
         (\<forall>j < length xs. j \<noteq> i \<and> ve_occupied (xs ! j) \<longrightarrow> ve_vault (xs ! j) \<noteq> ve_vault e))"
    by (auto intro!: exI [of _ i])
qed

subsection \<open>The abstract registry: two maps\<close>

definition mint_weights :: "vault_registry \<Rightarrow> pubkey \<rightharpoonup> u16" where
  "mint_weights r k =
     map_option sm_weight_bps (table_lookup sm_occupied sm_st_mint (vr_st_mint_list r) k)"

definition vault_mints :: "vault_registry \<Rightarrow> pubkey \<rightharpoonup> pubkey" where
  "vault_mints r v =
     map_option ve_st_mint (table_lookup ve_occupied ve_vault (vr_vault_list r) v)"

definition weight_ok :: "u16 \<Rightarrow> bool" where "weight_ok w \<longleftrightarrow> w \<noteq> 0 \<and> w \<le> FULL_WEIGHT_BPS"

definition registry_ok :: "vault_registry \<Rightarrow> bool" where
  "registry_ok r \<longleftrightarrow>
     length (vr_st_mint_list r) = MAX_ST_MINTS \<and> length (vr_vault_list r) = MAX_VAULTS \<and>
     keyed sm_occupied sm_st_mint (vr_st_mint_list r) \<and>
     keyed ve_occupied ve_vault (vr_vault_list r) \<and>
     (\<forall>m \<in> set (vr_st_mint_list r). sm_occupied m \<longrightarrow> weight_ok (sm_weight_bps m)) \<and>
     (\<forall>v \<in> set (vr_vault_list r). ve_occupied v \<longleftrightarrow> \<not> ve_is_empty v) \<and>
     (\<forall>v \<in> set (vr_vault_list r). ve_occupied v \<longrightarrow>
        ve_st_mint v \<in> sm_st_mint ` set (vr_st_mint_list r))"

lemma registry_ok_new: "registry_ok (vault_registry_new ncn bump)"
  by (simp add: registry_ok_def vault_registry_new_def keyed_def st_mint_entry_default_def
      st_mint_entry_new_def sm_is_empty_def vault_entry_default_def vault_entry_new_def
      ve_is_empty_def EMPTY_SLOT_REGISTERED_def)

lemma register_st_mint_put:
  "register_st_mint r m w = Inr r' \<Longrightarrow>
     mint_put r (st_mint_entry_new m w) (vr_st_mint_list r) = Some (vr_st_mint_list r')"
  by (simp add: mint_put_def st_mint_entry_new_def)

lemma register_vault_put:
  "register_vault_entry r v m ix slot = Inr r' \<Longrightarrow> \<forall>e \<in> set (vr_vault_list r). ve_vault e \<noteq> v \<Longrightarrow>
     vault_put r (vault_entry_new v m ix slot) (vr_vault_list r) = Some (vr_vault_list r')"
  by (auto simp: vault_put_def vault_entry_new_def list_ex_iff)

lemma registered_mint_not_default:
  "register_st_mint r m w = Inr r' \<Longrightarrow> m \<noteq> default_pubkey"
  by (auto simp: register_st_mint_Inr sm_is_empty_def dest!: position_SomeD)

lemma mint_lookup_find:
  "m \<noteq> default_pubkey \<Longrightarrow>
     List.find (\<lambda>e. sm_st_mint e = m) xs = table_lookup sm_occupied sm_st_mint xs m"
  unfolding table_lookup_def by (rule arg_cong [where f = "\<lambda>P. List.find P xs"])
    (auto simp: sm_is_empty_def)

lemma vault_lookup_find:
  "\<forall>v \<in> set xs. ve_occupied v \<longleftrightarrow> \<not> ve_is_empty v \<Longrightarrow>
     List.find (\<lambda>e. \<not> ve_is_empty e \<and> ve_vault e = v) xs = table_lookup ve_occupied ve_vault xs v"
  unfolding table_lookup_def by (induction xs) auto

lemma get_vault_weight_bps_maps:
  assumes "registry_ok r"
  shows "get_vault_weight_bps r v =
    (case vault_mints r v of None \<Rightarrow> Inl VaultNotInRegistry
     | Some m \<Rightarrow> ok_or MintEntryNotFound (mint_weights r m))"
proof -
  have find: "List.find (\<lambda>e. \<not> ve_is_empty e \<and> ve_vault e = v) (vr_vault_list r) =
      table_lookup ve_occupied ve_vault (vr_vault_list r) v"
    using assms by (intro vault_lookup_find) (simp add: registry_ok_def)
  show ?thesis
  proof (cases "table_lookup ve_occupied ve_vault (vr_vault_list r) v")
    case None
    then show ?thesis by (simp add: get_vault_weight_bps_def find vault_mints_def)
  next
    case (Some e)
    then have "ve_st_mint e \<noteq> default_pubkey" by (auto dest: table_lookup_SomeD)
    then show ?thesis
      using Some
      by (cases "table_lookup sm_occupied sm_st_mint (vr_st_mint_list r) (ve_st_mint e)")
        (simp_all add: get_vault_weight_bps_def find vault_mints_def mint_weights_def mint_lookup_find)
  qed
qed

lemma register_st_mint_step:
  assumes ok: "registry_ok r" and reg: "register_st_mint r m w = Inr r'"
  shows "m \<noteq> default_pubkey \<and> mint_weights r m = None \<and> 0 < w \<and> w \<le> 10000 \<and>
    mint_weights r' = (mint_weights r)(m \<mapsto> w) \<and> vault_mints r' = vault_mints r \<and> registry_ok r'"
proof -
  define e where "e = st_mint_entry_new m w"
  have m: "m \<noteq> default_pubkey" using reg by (rule registered_mint_not_default)
  then have e: "sm_occupied e" "sm_st_mint e = m" "sm_weight_bps e = w"
    by (simp_all add: e_def st_mint_entry_new_def sm_is_empty_def)
  from reg obtain i where i: "position sm_is_empty (vr_st_mint_list r) = Some i"
    and r': "r' = r\<lparr>vr_st_mint_list := (vr_st_mint_list r)[i := e]\<rparr>"
    and w: "w \<noteq> 0" "w \<le> FULL_WEIGHT_BPS" and fresh: "\<forall>x \<in> set (vr_st_mint_list r). sm_st_mint x \<noteq> m"
    by (auto simp: register_st_mint_Inr e_def)
  from position_SomeD [OF i] have slot: "i < length (vr_st_mint_list r)" "sm_is_empty (vr_st_mint_list r ! i)"
    by auto
  have put: "mint_put r e (vr_st_mint_list r) = Some (vr_st_mint_list r')"
    using register_st_mint_put [OF reg] by (simp add: e_def)
  have keyed: "keyed sm_occupied sm_st_mint (vr_st_mint_list r)" using ok by (simp add: registry_ok_def)
  have lookup: "table_lookup sm_occupied sm_st_mint (vr_st_mint_list r') =
      (table_lookup sm_occupied sm_st_mint (vr_st_mint_list r))(m \<mapsto> e)"
    using mint_table.put_lookup [OF put keyed e(1)] e(2) by simp
  have none: "mint_weights r m = None"
    using fresh by (auto simp: mint_weights_def table_lookup_def find_None_iff)
  have keep: "x \<in> sm_st_mint ` set (vr_st_mint_list r')"
    if "x \<in> sm_st_mint ` set (vr_st_mint_list r)" "x \<noteq> default_pubkey" for x
  proof -
    from that obtain j where "j < length (vr_st_mint_list r)" "sm_st_mint (vr_st_mint_list r ! j) = x"
      by (auto simp: in_set_conv_nth)
    moreover from this that(2) slot have "j \<noteq> i" by (auto simp: sm_is_empty_def)
    ultimately have "j < length (vr_st_mint_list r')" "sm_st_mint (vr_st_mint_list r' ! j) = x"
      using r' by simp_all
    then show ?thesis by (metis image_eqI nth_mem)
  qed
  have "registry_ok r'"
    using ok r' mint_table.put_keyed [OF put keyed] mint_table.put_set_subset [OF put] w e keep
    by (auto simp: registry_ok_def weight_ok_def)
  moreover have "0 < w" "w \<le> 10000" using w by (simp_all add: FULL_WEIGHT_BPS_def word_gt_0)
  moreover have "mint_weights r' = (mint_weights r)(m \<mapsto> w)"
    by (rule ext) (simp add: mint_weights_def lookup e)
  ultimately show ?thesis using m none r' by (simp add: vault_mints_def fun_eq_iff)
qed

definition sample_registry :: vault_registry where
  "sample_registry = (vault_registry_new 1 255)\<lparr>vr_st_mint_list :=
     (vr_st_mint_list (vault_registry_new 1 255))[0 := st_mint_entry_new 5 10000]\<rparr>"

lemma sample_registry_reg: "register_st_mint (vault_registry_new 1 255) 5 10000 = Inr sample_registry"
  by (simp add: register_st_mint_def vault_registry_new_def st_mint_entry_default_def
      st_mint_entry_new_def FULL_WEIGHT_BPS_def check_st_mint_entry_def MAX_ST_MINTS_def
      sample_registry_def)

text \<open>
  A successful \<open>register_st_mint\<close> is the update of one map: the mint was not
  registered and is not the default key, its weight is between 1 and 10000, it is looked up with
  that weight afterwards, every other mint and every vault is looked up as before, and the
  registry stays well formed (no mint or vault twice, every vault's mint registered).
\<close>

theorem register_st_mint_refines:
  assumes ok: "registry_ok r" and reg: "register_st_mint r m w = Inr r'"
  shows "m \<noteq> default_pubkey \<and> mint_weights r m = None \<and> 0 < w \<and> w \<le> 10000 \<and>
    mint_weights r' = (mint_weights r)(m \<mapsto> w) \<and> vault_mints r' = vault_mints r \<and> registry_ok r'"
  by (rule register_st_mint_step [OF assms])

theorem register_st_mint_refines_witness:
  "\<exists>r'. register_st_mint (vault_registry_new 1 255) 5 10000 = Inr r' \<and> mint_weights r' 5 = Some 10000"
  using register_st_mint_refines [OF registry_ok_new sample_registry_reg] sample_registry_reg by auto

text \<open>
  \<open>register_st_mint\<close> fails exactly when the weight is 0 or over 10000
  (\<open>InvalidWeightBps\<close>), else when the mint is registered, or is the default key while a slot is
  free (\<open>MintInTable\<close>), else when all slots are taken (\<open>VaultRegistryListFull\<close>).
\<close>

theorem register_st_mint_errors:
  assumes ok: "registry_ok r"
  shows "result_err (register_st_mint r m w) =
    (if w = 0 \<or> w > 10000 then Some (from_ncn InvalidWeightBps)
     else if mint_weights r m \<noteq> None \<or> (m = default_pubkey \<and> st_mint_count r < 16)
     then Some (from_ncn MintInTable)
     else if st_mint_count r = 16 then Some (from_ncn VaultRegistryListFull)
     else None)"
proof -
  let ?xs = "vr_st_mint_list r"
  have len: "length ?xs = 16" using ok by (simp add: registry_ok_def MAX_ST_MINTS_def)
  have known: "list_ex (\<lambda>e. sm_st_mint e = m) ?xs \<longleftrightarrow>
      mint_weights r m \<noteq> None \<or> (m = default_pubkey \<and> (\<exists>e \<in> set ?xs. sm_is_empty e))"
    by (auto simp: list_ex_iff mint_weights_def table_lookup_def find_None_iff sm_is_empty_def)
  have count: "st_mint_count r \<le> 16" "st_mint_count r = 16 \<longleftrightarrow> (\<forall>e \<in> set ?xs. sm_occupied e)"
    using length_filter_le [of sm_occupied ?xs] len
    by (simp_all add: st_mint_count_def) (metis length_filter_less filter_True len less_irrefl)
  have free: "(\<exists>e \<in> set ?xs. sm_is_empty e) \<longleftrightarrow> st_mint_count r < 16" using count by auto
  have "(\<lambda>m. sm_st_mint m = sm_st_mint st_mint_entry_default) = sm_is_empty"
    by (auto simp: sm_is_empty_def st_mint_entry_default_def st_mint_entry_new_def)
  then show ?thesis
    using known free count position_None_iff [of sm_is_empty ?xs]
    by (cases "position sm_is_empty ?xs")
      (auto simp: register_st_mint_def FULL_WEIGHT_BPS_def check_st_mint_entry_def Let_def)
qed

theorem register_st_mint_errors_witness:
  "result_err (register_st_mint (vault_registry_new 1 255) 0 10000) = Some (from_ncn MintInTable)"
  using register_st_mint_errors [OF registry_ok_new, of 1 255 0 10000]
  by (simp add: st_mint_count_def vault_registry_new_def sm_is_empty_def st_mint_entry_default_def
      st_mint_entry_new_def)

lemma register_vault_entry_step:
  assumes ok: "registry_ok r" and m: "m \<noteq> default_pubkey" "has_st_mint r m" and slot: "slot \<noteq> u64_max"
    and reg: "register_vault_entry r v m ix slot = Inr r'"
  shows "registry_ok r' \<and> mint_weights r' = mint_weights r \<and>
    (if \<exists>e \<in> set (vr_vault_list r). ve_vault e = v then r' = r
     else vault_mints r' = (vault_mints r)(v \<mapsto> m) \<and>
       get_vault_weight_bps r' v = ok_or MintEntryNotFound (mint_weights r m))"
proof (cases "\<exists>e \<in> set (vr_vault_list r). ve_vault e = v")
  case True
  then show ?thesis using reg register_vault_entry_old [OF True] ok by auto
next
  case False
  define e where "e = vault_entry_new v m ix slot"
  have e: "ve_occupied e" "ve_vault e = v" "ve_st_mint e = m" "\<not> ve_is_empty e"
    using m(1) slot by (simp_all add: e_def vault_entry_new_def ve_is_empty_def)
  have fresh: "\<forall>e \<in> set (vr_vault_list r). ve_vault e \<noteq> v" using False by blast
  from reg obtain i where i: "position (\<lambda>e. \<not> ve_occupied e) (vr_vault_list r) = Some i"
    and r': "r' = r\<lparr>vr_vault_list := (vr_vault_list r)[i := e]\<rparr>"
    by (auto simp: register_vault_entry_new [OF fresh] e_def)
  have put: "vault_put r e (vr_vault_list r) = Some (vr_vault_list r')"
    using register_vault_put [OF reg fresh] by (simp add: e_def)
  have keyed: "keyed ve_occupied ve_vault (vr_vault_list r)" using ok by (simp add: registry_ok_def)
  have lookup: "table_lookup ve_occupied ve_vault (vr_vault_list r') =
      (table_lookup ve_occupied ve_vault (vr_vault_list r))(v \<mapsto> e)"
    using vault_table.put_lookup [OF put keyed e(1)] e(2) by simp
  have "m \<in> sm_st_mint ` set (vr_st_mint_list r)"
    using m(2) by (auto simp: has_st_mint_def list_ex_iff)
  then have ok': "registry_ok r'"
    using ok r' vault_table.put_keyed [OF put keyed] vault_table.put_set_subset [OF put] e
    by (auto simp: registry_ok_def)
  have maps: "vault_mints r' = (vault_mints r)(v \<mapsto> m)"
    by (rule ext) (simp add: vault_mints_def lookup e)
  have "mint_weights r' = mint_weights r"
    using r' by (simp add: mint_weights_def fun_eq_iff)
  then show ?thesis
    using ok' False maps get_vault_weight_bps_maps [OF ok', of v] by simp
qed

text \<open>
  Registering a vault whose mint is registered: a vault already in the list leaves the
  registry as it is; otherwise it is looked up with its mint afterwards, so that its weight is
  the mint's, and every other vault and every mint is looked up as before.
\<close>

theorem register_vault_entry_refines:
  assumes ok: "registry_ok r" and m: "m \<noteq> default_pubkey" "has_st_mint r m" and slot: "slot \<noteq> u64_max"
    and reg: "register_vault_entry r v m ix slot = Inr r'"
  shows "registry_ok r' \<and> mint_weights r' = mint_weights r \<and>
    (if \<exists>e \<in> set (vr_vault_list r). ve_vault e = v then r' = r
     else vault_mints r' = (vault_mints r)(v \<mapsto> m) \<and>
       get_vault_weight_bps r' v = ok_or MintEntryNotFound (mint_weights r m))"
  by (rule register_vault_entry_step [OF assms])

lemma sample_registry_ok: "registry_ok sample_registry"
  using register_st_mint_step [OF registry_ok_new sample_registry_reg] by simp

theorem register_vault_entry_refines_witness:
  "\<exists>r'. register_vault_entry sample_registry 9 5 0 100 = Inr r' \<and> vault_mints r' 9 = Some 5"
proof -
  have has: "has_st_mint sample_registry 5"
    by (simp add: has_st_mint_def sample_registry_def vault_registry_new_def MAX_ST_MINTS_def
        list_ex_iff)
      (rule bexI [OF _ set_update_memI], simp_all add: st_mint_entry_new_def)
  have fresh: "\<not> (\<exists>e \<in> set (vr_vault_list sample_registry). ve_vault e = 9)"
    by (simp add: sample_registry_def vault_registry_new_def vault_entry_default_def
        vault_entry_new_def)
  have "is_ok (register_vault_entry sample_registry 9 5 0 100)"
    by (simp add: register_vault_entry_def sample_registry_def vault_registry_new_def
        vault_entry_default_def vault_entry_new_def MAX_VAULTS_def)
  then obtain r' where r': "register_vault_entry sample_registry 9 5 0 100 = Inr r'"
    by (auto simp: is_ok_iff)
  from register_vault_entry_refines [OF sample_registry_ok _ has _ r'] fresh r' show ?thesis by simp
qed

end
