(* ===== verification/Operator_Account.thy ===== *)
theory Operator_Account
  imports Curve
begin

text \<open>
  The account of one operator in one NCN (\<open>core/src/ncn_operator_account.rs\<close>): its BLS keys,
  index and network address.
\<close>

record ncn_operator_account =
  no_ncn :: pubkey
  no_operator_pubkey :: pubkey
  no_g1_pubkey :: bytes32
  no_g2_pubkey :: bytes64
  no_ncn_operator_index :: u64
  no_slot_registered :: u64
  no_ip_address :: u32
  no_port :: u16
  no_bump :: u8
  no_reserved :: bytes

definition EMPTY_OPERATOR_INDEX :: u64 where "EMPTY_OPERATOR_INDEX = u64_max"
definition OPERATOR_EMPTY_SLOT_REGISTERED :: u64 where "OPERATOR_EMPTY_SLOT_REGISTERED = u64_max"

definition NCN_OPERATOR_ACCOUNT_SIZE :: nat where
  "NCN_OPERATOR_ACCOUNT_SIZE = 8 + (32 + 32 + 32 + 64 + 8 + 8 + 4 + 2 + 1 + 199)"

definition ncn_operator_account_new ::
  "pubkey \<Rightarrow> pubkey \<Rightarrow> bytes32 \<Rightarrow> bytes64 \<Rightarrow> u64 \<Rightarrow> u64 \<Rightarrow> u8 \<Rightarrow> ncn_operator_account" where
  "ncn_operator_account_new ncn operator_pubkey g1_pubkey g2_pubkey ncn_operator_index
     slot_registered bump =
     \<lparr>no_ncn = ncn, no_operator_pubkey = operator_pubkey, no_g1_pubkey = g1_pubkey,
      no_g2_pubkey = g2_pubkey, no_ncn_operator_index = ncn_operator_index,
      no_slot_registered = slot_registered, no_ip_address = 0, no_port = 0, no_bump = bump,
      no_reserved = replicate 199 0\<rparr>"

definition ncn_operator_account_default :: ncn_operator_account where
  "ncn_operator_account_default =
     ncn_operator_account_new default_pubkey default_pubkey 0 0 EMPTY_OPERATOR_INDEX
       OPERATOR_EMPTY_SLOT_REGISTERED 0"

definition ncn_operator_account_initialize ::
  "ncn_operator_account \<Rightarrow> pubkey \<Rightarrow> pubkey \<Rightarrow> bytes32 \<Rightarrow> bytes64 \<Rightarrow> u64 \<Rightarrow> u64 \<Rightarrow> u32 \<Rightarrow> u16 \<Rightarrow> u8 \<Rightarrow>
   ncn_operator_account" where
  "ncn_operator_account_initialize a ncn operator_pubkey g1_pubkey g2_pubkey ncn_operator_index
     slot_registered ip_address port bump =
     a\<lparr>no_ncn := ncn, no_operator_pubkey := operator_pubkey, no_g1_pubkey := g1_pubkey,
       no_g2_pubkey := g2_pubkey, no_ncn_operator_index := ncn_operator_index,
       no_slot_registered := slot_registered, no_ip_address := ip_address, no_port := port,
       no_bump := bump, no_reserved := replicate 199 0\<rparr>"

definition no_is_empty :: "ncn_operator_account \<Rightarrow> bool" where
  "no_is_empty a \<longleftrightarrow> no_slot_registered a = OPERATOR_EMPTY_SLOT_REGISTERED"

definition verify_keypair :: "syscalls \<Rightarrow> ncn_operator_account \<Rightarrow> program_error + unit" where
  "verify_keypair S a =
     try_bind (lift_ncn (map_err (\<lambda>_. G1PointDecompressionError)
       (g1_decompress S (G1CompressedPoint (no_g1_pubkey a))))) (\<lambda>g1_point.
     try_bind (lift_ncn (map_err (\<lambda>_. G2PointDecompressionError)
       (g2_decompress S (G2CompressedPoint (no_g2_pubkey a))))) (\<lambda>g2_point.
     try_bind (lift_ncn (map_err (\<lambda>_. BLSVerificationError) (g1_verify_g2 S g1_point g2_point))) (\<lambda>ok.
     if ok then Inr () else Inl (from_ncn BLSVerificationError))))"

definition update_keys ::
  "syscalls \<Rightarrow> ncn_operator_account \<Rightarrow> bytes32 \<Rightarrow> bytes64 \<Rightarrow> u64 \<Rightarrow>
   program_error + ncn_operator_account" where
  "update_keys S a new_g1_pubkey new_g2_pubkey current_slot =
     (let temp_entry = ncn_operator_account_new (no_ncn a) (no_operator_pubkey a) new_g1_pubkey
            new_g2_pubkey (no_ncn_operator_index a) current_slot (no_bump a)
      in try_bind (verify_keypair S temp_entry) (\<lambda>_.
         Inr (a\<lparr>no_g1_pubkey := new_g1_pubkey, no_g2_pubkey := new_g2_pubkey,
                no_slot_registered := current_slot\<rparr>)))"

definition update_ip_port ::
  "ncn_operator_account \<Rightarrow> u32 \<Rightarrow> u16 \<Rightarrow> program_error + ncn_operator_account" where
  "update_ip_port a new_ip_address port = Inr (a\<lparr>no_ip_address := new_ip_address, no_port := port\<rparr>)"

text \<open>What it means that the two keys belong together, in terms of the pairing syscall.\<close>

definition keys_match :: "syscalls \<Rightarrow> bytes32 \<Rightarrow> bytes64 \<Rightarrow> bool" where
  "keys_match S g1 g2 \<longleftrightarrow>
     (case (sc_g1_decompress S g1, sc_g2_decompress S g2) of
        (Some p, Some q) \<Rightarrow> p \<noteq> 0 \<and> q \<noteq> 0 \<and>
          sc_pairing S (pairing_input G1_GENERATOR q p) = Some BN128_ADDITION_SUCESS_RESULT
      | _ \<Rightarrow> False)"

lemma all_zero_bytes: "LENGTH('a) \<le> 8 * n \<Longrightarrow>
    list_all (\<lambda>x. x = 0) (be_bytes n (w :: 'a::len word)) \<longleftrightarrow> w = 0"
proof -
  assume n: "LENGTH('a) \<le> 8 * n"
  have zero: "be_bytes n (0 :: 'a word) = replicate n 0"
  proof -
    have "le_bytes n (0 :: 'a word) = replicate n 0" by (induction n) simp_all
    then show ?thesis by (simp add: be_bytes_def)
  qed
  have "list_all (\<lambda>x. x = 0) xs \<longleftrightarrow> xs = replicate (length xs) 0" for xs :: bytes
    by (induction xs) simp_all
  from this [of "be_bytes n w"]
  have "list_all (\<lambda>x. x = 0) (be_bytes n w) \<longleftrightarrow> be_bytes n w = replicate n 0" by simp
  then show ?thesis using be_bytes_inject [OF n, of w 0] zero by simp
qed

lemma length_success: "length BN128_ADDITION_SUCESS_RESULT = 32"
  by (simp add: BN128_ADDITION_SUCESS_RESULT_def)

lemma verify_keypair_iff:
  "verify_keypair S a = Inr u \<longleftrightarrow> keys_match S (no_g1_pubkey a) (no_g2_pubkey a)"
proof (cases "sc_g1_decompress S (no_g1_pubkey a)"; cases "sc_g2_decompress S (no_g2_pubkey a)")
  fix p q
  assume pq: "sc_g1_decompress S (no_g1_pubkey a) = Some p" "sc_g2_decompress S (no_g2_pubkey a) = Some q"
  have zero: "list_all (\<lambda>x. x = 0) (b64 v) \<longleftrightarrow> v = 0" "list_all (\<lambda>x. x = 0) (b128 w) \<longleftrightarrow> w = 0" for v w
    by (simp_all add: all_zero_bytes)
  show ?thesis
    by (cases "p = 0"; cases "q = 0"; cases "sc_pairing S (pairing_input G1_GENERATOR q p)")
      (auto simp: verify_keypair_def keys_match_def g1_decompress_def g2_decompress_def pq
        g1_verify_g2_def zero length_success)
qed (simp_all add: verify_keypair_def keys_match_def g1_decompress_def g2_decompress_def)

text \<open>
  \<open>update_keys\<close> succeeds exactly for a pair of keys that decompress to nonzero points
  related by the pairing; it then changes the two keys and the slot and nothing else, and the
  stored keys verify afterwards.
\<close>

theorem update_keys_spec:
  "update_keys S a g1 g2 slot = Inr a' \<longleftrightarrow>
     keys_match S g1 g2 \<and>
     a' = a\<lparr>no_g1_pubkey := g1, no_g2_pubkey := g2, no_slot_registered := slot\<rparr> \<and>
     verify_keypair S a' = Inr ()"
  by (auto simp: update_keys_def Let_def verify_keypair_iff ncn_operator_account_new_def)

end
