(* ===== verification/Accounts.thy ===== *)
theory Accounts
  imports Config Vault_Registry Operator_Account Snapshot
begin

text \<open>
  Accounts, program-derived addresses, the account checks and the account payer
  (\<open>core/src/loaders.rs\<close>, \<open>core/src/account_payer.rs\<close> and the \<open>seeds\<close>,
  \<open>find_program_address\<close>, \<open>load\<close> methods of the account types).

  An account's data is either a byte string (an account of another program) or a \<open>pod\<close>: its
  length, its first byte (the discriminator) and the typed view of the bytes from offset 8.
  The Solana runtime and the restaking and vault programs are parameters: \<open>runtime\<close> and
  \<open>jito\<close> name what the sources call, and \<open>jito\<close>'s views name the fields they read.
\<close>

subsection \<open>Accounts\<close>

record account_info =
  ai_key :: pubkey
  ai_owner :: pubkey
  ai_lamports :: u64
  ai_is_signer :: bool
  ai_is_writable :: bool

record 'd account =
  ac_info :: account_info
  ac_data :: 'd

record 'b pod =
  pd_len :: nat
  pd_first :: u8
  pd_body :: 'b

type_synonym raw_account = "bytes account"
type_synonym 'b pod_account = "'b pod account"

abbreviation key_of :: "'d account \<Rightarrow> pubkey" where "key_of a \<equiv> ai_key (ac_info a)"
abbreviation signed_by :: "'d account \<Rightarrow> bool" where "signed_by a \<equiv> ai_is_signer (ac_info a)"
abbreviation body :: "'b pod_account \<Rightarrow> 'b" where "body a \<equiv> pd_body (ac_data a)"

definition set_body :: "'b \<Rightarrow> 'b pod_account \<Rightarrow> 'b pod_account" where
  "set_body b a = a\<lparr>ac_data := (ac_data a)\<lparr>pd_body := b\<rparr>\<rparr>"

lemma set_body_simps [simp]:
  "ac_info (set_body b a) = ac_info a" "body (set_body b a) = b"
  "pd_len (ac_data (set_body b a)) = pd_len (ac_data a)"
  "pd_first (ac_data (set_body b a)) = pd_first (ac_data a)"
  by (simp_all add: set_body_def)

text \<open>\<open>data[0]\<close>, when the data is not empty.\<close>

definition pod_first :: "'b pod_account \<Rightarrow> u8 option" where
  "pod_first a = (if pd_len (ac_data a) = 0 then None else Some (pd_first (ac_data a)))"

text \<open>\<open>data[0] = d\<close>, a panic on empty data.\<close>

definition write_first :: "u8 \<Rightarrow> 'b pod_account \<Rightarrow> program_error + 'b pod_account" where
  "write_first d a = (if pd_len (ac_data a) = 0 then Inl PE_Panic
     else Inr (a\<lparr>ac_data := (ac_data a)\<lparr>pd_first := d\<rparr>\<rparr>))"

subsection \<open>The runtime\<close>

text \<open>
  \<open>rt_find_program_address\<close> is \<open>Pubkey::find_program_address\<close>; the three system instructions
  return what they change (the two balances; the data's length and first byte; the owner).
  \<open>rt_try_from_slice\<close> is \<open>try_from_slice_unchecked\<close> of the account types: it is given the
  type's discriminator and size, then the data's first byte and length.
\<close>

record runtime =
  rt_find_program_address :: "bytes list \<Rightarrow> pubkey \<Rightarrow> pubkey \<times> u8"
  rt_create_program_address :: "bytes list \<Rightarrow> pubkey \<Rightarrow> pubkey option"
  rt_system_program_id :: pubkey
  rt_clock :: "program_error + u64 \<times> u64"
  rt_minimum_balance :: "program_error + (nat \<Rightarrow> u64)"
  rt_transfer :: "account_info \<Rightarrow> account_info \<Rightarrow> u64 \<Rightarrow> bytes list \<Rightarrow> program_error + u64 \<times> u64"
  rt_allocate :: "account_info \<Rightarrow> nat \<times> u8 \<Rightarrow> u64 \<Rightarrow> bytes list \<Rightarrow> program_error + nat \<times> u8"
  rt_assign :: "account_info \<Rightarrow> pubkey \<Rightarrow> bytes list \<Rightarrow> program_error + pubkey"
  rt_realloc :: "account_info \<Rightarrow> nat \<times> u8 \<Rightarrow> nat \<Rightarrow> program_error + nat \<times> u8"
  rt_load_system_account :: "account_info \<Rightarrow> nat \<Rightarrow> bool \<Rightarrow> program_error + unit"
  rt_load_system_program :: "account_info \<Rightarrow> program_error + unit"
  rt_load_signer :: "account_info \<Rightarrow> bool \<Rightarrow> program_error + unit"
  rt_load_token_mint :: "raw_account \<Rightarrow> program_error + unit"
  rt_try_from_slice :: "u8 \<Rightarrow> nat \<Rightarrow> u8 option \<Rightarrow> nat \<Rightarrow> program_error + unit"

definition clock_slot :: "runtime \<Rightarrow> program_error + u64" where
  "clock_slot R = try_bind (rt_clock R) (\<lambda>c. Inr (fst c))"

definition clock_epoch :: "runtime \<Rightarrow> program_error + u64" where
  "clock_epoch R = try_bind (rt_clock R) (\<lambda>c. Inr (snd c))"

text \<open>The size-and-discriminator-checked view of an account of one of this repository's types.\<close>

definition pod_view :: "runtime \<Rightarrow> u8 \<Rightarrow> nat \<Rightarrow> 'b pod_account \<Rightarrow> program_error + 'b" where
  "pod_view R discr sz a =
     try_bind (rt_try_from_slice R discr sz (pod_first a) (pd_len (ac_data a))) (\<lambda>_. Inr (body a))"

lemma pod_view_Inr: "pod_view R d s a = Inr b \<Longrightarrow> b = body a"
  by (simp add: pod_view_def)

subsection \<open>The restaking and vault programs\<close>

datatype slot_toggle_state = Inactive | WarmUp | Active | Cooldown

record slot_toggle =
  tg_state :: "u64 \<Rightarrow> u64 \<Rightarrow> program_error + slot_toggle_state"
  tg_is_active :: "u64 \<Rightarrow> u64 \<Rightarrow> program_error + bool"
  tg_is_active_or_cooldown :: "u64 \<Rightarrow> u64 \<Rightarrow> program_error + bool"

record ncn_view =
  nv_admin :: pubkey
  nv_ncn_program_admin :: pubkey

record operator_view =
  ov_admin :: pubkey
  ov_index :: u64
  ov_fee_bps :: u16
  ov_ncn_count :: u64

text \<open>The figures of a vault that are only reported.\<close>

record vault_figures =
  vg_tokens_deposited :: u64
  vg_vrt_supply :: u64
  vg_vrt_cooling_down_amount :: u64
  vg_vrt_enqueued_for_cooldown_amount :: u64
  vg_vrt_ready_to_claim_amount :: u64
  vg_operator_count :: u64
  vg_ncn_count :: u64
  vg_staked_amount :: u64
  vg_delegation_state :: vault_operator_delegation

record vault_view =
  vv_supported_mint :: pubkey
  vv_vault_index :: u64
  vv_is_update_needed :: "u64 \<Rightarrow> u64 \<Rightarrow> program_error + bool"
  vv_figures :: vault_figures

record ncn_operator_state_view =
  nos_index :: u64
  nos_ncn_opt_in_state :: slot_toggle
  nos_operator_opt_in_state :: slot_toggle

record jito =
  jt_restaking_id :: pubkey
  jt_vault_id :: pubkey
  jt_ncn_load :: "pubkey \<Rightarrow> raw_account \<Rightarrow> bool \<Rightarrow> program_error + unit"
  jt_operator_load :: "pubkey \<Rightarrow> raw_account \<Rightarrow> bool \<Rightarrow> program_error + unit"
  jt_config_load :: "pubkey \<Rightarrow> raw_account \<Rightarrow> bool \<Rightarrow> program_error + unit"
  jt_vault_load :: "pubkey \<Rightarrow> raw_account \<Rightarrow> bool \<Rightarrow> program_error + unit"
  jt_ncn_operator_state_load ::
    "pubkey \<Rightarrow> raw_account \<Rightarrow> raw_account \<Rightarrow> raw_account \<Rightarrow> bool \<Rightarrow> program_error + unit"
  jt_ncn_vault_ticket_load ::
    "pubkey \<Rightarrow> raw_account \<Rightarrow> raw_account \<Rightarrow> raw_account \<Rightarrow> bool \<Rightarrow> program_error + unit"
  jt_vault_ncn_ticket_load ::
    "pubkey \<Rightarrow> raw_account \<Rightarrow> raw_account \<Rightarrow> raw_account \<Rightarrow> bool \<Rightarrow> program_error + unit"
  jt_vault_operator_delegation_load ::
    "pubkey \<Rightarrow> raw_account \<Rightarrow> raw_account \<Rightarrow> raw_account \<Rightarrow> bool \<Rightarrow> program_error + unit"
  jt_ncn :: "bytes \<Rightarrow> program_error + ncn_view"
  jt_operator :: "bytes \<Rightarrow> program_error + operator_view"
  jt_epoch_length :: "bytes \<Rightarrow> program_error + u64"
  jt_vault :: "bytes \<Rightarrow> program_error + vault_view"
  jt_ncn_operator_state :: "bytes \<Rightarrow> program_error + ncn_operator_state_view"
  jt_ncn_vault_ticket_state :: "bytes \<Rightarrow> program_error + slot_toggle"
  jt_vault_ncn_ticket_state :: "bytes \<Rightarrow> program_error + slot_toggle"
  jt_vault_operator_delegation :: "bytes \<Rightarrow> program_error + vault_operator_delegation"

subsection \<open>Account checks\<close>

definition check_load ::
  "pubkey \<Rightarrow> account_info \<Rightarrow> u8 option \<Rightarrow> pubkey \<Rightarrow> u8 option \<Rightarrow> bool \<Rightarrow> program_error + unit" where
  "check_load program_id account first expected_pda expected_discriminator expect_writable =
     (if ai_owner account \<noteq> program_id then Inl PE_InvalidAccountOwner
      else if ai_key account \<noteq> expected_pda then Inl PE_InvalidAccountData
      else
        try_bind (case expected_discriminator of
            None \<Rightarrow> Inr ()
          | Some d \<Rightarrow> (case first of
               None \<Rightarrow> Inl PE_InvalidAccountData
             | Some x \<Rightarrow> if x \<noteq> d then Inl PE_InvalidAccountData else Inr ())) (\<lambda>_.
        if expect_writable \<and> \<not> ai_is_writable account then Inl PE_InvalidAccountData else Inr ()))"

lemma check_load_Inr:
  "check_load p a f k d w = Inr u \<longleftrightarrow>
     ai_owner a = p \<and> ai_key a = k \<and> (d = None \<or> f = d) \<and> (w \<longrightarrow> ai_is_writable a)"
  by (auto simp: check_load_def split: option.splits if_splits)

definition load_ncn_epoch ::
  "jito \<Rightarrow> raw_account \<Rightarrow> u64 \<Rightarrow> u64 option \<Rightarrow> program_error + u64 \<times> u64" where
  "load_ncn_epoch J restaking_config current_slot first_slot_of_ncn_epoch =
     try_bind (jt_epoch_length J (ac_data restaking_config)) (\<lambda>ncn_epoch_length.
     try_bind (lift_ncn (ok_or DenominatorIsZero (checked_div current_slot ncn_epoch_length)))
       (\<lambda>current_ncn_epoch.
     let ncn_epoch_slot = (case first_slot_of_ncn_epoch of Some s \<Rightarrow> s | None \<Rightarrow> current_slot) in
     try_bind (lift_ncn (ok_or DenominatorIsZero (checked_div ncn_epoch_slot ncn_epoch_length)))
       (\<lambda>ncn_epoch.
     if ncn_epoch > current_ncn_epoch then Inl (from_ncn CannotCreateFutureWeightTables)
     else Inr (ncn_epoch, ncn_epoch_length))))"

definition load_ncn_epoch_and_snapshot_epoch ::
  "jito \<Rightarrow> raw_account \<Rightarrow> u64 \<Rightarrow> u64 \<Rightarrow> program_error + u64 \<times> u64" where
  "load_ncn_epoch_and_snapshot_epoch J restaking_config current_slot last_snapshot_slot =
     try_bind (jt_epoch_length J (ac_data restaking_config)) (\<lambda>ncn_epoch_length.
     try_bind (lift_ncn (ok_or DenominatorIsZero (checked_div current_slot ncn_epoch_length)))
       (\<lambda>current_ncn_epoch.
     try_bind (lift_ncn (ok_or DenominatorIsZero (checked_div last_snapshot_slot ncn_epoch_length)))
       (\<lambda>snapshot_epoch.
     Inr (current_ncn_epoch, snapshot_epoch))))"

lemma load_ncn_epoch_now:
  "load_ncn_epoch J rc slot None = Inr (e, l) \<longleftrightarrow>
     jt_epoch_length J (ac_data rc) = Inr l \<and> l \<noteq> 0 \<and> e = slot div l"
  by (auto simp: load_ncn_epoch_def checked_div_def split: if_splits)

subsection \<open>Program-derived addresses\<close>

definition CONFIG_SEED :: bytes where "CONFIG_SEED = ascii ''config''"
definition VAULT_REGISTRY_SEED :: bytes where "VAULT_REGISTRY_SEED = ascii ''vault_registry''"
definition SNAPSHOT_SEED :: bytes where "SNAPSHOT_SEED = ascii ''snapshot''"
definition NCN_OPERATOR_ACCOUNT_SEED :: bytes where
  "NCN_OPERATOR_ACCOUNT_SEED = ascii ''ncn_operator_account''"
definition ACCOUNT_PAYER_SEED :: bytes where "ACCOUNT_PAYER_SEED = ascii ''account_payer''"

definition config_seeds :: "pubkey \<Rightarrow> bytes list" where
  "config_seeds ncn = [CONFIG_SEED, b32 ncn]"

definition vault_registry_seeds :: "pubkey \<Rightarrow> bytes list" where
  "vault_registry_seeds ncn = [VAULT_REGISTRY_SEED, b32 ncn]"

definition snapshot_seeds :: "pubkey \<Rightarrow> bytes list" where
  "snapshot_seeds ncn = [SNAPSHOT_SEED, b32 ncn]"

definition ncn_operator_account_seeds :: "pubkey \<Rightarrow> pubkey \<Rightarrow> bytes list" where
  "ncn_operator_account_seeds ncn operator = [NCN_OPERATOR_ACCOUNT_SEED, b32 ncn, b32 operator]"

definition account_payer_seeds :: "pubkey \<Rightarrow> bytes list" where
  "account_payer_seeds ncn = [ACCOUNT_PAYER_SEED, b32 ncn, b32 ncn]"

definition config_find :: "runtime \<Rightarrow> pubkey \<Rightarrow> pubkey \<Rightarrow> pubkey \<times> u8 \<times> bytes list" where
  "config_find R program_id ncn =
     (let seeds = config_seeds ncn; (address, bump) = rt_find_program_address R seeds program_id
      in (address, bump, seeds))"

definition vault_registry_find :: "runtime \<Rightarrow> pubkey \<Rightarrow> pubkey \<Rightarrow> pubkey \<times> u8 \<times> bytes list" where
  "vault_registry_find R program_id ncn =
     (let seeds = vault_registry_seeds ncn; (address, bump) = rt_find_program_address R seeds program_id
      in (address, bump, seeds))"

definition snapshot_find :: "runtime \<Rightarrow> pubkey \<Rightarrow> pubkey \<Rightarrow> pubkey \<times> u8 \<times> bytes list" where
  "snapshot_find R program_id ncn =
     (let seeds = snapshot_seeds ncn; (address, bump) = rt_find_program_address R seeds program_id
      in (address, bump, seeds))"

definition ncn_operator_account_find ::
  "runtime \<Rightarrow> pubkey \<Rightarrow> pubkey \<Rightarrow> pubkey \<Rightarrow> pubkey \<times> u8 \<times> bytes list" where
  "ncn_operator_account_find R program_id ncn operator =
     (let seeds = ncn_operator_account_seeds ncn operator;
          (address, bump) = rt_find_program_address R seeds program_id
      in (address, bump, seeds))"

definition account_payer_find :: "runtime \<Rightarrow> pubkey \<Rightarrow> pubkey \<Rightarrow> pubkey \<times> u8 \<times> bytes list" where
  "account_payer_find R program_id ncn =
     (let seeds = account_payer_seeds ncn; (address, bump) = rt_find_program_address R seeds program_id
      in (address, bump, seeds))"

definition config_load ::
  "runtime \<Rightarrow> pubkey \<Rightarrow> config pod_account \<Rightarrow> pubkey \<Rightarrow> bool \<Rightarrow> program_error + unit" where
  "config_load R program_id account ncn expect_writable =
     check_load program_id (ac_info account) (pod_first account)
       (fst (config_find R program_id ncn)) (Some (discriminator D_Config)) expect_writable"

definition vault_registry_load ::
  "runtime \<Rightarrow> pubkey \<Rightarrow> vault_registry pod_account \<Rightarrow> pubkey \<Rightarrow> bool \<Rightarrow> program_error + unit" where
  "vault_registry_load R program_id account ncn expect_writable =
     check_load program_id (ac_info account) (pod_first account)
       (fst (vault_registry_find R program_id ncn)) (Some (discriminator D_VaultRegistry)) expect_writable"

definition snapshot_load ::
  "runtime \<Rightarrow> pubkey \<Rightarrow> snapshot pod_account \<Rightarrow> pubkey \<Rightarrow> bool \<Rightarrow> program_error + unit" where
  "snapshot_load R program_id account ncn expect_writable =
     check_load program_id (ac_info account) (pod_first account)
       (fst (snapshot_find R program_id ncn)) (Some (discriminator D_Snapshot)) expect_writable"

definition snapshot_load_to_close ::
  "runtime \<Rightarrow> pubkey \<Rightarrow> snapshot pod_account \<Rightarrow> pubkey \<Rightarrow> program_error + unit" where
  "snapshot_load_to_close R program_id account_to_close ncn =
     snapshot_load R program_id account_to_close ncn True"

definition ncn_operator_account_load ::
  "runtime \<Rightarrow> pubkey \<Rightarrow> ncn_operator_account pod_account \<Rightarrow> pubkey \<Rightarrow> pubkey \<Rightarrow> bool \<Rightarrow>
   program_error + unit" where
  "ncn_operator_account_load R program_id account ncn operator expect_writable =
     check_load program_id (ac_info account) (pod_first account)
       (fst (ncn_operator_account_find R program_id ncn operator))
       (Some (discriminator D_OperatorRegistry)) expect_writable"

definition account_payer_load ::
  "runtime \<Rightarrow> pubkey \<Rightarrow> account_info \<Rightarrow> pubkey \<Rightarrow> bool \<Rightarrow> program_error + unit" where
  "account_payer_load R program_id account ncn expect_writable =
     check_load (rt_system_program_id R) account None (fst (account_payer_find R program_id ncn))
       None expect_writable"

subsection \<open>The account payer\<close>

definition payer_transfer ::
  "runtime \<Rightarrow> pubkey \<Rightarrow> pubkey \<Rightarrow> account_info \<Rightarrow> account_info \<Rightarrow> u64 \<Rightarrow>
   program_error + account_info \<times> account_info" where
  "payer_transfer R program_id ncn account_payer receiver lamports =
     (case account_payer_find R program_id ncn of (address, bump, seeds) \<Rightarrow>
        let seeds = seeds @ [[bump]] in
        if address \<noteq> ai_key account_payer then Inl PE_InvalidAccountData
        else
          try_bind (rt_transfer R account_payer receiver lamports seeds) (\<lambda>(from_left, to_left).
          Inr (account_payer\<lparr>ai_lamports := from_left\<rparr>, receiver\<lparr>ai_lamports := to_left\<rparr>)))"

definition fund ::
  "runtime \<Rightarrow> pubkey \<Rightarrow> pubkey \<Rightarrow> account_info \<Rightarrow> account_info \<Rightarrow> nat \<Rightarrow>
   program_error + account_info \<times> account_info" where
  "fund R program_id ncn account_payer account space =
     try_bind (rt_minimum_balance R) (\<lambda>minimum_balance.
     let required_lamports = saturating_sub (minimum_balance space) (ai_lamports account) in
     if required_lamports > 0
     then payer_transfer R program_id ncn account_payer account required_lamports
     else Inr (account_payer, account))"

definition pay_and_create_account ::
  "runtime \<Rightarrow> pubkey \<Rightarrow> pubkey \<Rightarrow> account_info \<Rightarrow> 'b pod_account \<Rightarrow> pubkey \<Rightarrow> nat \<Rightarrow> bytes list \<Rightarrow>
   program_error + account_info \<times> 'b pod_account" where
  "pay_and_create_account R program_id ncn account_payer new_account program_owner space seeds =
     try_bind (fund R program_id ncn account_payer (ac_info new_account) space) (\<lambda>(payer, info).
     let space = min (of_nat space) MAX_REALLOC_BYTES; d = ac_data new_account in
     try_bind (rt_allocate R info (pd_len d, pd_first d) space seeds) (\<lambda>(len, first).
     try_bind (rt_assign R info program_owner seeds) (\<lambda>owner.
     Inr (payer, new_account\<lparr>ac_info := info\<lparr>ai_owner := owner\<rparr>,
       ac_data := d\<lparr>pd_len := len, pd_first := first\<rparr>\<rparr>))))"

definition pay_and_realloc ::
  "runtime \<Rightarrow> pubkey \<Rightarrow> pubkey \<Rightarrow> account_info \<Rightarrow> 'b pod_account \<Rightarrow> nat \<Rightarrow>
   program_error + account_info \<times> 'b pod_account" where
  "pay_and_realloc R program_id ncn account_payer account new_size =
     try_bind (fund R program_id ncn account_payer (ac_info account) new_size) (\<lambda>(payer, info).
     let d = ac_data account in
     try_bind (rt_realloc R info (pd_len d, pd_first d) new_size) (\<lambda>(len, first).
     Inr (payer, account\<lparr>ac_info := info, ac_data := d\<lparr>pd_len := len, pd_first := first\<rparr>\<rparr>)))"

text \<open>The order of the source: the lamports move before the account is reassigned and emptied.\<close>

definition close_account ::
  "runtime \<Rightarrow> pubkey \<Rightarrow> account_info \<Rightarrow> 'b pod_account \<Rightarrow> program_error + account_info \<times> 'b pod_account" where
  "close_account R program_id account_payer account_to_close =
     (let info = ac_info account_to_close; d = ac_data account_to_close in
      if ai_owner info \<noteq> program_id then Inl PE_IllegalOwner
      else
        try_bind (ok_or PE_ArithmeticOverflow (checked_add (ai_lamports account_payer) (ai_lamports info)))
          (\<lambda>lamports.
        let info = info\<lparr>ai_lamports := 0, ai_owner := rt_system_program_id R\<rparr> in
        try_bind (rt_realloc R info (pd_len d, pd_first d) 0) (\<lambda>(len, first).
        Inr (account_payer\<lparr>ai_lamports := lamports\<rparr>,
          account_to_close\<lparr>ac_info := info, ac_data := d\<lparr>pd_len := len, pd_first := first\<rparr>\<rparr>))))"

text \<open>\<open>get_new_size\<close> of \<open>core/src/utils.rs\<close>; \<open>usize\<close> is 64 bits wide.\<close>

definition get_new_size :: "nat \<Rightarrow> nat \<Rightarrow> program_error + nat" where
  "get_new_size current_size target_len =
     (if current_size + MAX_PERMITTED_DATA_INCREASE < 2 ^ 64
      then Inr (min (current_size + MAX_PERMITTED_DATA_INCREASE) target_len)
      else Inl PE_ArithmeticOverflow)"

end
