(* ===== verification/Admin_Handlers.thy ===== *)
theory Admin_Handlers
  imports Accounts
begin

text \<open>
  The handlers of the configuration and of the vault registry
  (\<open>program/src/admin_initialize_config.rs\<close>, \<open>admin_set_parameters.rs\<close>,
  \<open>admin_set_new_admin.rs\<close>, \<open>admin_register_st_mint.rs\<close>, \<open>initialize_vault_registry.rs\<close>,
  \<open>register_vault.rs\<close>).  A handler takes the accounts it destructures, \<open>None\<close> standing for a
  list of another length, and returns the accounts it changes.  The runtime undoes the effects
  of a handler that fails.
\<close>

definition in_range :: "'a::len word \<Rightarrow> 'a word \<Rightarrow> 'a word \<Rightarrow> bool" where
  "in_range lo hi x \<longleftrightarrow> lo \<le> x \<and> x \<le> hi"

definition config_view :: "runtime \<Rightarrow> config pod_account \<Rightarrow> program_error + config" where
  "config_view R a = pod_view R (discriminator D_Config) CONFIG_SIZE a"

definition registry_view :: "runtime \<Rightarrow> vault_registry pod_account \<Rightarrow> program_error + vault_registry" where
  "registry_view R a = pod_view R (discriminator D_VaultRegistry) VAULT_REGISTRY_SIZE a"

lemma views_Inr:
  "config_view R a = Inr c \<Longrightarrow> c = body a" "registry_view R r = Inr v \<Longrightarrow> v = body r"
  by (auto simp: config_view_def registry_view_def dest: pod_view_Inr)

subsection \<open>InitializeConfig\<close>

definition process_admin_initialize_config ::
  "runtime \<Rightarrow> jito \<Rightarrow> 'p precise_ops \<Rightarrow> pubkey \<Rightarrow>
   (config pod_account \<times> raw_account \<times> account_info \<times> account_info \<times> account_info \<times>
    account_info \<times> account_info) option \<Rightarrow>
   u64 \<Rightarrow> u64 \<Rightarrow> u64 \<Rightarrow> u128 \<Rightarrow> u16 \<Rightarrow> program_error + config pod_account \<times> account_info" where
  "process_admin_initialize_config R J P program_id accounts epochs_before_stall
     epochs_after_consensus_before_close valid_slots_after_consensus minimum_stake default_ncn_fee_bps =
     (case accounts of
        None \<Rightarrow> Inl PE_NotEnoughAccountKeys
      | Some (config, ncn, ncn_fee_wallet, ncn_admin, tie_breaker_admin, account_payer, system_program) \<Rightarrow>
          try_bind (rt_load_system_account R (ac_info config) (pd_len (ac_data config)) True) (\<lambda>_.
          try_bind (rt_load_system_program R system_program) (\<lambda>_.
          try_bind (rt_load_signer R ncn_admin False) (\<lambda>_.
          try_bind (jt_ncn_load J (jt_restaking_id J) ncn False) (\<lambda>_.
          try_bind (account_payer_load R program_id account_payer (key_of ncn) True) (\<lambda>_.
          try_bind (clock_epoch R) (\<lambda>epoch.
          if \<not> in_range MIN_EPOCHS_BEFORE_STALL MAX_EPOCHS_BEFORE_STALL epochs_before_stall
          then Inl (from_ncn InvalidEpochsBeforeStall)
          else if \<not> in_range MIN_EPOCHS_AFTER_CONSENSUS_BEFORE_CLOSE
            MAX_EPOCHS_AFTER_CONSENSUS_BEFORE_CLOSE epochs_after_consensus_before_close
          then Inl (from_ncn InvalidEpochsBeforeClose)
          else if \<not> in_range MIN_VALID_SLOTS_AFTER_CONSENSUS MAX_VALID_SLOTS_AFTER_CONSENSUS
            valid_slots_after_consensus
          then Inl (from_ncn InvalidSlotsAfterConsensus)
          else
            try_bind (jt_ncn J (ac_data ncn)) (\<lambda>ncn_account.
            if nv_admin ncn_account \<noteq> ai_key ncn_admin then Inl (from_ncn IncorrectNcnAdmin)
            else (case config_find R program_id (key_of ncn) of (config_pda, config_bump, seeds) \<Rightarrow>
              if config_pda \<noteq> key_of config then Inl PE_InvalidSeeds
              else
                try_bind (pay_and_create_account R program_id (key_of ncn) account_payer config
                  program_id CONFIG_SIZE (seeds @ [[config_bump]])) (\<lambda>(payer, config).
                try_bind (write_first (discriminator D_Config) config) (\<lambda>config.
                try_bind (config_view R config) (\<lambda>_.
                try_bind (lift_ncn (fee_config_new P (ai_key ncn_fee_wallet) default_ncn_fee_bps epoch)) (\<lambda>fee_config.
                let c = config_new (key_of ncn) (ai_key tie_breaker_admin) epoch
                      valid_slots_after_consensus epochs_before_stall
                      epochs_after_consensus_before_close fee_config (sw_new minimum_stake) config_bump in
                try_bind (lift_ncn (check_fees_okay P (cf_fee_config c) epoch)) (\<lambda>_.
                Inr (set_body c config, payer)))))))))))))))"

subsection \<open>AdminSetParameters\<close>

text \<open>One optional parameter: absent, it leaves the configuration; present, it is checked and set.\<close>

definition set_parameter ::
  "'v option \<Rightarrow> ('v \<Rightarrow> bool) \<Rightarrow> ncn_error \<Rightarrow> ('v \<Rightarrow> config \<Rightarrow> config) \<Rightarrow> config \<Rightarrow> program_error + config" where
  "set_parameter v valid err assign c =
     (case v of None \<Rightarrow> Inr c
      | Some x \<Rightarrow> if \<not> valid x then Inl (from_ncn err) else Inr (assign x c))"

definition update_parameters ::
  "u64 option \<Rightarrow> u64 option \<Rightarrow> u64 option \<Rightarrow> u128 option \<Rightarrow> u64 option \<Rightarrow> u16 option \<Rightarrow> config \<Rightarrow>
   program_error + config" where
  "update_parameters starting_valid_epoch epochs_before_stall epochs_after_consensus_before_close
     minimum_stake valid_slots_after_consensus consensus_threshold_bps config =
     (let config = (case starting_valid_epoch of None \<Rightarrow> config
                     | Some epoch \<Rightarrow> config\<lparr>cf_starting_valid_epoch := epoch\<rparr>) in
      try_bind (set_parameter epochs_before_stall
        (in_range MIN_EPOCHS_BEFORE_STALL MAX_EPOCHS_BEFORE_STALL) InvalidEpochsBeforeStall
        (\<lambda>x c. c\<lparr>cf_epochs_before_stall := x\<rparr>) config) (\<lambda>config.
      try_bind (set_parameter epochs_after_consensus_before_close
        (in_range MIN_EPOCHS_AFTER_CONSENSUS_BEFORE_CLOSE MAX_EPOCHS_AFTER_CONSENSUS_BEFORE_CLOSE)
        InvalidEpochsBeforeClose
        (\<lambda>x c. c\<lparr>cf_epochs_after_consensus_before_close := x\<rparr>) config) (\<lambda>config.
      try_bind (set_parameter valid_slots_after_consensus
        (in_range MIN_VALID_SLOTS_AFTER_CONSENSUS MAX_VALID_SLOTS_AFTER_CONSENSUS)
        InvalidSlotsAfterConsensus
        (\<lambda>x c. c\<lparr>cf_valid_slots_after_consensus := x\<rparr>) config) (\<lambda>config.
      try_bind (set_parameter minimum_stake (\<lambda>w. w \<noteq> 0) InvalidMinimumStakeWeight
        (\<lambda>x c. c\<lparr>cf_minimum_stake := sw_new x\<rparr>) config) (\<lambda>config.
      set_parameter consensus_threshold_bps
        (in_range MIN_CONSENSUS_THRESHOLD_BPS MAX_CONSENSUS_THRESHOLD_BPS)
        InvalidConsensusThresholdBps
        (\<lambda>x c. c\<lparr>cf_consensus_threshold_bps := x\<rparr>) config)))))"

definition process_admin_set_parameters ::
  "runtime \<Rightarrow> jito \<Rightarrow> pubkey \<Rightarrow> (config pod_account \<times> raw_account \<times> account_info) option \<Rightarrow>
   u64 option \<Rightarrow> u64 option \<Rightarrow> u64 option \<Rightarrow> u128 option \<Rightarrow> u64 option \<Rightarrow> u16 option \<Rightarrow>
   program_error + config pod_account" where
  "process_admin_set_parameters R J program_id accounts starting_valid_epoch epochs_before_stall
     epochs_after_consensus_before_close minimum_stake valid_slots_after_consensus
     consensus_threshold_bps =
     (case accounts of
        None \<Rightarrow> Inl PE_NotEnoughAccountKeys
      | Some (config, ncn_account, ncn_admin) \<Rightarrow>
          try_bind (rt_load_signer R ncn_admin True) (\<lambda>_.
          try_bind (config_load R program_id config (key_of ncn_account) True) (\<lambda>_.
          try_bind (jt_ncn_load J (jt_restaking_id J) ncn_account False) (\<lambda>_.
          try_bind (jt_ncn J (ac_data ncn_account)) (\<lambda>ncn.
          if nv_admin ncn \<noteq> ai_key ncn_admin then Inl (from_ncn IncorrectNcnAdmin)
          else
            try_bind (config_view R config) (\<lambda>c.
            if cf_ncn c \<noteq> key_of ncn_account then Inl (from_ncn IncorrectNcn)
            else
              try_bind (update_parameters starting_valid_epoch epochs_before_stall
                epochs_after_consensus_before_close minimum_stake valid_slots_after_consensus
                consensus_threshold_bps c) (\<lambda>c.
              Inr (set_body c config))))))))"

subsection \<open>AdminSetNewAdmin\<close>

datatype config_admin_role = TieBreakerAdmin

definition process_admin_set_new_admin ::
  "runtime \<Rightarrow> jito \<Rightarrow> pubkey \<Rightarrow>
   (config pod_account \<times> raw_account \<times> account_info \<times> account_info) option \<Rightarrow> config_admin_role \<Rightarrow>
   program_error + config pod_account" where
  "process_admin_set_new_admin R J program_id accounts role =
     (case accounts of
        None \<Rightarrow> Inl PE_NotEnoughAccountKeys
      | Some (config, ncn_account, ncn_admin, new_admin) \<Rightarrow>
          try_bind (rt_load_signer R ncn_admin True) (\<lambda>_.
          try_bind (config_load R program_id config (key_of ncn_account) True) (\<lambda>_.
          try_bind (jt_ncn_load J (jt_restaking_id J) ncn_account False) (\<lambda>_.
          try_bind (config_view R config) (\<lambda>c.
          if cf_ncn c \<noteq> key_of ncn_account then Inl (from_ncn IncorrectNcn)
          else
            try_bind (jt_ncn J (ac_data ncn_account)) (\<lambda>ncn.
            if nv_admin ncn \<noteq> ai_key ncn_admin then Inl (from_ncn IncorrectNcnAdmin)
            else (case role of
              TieBreakerAdmin \<Rightarrow>
                Inr (set_body (c\<lparr>cf_tie_breaker_admin := ai_key new_admin\<rparr>) config))))))))"

subsection \<open>InitializeVaultRegistry\<close>

definition process_initialize_vault_registry ::
  "runtime \<Rightarrow> jito \<Rightarrow> pubkey \<Rightarrow>
   (config pod_account \<times> vault_registry pod_account \<times> raw_account \<times> account_info \<times> account_info) option \<Rightarrow>
   program_error + vault_registry pod_account \<times> account_info" where
  "process_initialize_vault_registry R J program_id accounts =
     (case accounts of
        None \<Rightarrow> Inl PE_NotEnoughAccountKeys
      | Some (ncn_config, vault_registry, ncn, account_payer, system_program) \<Rightarrow>
          try_bind (rt_load_system_account R (ac_info vault_registry) (pd_len (ac_data vault_registry)) True) (\<lambda>_.
          try_bind (rt_load_system_program R system_program) (\<lambda>_.
          try_bind (jt_ncn_load J (jt_restaking_id J) ncn False) (\<lambda>_.
          try_bind (config_load R program_id ncn_config (key_of ncn) False) (\<lambda>_.
          try_bind (account_payer_load R program_id account_payer (key_of ncn) True) (\<lambda>_.
          case vault_registry_find R program_id (key_of ncn) of (pda, bump, seeds) \<Rightarrow>
            if pda \<noteq> key_of vault_registry then Inl PE_InvalidSeeds
            else
              try_bind (pay_and_create_account R program_id (key_of ncn) account_payer vault_registry
                program_id VAULT_REGISTRY_SIZE (seeds @ [[bump]])) (\<lambda>(payer, vault_registry).
              try_bind (write_first (discriminator D_VaultRegistry) vault_registry) (\<lambda>vault_registry.
              try_bind (registry_view R vault_registry) (\<lambda>r.
              Inr (set_body (vault_registry_initialize r (key_of ncn) bump) vault_registry, payer))))))))))"

subsection \<open>AdminRegisterStMint\<close>

definition process_admin_register_st_mint ::
  "runtime \<Rightarrow> jito \<Rightarrow> pubkey \<Rightarrow>
   (config pod_account \<times> raw_account \<times> raw_account \<times> vault_registry pod_account \<times> account_info) option \<Rightarrow>
   u16 \<Rightarrow> program_error + vault_registry pod_account" where
  "process_admin_register_st_mint R J program_id accounts weight_bps =
     (case accounts of
        None \<Rightarrow> Inl PE_NotEnoughAccountKeys
      | Some (config, ncn, st_mint, vault_registry, admin) \<Rightarrow>
          try_bind (config_load R program_id config (key_of ncn) False) (\<lambda>_.
          try_bind (vault_registry_load R program_id vault_registry (key_of ncn) True) (\<lambda>_.
          try_bind (jt_ncn_load J (jt_restaking_id J) ncn False) (\<lambda>_.
          try_bind (rt_load_token_mint R st_mint) (\<lambda>_.
          try_bind (rt_load_signer R admin False) (\<lambda>_.
          try_bind (jt_ncn J (ac_data ncn)) (\<lambda>ncn_account.
          if nv_ncn_program_admin ncn_account \<noteq> ai_key admin then Inl PE_InvalidAccountData
          else
            try_bind (registry_view R vault_registry) (\<lambda>r.
            try_bind (register_st_mint r (key_of st_mint) weight_bps) (\<lambda>r.
            Inr (set_body r vault_registry))))))))))"

subsection \<open>RegisterVault\<close>

definition process_register_vault ::
  "runtime \<Rightarrow> jito \<Rightarrow> pubkey \<Rightarrow>
   (config pod_account \<times> vault_registry pod_account \<times> raw_account \<times> raw_account \<times> raw_account) option \<Rightarrow>
   program_error + vault_registry pod_account" where
  "process_register_vault R J program_id accounts =
     (case accounts of
        None \<Rightarrow> Inl PE_NotEnoughAccountKeys
      | Some (config, vault_registry, ncn, vault, ncn_vault_ticket) \<Rightarrow>
          try_bind (config_load R program_id config (key_of ncn) False) (\<lambda>_.
          try_bind (vault_registry_load R program_id vault_registry (key_of ncn) True) (\<lambda>_.
          try_bind (jt_ncn_load J (jt_restaking_id J) ncn False) (\<lambda>_.
          try_bind (jt_vault_load J (jt_vault_id J) vault False) (\<lambda>_.
          try_bind (jt_ncn_vault_ticket_load J (jt_restaking_id J) ncn_vault_ticket ncn vault False) (\<lambda>_.
          try_bind (clock_slot R) (\<lambda>slot.
          try_bind (registry_view R vault_registry) (\<lambda>r.
          try_bind (jt_vault J (ac_data vault)) (\<lambda>vault_account.
          if \<not> has_st_mint r (vv_supported_mint vault_account) then Inl PE_InvalidAccountData
          else
            try_bind (register_vault_entry r (key_of vault) (vv_supported_mint vault_account)
              (vv_vault_index vault_account) slot) (\<lambda>r.
            Inr (set_body r vault_registry)))))))))))"

end
