(* ===== verification/Operator_Handlers.thy ===== *)
theory Operator_Handlers
  imports Certificate Admin_Handlers
begin

text \<open>
  The handlers of operators, of the snapshot and of certificates
  (\<open>program/src/initialize_snapshot.rs\<close>, \<open>realloc_snapshot.rs\<close>, \<open>register_operator.rs\<close>,
  \<open>update_operator_bn128_keys.rs\<close>, \<open>remove_operator.rs\<close>, \<open>update_operator_ip_port.rs\<close>,
  \<open>snapshot_vault_operator_delegation.rs\<close>, \<open>verify_certificate.rs\<close>).
\<close>

definition snapshot_view :: "runtime \<Rightarrow> snapshot pod_account \<Rightarrow> program_error + snapshot" where
  "snapshot_view R a = pod_view R (discriminator D_Snapshot) SNAPSHOT_SIZE a"

definition operator_account_view ::
  "runtime \<Rightarrow> ncn_operator_account pod_account \<Rightarrow> program_error + ncn_operator_account" where
  "operator_account_view R a = pod_view R (discriminator D_OperatorRegistry) NCN_OPERATOR_ACCOUNT_SIZE a"

lemma snapshot_views_Inr:
  "snapshot_view R a = Inr s \<Longrightarrow> s = body a" "operator_account_view R x = Inr n \<Longrightarrow> n = body x"
  by (auto simp: snapshot_view_def operator_account_view_def dest: pod_view_Inr)

subsection \<open>InitializeSnapshot and ReallocSnapshot\<close>

definition process_initialize_snapshot ::
  "runtime \<Rightarrow> jito \<Rightarrow> pubkey \<Rightarrow>
   (raw_account \<times> snapshot pod_account \<times> account_info \<times> account_info) option \<Rightarrow>
   program_error + snapshot pod_account \<times> account_info" where
  "process_initialize_snapshot R J program_id accounts =
     (case accounts of
        None \<Rightarrow> Inl PE_NotEnoughAccountKeys
      | Some (ncn, snapshot, account_payer, system_program) \<Rightarrow>
          try_bind (jt_ncn_load J (jt_restaking_id J) ncn False) (\<lambda>_.
          try_bind (account_payer_load R program_id account_payer (key_of ncn) True) (\<lambda>_.
          try_bind (rt_load_system_account R (ac_info snapshot) (pd_len (ac_data snapshot)) True) (\<lambda>_.
          try_bind (rt_load_system_program R system_program) (\<lambda>_.
          case snapshot_find R program_id (key_of ncn) of (pda, bump, seeds) \<Rightarrow>
            if pda \<noteq> key_of snapshot then Inl PE_InvalidAccountData
            else
              try_bind (pay_and_create_account R program_id (key_of ncn) account_payer snapshot
                program_id (unat MAX_REALLOC_BYTES) (seeds @ [[bump]])) (\<lambda>(payer, snapshot).
              Inr (snapshot, payer)))))))"

text \<open>One step of growth toward the full size, then the initialisation once it is reached.\<close>

definition grow_snapshot ::
  "runtime \<Rightarrow> pubkey \<Rightarrow> pubkey \<Rightarrow> account_info \<Rightarrow> snapshot pod_account \<Rightarrow>
   program_error + snapshot pod_account \<times> account_info" where
  "grow_snapshot R program_id ncn account_payer snapshot =
     (if pd_len (ac_data snapshot) < SNAPSHOT_SIZE
      then
        try_bind (get_new_size (pd_len (ac_data snapshot)) SNAPSHOT_SIZE) (\<lambda>new_size.
        try_bind (pay_and_realloc R program_id ncn account_payer snapshot new_size)
          (\<lambda>(payer, snapshot). Inr (snapshot, payer)))
      else Inr (snapshot, account_payer))"

definition finish_snapshot ::
  "runtime \<Rightarrow> pubkey \<Rightarrow> u8 \<Rightarrow> config pod_account \<Rightarrow> snapshot pod_account \<Rightarrow>
   program_error + snapshot pod_account" where
  "finish_snapshot R ncn bump config snapshot =
     (if pd_len (ac_data snapshot) \<ge> SNAPSHOT_SIZE \<and>
         pd_first (ac_data snapshot) \<noteq> discriminator D_Snapshot
      then
        try_bind (clock_slot R) (\<lambda>current_slot.
        try_bind (config_view R config) (\<lambda>config_account.
        try_bind (write_first (discriminator D_Snapshot) snapshot) (\<lambda>snapshot.
        try_bind (snapshot_view R snapshot) (\<lambda>s.
        Inr (set_body (snapshot_initialize s ncn bump current_slot
          (cf_minimum_stake config_account)) snapshot)))))
      else Inr snapshot)"

definition process_realloc_snapshot ::
  "runtime \<Rightarrow> jito \<Rightarrow> pubkey \<Rightarrow>
   (raw_account \<times> config pod_account \<times> snapshot pod_account \<times> account_info \<times> account_info) option \<Rightarrow>
   program_error + snapshot pod_account \<times> account_info" where
  "process_realloc_snapshot R J program_id accounts =
     (case accounts of
        None \<Rightarrow> Inl PE_NotEnoughAccountKeys
      | Some (ncn, config, snapshot, account_payer, system_program) \<Rightarrow>
          try_bind (rt_load_system_program R system_program) (\<lambda>_.
          try_bind (jt_ncn_load J (jt_restaking_id J) ncn False) (\<lambda>_.
          try_bind (config_load R program_id config (key_of ncn) False) (\<lambda>_.
          try_bind (account_payer_load R program_id account_payer (key_of ncn) True) (\<lambda>_.
          case snapshot_find R program_id (key_of ncn) of (pda, bump, seeds) \<Rightarrow>
            if pda \<noteq> key_of snapshot then Inl PE_InvalidAccountData
            else
              try_bind (grow_snapshot R program_id (key_of ncn) account_payer snapshot) (\<lambda>(snapshot, payer).
              try_bind (finish_snapshot R (key_of ncn) bump config snapshot) (\<lambda>snapshot.
              Inr (snapshot, payer))))))))"

subsection \<open>RegisterOperator\<close>

definition toggled_on :: "slot_toggle_state \<Rightarrow> bool" where
  "toggled_on s \<longleftrightarrow> s = Active \<or> s = WarmUp"

text \<open>The operator's opt-in states: both sides active or warming up.\<close>

definition operator_connection_active ::
  "jito \<Rightarrow> raw_account \<Rightarrow> u64 \<Rightarrow> u64 \<Rightarrow> program_error + bool" where
  "operator_connection_active J ncn_operator_state current_slot ncn_epoch_length =
     try_bind (jt_ncn_operator_state J (ac_data ncn_operator_state)) (\<lambda>st.
     try_bind (tg_state (nos_ncn_opt_in_state st) current_slot ncn_epoch_length) (\<lambda>ncn_side.
     try_bind (tg_state (nos_operator_opt_in_state st) current_slot ncn_epoch_length) (\<lambda>operator_side.
     Inr (toggled_on ncn_side \<and> toggled_on operator_side))))"

definition register_operator_proof ::
  "syscalls \<Rightarrow> pubkey \<Rightarrow> pubkey \<Rightarrow> bytes32 \<Rightarrow> bytes64 \<Rightarrow> bytes64 \<Rightarrow> program_error + unit" where
  "register_operator_proof S ncn operator g1_pubkey g2_pubkey signature =
     try_bind (lift_ncn (map_err (\<lambda>_. G2PointDecompressionError)
       (g2_decompress S (G2CompressedPoint g2_pubkey)))) (\<lambda>g2_point.
     lift_ncn (map_err (\<lambda>_. BLSVerificationError)
       (verify_operator_registeration S g2_point (G1Point signature) g1_pubkey
         (pop_message_digest S ncn operator g1_pubkey))))"

text \<open>The entry of a new operator, then its key in the aggregate.\<close>

definition snapshot_register ::
  "syscalls \<Rightarrow> pubkey \<Rightarrow> u64 \<Rightarrow> bool \<Rightarrow> u64 \<Rightarrow> u64 \<Rightarrow> bytes32 \<Rightarrow> snapshot \<Rightarrow> program_error + snapshot" where
  "snapshot_register S operator slot is_active ncn_operator_index operator_index g1_pubkey s =
     try_bind (lift_ncn (operator_snapshot_new operator slot is_active ncn_operator_index
       operator_index g1_pubkey)) (\<lambda>e.
     try_bind (lift_ncn (add_operator_snapshot s e slot)) (\<lambda>s.
     lift_ncn (register_operator_g1_pubkey S s g1_pubkey)))"

definition process_register_operator ::
  "runtime \<Rightarrow> jito \<Rightarrow> syscalls \<Rightarrow> pubkey \<Rightarrow>
   (config pod_account \<times> ncn_operator_account pod_account \<times> raw_account \<times> raw_account \<times> account_info \<times>
    raw_account \<times> snapshot pod_account \<times> raw_account \<times> account_info \<times> account_info) option \<Rightarrow>
   bytes32 \<Rightarrow> bytes64 \<Rightarrow> bytes64 \<Rightarrow> u32 \<Rightarrow> u16 \<Rightarrow>
   program_error + ncn_operator_account pod_account \<times> snapshot pod_account \<times> account_info" where
  "process_register_operator R J S program_id accounts g1_pubkey g2_pubkey signature ip_address port =
     (case accounts of
        None \<Rightarrow> Inl PE_NotEnoughAccountKeys
      | Some (config, ncn_operator_account, ncn, operator, operator_admin, ncn_operator_state, snapshot,
          restaking_config, account_payer, system_program) \<Rightarrow>
          try_bind (config_load R program_id config (key_of ncn) False) (\<lambda>_.
          try_bind (rt_load_system_account R (ac_info ncn_operator_account)
            (pd_len (ac_data ncn_operator_account)) True) (\<lambda>_.
          try_bind (jt_ncn_load J (jt_restaking_id J) ncn False) (\<lambda>_.
          try_bind (jt_operator_load J (jt_restaking_id J) operator False) (\<lambda>_.
          try_bind (account_payer_load R program_id account_payer (key_of ncn) True) (\<lambda>_.
          try_bind (rt_load_system_program R system_program) (\<lambda>_.
          try_bind (snapshot_load R program_id snapshot (key_of ncn) True) (\<lambda>_.
          try_bind (jt_ncn_operator_state_load J (jt_restaking_id J) ncn_operator_state ncn operator False) (\<lambda>_.
          try_bind (jt_operator J (ac_data operator)) (\<lambda>operator_account.
          if ov_admin operator_account \<noteq> ai_key operator_admin then Inl PE_InvalidAccountData
          else if \<not> ai_is_signer operator_admin then Inl PE_MissingRequiredSignature
          else
            try_bind (clock_slot R) (\<lambda>current_slot.
            try_bind (load_ncn_epoch J restaking_config current_slot None) (\<lambda>(_, ncn_epoch_length).
            try_bind (operator_connection_active J ncn_operator_state current_slot ncn_epoch_length) (\<lambda>is_active.
            if \<not> is_active then Inl (from_ncn OperatorNcnConnectionNotActive)
            else
              try_bind (register_operator_proof S (key_of ncn) (key_of operator) g1_pubkey g2_pubkey signature) (\<lambda>_.
              case ncn_operator_account_find R program_id (key_of ncn) (key_of operator) of
                (pda, bump, seeds) \<Rightarrow>
                if pda \<noteq> key_of ncn_operator_account then Inl PE_InvalidSeeds
                else
                  try_bind (pay_and_create_account R program_id (key_of ncn) account_payer
                    ncn_operator_account program_id NCN_OPERATOR_ACCOUNT_SIZE (seeds @ [[bump]]))
                    (\<lambda>(payer, ncn_operator_account).
                  try_bind (jt_ncn_operator_state J (ac_data ncn_operator_state)) (\<lambda>st.
                  let operator_index = ov_index operator_account; ncn_operator_index = nos_index st in
                  if ncn_operator_index \<ge> of_nat MAX_OPERATORS then Inl (from_ncn OperatorIsNotInSnapshot)
                  else
                    try_bind (write_first (discriminator D_OperatorRegistry) ncn_operator_account)
                      (\<lambda>ncn_operator_account.
                    try_bind (operator_account_view R ncn_operator_account) (\<lambda>a.
                    let a = ncn_operator_account_initialize a (key_of ncn) (key_of operator) g1_pubkey
                          g2_pubkey ncn_operator_index current_slot ip_address port bump in
                    try_bind (snapshot_view R snapshot) (\<lambda>s.
                    try_bind (snapshot_register S (key_of operator) current_slot is_active
                      ncn_operator_index operator_index g1_pubkey s) (\<lambda>s.
                    Inr (set_body a ncn_operator_account, set_body s snapshot, payer)))))))))))))))))))))"

subsection \<open>UpdateOperatorBN128Keys\<close>

text \<open>The account belongs to this operator and this NCN.\<close>

definition operator_account_matches ::
  "ncn_operator_account \<Rightarrow> pubkey \<Rightarrow> pubkey \<Rightarrow> program_error + unit" where
  "operator_account_matches a operator ncn =
     (if no_operator_pubkey a \<noteq> operator then Inl PE_InvalidAccountData
      else if no_ncn a \<noteq> ncn then Inl PE_InvalidAccountData
      else Inr ())"

definition update_keys_proof ::
  "syscalls \<Rightarrow> pubkey \<Rightarrow> pubkey \<Rightarrow> bytes32 \<Rightarrow> bytes64 \<Rightarrow> bytes64 \<Rightarrow> program_error + unit" where
  "update_keys_proof S ncn operator g1_pubkey g2_pubkey signature =
     try_bind (lift_ncn (map_err (\<lambda>_. G1PointDecompressionError)
       (g1_decompress S (G1CompressedPoint g1_pubkey)))) (\<lambda>g1_point.
     try_bind (lift_ncn (map_err (\<lambda>_. G2PointDecompressionError)
       (g2_decompress S (G2CompressedPoint g2_pubkey)))) (\<lambda>g2_point.
     try_bind (lift_ncn (map_err (\<lambda>_. BLSVerificationError) (g1_verify_g2 S g1_point g2_point)))
       (\<lambda>keypair_valid.
     if \<not> keypair_valid then Inl (from_ncn BLSVerificationError)
     else
       lift_ncn (map_err (\<lambda>_. BLSVerificationError)
         (verify_signature S g2_point (G1Point signature)
           (pop_message_digest S ncn operator g1_pubkey))))))"

definition process_update_operator_bn128_keys ::
  "runtime \<Rightarrow> jito \<Rightarrow> syscalls \<Rightarrow> pubkey \<Rightarrow>
   (config pod_account \<times> ncn_operator_account pod_account \<times> raw_account \<times> raw_account \<times> account_info \<times>
    snapshot pod_account) option \<Rightarrow> bytes32 \<Rightarrow> bytes64 \<Rightarrow> bytes64 \<Rightarrow>
   program_error + ncn_operator_account pod_account \<times> snapshot pod_account" where
  "process_update_operator_bn128_keys R J S program_id accounts g1_pubkey g2_pubkey signature =
     (case accounts of
        None \<Rightarrow> Inl PE_NotEnoughAccountKeys
      | Some (config, ncn_operator_account, ncn, operator, operator_admin, snapshot) \<Rightarrow>
          try_bind (config_load R program_id config (key_of ncn) False) (\<lambda>_.
          try_bind (ncn_operator_account_load R program_id ncn_operator_account (key_of ncn)
            (key_of operator) True) (\<lambda>_.
          try_bind (jt_ncn_load J (jt_restaking_id J) ncn False) (\<lambda>_.
          try_bind (jt_operator_load J (jt_restaking_id J) operator False) (\<lambda>_.
          try_bind (snapshot_load R program_id snapshot (key_of ncn) True) (\<lambda>_.
          try_bind (jt_operator J (ac_data operator)) (\<lambda>operator_account.
          if ov_admin operator_account \<noteq> ai_key operator_admin then Inl PE_InvalidAccountData
          else if \<not> ai_is_signer operator_admin then Inl PE_MissingRequiredSignature
          else
            try_bind (operator_account_view R ncn_operator_account) (\<lambda>a.
            try_bind (operator_account_matches a (key_of operator) (key_of ncn)) (\<lambda>_.
            try_bind (update_keys_proof S (key_of ncn) (key_of operator) g1_pubkey g2_pubkey signature) (\<lambda>_.
            try_bind (clock_slot R) (\<lambda>slot.
            try_bind (update_keys S a g1_pubkey g2_pubkey slot) (\<lambda>a.
            try_bind (snapshot_view R snapshot) (\<lambda>s.
            try_bind (update_g1_operator_pubkey S s g1_pubkey (key_of operator)) (\<lambda>s.
            Inr (set_body a ncn_operator_account, set_body s snapshot)))))))))))))))"

subsection \<open>RemoveOperator\<close>

definition process_remove_operator ::
  "runtime \<Rightarrow> jito \<Rightarrow> syscalls \<Rightarrow> pubkey \<Rightarrow>
   (config pod_account \<times> raw_account \<times> raw_account \<times> account_info \<times> snapshot pod_account) option \<Rightarrow>
   program_error + snapshot pod_account" where
  "process_remove_operator R J S program_id accounts =
     (case accounts of
        None \<Rightarrow> Inl PE_NotEnoughAccountKeys
      | Some (config, ncn, operator, admin, snapshot) \<Rightarrow>
          try_bind (config_load R program_id config (key_of ncn) False) (\<lambda>_.
          try_bind (jt_ncn_load J (jt_restaking_id J) ncn False) (\<lambda>_.
          try_bind (jt_operator_load J (jt_restaking_id J) operator False) (\<lambda>_.
          try_bind (rt_load_signer R admin False) (\<lambda>_.
          try_bind (snapshot_load R program_id snapshot (key_of ncn) True) (\<lambda>_.
          try_bind (jt_ncn J (ac_data ncn)) (\<lambda>ncn_account.
          try_bind (jt_operator J (ac_data operator)) (\<lambda>operator_account.
          if ai_key admin \<noteq> nv_admin ncn_account \<and> ai_key admin \<noteq> ov_admin operator_account
          then Inl (from_ncn CannotRemoveOperator)
          else
            try_bind (snapshot_view R snapshot) (\<lambda>s.
            try_bind (remove_operator_snapshot S s (key_of operator)) (\<lambda>(s, removed_index).
            Inr (set_body s snapshot)))))))))))"

subsection \<open>UpdateOperatorIpPort\<close>

definition process_update_operator_ip_port ::
  "runtime \<Rightarrow> jito \<Rightarrow> pubkey \<Rightarrow>
   (config pod_account \<times> ncn_operator_account pod_account \<times> raw_account \<times> raw_account \<times> account_info) option \<Rightarrow>
   u32 \<Rightarrow> u16 \<Rightarrow> program_error + ncn_operator_account pod_account" where
  "process_update_operator_ip_port R J program_id accounts ip_address port =
     (case accounts of
        None \<Rightarrow> Inl PE_NotEnoughAccountKeys
      | Some (config, ncn_operator_account, ncn, operator, operator_admin) \<Rightarrow>
          try_bind (config_load R program_id config (key_of ncn) False) (\<lambda>_.
          try_bind (ncn_operator_account_load R program_id ncn_operator_account (key_of ncn)
            (key_of operator) True) (\<lambda>_.
          try_bind (jt_operator J (ac_data operator)) (\<lambda>operator_account.
          if ov_admin operator_account \<noteq> ai_key operator_admin then Inl PE_InvalidAccountData
          else if \<not> ai_is_signer operator_admin then Inl PE_MissingRequiredSignature
          else
            try_bind (operator_account_view R ncn_operator_account) (\<lambda>a.
            try_bind (operator_account_matches a (key_of operator) (key_of ncn)) (\<lambda>_.
            if no_is_empty a then Inl (from_ncn NCNOperatorAccountDosentExist)
            else
              try_bind (update_ip_port a ip_address port) (\<lambda>a.
              Inr (set_body a ncn_operator_account))))))))"

subsection \<open>SnapshotVaultOperatorDelegation\<close>

text \<open>Whether the vault and the NCN are connected and a delegation exists.\<close>

definition vault_ncn_connection_active ::
  "jito \<Rightarrow> raw_account \<Rightarrow> raw_account \<Rightarrow> raw_account \<Rightarrow> u64 \<Rightarrow> u64 \<Rightarrow> program_error + bool" where
  "vault_ncn_connection_active J ncn_vault_ticket vault_ncn_ticket vault_operator_delegation
     current_slot ncn_epoch_length =
     try_bind (jt_ncn_vault_ticket_state J (ac_data ncn_vault_ticket)) (\<lambda>st.
     try_bind (tg_is_active st current_slot ncn_epoch_length) (\<lambda>ncn_vault_okay.
     try_bind
       (if ac_data vault_ncn_ticket = [] then Inr False
        else
          try_bind (jt_vault_ncn_ticket_state J (ac_data vault_ncn_ticket)) (\<lambda>st.
          tg_is_active_or_cooldown st current_slot ncn_epoch_length)) (\<lambda>vault_ncn_okay.
     let delegation_dne = (ac_data vault_operator_delegation = []) in
     Inr (vault_ncn_okay \<and> ncn_vault_okay \<and> \<not> delegation_dne))))"

definition operator_ncn_connection_active ::
  "jito \<Rightarrow> raw_account \<Rightarrow> u64 \<Rightarrow> u64 \<Rightarrow> program_error + bool" where
  "operator_ncn_connection_active J ncn_operator_state current_slot ncn_epoch_length =
     try_bind (jt_ncn_operator_state J (ac_data ncn_operator_state)) (\<lambda>st.
     try_bind (tg_is_active (nos_ncn_opt_in_state st) current_slot ncn_epoch_length) (\<lambda>ncn_operator_okay.
     try_bind (tg_is_active_or_cooldown (nos_operator_opt_in_state st) current_slot ncn_epoch_length)
       (\<lambda>operator_ncn_okay.
     Inr (ncn_operator_okay \<and> operator_ncn_okay))))"

definition apply_weight :: "u16 \<Rightarrow> u128 \<Rightarrow> program_error + u128" where
  "apply_weight weight_bps raw =
     ok_or (from_ncn ArithmeticOverflow)
       (case checked_mul raw (ucast weight_bps) of
          None \<Rightarrow> None
        | Some scaled \<Rightarrow> checked_div scaled (ucast FULL_WEIGHT_BPS))"

text \<open>The accounts a delegation snapshot loads; the two optional loads come before the last one.\<close>

definition load_delegation_accounts ::
  "jito \<Rightarrow> raw_account \<Rightarrow> raw_account \<Rightarrow> raw_account \<Rightarrow> raw_account \<Rightarrow> raw_account \<Rightarrow> raw_account \<Rightarrow>
   program_error + unit" where
  "load_delegation_accounts J ncn operator vault vault_ncn_ticket ncn_vault_ticket
     vault_operator_delegation =
     try_bind (jt_ncn_vault_ticket_load J (jt_restaking_id J) ncn_vault_ticket ncn vault False) (\<lambda>_.
     try_bind (if ac_data vault_ncn_ticket \<noteq> []
       then jt_vault_ncn_ticket_load J (jt_vault_id J) vault_ncn_ticket vault ncn False else Inr ()) (\<lambda>_.
     try_bind (if ac_data vault_operator_delegation \<noteq> []
       then jt_vault_operator_delegation_load J (jt_vault_id J) vault_operator_delegation vault operator False
       else Inr ()) (\<lambda>_.
     jt_vault_operator_delegation_load J (jt_vault_id J) vault_operator_delegation vault operator False)))"

text \<open>The stake of a delegation in this and the next epoch, weighted by the vault's mint.\<close>

definition weighted_stakes ::
  "jito \<Rightarrow> 'p precise_ops \<Rightarrow> raw_account \<Rightarrow> bool \<Rightarrow> u16 \<Rightarrow> program_error + u128 \<times> u128" where
  "weighted_stakes J P vault_operator_delegation is_active weight_bps =
     try_bind
       (if is_active then
          try_bind (jt_vault_operator_delegation J (ac_data vault_operator_delegation)) (\<lambda>d.
          calculate_stake_weights P d)
        else Inr (0, 0)) (\<lambda>(total_stake_weight, next_epoch_stake_weight).
     try_bind (apply_weight weight_bps total_stake_weight) (\<lambda>total_stake_weight.
     try_bind (apply_weight weight_bps next_epoch_stake_weight) (\<lambda>next_epoch_stake_weight.
     Inr (total_stake_weight, next_epoch_stake_weight))))"

definition process_snapshot_vault_operator_delegation ::
  "runtime \<Rightarrow> jito \<Rightarrow> 'p precise_ops \<Rightarrow> pubkey \<Rightarrow>
   (config pod_account \<times> raw_account \<times> raw_account \<times> raw_account \<times> raw_account \<times> raw_account \<times>
    raw_account \<times> raw_account \<times> raw_account \<times> snapshot pod_account \<times> vault_registry pod_account) option \<Rightarrow>
   program_error + snapshot pod_account" where
  "process_snapshot_vault_operator_delegation R J P program_id accounts =
     (case accounts of
        None \<Rightarrow> Inl PE_NotEnoughAccountKeys
      | Some (ncn_config, restaking_config, ncn, operator, vault, vault_ncn_ticket, ncn_vault_ticket,
          ncn_operator_state, vault_operator_delegation, snapshot, vault_registry) \<Rightarrow>
          try_bind (config_load R program_id ncn_config (key_of ncn) False) (\<lambda>_.
          try_bind (jt_config_load J (jt_restaking_id J) restaking_config False) (\<lambda>_.
          try_bind (jt_ncn_load J (jt_restaking_id J) ncn False) (\<lambda>_.
          try_bind (jt_operator_load J (jt_restaking_id J) operator False) (\<lambda>_.
          try_bind (jt_vault_load J (jt_vault_id J) vault False) (\<lambda>_.
          try_bind (snapshot_load R program_id snapshot (key_of ncn) True) (\<lambda>_.
          try_bind (vault_registry_load R program_id vault_registry (key_of ncn) False) (\<lambda>_.
          try_bind (load_delegation_accounts J ncn operator vault vault_ncn_ticket ncn_vault_ticket
            vault_operator_delegation) (\<lambda>_.
          try_bind (clock_slot R) (\<lambda>current_slot.
          try_bind (load_ncn_epoch J restaking_config current_slot None) (\<lambda>(_, ncn_epoch_length).
          try_bind (jt_vault J (ac_data vault)) (\<lambda>vault_account.
          try_bind (vv_is_update_needed vault_account current_slot ncn_epoch_length) (\<lambda>vault_needs_update.
          if vault_needs_update then Inl (from_ncn VaultNeedsUpdate)
          else
            try_bind (snapshot_view R snapshot) (\<lambda>s.
            try_bind (lift_ncn (ok_or OperatorIsNotInSnapshot (find_operator_snapshot s (key_of operator))))
              (\<lambda>operator_snapshot.
            try_bind (vault_ncn_connection_active J ncn_vault_ticket vault_ncn_ticket
              vault_operator_delegation current_slot ncn_epoch_length) (\<lambda>is_vault_ncn_connection_active.
            try_bind (operator_ncn_connection_active J ncn_operator_state current_slot ncn_epoch_length)
              (\<lambda>is_operator_ncn_connection_active.
            let is_active = (is_operator_ncn_connection_active \<and> is_vault_ncn_connection_active) in
            try_bind (registry_view R vault_registry) (\<lambda>r.
            try_bind (lift_ncn (get_vault_registry_slot r (key_of vault))) (\<lambda>registry_slot.
            try_bind (lift_ncn (get_vault_weight_bps r (key_of vault))) (\<lambda>weight_bps.
            try_bind (weighted_stakes J P vault_operator_delegation is_active weight_bps)
              (\<lambda>(total_stake_weight, next_epoch_stake_weight).
            try_bind (lift_ncn (sw_snapshot total_stake_weight)) (\<lambda>this_epoch_stake_weight.
            try_bind (lift_ncn (sw_snapshot next_epoch_stake_weight)) (\<lambda>next_epoch_stake_weight.
            try_bind (lift_ncn (os_snapshot_delegation operator_snapshot current_slot (of_nat registry_slot)
              this_epoch_stake_weight next_epoch_stake_weight (ss_minimum_stake s))) (\<lambda>operator_snapshot.
            try_bind (update_operator_snapshot s (unat (os_ncn_operator_index operator_snapshot))
              operator_snapshot) (\<lambda>s.
            Inr (set_body (set_last_snapshot_slot s current_slot) snapshot))))))))))))))))))))))))))"

subsection \<open>VerifyCertificate\<close>

definition verify_certificate_readonly ::
  "runtime \<Rightarrow> jito \<Rightarrow> syscalls \<Rightarrow> pubkey \<Rightarrow>
   (config pod_account \<times> raw_account \<times> snapshot pod_account \<times> raw_account) option \<Rightarrow>
   bytes32 \<Rightarrow> bytes64 \<Rightarrow> bytes32 \<Rightarrow> bytes \<Rightarrow> u64 \<Rightarrow> program_error + unit" where
  "verify_certificate_readonly R J S ncn_program_id accounts digest aggregated_g2 aggregated_signature
     operators_signature_bitmap expected_generation =
     (case accounts of
        None \<Rightarrow> Inl PE_NotEnoughAccountKeys
      | Some (ncn_config, ncn, snapshot, restaking_config) \<Rightarrow>
          try_bind (config_load R ncn_program_id ncn_config (key_of ncn) False) (\<lambda>_.
          try_bind (jt_ncn_load J (jt_restaking_id J) ncn False) (\<lambda>_.
          try_bind (snapshot_load R ncn_program_id snapshot (key_of ncn) False) (\<lambda>_.
          try_bind (jt_config_load J (jt_restaking_id J) restaking_config False) (\<lambda>_.
          try_bind (config_view R ncn_config) (\<lambda>c.
          try_bind (jt_epoch_length J (ac_data restaking_config)) (\<lambda>ncn_epoch_length.
          try_bind (clock_slot R) (\<lambda>current_slot.
          try_bind (snapshot_view R snapshot) (\<lambda>s.
          verify_certificate S s (cf_consensus_threshold_bps c) (cf_valid_slots_after_consensus c)
            ncn_epoch_length current_slot digest aggregated_g2 aggregated_signature
            operators_signature_bitmap expected_generation)))))))))"

definition process_verify_certificate ::
  "runtime \<Rightarrow> jito \<Rightarrow> syscalls \<Rightarrow> pubkey \<Rightarrow>
   (config pod_account \<times> raw_account \<times> snapshot pod_account \<times> raw_account) option \<Rightarrow>
   bytes32 \<Rightarrow> bytes64 \<Rightarrow> bytes32 \<Rightarrow> bytes \<Rightarrow> u64 \<Rightarrow> program_error + unit" where
  "process_verify_certificate R J S program_id accounts digest aggregated_g2 aggregated_signature
     operators_signature_bitmap expected_generation =
     verify_certificate_readonly R J S program_id accounts digest aggregated_g2 aggregated_signature
       operators_signature_bitmap expected_generation"

end
