(* ===== verification/Program_Ids.thy ===== *)
theory Program_Ids
  imports Prelude
begin

text \<open>The program ids: \<open>declare_id!\<close> decodes a base-58 string into 32 bytes.\<close>

definition base58_alphabet :: string where
  "base58_alphabet = ''123456789ABCDEFGHJKLMNPQRSTUVWXYZabcdefghijkmnopqrstuvwxyz''"

definition base58_digit :: "char \<Rightarrow> nat" where
  "base58_digit c = (case position (\<lambda>d. d = c) base58_alphabet of Some i \<Rightarrow> i | None \<Rightarrow> 0)"

definition declare_id :: "string \<Rightarrow> pubkey" where
  "declare_id s = of_nat (foldl (\<lambda>n c. n * 58 + base58_digit c) 0 s)"

definition NCN_PROGRAM_ID :: pubkey where
  "NCN_PROGRAM_ID = declare_id ''3fKQSi6VzzDUJSmeksS8qK6RB3Gs3UoZWtsQD3xagy45''"

definition SETTLEMENT_PROGRAM_ID :: pubkey where
  "SETTLEMENT_PROGRAM_ID = declare_id ''6XTdBk798fEpM2VPBXpkLPw4zJJLvASaiyHaEmj9Ripx''"

text \<open>No two digits of the alphabet are the same, and the first id fits its 32 bytes.\<close>

lemma base58_alphabet_distinct: "distinct base58_alphabet" "length base58_alphabet = 58"
  by (simp_all add: base58_alphabet_def)

lemma NCN_PROGRAM_ID_value:
  "NCN_PROGRAM_ID = 0x27884118e395da43fda4bf37a0dc57413071fc3db75088ee25616a7d64021a9a"
  by (simp add: NCN_PROGRAM_ID_def declare_id_def base58_digit_def base58_alphabet_def)

end
