(* ===== verification/Entrypoint.thy ===== *)
theory Entrypoint
  imports Borsh Operator_Handlers Program_Ids
begin

text \<open>
  The instructions of the NCN program with their byte form (\<open>core/src/instruction.rs\<close>) and the
  entrypoint that decodes and dispatches them (\<open>program/src/lib.rs\<close>).
\<close>

subsection \<open>Instructions\<close>

datatype ncn_instruction =
    InitializeConfig u64 u64 u64 u128 u16
  | InitializeVaultRegistry
  | RegisterVault
  | RegisterOperator bytes32 bytes64 bytes64
  | UpdateOperatorBN128Keys bytes32 bytes64 bytes64
  | RemoveOperator
  | UpdateOperatorIpPort u32 u16
  | InitializeSnapshot
  | ReallocSnapshot
  | SnapshotVaultOperatorDelegation
  | VerifyCertificate bytes32 bytes64 bytes32 bytes u64
  | AdminSetParameters "u64 option" "u64 option" "u64 option" "u64 option" "u128 option" "u16 option"
  | AdminSetNewAdmin config_admin_role
  | AdminRegisterStMint u16

fun enc_config_admin_role :: "config_admin_role \<Rightarrow> bytes" where
  "enc_config_admin_role TieBreakerAdmin = [0]"

definition dec_config_admin_role :: "bytes \<Rightarrow> (config_admin_role \<times> bytes) option" where
  "dec_config_admin_role bs = (case bs of [] \<Rightarrow> None
     | tag # r \<Rightarrow> if tag = 0 then Some (TieBreakerAdmin, r) else None)"

interpretation role_codec: codec enc_config_admin_role dec_config_admin_role any
proof
  fix x r
  show "dec_config_admin_role (enc_config_admin_role x @ r) = Some (x, r)"
    by (cases x) (simp add: dec_config_admin_role_def)
next
  fix bs r x
  assume "dec_config_admin_role bs = Some (x, r)"
  then show "True \<and> bs = enc_config_admin_role x @ r"
    by (cases x) (auto simp: dec_config_admin_role_def split: list.splits if_splits)
qed

text \<open>The tuples of fields that occur.\<close>

abbreviation enc_config_fields :: "u64 \<times> u64 \<times> u64 \<times> u128 \<times> u16 \<Rightarrow> bytes" where
  "enc_config_fields \<equiv> enc_pair (le_bytes 8) (enc_pair (le_bytes 8) (enc_pair (le_bytes 8)
     (enc_pair (le_bytes 16) (le_bytes 2))))"

abbreviation dec_config_fields :: "bytes \<Rightarrow> ((u64 \<times> u64 \<times> u64 \<times> u128 \<times> u16) \<times> bytes) option" where
  "dec_config_fields \<equiv> dec_pair (dec_le 8) (dec_pair (dec_le 8) (dec_pair (dec_le 8)
     (dec_pair (dec_le 16) (dec_le 2))))"

abbreviation enc_keys :: "bytes32 \<times> bytes64 \<times> bytes64 \<Rightarrow> bytes" where
  "enc_keys \<equiv> enc_pair (be_bytes 32) (enc_pair (be_bytes 64) (be_bytes 64))"

abbreviation dec_keys :: "bytes \<Rightarrow> ((bytes32 \<times> bytes64 \<times> bytes64) \<times> bytes) option" where
  "dec_keys \<equiv> dec_pair (dec_be 32) (dec_pair (dec_be 64) (dec_be 64))"

abbreviation enc_ip_port :: "u32 \<times> u16 \<Rightarrow> bytes" where
  "enc_ip_port \<equiv> enc_pair (be_bytes 4) (le_bytes 2)"

abbreviation dec_ip_port :: "bytes \<Rightarrow> ((u32 \<times> u16) \<times> bytes) option" where
  "dec_ip_port \<equiv> dec_pair (dec_be 4) (dec_le 2)"

abbreviation enc_certificate :: "bytes32 \<times> bytes64 \<times> bytes32 \<times> bytes \<times> u64 \<Rightarrow> bytes" where
  "enc_certificate \<equiv> enc_pair (be_bytes 32) (enc_pair (be_bytes 64) (enc_pair (be_bytes 32)
     (enc_pair enc_blob (le_bytes 8))))"

abbreviation dec_certificate :: "bytes \<Rightarrow> ((bytes32 \<times> bytes64 \<times> bytes32 \<times> bytes \<times> u64) \<times> bytes) option" where
  "dec_certificate \<equiv> dec_pair (dec_be 32) (dec_pair (dec_be 64) (dec_pair (dec_be 32)
     (dec_pair dec_blob (dec_le 8))))"

abbreviation wf_certificate :: "bytes32 \<times> bytes64 \<times> bytes32 \<times> bytes \<times> u64 \<Rightarrow> bool" where
  "wf_certificate \<equiv> wf_pair any (wf_pair any (wf_pair any (wf_pair wf_blob any)))"

type_synonym parameter_options =
  "u64 option \<times> u64 option \<times> u64 option \<times> u64 option \<times> u128 option \<times> u16 option"

abbreviation enc_parameters :: "parameter_options \<Rightarrow> bytes" where
  "enc_parameters \<equiv> enc_pair (enc_option (le_bytes 8)) (enc_pair (enc_option (le_bytes 8))
     (enc_pair (enc_option (le_bytes 8)) (enc_pair (enc_option (le_bytes 8))
     (enc_pair (enc_option (le_bytes 16)) (enc_option (le_bytes 2))))))"

abbreviation dec_parameters :: "bytes \<Rightarrow> (parameter_options \<times> bytes) option" where
  "dec_parameters \<equiv> dec_pair (dec_option (dec_le 8)) (dec_pair (dec_option (dec_le 8))
     (dec_pair (dec_option (dec_le 8)) (dec_pair (dec_option (dec_le 8))
     (dec_pair (dec_option (dec_le 16)) (dec_option (dec_le 2))))))"

fun enc_ncn_instruction :: "ncn_instruction \<Rightarrow> bytes" where
  "enc_ncn_instruction (InitializeConfig a b c d e) = 0 # enc_config_fields (a, b, c, d, e)"
| "enc_ncn_instruction InitializeVaultRegistry = [1]"
| "enc_ncn_instruction RegisterVault = [2]"
| "enc_ncn_instruction (RegisterOperator g1 g2 sg) = 3 # enc_keys (g1, g2, sg)"
| "enc_ncn_instruction (UpdateOperatorBN128Keys g1 g2 sg) = 4 # enc_keys (g1, g2, sg)"
| "enc_ncn_instruction RemoveOperator = [5]"
| "enc_ncn_instruction (UpdateOperatorIpPort ip port) = 6 # enc_ip_port (ip, port)"
| "enc_ncn_instruction InitializeSnapshot = [7]"
| "enc_ncn_instruction ReallocSnapshot = [8]"
| "enc_ncn_instruction SnapshotVaultOperatorDelegation = [9]"
| "enc_ncn_instruction (VerifyCertificate d g2 sg bm g) = 10 # enc_certificate (d, g2, sg, bm, g)"
| "enc_ncn_instruction (AdminSetParameters a b c d e f) = 11 # enc_parameters (a, b, c, d, e, f)"
| "enc_ncn_instruction (AdminSetNewAdmin role) = 12 # enc_config_admin_role role"
| "enc_ncn_instruction (AdminRegisterStMint w) = 13 # le_bytes 2 w"

definition dec_ncn_instruction :: "bytes \<Rightarrow> (ncn_instruction \<times> bytes) option" where
  "dec_ncn_instruction bs = (case bs of [] \<Rightarrow> None
     | tag # r \<Rightarrow>
         if tag = 0 then dec_map (\<lambda>(a, b, c, d, e). InitializeConfig a b c d e) dec_config_fields r
         else if tag = 1 then Some (InitializeVaultRegistry, r)
         else if tag = 2 then Some (RegisterVault, r)
         else if tag = 3 then dec_map (\<lambda>(g1, g2, sg). RegisterOperator g1 g2 sg) dec_keys r
         else if tag = 4 then dec_map (\<lambda>(g1, g2, sg). UpdateOperatorBN128Keys g1 g2 sg) dec_keys r
         else if tag = 5 then Some (RemoveOperator, r)
         else if tag = 6 then dec_map (\<lambda>(ip, port). UpdateOperatorIpPort ip port) dec_ip_port r
         else if tag = 7 then Some (InitializeSnapshot, r)
         else if tag = 8 then Some (ReallocSnapshot, r)
         else if tag = 9 then Some (SnapshotVaultOperatorDelegation, r)
         else if tag = 10 then dec_map (\<lambda>(d, g2, sg, bm, g). VerifyCertificate d g2 sg bm g) dec_certificate r
         else if tag = 11 then dec_map (\<lambda>(a, b, c, d, e, f). AdminSetParameters a b c d e f) dec_parameters r
         else if tag = 12 then dec_map AdminSetNewAdmin dec_config_admin_role r
         else if tag = 13 then dec_map AdminRegisterStMint (dec_le 2) r
         else None)"

definition wf_ncn_instruction :: "ncn_instruction \<Rightarrow> bool" where
  "wf_ncn_instruction ix = (case ix of VerifyCertificate d g2 sg bm g \<Rightarrow> wf_blob bm | _ \<Rightarrow> True)"

lemma field_codecs:
  "codec enc_config_fields dec_config_fields (wf_pair any (wf_pair any (wf_pair any (wf_pair any any))))"
  "codec enc_keys dec_keys (wf_pair any (wf_pair any any))"
  "codec enc_ip_port dec_ip_port (wf_pair any any)"
  "codec enc_certificate dec_certificate wf_certificate"
  "codec enc_parameters dec_parameters (wf_pair (wf_option any) (wf_pair (wf_option any) (wf_pair (wf_option any)
     (wf_pair (wf_option any) (wf_pair (wf_option any) (wf_option any))))))"
  by (intro codec_rules)+

lemma wf_option_any [simp]: "wf_option any = any"
  by (auto simp: wf_option_def split: option.splits)

lemma wf_pair_any [simp]: "wf_pair any any = any"
  by (auto simp: wf_pair_def)

lemma tag_decoders:
  "dec_config_fields (enc_config_fields x @ r) = Some (x, r)"
  "dec_keys (enc_keys y @ r) = Some (y, r)"
  "dec_ip_port (enc_ip_port z @ r) = Some (z, r)"
  "wf_certificate c \<Longrightarrow> dec_certificate (enc_certificate c @ r) = Some (c, r)"
  "dec_parameters (enc_parameters p @ r) = Some (p, r)"
  "dec_le 2 (le_bytes 2 w @ r) = Some (w :: u16, r)"
  by (simp_all add: codec.dec_enc [OF field_codecs(1)] codec.dec_enc [OF field_codecs(2)]
      codec.dec_enc [OF field_codecs(3)] codec.dec_enc [OF field_codecs(4)]
      codec.dec_enc [OF field_codecs(5)] codec.dec_enc [OF word_codecs(1)])

lemma tag_canonical:
  "dec_config_fields bs = Some (x, r) \<Longrightarrow> bs = enc_config_fields x @ r"
  "dec_keys bs = Some (y, r) \<Longrightarrow> bs = enc_keys y @ r"
  "dec_ip_port bs = Some (z, r) \<Longrightarrow> bs = enc_ip_port z @ r"
  "dec_certificate bs = Some (c, r) \<Longrightarrow> wf_certificate c \<and> bs = enc_certificate c @ r"
  "dec_parameters bs = Some (p, r) \<Longrightarrow> bs = enc_parameters p @ r"
  "dec_le 2 bs = Some (w :: u16, r) \<Longrightarrow> bs = le_bytes 2 w @ r"
  by (simp_all add: codec.dec_canonical [OF field_codecs(1)] codec.dec_canonical [OF field_codecs(2)]
      codec.dec_canonical [OF field_codecs(3)] codec.dec_canonical [OF field_codecs(4)]
      codec.dec_canonical [OF field_codecs(5)] codec.dec_canonical [OF word_codecs(1)])

interpretation ncn_codec: codec enc_ncn_instruction dec_ncn_instruction wf_ncn_instruction
proof
  fix x r
  assume "wf_ncn_instruction x"
  then show "dec_ncn_instruction (enc_ncn_instruction x @ r) = Some (x, r)"
    by (cases x) (simp_all add: dec_ncn_instruction_def dec_map_def wf_ncn_instruction_def tag_decoders
        role_codec.dec_enc wf_pair_def)
next
  fix bs r x
  assume a: "dec_ncn_instruction bs = Some (x, r)"
  then obtain tag t where bs: "bs = tag # t" by (cases bs) (auto simp: dec_ncn_instruction_def)
  show "wf_ncn_instruction x \<and> bs = enc_ncn_instruction x @ r"
    using a unfolding bs dec_ncn_instruction_def dec_map_def wf_ncn_instruction_def
    by (simp split: if_splits option.splits prod.splits)
      (auto dest!: tag_canonical role_codec.dec_canonical simp: wf_pair_def)
qed

subsection \<open>Dispatch\<close>

text \<open>The account list, as each instruction reads it, and what an instruction changes.\<close>

record ncn_accounts =
  nx_initialize_config :: "(config pod_account \<times> raw_account \<times> account_info \<times> account_info \<times>
    account_info \<times> account_info \<times> account_info) option"
  nx_initialize_vault_registry :: "(config pod_account \<times> vault_registry pod_account \<times> raw_account \<times>
    account_info \<times> account_info) option"
  nx_register_vault :: "(config pod_account \<times> vault_registry pod_account \<times> raw_account \<times> raw_account \<times>
    raw_account) option"
  nx_register_operator :: "(config pod_account \<times> ncn_operator_account pod_account \<times> raw_account \<times>
    raw_account \<times> account_info \<times> raw_account \<times> snapshot pod_account \<times> raw_account \<times> account_info \<times>
    account_info) option"
  nx_update_keys :: "(config pod_account \<times> ncn_operator_account pod_account \<times> raw_account \<times> raw_account \<times>
    account_info \<times> snapshot pod_account) option"
  nx_remove_operator :: "(config pod_account \<times> raw_account \<times> raw_account \<times> account_info \<times>
    snapshot pod_account) option"
  nx_update_ip_port :: "(config pod_account \<times> ncn_operator_account pod_account \<times> raw_account \<times>
    raw_account \<times> account_info) option"
  nx_initialize_snapshot :: "(raw_account \<times> snapshot pod_account \<times> account_info \<times> account_info) option"
  nx_realloc_snapshot :: "(raw_account \<times> config pod_account \<times> snapshot pod_account \<times> account_info \<times>
    account_info) option"
  nx_snapshot_delegation :: "(config pod_account \<times> raw_account \<times> raw_account \<times> raw_account \<times> raw_account \<times>
    raw_account \<times> raw_account \<times> raw_account \<times> raw_account \<times> snapshot pod_account \<times>
    vault_registry pod_account) option"
  nx_verify_certificate :: "(config pod_account \<times> raw_account \<times> snapshot pod_account \<times> raw_account) option"
  nx_set_parameters :: "(config pod_account \<times> raw_account \<times> account_info) option"
  nx_set_new_admin :: "(config pod_account \<times> raw_account \<times> account_info \<times> account_info) option"
  nx_register_st_mint :: "(config pod_account \<times> raw_account \<times> raw_account \<times> vault_registry pod_account \<times>
    account_info) option"

datatype ncn_effect =
    NX_config "config pod_account"
  | NX_new_config "config pod_account" account_info
  | NX_registry "vault_registry pod_account"
  | NX_new_registry "vault_registry pod_account" account_info
  | NX_operator "ncn_operator_account pod_account" "snapshot pod_account" account_info
  | NX_keys "ncn_operator_account pod_account" "snapshot pod_account"
  | NX_operator_account "ncn_operator_account pod_account"
  | NX_snapshot "snapshot pod_account"
  | NX_new_snapshot "snapshot pod_account" account_info
  | NX_none

definition map_ok :: "('a \<Rightarrow> 'b) \<Rightarrow> 'e + 'a \<Rightarrow> 'e + 'b" where
  "map_ok f m = try_bind m (\<lambda>x. Inr (f x))"

fun run_ncn_instruction ::
  "runtime \<Rightarrow> jito \<Rightarrow> 'p precise_ops \<Rightarrow> syscalls \<Rightarrow> pubkey \<Rightarrow> ncn_accounts \<Rightarrow> ncn_instruction \<Rightarrow>
   program_error + ncn_effect" where
  "run_ncn_instruction R J P S pid A (InitializeConfig epochs_before_stall epochs_after_consensus_before_close
       valid_slots_after_consensus minimum_stake fee_bps) =
     map_ok (\<lambda>(c, p). NX_new_config c p)
       (process_admin_initialize_config R J P pid (nx_initialize_config A) epochs_before_stall
         epochs_after_consensus_before_close valid_slots_after_consensus minimum_stake fee_bps)"
| "run_ncn_instruction R J P S pid A InitializeVaultRegistry =
     map_ok (\<lambda>(r, p). NX_new_registry r p) (process_initialize_vault_registry R J pid (nx_initialize_vault_registry A))"
| "run_ncn_instruction R J P S pid A RegisterVault =
     map_ok NX_registry (process_register_vault R J pid (nx_register_vault A))"
| "run_ncn_instruction R J P S pid A (RegisterOperator g1_pubkey g2_pubkey signature) =
     map_ok (\<lambda>(a, s, p). NX_operator a s p)
       (process_register_operator R J S pid (nx_register_operator A) g1_pubkey g2_pubkey signature 0 0)"
| "run_ncn_instruction R J P S pid A (UpdateOperatorBN128Keys g1_pubkey g2_pubkey signature) =
     map_ok (\<lambda>(a, s). NX_keys a s)
       (process_update_operator_bn128_keys R J S pid (nx_update_keys A) g1_pubkey g2_pubkey signature)"
| "run_ncn_instruction R J P S pid A RemoveOperator =
     map_ok NX_snapshot (process_remove_operator R J S pid (nx_remove_operator A))"
| "run_ncn_instruction R J P S pid A (UpdateOperatorIpPort ip_address port) =
     map_ok NX_operator_account (process_update_operator_ip_port R J pid (nx_update_ip_port A) ip_address port)"
| "run_ncn_instruction R J P S pid A InitializeSnapshot =
     map_ok (\<lambda>(s, p). NX_new_snapshot s p) (process_initialize_snapshot R J pid (nx_initialize_snapshot A))"
| "run_ncn_instruction R J P S pid A ReallocSnapshot =
     map_ok (\<lambda>(s, p). NX_new_snapshot s p) (process_realloc_snapshot R J pid (nx_realloc_snapshot A))"
| "run_ncn_instruction R J P S pid A SnapshotVaultOperatorDelegation =
     map_ok NX_snapshot (process_snapshot_vault_operator_delegation R J P pid (nx_snapshot_delegation A))"
| "run_ncn_instruction R J P S pid A (VerifyCertificate digest aggregated_g2 aggregated_signature
       operators_signature_bitmap expected_generation) =
     map_ok (\<lambda>_. NX_none)
       (process_verify_certificate R J S pid (nx_verify_certificate A) digest aggregated_g2
         aggregated_signature operators_signature_bitmap expected_generation)"
| "run_ncn_instruction R J P S pid A (AdminSetParameters starting_valid_epoch epochs_before_stall
       epochs_after_consensus_before_close valid_slots_after_consensus minimum_stake consensus_threshold_bps) =
     map_ok NX_config
       (process_admin_set_parameters R J pid (nx_set_parameters A) starting_valid_epoch epochs_before_stall
         epochs_after_consensus_before_close minimum_stake valid_slots_after_consensus consensus_threshold_bps)"
| "run_ncn_instruction R J P S pid A (AdminSetNewAdmin role) =
     map_ok NX_config (process_admin_set_new_admin R J pid (nx_set_new_admin A) role)"
| "run_ncn_instruction R J P S pid A (AdminRegisterStMint weight_bps) =
     map_ok NX_registry (process_admin_register_st_mint R J pid (nx_register_st_mint A) weight_bps)"

definition ncn_process_instruction ::
  "runtime \<Rightarrow> jito \<Rightarrow> 'p precise_ops \<Rightarrow> syscalls \<Rightarrow> pubkey \<Rightarrow> ncn_accounts \<Rightarrow> bytes \<Rightarrow>
   program_error + ncn_effect" where
  "ncn_process_instruction R J P S program_id accounts instruction_data =
     (if program_id \<noteq> NCN_PROGRAM_ID then Inl PE_IncorrectProgramId
      else
        try_bind (try_from_slice dec_ncn_instruction instruction_data) (\<lambda>instruction.
        run_ncn_instruction R J P S program_id accounts instruction))"

text \<open>
  C11: The program runs exactly the encoded instructions: a call succeeds exactly if it is for
  this program, its data is the byte form of one of the fourteen instructions, and that
  instruction's handler succeeds; its effect is the handler's.  In particular truncated data,
  trailing bytes, and tags from 14 on change nothing.
\<close>

theorem entrypoint_runs_encoded_instructions:
  "ncn_process_instruction R J P S program_id accounts data = Inr effect \<longleftrightarrow>
     program_id = NCN_PROGRAM_ID \<and>
     (\<exists>ix. wf_ncn_instruction ix \<and> data = enc_ncn_instruction ix \<and>
        run_ncn_instruction R J P S program_id accounts ix = Inr effect)"
  by (auto simp: ncn_process_instruction_def ncn_codec.try_from_slice_iff)

end
