(* ===== verification/Snapshot_History.thy ===== *)
theory Snapshot_History
  imports Operator_Handlers
begin

text \<open>
  The snapshot over sequences of instructions: the aggregate key is the sum of the live
  operators' keys, the generation counts the changes of the operator set, and both together make
  a certificate valid only for the operator set it was made for.
\<close>

subsection \<open>The instructions on a snapshot\<close>

text \<open>Recording a delegation: find the operator's entry, update it, write it back.\<close>

definition snapshot_delegate ::
  "pubkey \<Rightarrow> u64 \<Rightarrow> u64 \<Rightarrow> stake_weights \<Rightarrow> stake_weights \<Rightarrow> snapshot \<Rightarrow> program_error + snapshot" where
  "snapshot_delegate operator slot registry_slot w nw s =
     try_bind (lift_ncn (ok_or OperatorIsNotInSnapshot (find_operator_snapshot s operator))) (\<lambda>e.
     try_bind (lift_ncn (os_snapshot_delegation e slot registry_slot w nw (ss_minimum_stake s))) (\<lambda>e.
     try_bind (update_operator_snapshot s (unat (os_ncn_operator_index e)) e) (\<lambda>s.
     Inr (set_last_snapshot_slot s slot))))"

datatype snapshot_op =
    SO_register pubkey u64 bool u64 u64 bytes32
  | SO_rotate bytes32 pubkey
  | SO_remove pubkey
  | SO_delegate pubkey u64 u64 stake_weights stake_weights

definition snapshot_step :: "syscalls \<Rightarrow> snapshot_op \<Rightarrow> snapshot \<Rightarrow> program_error + snapshot" where
  "snapshot_step S op s = (case op of
     SO_register operator slot is_active i j g1 \<Rightarrow> snapshot_register S operator slot is_active i j g1 s
   | SO_rotate g1 operator \<Rightarrow> update_g1_operator_pubkey S s g1 operator
   | SO_remove operator \<Rightarrow> try_bind (remove_operator_snapshot S s operator) (\<lambda>(s, i). Inr s)
   | SO_delegate operator slot k w nw \<Rightarrow> snapshot_delegate operator slot k w nw s)"

text \<open>The handlers perform these steps.\<close>

lemma register_operator_handler:
  assumes "process_register_operator R J S pid (Some (config, noa, ncn, operator, admin, st, snap, rc, payer, sys))
      g1 g2 sg ip port = Inr (noa', snap', payer')"
  shows "\<exists>slot i j s. clock_slot R = Inr slot \<and> i < of_nat MAX_OPERATORS \<and>
      snapshot_step S (SO_register (key_of operator) slot True i j g1) (body snap) = Inr s \<and>
      snap' = set_body s snap"
    "register_operator_proof S (key_of ncn) (key_of operator) g1 g2 sg = Inr ()"
    "\<exists>v. jt_operator J (ac_data operator) = Inr v \<and> ov_admin v = ai_key admin \<and> ai_is_signer admin"
    "rt_load_system_account R (ac_info noa) (pd_len (ac_data noa)) True = Inr ()"
    "key_of noa = fst (ncn_operator_account_find R pid (key_of ncn) (key_of operator))"
  using assms
  by (auto simp: process_register_operator_def snapshot_step_def Let_def
      split: if_splits prod.splits dest!: snapshot_views_Inr) (metis linorder_not_le)

lemma update_keys_handler:
  assumes "process_update_operator_bn128_keys R J S pid (Some (config, noa, ncn, operator, admin, snap))
      g1 g2 sg = Inr (noa', snap')"
  shows "\<exists>s. snapshot_step S (SO_rotate g1 (key_of operator)) (body snap) = Inr s \<and> snap' = set_body s snap"
    "update_keys_proof S (key_of ncn) (key_of operator) g1 g2 sg = Inr ()"
    "\<exists>v. jt_operator J (ac_data operator) = Inr v \<and> ov_admin v = ai_key admin \<and> ai_is_signer admin"
    "no_operator_pubkey (body noa) = key_of operator" "no_ncn (body noa) = key_of ncn"
    "\<exists>a slot. update_keys S (body noa) g1 g2 slot = Inr a \<and> clock_slot R = Inr slot \<and> noa' = set_body a noa"
  using assms
  by (auto simp: process_update_operator_bn128_keys_def snapshot_step_def operator_account_matches_def
      split: if_splits dest!: snapshot_views_Inr)

text \<open>The proof of possession reads the new key as a point of the curve.\<close>

lemma update_keys_proof_point:
  "update_keys_proof S n p g1 g2 sg = Inr u \<Longrightarrow> sc_g1_decompress S g1 \<noteq> None"
  by (auto simp: update_keys_proof_def g1_decompress_def)

lemma remove_operator_handler:
  assumes "process_remove_operator R J S pid (Some (config, ncn, operator, admin, snap)) = Inr snap'"
  shows "\<exists>s. snapshot_step S (SO_remove (key_of operator)) (body snap) = Inr s \<and> snap' = set_body s snap"
    "\<exists>v u. rt_load_signer R admin False = Inr () \<and> jt_ncn J (ac_data ncn) = Inr v \<and>
       jt_operator J (ac_data operator) = Inr u \<and> (ai_key admin = nv_admin v \<or> ai_key admin = ov_admin u)"
  using assms
  by (fastforce simp: process_remove_operator_def snapshot_step_def split: if_splits dest!: snapshot_views_Inr)+

lemma delegation_handler:
  assumes "process_snapshot_vault_operator_delegation R J P pid (Some (config, rc, ncn, operator, vault, vnt,
      nvt, nos, vod, snap, reg)) = Inr snap'"
  shows "\<exists>slot k wt act w nw s. clock_slot R = Inr slot \<and>
    get_vault_registry_slot (body reg) (key_of vault) = Inr k \<and>
    get_vault_weight_bps (body reg) (key_of vault) = Inr wt \<and>
    weighted_stakes J P vod act wt = Inr (w, nw) \<and>
    snapshot_step S (SO_delegate (key_of operator) slot (of_nat k) (sw_new w) (sw_new nw)) (body snap) = Inr s \<and>
    snap' = set_body s snap"
proof -
  from assms obtain slot k wt act w nw e e' s where "clock_slot R = Inr slot"
    "get_vault_registry_slot (body reg) (key_of vault) = Inr k"
    "get_vault_weight_bps (body reg) (key_of vault) = Inr wt"
    "weighted_stakes J P vod act wt = Inr (w, nw)"
    "find_operator_snapshot (body snap) (key_of operator) = Some e"
    "os_snapshot_delegation e slot (of_nat k) (sw_new w) (sw_new nw) (ss_minimum_stake (body snap)) = Inr e'"
    "update_operator_snapshot (body snap) (unat (os_ncn_operator_index e')) e' = Inr s"
    "snap' = set_body (set_last_snapshot_slot s slot) snap"
    by (auto simp: process_snapshot_vault_operator_delegation_def Let_def split: if_splits prod.splits
        dest!: snapshot_views_Inr views_Inr)
  moreover from this have "snapshot_step S (SO_delegate (key_of operator) slot (of_nat k) (sw_new w) (sw_new nw))
      (body snap) = Inr (set_last_snapshot_slot s slot)"
    by (simp add: snapshot_step_def snapshot_delegate_def)
  ultimately show ?thesis by blast
qed

subsection \<open>The generation\<close>

text \<open>The instructions that change the operator set or a key.\<close>

definition changes_keys :: "snapshot_op \<Rightarrow> bool" where
  "changes_keys op = (case op of SO_delegate operator slot k w nw \<Rightarrow> False | _ \<Rightarrow> True)"

lemma bump_generation_Inr:
  "bump_generation s = Inr t \<longleftrightarrow>
     (\<exists>g. unat g = Suc (unat (ss_generation s)) \<and> t = s\<lparr>ss_generation := g\<rparr>)"
  by (auto simp: bump_generation_def checked_add_Some)

lemma increment_registration_Inr:
  "increment_operator_registration s slot = Inr t \<longleftrightarrow>
     (\<exists>n. unat n = Suc (unat (ss_operators_registered s)) \<and>
        t = s\<lparr>ss_operators_registered := n, ss_last_snapshot_slot := slot\<rparr>)"
  by (auto simp: increment_operator_registration_def checked_add_Some)

lemma add_g1_frame:
  "add_g1_pubkey_to_total_agg S s g = Inr t \<Longrightarrow> \<exists>a. t = s\<lparr>ss_total_aggregated_g1_pubkey := a\<rparr>"
  by (auto simp: add_g1_pubkey_to_total_agg_def split: if_splits)

lemma subtract_g1_frame:
  "subtract_g1_pubkey_from_total_agg S s g = Inr t \<Longrightarrow> \<exists>a. t = s\<lparr>ss_total_aggregated_g1_pubkey := a\<rparr>"
  by (auto simp: subtract_g1_pubkey_from_total_agg_def)

lemma modify_frame:
  "ss_generation (modify_operator_snapshot s p f) = ss_generation s"
  "ss_operators_registered (modify_operator_snapshot s p f) = ss_operators_registered s"
  "ss_minimum_stake (modify_operator_snapshot s p f) = ss_minimum_stake s"
  "ss_ncn (modify_operator_snapshot s p f) = ss_ncn s"
  "length (ss_operator_snapshots (modify_operator_snapshot s p f)) = length (ss_operator_snapshots s)"
  by (simp_all add: modify_operator_snapshot_def split: option.splits)

text \<open>What each step leaves alone.\<close>

lemma snapshot_step_frame:
  assumes "snapshot_step S op s = Inr t"
  shows "ss_ncn t = ss_ncn s \<and> ss_minimum_stake t = ss_minimum_stake s \<and>
    length (ss_operator_snapshots t) = length (ss_operator_snapshots s) \<and>
    unat (ss_generation t) = unat (ss_generation s) + (if changes_keys op then 1 else 0) \<and>
    unat (ss_operators_registered s) \<le> unat (ss_operators_registered t)"
proof (cases op)
  case (SO_register p slot act i j g)
  with assms show ?thesis
    by (auto simp: snapshot_step_def snapshot_register_def add_operator_snapshot_def Let_def
        register_operator_g1_pubkey_def changes_keys_def increment_registration_Inr
        bump_generation_Inr dest!: add_g1_frame split: if_splits)
next
  case (SO_rotate g p)
  with assms show ?thesis
    by (auto simp: snapshot_step_def update_g1_operator_pubkey_def changes_keys_def Let_def
        bump_generation_Inr modify_frame dest!: add_g1_frame subtract_g1_frame
        split: if_splits option.splits)
next
  case (SO_remove p)
  with assms show ?thesis
    by (auto simp: snapshot_step_def remove_operator_snapshot_def changes_keys_def Let_def
        bump_generation_Inr dest!: subtract_g1_frame split: if_splits)
next
  case (SO_delegate p slot k w nw)
  with assms show ?thesis
    by (auto simp: snapshot_step_def snapshot_delegate_def update_operator_snapshot_def
        set_last_snapshot_slot_def changes_keys_def split: if_splits)
qed

interpretation key_changes: exact_counter "snapshot_step S" changes_keys "\<lambda>_. True"
  "\<lambda>s. unat (ss_generation s)" for S
  by unfold_locales (auto dest: snapshot_step_frame)

interpretation snapshot_changes: monotone_counter "snapshot_step S" "\<lambda>_. True" "\<lambda>_. True"
  "\<lambda>s. unat (ss_generation s)" for S
  by unfold_locales (auto dest: snapshot_step_frame)

interpretation snapshot_minimum: transactional "snapshot_step S" "\<lambda>_. True"
  "\<lambda>s. ss_minimum_stake s = m \<and> ss_ncn s = n" for S m n
  by unfold_locales (auto dest: snapshot_step_frame)

text \<open>
  The generation of a snapshot counts exactly the successful registrations, removals and key
  rotations.
\<close>

theorem generation_counts_changes:
  assumes "list_all changes_keys ops"
  shows "unat (ss_generation (run_all (snapshot_step S) ops s)) =
    unat (ss_generation s) + length (accepted (snapshot_step S) ops s)"
  by (rule key_changes.run_exact [OF TrueI assms])

text \<open>
  C6: A certificate made for the present operator set is rejected for ever once an operator was
  registered or removed or rotated its key, whatever happens afterwards.
\<close>

theorem stale_certificate_rejected:
  assumes "changes_keys op" "snapshot_step S op s = Inr t"
  shows "verify_certificate S (run_all (snapshot_step S) ops t) bps window len slot digest g2 sg bm
    (ss_generation s) \<noteq> Inr ()"
proof
  let ?t = "run_all (snapshot_step S) ops t"
  assume "verify_certificate S ?t bps window len slot digest g2 sg bm (ss_generation s) = Inr ()"
  then have "ss_generation ?t = ss_generation s"
    by (auto simp: certificate_conditions_def Let_def dest: verify_certificate_conditions)
  moreover have "unat (ss_generation t) = Suc (unat (ss_generation s))"
    using snapshot_step_frame [OF assms(2)] assms(1) by simp
  moreover have "unat (ss_generation t) \<le> unat (ss_generation ?t)"
    using snapshot_changes.run_count [where s = t and ops = ops and S = S] by simp
  ultimately show False by simp
qed

text \<open>
  The minimum stake of a snapshot is the one the configuration had when the snapshot was
  initialised: no instruction on the snapshot changes it, so a later \<open>AdminSetParameters\<close> has no
  effect on which operators may sign.
\<close>

theorem snapshot_minimum_stake_fixed:
  "ss_minimum_stake (run_all (snapshot_step S) ops (snapshot_initialize s n b slot m)) = m \<and>
   ss_ncn (run_all (snapshot_step S) ops (snapshot_initialize s n b slot m)) = n"
  using snapshot_minimum.run_inv [of "snapshot_initialize s n b slot m" m n ops S]
  by (simp add: snapshot_initialize_def)

subsection \<open>The aggregate key\<close>

text \<open>
  Every live entry stands at its index and has well-formed contributions, and there are at most
  as many as registrations.
\<close>

definition live_slots :: "snapshot \<Rightarrow> nat set" where
  "live_slots s = {i. i < MAX_OPERATORS \<and> entry_live (ss_operator_snapshots s ! i)}"

definition shape_inv :: "snapshot \<Rightarrow> bool" where
  "shape_inv s \<longleftrightarrow> length (ss_operator_snapshots s) = MAX_OPERATORS \<and>
     (\<forall>i < MAX_OPERATORS. entry_live (ss_operator_snapshots s ! i) \<longrightarrow>
        unat (os_ncn_operator_index (ss_operator_snapshots s ! i)) = i \<and>
        entry_ok (ss_operator_snapshots s ! i)) \<and>
     card (live_slots s) \<le> unat (ss_operators_registered s)"

text \<open>The exponents of the keys by slot: that of the entry's key, or 0 for an empty slot.\<close>

definition slot_keys :: "syscalls \<Rightarrow> bls_group \<Rightarrow> snapshot \<Rightarrow> (nat \<Rightarrow> nat) \<Rightarrow> bool" where
  "slot_keys S G s ks \<longleftrightarrow> (\<forall>i < MAX_OPERATORS.
     if entry_live (ss_operator_snapshots s ! i)
     then sc_g1_decompress S (os_g1_pubkey (ss_operator_snapshots s ! i)) = Some (bg_e1 G (ks i))
     else ks i = 0)"

definition apk_is :: "syscalls \<Rightarrow> bls_group \<Rightarrow> snapshot \<Rightarrow> nat \<Rightarrow> bool" where
  "apk_is S G s a \<longleftrightarrow> sc_g1_decompress S (ss_total_aggregated_g1_pubkey s) = Some (bg_e1 G a)"

definition apk_inv :: "syscalls \<Rightarrow> bls_group \<Rightarrow> snapshot \<Rightarrow> bool" where
  "apk_inv S G s \<longleftrightarrow> shape_inv s \<and>
     (\<exists>ks. slot_keys S G s ks \<and> apk_is S G s (\<Sum>i < MAX_OPERATORS. ks i))"

lemma sum_fun_upd:
  assumes "i < (n :: nat)"
  shows "(\<Sum>j < n. (f(i := v)) j) + f i = (\<Sum>j < n. f j) + (v :: nat)"
proof -
  have "(\<Sum>j < n. (f(i := v)) j) = v + (\<Sum>j \<in> {..<n} - {i}. (f(i := v)) j)"
    using assms by (subst sum.remove [of _ i]) auto
  also have "(\<Sum>j \<in> {..<n} - {i}. (f(i := v)) j) = (\<Sum>j \<in> {..<n} - {i}. f j)"
    by (rule sum.cong) auto
  finally show ?thesis
    using assms sum.remove [of "{..<n}" i f] by simp
qed

lemma apk_cong:
  "bls_laws S G \<Longrightarrow> a mod bg_order G = b mod bg_order G \<Longrightarrow> apk_is S G s a \<Longrightarrow> apk_is S G s b"
  by (simp add: apk_is_def bls_e1_eq [symmetric])

lemma apk_add:
  assumes L: "bls_laws S G" and add: "add_g1_pubkey_to_total_agg S s g = Inr t" and a: "apk_is S G s a"
  obtains k where "sc_g1_decompress S g = Some (bg_e1 G k)" "apk_is S G t (a + k)"
proof -
  from add obtain p where "sc_g1_decompress S g = Some p" by (auto simp: add_g1_pubkey_to_total_agg_def)
  with bls_decompressD [OF L] obtain k where k: "sc_g1_decompress S g = Some (bg_e1 G k)" by blast
  have "apk_is S G t (a + k)"
  proof (cases "ss_total_aggregated_g1_pubkey s = 0")
    case True
    then have "bg_e1 G a = bg_e1 G 0"
      using a bls_decompress [OF L, of 0] by (simp add: apk_is_def bls_zero [OF L])
    then have "bg_e1 G (a + k) = bg_e1 G k"
      using mod_cancel [of a k "bg_order G" 0] by (simp add: bls_e1_eq [OF L])
    with True add k show ?thesis by (auto simp: add_g1_pubkey_to_total_agg_def apk_is_def)
  next
    case False
    with add k a show ?thesis
      by (auto simp: add_g1_pubkey_to_total_agg_def apk_is_def g1_decompress_def g1_compress_def
          bls_add [OF L] bls_compress [OF L] bls_decompress [OF L])
  qed
  with k show ?thesis by (rule that)
qed

lemma apk_subtract:
  assumes L: "bls_laws S G" and sub: "subtract_g1_pubkey_from_total_agg S s g = Inr t"
    and a: "apk_is S G s (a + k)" and k: "sc_g1_decompress S g = Some (bg_e1 G k)"
  shows "apk_is S G t a"
proof -
  from sub a k have "apk_is S G t (a + k + bls_neg G k)"
    by (auto simp: subtract_g1_pubkey_from_total_agg_def apk_is_def g1_decompress_def g1_compress_def
        bls_negate [OF L] bls_add [OF L] bls_compress [OF L] bls_decompress [OF L])
  moreover have "(a + k + bls_neg G k) mod bg_order G = a mod bg_order G"
    using bls_neg_cancel [OF L, of k] mod_add_right_eq [of a "k + bls_neg G k" "bg_order G"]
    by (simp add: add.assoc)
  ultimately show ?thesis by (rule apk_cong [OF L, rotated])
qed

lemma shape_update:
  assumes inv: "shape_inv s" and i: "i < MAX_OPERATORS"
    and t: "ss_operator_snapshots t = (ss_operator_snapshots s)[i := e]"
    and e: "entry_live e \<Longrightarrow> unat (os_ncn_operator_index e) = i \<and> entry_ok e"
    and reg: "unat (ss_operators_registered t) =
      unat (ss_operators_registered s) + (if entry_live e \<and> i \<notin> live_slots s then 1 else 0)"
  shows "shape_inv t"
proof -
  have len: "length (ss_operator_snapshots s) = MAX_OPERATORS" using inv by (simp add: shape_inv_def)
  have "live_slots t = (if entry_live e then insert i (live_slots s) else live_slots s - {i})"
    using i len by (auto simp: live_slots_def t nth_list_update)
  moreover have "finite (live_slots s)" by (simp add: live_slots_def)
  ultimately have "card (live_slots t) \<le> unat (ss_operators_registered t)"
    using inv reg by (auto simp: shape_inv_def card_insert_if card_Diff_singleton_if split: if_splits)
  then show ?thesis
    using inv i e len by (auto simp: shape_inv_def t nth_list_update)
qed

lemma slot_keys_update:
  assumes "slot_keys S G s ks" "shape_inv s" "i < MAX_OPERATORS"
    and "ss_operator_snapshots t = (ss_operator_snapshots s)[i := e]"
    and "if entry_live e then sc_g1_decompress S (os_g1_pubkey e) = Some (bg_e1 G v) else v = 0"
  shows "slot_keys S G t (ks(i := v))"
  using assms by (auto simp: slot_keys_def shape_inv_def nth_list_update)

lemma find_entry:
  assumes "shape_inv s" "find_operator_snapshot s p = Some e"
  obtains i where "position (is_entry_of p) (ss_operator_snapshots s) = Some i" "i < MAX_OPERATORS"
    "e = ss_operator_snapshots s ! i" "entry_live e" "os_operator e = p"
    "unat (os_ncn_operator_index e) = i" "entry_ok e" "i \<in> live_slots s"
proof -
  from assms(2) obtain i where i: "position (is_entry_of p) (ss_operator_snapshots s) = Some i"
    "e = ss_operator_snapshots s ! i"
    by (auto simp: find_operator_snapshot_def find_position)
  with position_SomeD [OF i(1)] assms(1) have "i < MAX_OPERATORS" "entry_live e" "os_operator e = p"
    by (auto simp: shape_inv_def is_entry_of_def)
  with i assms(1) show ?thesis by (intro that) (auto simp: shape_inv_def live_slots_def)
qed

lemma add_operator_Inr:
  assumes "add_operator_snapshot s e slot = Inr t"
  shows "os_ncn_operator_index e < of_nat MAX_OPERATORS"
    "\<not> entry_live (ss_operator_snapshots s ! unat (os_ncn_operator_index e))"
    "ss_operator_snapshots t = (ss_operator_snapshots s)[unat (os_ncn_operator_index e) := e]"
    "unat (ss_operators_registered t) = Suc (unat (ss_operators_registered s))"
    "ss_total_aggregated_g1_pubkey t = ss_total_aggregated_g1_pubkey s"
    "ss_last_snapshot_slot t = slot"
  using assms
  by (auto simp: add_operator_snapshot_def Let_def increment_registration_Inr bump_generation_Inr not_le
      split: if_splits)

lemma remove_operator_Inr:
  assumes "remove_operator_snapshot S s p = Inr (t, n)" "find_operator_snapshot s p = Some e"
  shows "\<exists>s1. (if os_g1_pubkey e \<noteq> 0 then subtract_g1_pubkey_from_total_agg S s (os_g1_pubkey e) else Inr s) = Inr s1 \<and>
    ss_operator_snapshots t =
      (ss_operator_snapshots s1)[unat (os_ncn_operator_index e) := operator_snapshot_default] \<and>
    ss_operators_registered t = ss_operators_registered s1 \<and>
    ss_total_aggregated_g1_pubkey t = ss_total_aggregated_g1_pubkey s1"
  using assms
  by (cases "if os_g1_pubkey e \<noteq> 0 then subtract_g1_pubkey_from_total_agg S s (os_g1_pubkey e) else Inr s")
    (auto simp: remove_operator_snapshot_def Let_def bump_generation_Inr split: if_splits)

lemma register_apk_inv:
  assumes L: "bls_laws S G" and inv: "apk_inv S G s" and reg: "snapshot_register S p slot act i j g s = Inr t"
  shows "apk_inv S G t"
proof -
  from inv obtain ks where ks: "slot_keys S G s ks" "apk_is S G s (\<Sum>i < MAX_OPERATORS. ks i)"
    and shape: "shape_inv s" by (auto simp: apk_inv_def)
  from reg obtain e s3 where new: "operator_snapshot_new p slot act i j g = Inr e"
    and s3': "add_operator_snapshot s e slot = Inr s3" and add: "add_g1_pubkey_to_total_agg S s3 g = Inr t"
    by (auto simp: snapshot_register_def register_operator_g1_pubkey_def)
  have e: "os_ncn_operator_index e = i" "os_g1_pubkey e = g"
    using new by (auto simp: operator_snapshot_new_def)
  note s3 = add_operator_Inr [OF s3', unfolded e] and i = add_operator_Inr(1,2) [OF s3', unfolded e]
  have n: "unat i < MAX_OPERATORS" using i(1) by (simp add: MAX_OPERATORS_def word_less_nat_alt)
  have "i \<noteq> u64_max" using i(1) by (auto simp: MAX_OPERATORS_def)
  then have live: "entry_live e" by (simp add: e)
  have t: "ss_operator_snapshots t = (ss_operator_snapshots s)[unat i := e]"
    "ss_operators_registered t = ss_operators_registered s3"
    using add_g1_frame [OF add] s3(3) by auto
  have fresh: "unat i \<notin> live_slots s" "ks (unat i) = 0"
    using i(2) n ks(1) by (auto simp: live_slots_def slot_keys_def)
  have shape': "shape_inv t"
    using entry_ok_new(1) [OF new] e live fresh s3(4) t
    by (intro shape_update [OF shape n t(1)]) simp_all
  have "apk_is S G s3 (\<Sum>i < MAX_OPERATORS. ks i)" using ks(2) s3(5) by (simp add: apk_is_def)
  from apk_add [OF L add this] obtain k where k: "sc_g1_decompress S g = Some (bg_e1 G k)"
    "apk_is S G t ((\<Sum>i < MAX_OPERATORS. ks i) + k)" .
  have "slot_keys S G t (ks(unat i := k))"
    using slot_keys_update [OF ks(1) shape n t(1)] live k e by simp
  moreover have "(\<Sum>j < MAX_OPERATORS. (ks(unat i := k)) j) = (\<Sum>i < MAX_OPERATORS. ks i) + k"
    using sum_fun_upd [OF n, of ks k] fresh by simp
  ultimately show ?thesis using shape' k by (auto simp: apk_inv_def)
qed

lemma remove_apk_inv:
  assumes L: "bls_laws S G" and inv: "apk_inv S G s" and rem: "remove_operator_snapshot S s p = Inr (t, n)"
  shows "apk_inv S G t"
proof -
  from inv obtain ks where ks: "slot_keys S G s ks" "apk_is S G s (\<Sum>i < MAX_OPERATORS. ks i)"
    and shape: "shape_inv s" by (auto simp: apk_inv_def)
  from rem obtain e where "find_operator_snapshot s p = Some e" by (auto simp: remove_operator_snapshot_def)
  then have f: "find_operator_snapshot s p = Some e" .
  obtain i where i: "i < MAX_OPERATORS" "e = ss_operator_snapshots s ! i" "entry_live e"
    "unat (os_ncn_operator_index e) = i"
    by (rule find_entry [OF shape f]) rule
  obtain s1 where s1: "(if os_g1_pubkey e \<noteq> 0 then subtract_g1_pubkey_from_total_agg S s (os_g1_pubkey e)
      else Inr s) = Inr s1"
    and t: "ss_operator_snapshots t = (ss_operator_snapshots s1)[i := operator_snapshot_default]"
      "ss_operators_registered t = ss_operators_registered s1"
      "ss_total_aggregated_g1_pubkey t = ss_total_aggregated_g1_pubkey s1"
    using remove_operator_Inr [OF rem f, unfolded i(4)] by (elim exE conjE) rule
  have frame: "ss_operator_snapshots s1 = ss_operator_snapshots s"
    "ss_operators_registered s1 = ss_operators_registered s"
    using s1 subtract_g1_frame [of S s "os_g1_pubkey e" s1] by (auto split: if_splits)
  note t' = t(1) [unfolded frame] t(2) [unfolded frame] t(3)
  have dead: "\<not> entry_live operator_snapshot_default" by (simp add: operator_snapshot_default_def)
  have shape': "shape_inv t"
    by (rule shape_update [OF shape i(1) t'(1)]) (simp_all add: dead t'(2))
  have k: "sc_g1_decompress S (os_g1_pubkey e) = Some (bg_e1 G (ks i))"
    using ks(1) i by (auto simp: slot_keys_def)
  let ?rest = "\<Sum>j < MAX_OPERATORS. (ks(i := 0)) j"
  have sum: "(\<Sum>j < MAX_OPERATORS. ks j) = ?rest + ks i"
    using sum_fun_upd [OF i(1), of ks 0] by simp
  have "apk_is S G s1 ?rest"
  proof (cases "os_g1_pubkey e = 0")
    case True
    then have "bg_e1 G (ks i) = bg_e1 G 0"
      using k bls_decompress [OF L, of 0] by (simp add: bls_zero [OF L])
    then have "(?rest + ks i) mod bg_order G = ?rest mod bg_order G"
      by (simp add: bls_e1_eq [OF L] mod_add_right_eq [symmetric])
    then show ?thesis
      using apk_cong [OF L _ ks(2)] s1 True sum by simp
  next
    case False
    then show ?thesis using apk_subtract [OF L _ _ k] s1 ks(2) sum by simp
  qed
  then have "apk_is S G t ?rest" by (simp add: apk_is_def t')
  moreover have "slot_keys S G t (ks(i := 0))"
    using slot_keys_update [OF ks(1) shape i(1) t'(1)] dead by simp
  ultimately show ?thesis using shape' by (auto simp: apk_inv_def)
qed

lemma modify_entry:
  "position (is_entry_of p) (ss_operator_snapshots s) = Some i \<Longrightarrow>
     ss_operator_snapshots (modify_operator_snapshot s p f) =
       (ss_operator_snapshots s)[i := f (ss_operator_snapshots s ! i)] \<and>
     ss_total_aggregated_g1_pubkey (modify_operator_snapshot s p f) = ss_total_aggregated_g1_pubkey s"
  by (simp add: modify_operator_snapshot_def)

lemma entry_ok_key [simp]: "entry_ok (update_g1_pubkey e g) \<longleftrightarrow> entry_ok e"
  by (simp add: entry_ok_def update_g1_pubkey_def)

text \<open>The new aggregate after a rotation, by the number of registrations.\<close>

lemma rotate_Inr:
  assumes rot: "update_g1_operator_pubkey S s g p = Inr t"
    and f: "find_operator_snapshot s p = Some e"
    and pos: "position (is_entry_of p) (ss_operator_snapshots s) = Some i"
  shows "ss_operator_snapshots t = (ss_operator_snapshots s)[i := update_g1_pubkey (ss_operator_snapshots s ! i) g] \<and>
    ss_operators_registered t = ss_operators_registered s \<and>
    (if ss_operators_registered s = 1 then ss_total_aggregated_g1_pubkey t = g
     else \<exists>s1 s2. subtract_g1_pubkey_from_total_agg S s (os_g1_pubkey e) = Inr s1 \<and>
       ss_total_aggregated_g1_pubkey s2 = ss_total_aggregated_g1_pubkey s1 \<and>
       (\<exists>s3. add_g1_pubkey_to_total_agg S s2 g = Inr s3 \<and>
         ss_total_aggregated_g1_pubkey t = ss_total_aggregated_g1_pubkey s3))"
proof (cases "ss_operators_registered s = 1")
  case True
  with rot show ?thesis
    using modify_entry [of p "s\<lparr>ss_total_aggregated_g1_pubkey := g\<rparr>" i] pos
    by (auto simp: update_g1_operator_pubkey_def Let_def bump_generation_Inr modify_frame)
next
  case False
  with rot f obtain s1 s3 where sub: "subtract_g1_pubkey_from_total_agg S s (os_g1_pubkey e) = Inr s1"
    and add: "add_g1_pubkey_to_total_agg S (modify_operator_snapshot s1 p (\<lambda>e. update_g1_pubkey e g)) g = Inr s3"
    and t: "bump_generation s3 = Inr t"
    by (auto simp: update_g1_operator_pubkey_def Let_def split: if_splits)
  have s1: "ss_operator_snapshots s1 = ss_operator_snapshots s"
    "ss_operators_registered s1 = ss_operators_registered s"
    using subtract_g1_frame [OF sub] by auto
  note m = modify_entry [of p s1 i "\<lambda>e. update_g1_pubkey e g", unfolded s1, OF pos]
  have "ss_operator_snapshots s3 = ss_operator_snapshots (modify_operator_snapshot s1 p (\<lambda>e. update_g1_pubkey e g))"
    "ss_operators_registered s3 = ss_operators_registered s1"
    using add_g1_frame [OF add] by (auto simp: modify_frame)
  then show ?thesis
    using False sub add t m s1 by (auto simp: bump_generation_Inr)
qed

lemma rotate_apk_inv:
  assumes L: "bls_laws S G" and inv: "apk_inv S G s" and rot: "update_g1_operator_pubkey S s g p = Inr t"
    and present: "find_operator_snapshot s p = Some e" and g: "sc_g1_decompress S g = Some q"
  shows "apk_inv S G t"
proof -
  from inv obtain ks where ks: "slot_keys S G s ks" "apk_is S G s (\<Sum>i < MAX_OPERATORS. ks i)"
    and shape: "shape_inv s" by (auto simp: apk_inv_def)
  obtain i where pos: "position (is_entry_of p) (ss_operator_snapshots s) = Some i"
    and i: "i < MAX_OPERATORS" "e = ss_operator_snapshots s ! i" "entry_live e"
      "unat (os_ncn_operator_index e) = i" "entry_ok e" "i \<in> live_slots s"
    by (rule find_entry [OF shape present]) rule
  note r = rotate_Inr [OF rot present pos]
  let ?e = "update_g1_pubkey e g"
  have e: "entry_live ?e" "os_g1_pubkey ?e = g" "os_ncn_operator_index ?e = os_ncn_operator_index e"
    using i(3) by (simp_all add: update_g1_pubkey_def)
  have t: "ss_operator_snapshots t = (ss_operator_snapshots s)[i := ?e]"
    "ss_operators_registered t = ss_operators_registered s" using r i(2) by simp_all
  have shape': "shape_inv t"
    by (rule shape_update [OF shape i(1) t(1)]) (simp_all add: e i(3-6) t(2))
  obtain k where k: "sc_g1_decompress S g = Some (bg_e1 G k)"
    using bls_decompressD [OF L g] g by metis
  have ki: "sc_g1_decompress S (os_g1_pubkey e) = Some (bg_e1 G (ks i))"
    using ks(1) i by (auto simp: slot_keys_def)
  let ?rest = "\<Sum>j < MAX_OPERATORS. (ks(i := 0)) j"
  have sum: "(\<Sum>j < MAX_OPERATORS. ks j) = ?rest + ks i"
    using sum_fun_upd [OF i(1), of ks 0] by simp
  have sum': "(\<Sum>j < MAX_OPERATORS. (ks(i := k)) j) = ?rest + k"
    using sum_fun_upd [OF i(1), of ks k] sum by simp
  have "apk_is S G t (?rest + k)"
  proof (cases "ss_operators_registered s = 1")
    case True
    then have "card (live_slots s) \<le> 1" using shape by (simp add: shape_inv_def)
    then have "live_slots s = {i}"
      using i(6) by (intro equalityI subsetI) (auto simp: card_le_Suc0_iff_eq live_slots_def)
    then have "ks j = 0" if "j < MAX_OPERATORS" "j \<noteq> i" for j
      using ks(1) that by (auto simp: slot_keys_def live_slots_def)
    then have "?rest = 0" by simp
    with True r k show ?thesis by (simp add: apk_is_def)
  next
    case False
    with r obtain s1 s2 s3 where sub: "subtract_g1_pubkey_from_total_agg S s (os_g1_pubkey e) = Inr s1"
      and s2: "ss_total_aggregated_g1_pubkey s2 = ss_total_aggregated_g1_pubkey s1"
      and add: "add_g1_pubkey_to_total_agg S s2 g = Inr s3"
      and t3: "ss_total_aggregated_g1_pubkey t = ss_total_aggregated_g1_pubkey s3" by auto
    have "apk_is S G s2 ?rest"
      using apk_subtract [OF L sub _ ki] ks(2) sum s2 by (simp add: apk_is_def)
    from apk_add [OF L add this] obtain k' where k': "sc_g1_decompress S g = Some (bg_e1 G k')"
      "apk_is S G s3 (?rest + k')" .
    have "k' mod bg_order G = k mod bg_order G" using k k' by (simp add: bls_e1_eq [OF L])
    then have "(?rest + k') mod bg_order G = (?rest + k) mod bg_order G"
      using mod_cancel [of k' ?rest "bg_order G" k] by (simp add: add.commute)
    from apk_cong [OF L this k'(2)] t3 show ?thesis by (simp add: apk_is_def)
  qed
  moreover have "slot_keys S G t (ks(i := k))"
    using slot_keys_update [OF ks(1) shape i(1) t(1)] e k by simp
  ultimately show ?thesis using shape' sum' by (auto simp: apk_inv_def)
qed

lemma delegation_entry_frame:
  assumes "os_snapshot_delegation e slot k w nw minimum = Inr e'"
  shows "os_ncn_operator_index e' = os_ncn_operator_index e \<and> os_g1_pubkey e' = os_g1_pubkey e \<and>
    os_operator e' = os_operator e \<and> os_last_snapshot_slot e' = slot"
  using assms by (auto simp: os_snapshot_delegation_def split: if_splits)

lemma delegate_apk_inv:
  assumes inv: "apk_inv S G s" and del: "snapshot_delegate p slot k w nw s = Inr t"
  shows "apk_inv S G t"
proof -
  from inv obtain ks where ks: "slot_keys S G s ks" "apk_is S G s (\<Sum>i < MAX_OPERATORS. ks i)"
    and shape: "shape_inv s" by (auto simp: apk_inv_def)
  from del obtain e e' where f: "find_operator_snapshot s p = Some e"
    and e': "os_snapshot_delegation e slot k w nw (ss_minimum_stake s) = Inr e'"
    and t: "ss_operator_snapshots t = (ss_operator_snapshots s)[unat (os_ncn_operator_index e') := e']"
      "ss_operators_registered t = ss_operators_registered s"
      "ss_total_aggregated_g1_pubkey t = ss_total_aggregated_g1_pubkey s"
    by (auto simp: snapshot_delegate_def update_operator_snapshot_def set_last_snapshot_slot_def split: if_splits)
  obtain i where i: "i < MAX_OPERATORS" "e = ss_operator_snapshots s ! i" "entry_live e"
    "unat (os_ncn_operator_index e) = i" "entry_ok e" "i \<in> live_slots s"
    by (rule find_entry [OF shape f]) rule
  note frame = delegation_entry_frame [OF e']
  have t1: "ss_operator_snapshots t = (ss_operator_snapshots s)[i := e']" using t(1) frame i(4) by simp
  have shape': "shape_inv t"
    by (rule shape_update [OF shape i(1) t1]) (simp_all add: frame i(3-6) t(2) os_snapshot_delegation_step(1) [OF i(5) e'])
  have "sc_g1_decompress S (os_g1_pubkey e) = Some (bg_e1 G (ks i))"
    using ks(1) i by (auto simp: slot_keys_def)
  then have "slot_keys S G t (ks(i := ks i))"
    using slot_keys_update [OF ks(1) shape i(1) t1, of "ks i"] frame i(3) by simp
  then have "slot_keys S G t ks" by simp
  moreover have "apk_is S G t (\<Sum>i < MAX_OPERATORS. ks i)" using ks(2) t(3) by (simp add: apk_is_def)
  ultimately show ?thesis using shape' by (auto simp: apk_inv_def)
qed

subsection \<open>Reachable snapshots\<close>

text \<open>
  A rotation keeps the aggregate the sum of the keys when the new key is a point of the curve, which
  the handler has checked, and it is not stray: the branch for a single registration replaces the
  aggregate without looking the operator up.
\<close>

definition rotates_to_point :: "syscalls \<Rightarrow> snapshot_op \<Rightarrow> bool" where
  "rotates_to_point S op = (case op of SO_rotate g p \<Rightarrow> sc_g1_decompress S g \<noteq> None | _ \<Rightarrow> True)"

definition stray_rotation :: "snapshot_op \<Rightarrow> snapshot \<Rightarrow> bool" where
  "stray_rotation op s = (case op of
     SO_rotate g p \<Rightarrow> ss_operators_registered s = 1 \<and> find_operator_snapshot s p = None
   | _ \<Rightarrow> False)"

lemma rotate_absent_apk_inv:
  assumes inv: "apk_inv S G s" and rot: "update_g1_operator_pubkey S s g p = Inr t"
    and absent: "find_operator_snapshot s p = None" "ss_operators_registered s \<noteq> 1"
  shows "apk_inv S G t"
proof -
  have t: "ss_operator_snapshots t = ss_operator_snapshots s"
    "ss_operators_registered t = ss_operators_registered s"
    "ss_total_aggregated_g1_pubkey t = ss_total_aggregated_g1_pubkey s"
    using rot absent by (auto simp: update_g1_operator_pubkey_def Let_def bump_generation_Inr split: if_splits)
  then have "shape_inv t = shape_inv s" "slot_keys S G t = slot_keys S G s" "apk_is S G t = apk_is S G s"
    by (simp_all add: fun_eq_iff shape_inv_def live_slots_def slot_keys_def apk_is_def)
  with inv show ?thesis by (simp add: apk_inv_def)
qed

lemma initial_apk_inv:
  assumes L: "bls_laws S G"
  shows "apk_inv S G (snapshot_initialize s ncn bump slot minimum)"
proof -
  let ?s = "snapshot_initialize s ncn bump slot minimum"
  have dead: "\<not> entry_live (ss_operator_snapshots ?s ! i)" if "i < MAX_OPERATORS" for i
    using that by (simp add: snapshot_initialize_def operator_snapshot_default_def)
  have "live_slots ?s = {}" using dead by (auto simp: live_slots_def)
  then have "shape_inv ?s" using dead by (simp add: shape_inv_def) (simp add: snapshot_initialize_def)
  moreover have "slot_keys S G ?s (\<lambda>_. 0)" using dead by (simp add: slot_keys_def)
  moreover have "apk_is S G ?s 0"
    using bls_decompress [OF L, of 0] by (simp add: apk_is_def snapshot_initialize_def bls_zero [OF L])
  ultimately show ?thesis by (auto simp: apk_inv_def intro!: exI [of _ "\<lambda>_. 0"])
qed

lemma apk_inv_step:
  assumes L: "bls_laws S G" and inv: "apk_inv S G s" and step: "snapshot_step S op s = Inr t"
    and clean: "rotates_to_point S op" "\<not> stray_rotation op s"
  shows "apk_inv S G t"
proof (cases op)
  case (SO_rotate g p)
  then have rot: "update_g1_operator_pubkey S s g p = Inr t" using step by (simp add: snapshot_step_def)
  show ?thesis
  proof (cases "find_operator_snapshot s p")
    case None
    with SO_rotate clean(2) show ?thesis
      by (intro rotate_absent_apk_inv [OF inv rot None]) (simp add: stray_rotation_def)
  next
    case (Some e)
    from SO_rotate clean(1) obtain q where "sc_g1_decompress S g = Some q" by (auto simp: rotates_to_point_def)
    from rotate_apk_inv [OF L inv rot Some this] show ?thesis .
  qed
qed (use step in \<open>auto simp: snapshot_step_def intro: register_apk_inv [OF L inv] remove_apk_inv [OF L inv]
  delegate_apk_inv [OF inv]\<close>)

interpretation aggregate: guarded_step "snapshot_step S"
  "\<lambda>op u. rotates_to_point S op \<and> \<not> stray_rotation op u" "\<lambda>s. bls_laws S G \<and> apk_inv S G s" for S G
  by unfold_locales (auto intro: apk_inv_step)

text \<open>
  A history from the initialised snapshot: \<open>ops\<close> in order, the refused ones without effect, with the
  condition on its accepted rotations.
\<close>

abbreviation clean_history :: "syscalls \<Rightarrow> snapshot_op list \<Rightarrow> snapshot \<Rightarrow> bool" where
  "clean_history S \<equiv> guarded_run (snapshot_step S) (\<lambda>op u. rotates_to_point S op \<and> \<not> stray_rotation op u)"

lemma history_apk_inv:
  assumes "bls_laws S G" "clean_history S ops (snapshot_initialize s0 ncn bump slot minimum)"
  shows "apk_inv S G (run_all (snapshot_step S) ops (snapshot_initialize s0 ncn bump slot minimum))"
  using aggregate.run_guarded [OF _ assms(2), of G] assms(1) initial_apk_inv by blast

text \<open>
  C5: After any history of registrations, removals, key rotations and delegations from the
  initialised snapshot the aggregate key is the sum of the keys of the operators in the snapshot, if
  every accepted rotation went to a point of the curve, as the handler checks, and none was made by
  an operator without an entry while the registration count was one.  That one case is not excluded
  by the handlers and breaks the sum (C38).
\<close>

theorem aggregate_is_sum_of_keys:
  assumes L: "bls_laws S G"
    and clean: "guarded_run (snapshot_step S) (\<lambda>op u. rotates_to_point S op \<and> \<not> stray_rotation op u) ops
      (snapshot_initialize s0 ncn bump slot minimum)"
    and s: "s = run_all (snapshot_step S) ops (snapshot_initialize s0 ncn bump slot minimum)"
  shows "\<exists>ks. slot_keys S G s ks \<and>
    sc_g1_decompress S (ss_total_aggregated_g1_pubkey s) = Some (bg_e1 G (\<Sum>i < 256. ks i))"
  using history_apk_inv [OF L clean] by (auto simp: s apk_inv_def apk_is_def MAX_OPERATORS_def)

text \<open>Every live entry is among the registered ones, and no operator has two.\<close>

definition dense :: "snapshot \<Rightarrow> bool" where
  "dense s \<longleftrightarrow> (\<forall>i < MAX_OPERATORS. entry_live (ss_operator_snapshots s ! i) \<longrightarrow>
     i < unat (ss_operators_registered s)) \<and>
   keyed entry_live os_operator (ss_operator_snapshots s)"

lemma dense_certificate_keys:
  assumes inv: "apk_inv S G s" and dense: "dense s"
  obtains key where
    "entry_keys S G key (take (unat (ss_operators_registered s)) (ss_operator_snapshots s))"
    "sc_g1_decompress S (ss_total_aggregated_g1_pubkey s) = Some (bg_e1 G
       (live_keys key (take (unat (ss_operators_registered s)) (ss_operator_snapshots s))))"
proof -
  let ?es = "ss_operator_snapshots s" and ?n = "unat (ss_operators_registered s)"
  from inv obtain ks where ks: "slot_keys S G s ks" "apk_is S G s (\<Sum>i < MAX_OPERATORS. ks i)"
    and shape: "shape_inv s" by (auto simp: apk_inv_def)
  have len: "length ?es = MAX_OPERATORS" using shape by (simp add: shape_inv_def)
  define key where "key p = (case position (\<lambda>e. entry_live e \<and> os_operator e = p) ?es of
      Some i \<Rightarrow> ks i | None \<Rightarrow> 0)" for p
  have K: "keyed entry_live os_operator ?es" using dense by (simp add: dense_def)
  have pos: "position (\<lambda>e. entry_live e \<and> os_operator e = os_operator (?es ! i)) ?es = Some i"
    if "i < MAX_OPERATORS" "entry_live (?es ! i)" for i
  proof (rule position_first)
    show "\<forall>j < i. \<not> (entry_live (?es ! j) \<and> os_operator (?es ! j) = os_operator (?es ! i))"
    proof (intro allI impI notI)
      fix j
      assume j: "j < i" "entry_live (?es ! j) \<and> os_operator (?es ! j) = os_operator (?es ! i)"
      then have "j = i" using K [unfolded keyed_def, rule_format, of j i] that len by simp
      with j show False by simp
    qed
  qed (use that len in simp_all)
  have key: "key (os_operator (?es ! i)) = ks i" if "i < MAX_OPERATORS" "entry_live (?es ! i)" for i
    using pos [OF that] by (simp add: key_def)
  have keys: "entry_keys S G key (take ?n ?es)"
    using ks(1) key len
    by (auto simp: entry_keys_def slot_keys_def in_set_conv_nth)
  have zero: "ks i = 0" if "i < MAX_OPERATORS" "\<not> i < ?n" for i
  proof -
    have "\<not> entry_live (?es ! i)" using dense that unfolding dense_def by blast
    with ks(1) that(1) show ?thesis by (auto simp: slot_keys_def)
  qed
  have "live_keys key (take ?n ?es) = (\<Sum>j < length (take ?n ?es). ks j)"
    unfolding live_keys_def
    by (rule sum.cong) (use ks(1) key len in \<open>auto simp: slot_keys_def\<close>)
  also have "\<dots> = (\<Sum>j < MAX_OPERATORS. ks j)"
    by (rule sum.mono_neutral_left) (use zero len in auto)
  finally have "sc_g1_decompress S (ss_total_aggregated_g1_pubkey s) =
      Some (bg_e1 G (live_keys key (take ?n ?es)))"
    using ks(2) by (simp add: apk_is_def)
  with keys show ?thesis by (rule that)
qed

text \<open>The entries' points determine the sum of the keys up to the group order.\<close>

lemma live_keys_unique:
  assumes L: "bls_laws S G" and keys: "entry_keys S G key es" "entry_keys S G key' es"
  shows "bg_e1 G (live_keys key es) = bg_e1 G (live_keys key' es)"
proof -
  let ?r = "bg_order G"
  let ?k = "\<lambda>key j. if entry_live (es ! j) then key (os_operator (es ! j)) else 0"
  have "?k key j mod ?r = ?k key' j mod ?r" if "j < length es" for j
    using keys that by (auto simp: entry_keys_def bls_e1_eq [OF L, symmetric])
  then have "(\<Sum>j < length es. ?k key j mod ?r) = (\<Sum>j < length es. ?k key' j mod ?r)"
    by (intro sum.cong) auto
  then have "(\<Sum>j < length es. ?k key j mod ?r) mod ?r = (\<Sum>j < length es. ?k key' j mod ?r) mod ?r"
    by (rule arg_cong)
  then have "live_keys key es mod ?r = live_keys key' es mod ?r"
    unfolding live_keys_def mod_sum_eq .
  then show ?thesis by (simp add: bls_e1_eq [OF L])
qed

lemma history_aggregate:
  assumes L: "bls_laws S G" and inv: "apk_inv S G snap" and d: "dense snap"
    and keys: "entry_keys S G key (take (unat (ss_operators_registered snap)) (ss_operator_snapshots snap))"
  shows "sc_g1_decompress S (ss_total_aggregated_g1_pubkey snap) =
    Some (bg_e1 G (live_keys key (take (unat (ss_operators_registered snap)) (ss_operator_snapshots snap))))"
proof -
  obtain key' where key': "entry_keys S G key' (take (unat (ss_operators_registered snap)) (ss_operator_snapshots snap))"
    "sc_g1_decompress S (ss_total_aggregated_g1_pubkey snap) = Some (bg_e1 G
       (live_keys key' (take (unat (ss_operators_registered snap)) (ss_operator_snapshots snap))))"
    by (rule dense_certificate_keys [OF inv d])
  with live_keys_unique [OF L keys key'(1)] show ?thesis by simp
qed

text \<open>
  C4: Take the snapshot after any history without stray rotations (as in C5) in which every live
  entry stands among the first \<open>operators_registered\<close> ones and no operator has two.  Its operators
  have secrets in the exponent, and for any such secrets and any certificate whose G2 key and
  signature are points of the groups, the certificate verifies exactly if the stake conditions hold,
  the aggregate is not the identity's encoding and the combined equation holds at its challenge; with
  the signers' own G2 key that is: the signature is the hash times the sum of the signers' secrets.
\<close>

theorem reachable_certificate_iff:
  assumes L: "bls_laws S G"
    and clean: "guarded_run (snapshot_step S) (\<lambda>op u. rotates_to_point S op \<and> \<not> stray_rotation op u) ops
      (snapshot_initialize s0 ncn bump sl minimum)"
    and snap: "snap = run_all (snapshot_step S) ops (snapshot_initialize s0 ncn bump sl minimum)"
    and d: "dense snap"
    and h: "try_hash_to_curve S (MessageDigest digest) = Inr (G1Point (bg_e1 G h))"
    and g2: "sc_g2_decompress S g2 = Some (bg_e2 G x)"
    and sig: "sc_g1_decompress S sg = Some (bg_e1 G s)"
    and es: "es = take (unat (ss_operators_registered snap)) (ss_operator_snapshots snap)"
  shows "(\<exists>key. entry_keys S G key es) \<and>
    (\<forall>key. entry_keys S G key es \<longrightarrow>
      (let b = signer_keys key bm 0 es
       in (verify_certificate S snap bps window len slot digest g2 sg bm gen = Inr () \<longleftrightarrow>
           certificate_conditions snap bps window len slot bm gen \<and> ss_total_aggregated_g1_pubkey snap \<noteq> 0 \<and>
           combined_equation G h b x s (challenge S G digest b x s)) \<and>
          (x mod bg_order G = b mod bg_order G \<longrightarrow>
            (combined_equation G h b x s (challenge S G digest b x s) \<longleftrightarrow> bg_e1 G s = bg_e1 G (h * b)))))"
proof -
  have inv: "apk_inv S G snap" unfolding snap by (rule history_apk_inv [OF L clean])
  have "\<exists>key. entry_keys S G key es"
    unfolding es using dense_certificate_keys [OF inv d] by blast
  moreover have "verify_certificate S snap bps window len slot digest g2 sg bm gen = Inr () \<longleftrightarrow>
      certificate_conditions snap bps window len slot bm gen \<and> ss_total_aggregated_g1_pubkey snap \<noteq> 0 \<and>
      combined_equation G h (signer_keys key bm 0 es) x s (challenge S G digest (signer_keys key bm 0 es) x s)"
    if "entry_keys S G key es" for key
    using verify_certificate_any_key [OF L h _ _ refl g2 sig, of key snap] history_aggregate [OF L inv d] that
    by (simp add: es)
  ultimately show ?thesis
    using combined_equation_honest [OF L] by (simp add: Let_def)
qed

subsection \<open>What the guards leave open\<close>

text \<open>
  C38: While one registration has ever been made, a key rotation by an operator that is not in
  the snapshot any more replaces the aggregate by its key although no entry has that key.
\<close>

theorem removed_operator_overwrites_aggregate:
  assumes "ss_operators_registered s = 1" "find_operator_snapshot s p = None"
    "update_g1_operator_pubkey S s g p = Inr t"
  shows "ss_total_aggregated_g1_pubkey t = g \<and> ss_operator_snapshots t = ss_operator_snapshots s"
proof -
  have "position (is_entry_of p) (ss_operator_snapshots s) = None"
    using assms(2) by (simp add: find_operator_snapshot_def find_position)
  then show ?thesis
    using assms(1,3) by (auto simp: update_g1_operator_pubkey_def Let_def modify_operator_snapshot_def
        bump_generation_Inr)
qed

text \<open>
  C39: With all 256 operators registered no operator can rotate its key: the count test is
  \<open>count < MAX_OPERATORS\<close>, and the count never decreases.
\<close>

theorem full_set_cannot_rotate:
  assumes "256 \<le> unat (ss_operators_registered s)"
  shows "update_g1_operator_pubkey S (run_all (snapshot_step S) ops s) g p = Inl (from_ncn InvalidOperatorCount)"
proof -
  let ?s = "run_all (snapshot_step S) ops s"
  have "256 \<le> unat (ss_operators_registered ?s)"
    using assms
  proof (induction ops arbitrary: s)
    case Nil
    then show ?case by simp
  next
    case (Cons a ops)
    then show ?case
      using snapshot_step_frame [of S a s] by (cases "snapshot_step S a s") (auto intro: Cons.IH)
  qed
  then have "ss_operators_registered ?s \<noteq> 0" "ss_operators_registered ?s \<noteq> 1"
    "\<not> ss_operators_registered ?s < 256" by (auto simp: word_less_nat_alt)
  then show ?thesis by (simp add: update_g1_operator_pubkey_def Let_def MAX_OPERATORS_def)
qed

text \<open>Nobody stands at index 0 while one operator is registered.\<close>

definition is_registration :: "snapshot_op \<Rightarrow> bool" where
  "is_registration op = (case op of SO_register p slot act i j g \<Rightarrow> True | _ \<Rightarrow> False)"

definition first_slot_empty :: "snapshot \<Rightarrow> bool" where
  "first_slot_empty s \<longleftrightarrow> ss_operators_registered s = 1 \<and> ss_operator_snapshots s \<noteq> [] \<and>
     \<not> entry_live (ss_operator_snapshots s ! 0) \<and>
     (\<forall>e \<in> set (ss_operator_snapshots s). entry_live e \<longrightarrow> os_ncn_operator_index e \<noteq> 0)"

lemma first_slot_update:
  assumes "first_slot_empty s" "ss_operators_registered t = ss_operators_registered s"
    "ss_operator_snapshots t = (ss_operator_snapshots s)[i := e]" "0 < i"
    "entry_live e \<Longrightarrow> os_ncn_operator_index e \<noteq> 0"
  shows "first_slot_empty t"
proof -
  have "set (ss_operator_snapshots t) \<subseteq> insert e (set (ss_operator_snapshots s))"
    by (simp add: assms(3) set_update_subset_insert)
  then show ?thesis using assms by (auto simp: first_slot_empty_def)
qed

lemma found_behind_first_slot:
  assumes "first_slot_empty s" "find_operator_snapshot s p = Some e"
  obtains i where "position (is_entry_of p) (ss_operator_snapshots s) = Some i" "0 < i"
    "e = ss_operator_snapshots s ! i" "0 < unat (os_ncn_operator_index e)"
proof -
  from assms(2) obtain i where i: "position (is_entry_of p) (ss_operator_snapshots s) = Some i"
    "e = ss_operator_snapshots s ! i"
    by (auto simp: find_operator_snapshot_def find_position)
  note p = position_SomeD [OF i(1)]
  then have live: "entry_live e" using i(2) by (simp add: is_entry_of_def)
  with assms(1) p i(2) have "os_ncn_operator_index e \<noteq> 0" by (auto simp: first_slot_empty_def)
  moreover have "0 < i" using live assms(1) i(2) by (cases i) (auto simp: first_slot_empty_def)
  ultimately show ?thesis using i by (intro that) (auto simp: unat_gt_0)
qed

lemma first_slot_step:
  assumes inv: "first_slot_empty s" and op: "\<not> is_registration op" and step: "snapshot_step S op s = Inr t"
  shows "first_slot_empty t"
proof (cases op)
  case (SO_register p slot act i j g)
  with op show ?thesis by (simp add: is_registration_def)
next
  case (SO_rotate g p)
  then have rot: "update_g1_operator_pubkey S s g p = Inr t" using step by (simp add: snapshot_step_def)
  show ?thesis
  proof (cases "find_operator_snapshot s p")
    case None
    then have "position (is_entry_of p) (ss_operator_snapshots s) = None"
      by (simp add: find_operator_snapshot_def find_position)
    with rot inv show ?thesis
      by (auto simp: update_g1_operator_pubkey_def Let_def modify_operator_snapshot_def bump_generation_Inr
          first_slot_empty_def)
  next
    case (Some e)
    obtain i where i: "position (is_entry_of p) (ss_operator_snapshots s) = Some i" "0 < i"
      "e = ss_operator_snapshots s ! i" "0 < unat (os_ncn_operator_index e)"
      by (rule found_behind_first_slot [OF inv Some])
    from rotate_Inr [OF rot Some i(1)] i show ?thesis
      by (intro first_slot_update [OF inv, of t i "update_g1_pubkey e g"])
        (auto simp: update_g1_pubkey_def unat_gt_0)
  qed
next
  case (SO_remove p)
  with step obtain n where rem: "remove_operator_snapshot S s p = Inr (t, n)"
    by (auto simp: snapshot_step_def split: prod.splits)
  then obtain e where f: "find_operator_snapshot s p = Some e" by (auto simp: remove_operator_snapshot_def)
  have "0 < unat (os_ncn_operator_index e)"
    by (rule found_behind_first_slot [OF inv f])
  moreover have "ss_operator_snapshots t =
      (ss_operator_snapshots s)[unat (os_ncn_operator_index e) := operator_snapshot_default]"
    "ss_operators_registered t = ss_operators_registered s"
    using remove_operator_Inr [OF rem f] subtract_g1_frame [of S s "os_g1_pubkey e"] by (auto split: if_splits)
  moreover have "\<not> entry_live operator_snapshot_default" by (simp add: operator_snapshot_default_def)
  ultimately show ?thesis
    by (intro first_slot_update [OF inv, of t _ operator_snapshot_default]) simp_all
next
  case (SO_delegate p slot k w nw)
  with step obtain e e' where f: "find_operator_snapshot s p = Some e"
    and e': "os_snapshot_delegation e slot k w nw (ss_minimum_stake s) = Inr e'"
    and t: "ss_operator_snapshots t = (ss_operator_snapshots s)[unat (os_ncn_operator_index e') := e']"
      "ss_operators_registered t = ss_operators_registered s"
    by (auto simp: snapshot_step_def snapshot_delegate_def update_operator_snapshot_def
        set_last_snapshot_slot_def split: if_splits)
  have "0 < unat (os_ncn_operator_index e)"
    by (rule found_behind_first_slot [OF inv f])
  then show ?thesis
    using t delegation_entry_frame [OF e'] by (intro first_slot_update [OF inv t(2,1)]) (auto simp: unat_gt_0)
qed

interpretation first_slot: transactional "snapshot_step S" "\<lambda>op. \<not> is_registration op" first_slot_empty for S
  by unfold_locales (rule first_slot_step)

lemma first_slot_never_verifies:
  assumes "first_slot_empty s"
  shows "verify_certificate S s bps window len cur digest g2 sg bm gen \<noteq> Inr ()"
proof
  assume "verify_certificate S s bps window len cur digest g2 sg bm gen = Inr ()"
  then have live: "0 < live_total (cur div len) len (take (unat (ss_operators_registered s)) (ss_operator_snapshots s))"
    by (auto simp: certificate_conditions_def Let_def dest: verify_certificate_conditions)
  obtain e es where "ss_operator_snapshots s = e # es" "\<not> entry_live e" "ss_operators_registered s = 1"
    using assms by (cases "ss_operator_snapshots s") (auto simp: first_slot_empty_def)
  with live show False by simp
qed

text \<open>
  C40: If the first operator registers with an index other than 0, no certificate verifies until
  another operator registers, whatever is delegated to it, whoever signs and whatever else happens to
  the snapshot: certificates are checked against the first \<open>operators_registered\<close> entries, and its
  entry is behind them.
\<close>

theorem sparse_index_never_verifies:
  assumes reg: "snapshot_step S (SO_register p slot act i j g) (snapshot_initialize s0 ncn b sl m) = Inr t"
    and i: "i \<noteq> 0" and later: "list_all (\<lambda>op. \<not> is_registration op) ops"
  shows "verify_certificate S (run_all (snapshot_step S) ops t) bps window len cur digest g2 sg bm gen \<noteq> Inr ()"
proof -
  let ?s = "snapshot_initialize s0 ncn b sl m"
  from reg obtain e t' where e: "operator_snapshot_new p slot act i j g = Inr e"
    and t': "add_operator_snapshot ?s e slot = Inr t'" and t: "add_g1_pubkey_to_total_agg S t' g = Inr t"
    by (auto simp: snapshot_step_def snapshot_register_def register_operator_g1_pubkey_def)
  have idx: "os_ncn_operator_index e = i" using e by (auto simp: operator_snapshot_new_def)
  have "unat (ss_operators_registered t') = 1"
    using add_operator_Inr(4) [OF t'] by (simp add: snapshot_initialize_def)
  then have "ss_operators_registered t' = 1" by (simp add: word_1_iff)
  moreover have "ss_operator_snapshots t' = (replicate 256 operator_snapshot_default)[unat i := e]"
    using add_operator_Inr(3) [OF t'] idx by (simp add: snapshot_initialize_def MAX_OPERATORS_def)
  moreover have "0 < unat i" using i by (simp add: unat_gt_0)
  moreover have "set ((replicate 256 operator_snapshot_default)[unat i := e]) \<subseteq> {e, operator_snapshot_default}"
    using set_update_subset_insert [of "replicate 256 operator_snapshot_default" "unat i" e] by auto
  ultimately have "first_slot_empty t"
    using add_g1_frame [OF t] idx i by (auto simp: first_slot_empty_def operator_snapshot_default_def)
  from first_slot.run_inv [OF this later] show ?thesis by (rule first_slot_never_verifies)
qed

subsection \<open>A concrete history\<close>

definition history_0 :: snapshot where
  "history_0 = snapshot_initialize sample_snapshot 1 255 50 (sw_new 100)"

definition history_entry :: operator_snapshot where
  "history_entry = operator_snapshot_default\<lparr>os_operator := 11, os_g1_pubkey := 1, os_slot_created := 50,
     os_is_active := True, os_ncn_operator_index := 0, os_operator_index := 3\<rparr>"

definition history_1 :: snapshot where
  "history_1 = history_0\<lparr>ss_operators_registered := 1, ss_last_snapshot_slot := 50, ss_generation := 1,
     ss_total_aggregated_g1_pubkey := 1,
     ss_operator_snapshots := history_entry # replicate 255 operator_snapshot_default\<rparr>"

definition history_2 :: snapshot where
  "history_2 = history_1\<lparr>ss_generation := 2, ss_total_aggregated_g1_pubkey := 0,
     ss_operator_snapshots := replicate 256 operator_snapshot_default\<rparr>"

definition history_3 :: snapshot where
  "history_3 = history_2\<lparr>ss_generation := 3, ss_total_aggregated_g1_pubkey := 2\<rparr>"

lemma history_1: "snapshot_step tri_syscalls (SO_register 11 50 True 0 3 1) history_0 = Inr history_1"
  by (simp add: snapshot_step_def snapshot_register_def operator_snapshot_new_def add_operator_snapshot_def
      history_0_def history_1_def history_entry_def snapshot_initialize_def increment_operator_registration_def
      bump_generation_def checked_add_def register_operator_g1_pubkey_def add_g1_pubkey_to_total_agg_def
      sample_point MAX_OPERATORS_def replicate_update_0 operator_snapshot_default_def)

lemma history_find: "find_operator_snapshot history_1 11 = Some history_entry"
  by (simp add: find_operator_snapshot_def history_1_def is_entry_of_def history_entry_def)

lemma history_subtract:
  "subtract_g1_pubkey_from_total_agg tri_syscalls history_1 1 =
     Inr (history_1\<lparr>ss_total_aggregated_g1_pubkey := 0\<rparr>)"
proof -
  have p: "sc_g1_decompress tri_syscalls 1 = Some (bg_e1 tri_group 1)" by (rule sample_point)
  have zero: "bg_c1 tri_group (1 + bls_neg tri_group 1) = 0"
    by (simp add: tri_group_def bls_neg_def)
  show ?thesis
    by (simp add: subtract_g1_pubkey_from_total_agg_def g1_decompress_def g1_compress_def p
        bls_negate [OF tri_laws] bls_add [OF tri_laws] bls_compress [OF tri_laws] zero del: One_nat_def)
      (simp add: history_1_def g1_decompress_def p bls_negate [OF tri_laws] bls_add [OF tri_laws]
        bls_compress [OF tri_laws] zero del: One_nat_def)
qed

lemma replicate_256: "x # replicate 255 x = replicate 256 x"
  using replicate_Suc [of 255 x] by simp

lemma history_2: "snapshot_step tri_syscalls (SO_remove 11) history_1 = Inr history_2"
proof -
  have "os_ncn_operator_index history_entry = 0" "os_g1_pubkey history_entry = 1"
    by (simp_all add: history_entry_def)
  then show ?thesis
    using history_subtract
    by (simp add: snapshot_step_def remove_operator_snapshot_def history_find Let_def)
      (simp add: history_1_def history_2_def bump_generation_def checked_add_def replicate_256)
qed

lemma history_absent: "find_operator_snapshot history_2 11 = None"
  by (simp add: find_operator_snapshot_def history_2_def is_entry_of_def operator_snapshot_default_def
      find_position)

lemma history_3: "update_g1_operator_pubkey tri_syscalls history_2 2 11 = Inr history_3"
proof -
  have "position (is_entry_of 11) (ss_operator_snapshots history_2) = None"
    using history_absent by (simp add: find_operator_snapshot_def find_position)
  then show ?thesis
    by (simp add: update_g1_operator_pubkey_def modify_operator_snapshot_def bump_generation_def
        checked_add_def history_2_def history_1_def history_3_def)
qed

lemma history_run: "run_all (snapshot_step tri_syscalls) [SO_register 11 50 True 0 3 1] history_0 = history_1"
  by (simp add: history_1)

lemma history_clean: "clean_history S [SO_register p slot act i j g] s"
  by (simp add: rotates_to_point_def stray_rotation_def split: sum.split)

lemma history_dense: "dense history_1"
proof -
  have "\<not> entry_live operator_snapshot_default" by (simp add: operator_snapshot_default_def)
  then show ?thesis
    by (auto simp: dense_def keyed_def history_1_def nth_Cons MAX_OPERATORS_def split: nat.splits)
qed

theorem generation_counts_changes_witness:
  "unat (ss_generation (run_all (snapshot_step tri_syscalls)
     [SO_register 11 50 True 0 3 1, SO_remove 11, SO_remove 11] history_0)) = 2"
proof -
  have "snapshot_step tri_syscalls (SO_remove 11) history_2 = Inl (from_ncn OperatorIsNotInSnapshot)"
    by (simp add: snapshot_step_def remove_operator_snapshot_def history_absent)
  with generation_counts_changes [of "[SO_register 11 50 True 0 3 1, SO_remove 11, SO_remove 11]"
      tri_syscalls history_0]
  show ?thesis
    by (simp add: changes_keys_def history_1 history_2)
      (simp add: history_0_def history_2_def snapshot_initialize_def)
qed

theorem stale_certificate_rejected_witness:
  "verify_certificate tri_syscalls (run_all (snapshot_step tri_syscalls) [SO_remove 11] history_1)
     5000 10 100 50 9 1 1 [1] 0 \<noteq> Inr ()"
  using stale_certificate_rejected [OF _ history_1, of "[SO_remove 11]" 5000 10 100 50 9 1 1 "[1]"]
  by (simp add: changes_keys_def) (simp add: history_0_def snapshot_initialize_def)

theorem aggregate_is_sum_of_keys_witness:
  "\<exists>ks. slot_keys tri_syscalls tri_group history_1 ks \<and>
     sc_g1_decompress tri_syscalls (ss_total_aggregated_g1_pubkey history_1) =
       Some (bg_e1 tri_group (\<Sum>i < 256. ks i))"
  by (rule aggregate_is_sum_of_keys [OF tri_laws history_clean history_run [unfolded history_0_def, symmetric]])

theorem reachable_certificate_iff_witness:
  "(\<exists>key. entry_keys tri_syscalls tri_group key [history_entry]) \<and>
   (verify_certificate tri_syscalls history_1 5000 10 100 50 9 (bg_c2 tri_group 2) 1 [0] 1 = Inr () \<longleftrightarrow>
      certificate_conditions history_1 5000 10 100 50 [0] 1 \<and>
      combined_equation tri_group 1 0 2 1 (challenge tri_syscalls tri_group 9 0 2 1))"
proof -
  have es: "[history_entry] = take (unat (ss_operators_registered history_1)) (ss_operator_snapshots history_1)"
    by (simp add: history_1_def)
  have keys: "entry_keys tri_syscalls tri_group (\<lambda>_. 1) [history_entry]"
    by (simp add: entry_keys_def history_entry_def sample_point)
  have none: "signer_keys (\<lambda>_. 1) [0] 0 [history_entry] = 0" by (simp add: signed_bit_def)
  have nonzero: "ss_total_aggregated_g1_pubkey history_1 \<noteq> 0" by (simp add: history_1_def)
  from reachable_certificate_iff [OF tri_laws history_clean history_run [unfolded history_0_def, symmetric]
      history_dense tri_hash bls_decompress2 [OF tri_laws, of 2] sample_point(1) es,
      where bps = 5000 and window = 10 and len = 100 and slot = 50 and bm = "[0]" and gen = 1 and digest = 9]
  show ?thesis using keys none nonzero by (auto simp: Let_def)
qed

theorem removed_operator_overwrites_aggregate_witness:
  "ss_total_aggregated_g1_pubkey history_3 = 2 \<and> ss_operator_snapshots history_3 = ss_operator_snapshots history_2"
  by (rule removed_operator_overwrites_aggregate [OF _ history_absent history_3])
    (simp add: history_2_def history_1_def)

theorem full_set_cannot_rotate_witness:
  "update_g1_operator_pubkey tri_syscalls (run_all (snapshot_step tri_syscalls) [SO_remove 11]
     (history_1\<lparr>ss_operators_registered := 256\<rparr>)) 2 11 = Inl (from_ncn InvalidOperatorCount)"
proof (rule full_set_cannot_rotate)
  show "256 \<le> unat (ss_operators_registered (history_1\<lparr>ss_operators_registered := 256\<rparr>))" by simp
qed

text \<open>The same registration at index 1, and a delegation of 700 to the operator's entry.\<close>

definition sparse_snapshot :: snapshot where
  "sparse_snapshot = history_1\<lparr>ss_operator_snapshots := (replicate 256 operator_snapshot_default)
     [1 := history_entry\<lparr>os_ncn_operator_index := 1\<rparr>]\<rparr>"

lemma sparse_registration:
  "snapshot_step tri_syscalls (SO_register 11 50 True 1 3 1) history_0 = Inr sparse_snapshot"
  by (simp add: snapshot_step_def snapshot_register_def operator_snapshot_new_def add_operator_snapshot_def
      history_0_def history_1_def history_entry_def snapshot_initialize_def increment_operator_registration_def
      bump_generation_def checked_add_def register_operator_g1_pubkey_def add_g1_pubkey_to_total_agg_def
      sample_point MAX_OPERATORS_def operator_snapshot_default_def word_le_nat_alt sparse_snapshot_def)

definition staked_entry :: operator_snapshot where
  "staked_entry = history_entry\<lparr>os_vault_contributions :=
       vault_contribution_new 0 (sw_new 700) (sw_new 700) # replicate 15 vault_contribution_default,
     os_stake_weight := sw_new 700, os_next_epoch_stake_weight := sw_new 700, os_has_minimum_stake := True,
     os_has_minimum_stake_next_epoch := True, os_last_snapshot_slot := 50\<rparr>"

lemma staked_delegation_at:
  "os_snapshot_delegation (history_entry\<lparr>os_ncn_operator_index := i\<rparr>) 50 0 (sw_new 700) (sw_new 700) (sw_new 100) =
     Inr (staked_entry\<lparr>os_ncn_operator_index := i\<rparr>)"
proof -
  let ?e = "history_entry\<lparr>os_ncn_operator_index := i\<rparr>"
  let ?c = "vault_contribution_new 0 (sw_new 700) (sw_new 700)"
  have cs: "os_vault_contributions ?e = replicate 16 vault_contribution_default"
    by (simp add: history_entry_def operator_snapshot_default_def MAX_VAULTS_def)
  have empty: "vc_is_empty vault_contribution_default" "vc_registry_slot vault_contribution_default \<noteq> vc_registry_slot ?c"
    by (simp_all add: vault_contribution_default_def vault_contribution_new_def EMPTY_REGISTRY_SLOT_def vc_is_empty_def)
  have "position (\<lambda>c. vc_registry_slot c = vc_registry_slot ?c) (replicate 16 vault_contribution_default) = None"
    using empty(2) unfolding position_None_iff by simp
  moreover have "position vc_is_empty (replicate 16 vault_contribution_default) = Some 0"
    by (rule position_first) (simp_all add: empty(1))
  ultimately have "upsert_contribution ?c (os_vault_contributions ?e) =
      Some ((replicate 16 vault_contribution_default)[0 := ?c])"
    unfolding cs upsert_contribution_def by simp
  then have up: "upsert_contribution ?c (os_vault_contributions ?e) =
      Some (?c # replicate 15 vault_contribution_default)"
    by (simp add: replicate_update_0)
  have "filter (\<lambda>c. \<not> vc_is_empty c) (?c # replicate 15 vault_contribution_default) = [?c]"
    by (simp add: vault_contribution_default_def vault_contribution_new_def EMPTY_REGISTRY_SLOT_def vc_is_empty_def)
  moreover have "sum_contributions [?c] sw_default sw_default = Inr (sw_new 700, sw_new 700)"
    by (simp add: vault_contribution_new_def sw_default_def sw_new_def sw_increment_def
        increment_stake_weight_def checked_add_def)
  moreover have "os_is_active ?e" "\<not> (0 :: u64) \<ge> of_nat MAX_VAULTS"
    "sw_weight (sw_new 100) \<le> sw_weight (sw_new 700)"
    by (simp_all add: history_entry_def MAX_VAULTS_def sw_new_def)
  ultimately show ?thesis
    unfolding os_snapshot_delegation_def up staked_entry_def by simp
qed

lemma sparse_find: "find_operator_snapshot sparse_snapshot 11 = Some (history_entry\<lparr>os_ncn_operator_index := 1\<rparr>)"
proof -
  let ?es = "(replicate 256 operator_snapshot_default)[1 := history_entry\<lparr>os_ncn_operator_index := 1\<rparr>]"
  have "position (is_entry_of 11) ?es = Some 1"
    by (rule position_first) (simp_all add: is_entry_of_def history_entry_def operator_snapshot_default_def)
  then show ?thesis by (simp add: find_operator_snapshot_def find_position sparse_snapshot_def)
qed

lemma sparse_delegation:
  "snapshot_step tri_syscalls (SO_delegate 11 50 0 (sw_new 700) (sw_new 700)) sparse_snapshot =
     Inr (sparse_snapshot\<lparr>ss_operator_snapshots := (replicate 256 operator_snapshot_default)
       [1 := staked_entry\<lparr>os_ncn_operator_index := 1\<rparr>]\<rparr>)"
proof -
  have minimum: "ss_minimum_stake sparse_snapshot = sw_new 100"
    by (simp add: sparse_snapshot_def history_1_def history_0_def snapshot_initialize_def)
  show ?thesis
    by (simp add: snapshot_step_def snapshot_delegate_def sparse_find minimum staked_delegation_at)
      (simp add: update_operator_snapshot_def set_last_snapshot_slot_def sparse_snapshot_def history_1_def)
qed

theorem sparse_index_never_verifies_witness:
  "let t = run_all (snapshot_step tri_syscalls) [SO_delegate 11 50 0 (sw_new 700) (sw_new 700)] sparse_snapshot
   in sw_weight (os_stake_weight (ss_operator_snapshots t ! 1)) = 700 \<and>
      verify_certificate tri_syscalls t 5000 10 100 50 9 1 1 [1] 1 \<noteq> Inr ()"
proof -
  have "list_all (\<lambda>op. \<not> is_registration op) [SO_delegate 11 50 0 (sw_new 700) (sw_new 700)]"
    by (simp add: is_registration_def)
  from sparse_index_never_verifies [OF sparse_registration [unfolded history_0_def] _ this,
      of 5000 10 100 50 9 1 1 "[1]" 1]
  show ?thesis by (simp add: Let_def sparse_delegation) (simp add: staked_entry_def sw_new_def)
qed

end
