(* ===== verification/Sample_Chain.thy ===== *)
theory Sample_Chain
  imports Accounts
begin

text \<open>
  A small runtime and restaking program on which the handlers run, for the concrete instances of
  the properties: an address is derived from the length of its seeds, rent is one lamport per
  byte, slot and epoch are 50 and 10, and the accounts of the other programs are recognised by
  their owner and read as fixed values.
\<close>

definition sample_runtime :: runtime where
  "sample_runtime = \<lparr>
     rt_find_program_address = (\<lambda>seeds _. (of_nat (sum_list (map length seeds)), 255)),
     rt_create_program_address = (\<lambda>seeds _. Some (of_nat (sum_list (map length seeds) - 1))),
     rt_system_program_id = 0,
     rt_clock = Inr (50, 10),
     rt_minimum_balance = Inr (\<lambda>n. of_nat n),
     rt_transfer = (\<lambda>sender receiver l _. if ai_lamports sender < l then Inl PE_InsufficientFunds
       else Inr (ai_lamports sender - l, ai_lamports receiver + l)),
     rt_allocate = (\<lambda>_ _ space _. Inr (unat space, 0)),
     rt_assign = (\<lambda>_ owner _. Inr owner),
     rt_realloc = (\<lambda>_ (len, first) n. Inr (n, if len = 0 then 0 else first)),
     rt_load_system_account = (\<lambda>a len w. if ai_owner a \<noteq> 0 then Inl PE_InvalidAccountOwner
       else if len \<noteq> 0 \<or> (w \<and> \<not> ai_is_writable a) then Inl PE_InvalidAccountData else Inr ()),
     rt_load_system_program = (\<lambda>a. if ai_key a = 0 then Inr () else Inl PE_IncorrectProgramId),
     rt_load_signer = (\<lambda>a w. if \<not> ai_is_signer a then Inl PE_MissingRequiredSignature
       else if w \<and> \<not> ai_is_writable a then Inl PE_InvalidAccountData else Inr ()),
     rt_load_token_mint = (\<lambda>_. Inr ()),
     rt_try_from_slice = (\<lambda>d n first len. if first = Some d \<and> len = n then Inr ()
       else Inl PE_InvalidAccountData)\<rparr>"

definition sample_toggle :: slot_toggle where
  "sample_toggle = \<lparr>tg_state = (\<lambda>_ _. Inr Active), tg_is_active = (\<lambda>_ _. Inr True),
     tg_is_active_or_cooldown = (\<lambda>_ _. Inr True)\<rparr>"

definition sample_figures :: vault_figures where
  "sample_figures = \<lparr>vg_tokens_deposited = 1000, vg_vrt_supply = 1000, vg_vrt_cooling_down_amount = 0,
     vg_vrt_enqueued_for_cooldown_amount = 0, vg_vrt_ready_to_claim_amount = 0, vg_operator_count = 2,
     vg_ncn_count = 1, vg_staked_amount = 1000,
     vg_delegation_state = \<lparr>vod_total_security = Inr 1000, vod_cooling_down_amount = 100\<rparr>\<rparr>"

definition owned_by :: "pubkey \<Rightarrow> raw_account \<Rightarrow> program_error + unit" where
  "owned_by p a = (if ai_owner (ac_info a) = p then Inr () else Inl PE_InvalidAccountOwner)"

definition sample_jito :: jito where
  "sample_jito = \<lparr>
     jt_restaking_id = 1001, jt_vault_id = 1002,
     jt_ncn_load = (\<lambda>p a _. owned_by p a), jt_operator_load = (\<lambda>p a _. owned_by p a),
     jt_config_load = (\<lambda>p a _. owned_by p a), jt_vault_load = (\<lambda>p a _. owned_by p a),
     jt_ncn_operator_state_load = (\<lambda>p a _ _ _. owned_by p a),
     jt_ncn_vault_ticket_load = (\<lambda>p a _ _ _. owned_by p a),
     jt_vault_ncn_ticket_load = (\<lambda>p a _ _ _. owned_by p a),
     jt_vault_operator_delegation_load = (\<lambda>p a _ _ _. owned_by p a),
     jt_ncn = (\<lambda>_. Inr \<lparr>nv_admin = 7, nv_ncn_program_admin = 8\<rparr>),
     jt_operator = (\<lambda>_. Inr \<lparr>ov_admin = 9, ov_index = 3, ov_fee_bps = 0, ov_ncn_count = 1\<rparr>),
     jt_epoch_length = (\<lambda>_. Inr 100),
     jt_vault = (\<lambda>_. Inr \<lparr>vv_supported_mint = 5, vv_vault_index = 0,
       vv_is_update_needed = (\<lambda>_ _. Inr False), vv_figures = sample_figures\<rparr>),
     jt_ncn_operator_state = (\<lambda>_. Inr \<lparr>nos_index = 0, nos_ncn_opt_in_state = sample_toggle,
       nos_operator_opt_in_state = sample_toggle\<rparr>),
     jt_ncn_vault_ticket_state = (\<lambda>_. Inr sample_toggle),
     jt_vault_ncn_ticket_state = (\<lambda>_. Inr sample_toggle),
     jt_vault_operator_delegation = (\<lambda>_. Inr \<lparr>vod_total_security = Inr 1000, vod_cooling_down_amount = 100\<rparr>)\<rparr>"

definition sample_info :: "pubkey \<Rightarrow> pubkey \<Rightarrow> account_info" where
  "sample_info key owner = \<lparr>ai_key = key, ai_owner = owner, ai_lamports = 1000000,
     ai_is_signer = True, ai_is_writable = True\<rparr>"

definition sample_raw :: "pubkey \<Rightarrow> pubkey \<Rightarrow> raw_account" where
  "sample_raw key owner = \<lparr>ac_info = sample_info key owner, ac_data = [1]\<rparr>"

text \<open>An account of this program (42), and one not created yet.\<close>

definition sample_pod :: "pubkey \<Rightarrow> nat \<Rightarrow> u8 \<Rightarrow> 'b \<Rightarrow> 'b pod_account" where
  "sample_pod key len first b = \<lparr>ac_info = sample_info key 42,
     ac_data = \<lparr>pd_len = len, pd_first = first, pd_body = b\<rparr>\<rparr>"

definition sample_new_account :: "pubkey \<Rightarrow> 'b \<Rightarrow> 'b pod_account" where
  "sample_new_account key b = \<lparr>ac_info = sample_info key 0, ac_data = \<lparr>pd_len = 0, pd_first = 0, pd_body = b\<rparr>\<rparr>"

lemma length_seeds:
  "length CONFIG_SEED = 6" "length VAULT_REGISTRY_SEED = 14" "length SNAPSHOT_SEED = 8"
  "length NCN_OPERATOR_ACCOUNT_SEED = 20" "length ACCOUNT_PAYER_SEED = 13"
  by (simp_all add: CONFIG_SEED_def VAULT_REGISTRY_SEED_def SNAPSHOT_SEED_def
      NCN_OPERATOR_ACCOUNT_SEED_def ACCOUNT_PAYER_SEED_def ascii_def)

lemma sample_addresses [simp]:
  "config_find sample_runtime p n = (38, 255, config_seeds n)"
  "vault_registry_find sample_runtime p n = (46, 255, vault_registry_seeds n)"
  "snapshot_find sample_runtime p n = (40, 255, snapshot_seeds n)"
  "ncn_operator_account_find sample_runtime p n q = (84, 255, ncn_operator_account_seeds n q)"
  "account_payer_find sample_runtime p n = (77, 255, account_payer_seeds n)"
  by (simp_all add: config_find_def vault_registry_find_def snapshot_find_def
      ncn_operator_account_find_def account_payer_find_def sample_runtime_def config_seeds_def
      vault_registry_seeds_def snapshot_seeds_def ncn_operator_account_seeds_def
      account_payer_seeds_def length_seeds)

lemma sample_runtime_simps [simp]:
  "rt_system_program_id sample_runtime = 0"
  "rt_clock sample_runtime = Inr (50, 10)"
  "rt_minimum_balance sample_runtime = Inr (\<lambda>n. of_nat n)"
  "rt_transfer sample_runtime sender receiver l seeds =
     (if ai_lamports sender < l then Inl PE_InsufficientFunds
      else Inr (ai_lamports sender - l, ai_lamports receiver + l))"
  "rt_allocate sample_runtime a d space seeds = Inr (unat space, 0)"
  "rt_assign sample_runtime a owner seeds = Inr owner"
  "rt_realloc sample_runtime a d n = Inr (n, if fst d = 0 then 0 else snd d)"
  "rt_load_system_account sample_runtime a len w =
     (if ai_owner a \<noteq> 0 then Inl PE_InvalidAccountOwner
      else if len \<noteq> 0 \<or> (w \<and> \<not> ai_is_writable a) then Inl PE_InvalidAccountData else Inr ())"
  "rt_load_system_program sample_runtime a = (if ai_key a = 0 then Inr () else Inl PE_IncorrectProgramId)"
  "rt_load_signer sample_runtime a w = (if \<not> ai_is_signer a then Inl PE_MissingRequiredSignature
     else if w \<and> \<not> ai_is_writable a then Inl PE_InvalidAccountData else Inr ())"
  "rt_load_token_mint sample_runtime m = Inr ()"
  "rt_try_from_slice sample_runtime x n first len = (if first = Some x \<and> len = n then Inr ()
     else Inl PE_InvalidAccountData)"
  by (simp_all add: sample_runtime_def split: prod.splits)

lemma sample_jito_simps [simp]:
  "jt_restaking_id sample_jito = 1001" "jt_vault_id sample_jito = 1002"
  "jt_ncn_load sample_jito p a w = owned_by p a" "jt_operator_load sample_jito p a w = owned_by p a"
  "jt_config_load sample_jito p a w = owned_by p a" "jt_vault_load sample_jito p a w = owned_by p a"
  "jt_ncn_operator_state_load sample_jito p a x y w = owned_by p a"
  "jt_ncn_vault_ticket_load sample_jito p a x y w = owned_by p a"
  "jt_vault_ncn_ticket_load sample_jito p a x y w = owned_by p a"
  "jt_vault_operator_delegation_load sample_jito p a x y w = owned_by p a"
  "jt_ncn sample_jito d = Inr \<lparr>nv_admin = 7, nv_ncn_program_admin = 8\<rparr>"
  "jt_operator sample_jito d = Inr \<lparr>ov_admin = 9, ov_index = 3, ov_fee_bps = 0, ov_ncn_count = 1\<rparr>"
  "jt_epoch_length sample_jito d = Inr 100"
  "jt_vault sample_jito d = Inr \<lparr>vv_supported_mint = 5, vv_vault_index = 0,
     vv_is_update_needed = (\<lambda>_ _. Inr False), vv_figures = sample_figures\<rparr>"
  "jt_ncn_operator_state sample_jito d = Inr \<lparr>nos_index = 0, nos_ncn_opt_in_state = sample_toggle,
     nos_operator_opt_in_state = sample_toggle\<rparr>"
  "jt_ncn_vault_ticket_state sample_jito d = Inr sample_toggle"
  "jt_vault_ncn_ticket_state sample_jito d = Inr sample_toggle"
  "jt_vault_operator_delegation sample_jito d =
     Inr \<lparr>vod_total_security = Inr 1000, vod_cooling_down_amount = 100\<rparr>"
  by (simp_all add: sample_jito_def)

lemma sample_toggle_simps [simp]:
  "tg_state sample_toggle s l = Inr Active" "tg_is_active sample_toggle s l = Inr True"
  "tg_is_active_or_cooldown sample_toggle s l = Inr True"
  by (simp_all add: sample_toggle_def)

lemma sample_account_simps [simp]:
  "ai_key (sample_info k p) = k" "ai_owner (sample_info k p) = p"
  "ai_lamports (sample_info k p) = 1000000" "ai_is_signer (sample_info k p)"
  "ai_is_writable (sample_info k p)" "ac_info (sample_raw k p) = sample_info k p"
  "ac_data (sample_raw k p) = [1]" "ac_info (sample_pod k n f b) = sample_info k 42"
  "ac_data (sample_pod k n f b) = \<lparr>pd_len = n, pd_first = f, pd_body = b\<rparr>"
  "ac_info (sample_new_account k b) = sample_info k 0"
  "ac_data (sample_new_account k b) = \<lparr>pd_len = 0, pd_first = 0, pd_body = b\<rparr>"
  "pod_first (sample_pod k n f b) = (if n = 0 then None else Some f)"
  by (simp_all add: sample_info_def sample_raw_def sample_pod_def sample_new_account_def pod_first_def)

lemma sample_pod_set_body [simp]: "set_body b (sample_pod k n f c) = sample_pod k n f b"
  by (simp add: set_body_def sample_pod_def)

lemma sample_owned [simp]: "owned_by p (sample_raw k q) = (if q = p then Inr () else Inl PE_InvalidAccountOwner)"
  by (simp add: owned_by_def)

lemma sample_load [simp]: "check_load p a f k d w = Inr () \<longleftrightarrow>
    ai_owner a = p \<and> ai_key a = k \<and> (d = None \<or> f = d) \<and> (w \<longrightarrow> ai_is_writable a)"
  by (simp add: check_load_Inr)

text \<open>Creating an account that already holds its rent.\<close>

lemma sample_create [simp]:
  "n \<le> 10240 \<Longrightarrow> pay_and_create_account sample_runtime 42 ncn payer (sample_new_account k b) 42 n seeds =
     Inr (payer, sample_pod k n 0 b)"
proof -
  assume n: "n \<le> 10240"
  then have u: "unat (of_nat n :: u64) = n" by (simp add: unat_of_nat take_bit_nat_eq_self)
  then have "(of_nat n :: u64) \<le> 10240" "(of_nat n :: u64) \<le> 1000000"
    using n by (simp_all add: word_le_nat_alt)
  then have "min (of_nat n :: u64) 10240 = of_nat n" "saturating_sub (of_nat n :: u64) 1000000 = 0"
    by (auto simp: min_def saturating_sub_def)
  then show ?thesis
    using u by (simp add: pay_and_create_account_def fund_def sample_new_account_def sample_pod_def
        sample_info_def MAX_REALLOC_BYTES_def MAX_PERMITTED_DATA_INCREASE_def)
qed

lemma sample_write_first [simp]:
  "write_first d (sample_pod k n f b) = (if n = 0 then Inl PE_Panic else Inr (sample_pod k n d b))"
  by (simp add: write_first_def sample_pod_def)

lemma sample_view [simp]:
  "pod_view sample_runtime d m (sample_pod k n f b) =
     (if n \<noteq> 0 \<and> f = d \<and> n = m then Inr b else Inl PE_InvalidAccountData)"
  by (auto simp: pod_view_def)

lemmas sample_loads = config_load_def vault_registry_load_def snapshot_load_def
  ncn_operator_account_load_def account_payer_load_def clock_slot_def clock_epoch_def

end
