(* ===== verification/Admin_Properties.thy ===== *)
theory Admin_Properties
  imports Admin_Handlers Sample_Chain
begin

text \<open>
  What the configuration and registry handlers guarantee: who may call them, that the
  parameters stay in range, and that a registered vault keeps its slot and its weight over any
  sequence of instructions.
\<close>

subsection \<open>The configuration\<close>

definition params_valid :: "u64 option \<Rightarrow> u64 option \<Rightarrow> u128 option \<Rightarrow> u64 option \<Rightarrow> u16 option \<Rightarrow> bool" where
  "params_valid eb ec ms vs th \<longleftrightarrow>
     pred_option (in_range 1 50) eb \<and> pred_option (in_range 10 100) ec \<and>
     pred_option (in_range 1000 21600000) vs \<and> pred_option (\<lambda>w. w \<noteq> 0) ms \<and>
     pred_option (in_range 1 10000) th"

definition or_old :: "'a option \<Rightarrow> 'a \<Rightarrow> 'a" where
  "or_old v old = (case v of None \<Rightarrow> old | Some x \<Rightarrow> x)"

definition with_parameters ::
  "u64 option \<Rightarrow> u64 option \<Rightarrow> u64 option \<Rightarrow> u128 option \<Rightarrow> u64 option \<Rightarrow> u16 option \<Rightarrow> config \<Rightarrow> config" where
  "with_parameters se eb ec ms vs th c = c\<lparr>
     cf_starting_valid_epoch := or_old se (cf_starting_valid_epoch c),
     cf_epochs_before_stall := or_old eb (cf_epochs_before_stall c),
     cf_epochs_after_consensus_before_close := or_old ec (cf_epochs_after_consensus_before_close c),
     cf_valid_slots_after_consensus := or_old vs (cf_valid_slots_after_consensus c),
     cf_minimum_stake := or_old (map_option sw_new ms) (cf_minimum_stake c),
     cf_consensus_threshold_bps := or_old th (cf_consensus_threshold_bps c)\<rparr>"

lemmas parameter_bounds = MIN_EPOCHS_BEFORE_STALL_def MAX_EPOCHS_BEFORE_STALL_def
  MIN_EPOCHS_AFTER_CONSENSUS_BEFORE_CLOSE_def MAX_EPOCHS_AFTER_CONSENSUS_BEFORE_CLOSE_def
  MIN_VALID_SLOTS_AFTER_CONSENSUS_def MAX_VALID_SLOTS_AFTER_CONSENSUS_def DEFAULT_SLOTS_PER_EPOCH_def
  MIN_CONSENSUS_THRESHOLD_BPS_def MAX_CONSENSUS_THRESHOLD_BPS_def

lemma set_parameter_Inr:
  "set_parameter v valid err f c = Inr c' \<longleftrightarrow>
     pred_option valid v \<and> c' = (case v of None \<Rightarrow> c | Some x \<Rightarrow> f x c)"
  by (cases v) (auto simp: set_parameter_def)

lemma update_parameters_Inr:
  "update_parameters se eb ec ms vs th c = Inr c' \<longleftrightarrow>
     params_valid eb ec ms vs th \<and> c' = with_parameters se eb ec ms vs th c"
proof -
  have "update_parameters se eb ec ms vs th c = Inr c' \<longleftrightarrow>
      params_valid eb ec ms vs th \<and> c' = (case th of None \<Rightarrow> (\<lambda>c. c) | Some x \<Rightarrow> cf_consensus_threshold_bps_update (\<lambda>_. x))
        ((case ms of None \<Rightarrow> (\<lambda>c. c) | Some x \<Rightarrow> cf_minimum_stake_update (\<lambda>_. sw_new x))
        ((case vs of None \<Rightarrow> (\<lambda>c. c) | Some x \<Rightarrow> cf_valid_slots_after_consensus_update (\<lambda>_. x))
        ((case ec of None \<Rightarrow> (\<lambda>c. c) | Some x \<Rightarrow> cf_epochs_after_consensus_before_close_update (\<lambda>_. x))
        ((case eb of None \<Rightarrow> (\<lambda>c. c) | Some x \<Rightarrow> cf_epochs_before_stall_update (\<lambda>_. x))
        ((case se of None \<Rightarrow> (\<lambda>c. c) | Some x \<Rightarrow> cf_starting_valid_epoch_update (\<lambda>_. x)) c)))))"
    unfolding update_parameters_def Let_def params_valid_def
    by (cases eb; cases ec; cases ms; cases vs; cases th; cases se)
      (auto simp: set_parameter_Inr parameter_bounds)
  also have "\<dots> \<longleftrightarrow> params_valid eb ec ms vs th \<and> c' = with_parameters se eb ec ms vs th c"
    unfolding with_parameters_def or_old_def
    by (cases c; cases eb; cases ec; cases ms; cases vs; cases th; cases se) simp_all
  finally show ?thesis .
qed

lemma with_parameters_ok:
  "config_params_ok c \<Longrightarrow> params_valid eb ec ms vs th \<Longrightarrow>
     config_params_ok (with_parameters se eb ec ms vs th c)"
  by (cases eb; cases ec; cases vs; cases th)
    (auto simp: config_params_ok_def params_valid_def with_parameters_def or_old_def in_range_def
      parameter_bounds)

text \<open>Who may change a configuration: the accounts are genuine and the NCN's admin signs.\<close>

definition admin_accounts_ok ::
  "runtime \<Rightarrow> jito \<Rightarrow> pubkey \<Rightarrow> config pod_account \<Rightarrow> raw_account \<Rightarrow> account_info \<Rightarrow> bool" where
  "admin_accounts_ok R J pid config ncn admin \<longleftrightarrow>
     rt_load_signer R admin True = Inr () \<and>
     ai_owner (ac_info config) = pid \<and> key_of config = fst (config_find R pid (key_of ncn)) \<and>
     pod_first config = Some (discriminator D_Config) \<and> ai_is_writable (ac_info config) \<and>
     jt_ncn_load J (jt_restaking_id J) ncn False = Inr () \<and>
     (\<exists>v. jt_ncn J (ac_data ncn) = Inr v \<and> nv_admin v = ai_key admin) \<and>
     config_view R config = Inr (body config) \<and> cf_ncn (body config) = key_of ncn"

lemma config_load_Inr:
  "config_load R pid a n w = Inr u \<longleftrightarrow> ai_owner (ac_info a) = pid \<and> key_of a = fst (config_find R pid n) \<and>
     pod_first a = Some (discriminator D_Config) \<and> (w \<longrightarrow> ai_is_writable (ac_info a))"
  by (auto simp: config_load_def check_load_Inr)

lemma set_parameters_Inr:
  "process_admin_set_parameters R J pid (Some (config, ncn, admin)) se eb ec ms vs th = Inr config' \<longleftrightarrow>
     admin_accounts_ok R J pid config ncn admin \<and> params_valid eb ec ms vs th \<and>
     config' = set_body (with_parameters se eb ec ms vs th (body config)) config"
  by (auto simp: process_admin_set_parameters_def admin_accounts_ok_def config_load_Inr
      update_parameters_Inr dest: views_Inr)

lemma set_new_admin_Inr:
  "process_admin_set_new_admin R J pid (Some (config, ncn, admin, new)) role = Inr config' \<longleftrightarrow>
     admin_accounts_ok R J pid config ncn admin \<and>
     config' = set_body ((body config)\<lparr>cf_tie_breaker_admin := ai_key new\<rparr>) config"
  by (cases role) (auto simp: process_admin_set_new_admin_def admin_accounts_ok_def config_load_Inr
      dest: views_Inr)

text \<open>
  \<open>AdminSetParameters\<close> succeeds exactly when the accounts are genuine, the NCN's admin signs
  and every given parameter is in its range; it then sets the given parameters and nothing else.
\<close>

theorem set_parameters_spec:
  "process_admin_set_parameters R J pid (Some (config, ncn, admin)) se eb ec ms vs th = Inr config' \<longleftrightarrow>
     admin_accounts_ok R J pid config ncn admin \<and> params_valid eb ec ms vs th \<and>
     config' = set_body (with_parameters se eb ec ms vs th (body config)) config"
  by (rule set_parameters_Inr)

lemma initialize_config_Inr:
  assumes "process_admin_initialize_config R J P pid
      (Some (config, ncn, wallet, admin, tie, payer, sys)) eb ec vs ms fee = Inr (config', payer')"
  shows "rt_load_signer R admin False = Inr ()"
    "\<exists>v. jt_ncn J (ac_data ncn) = Inr v \<and> nv_admin v = ai_key admin"
    "key_of config = fst (config_find R pid (key_of ncn))"
    "config_params_ok (body config')" "cf_ncn (body config') = key_of ncn"
    "cf_consensus_threshold_bps (body config') = 6667"
    "cf_minimum_stake (body config') = sw_new ms"
    "\<exists>epoch. clock_epoch R = Inr epoch \<and> fee_config_new P (ai_key wallet) fee epoch =
       Inr (cf_fee_config (body config')) \<and> cf_starting_valid_epoch (body config') = epoch"
  using assms
  by (auto simp: process_admin_initialize_config_def config_new_def config_params_ok_def in_range_def
      DEFAULT_CONSENSUS_THRESHOLD_BPS_def MIN_CONSENSUS_THRESHOLD_BPS_def
      MAX_CONSENSUS_THRESHOLD_BPS_def split: if_splits prod.splits)

text \<open>
  A configuration is created only by the NCN's admin, as a signer, at the program-derived
  address of the NCN.  It starts with every parameter in range and a consensus threshold of 6667
  basis points, and its total fee is between 1 and 10000 basis points now and later.
\<close>

theorem initialize_config_sound:
  assumes laws: "precise_laws P"
    and init: "process_admin_initialize_config R J P pid
      (Some (config, ncn, wallet, admin, tie, payer, sys)) eb ec vs ms fee = Inr (config', payer')"
  shows "rt_load_signer R admin False = Inr () \<and>
    (\<exists>v. jt_ncn J (ac_data ncn) = Inr v \<and> nv_admin v = ai_key admin) \<and>
    key_of config = fst (config_find R pid (key_of ncn)) \<and>
    config_params_ok (body config') \<and> cf_ncn (body config') = key_of ncn \<and>
    cf_consensus_threshold_bps (body config') = 6667 \<and>
    (\<exists>epoch. clock_epoch R = Inr epoch \<and> fees_sound epoch (cf_fee_config (body config')))"
  using initialize_config_Inr [OF init] fee_config_new_sound [OF laws] by blast

subsection \<open>Sequences of administrator instructions\<close>

datatype config_ix =
    CIX_set_parameters runtime raw_account account_info "u64 option" "u64 option" "u64 option"
      "u128 option" "u64 option" "u16 option"
  | CIX_set_new_admin runtime raw_account account_info account_info config_admin_role

definition config_step :: "jito \<Rightarrow> pubkey \<Rightarrow> config_ix \<Rightarrow> config pod_account \<Rightarrow>
    program_error + config pod_account" where
  "config_step J pid ix config = (case ix of
     CIX_set_parameters R ncn admin se eb ec ms vs th \<Rightarrow>
       process_admin_set_parameters R J pid (Some (config, ncn, admin)) se eb ec ms vs th
   | CIX_set_new_admin R ncn admin new role \<Rightarrow>
       process_admin_set_new_admin R J pid (Some (config, ncn, admin, new)) role)"

interpretation config_updates: transactional "config_step J pid" "\<lambda>_. True"
  "\<lambda>a. config_params_ok (body a) \<and> cf_ncn (body a) = n \<and> cf_fee_config (body a) = f \<and>
     cf_bump (body a) = b"
  for J pid n f b
proof
  fix a s and ix :: config_ix and t
  assume inv: "config_params_ok (body s) \<and> cf_ncn (body s) = n \<and> cf_fee_config (body s) = f \<and>
      cf_bump (body s) = b" and step: "config_step J pid ix s = Inr t"
  show "config_params_ok (body t) \<and> cf_ncn (body t) = n \<and> cf_fee_config (body t) = f \<and> cf_bump (body t) = b"
  proof (cases ix)
    case (CIX_set_parameters R ncn admin se eb ec ms vs th)
    with inv step show ?thesis
      by (auto simp: config_step_def set_parameters_Inr with_parameters_ok)
        (simp_all add: with_parameters_def)
  next
    case (CIX_set_new_admin R ncn admin new role)
    with inv step show ?thesis
      by (auto simp: config_step_def set_new_admin_Inr config_params_ok_def)
  qed
qed

text \<open>
  From its creation on, over any sequence of successful and failed administrator
  instructions, a configuration keeps every parameter in range, its NCN and its fees.
\<close>

theorem config_history_ok:
  assumes "process_admin_initialize_config R J P pid
      (Some (config, ncn, wallet, admin, tie, payer, sys)) eb ec vs ms fee = Inr (config', payer')"
  shows "config_params_ok (body (run_all (config_step J pid) ops config')) \<and>
    cf_ncn (body (run_all (config_step J pid) ops config')) = key_of ncn \<and>
    cf_fee_config (body (run_all (config_step J pid) ops config')) = cf_fee_config (body config')"
  using config_updates.run_inv [of config' "key_of ncn" "cf_fee_config (body config')"
      "cf_bump (body config')" ops J pid] initialize_config_Inr(4,5) [OF assms] by simp

definition sample_config :: config where
  "sample_config = config_new 1 6 10 1000 5 20 sample_fees (sw_new 0) 255"

lemma sample_initialize:
  "process_admin_initialize_config sample_runtime sample_jito precise_u128 42
     (Some (sample_new_account 38 sample_config, sample_raw 1 1001, sample_info 7 0, sample_info 7 0,
        sample_info 6 0, sample_info 77 0, sample_info 0 0)) 5 20 1000 0 300 =
   Inr (sample_pod 38 CONFIG_SIZE 1 sample_config, sample_info 77 0)"
proof -
  have okay: "check_fees_okay precise_u128 sample_fees 10 = Inr ()"
    by (simp add: sample_eval)
  show ?thesis
    by (simp add: process_admin_initialize_config_def sample_loads in_range_def parameter_bounds
        sample_new okay sample_config_def config_new_def config_view_def CONFIG_SIZE_def)
qed

theorem initialize_config_sound_witness:
  "config_params_ok sample_config \<and> cf_ncn sample_config = 1 \<and>
   cf_consensus_threshold_bps sample_config = 6667 \<and> (\<exists>e. fees_sound e (cf_fee_config sample_config))"
  using initialize_config_sound [OF precise_u128_laws sample_initialize] by auto

theorem config_history_ok_witness:
  "config_params_ok (body (run_all (config_step sample_jito 42)
     [CIX_set_parameters sample_runtime (sample_raw 1 1001) (sample_info 7 0) None (Some 9) None None None None,
      CIX_set_parameters sample_runtime (sample_raw 1 1001) (sample_info 7 0) None (Some 0) None None None None]
     (sample_pod 38 CONFIG_SIZE 1 sample_config)))"
  using config_history_ok [OF sample_initialize] by blast

text \<open>
  \<open>InitializeConfig\<close> accepts a minimum stake of 0, with which an operator without any stake
  counts as having the minimum, although \<open>AdminSetParameters\<close> never sets 0.
\<close>

theorem zero_minimum_stake_initialized:
  "process_admin_initialize_config sample_runtime sample_jito precise_u128 42
     (Some (sample_new_account 38 sample_config, sample_raw 1 1001, sample_info 7 0, sample_info 7 0,
        sample_info 6 0, sample_info 77 0, sample_info 0 0)) 5 20 1000 0 300 =
   Inr (sample_pod 38 CONFIG_SIZE 1 sample_config, sample_info 77 0) \<and>
   cf_minimum_stake sample_config = sw_new 0 \<and>
   update_parameters se eb ec (Some 0) vs th c \<noteq> Inr c'"
  using sample_initialize
  by (simp add: sample_config_def config_new_def update_parameters_Inr params_valid_def)

subsection \<open>The vault registry\<close>

datatype registry_ix =
    RIX_register_st_mint runtime "config pod_account" raw_account raw_account account_info u16
  | RIX_register_vault runtime "config pod_account" raw_account raw_account raw_account

definition registry_step :: "jito \<Rightarrow> pubkey \<Rightarrow> registry_ix \<Rightarrow> vault_registry pod_account \<Rightarrow>
    program_error + vault_registry pod_account" where
  "registry_step J pid ix registry = (case ix of
     RIX_register_st_mint R config ncn st_mint admin w \<Rightarrow>
       process_admin_register_st_mint R J pid (Some (config, ncn, st_mint, registry, admin)) w
   | RIX_register_vault R config ncn vault ticket \<Rightarrow>
       process_register_vault R J pid (Some (config, registry, ncn, vault, ticket)))"

text \<open>A vault supports a mint other than the default key, and the clock is not at its last slot.\<close>

definition vault_ix_ok :: "jito \<Rightarrow> registry_ix \<Rightarrow> bool" where
  "vault_ix_ok J ix = (case ix of
     RIX_register_st_mint R config ncn st_mint admin w \<Rightarrow> True
   | RIX_register_vault R config ncn vault ticket \<Rightarrow>
       clock_slot R \<noteq> Inr u64_max \<and>
       (case jt_vault J (ac_data vault) of Inl _ \<Rightarrow> True | Inr v \<Rightarrow> vv_supported_mint v \<noteq> default_pubkey))"

lemma register_st_mint_handler_Inr:
  assumes "process_admin_register_st_mint R J pid (Some (config, ncn, st_mint, registry, admin)) w = Inr reg'"
  shows "\<exists>r. register_st_mint (body registry) (key_of st_mint) w = Inr r \<and> reg' = set_body r registry"
    "rt_load_signer R admin False = Inr ()"
    "\<exists>v. jt_ncn J (ac_data ncn) = Inr v \<and> nv_ncn_program_admin v = ai_key admin"
  using assms by (auto simp: process_admin_register_st_mint_def split: if_splits dest: views_Inr)

lemma register_vault_handler_Inr:
  assumes "process_register_vault R J pid (Some (config, registry, ncn, vault, ticket)) = Inr reg'"
  shows "\<exists>slot v r. clock_slot R = Inr slot \<and> jt_vault J (ac_data vault) = Inr v \<and>
    has_st_mint (body registry) (vv_supported_mint v) \<and>
    register_vault_entry (body registry) (key_of vault) (vv_supported_mint v) (vv_vault_index v) slot = Inr r \<and>
    reg' = set_body r registry"
  using assms by (fastforce simp: process_register_vault_def split: if_splits dest: views_Inr)

lemma position_cong_nth:
  "length ys = length xs \<Longrightarrow> (\<And>i. i < length xs \<Longrightarrow> P (ys ! i) = P (xs ! i)) \<Longrightarrow>
     position P ys = position P xs"
proof (induction xs arbitrary: ys)
  case Nil
  then show ?case by simp
next
  case (Cons x xs)
  then obtain y zs where ys: "ys = y # zs" by (cases ys) auto
  have "P y = P x" using Cons.prems(2) [of 0] ys by simp
  moreover have "position P zs = position P xs"
  proof (rule Cons.IH)
    show "length zs = length xs" using Cons.prems(1) ys by simp
    fix i
    assume "i < length xs"
    then show "P (zs ! i) = P (xs ! i)" using Cons.prems(2) [of "Suc i"] ys by simp
  qed
  ultimately show ?case using ys by simp
qed

text \<open>What a registration leaves of an earlier one: its slot, and its mint's weight.\<close>

lemma register_vault_entry_keeps:
  assumes ok: "registry_ok r" and m: "m \<noteq> default_pubkey" "has_st_mint r m" and slot: "slot \<noteq> u64_max"
    and reg: "register_vault_entry r v m ix slot = Inr r'"
    and old: "get_vault_registry_slot r v0 = Inr i" "get_vault_weight_bps r v0 = Inr w"
  shows "get_vault_registry_slot r' v0 = Inr i \<and> get_vault_weight_bps r' v0 = Inr w"
proof (cases "\<exists>e \<in> set (vr_vault_list r). ve_vault e = v")
  case True
  then show ?thesis using reg register_vault_entry_old [OF True] old by auto
next
  case False
  have in_list: "\<exists>e \<in> set (vr_vault_list r). ve_vault e = v0"
    using old(1) position_SomeD [of _ "vr_vault_list r" i] nth_mem
    by (fastforce simp: get_vault_registry_slot_def)
  then have ne: "v0 \<noteq> v" using False by auto
  have fresh: "\<forall>e \<in> set (vr_vault_list r). ve_vault e \<noteq> v" using False by blast
  from reg obtain j where j: "position (\<lambda>e. \<not> ve_occupied e) (vr_vault_list r) = Some j"
    and r': "r' = r\<lparr>vr_vault_list := (vr_vault_list r)[j := vault_entry_new v m ix slot]\<rparr>"
    by (auto simp: register_vault_entry_new [OF fresh])
  from position_SomeD [OF j] have jl: "j < length (vr_vault_list r)" "\<not> ve_occupied (vr_vault_list r ! j)"
    by auto
  then have empty: "ve_is_empty (vr_vault_list r ! j)"
    using ok by (auto simp: registry_ok_def)
  have "position (\<lambda>e. \<not> ve_is_empty e \<and> ve_vault e = v0) (vr_vault_list r') =
      position (\<lambda>e. \<not> ve_is_empty e \<and> ve_vault e = v0) (vr_vault_list r)"
  proof (rule position_cong_nth)
    fix k
    assume "k < length (vr_vault_list r)"
    then show "(\<not> ve_is_empty (vr_vault_list r' ! k) \<and> ve_vault (vr_vault_list r' ! k) = v0) =
      (\<not> ve_is_empty (vr_vault_list r ! k) \<and> ve_vault (vr_vault_list r ! k) = v0)"
      using r' empty ne by (cases "k = j") (auto simp: vault_entry_new_def)
  qed (simp add: r')
  then have "get_vault_registry_slot r' v0 = Inr i"
    using old(1) by (simp add: get_vault_registry_slot_def)
  moreover have "get_vault_weight_bps r' v0 = Inr w"
    using register_vault_entry_step [OF ok m slot reg] fresh ne old(2)
    by (auto simp: get_vault_weight_bps_maps ok split: option.splits)
  ultimately show ?thesis by simp
qed

lemma register_st_mint_keeps:
  assumes ok: "registry_ok r" and reg: "register_st_mint r m wt = Inr r'"
    and old: "get_vault_registry_slot r v0 = Inr i" "get_vault_weight_bps r v0 = Inr w"
  shows "get_vault_registry_slot r' v0 = Inr i \<and> get_vault_weight_bps r' v0 = Inr w"
proof -
  from reg have "vr_vault_list r' = vr_vault_list r" by (auto simp: register_st_mint_Inr)
  then have "get_vault_registry_slot r' v0 = Inr i" using old(1) by (simp add: get_vault_registry_slot_def)
  moreover have "get_vault_weight_bps r' v0 = Inr w"
    using register_st_mint_step [OF ok reg] old(2)
    by (auto simp: get_vault_weight_bps_maps ok ok_or_def split: option.splits)
  ultimately show ?thesis by simp
qed

lemma valid_vaults_mono:
  assumes ok: "registry_ok r" and slot: "slot \<noteq> u64_max"
    and reg: "register_vault_entry r v m ix slot = Inr r'"
  shows "length (get_valid_vault_entries r) \<le> length (get_valid_vault_entries r')"
proof (cases "\<exists>e \<in> set (vr_vault_list r). ve_vault e = v")
  case True
  then show ?thesis using reg register_vault_entry_old [OF True] by auto
next
  case False
  then have fresh: "\<forall>e \<in> set (vr_vault_list r). ve_vault e \<noteq> v" by blast
  from reg obtain j where j: "position (\<lambda>e. \<not> ve_occupied e) (vr_vault_list r) = Some j"
    and r': "r' = r\<lparr>vr_vault_list := (vr_vault_list r)[j := vault_entry_new v m ix slot]\<rparr>"
    by (auto simp: register_vault_entry_new [OF fresh])
  from position_SomeD [OF j] have jl: "j < length (vr_vault_list r)" "\<not> ve_occupied (vr_vault_list r ! j)"
    by auto
  have "{k. k < length (vr_vault_list r) \<and> \<not> ve_is_empty (vr_vault_list r ! k)} \<subseteq>
      {k. k < length (vr_vault_list r') \<and> \<not> ve_is_empty (vr_vault_list r' ! k)}"
  proof safe
    fix k
    assume k: "k < length (vr_vault_list r)" "\<not> ve_is_empty (vr_vault_list r ! k)"
    then show "k < length (vr_vault_list r')" using r' by simp
    assume "ve_is_empty (vr_vault_list r' ! k)"
    then show False using k r' slot by (cases "k = j") (auto simp: vault_entry_new_def ve_is_empty_def)
  qed
  then show ?thesis
    by (auto simp: get_valid_vault_entries_def length_filter_conv_card intro: card_mono)
qed

text \<open>A well-formed registry in which the vaults of \<open>K\<close> have a given slot and weight.\<close>

definition registry_keeps :: "(pubkey \<times> nat \<times> u16) set \<Rightarrow> vault_registry pod_account \<Rightarrow> bool" where
  "registry_keeps K a \<longleftrightarrow> registry_ok (body a) \<and>
     (\<forall>(v, i, w) \<in> K. get_vault_registry_slot (body a) v = Inr i \<and> get_vault_weight_bps (body a) v = Inr w)"

interpretation registry_updates: monotone_counter "registry_step J pid" "vault_ix_ok J"
  "registry_keeps K" "\<lambda>a. length (get_valid_vault_entries (body a))"
  for J pid K
proof
  fix s t ix
  assume inv: "registry_keeps K s" and ok: "vault_ix_ok J ix" and step: "registry_step J pid ix s = Inr t"
  then have ro: "registry_ok (body s)" by (simp add: registry_keeps_def)
  have "registry_keeps K t \<and> length (get_valid_vault_entries (body s)) \<le> length (get_valid_vault_entries (body t))"
  proof (cases ix)
    case (RIX_register_st_mint R config ncn st_mint admin w)
    with step obtain r where r: "register_st_mint (body s) (key_of st_mint) w = Inr r" "t = set_body r s"
      using register_st_mint_handler_Inr(1) by (fastforce simp: registry_step_def)
    then have "vr_vault_list r = vr_vault_list (body s)" by (auto simp: register_st_mint_Inr)
    moreover have "registry_ok r" using register_st_mint_step [OF ro r(1)] by simp
    ultimately show ?thesis
      using inv r register_st_mint_keeps [OF ro r(1)]
      by (fastforce simp: registry_keeps_def get_valid_vault_entries_def)
  next
    case (RIX_register_vault R config ncn vault ticket)
    with step obtain slot v r where r: "clock_slot R = Inr slot" "jt_vault J (ac_data vault) = Inr v"
      "has_st_mint (body s) (vv_supported_mint v)"
      "register_vault_entry (body s) (key_of vault) (vv_supported_mint v) (vv_vault_index v) slot = Inr r"
      "t = set_body r s"
      using register_vault_handler_Inr [of R J pid config s ncn vault ticket t] by (auto simp: registry_step_def)
    then have env: "vv_supported_mint v \<noteq> default_pubkey" "slot \<noteq> u64_max"
      using ok RIX_register_vault by (auto simp: vault_ix_ok_def)
    note args = ro env(1) r(3) env(2) r(4)
    show ?thesis
      using inv r(5) register_vault_entry_step [OF args] register_vault_entry_keeps [OF args]
        valid_vaults_mono [OF ro env(2) r(4)]
      by (fastforce simp: registry_keeps_def)
  qed
  then show "registry_keeps K t"
    "length (get_valid_vault_entries (body s)) \<le> length (get_valid_vault_entries (body t))" by simp_all
qed

lemma registered_weight:
  assumes "registry_ok r" "get_vault_registry_slot r v = Inr i"
  shows "i < 16 \<and> (\<exists>w. get_vault_weight_bps r v = Inr w \<and> 0 < w \<and> w \<le> 10000)"
proof -
  from assms(2) have pos: "position (\<lambda>e. \<not> ve_is_empty e \<and> ve_vault e = v) (vr_vault_list r) = Some i"
    by (simp add: get_vault_registry_slot_def)
  note i = position_SomeD [OF pos]
  let ?e = "vr_vault_list r ! i"
  have e: "?e \<in> set (vr_vault_list r)" "ve_occupied ?e" "ve_vault ?e = v"
    using i assms(1) nth_mem by (auto simp: registry_ok_def)
  have keyed: "keyed ve_occupied ve_vault (vr_vault_list r)"
    "keyed sm_occupied sm_st_mint (vr_st_mint_list r)" using assms(1) by (simp_all add: registry_ok_def)
  have "vault_mints r v = Some (ve_st_mint ?e)"
    using table_lookup_SomeI [OF keyed(1) _ e(2) e(3)] i by (simp add: vault_mints_def)
  moreover obtain m where m: "m \<in> set (vr_st_mint_list r)" "sm_st_mint m = ve_st_mint ?e"
    using assms(1) e by (auto simp: registry_ok_def)
  then obtain j where j: "j < length (vr_st_mint_list r)" "vr_st_mint_list r ! j = m"
    by (auto simp: in_set_conv_nth)
  have occ: "sm_occupied m" using m e(2) by (simp add: sm_is_empty_def)
  have "mint_weights r (ve_st_mint ?e) = Some (sm_weight_bps m)"
    using table_lookup_SomeI [OF keyed(2) j(1)] j(2) occ m(2) by (simp add: mint_weights_def)
  moreover have "weight_ok (sm_weight_bps m)" using assms(1) m(1) occ by (simp add: registry_ok_def)
  moreover have "length (vr_vault_list r) = 16" using assms(1) by (simp add: registry_ok_def MAX_VAULTS_def)
  ultimately show ?thesis
    using i assms(1) by (simp add: get_vault_weight_bps_maps weight_ok_def FULL_WEIGHT_BPS_def word_gt_0)
qed

lemma initialize_registry_Inr:
  assumes "process_initialize_vault_registry R J pid accounts = Inr (reg, payer)"
  shows "registry_ok (body reg)"
proof -
  from assms obtain r ncn bump where "body reg = vault_registry_initialize r ncn bump"
    by (fastforce simp: process_initialize_vault_registry_def split: option.splits prod.splits if_splits)
  then have "body reg = vault_registry_new ncn bump"
    by (simp add: vault_registry_initialize_def vault_registry_new_def)
  then show ?thesis by (simp add: registry_ok_new)
qed

text \<open>
  C34: From \<open>InitializeVaultRegistry\<close> on, over any sequence of mint and vault registrations,
  every registered vault has a slot below 16 and a weight between 1 and 10000 basis points: the
  weight lookup of the delegation snapshot cannot fail for it.
\<close>

theorem registered_vault_weight:
  assumes init: "process_initialize_vault_registry R J pid accounts = Inr (reg, payer)"
    and env: "list_all (vault_ix_ok J) ops"
    and slot: "get_vault_registry_slot (body (run_all (registry_step J pid) ops reg)) v = Inr i"
  shows "i < 16 \<and> (\<exists>w. get_vault_weight_bps (body (run_all (registry_step J pid) ops reg)) v = Inr w \<and>
    0 < w \<and> w \<le> 10000)"
  using registry_updates.run_inv [of "{}" reg J ops pid] initialize_registry_Inr [OF init] env
    registered_weight [OF _ slot] by (simp add: registry_keeps_def)

text \<open>
  A registered vault keeps its slot and its weight for ever: no later registration moves
  it, so the stake recorded under the slot stays attributed to the same vault, and the number of
  registered vaults never decreases.
\<close>

theorem vault_assignment_stable:
  assumes "registry_ok (body reg)" "list_all (vault_ix_ok J) ops"
    and "get_vault_registry_slot (body reg) v = Inr i" "get_vault_weight_bps (body reg) v = Inr w"
  shows "get_vault_registry_slot (body (run_all (registry_step J pid) ops reg)) v = Inr i \<and>
    get_vault_weight_bps (body (run_all (registry_step J pid) ops reg)) v = Inr w \<and>
    length (get_valid_vault_entries (body reg)) \<le>
      length (get_valid_vault_entries (body (run_all (registry_step J pid) ops reg)))"
  using registry_updates.run_inv [of "{(v, i, w)}" reg J ops pid]
    registry_updates.run_count [of "{(v, i, w)}" reg J ops pid] assms
  by (simp add: registry_keeps_def)

subsection \<open>Concrete runs\<close>

definition sample_config_account :: "config pod_account" where
  "sample_config_account = sample_pod 38 CONFIG_SIZE 1 sample_config"

definition sample_registry_account :: "vault_registry \<Rightarrow> vault_registry pod_account" where
  "sample_registry_account r = sample_pod 46 VAULT_REGISTRY_SIZE 2 r"

definition sample_registry_ops :: "registry_ix list" where
  "sample_registry_ops =
     [RIX_register_st_mint sample_runtime sample_config_account (sample_raw 1 1001) (sample_raw 5 0)
        (sample_info 8 0) 10000,
      RIX_register_vault sample_runtime sample_config_account (sample_raw 1 1001) (sample_raw 9 1002)
        (sample_raw 10 1001)]"

definition sample_vaults :: vault_registry where
  "sample_vaults = sample_registry\<lparr>vr_vault_list :=
     (vr_vault_list sample_registry)[0 := vault_entry_new 9 5 0 50]\<rparr>"

lemma sample_initialize_registry:
  "process_initialize_vault_registry sample_runtime sample_jito 42
     (Some (sample_config_account, sample_new_account 46 (vault_registry_new 1 255), sample_raw 1 1001,
        sample_info 77 0, sample_info 0 0)) =
   Inr (sample_registry_account (vault_registry_new 1 255), sample_info 77 0)"
  by (simp add: process_initialize_vault_registry_def sample_loads sample_config_account_def
      sample_registry_account_def registry_view_def VAULT_REGISTRY_SIZE_def CONFIG_SIZE_def
      vault_registry_initialize_def vault_registry_new_def)

lemma sample_register_vault: "register_vault_entry sample_registry 9 5 0 50 = Inr sample_vaults"
  by (simp add: register_vault_entry_def sample_vaults_def sample_registry_def vault_registry_new_def
      vault_entry_default_def vault_entry_new_def MAX_VAULTS_def)

lemma sample_has_mint: "has_st_mint sample_registry 5"
  by (simp add: has_st_mint_def sample_registry_def vault_registry_new_def MAX_ST_MINTS_def list_ex_iff)
    (rule bexI [OF _ set_update_memI], simp_all add: st_mint_entry_new_def)

lemma sample_registry_run:
  "run_all (registry_step sample_jito 42) sample_registry_ops
     (sample_registry_account (vault_registry_new 1 255)) = sample_registry_account sample_vaults"
proof -
  have mint: "process_admin_register_st_mint sample_runtime sample_jito 42
      (Some (sample_config_account, sample_raw 1 1001, sample_raw 5 0,
        sample_registry_account (vault_registry_new 1 255), sample_info 8 0)) 10000 =
    Inr (sample_registry_account sample_registry)"
    by (simp add: process_admin_register_st_mint_def sample_loads sample_config_account_def
        sample_registry_account_def registry_view_def VAULT_REGISTRY_SIZE_def CONFIG_SIZE_def
        sample_registry_reg)
  have vault: "process_register_vault sample_runtime sample_jito 42
      (Some (sample_config_account, sample_registry_account sample_registry, sample_raw 1 1001,
        sample_raw 9 1002, sample_raw 10 1001)) = Inr (sample_registry_account sample_vaults)"
    by (simp add: process_register_vault_def sample_loads sample_config_account_def
        sample_registry_account_def registry_view_def VAULT_REGISTRY_SIZE_def CONFIG_SIZE_def
        sample_has_mint sample_register_vault)
  show ?thesis
    by (simp add: sample_registry_ops_def registry_step_def mint vault)
qed

lemma sample_registry_env: "list_all (vault_ix_ok sample_jito) sample_registry_ops"
  by (simp add: sample_registry_ops_def vault_ix_ok_def clock_slot_def)

lemma sample_vault_slot: "get_vault_registry_slot sample_vaults 9 = Inr 0"
  by (simp add: get_vault_registry_slot_def sample_vaults_def sample_registry_def
      vault_registry_new_def MAX_VAULTS_def replicate_update_0 vault_entry_new_def ve_is_empty_def)

theorem registered_vault_weight_witness:
  "\<exists>w. get_vault_weight_bps (body (run_all (registry_step sample_jito 42) sample_registry_ops
     (sample_registry_account (vault_registry_new 1 255)))) 9 = Inr w \<and> 0 < w \<and> w \<le> 10000"
  using registered_vault_weight [OF sample_initialize_registry sample_registry_env, of 9 0]
    sample_vault_slot by (simp add: sample_registry_run) (simp add: sample_registry_account_def)

theorem vault_assignment_stable_witness:
  "\<exists>w. get_vault_weight_bps sample_vaults 9 = Inr w \<and>
     get_vault_weight_bps (body (run_all (registry_step sample_jito 42) sample_registry_ops
       (sample_registry_account sample_vaults))) 9 = Inr w"
proof -
  have ok: "registry_ok (body (sample_registry_account sample_vaults))"
    using register_vault_entry_step [OF sample_registry_ok _ sample_has_mint _ sample_register_vault]
    by (simp add: sample_registry_account_def)
  then obtain w where "get_vault_weight_bps sample_vaults 9 = Inr w"
    using registered_weight [OF _ sample_vault_slot] by (auto simp: sample_registry_account_def)
  then show ?thesis
    using vault_assignment_stable [OF ok sample_registry_env, of 9 0 w 42] sample_vault_slot
    by (simp add: sample_registry_account_def)
qed

end
