(* ===== verification/Operator_Properties.thy ===== *)
theory Operator_Properties
  imports Entrypoint Snapshot_History Admin_Properties
begin

text \<open>
  The operator and snapshot instructions of the NCN program: they refine the steps of the
  snapshot histories and need the right signatures, delegations are weighted exactly, the
  snapshot account reaches its size and is initialised once, and a removed operator stays out.
\<close>

subsection \<open>Instructions refine snapshot steps\<close>

text \<open>The snapshot account an instruction may change, before and after.\<close>

definition touched_snapshot :: "ncn_accounts \<Rightarrow> ncn_instruction \<Rightarrow> snapshot pod_account option" where
  "touched_snapshot A ix = (case ix of
     RegisterOperator g1 g2 sg \<Rightarrow>
       map_option (\<lambda>(config, noa, ncn, operator, admin, st, snap, rc, payer, sys). snap) (nx_register_operator A)
   | UpdateOperatorBN128Keys g1 g2 sg \<Rightarrow>
       map_option (\<lambda>(config, noa, ncn, operator, admin, snap). snap) (nx_update_keys A)
   | RemoveOperator \<Rightarrow> map_option (\<lambda>(config, ncn, operator, admin, snap). snap) (nx_remove_operator A)
   | SnapshotVaultOperatorDelegation \<Rightarrow>
       map_option (\<lambda>(config, rc, ncn, operator, vault, vnt, nvt, nos, vod, snap, reg). snap)
         (nx_snapshot_delegation A)
   | InitializeSnapshot \<Rightarrow> map_option (\<lambda>(ncn, snap, payer, sys). snap) (nx_initialize_snapshot A)
   | ReallocSnapshot \<Rightarrow> map_option (\<lambda>(ncn, config, snap, payer, sys). snap) (nx_realloc_snapshot A)
   | _ \<Rightarrow> None)"

definition effect_snapshot :: "ncn_effect \<Rightarrow> snapshot pod_account option" where
  "effect_snapshot eff = (case eff of
     NX_operator a s p \<Rightarrow> Some s | NX_keys a s \<Rightarrow> Some s | NX_snapshot s \<Rightarrow> Some s
   | NX_new_snapshot s p \<Rightarrow> Some s | _ \<Rightarrow> None)"

text \<open>The snapshot an account holds: none until the discriminator is written.\<close>

definition snapshot_abs :: "snapshot pod_account \<Rightarrow> snapshot option" where
  "snapshot_abs a = (if pod_first a = Some (discriminator D_Snapshot) then Some (body a) else None)"

text \<open>The snapshot a growth step leaves when it initialises the account.\<close>

definition initial_snapshot :: "runtime \<Rightarrow> ncn_accounts \<Rightarrow> snapshot \<Rightarrow> bool" where
  "initial_snapshot R A t \<longleftrightarrow> (\<exists>ncn config rest s0 bump slot.
     nx_realloc_snapshot A = Some (ncn, config, rest) \<and> clock_slot R = Inr slot \<and>
     t = snapshot_initialize s0 (key_of ncn) bump slot (cf_minimum_stake (body config)))"

text \<open>
  \<open>load_system_account\<close> accepts empty accounts only, new bytes of an account are zero, and
  reallocation sets the length and keeps what was there.
\<close>

definition allocation_laws :: "runtime \<Rightarrow> bool" where
  "allocation_laws R \<longleftrightarrow>
     (\<forall>i n w. rt_load_system_account R i n w = Inr () \<longrightarrow> n = 0) \<and>
     (\<forall>i d m seeds len first. rt_allocate R i d m seeds = Inr (len, first) \<longrightarrow> first = 0) \<and>
     (\<forall>i len first n len' first'. rt_realloc R i (len, first) n = Inr (len', first') \<longrightarrow>
        len' = n \<and> first' = (if len = 0 then 0 else first))"

lemma snapshot_load_abs:
  "snapshot_load R pid snap n w = Inr u \<Longrightarrow> snapshot_abs snap = Some (body snap)"
  by (simp add: snapshot_load_def check_load_Inr snapshot_abs_def)

text \<open>
  Who may make which step: registration and rotation need the operator admin's signature and a
  proof of possession of the new key for this NCN and operator, removal the signature of the
  NCN's or the operator's admin; delegations are recorded by anyone.
\<close>

definition authorised ::
  "runtime \<Rightarrow> jito \<Rightarrow> syscalls \<Rightarrow> ncn_accounts \<Rightarrow> ncn_instruction \<Rightarrow> snapshot_op \<Rightarrow> bool" where
  "authorised R J S A ix op = (case ix of
     RegisterOperator g1 g2 sg \<Rightarrow>
       (\<exists>config noa ncn operator admin rest v slot i j.
          nx_register_operator A = Some (config, noa, ncn, operator, admin, rest) \<and>
          op = SO_register (key_of operator) slot True i j g1 \<and> i < of_nat MAX_OPERATORS \<and>
          jt_operator J (ac_data operator) = Inr v \<and> ov_admin v = ai_key admin \<and> ai_is_signer admin \<and>
          register_operator_proof S (key_of ncn) (key_of operator) g1 g2 sg = Inr ())
   | UpdateOperatorBN128Keys g1 g2 sg \<Rightarrow>
       (\<exists>config noa ncn operator admin snap v.
          nx_update_keys A = Some (config, noa, ncn, operator, admin, snap) \<and>
          op = SO_rotate g1 (key_of operator) \<and>
          jt_operator J (ac_data operator) = Inr v \<and> ov_admin v = ai_key admin \<and> ai_is_signer admin \<and>
          update_keys_proof S (key_of ncn) (key_of operator) g1 g2 sg = Inr ())
   | RemoveOperator \<Rightarrow>
       (\<exists>config ncn operator admin snap v u.
          nx_remove_operator A = Some (config, ncn, operator, admin, snap) \<and>
          op = SO_remove (key_of operator) \<and> rt_load_signer R admin False = Inr () \<and>
          jt_ncn J (ac_data ncn) = Inr v \<and> jt_operator J (ac_data operator) = Inr u \<and>
          (ai_key admin = nv_admin v \<or> ai_key admin = ov_admin u))
   | SnapshotVaultOperatorDelegation \<Rightarrow> \<not> changes_keys op
   | _ \<Rightarrow> False)"

lemma map_ok_Inr [simp]: "map_ok f m = Inr y \<longleftrightarrow> (\<exists>x. m = Inr x \<and> y = f x)"
  by (cases m) (auto simp: map_ok_def)

text \<open>The four instructions on an initialised snapshot load it as such.\<close>

lemma handlers_load_snapshot:
  "process_register_operator R J S pid (Some (config, noa, ncn, operator, admin, st, snap, rc, payer, sys))
     g1 g2 sg ip port = Inr x \<Longrightarrow> snapshot_abs snap = Some (body snap)"
  "process_update_operator_bn128_keys R J S pid (Some (config, noa, ncn, operator, admin, snap)) g1 g2 sg = Inr y \<Longrightarrow>
     snapshot_abs snap = Some (body snap)"
  "process_remove_operator R J S pid (Some (config, ncn, operator, admin, snap)) = Inr z \<Longrightarrow>
     snapshot_abs snap = Some (body snap)"
  "process_snapshot_vault_operator_delegation R J P pid (Some (config, rc, ncn, operator, vault, vnt, nvt, nos, vod,
     snap, reg)) = Inr w \<Longrightarrow> snapshot_abs snap = Some (body snap)"
  by (auto simp: process_register_operator_def process_update_operator_bn128_keys_def process_remove_operator_def
      process_snapshot_vault_operator_delegation_def dest: snapshot_load_abs)

lemma register_refines:
  assumes "run_ncn_instruction R J P S pid A (RegisterOperator g1 g2 sg) = Inr eff"
    "nx_register_operator A = Some (config, noa, ncn, operator, admin, st, snap, rc, payer, sys)"
  shows "\<exists>op s. snapshot_step S op (body snap) = Inr s \<and> effect_snapshot eff = Some (set_body s snap) \<and>
    snapshot_abs snap = Some (body snap) \<and> authorised R J S A (RegisterOperator g1 g2 sg) op"
proof -
  from assms obtain noa' snap' payer' where h: "process_register_operator R J S pid (Some (config, noa, ncn,
      operator, admin, st, snap, rc, payer, sys)) g1 g2 sg 0 0 = Inr (noa', snap', payer')"
    and eff: "eff = NX_operator noa' snap' payer'" by auto
  from register_operator_handler(1) [OF h] obtain slot i j s where
    "i < of_nat MAX_OPERATORS" "snapshot_step S (SO_register (key_of operator) slot True i j g1) (body snap) = Inr s"
    "snap' = set_body s snap" by blast
  with eff assms(2) register_operator_handler(2,3) [OF h] handlers_load_snapshot(1) [OF h] show ?thesis
    by (intro exI [of _ "SO_register (key_of operator) slot True i j g1"] exI [of _ s])
      (auto simp: effect_snapshot_def authorised_def)
qed

lemma rotate_refines:
  assumes "run_ncn_instruction R J P S pid A (UpdateOperatorBN128Keys g1 g2 sg) = Inr eff"
    "nx_update_keys A = Some (config, noa, ncn, operator, admin, snap)"
  shows "\<exists>op s. snapshot_step S op (body snap) = Inr s \<and> effect_snapshot eff = Some (set_body s snap) \<and>
    snapshot_abs snap = Some (body snap) \<and> authorised R J S A (UpdateOperatorBN128Keys g1 g2 sg) op"
proof -
  from assms obtain noa' snap' where h: "process_update_operator_bn128_keys R J S pid (Some (config, noa, ncn,
      operator, admin, snap)) g1 g2 sg = Inr (noa', snap')" and eff: "eff = NX_keys noa' snap'" by auto
  from update_keys_handler(1) [OF h] obtain s where
    "snapshot_step S (SO_rotate g1 (key_of operator)) (body snap) = Inr s" "snap' = set_body s snap" by blast
  with eff assms(2) update_keys_handler(2,3) [OF h] handlers_load_snapshot(2) [OF h] show ?thesis
    by (intro exI [of _ "SO_rotate g1 (key_of operator)"] exI [of _ s])
      (auto simp: effect_snapshot_def authorised_def)
qed

lemma remove_refines:
  assumes "run_ncn_instruction R J P S pid A RemoveOperator = Inr eff"
    "nx_remove_operator A = Some (config, ncn, operator, admin, snap)"
  shows "\<exists>op s. snapshot_step S op (body snap) = Inr s \<and> effect_snapshot eff = Some (set_body s snap) \<and>
    snapshot_abs snap = Some (body snap) \<and> authorised R J S A RemoveOperator op"
proof -
  from assms obtain snap' where h: "process_remove_operator R J S pid (Some (config, ncn, operator, admin,
      snap)) = Inr snap'" and eff: "eff = NX_snapshot snap'" by auto
  from remove_operator_handler(1) [OF h] obtain s where
    "snapshot_step S (SO_remove (key_of operator)) (body snap) = Inr s" "snap' = set_body s snap" by blast
  with eff assms(2) remove_operator_handler(2) [OF h] handlers_load_snapshot(3) [OF h] show ?thesis
    by (intro exI [of _ "SO_remove (key_of operator)"] exI [of _ s])
      (auto simp: effect_snapshot_def authorised_def)
qed

lemma delegation_refines:
  assumes "run_ncn_instruction R J P S pid A SnapshotVaultOperatorDelegation = Inr eff"
    "nx_snapshot_delegation A = Some (config, rc, ncn, operator, vault, vnt, nvt, nos, vod, snap, reg)"
  shows "\<exists>op s. snapshot_step S op (body snap) = Inr s \<and> effect_snapshot eff = Some (set_body s snap) \<and>
    snapshot_abs snap = Some (body snap) \<and> authorised R J S A SnapshotVaultOperatorDelegation op"
proof -
  from assms obtain snap' where h: "process_snapshot_vault_operator_delegation R J P pid (Some (config, rc, ncn,
      operator, vault, vnt, nvt, nos, vod, snap, reg)) = Inr snap'" and eff: "eff = NX_snapshot snap'" by auto
  from delegation_handler [OF h] obtain slot k w nw s where
    "snapshot_step S (SO_delegate (key_of operator) slot (of_nat k) (sw_new w) (sw_new nw)) (body snap) = Inr s"
    "snap' = set_body s snap" by blast
  with eff handlers_load_snapshot(4) [OF h] show ?thesis
    by (intro exI [of _ "SO_delegate (key_of operator) slot (of_nat k) (sw_new w) (sw_new nw)"] exI [of _ s])
      (auto simp: effect_snapshot_def authorised_def changes_keys_def)
qed

lemma initialize_refines:
  assumes laws: "allocation_laws R"
    and run: "process_initialize_snapshot R J pid (Some (ncn, snap, payer, sys)) = Inr (snap', payer')"
  shows "key_of snap' = key_of snap \<and> snapshot_abs snap = None \<and> snapshot_abs snap' = None"
proof -
  have len: "pd_len (ac_data snap) = 0"
    using run laws by (auto simp: process_initialize_snapshot_def allocation_laws_def)
  have "key_of snap' = key_of snap \<and> pd_first (ac_data snap') = 0"
    using run laws
    by (auto simp: process_initialize_snapshot_def pay_and_create_account_def fund_def payer_transfer_def
        allocation_laws_def Let_def split: if_splits prod.splits)
  with len show ?thesis by (simp add: snapshot_abs_def pod_first_def)
qed

lemma snapshot_size: "SNAPSHOT_SIZE = 197505"
  by (simp add: SNAPSHOT_SIZE_def OPERATOR_SNAPSHOT_SIZE_def)

lemma pay_and_realloc_keeps:
  assumes "pay_and_realloc R pid n payer a k = Inr (payer', m)"
  shows "key_of m = key_of a \<and> body m = body a \<and> (\<exists>i. rt_realloc R i (pd_len (ac_data a), pd_first (ac_data a)) k =
    Inr (pd_len (ac_data m), pd_first (ac_data m)))"
  using assms by (auto simp: pay_and_realloc_def fund_def payer_transfer_def Let_def split: if_splits prod.splits)

lemma grow_keeps:
  assumes laws: "allocation_laws R" and grow: "grow_snapshot R pid n payer a = Inr (m, payer')"
  shows "key_of m = key_of a \<and> body m = body a \<and> snapshot_abs m = snapshot_abs a"
proof (cases "pd_len (ac_data a) < SNAPSHOT_SIZE")
  case True
  let ?k = "min (pd_len (ac_data a) + 10240) SNAPSHOT_SIZE"
  from True grow have "pay_and_realloc R pid n payer a ?k = Inr (payer', m)"
    by (auto simp: grow_snapshot_def get_new_size_def MAX_PERMITTED_DATA_INCREASE_def split: if_splits)
  from pay_and_realloc_keeps [OF this] obtain i where keep: "key_of m = key_of a" "body m = body a"
    and re: "rt_realloc R i (pd_len (ac_data a), pd_first (ac_data a)) ?k = Inr (pd_len (ac_data m), pd_first (ac_data m))"
    by blast
  have m: "pd_len (ac_data m) = ?k \<and> pd_first (ac_data m) = (if pd_len (ac_data a) = 0 then 0 else pd_first (ac_data a))"
    using laws re unfolding allocation_laws_def by blast
  have "?k \<noteq> 0" by (simp add: snapshot_size)
  with m have "pd_len (ac_data m) \<noteq> 0" by metis
  then show ?thesis using keep conjunct2 [OF m] by (simp add: snapshot_abs_def pod_first_def)
next
  case False
  with grow show ?thesis by (simp add: grow_snapshot_def)
qed

lemma realloc_refines:
  assumes laws: "allocation_laws R" and accounts: "nx_realloc_snapshot A = Some (ncn, config, snap, payer, sys)"
    and run: "process_realloc_snapshot R J pid (Some (ncn, config, snap, payer, sys)) = Inr (snap', payer')"
  shows "key_of snap' = key_of snap \<and> (case snapshot_abs snap of
      Some s \<Rightarrow> snapshot_abs snap' = Some s
    | None \<Rightarrow> snapshot_abs snap' = None \<or> (\<exists>t. snapshot_abs snap' = Some t \<and> initial_snapshot R A t))"
proof -
  from run obtain bump m where grow: "grow_snapshot R pid (key_of ncn) payer snap = Inr (m, payer')"
    and fin: "finish_snapshot R (key_of ncn) bump config m = Inr snap'"
    by (auto simp: process_realloc_snapshot_def split: prod.splits if_splits)
  note g = grow_keeps [OF laws grow]
  have init: "initial_snapshot R A (snapshot_initialize s0 (key_of ncn) bump slot (cf_minimum_stake (body config)))"
    if "clock_slot R = Inr slot" for s0 slot
    using accounts that unfolding initial_snapshot_def by blast
  show ?thesis
  proof (cases "snapshot_abs m")
    case (Some s)
    then have "snap' = m" using fin by (auto simp: finish_snapshot_def snapshot_abs_def pod_first_def split: if_splits)
    with Some g show ?thesis by simp
  next
    case None
    then show ?thesis
      using fin g init
      by (auto simp: finish_snapshot_def write_first_def snapshot_abs_def pod_first_def
          dest!: snapshot_views_Inr views_Inr split: if_splits)
  qed
qed

text \<open>
  C10: Every instruction of the program refines the snapshot histories.  It changes no snapshot, or
  the one it was given in one of these ways.  While the account holds no snapshot, only
  \<open>InitializeSnapshot\<close> and \<open>ReallocSnapshot\<close> succeed on it, and what a reallocation makes it hold is
  the initial snapshot of this NCN with the configuration's minimum stake.  Once it holds one, a
  reallocation leaves it alone, and every other instruction makes one step of the histories with the
  signatures and the proof of possession the step needs.
\<close>

theorem instructions_refine_snapshot_steps:
  assumes laws: "allocation_laws R" and run: "run_ncn_instruction R J P S pid A ix = Inr eff"
  shows "case touched_snapshot A ix of
      None \<Rightarrow> effect_snapshot eff = None
    | Some snap \<Rightarrow> \<exists>snap'. effect_snapshot eff = Some snap' \<and> key_of snap' = key_of snap \<and>
        (case snapshot_abs snap of
           None \<Rightarrow> (ix = InitializeSnapshot \<and> snapshot_abs snap' = None) \<or>
             (ix = ReallocSnapshot \<and>
               (snapshot_abs snap' = None \<or> (\<exists>t. snapshot_abs snap' = Some t \<and> initial_snapshot R A t)))
         | Some s \<Rightarrow> (ix = ReallocSnapshot \<and> snapshot_abs snap' = Some s) \<or>
             (\<exists>op t. snapshot_step S op s = Inr t \<and> snap' = set_body t snap \<and> authorised R J S A ix op))"
proof (cases "touched_snapshot A ix")
  case None
  then show ?thesis
    using run by (cases ix) (auto simp: touched_snapshot_def effect_snapshot_def
      process_register_operator_def process_update_operator_bn128_keys_def process_remove_operator_def
      process_snapshot_vault_operator_delegation_def process_initialize_snapshot_def process_realloc_snapshot_def
      split: option.splits)
next
  case (Some snap)
  have four: ?thesis if "\<exists>op s. snapshot_step S op (body snap) = Inr s \<and> effect_snapshot eff = Some (set_body s snap) \<and>
      snapshot_abs snap = Some (body snap) \<and> authorised R J S A ix op"
    using that by (auto simp: Some)
  show ?thesis
  proof (cases ix)
    case (RegisterOperator g1 g2 sg)
    with run Some show ?thesis
      by (intro four) (auto simp: touched_snapshot_def simp del: run_ncn_instruction.simps intro!: register_refines)
  next
    case (UpdateOperatorBN128Keys g1 g2 sg)
    with run Some show ?thesis
      by (intro four) (auto simp: touched_snapshot_def simp del: run_ncn_instruction.simps intro!: rotate_refines)
  next
    case RemoveOperator
    with run Some show ?thesis
      by (intro four) (auto simp: touched_snapshot_def simp del: run_ncn_instruction.simps intro!: remove_refines)
  next
    case SnapshotVaultOperatorDelegation
    with run Some show ?thesis
      by (intro four) (auto simp: touched_snapshot_def simp del: run_ncn_instruction.simps intro!: delegation_refines)
  next
    case InitializeSnapshot
    with run Some show ?thesis
      by (auto simp: touched_snapshot_def effect_snapshot_def dest!: initialize_refines [OF laws])
  next
    case ReallocSnapshot
    with Some obtain ncn config payer sys where A: "nx_realloc_snapshot A = Some (ncn, config, snap, payer, sys)"
      by (auto simp: touched_snapshot_def)
    with run ReallocSnapshot obtain snap' payer' where
      "process_realloc_snapshot R J pid (Some (ncn, config, snap, payer, sys)) = Inr (snap', payer')"
      "eff = NX_new_snapshot snap' payer'" by auto
    with realloc_refines [OF laws A this(1)] Some ReallocSnapshot show ?thesis
      by (simp add: effect_snapshot_def split: option.splits)
  qed (use Some in \<open>simp_all add: touched_snapshot_def\<close>)
qed

subsection \<open>Weighted delegations\<close>

lemma apply_weight_Inr:
  "apply_weight w raw = Inr v \<longleftrightarrow> unat raw * unat w < 2 ^ 128 \<and> v = of_nat (unat raw * unat w div 10000)"
proof -
  have u: "unat (ucast w :: u128) = unat w" by (simp add: unat_ucast_up)
  have d: "raw * ucast w div 10000 = of_nat (unat raw * unat w div 10000)" if "unat raw * unat w < 2 ^ 128"
  proof -
    have "unat (raw * ucast w) = unat raw * unat w"
      using that u by (simp add: unat_word_ariths)
    then have "unat (raw * ucast w div 10000) = unat raw * unat w div 10000" by (simp add: unat_div)
    moreover have "raw * ucast w div 10000 = of_nat (unat (raw * ucast w div 10000))" by simp
    ultimately show ?thesis by simp
  qed
  show ?thesis
    using d u by (auto simp: apply_weight_def checked_mul_def checked_div_def FULL_WEIGHT_BPS_def)
qed

text \<open>
  The stake recorded for a delegation is exactly the delegated amount times the vault's
  weight in basis points, rounded down, now and for the next epoch; it is 0 when a connection is
  not active, it cannot overflow, and the only error left is a cooling amount above the total.
\<close>

theorem weighted_stakes_spec:
  assumes laws: "precise_laws P" and d: "jt_vault_operator_delegation J (ac_data vod) = Inr d"
    and t: "vod_total_security d = Inr t"
  shows "weighted_stakes J P vod is_active weight_bps =
    (if \<not> is_active then Inr (0, 0)
     else if vod_cooling_down_amount d \<le> t
     then Inr (of_nat (unat t * unat weight_bps div 10000),
       of_nat ((unat t - unat (vod_cooling_down_amount d)) * unat weight_bps div 10000))
     else Inl (from_ncn ArithmeticUnderflowError))"
proof -
  have mult: "unat a * unat weight_bps < 2 ^ 128" if "unat a < 2 ^ 64" for a :: u128
  proof -
    have "unat a * unat weight_bps \<le> 2 ^ 64 * 2 ^ 16"
      using that unat_lt_length [of weight_bps] by (intro mult_le_mono) simp_all
    then show ?thesis by simp
  qed
  let ?c = "vod_cooling_down_amount d"
  have t64: "unat (ucast t :: u128) = unat t" "unat t < 2 ^ 64"
    using unat_lt_length [of t] by (simp_all add: unat_ucast_up)
  have sub: "unat (ucast t - ucast ?c :: u128) = unat t - unat ?c" if "?c \<le> t"
    using that by (subst unat_sub) (simp_all add: word_le_nat_alt unat_ucast_up)
  have zero: "apply_weight weight_bps 0 = Inr 0" by (simp add: apply_weight_Inr)
  have tot: "apply_weight weight_bps (ucast t) = Inr (of_nat (unat t * unat weight_bps div 10000))"
    using mult [of "ucast t"] t64 by (simp add: apply_weight_Inr)
  have next_epoch: "apply_weight weight_bps (ucast t - ucast ?c) =
      Inr (of_nat ((unat t - unat ?c) * unat weight_bps div 10000))" if "?c \<le> t"
    using mult [of "ucast t - ucast ?c"] sub [OF that] t64 by (simp add: apply_weight_Inr)
  show ?thesis
    by (simp add: weighted_stakes_def d calculate_stake_weights_eq [OF laws t] zero tot next_epoch)
qed

subsection \<open>Growing the snapshot account\<close>

text \<open>
  \<open>realloc\<close> gives the new length and keeps the first byte; the address of the snapshot and the
  calls' other accounts may differ in every call.
\<close>

record realloc_call =
  rc_runtime :: runtime
  rc_jito :: jito
  rc_ncn :: raw_account
  rc_config :: "config pod_account"
  rc_payer :: account_info
  rc_system :: account_info

definition realloc_step :: "pubkey \<Rightarrow> realloc_call \<Rightarrow> snapshot pod_account \<Rightarrow> program_error + snapshot pod_account" where
  "realloc_step pid c a = map_ok fst (process_realloc_snapshot (rc_runtime c) (rc_jito c) pid
     (Some (rc_ncn c, rc_config c, a, rc_payer c, rc_system c)))"

definition realloc_call_ok :: "realloc_call \<Rightarrow> bool" where
  "realloc_call_ok c \<longleftrightarrow> (\<forall>i len first n len' first'.
     rt_realloc (rc_runtime c) i (len, first) n = Inr (len', first') \<longrightarrow>
       len' = n \<and> (0 < len \<longrightarrow> first' = first))"

definition initialised_by :: "realloc_call \<Rightarrow> snapshot \<Rightarrow> bool" where
  "initialised_by c s \<longleftrightarrow> (\<exists>s0 bump slot. clock_slot (rc_runtime c) = Inr slot \<and>
     s = snapshot_initialize s0 (key_of (rc_ncn c)) bump slot (cf_minimum_stake (body (rc_config c))))"

lemma initialised_byI:
  "clock_slot (rc_runtime c) = Inr slot \<Longrightarrow>
     initialised_by c (snapshot_initialize s0 (key_of (rc_ncn c)) bump slot (cf_minimum_stake (body (rc_config c))))"
  unfolding initialised_by_def by blast

lemma pay_and_realloc_Inr:
  assumes "pay_and_realloc R pid ncn payer a n = Inr (payer', a')"
  shows "body a' = body a \<and> (\<exists>i. rt_realloc R i (pd_len (ac_data a), pd_first (ac_data a)) n =
    Inr (pd_len (ac_data a'), pd_first (ac_data a')))"
  using assms by (auto simp: pay_and_realloc_def Let_def)

lemma realloc_step_Inr:
  assumes ok: "realloc_call_ok c" and step: "realloc_step pid c a = Inr b"
    and len: "0 < pd_len (ac_data a)" "pd_len (ac_data a) \<le> SNAPSHOT_SIZE"
  shows "pd_len (ac_data b) = min (pd_len (ac_data a) + 10240) SNAPSHOT_SIZE \<and>
    (if pd_len (ac_data b) = SNAPSHOT_SIZE \<and> pd_first (ac_data a) \<noteq> discriminator D_Snapshot
     then pd_first (ac_data b) = discriminator D_Snapshot \<and> initialised_by c (body b)
     else pd_first (ac_data b) = pd_first (ac_data a) \<and> body b = body a)"
proof -
  let ?R = "rc_runtime c"
  from step obtain payer bump m where
    mid: "grow_snapshot ?R pid (key_of (rc_ncn c)) (rc_payer c) a = Inr (m, payer)" and
    fin: "finish_snapshot ?R (key_of (rc_ncn c)) bump (rc_config c) m = Inr b"
    by (auto simp: realloc_step_def process_realloc_snapshot_def split: prod.splits if_splits)
  have m: "pd_len (ac_data m) = min (pd_len (ac_data a) + 10240) SNAPSHOT_SIZE \<and>
      pd_first (ac_data m) = pd_first (ac_data a) \<and> body m = body a"
  proof (cases "pd_len (ac_data a) < SNAPSHOT_SIZE")
    case True
    with mid have p: "pay_and_realloc ?R pid (key_of (rc_ncn c)) (rc_payer c) a
        (min (pd_len (ac_data a) + 10240) SNAPSHOT_SIZE) = Inr (payer, m)"
      by (auto simp: grow_snapshot_def get_new_size_def MAX_PERMITTED_DATA_INCREASE_def split: if_splits)
    from pay_and_realloc_Inr [OF p] ok len(1) show ?thesis
      by (auto simp: realloc_call_ok_def)
  next
    case False
    with mid len(2) show ?thesis by (simp add: grow_snapshot_def)
  qed
  from fin m show ?thesis
    by (auto simp: finish_snapshot_def write_first_def intro: initialised_byI
        dest!: snapshot_views_Inr views_Inr split: if_splits)
qed

text \<open>
  The account after the accepted calls \<open>cs\<close>, of 10,240 bytes each: the call that completes the size
  is the last of the first nineteen.
\<close>

definition grown :: "realloc_call list \<Rightarrow> snapshot \<Rightarrow> snapshot pod_account \<Rightarrow> bool" where
  "grown cs s0 a \<longleftrightarrow> pd_len (ac_data a) = min (10240 * Suc (length cs)) SNAPSHOT_SIZE \<and>
     (if 19 \<le> length cs
      then pd_first (ac_data a) = discriminator D_Snapshot \<and> initialised_by (cs ! 18) (body a)
      else pd_first (ac_data a) \<noteq> discriminator D_Snapshot \<and> body a = s0)"

lemma grown_step:
  assumes g: "grown cs s0 a" and c: "realloc_call_ok c" and step: "realloc_step pid c a = Inr b"
  shows "grown (cs @ [c]) s0 b"
proof -
  have len: "0 < pd_len (ac_data a)" "pd_len (ac_data a) \<le> SNAPSHOT_SIZE"
    using g by (auto simp: grown_def snapshot_size)
  note r = realloc_step_Inr [OF c step len]
  have l: "pd_len (ac_data b) = min (10240 * Suc (length (cs @ [c]))) SNAPSHOT_SIZE"
    using r g by (auto simp: grown_def snapshot_size min_def)
  consider "19 \<le> length cs" | "length cs = 18" | "length cs < 18" by linarith
  then show ?thesis
  proof cases
    case 1
    with g have "pd_first (ac_data a) = discriminator D_Snapshot" "initialised_by (cs ! 18) (body a)"
      by (simp_all add: grown_def)
    with r 1 l show ?thesis by (simp add: grown_def nth_append)
  next
    case 2
    with g have "pd_first (ac_data a) \<noteq> discriminator D_Snapshot" by (simp add: grown_def)
    moreover from 2 l have "pd_len (ac_data b) = SNAPSHOT_SIZE" by (simp add: snapshot_size)
    ultimately show ?thesis using r 2 l by (simp add: grown_def nth_append)
  next
    case 3
    with g have "pd_first (ac_data a) \<noteq> discriminator D_Snapshot" "body a = s0" by (simp_all add: grown_def)
    moreover from 3 l have "pd_len (ac_data b) \<noteq> SNAPSHOT_SIZE" by (simp add: snapshot_size)
    ultimately show ?thesis using r 3 l by (simp add: grown_def)
  qed
qed

lemma grown_run:
  "grown cs s0 a \<Longrightarrow> list_all realloc_call_ok ds \<Longrightarrow>
     grown (cs @ accepted (realloc_step pid) ds a) s0 (run_all (realloc_step pid) ds a)"
proof (induction ds arbitrary: cs a)
  case Nil
  then show ?case by simp
next
  case (Cons d ds)
  show ?case
  proof (cases "realloc_step pid d a")
    case (Inl e)
    with Cons show ?thesis by simp
  next
    case (Inr b)
    with Cons.prems have "grown (cs @ [d]) s0 b" by (intro grown_step [of cs s0 a d pid b]) auto
    from Cons.IH [OF this] Cons.prems Inr show ?thesis by simp
  qed
qed

text \<open>A completed account is left as it is.\<close>

lemma realloc_complete:
  assumes "pd_len (ac_data a) = SNAPSHOT_SIZE" "pd_first (ac_data a) = discriminator D_Snapshot"
  shows "run_all (realloc_step pid) ds a = a"
proof -
  have "b = a" if "realloc_step pid d a = Inr b" for d b
    using that assms
    by (auto simp: realloc_step_def process_realloc_snapshot_def grow_snapshot_def finish_snapshot_def
        split: prod.splits if_splits)
  then show ?thesis by (induction ds) (auto split: sum.splits)
qed

text \<open>
  C36: The snapshot account becomes usable with exactly the nineteenth successful reallocation after
  its creation.  Each adds 10,240 bytes until the full 197,505 are reached; before the nineteenth the
  discriminator is not set and the content is untouched; the nineteenth initialises it, with the NCN,
  the clock and the configuration of that call; and whatever reallocations follow, the account stays
  exactly as it is.
\<close>

theorem snapshot_initialised_after_19:
  assumes ok: "list_all realloc_call_ok cs"
    and fresh: "pd_len (ac_data a) = 10240" "pd_first (ac_data a) \<noteq> discriminator D_Snapshot"
  shows "let done_calls = accepted (realloc_step pid) cs a; b = run_all (realloc_step pid) cs a in
    pd_len (ac_data b) = min (10240 * (length done_calls + 1)) 197505 \<and>
    (if 19 \<le> length done_calls
     then pd_first (ac_data b) = discriminator D_Snapshot \<and> initialised_by (done_calls ! 18) (body b) \<and>
       (\<forall>ds. run_all (realloc_step pid) (cs @ ds) a = b)
     else pd_first (ac_data b) \<noteq> discriminator D_Snapshot \<and> body b = body a)"
proof -
  have "grown [] (body a) a" using fresh by (simp add: grown_def snapshot_size)
  from grown_run [OF this ok, of pid]
  have g: "grown (accepted (realloc_step pid) cs a) (body a) (run_all (realloc_step pid) cs a)" by simp
  then have "run_all (realloc_step pid) (cs @ ds) a = run_all (realloc_step pid) cs a"
    if "19 \<le> length (accepted (realloc_step pid) cs a)" for ds
    using that realloc_complete [of "run_all (realloc_step pid) cs a" pid ds]
    by (simp add: run_all_append grown_def snapshot_size)
  with g show ?thesis by (simp add: grown_def snapshot_size Let_def split: if_splits)
qed

subsection \<open>A removed operator stays out\<close>

text \<open>
  \<open>assign\<close> gives the account to the program it is asked to, and \<open>load_system_account\<close> only
  accepts accounts of the system program.
\<close>

definition ownership_laws :: "runtime \<Rightarrow> bool" where
  "ownership_laws R \<longleftrightarrow>
     (\<forall>i p seeds q. rt_assign R i p seeds = Inr q \<longrightarrow> q = p) \<and>
     (\<forall>i n w. rt_load_system_account R i n w = Inr () \<longrightarrow> ai_owner i = rt_system_program_id R)"

lemma registered_account_owner:
  assumes "ownership_laws R"
    and "process_register_operator R J S pid (Some (config, noa, ncn, operator, admin, st, snap, rc, payer, sys))
      g1 g2 sg ip port = Inr (noa', snap', payer')"
  shows "ai_owner (ac_info noa') = pid \<and> key_of noa' = fst (ncn_operator_account_find R pid (key_of ncn) (key_of operator))"
  using assms
  by (auto simp: ownership_laws_def process_register_operator_def pay_and_create_account_def Let_def
      fund_def payer_transfer_def write_first_def split: if_splits prod.splits)

text \<open>
  The operators' accounts on the chain: owner and content by address.  An instruction gets the
  accounts as they are stored, and a successful one writes back what it changed; only the owning
  program can change an account, so other programs' instructions leave these alone.
\<close>

type_synonym operator_store = "pubkey \<Rightarrow> pubkey \<times> ncn_operator_account pod"

record 'p ncn_call =
  nc_runtime :: runtime
  nc_jito :: jito
  nc_precise :: "'p precise_ops"
  nc_syscalls :: syscalls
  nc_accounts :: ncn_accounts
  nc_instruction :: ncn_instruction

definition touched_operator_account :: "ncn_accounts \<Rightarrow> ncn_instruction \<Rightarrow> ncn_operator_account pod_account option" where
  "touched_operator_account A ix = (case ix of
     RegisterOperator g1 g2 sg \<Rightarrow>
       map_option (\<lambda>(config, noa, rest). noa) (nx_register_operator A)
   | UpdateOperatorBN128Keys g1 g2 sg \<Rightarrow> map_option (\<lambda>(config, noa, rest). noa) (nx_update_keys A)
   | UpdateOperatorIpPort ip port \<Rightarrow> map_option (\<lambda>(config, noa, rest). noa) (nx_update_ip_port A)
   | _ \<Rightarrow> None)"

definition effect_operator_account :: "ncn_effect \<Rightarrow> ncn_operator_account pod_account option" where
  "effect_operator_account eff = (case eff of
     NX_operator a s p \<Rightarrow> Some a | NX_keys a s \<Rightarrow> Some a | NX_operator_account a \<Rightarrow> Some a | _ \<Rightarrow> None)"

definition as_stored :: "operator_store \<Rightarrow> ncn_operator_account pod_account \<Rightarrow> bool" where
  "as_stored W a \<longleftrightarrow> W (key_of a) = (ai_owner (ac_info a), ac_data a)"

definition store_step :: "pubkey \<Rightarrow> 'p ncn_call \<Rightarrow> operator_store \<Rightarrow> program_error + operator_store" where
  "store_step pid c W =
     (if (case touched_operator_account (nc_accounts c) (nc_instruction c) of None \<Rightarrow> True | Some a \<Rightarrow> as_stored W a)
      then map_ok (\<lambda>eff. case effect_operator_account eff of None \<Rightarrow> W
          | Some a \<Rightarrow> W(key_of a := (ai_owner (ac_info a), ac_data a)))
        (run_ncn_instruction (nc_runtime c) (nc_jito c) (nc_precise c) (nc_syscalls c) pid (nc_accounts c)
          (nc_instruction c))
      else Inl PE_InvalidAccountData)"

text \<open>Which operator a call registers, and with which NCN.\<close>

definition registers :: "'p ncn_call \<Rightarrow> (pubkey \<times> pubkey) option" where
  "registers c = (case nc_instruction c of
     RegisterOperator g1 g2 sg \<Rightarrow>
       map_option (\<lambda>(config, noa, ncn, operator, rest). (key_of ncn, key_of operator)) (nx_register_operator (nc_accounts c))
   | _ \<Rightarrow> None)"

definition same_chain :: "(bytes list \<Rightarrow> pubkey \<Rightarrow> pubkey \<times> u8) \<Rightarrow> pubkey \<Rightarrow> 'p ncn_call \<Rightarrow> bool" where
  "same_chain derive pid c \<longleftrightarrow> ownership_laws (nc_runtime c) \<and> rt_system_program_id (nc_runtime c) \<noteq> pid \<and>
     rt_find_program_address (nc_runtime c) = derive"

definition operator_address :: "(bytes list \<Rightarrow> pubkey \<Rightarrow> pubkey \<times> u8) \<Rightarrow> pubkey \<Rightarrow> pubkey \<times> pubkey \<Rightarrow> pubkey" where
  "operator_address derive pid q = fst (derive (ncn_operator_account_seeds (fst q) (snd q)) pid)"

lemma operator_address_find:
  "rt_find_program_address R = derive \<Longrightarrow>
     fst (ncn_operator_account_find R pid n p) = operator_address derive pid (n, p)"
  by (simp add: ncn_operator_account_find_def operator_address_def Let_def split: prod.split)

text \<open>A registration makes its account the program's, and needs it to be the system program's.\<close>

lemma registration_step:
  assumes c: "same_chain derive pid c" and step: "store_step pid c W = Inr W'" and reg: "registers c = Some q"
  shows "fst (W (operator_address derive pid q)) \<noteq> pid \<and>
    W' = W(operator_address derive pid q := W' (operator_address derive pid q)) \<and>
    fst (W' (operator_address derive pid q)) = pid"
proof -
  let ?R = "nc_runtime c"
  from reg obtain g1 g2 sg config noa ncn operator admin st snap rc payer sys where
    ix: "nc_instruction c = RegisterOperator g1 g2 sg"
    and A: "nx_register_operator (nc_accounts c) = Some (config, noa, ncn, operator, admin, st, snap, rc, payer, sys)"
    and q: "q = (key_of ncn, key_of operator)"
    by (auto simp: registers_def split: ncn_instruction.splits)
  from step have stored: "as_stored W noa"
    by (auto simp: store_step_def touched_operator_account_def ix A split: if_splits)
  from step obtain noa' snap' payer' where
    run: "process_register_operator ?R (nc_jito c) (nc_syscalls c) pid (Some (config, noa, ncn, operator, admin,
      st, snap, rc, payer, sys)) g1 g2 sg 0 0 = Inr (noa', snap', payer')"
    and W': "W' = W(key_of noa' := (ai_owner (ac_info noa'), ac_data noa'))"
    by (auto simp: store_step_def ix A effect_operator_account_def split: if_splits)
  have laws: "ownership_laws ?R" and addr: "fst (ncn_operator_account_find ?R pid (key_of ncn) (key_of operator)) =
      operator_address derive pid q"
    using c by (simp_all add: same_chain_def operator_address_find q)
  have "ai_owner (ac_info noa) = rt_system_program_id ?R"
    using register_operator_handler(4) [OF run] laws unfolding ownership_laws_def by blast
  moreover have "key_of noa = operator_address derive pid q" using register_operator_handler(5) [OF run] addr by simp
  ultimately show ?thesis
    using stored registered_account_owner [OF laws run] c W' addr by (simp add: as_stored_def same_chain_def)
qed

text \<open>Every other instruction leaves the owners as they are.\<close>

lemma no_accounts_given:
  "process_register_operator R J S pid None g1 g2 sg ip port = Inl PE_NotEnoughAccountKeys"
  "process_update_operator_bn128_keys R J S pid None g1 g2 sg = Inl PE_NotEnoughAccountKeys"
  "process_update_operator_ip_port R J pid None ip port = Inl PE_NotEnoughAccountKeys"
  by (simp_all add: process_register_operator_def process_update_operator_bn128_keys_def
      process_update_operator_ip_port_def)

lemma untouched_operator_account:
  "run_ncn_instruction R J P S pid A ix = Inr eff \<Longrightarrow> touched_operator_account A ix = None \<Longrightarrow>
     effect_operator_account eff = None"
  by (cases ix) (auto simp: touched_operator_account_def effect_operator_account_def no_accounts_given)

lemma ip_port_keeps_account:
  assumes "process_update_operator_ip_port R J pid (Some (config, noa, ncn, operator, admin)) ip port = Inr noa'"
  shows "\<exists>a. noa' = set_body a noa"
  using assms by (auto simp: process_update_operator_ip_port_def split: if_splits)

lemma touched_operator_account_kept:
  assumes "run_ncn_instruction R J P S pid A ix = Inr eff" "touched_operator_account A ix = Some noa"
    and "\<forall>g1 g2 sg. ix \<noteq> RegisterOperator g1 g2 sg"
  shows "\<exists>a. effect_operator_account eff = Some (set_body a noa)"
proof (cases ix)
  case (UpdateOperatorBN128Keys g1 g2 sg)
  with assms obtain config ncn operator admin snap noa' snap' where
    "process_update_operator_bn128_keys R J S pid (Some (config, noa, ncn, operator, admin, snap)) g1 g2 sg = Inr (noa', snap')"
    "eff = NX_keys noa' snap'"
    by (auto simp: touched_operator_account_def)
  with update_keys_handler(6) [OF this(1)] show ?thesis by (auto simp: effect_operator_account_def)
next
  case (UpdateOperatorIpPort ip port)
  with assms obtain config ncn operator admin noa' where
    "process_update_operator_ip_port R J pid (Some (config, noa, ncn, operator, admin)) ip port = Inr noa'"
    "eff = NX_operator_account noa'"
    by (auto simp: touched_operator_account_def)
  with ip_port_keeps_account [OF this(1)] show ?thesis by (auto simp: effect_operator_account_def)
qed (use assms in \<open>simp_all add: touched_operator_account_def\<close>)

lemma other_step:
  assumes step: "store_step pid c W = Inr W'" and reg: "registers c = None"
  shows "fst (W' k) = fst (W k)"
proof -
  let ?A = "nc_accounts c" and ?ix = "nc_instruction c"
  from step obtain eff where run: "run_ncn_instruction (nc_runtime c) (nc_jito c) (nc_precise c) (nc_syscalls c) pid
      ?A ?ix = Inr eff"
    and W': "W' = (case effect_operator_account eff of None \<Rightarrow> W
      | Some a \<Rightarrow> W(key_of a := (ai_owner (ac_info a), ac_data a)))"
    and stored: "case touched_operator_account ?A ?ix of None \<Rightarrow> True | Some a \<Rightarrow> as_stored W a"
    unfolding store_step_def map_ok_Inr by (auto split: if_splits)
  show ?thesis
  proof (cases "touched_operator_account ?A ?ix")
    case None
    with untouched_operator_account [OF run] W' show ?thesis by simp
  next
    case (Some noa)
    with reg have "\<forall>g1 g2 sg. ?ix \<noteq> RegisterOperator g1 g2 sg"
      by (auto simp: registers_def touched_operator_account_def)
    from touched_operator_account_kept [OF run Some this] obtain a where
      "effect_operator_account eff = Some (set_body a noa)" by blast
    with W' stored Some show ?thesis by (simp add: as_stored_def)
  qed
qed

lemma owned_never_registers:
  assumes "list_all (same_chain derive pid) cs" "fst (W (operator_address derive pid q)) = pid"
  shows "filter (\<lambda>c. registers c = Some q) (accepted (store_step pid) cs W) = []"
  using assms
proof (induction cs arbitrary: W)
  case Nil
  then show ?case by simp
next
  case (Cons c cs)
  show ?case
  proof (cases "store_step pid c W")
    case (Inl e)
    with Cons show ?thesis by simp
  next
    case (Inr W')
    have reg: "registers c = Some q' \<Longrightarrow> fst (W (operator_address derive pid q')) \<noteq> pid \<and>
        W' = W(operator_address derive pid q' := W' (operator_address derive pid q')) \<and>
        fst (W' (operator_address derive pid q')) = pid" for q'
      using Cons.prems by (intro registration_step [OF _ Inr]) simp_all
    have "registers c \<noteq> Some q" using reg [of q] Cons.prems by auto
    moreover have "fst (W' (operator_address derive pid q)) = pid"
    proof (cases "registers c")
      case None
      with other_step [OF Inr] Cons.prems show ?thesis by simp
    next
      case (Some q')
      note r = reg [OF Some]
      show ?thesis
      proof (cases "operator_address derive pid q = operator_address derive pid q'")
        case True
        with r show ?thesis by simp
      next
        case False
        with r have "W' (operator_address derive pid q) = W (operator_address derive pid q)" by (metis fun_upd_other)
        with Cons.prems show ?thesis by simp
      qed
    qed
    ultimately show ?thesis using Cons Inr by simp
  qed
qed

text \<open>
  C37: Registration is once for ever: over any sequence of instructions on the operators' accounts,
  by anyone, removals, key rotations and changes of address included, at most one registration of an
  operator with an NCN is accepted.
\<close>

theorem registration_is_once:
  assumes "list_all (same_chain derive pid) cs"
  shows "length (filter (\<lambda>c. registers c = Some (ncn, operator)) (accepted (store_step pid) cs W)) \<le> 1"
  using assms
proof (induction cs arbitrary: W)
  case Nil
  then show ?case by simp
next
  case (Cons c cs)
  show ?case
  proof (cases "store_step pid c W")
    case (Inl e)
    with Cons show ?thesis by simp
  next
    case (Inr W')
    show ?thesis
    proof (cases "registers c = Some (ncn, operator)")
      case True
      with registration_step [OF _ Inr] Cons.prems have "fst (W' (operator_address derive pid (ncn, operator))) = pid"
        by simp
      from owned_never_registers [where W = W' and cs = cs, OF _ this] Cons.prems Inr True show ?thesis by simp
    next
      case False
      with Cons Inr show ?thesis by simp
    qed
  qed
qed

subsection \<open>Concrete instructions\<close>

lemma sample_proof: "register_operator_proof tri_syscalls 1 11 1 1 (bg_e1 tri_group 1) = Inr ()"
proof -
  have g2: "sc_g2_decompress tri_syscalls 1 = Some (bg_e2 tri_group 1)"
    by (simp add: tri_syscalls_def tri_group_def)
  have "verify_operator_registeration tri_syscalls (G2Point (bg_e2 tri_group 1)) (G1Point (bg_e1 tri_group 1)) 1 d =
      Inr ()" for d
    using bls_verify_registration [OF tri_laws tri_hash sample_point(1), of 1 1] by (simp add: Let_def)
  then show ?thesis by (simp add: register_operator_proof_def g2_decompress_def g2)
qed

definition sample_register_accounts where
  "sample_register_accounts = (sample_config_account, sample_new_account 84 ncn_operator_account_default,
     sample_raw 1 1001, sample_raw 11 1001, sample_info 9 0, sample_raw 20 1001,
     sample_pod 40 SNAPSHOT_SIZE (discriminator D_Snapshot) history_0, sample_raw 6 1001, sample_info 77 0,
     sample_info 0 0)"

lemma sample_register:
  "\<exists>noa. process_register_operator sample_runtime sample_jito tri_syscalls 42 (Some sample_register_accounts)
     1 1 (bg_e1 tri_group 1) 0 0 =
   Inr (noa, sample_pod 40 SNAPSHOT_SIZE (discriminator D_Snapshot) history_1, sample_info 77 0)"
proof -
  have reg: "snapshot_register tri_syscalls 11 50 True 0 3 1 history_0 = Inr history_1"
    using history_1 by (simp add: snapshot_step_def)
  have sizes: "NCN_OPERATOR_ACCOUNT_SIZE \<le> 10240" "NCN_OPERATOR_ACCOUNT_SIZE \<noteq> 0" "SNAPSHOT_SIZE \<noteq> 0"
    "CONFIG_SIZE \<noteq> 0"
    by (simp_all add: NCN_OPERATOR_ACCOUNT_SIZE_def SNAPSHOT_SIZE_def CONFIG_SIZE_def)
  have conn: "operator_connection_active sample_jito a 50 100 = Inr True" for a
    by (simp add: operator_connection_active_def toggled_on_def)
  have epoch: "load_ncn_epoch sample_jito rc 50 None = Inr (0, 100)" for rc
    by (simp add: load_ncn_epoch_now) 
  show ?thesis
    using reg sizes sample_proof
    by (simp add: process_register_operator_def sample_register_accounts_def sample_config_account_def
        sample_loads conn epoch operator_account_view_def snapshot_view_def MAX_OPERATORS_def Let_def)
qed

definition sample_ncn_accounts :: ncn_accounts where
  "sample_ncn_accounts = \<lparr>nx_initialize_config = None, nx_initialize_vault_registry = None,
     nx_register_vault = None, nx_register_operator = Some sample_register_accounts, nx_update_keys = None,
     nx_remove_operator = None, nx_update_ip_port = None, nx_initialize_snapshot = None,
     nx_realloc_snapshot = None, nx_snapshot_delegation = None, nx_verify_certificate = None,
     nx_set_parameters = None, nx_set_new_admin = None, nx_register_st_mint = None\<rparr>"

lemma sample_allocation: "allocation_laws sample_runtime"
  by (auto simp: allocation_laws_def split: if_splits)

theorem instructions_refine_snapshot_steps_witness:
  "\<exists>op s. snapshot_step tri_syscalls op history_0 = Inr s \<and>
     authorised sample_runtime sample_jito tri_syscalls sample_ncn_accounts
       (RegisterOperator 1 1 (bg_e1 tri_group 1)) op"
proof -
  let ?ix = "RegisterOperator 1 1 (bg_e1 tri_group 1)"
  let ?snap = "sample_pod 40 SNAPSHOT_SIZE (discriminator D_Snapshot) history_0"
  obtain eff where eff: "run_ncn_instruction sample_runtime sample_jito precise_u128 tri_syscalls 42
      sample_ncn_accounts ?ix = Inr eff"
    using sample_register by (auto simp: sample_ncn_accounts_def map_ok_def)
  have "touched_snapshot sample_ncn_accounts ?ix = Some ?snap"
    by (simp add: touched_snapshot_def sample_ncn_accounts_def sample_register_accounts_def)
  moreover have "snapshot_abs ?snap = Some history_0"
    by (simp add: snapshot_abs_def snapshot_size)
  ultimately show ?thesis
    using instructions_refine_snapshot_steps [OF sample_allocation eff] by auto
qed

theorem weighted_stakes_spec_witness:
  "weighted_stakes sample_jito precise_u128 (sample_raw 3 1002) True 5000 = Inr (500, 450)"
  using weighted_stakes_spec [OF precise_u128_laws, of sample_jito "sample_raw 3 1002"
      "\<lparr>vod_total_security = Inr 1000, vod_cooling_down_amount = 100\<rparr>" 1000 True 5000]
  by simp

definition sample_realloc_call :: realloc_call where
  "sample_realloc_call = \<lparr>rc_runtime = sample_runtime, rc_jito = sample_jito, rc_ncn = sample_raw 1 1001,
     rc_config = sample_config_account, rc_payer = sample_info 77 0, rc_system = sample_info 0 0\<rparr>"

lemma sample_realloc_ok: "realloc_call_ok sample_realloc_call"
  by (simp add: realloc_call_ok_def sample_realloc_call_def)

lemma sample_realloc:
  "\<exists>b. realloc_step 42 sample_realloc_call (sample_pod 40 10240 0 sample_snapshot) = Inr b"
proof -
  have size: "SNAPSHOT_SIZE = 197505" by (simp add: SNAPSHOT_SIZE_def OPERATOR_SNAPSHOT_SIZE_def)
  have rent: "saturating_sub (20480 :: u64) 1000000 = 0" by (simp add: saturating_sub_def)
  show ?thesis
    by (simp add: realloc_step_def sample_realloc_call_def process_realloc_snapshot_def map_ok_def
        sample_loads sample_config_account_def CONFIG_SIZE_def grow_snapshot_def finish_snapshot_def size
        get_new_size_def MAX_PERMITTED_DATA_INCREASE_def pay_and_realloc_def fund_def rent Let_def)
qed

theorem snapshot_initialised_after_19_witness:
  "pd_len (ac_data (run_all (realloc_step 42) [sample_realloc_call] (sample_pod 40 10240 0 sample_snapshot))) = 20480"
  using snapshot_initialised_after_19 [of "[sample_realloc_call]" "sample_pod 40 10240 0 sample_snapshot" 42]
    sample_realloc sample_realloc_ok by (auto simp: Let_def)

text \<open>The registration, and a second one after the operator was removed from the snapshot.\<close>

definition sample_ncn_call where
  "sample_ncn_call noa s = \<lparr>nc_runtime = sample_runtime, nc_jito = sample_jito, nc_precise = precise_u128,
     nc_syscalls = tri_syscalls,
     nc_accounts = sample_ncn_accounts\<lparr>nx_register_operator := Some (sample_config_account, noa,
       sample_raw 1 1001, sample_raw 11 1001, sample_info 9 0, sample_raw 20 1001,
       sample_pod 40 SNAPSHOT_SIZE (discriminator D_Snapshot) s, sample_raw 6 1001, sample_info 77 0, sample_info 0 0)\<rparr>,
     nc_instruction = RegisterOperator 1 1 (bg_e1 tri_group 1)\<rparr>"

definition sample_store :: operator_store where
  "sample_store = (\<lambda>_. (0, ac_data (sample_new_account 84 ncn_operator_account_default)))"

theorem registration_is_once_witness:
  "\<exists>noa' W'. store_step 42 (sample_ncn_call (sample_new_account 84 ncn_operator_account_default) history_0) sample_store =
       Inr W' \<and> as_stored W' noa' \<and> ai_owner (ac_info noa') = 42 \<and>
     length (filter (\<lambda>c. registers c = Some (1, 11)) (accepted (store_step 42)
       [sample_ncn_call (sample_new_account 84 ncn_operator_account_default) history_0, sample_ncn_call noa' history_2]
       sample_store)) = 1"
proof -
  let ?c = "sample_ncn_call (sample_new_account 84 ncn_operator_account_default) history_0"
  obtain noa' where noa': "process_register_operator sample_runtime sample_jito tri_syscalls 42
      (Some sample_register_accounts) 1 1 (bg_e1 tri_group 1) 0 0 =
      Inr (noa', sample_pod 40 SNAPSHOT_SIZE (discriminator D_Snapshot) history_1, sample_info 77 0)"
    using sample_register by blast
  have laws: "ownership_laws sample_runtime" by (auto simp: ownership_laws_def split: if_splits)
  have chain: "same_chain (rt_find_program_address sample_runtime) 42 (sample_ncn_call noa s)" for noa s
    using laws by (simp add: same_chain_def sample_ncn_call_def)
  have reg: "registers (sample_ncn_call noa s) = Some (1, 11)" for noa s
    by (simp add: registers_def sample_ncn_call_def)
  define W' where "W' = sample_store(key_of noa' := (ai_owner (ac_info noa'), ac_data noa'))"
  have "store_step 42 ?c sample_store = Inr W'"
    using noa' by (simp add: store_step_def touched_operator_account_def sample_ncn_call_def as_stored_def
        sample_store_def sample_new_account_def sample_register_accounts_def map_ok_def effect_operator_account_def W'_def)
  moreover have "as_stored W' noa'" by (simp add: as_stored_def W'_def)
  moreover have "ai_owner (ac_info noa') = 42"
    using registered_account_owner [OF laws noa' [unfolded sample_register_accounts_def]] by simp
  moreover have "length (filter (\<lambda>c. registers c = Some (1, 11)) (accepted (store_step 42)
      [?c, sample_ncn_call noa' history_2] sample_store)) \<le> 1"
    by (rule registration_is_once [where derive = "rt_find_program_address sample_runtime"]) (simp add: chain)
  ultimately show ?thesis by (intro exI [of _ noa'] exI [of _ W']) (auto simp: reg split: sum.splits)
qed

end
