(* ===== verification/Wire.thy ===== *)
theory Wire
  imports Borsh Accounts
begin

text \<open>
  The wire types of the settlement program (\<open>settlement_core/src/payload.rs\<close> and
  \<open>settlement_core/src/instruction.rs\<close>): the signed payload with its digest, the event data,
  the instruction arguments and the builders of the four instructions.
\<close>

subsection \<open>The payload\<close>

datatype state_update =
    Store (su_data: bytes32)
  | Event (su_discriminant: bytes8) (su_payload: bytes)

record settlement_payload =
  sp_transition_index :: u64
  sp_state_pda :: bytes32
  sp_ix_discriminator :: bytes8
  sp_updates :: "state_update list"

fun enc_state_update :: "state_update \<Rightarrow> bytes" where
  "enc_state_update (Store root) = 0 # be_bytes 32 root"
| "enc_state_update (Event discriminant payload) =
     1 # enc_pair (be_bytes 8) enc_blob (discriminant, payload)"

definition dec_state_update :: "bytes \<Rightarrow> (state_update \<times> bytes) option" where
  "dec_state_update bs = (case bs of [] \<Rightarrow> None
     | tag # r \<Rightarrow>
         if tag = 0 then dec_map Store (dec_be 32) r
         else if tag = 1 then dec_map (\<lambda>(k, p). Event k p) (dec_pair (dec_be 8) dec_blob) r
         else None)"

definition wf_state_update :: "state_update \<Rightarrow> bool" where
  "wf_state_update u = (case u of Store root \<Rightarrow> True | Event k p \<Rightarrow> wf_blob p)"

definition payload_fields :: "settlement_payload \<Rightarrow> u64 \<times> bytes32 \<times> bytes8 \<times> state_update list" where
  "payload_fields p = (sp_transition_index p, sp_state_pda p, sp_ix_discriminator p, sp_updates p)"

definition payload_of :: "u64 \<times> bytes32 \<times> bytes8 \<times> state_update list \<Rightarrow> settlement_payload" where
  "payload_of = (\<lambda>(i, s, d, us). \<lparr>sp_transition_index = i, sp_state_pda = s,
     sp_ix_discriminator = d, sp_updates = us\<rparr>)"

definition enc_settlement_payload :: "settlement_payload \<Rightarrow> bytes" where
  "enc_settlement_payload p =
     enc_pair (le_bytes 8) (enc_pair (be_bytes 32) (enc_pair (be_bytes 8) (enc_vec enc_state_update)))
       (payload_fields p)"

definition dec_settlement_payload :: "bytes \<Rightarrow> (settlement_payload \<times> bytes) option" where
  "dec_settlement_payload =
     dec_map payload_of (dec_pair (dec_le 8) (dec_pair (dec_be 32) (dec_pair (dec_be 8)
       (dec_vec dec_state_update))))"

definition wf_settlement_payload :: "settlement_payload \<Rightarrow> bool" where
  "wf_settlement_payload p \<longleftrightarrow> wf_vec wf_state_update (sp_updates p)"

interpretation event_codec: codec_pair "be_bytes 8 :: bytes8 \<Rightarrow> bytes" "dec_be 8" any enc_blob dec_blob wf_blob
  by (intro codec_pair.intro codec_rules)

interpretation update_codec: codec enc_state_update dec_state_update wf_state_update
proof
  fix u r
  assume "wf_state_update u"
  then show "dec_state_update (enc_state_update u @ r) = Some (u, r)"
  proof (cases u)
    case (Store root)
    then show ?thesis
      using codec.dec_enc [OF word_codecs(7), of root r] by (simp add: dec_state_update_def dec_map_def)
  next
    case (Event k p)
    with \<open>wf_state_update u\<close> have "wf_pair any wf_blob (k, p)"
      by (simp add: wf_state_update_def wf_pair_def)
    with Event event_codec.both.dec_enc [of "(k, p)" r] show ?thesis
      by (simp add: dec_state_update_def dec_map_def)
  qed
next
  fix bs r u
  assume "dec_state_update bs = Some (u, r)"
  then show "wf_state_update u \<and> bs = enc_state_update u @ r"
    by (auto simp: dec_state_update_def wf_state_update_def dec_map_def wf_pair_def
        split: list.splits if_splits option.splits
        dest: codec.dec_canonical [OF word_codecs(7)] event_codec.both.dec_canonical)
qed

lemmas update_codec_rule [codec_rules] = update_codec.codec_axioms

interpretation updates_codec: vec_codec enc_state_update dec_state_update wf_state_update
  by (intro vec_codec.intro codec_rules)

interpretation payload_fields: codec_image
  "enc_pair (le_bytes 8) (enc_pair (be_bytes 32) (enc_pair (be_bytes 8) (enc_vec enc_state_update)))"
  "dec_pair (dec_le 8) (dec_pair (dec_be 32) (dec_pair (dec_be 8) (dec_vec dec_state_update)))"
  "wf_pair any (wf_pair any (wf_pair any (wf_vec wf_state_update)))" payload_of payload_fields
  by (intro codec_image.intro codec_rules codec_image_axioms.intro)
    (auto simp: payload_of_def payload_fields_def)

interpretation payload_codec: codec enc_settlement_payload dec_settlement_payload wf_settlement_payload
  using payload_fields.codec_of_image
  by (simp add: enc_settlement_payload_def [abs_def] dec_settlement_payload_def
      wf_settlement_payload_def [abs_def] wf_pair_def payload_fields_def)

lemmas payload_codec_rule [codec_rules] = payload_codec.codec_axioms

text \<open>\<open>SettlementPayload::digest\<close>.\<close>

definition payload_digest :: "syscalls \<Rightarrow> settlement_payload \<Rightarrow> settlement_error + message_digest" where
  "payload_digest S p =
     try_bind (try_to_vec enc_settlement_payload wf_settlement_payload SE_SerializationError p) (\<lambda>bytes.
     Inr (MessageDigest (sc_sha256 S bytes)))"

subsection \<open>Events\<close>

definition STORY_META_DISCRIMINANT :: bytes8 where "STORY_META_DISCRIMINANT = 0xcca755e2a2a25bed"

record story_meta =
  sm_story_sha256 :: bytes32
  sm_buffer :: pubkey
  sm_len :: u32

definition story_meta_fields :: "story_meta \<Rightarrow> bytes32 \<times> pubkey \<times> u32" where
  "story_meta_fields m = (sm_story_sha256 m, sm_buffer m, sm_len m)"

definition story_meta_of :: "bytes32 \<times> pubkey \<times> u32 \<Rightarrow> story_meta" where
  "story_meta_of = (\<lambda>(h, b, l). \<lparr>sm_story_sha256 = h, sm_buffer = b, sm_len = l\<rparr>)"

definition enc_story_meta :: "story_meta \<Rightarrow> bytes" where
  "enc_story_meta m = enc_pair (be_bytes 32) (enc_pair (be_bytes 32) (le_bytes 4)) (story_meta_fields m)"

definition dec_story_meta :: "bytes \<Rightarrow> (story_meta \<times> bytes) option" where
  "dec_story_meta = dec_map story_meta_of (dec_pair (dec_be 32) (dec_pair (dec_be 32) (dec_le 4)))"

interpretation story_meta_codec: codec_image
  "enc_pair (be_bytes 32) (enc_pair (be_bytes 32) (le_bytes 4))"
  "dec_pair (dec_be 32) (dec_pair (dec_be 32) (dec_le 4))"
  "wf_pair any (wf_pair any any)" story_meta_of story_meta_fields
  by (intro codec_image.intro codec_rules codec_image_axioms.intro)
    (auto simp: story_meta_of_def story_meta_fields_def)

lemma story_meta_codec [codec_rules]: "codec enc_story_meta dec_story_meta any"
  using story_meta_codec.codec_of_image
  by (simp add: enc_story_meta_def [abs_def] dec_story_meta_def wf_pair_def)

definition MAX_EVENT_CPI_DATA_LEN :: nat where "MAX_EVENT_CPI_DATA_LEN = 10 * 1024"

definition event_cpi_data :: "bytes8 \<Rightarrow> bytes \<Rightarrow> bytes" where
  "event_cpi_data discriminant payload = be_bytes 8 discriminant @ payload"

subsection \<open>Instruction arguments\<close>

definition INITIALIZE_STATE_DISCRIMINATOR :: bytes8 where "INITIALIZE_STATE_DISCRIMINATOR = 0xcecc93832031f72a"
definition WRITE_BUFFER_DISCRIMINATOR :: bytes8 where "WRITE_BUFFER_DISCRIMINATOR = 0x4d1aa94f1d0c0221"
definition SETTLE_DISCRIMINATOR :: bytes8 where "SETTLE_DISCRIMINATOR = 0x35f8e21f3ee14eae"
definition CLOSE_BUFFER_DISCRIMINATOR :: bytes8 where "CLOSE_BUFFER_DISCRIMINATOR = 0x9cf08a7a98f59996"

lemmas ix_discriminators = INITIALIZE_STATE_DISCRIMINATOR_def WRITE_BUFFER_DISCRIMINATOR_def
  SETTLE_DISCRIMINATOR_def CLOSE_BUFFER_DISCRIMINATOR_def

record initialize_state_args =
  is_app_id :: bytes32
  is_sim_profile_id :: bytes32
  is_env_commitment :: bytes32

record write_buffer_args =
  wb_transition_index :: u64
  wb_offset :: u32
  wb_bytes :: bytes
  wb_max_size :: u32

record settle_args =
  sa_payload :: settlement_payload
  sa_aggregated_g2 :: bytes64
  sa_aggregated_signature :: bytes32
  sa_operators_signature_bitmap :: bytes
  sa_expected_generation :: u64

record close_buffer_args =
  cb_transition_index :: u64

definition enc_initialize_state_args :: "initialize_state_args \<Rightarrow> bytes" where
  "enc_initialize_state_args a = enc_pair (be_bytes 32) (enc_pair (be_bytes 32) (be_bytes 32))
     (is_app_id a, is_sim_profile_id a, is_env_commitment a)"

definition dec_initialize_state_args :: "bytes \<Rightarrow> (initialize_state_args \<times> bytes) option" where
  "dec_initialize_state_args = dec_map (\<lambda>(a, p, e). \<lparr>is_app_id = a, is_sim_profile_id = p, is_env_commitment = e\<rparr>)
     (dec_pair (dec_be 32) (dec_pair (dec_be 32) (dec_be 32)))"

definition enc_write_buffer_args :: "write_buffer_args \<Rightarrow> bytes" where
  "enc_write_buffer_args a = enc_pair (le_bytes 8) (enc_pair (le_bytes 4) (enc_pair enc_blob (le_bytes 4)))
     (wb_transition_index a, wb_offset a, wb_bytes a, wb_max_size a)"

definition dec_write_buffer_args :: "bytes \<Rightarrow> (write_buffer_args \<times> bytes) option" where
  "dec_write_buffer_args = dec_map (\<lambda>(i, off, b, m). \<lparr>wb_transition_index = i, wb_offset = off, wb_bytes = b, wb_max_size = m\<rparr>)
     (dec_pair (dec_le 8) (dec_pair (dec_le 4) (dec_pair dec_blob (dec_le 4))))"

definition wf_write_buffer_args :: "write_buffer_args \<Rightarrow> bool" where
  "wf_write_buffer_args a \<longleftrightarrow> wf_blob (wb_bytes a)"

definition enc_settle_args :: "settle_args \<Rightarrow> bytes" where
  "enc_settle_args a =
     enc_pair enc_settlement_payload (enc_pair (be_bytes 64) (enc_pair (be_bytes 32) (enc_pair enc_blob (le_bytes 8))))
       (sa_payload a, sa_aggregated_g2 a, sa_aggregated_signature a, sa_operators_signature_bitmap a,
        sa_expected_generation a)"

definition dec_settle_args :: "bytes \<Rightarrow> (settle_args \<times> bytes) option" where
  "dec_settle_args = dec_map (\<lambda>(p, g2, sg, bm, g). \<lparr>sa_payload = p, sa_aggregated_g2 = g2,
       sa_aggregated_signature = sg, sa_operators_signature_bitmap = bm, sa_expected_generation = g\<rparr>)
     (dec_pair dec_settlement_payload (dec_pair (dec_be 64) (dec_pair (dec_be 32) (dec_pair dec_blob (dec_le 8)))))"

definition wf_settle_args :: "settle_args \<Rightarrow> bool" where
  "wf_settle_args a \<longleftrightarrow> wf_settlement_payload (sa_payload a) \<and> wf_blob (sa_operators_signature_bitmap a)"

definition enc_close_buffer_args :: "close_buffer_args \<Rightarrow> bytes" where
  "enc_close_buffer_args a = le_bytes 8 (cb_transition_index a)"

definition dec_close_buffer_args :: "bytes \<Rightarrow> (close_buffer_args \<times> bytes) option" where
  "dec_close_buffer_args = dec_map (\<lambda>i. \<lparr>cb_transition_index = i\<rparr>) (dec_le 8)"

lemma initialize_state_args_codec [codec_rules]:
  "codec enc_initialize_state_args dec_initialize_state_args any"
  using image_codec [OF pair_codec [OF word_codecs(7) pair_codec [OF word_codecs(7) word_codecs(7)]],
      where un = "\<lambda>a. (is_app_id a, is_sim_profile_id a, is_env_commitment a)"
        and mk = "\<lambda>(a, p, e). \<lparr>is_app_id = a, is_sim_profile_id = p, is_env_commitment = e\<rparr>"]
  by (simp add: enc_initialize_state_args_def [abs_def] dec_initialize_state_args_def wf_pair_def split_beta)

lemma write_buffer_args_codec [codec_rules]:
  "codec enc_write_buffer_args dec_write_buffer_args wf_write_buffer_args"
  using image_codec [OF pair_codec [OF word_codecs(3) pair_codec [OF word_codecs(2)
        pair_codec [OF blob_codec.codec_vec word_codecs(2)]]],
      where un = "\<lambda>a. (wb_transition_index a, wb_offset a, wb_bytes a, wb_max_size a)"
        and mk = "\<lambda>(i, off, b, m). \<lparr>wb_transition_index = i, wb_offset = off, wb_bytes = b, wb_max_size = m\<rparr>"]
  by (simp add: enc_write_buffer_args_def [abs_def] dec_write_buffer_args_def wf_write_buffer_args_def [abs_def]
      wf_pair_def split_beta)

lemma settle_args_codec [codec_rules]: "codec enc_settle_args dec_settle_args wf_settle_args"
  using image_codec [OF pair_codec [OF payload_codec.codec_axioms pair_codec [OF word_codecs(8)
        pair_codec [OF word_codecs(7) pair_codec [OF blob_codec.codec_vec word_codecs(3)]]]],
      where un = "\<lambda>a. (sa_payload a, sa_aggregated_g2 a, sa_aggregated_signature a,
          sa_operators_signature_bitmap a, sa_expected_generation a)"
        and mk = "\<lambda>(p, g2, sg, bm, g). \<lparr>sa_payload = p, sa_aggregated_g2 = g2,
          sa_aggregated_signature = sg, sa_operators_signature_bitmap = bm, sa_expected_generation = g\<rparr>"]
  by (simp add: enc_settle_args_def [abs_def] dec_settle_args_def wf_settle_args_def [abs_def]
      wf_pair_def split_beta)

lemma close_buffer_args_codec [codec_rules]: "codec enc_close_buffer_args dec_close_buffer_args any"
  using image_codec [OF word_codecs(3), where un = cb_transition_index and mk = "\<lambda>i. \<lparr>cb_transition_index = i\<rparr>"]
  by (simp add: enc_close_buffer_args_def [abs_def] dec_close_buffer_args_def)

subsection \<open>Instruction builders\<close>

record account_meta =
  am_pubkey :: pubkey
  am_is_signer :: bool
  am_is_writable :: bool

record instruction =
  ix_program_id :: pubkey
  ix_accounts :: "account_meta list"
  ix_data :: bytes

definition meta_new :: "pubkey \<Rightarrow> bool \<Rightarrow> account_meta" where
  "meta_new key is_signer = \<lparr>am_pubkey = key, am_is_signer = is_signer, am_is_writable = True\<rparr>"

definition meta_readonly :: "pubkey \<Rightarrow> bool \<Rightarrow> account_meta" where
  "meta_readonly key is_signer = \<lparr>am_pubkey = key, am_is_signer = is_signer, am_is_writable = False\<rparr>"

definition EVENT_AUTHORITY_SEED :: bytes where "EVENT_AUTHORITY_SEED = ascii ''gk_event_authority''"

definition find_event_authority :: "runtime \<Rightarrow> pubkey \<Rightarrow> pubkey \<times> u8" where
  "find_event_authority R program_id = rt_find_program_address R [EVENT_AUTHORITY_SEED] program_id"

definition encode_ix :: "bytes8 \<Rightarrow> ('a \<Rightarrow> bytes) \<Rightarrow> ('a \<Rightarrow> bool) \<Rightarrow> 'a \<Rightarrow> settlement_error + bytes" where
  "encode_ix prefix enc well_formed args =
     try_bind (try_to_vec enc well_formed SE_SerializationError args) (\<lambda>data.
     Inr (be_bytes 8 prefix @ data))"

definition initialize_state_ix ::
  "runtime \<Rightarrow> pubkey \<Rightarrow> pubkey \<Rightarrow> pubkey \<Rightarrow> pubkey \<Rightarrow> initialize_state_args \<Rightarrow> settlement_error + instruction" where
  "initialize_state_ix R program_id state ncn payer args =
     try_bind (encode_ix INITIALIZE_STATE_DISCRIMINATOR enc_initialize_state_args any args) (\<lambda>data.
     Inr \<lparr>ix_program_id = program_id,
       ix_accounts = [meta_new state False, meta_readonly ncn False, meta_new payer True,
         meta_readonly (rt_system_program_id R) False],
       ix_data = data\<rparr>)"

definition write_buffer_ix ::
  "runtime \<Rightarrow> pubkey \<Rightarrow> pubkey \<Rightarrow> pubkey \<Rightarrow> pubkey \<Rightarrow> write_buffer_args \<Rightarrow> settlement_error + instruction" where
  "write_buffer_ix R program_id state buffer payer args =
     try_bind (encode_ix WRITE_BUFFER_DISCRIMINATOR enc_write_buffer_args wf_write_buffer_args args) (\<lambda>data.
     Inr \<lparr>ix_program_id = program_id,
       ix_accounts = [meta_readonly state False, meta_new buffer False, meta_new payer True,
         meta_readonly (rt_system_program_id R) False],
       ix_data = data\<rparr>)"

definition settle_ix ::
  "runtime \<Rightarrow> pubkey \<Rightarrow> pubkey \<Rightarrow> pubkey \<Rightarrow> pubkey \<Rightarrow> pubkey \<Rightarrow> pubkey \<Rightarrow> pubkey option \<Rightarrow> settle_args \<Rightarrow>
   settlement_error + instruction" where
  "settle_ix R program_id state ncn_config ncn snapshot restaking_config buffer args =
     (let event_authority = fst (find_event_authority R program_id);
          accounts = [meta_new state False, meta_readonly ncn_config False, meta_readonly ncn False,
            meta_readonly snapshot False, meta_readonly restaking_config False,
            meta_readonly event_authority False, meta_readonly program_id False];
          accounts = (case buffer of None \<Rightarrow> accounts | Some b \<Rightarrow> accounts @ [meta_readonly b False])
      in try_bind (encode_ix SETTLE_DISCRIMINATOR enc_settle_args wf_settle_args args) (\<lambda>data.
         Inr \<lparr>ix_program_id = program_id, ix_accounts = accounts, ix_data = data\<rparr>))"

definition close_buffer_ix ::
  "runtime \<Rightarrow> pubkey \<Rightarrow> pubkey \<Rightarrow> pubkey \<Rightarrow> pubkey \<Rightarrow> close_buffer_args \<Rightarrow> settlement_error + instruction" where
  "close_buffer_ix R program_id state buffer payer args =
     try_bind (encode_ix CLOSE_BUFFER_DISCRIMINATOR enc_close_buffer_args any args) (\<lambda>data.
     Inr \<lparr>ix_program_id = program_id,
       ix_accounts = [meta_readonly state False, meta_new buffer False, meta_new payer True],
       ix_data = data\<rparr>)"

end
