(* ===== verification/Settlement_State.thy ===== *)
theory Settlement_State
  imports Wire
begin

text \<open>
  The settlement state and the buffers (\<open>settlement_core/src/state.rs\<close>,
  \<open>settlement_core/src/buffer.rs\<close>).
\<close>

subsection \<open>The state account\<close>

record gk_state =
  gk_ncn :: pubkey
  gk_app_id :: bytes32
  gk_commitment_root :: bytes32
  gk_transition_count :: u64
  gk_sim_profile_id :: bytes32
  gk_env_commitment :: bytes32
  gk_bump :: u8

definition GK_STATE_DISCRIMINATOR :: u8 where "GK_STATE_DISCRIMINATOR = 0x60"
definition GK_STATE_SEED :: bytes where "GK_STATE_SEED = ascii ''gk_state''"

text \<open>The discriminator header of 8 bytes, then the byte-aligned fields.\<close>

definition GK_STATE_SIZE :: nat where "GK_STATE_SIZE = 8 + (32 + 32 + 32 + 8 + 32 + 32 + 1)"

definition gk_state_new :: "pubkey \<Rightarrow> bytes32 \<Rightarrow> bytes32 \<Rightarrow> bytes32 \<Rightarrow> u8 \<Rightarrow> gk_state" where
  "gk_state_new ncn app_id sim_profile_id env_commitment bump =
     \<lparr>gk_ncn = ncn, gk_app_id = app_id, gk_commitment_root = 0, gk_transition_count = 0,
      gk_sim_profile_id = sim_profile_id, gk_env_commitment = env_commitment, gk_bump = bump\<rparr>"

definition gk_state_seeds :: "pubkey \<Rightarrow> bytes32 \<Rightarrow> bytes list" where
  "gk_state_seeds ncn app_id = [GK_STATE_SEED, b32 ncn, b32 app_id]"

definition gk_state_find :: "runtime \<Rightarrow> pubkey \<Rightarrow> pubkey \<Rightarrow> bytes32 \<Rightarrow> pubkey \<times> u8 \<times> bytes list" where
  "gk_state_find R program_id ncn app_id =
     (let seeds = gk_state_seeds ncn app_id; (address, bump) = rt_find_program_address R seeds program_id
      in (address, bump, seeds))"

definition gk_state_pda :: "runtime \<Rightarrow> gk_state \<Rightarrow> pubkey \<Rightarrow> pubkey option" where
  "gk_state_pda R s program_id =
     rt_create_program_address R [GK_STATE_SEED, b32 (gk_ncn s), b32 (gk_app_id s), [gk_bump s]] program_id"

definition gk_state_view :: "runtime \<Rightarrow> gk_state pod_account \<Rightarrow> program_error + gk_state" where
  "gk_state_view R a = pod_view R GK_STATE_DISCRIMINATOR GK_STATE_SIZE a"

definition gk_state_load :: "runtime \<Rightarrow> pubkey \<Rightarrow> gk_state pod_account \<Rightarrow> bool \<Rightarrow> program_error + unit" where
  "gk_state_load R program_id account expect_writable =
     try_bind (check_load program_id (ac_info account) (pod_first account) (key_of account)
       (Some GK_STATE_DISCRIMINATOR) expect_writable) (\<lambda>_.
     try_bind (gk_state_view R account) (\<lambda>state.
     try_bind (ok_or PE_InvalidSeeds (gk_state_pda R state program_id)) (\<lambda>expected.
     if key_of account \<noteq> expected then Inl PE_InvalidSeeds else Inr ())))"

definition gk_state_load_uninitialized ::
  "runtime \<Rightarrow> pubkey \<Rightarrow> gk_state pod_account \<Rightarrow> pubkey \<Rightarrow> bytes32 \<Rightarrow> program_error + u8" where
  "gk_state_load_uninitialized R program_id account ncn app_id =
     (case gk_state_find R program_id ncn app_id of (expected, bump, _) \<Rightarrow>
        if key_of account \<noteq> expected then Inl PE_InvalidSeeds
        else if pd_len (ac_data account) \<noteq> 0 then Inl PE_AccountAlreadyInitialized
        else Inr bump)"

definition apply_settle :: "gk_state \<Rightarrow> bytes32 \<Rightarrow> settlement_error + gk_state" where
  "apply_settle s commitment_root =
     (let s = s\<lparr>gk_commitment_root := commitment_root\<rparr> in
      try_bind (ok_or SE_ArithmeticOverflow (checked_add (gk_transition_count s) 1)) (\<lambda>next.
      Inr (s\<lparr>gk_transition_count := next\<rparr>)))"

lemma gk_state_view_Inr: "gk_state_view R a = Inr s \<Longrightarrow> s = body a"
  by (auto simp: gk_state_view_def dest: pod_view_Inr)

lemma gk_state_load_Inr:
  "gk_state_load R p a w = Inr () \<longleftrightarrow>
     ai_owner (ac_info a) = p \<and> pod_first a = Some GK_STATE_DISCRIMINATOR \<and>
     (w \<longrightarrow> ai_is_writable (ac_info a)) \<and> gk_state_view R a = Inr (body a) \<and>
     gk_state_pda R (body a) p = Some (key_of a)"
  by (auto simp: gk_state_load_def check_load_Inr split: if_splits dest: gk_state_view_Inr)

lemma apply_settle_Inr:
  "apply_settle s root = Inr t \<longleftrightarrow>
     Suc (unat (gk_transition_count s)) < 2 ^ 64 \<and>
     t = s\<lparr>gk_commitment_root := root, gk_transition_count := gk_transition_count s + 1\<rparr>"
  by (auto simp: apply_settle_def checked_add_def Let_def split: if_splits)

subsection \<open>Buffers\<close>

definition GK_BUFFER_SEED :: bytes where "GK_BUFFER_SEED = ascii ''gk_buffer''"
definition BUFFER_TRAILER_LEN :: nat where "BUFFER_TRAILER_LEN = 36"
definition MAX_BUFFER_CONTENT_LEN :: nat where
  "MAX_BUFFER_CONTENT_LEN = 10 * 1024 * 1024 - BUFFER_TRAILER_LEN"

definition buffer_seeds :: "pubkey \<Rightarrow> u64 \<Rightarrow> bytes list" where
  "buffer_seeds state_pda transition_index = [GK_BUFFER_SEED, b32 state_pda, le_bytes 8 transition_index]"

definition find_buffer_program_address ::
  "runtime \<Rightarrow> pubkey \<Rightarrow> pubkey \<Rightarrow> u64 \<Rightarrow> pubkey \<times> u8 \<times> bytes list" where
  "find_buffer_program_address R program_id state_pda transition_index =
     (let seeds = buffer_seeds state_pda transition_index;
          (address, bump) = rt_find_program_address R seeds program_id
      in (address, bump, seeds))"

definition buffer_content_len :: "nat \<Rightarrow> settlement_error + nat" where
  "buffer_content_len data_len =
     (if BUFFER_TRAILER_LEN \<le> data_len then Inr (data_len - BUFFER_TRAILER_LEN)
      else Inl SE_InvalidBufferBounds)"

text \<open>\<open>data.get(a..b)\<close>: \<open>None\<close> out of range.\<close>

definition get_range :: "'a list \<Rightarrow> nat \<Rightarrow> nat \<Rightarrow> 'a list option" where
  "get_range xs a b = (if a \<le> b \<and> b \<le> length xs then Some (take (b - a) (drop a xs)) else None)"

text \<open>\<open>data.get_mut(a..b)\<close> overwritten with \<open>ys\<close> (\<open>copy_from_slice\<close> of \<open>b - a\<close> bytes).\<close>

definition put_range :: "'a list \<Rightarrow> nat \<Rightarrow> 'a list \<Rightarrow> 'a list" where
  "put_range xs a ys = take a xs @ ys @ drop (a + length ys) xs"

definition read_buffer_trailer :: "bytes \<Rightarrow> settlement_error + pubkey \<times> u32" where
  "read_buffer_trailer data =
     try_bind (buffer_content_len (length data)) (\<lambda>start.
     try_bind (ok_or SE_InvalidBufferBounds (get_range data start (length data))) (\<lambda>trailer.
     try_bind (ok_or SE_InvalidBufferBounds
       (case get_range trailer 0 32 of None \<Rightarrow> None | Some s \<Rightarrow> try_into_array s)) (\<lambda>payer.
     try_bind (ok_or SE_InvalidBufferBounds
       (case get_range trailer 32 (length trailer) of None \<Rightarrow> None
        | Some s \<Rightarrow> if length s = 4 then Some s else None)) (\<lambda>max_content.
     Inr (payer, le_word max_content)))))"

definition write_buffer_trailer :: "bytes \<Rightarrow> pubkey \<Rightarrow> u32 \<Rightarrow> settlement_error + bytes" where
  "write_buffer_trailer data payer max_content =
     try_bind (buffer_content_len (length data)) (\<lambda>start.
     Inr (put_range (put_range data start (b32 payer)) (start + 32) (le_bytes 4 max_content)))"

lemma length_put_range [simp]:
  "a + length ys \<le> length xs \<Longrightarrow> length (put_range xs a ys) = length xs"
  by (simp add: put_range_def)

lemma take_put_range [simp]: "n \<le> a \<Longrightarrow> a \<le> length xs \<Longrightarrow> take n (put_range xs a ys) = take n xs"
  by (simp add: put_range_def)

lemma write_buffer_trailer_Inr:
  "write_buffer_trailer data payer max_content = Inr data' \<longleftrightarrow>
     BUFFER_TRAILER_LEN \<le> length data \<and>
     data' = take (length data - BUFFER_TRAILER_LEN) data @ b32 payer @ le_bytes 4 max_content"
  by (auto simp: write_buffer_trailer_def buffer_content_len_def put_range_def BUFFER_TRAILER_LEN_def
      min_def split: if_splits)

text \<open>A buffer: content, then the trailer.\<close>

definition buffer_of :: "bytes \<Rightarrow> pubkey \<Rightarrow> u32 \<Rightarrow> bytes" where
  "buffer_of content payer max_content = content @ b32 payer @ le_bytes 4 max_content"

lemma length_buffer_of [simp]: "length (buffer_of c p m) = length c + BUFFER_TRAILER_LEN"
  by (simp add: buffer_of_def BUFFER_TRAILER_LEN_def)

lemma read_buffer_of [simp]: "read_buffer_trailer (buffer_of c p m) = Inr (p, m)"
  by (simp add: read_buffer_trailer_def buffer_content_len_def)
    (simp add: buffer_of_def get_range_def BUFFER_TRAILER_LEN_def try_into_array_def be_word_be_bytes
      le_word_le_bytes)

lemma write_trailer_of [simp]:
  "write_buffer_trailer data p m =
     (if BUFFER_TRAILER_LEN \<le> length data
      then Inr (buffer_of (take (length data - BUFFER_TRAILER_LEN) data) p m) else Inl SE_InvalidBufferBounds)"
  using write_buffer_trailer_Inr [of data p m] 
  by (auto simp: buffer_of_def write_buffer_trailer_def buffer_content_len_def)

lemma is_buffer:
  assumes "read_buffer_trailer data = Inr (p, m)"
  shows "data = buffer_of (take (length data - BUFFER_TRAILER_LEN) data) p m"
proof -
  let ?n = "length data - BUFFER_TRAILER_LEN" and ?t = "drop (length data - BUFFER_TRAILER_LEN) data"
  from assms have len: "BUFFER_TRAILER_LEN \<le> length data"
    by (auto simp: read_buffer_trailer_def buffer_content_len_def split: if_splits)
  with assms have p: "try_into_array (take 32 ?t) = Some p" and m: "m = le_word (drop 32 ?t)"
    by (auto simp: read_buffer_trailer_def buffer_content_len_def get_range_def split: if_splits)
  have "take 32 ?t = b32 p" using try_into_array_Some [OF p] by simp
  moreover have "drop 32 ?t = le_bytes 4 m"
    using le_bytes_le_word [of "drop 32 ?t", where 'a = 32] len m by (simp add: BUFFER_TRAILER_LEN_def)
  ultimately show ?thesis by (metis append_take_drop_id buffer_of_def)
qed

end
