(* ===== verification/Settlement_Program.thy ===== *)
theory Settlement_Program
  imports Settlement_State Operator_Handlers Program_Ids
begin

text \<open>
  The settlement program (\<open>settlement_program/src/\<close>): the payer-funded account creation, its
  five instructions and the dispatch.
\<close>

subsection \<open>Memory and cross-program calls\<close>

text \<open>
  What the runtime does with the bytes of a buffer account, and \<open>invoke_signed\<close> of an
  instruction with the accounts and signer seeds it is given.
\<close>

record memory =
  mm_allocate :: "account_info \<Rightarrow> bytes \<Rightarrow> u64 \<Rightarrow> bytes list \<Rightarrow> program_error + bytes"
  mm_realloc :: "account_info \<Rightarrow> bytes \<Rightarrow> nat \<Rightarrow> program_error + bytes"
  mm_invoke_signed :: "instruction \<Rightarrow> account_info list \<Rightarrow> bytes list \<Rightarrow> program_error + unit"

text \<open>New bytes are zero: \<open>allocate\<close> gives zeros, and growth keeps the old bytes.\<close>

definition memory_laws :: "memory \<Rightarrow> bool" where
  "memory_laws M \<longleftrightarrow>
     (\<forall>i d n seeds d'. mm_allocate M i d n seeds = Inr d' \<longrightarrow> d' = replicate (unat n) 0) \<and>
     (\<forall>i d n d'. mm_realloc M i d n = Inr d' \<longrightarrow> d' = take n d @ replicate (n - length d) 0)"

definition pod_allocate :: "runtime \<Rightarrow> account_info \<Rightarrow> 'b pod \<Rightarrow> u64 \<Rightarrow> bytes list \<Rightarrow> program_error + 'b pod" where
  "pod_allocate R info d space seeds =
     try_bind (rt_allocate R info (pd_len d, pd_first d) space seeds) (\<lambda>(len, first).
     Inr (d\<lparr>pd_len := len, pd_first := first\<rparr>))"

text \<open>\<open>usize\<close> is 64 bits wide.\<close>

definition usize_add :: "'e \<Rightarrow> nat \<Rightarrow> nat \<Rightarrow> 'e + nat" where
  "usize_add e a b = (if a + b < 2 ^ 64 then Inr (a + b) else Inl e)"

lemma usize_add_Inr [simp]: "usize_add e a b = Inr c \<longleftrightarrow> a + b < 2 ^ 64 \<and> c = a + b"
  by (auto simp: usize_add_def)

definition create_pda_account ::
  "runtime \<Rightarrow> (account_info \<Rightarrow> 'd \<Rightarrow> u64 \<Rightarrow> bytes list \<Rightarrow> program_error + 'd) \<Rightarrow>
   account_info \<Rightarrow> 'd account \<Rightarrow> pubkey \<Rightarrow> nat \<Rightarrow> nat \<Rightarrow> bytes list \<Rightarrow>
   program_error + account_info \<times> 'd account" where
  "create_pda_account R allocate payer new_account owner space rent_space seeds_with_bump =
     try_bind (rt_minimum_balance R) (\<lambda>minimum_balance.
     let info = ac_info new_account;
         required_lamports = saturating_sub (minimum_balance rent_space) (ai_lamports info) in
     try_bind
       (if required_lamports > 0
        then
          try_bind (rt_transfer R payer info required_lamports []) (\<lambda>(from_left, to_left).
          Inr (payer\<lparr>ai_lamports := from_left\<rparr>, info\<lparr>ai_lamports := to_left\<rparr>))
        else Inr (payer, info)) (\<lambda>(payer, info).
     try_bind (allocate info (ac_data new_account) (of_nat space) seeds_with_bump) (\<lambda>data.
     try_bind (rt_assign R info owner seeds_with_bump) (\<lambda>owner.
     Inr (payer, new_account\<lparr>ac_info := info\<lparr>ai_owner := owner\<rparr>, ac_data := data\<rparr>)))))"

subsection \<open>InitializeState\<close>

definition process_initialize_state ::
  "runtime \<Rightarrow> jito \<Rightarrow> pubkey \<Rightarrow>
   (gk_state pod_account \<times> raw_account \<times> account_info \<times> account_info) option \<Rightarrow>
   initialize_state_args \<Rightarrow> program_error + gk_state pod_account \<times> account_info" where
  "process_initialize_state R J program_id accounts args =
     (case accounts of
        None \<Rightarrow> Inl PE_NotEnoughAccountKeys
      | Some (state, ncn, payer, system_program) \<Rightarrow>
          try_bind (rt_load_system_program R system_program) (\<lambda>_.
          try_bind (jt_ncn_load J (jt_restaking_id J) ncn False) (\<lambda>_.
          try_bind (rt_load_signer R payer True) (\<lambda>_.
          try_bind (gk_state_load_uninitialized R program_id state (key_of ncn) (is_app_id args)) (\<lambda>bump.
          let seeds_with_bump = gk_state_seeds (key_of ncn) (is_app_id args) @ [[bump]] in
          try_bind (create_pda_account R (pod_allocate R) payer state program_id
            GK_STATE_SIZE GK_STATE_SIZE seeds_with_bump) (\<lambda>(payer, state).
          if pd_len (ac_data state) = 0 then Inl PE_AccountDataTooSmall
          else
            let state = state\<lparr>ac_data := (ac_data state)\<lparr>pd_first := GK_STATE_DISCRIMINATOR\<rparr>\<rparr> in
            try_bind (gk_state_view R state) (\<lambda>_.
            Inr (set_body (gk_state_new (key_of ncn) (is_app_id args) (is_sim_profile_id args)
              (is_env_commitment args) bump) state, payer))))))))"

subsection \<open>WriteBuffer\<close>

definition put_checked :: "'e \<Rightarrow> 'a list \<Rightarrow> nat \<Rightarrow> nat \<Rightarrow> 'a list \<Rightarrow> 'e + 'a list" where
  "put_checked e xs a b ys = (if a \<le> b \<and> b \<le> length xs then Inr (put_range xs a ys) else Inl e)"

text \<open>Creation on the first write.\<close>

definition create_buffer ::
  "runtime \<Rightarrow> memory \<Rightarrow> pubkey \<Rightarrow> pubkey \<Rightarrow> u8 \<Rightarrow> account_info \<Rightarrow> raw_account \<Rightarrow> write_buffer_args \<Rightarrow>
   program_error + account_info \<times> raw_account" where
  "create_buffer R M program_id state_key bump payer buffer args =
     (let max_content = unat (wb_max_size args) in
      if max_content > MAX_BUFFER_CONTENT_LEN then Inl (from_settlement SE_InvalidBufferBounds)
      else
        try_bind (usize_add (from_settlement SE_ArithmeticOverflow) max_content BUFFER_TRAILER_LEN) (\<lambda>target_total.
        let initial_total = min target_total MAX_PERMITTED_DATA_INCREASE;
            seeds_with_bump = buffer_seeds state_key (wb_transition_index args) @ [[bump]] in
        try_bind (create_pda_account R (mm_allocate M) payer buffer program_id initial_total target_total
          seeds_with_bump) (\<lambda>(payer, buffer).
        try_bind (lift_settlement (write_buffer_trailer (ac_data buffer) (ai_key payer) (wb_max_size args)))
          (\<lambda>data. Inr (payer, buffer\<lparr>ac_data := data\<rparr>)))))"

text \<open>Growth toward the recorded size: the old trailer becomes content.\<close>

definition grow_buffer ::
  "memory \<Rightarrow> account_info \<Rightarrow> bytes \<Rightarrow> pubkey \<Rightarrow> u32 \<Rightarrow> nat \<Rightarrow> program_error + bytes" where
  "grow_buffer M info data recorded_payer max_content write_end =
     (let current_total = length data in
      try_bind (usize_add (from_settlement SE_ArithmeticOverflow) write_end BUFFER_TRAILER_LEN) (\<lambda>needed_total.
      if needed_total > current_total
      then
        try_bind (usize_add (from_settlement SE_ArithmeticOverflow) current_total MAX_PERMITTED_DATA_INCREASE)
          (\<lambda>step_total.
        try_bind (usize_add (from_settlement SE_ArithmeticOverflow) (unat max_content) BUFFER_TRAILER_LEN)
          (\<lambda>target_total.
        let grown_total = min step_total target_total in
        if needed_total > grown_total then Inl (from_settlement SE_InvalidBufferBounds)
        else
          try_bind (mm_realloc M info data grown_total) (\<lambda>data.
          try_bind (lift_settlement (buffer_content_len current_total)) (\<lambda>old_trailer_start.
          try_bind (put_checked (from_settlement SE_InvalidBufferBounds) data old_trailer_start current_total
            (replicate (current_total - old_trailer_start) 0)) (\<lambda>data.
          lift_settlement (write_buffer_trailer data recorded_payer max_content))))))
      else Inr data))"

definition append_chunk :: "bytes \<Rightarrow> u32 \<Rightarrow> bytes \<Rightarrow> nat \<Rightarrow> program_error + bytes" where
  "append_chunk data offset chunk write_end =
     try_bind (lift_settlement (buffer_content_len (length data))) (\<lambda>content_len.
     if write_end > content_len then Inl (from_settlement SE_InvalidBufferBounds)
     else put_checked (from_settlement SE_InvalidBufferBounds) data (unat offset) write_end chunk)"

text \<open>The write into an existing buffer.\<close>

definition write_chunk :: "memory \<Rightarrow> account_info \<Rightarrow> bytes \<Rightarrow> write_buffer_args \<Rightarrow> program_error + bytes" where
  "write_chunk M info data args =
     try_bind (lift_settlement (read_buffer_trailer data)) (\<lambda>(recorded_payer, max_content).
     try_bind (usize_add (from_settlement SE_ArithmeticOverflow) (unat (wb_offset args)) (length (wb_bytes args)))
       (\<lambda>write_end.
     if write_end > unat max_content then Inl (from_settlement SE_InvalidBufferBounds)
     else
       try_bind (grow_buffer M info data recorded_payer max_content write_end) (\<lambda>data.
       append_chunk data (wb_offset args) (wb_bytes args) write_end)))"

definition process_write_buffer ::
  "runtime \<Rightarrow> memory \<Rightarrow> pubkey \<Rightarrow>
   (gk_state pod_account \<times> raw_account \<times> account_info \<times> account_info) option \<Rightarrow>
   write_buffer_args \<Rightarrow> program_error + raw_account \<times> account_info" where
  "process_write_buffer R M program_id accounts args =
     (case accounts of
        None \<Rightarrow> Inl PE_NotEnoughAccountKeys
      | Some (state, buffer, payer, system_program) \<Rightarrow>
          try_bind (rt_load_system_program R system_program) (\<lambda>_.
          try_bind (rt_load_signer R payer True) (\<lambda>_.
          try_bind (gk_state_load R program_id state False) (\<lambda>_.
          try_bind (gk_state_view R state) (\<lambda>state_account.
          if wb_transition_index args < gk_transition_count state_account
          then Inl (from_settlement SE_InvalidTransitionIndex)
          else
            case find_buffer_program_address R program_id (key_of state) (wb_transition_index args) of
              (buffer_pda, bump, _) \<Rightarrow>
              if key_of buffer \<noteq> buffer_pda then Inl (from_settlement SE_BufferKeyMismatch)
              else
                try_bind
                  (if ac_data buffer = [] \<and> ai_owner (ac_info buffer) \<noteq> program_id
                   then create_buffer R M program_id (key_of state) bump payer buffer args
                   else if ai_owner (ac_info buffer) \<noteq> program_id then Inl PE_InvalidAccountOwner
                   else Inr (payer, buffer)) (\<lambda>(payer, buffer).
                try_bind (write_chunk M (ac_info buffer) (ac_data buffer) args) (\<lambda>data.
                Inr (buffer\<lparr>ac_data := data\<rparr>, payer))))))))"

subsection \<open>Settle\<close>

definition verify_certificate_inline ::
  "runtime \<Rightarrow> jito \<Rightarrow> syscalls \<Rightarrow> config pod_account \<Rightarrow> raw_account \<Rightarrow> snapshot pod_account \<Rightarrow>
   raw_account \<Rightarrow> message_digest \<Rightarrow> bytes64 \<Rightarrow> bytes32 \<Rightarrow> bytes \<Rightarrow> u64 \<Rightarrow> program_error + unit" where
  "verify_certificate_inline R J S ncn_config ncn snapshot restaking_config digest aggregated_g2
     aggregated_signature operators_signature_bitmap expected_generation =
     verify_certificate_readonly R J S NCN_PROGRAM_ID (Some (ncn_config, ncn, snapshot, restaking_config))
       (digest_bytes digest) aggregated_g2 aggregated_signature operators_signature_bitmap expected_generation"

definition verify_story_meta ::
  "runtime \<Rightarrow> syscalls \<Rightarrow> pubkey \<Rightarrow> pubkey \<Rightarrow> u64 \<Rightarrow> bytes \<Rightarrow> raw_account option \<Rightarrow> program_error + unit" where
  "verify_story_meta R S program_id state_key transition_index event_payload buffer =
     try_bind (map_err (\<lambda>_. from_settlement SE_MalformedStoryMeta) (try_from_slice dec_story_meta event_payload)) (\<lambda>meta.
     try_bind (ok_or (from_settlement SE_MissingBufferAccount) buffer) (\<lambda>buffer.
     if ai_owner (ac_info buffer) \<noteq> program_id then Inl PE_InvalidAccountOwner
     else if key_of buffer \<noteq> fst (find_buffer_program_address R program_id state_key transition_index) \<or>
       sm_buffer meta \<noteq> key_of buffer
     then Inl (from_settlement SE_BufferKeyMismatch)
     else
       let data = ac_data buffer; len = unat (sm_len meta) in
       try_bind (lift_settlement (buffer_content_len (length data))) (\<lambda>content_len.
       if len > content_len then Inl (from_settlement SE_InvalidBufferBounds)
       else
         try_bind (ok_or (from_settlement SE_InvalidBufferBounds) (get_range data 0 len)) (\<lambda>content.
         if sc_sha256 S content \<noteq> sm_story_sha256 meta then Inl (from_settlement SE_BufferHashMismatch)
         else Inr ()))))"

text \<open>The check of the updates: at most one store, events small enough, story events backed by a buffer.\<close>

fun check_updates ::
  "(bytes \<Rightarrow> program_error + unit) \<Rightarrow> bytes32 option \<Rightarrow> state_update list \<Rightarrow> program_error + bytes32 option" where
  "check_updates verify commitment_root [] = Inr commitment_root"
| "check_updates verify commitment_root (Store root # updates) =
     (if commitment_root \<noteq> None then Inl (from_settlement SE_MultipleStore)
      else check_updates verify (Some root) updates)"
| "check_updates verify commitment_root (Event discriminant payload # updates) =
     (if min (length payload + 8) (2 ^ 64 - 1) > MAX_EVENT_CPI_DATA_LEN then Inl (from_settlement SE_EventTooLarge)
      else
        try_bind (if discriminant = STORY_META_DISCRIMINANT then verify payload else Inr ()) (\<lambda>_.
        check_updates verify commitment_root updates))"

text \<open>The self-invocation that carries an event, and all of them in order.\<close>

definition event_ix :: "pubkey \<Rightarrow> pubkey \<Rightarrow> bytes8 \<Rightarrow> bytes \<Rightarrow> instruction" where
  "event_ix program_id event_authority discriminant payload =
     \<lparr>ix_program_id = program_id, ix_accounts = [meta_readonly event_authority True],
      ix_data = event_cpi_data discriminant payload\<rparr>"

fun emit_events ::
  "memory \<Rightarrow> pubkey \<Rightarrow> account_info \<Rightarrow> account_info \<Rightarrow> u8 \<Rightarrow> state_update list \<Rightarrow>
   program_error + instruction list" where
  "emit_events M program_id event_authority settlement_program bump [] = Inr []"
| "emit_events M program_id event_authority settlement_program bump (Store root # updates) =
     emit_events M program_id event_authority settlement_program bump updates"
| "emit_events M program_id event_authority settlement_program bump (Event discriminant payload # updates) =
     (let ix = event_ix program_id (ai_key event_authority) discriminant payload in
      try_bind (mm_invoke_signed M ix [event_authority, settlement_program] [EVENT_AUTHORITY_SEED, [bump]]) (\<lambda>_.
      try_bind (emit_events M program_id event_authority settlement_program bump updates) (\<lambda>ixs.
      Inr (ix # ixs))))"

type_synonym settle_accounts =
  "gk_state pod_account \<times> config pod_account \<times> raw_account \<times> snapshot pod_account \<times> raw_account \<times>
   account_info \<times> account_info \<times> raw_account option"

definition process_settle ::
  "runtime \<Rightarrow> memory \<Rightarrow> jito \<Rightarrow> syscalls \<Rightarrow> pubkey \<Rightarrow> settle_accounts option \<Rightarrow> settle_args \<Rightarrow>
   program_error + gk_state pod_account \<times> instruction list" where
  "process_settle R M J S program_id accounts args =
     (case accounts of
        None \<Rightarrow> Inl PE_NotEnoughAccountKeys
      | Some (state, ncn_config, ncn, snapshot, restaking_config, event_authority, settlement_program, buffer) \<Rightarrow>
          try_bind (gk_state_load R program_id state True) (\<lambda>_.
          let payload = sa_payload args in
          if sp_ix_discriminator payload \<noteq> SETTLE_DISCRIMINATOR then Inl (from_settlement SE_DigestMismatch)
          else if sp_state_pda payload \<noteq> key_of state then Inl (from_settlement SE_InvalidStatePda)
          else
            try_bind (gk_state_view R state) (\<lambda>state_account.
            if sp_transition_index payload \<noteq> gk_transition_count state_account
            then Inl (from_settlement SE_InvalidTransitionIndex)
            else
              try_bind (lift_settlement (payload_digest S payload)) (\<lambda>digest.
              try_bind (verify_certificate_inline R J S ncn_config ncn snapshot restaking_config digest
                (sa_aggregated_g2 args) (sa_aggregated_signature args) (sa_operators_signature_bitmap args)
                (sa_expected_generation args)) (\<lambda>_.
              case find_event_authority R program_id of (expected_event_authority, event_authority_bump) \<Rightarrow>
                if ai_key event_authority \<noteq> expected_event_authority
                then Inl (from_settlement SE_EventAuthorityNotSigner)
                else if ai_key settlement_program \<noteq> program_id then Inl PE_IncorrectProgramId
                else
                  try_bind (check_updates
                    (\<lambda>p. verify_story_meta R S program_id (key_of state) (sp_transition_index payload) p buffer)
                    None (sp_updates payload)) (\<lambda>root.
                  try_bind (ok_or (from_settlement SE_MissingStore) root) (\<lambda>commitment_root.
                  try_bind (emit_events M program_id event_authority settlement_program event_authority_bump
                    (sp_updates payload)) (\<lambda>events.
                  try_bind (gk_state_view R state) (\<lambda>state_account.
                  try_bind (lift_settlement (apply_settle state_account commitment_root)) (\<lambda>state_account.
                  Inr (set_body state_account state, events)))))))))))"

subsection \<open>CloseBuffer\<close>

definition process_close_buffer ::
  "runtime \<Rightarrow> memory \<Rightarrow> pubkey \<Rightarrow> (gk_state pod_account \<times> raw_account \<times> account_info) option \<Rightarrow>
   close_buffer_args \<Rightarrow> program_error + raw_account \<times> account_info" where
  "process_close_buffer R M program_id accounts args =
     (case accounts of
        None \<Rightarrow> Inl PE_NotEnoughAccountKeys
      | Some (state, buffer, payer) \<Rightarrow>
          try_bind (gk_state_load R program_id state False) (\<lambda>_.
          try_bind (rt_load_signer R payer True) (\<lambda>_.
          if ai_owner (ac_info buffer) \<noteq> program_id then Inl PE_InvalidAccountOwner
          else if key_of buffer \<noteq>
            fst (find_buffer_program_address R program_id (key_of state) (cb_transition_index args))
          then Inl (from_settlement SE_BufferKeyMismatch)
          else
            try_bind (gk_state_view R state) (\<lambda>state_account.
            if cb_transition_index args \<ge> gk_transition_count state_account
            then Inl (from_settlement SE_BufferNotSettled)
            else
              try_bind (lift_settlement (read_buffer_trailer (ac_data buffer))) (\<lambda>(recorded_payer, _).
              if recorded_payer \<noteq> ai_key payer then Inl (from_settlement SE_InvalidBufferPayer)
              else
                let refund = ai_lamports (ac_info buffer) in
                try_bind (ok_or PE_ArithmeticOverflow (checked_add (ai_lamports payer) refund)) (\<lambda>lamports.
                let info = (ac_info buffer)\<lparr>ai_lamports := 0, ai_owner := rt_system_program_id R\<rparr> in
                try_bind (mm_realloc M info (ac_data buffer) 0) (\<lambda>data.
                Inr (buffer\<lparr>ac_info := info, ac_data := data\<rparr>, payer\<lparr>ai_lamports := lamports\<rparr>))))))))"

subsection \<open>Events\<close>

definition process_emit_event ::
  "runtime \<Rightarrow> pubkey \<Rightarrow> account_info option \<Rightarrow> bytes \<Rightarrow> program_error + unit" where
  "process_emit_event R program_id accounts instruction_data =
     (case accounts of
        None \<Rightarrow> Inl PE_NotEnoughAccountKeys
      | Some event_authority \<Rightarrow>
          if ai_key event_authority \<noteq> fst (find_event_authority R program_id) \<or> \<not> ai_is_signer event_authority
          then Inl (from_settlement SE_EventAuthorityNotSigner)
          else if length instruction_data > MAX_EVENT_CPI_DATA_LEN then Inl (from_settlement SE_EventTooLarge)
          else Inr ())"

subsection \<open>Dispatch\<close>

text \<open>The account list, as each instruction reads it, and what an instruction changes.\<close>

record settlement_accounts =
  sx_initialize_state :: "(gk_state pod_account \<times> raw_account \<times> account_info \<times> account_info) option"
  sx_write_buffer :: "(gk_state pod_account \<times> raw_account \<times> account_info \<times> account_info) option"
  sx_settle :: "settle_accounts option"
  sx_close_buffer :: "(gk_state pod_account \<times> raw_account \<times> account_info) option"
  sx_emit_event :: "account_info option"

datatype settlement_effect =
    SX_initialized "gk_state pod_account" account_info
  | SX_written raw_account account_info
  | SX_settled "gk_state pod_account" "instruction list"
  | SX_closed raw_account account_info
  | SX_emitted

definition settlement_process_instruction ::
  "runtime \<Rightarrow> memory \<Rightarrow> jito \<Rightarrow> syscalls \<Rightarrow> pubkey \<Rightarrow> settlement_accounts \<Rightarrow> bytes \<Rightarrow>
   program_error + settlement_effect" where
  "settlement_process_instruction R M J S program_id accounts instruction_data =
     (if program_id \<noteq> SETTLEMENT_PROGRAM_ID then Inl PE_IncorrectProgramId
      else if length instruction_data < 8 then Inl PE_InvalidInstructionData
      else
        let args = drop 8 instruction_data in
        try_bind (ok_or PE_InvalidInstructionData (try_into_array (take 8 instruction_data))) (\<lambda>prefix :: bytes8.
        if prefix = INITIALIZE_STATE_DISCRIMINATOR then
          try_bind (try_from_slice dec_initialize_state_args args) (\<lambda>args.
          try_bind (process_initialize_state R J program_id (sx_initialize_state accounts) args) (\<lambda>(s, p).
          Inr (SX_initialized s p)))
        else if prefix = WRITE_BUFFER_DISCRIMINATOR then
          try_bind (try_from_slice dec_write_buffer_args args) (\<lambda>args.
          try_bind (process_write_buffer R M program_id (sx_write_buffer accounts) args) (\<lambda>(b, p).
          Inr (SX_written b p)))
        else if prefix = SETTLE_DISCRIMINATOR then
          try_bind (try_from_slice dec_settle_args args) (\<lambda>args.
          try_bind (process_settle R M J S program_id (sx_settle accounts) args) (\<lambda>(s, events).
          Inr (SX_settled s events)))
        else if prefix = CLOSE_BUFFER_DISCRIMINATOR then
          try_bind (try_from_slice dec_close_buffer_args args) (\<lambda>args.
          try_bind (process_close_buffer R M program_id (sx_close_buffer accounts) args) (\<lambda>(b, p).
          Inr (SX_closed b p)))
        else
          try_bind (process_emit_event R program_id (sx_emit_event accounts) instruction_data) (\<lambda>_.
          Inr SX_emitted)))"

end
