(* ===== verification/Settle_Properties.thy ===== *)
theory Settle_Properties
  imports Settlement_Program Snapshot_History Sample_Chain
begin

text \<open>
  What the settlement program guarantees: the payload's byte form determines the payload, the
  program decodes what the builders encode, a settle is accepted exactly under its conditions and
  does exactly one commitment write, settlements are consecutive, and nobody else emits events.
\<close>

subsection \<open>Byte forms\<close>

text \<open>
  C13: The byte form of a payload and the payload determine each other: decoding succeeds exactly
  on the encoding of a payload, so every other byte string (a wrong tag, a short or a long input)
  is rejected.
\<close>

theorem payload_roundtrip:
  "try_from_slice dec_settlement_payload bs = Inr p \<longleftrightarrow>
     wf_settlement_payload p \<and> bs = enc_settlement_payload p"
  by (rule payload_codec.try_from_slice_iff)

lemma payload_digest_Inr:
  "payload_digest S p = Inr d \<longleftrightarrow>
     wf_settlement_payload p \<and> d = MessageDigest (sc_sha256 S (enc_settlement_payload p))"
  by (auto simp: payload_digest_def try_to_vec_def)

text \<open>
  C12: The signed digest binds every field of the payload: two payloads with the same digest are
  the same payload, or their byte forms are a collision of SHA-256.
\<close>

theorem digest_binds_payload:
  assumes "payload_digest S p = Inr d" "payload_digest S q = Inr d"
  shows "p = q \<or>
    enc_settlement_payload p \<noteq> enc_settlement_payload q \<and>
    sc_sha256 S (enc_settlement_payload p) = sc_sha256 S (enc_settlement_payload q)"
  using assms payload_codec.enc_inject [of p q] by (auto simp: payload_digest_Inr)

text \<open>The golden bytes of the source's test of a payload with one store.\<close>

lemma le_bytes_zero: "le_bytes n 0 = replicate n 0"
  by (induction n) simp_all

lemma le_bytes_numeral:
  "le_bytes (numeral k) w = ucast w # le_bytes (pred_numeral k) (drop_bit 8 w)"
  by (subst numeral_eq_Suc) simp

lemma settle_discriminator_bytes:
  "be_bytes 8 SETTLE_DISCRIMINATOR = [0x35, 0xf8, 0xe2, 0x1f, 0x3e, 0xe1, 0x4e, 0xae]"
  by (simp add: SETTLE_DISCRIMINATOR_def be_bytes_def le_bytes_numeral)

lemma payload_golden_bytes:
  "enc_settlement_payload \<lparr>sp_transition_index = 0, sp_state_pda = be_word (replicate 32 0xaa),
     sp_ix_discriminator = SETTLE_DISCRIMINATOR, sp_updates = [Store (be_word (replicate 32 0xbb))]\<rparr> =
   replicate 8 0 @ replicate 32 0xaa @ [0x35, 0xf8, 0xe2, 0x1f, 0x3e, 0xe1, 0x4e, 0xae] @
   [1, 0, 0, 0] @ [0] @ replicate 32 0xbb"
proof -
  have array: "be_bytes 32 (be_word (replicate 32 x) :: bytes32) = replicate 32 x" for x
    using be_bytes_be_word [of "replicate 32 x", where 'a = 256] by simp
  have one: "le_bytes 4 (1 :: u32) = [1, 0, 0, 0]" by (simp add: le_bytes_numeral)
  show ?thesis
    unfolding enc_settlement_payload_def payload_fields_def enc_pair_def enc_vec_def
    by (simp add: array one le_bytes_zero settle_discriminator_bytes)
qed

subsection \<open>Dispatch\<close>

lemma dispatch_prefix:
  "settlement_process_instruction R M J S SETTLEMENT_PROGRAM_ID accounts (be_bytes 8 (prefix :: bytes8) @ args) =
     (if prefix = INITIALIZE_STATE_DISCRIMINATOR then
        try_bind (try_from_slice dec_initialize_state_args args) (\<lambda>args.
        try_bind (process_initialize_state R J SETTLEMENT_PROGRAM_ID (sx_initialize_state accounts) args) (\<lambda>(s, p).
        Inr (SX_initialized s p)))
      else if prefix = WRITE_BUFFER_DISCRIMINATOR then
        try_bind (try_from_slice dec_write_buffer_args args) (\<lambda>args.
        try_bind (process_write_buffer R M SETTLEMENT_PROGRAM_ID (sx_write_buffer accounts) args) (\<lambda>(b, p).
        Inr (SX_written b p)))
      else if prefix = SETTLE_DISCRIMINATOR then
        try_bind (try_from_slice dec_settle_args args) (\<lambda>args.
        try_bind (process_settle R M J S SETTLEMENT_PROGRAM_ID (sx_settle accounts) args) (\<lambda>(s, events).
        Inr (SX_settled s events)))
      else if prefix = CLOSE_BUFFER_DISCRIMINATOR then
        try_bind (try_from_slice dec_close_buffer_args args) (\<lambda>args.
        try_bind (process_close_buffer R M SETTLEMENT_PROGRAM_ID (sx_close_buffer accounts) args) (\<lambda>(b, p).
        Inr (SX_closed b p)))
      else
        try_bind (process_emit_event R SETTLEMENT_PROGRAM_ID (sx_emit_event accounts) (be_bytes 8 prefix @ args))
          (\<lambda>_. Inr SX_emitted))"
  by (simp add: settlement_process_instruction_def try_into_array_be_bytes Let_def)

lemma ix_discriminators_distinct [simp]:
  "WRITE_BUFFER_DISCRIMINATOR \<noteq> INITIALIZE_STATE_DISCRIMINATOR"
  "SETTLE_DISCRIMINATOR \<noteq> INITIALIZE_STATE_DISCRIMINATOR" "SETTLE_DISCRIMINATOR \<noteq> WRITE_BUFFER_DISCRIMINATOR"
  "CLOSE_BUFFER_DISCRIMINATOR \<noteq> INITIALIZE_STATE_DISCRIMINATOR"
  "CLOSE_BUFFER_DISCRIMINATOR \<noteq> WRITE_BUFFER_DISCRIMINATOR" "CLOSE_BUFFER_DISCRIMINATOR \<noteq> SETTLE_DISCRIMINATOR"
  by (simp_all add: ix_discriminators)

lemma encode_ix_Inr:
  "encode_ix prefix enc well_formed args = Inr data \<longleftrightarrow> well_formed args \<and> data = be_bytes 8 prefix @ enc args"
  by (auto simp: encode_ix_def try_to_vec_def)

lemma decode_args:
  "codec enc dec well_formed \<Longrightarrow> well_formed args \<Longrightarrow> try_from_slice dec (enc args) = Inr args"
  by (simp add: codec.try_from_slice_iff)

text \<open>
  The program runs what the builders ask for: the data of each of the four built
  instructions dispatches to its handler with exactly the arguments given to the builder.
\<close>

theorem built_instructions_dispatch:
  assumes "initialize_state_ix R SETTLEMENT_PROGRAM_ID s n p ia = Inr ix1"
    "write_buffer_ix R SETTLEMENT_PROGRAM_ID s b p wa = Inr ix2"
    "settle_ix R SETTLEMENT_PROGRAM_ID s nc n sn rc bo sa = Inr ix3"
    "close_buffer_ix R SETTLEMENT_PROGRAM_ID s b p ca = Inr ix4"
  shows "settlement_process_instruction R M J S (ix_program_id ix1) accounts (ix_data ix1) =
       try_bind (process_initialize_state R J SETTLEMENT_PROGRAM_ID (sx_initialize_state accounts) ia)
         (\<lambda>(s, p). Inr (SX_initialized s p)) \<and>
     settlement_process_instruction R M J S (ix_program_id ix2) accounts (ix_data ix2) =
       try_bind (process_write_buffer R M SETTLEMENT_PROGRAM_ID (sx_write_buffer accounts) wa)
         (\<lambda>(b, p). Inr (SX_written b p)) \<and>
     settlement_process_instruction R M J S (ix_program_id ix3) accounts (ix_data ix3) =
       try_bind (process_settle R M J S SETTLEMENT_PROGRAM_ID (sx_settle accounts) sa)
         (\<lambda>(s, events). Inr (SX_settled s events)) \<and>
     settlement_process_instruction R M J S (ix_program_id ix4) accounts (ix_data ix4) =
       try_bind (process_close_buffer R M SETTLEMENT_PROGRAM_ID (sx_close_buffer accounts) ca)
         (\<lambda>(b, p). Inr (SX_closed b p))"
  using assms
  by (auto simp: initialize_state_ix_def write_buffer_ix_def settle_ix_def close_buffer_ix_def Let_def
      encode_ix_Inr dispatch_prefix decode_args [OF initialize_state_args_codec]
      decode_args [OF write_buffer_args_codec] decode_args [OF settle_args_codec]
      decode_args [OF close_buffer_args_codec])

text \<open>
  Event data reaches the event branch, and is accepted there, exactly if the program's event
  authority signed, the data is at most 10 KiB and the event's discriminant is not one of the
  four instruction discriminators.
\<close>

theorem event_accepted_iff:
  "settlement_process_instruction R M J S SETTLEMENT_PROGRAM_ID accounts (event_cpi_data k p) = Inr SX_emitted \<longleftrightarrow>
     k \<notin> {INITIALIZE_STATE_DISCRIMINATOR, WRITE_BUFFER_DISCRIMINATOR, SETTLE_DISCRIMINATOR,
       CLOSE_BUFFER_DISCRIMINATOR} \<and>
     8 + length p \<le> 10240 \<and>
     (\<exists>a. sx_emit_event accounts = Some a \<and> ai_is_signer a \<and>
        ai_key a = fst (rt_find_program_address R [EVENT_AUTHORITY_SEED] SETTLEMENT_PROGRAM_ID))"
  by (auto simp: event_cpi_data_def dispatch_prefix process_emit_event_def find_event_authority_def
      MAX_EVENT_CPI_DATA_LEN_def split: option.splits prod.splits if_splits)

subsection \<open>What a settle does\<close>

text \<open>The stores and the events of a list of updates.\<close>

definition stores :: "state_update list \<Rightarrow> bytes32 list" where
  "stores us = concat (map (\<lambda>u. case u of Store d \<Rightarrow> [d] | Event k p \<Rightarrow> []) us)"

definition events :: "state_update list \<Rightarrow> (bytes8 \<times> bytes) list" where
  "events us = concat (map (\<lambda>u. case u of Store d \<Rightarrow> [] | Event k p \<Rightarrow> [(k, p)]) us)"

lemma stores_events_simps [simp]:
  "stores [] = []" "stores (Store d # us) = d # stores us" "stores (Event k p # us) = stores us"
  "events [] = []" "events (Store d # us) = events us" "events (Event k p # us) = (k, p) # events us"
  by (simp_all add: stores_def events_def)

definition event_ok :: "(bytes \<Rightarrow> program_error + unit) \<Rightarrow> bytes8 \<times> bytes \<Rightarrow> bool" where
  "event_ok verify e \<longleftrightarrow> length (snd e) + 8 \<le> MAX_EVENT_CPI_DATA_LEN \<and>
     (fst e = STORY_META_DISCRIMINANT \<longrightarrow> verify (snd e) = Inr ())"

definition opt_list :: "'a option \<Rightarrow> 'a list" where
  "opt_list m = (case m of None \<Rightarrow> [] | Some x \<Rightarrow> [x])"

lemma opt_list_simps [simp]: "opt_list None = []" "opt_list (Some x) = [x]"
  by (simp_all add: opt_list_def)

lemma opt_list_iff [simp]: "x # xs = opt_list m \<longleftrightarrow> xs = [] \<and> m = Some x" "[] = opt_list m \<longleftrightarrow> m = None"
  by (cases m; auto)+

lemma check_updates_Inr:
  "check_updates verify r us = Inr r' \<longleftrightarrow>
     list_all (event_ok verify) (events us) \<and> opt_list r @ stores us = opt_list r'"
proof (induction verify r us rule: check_updates.induct)
  case (1 verify r)
  then show ?case by (cases r) auto
next
  case (2 verify r d us)
  then show ?case by (cases r) auto
next
  case (3 verify r k p us)
  then show ?case
    by (auto simp: event_ok_def MAX_EVENT_CPI_DATA_LEN_def split: if_splits)
qed

definition event_ixs :: "pubkey \<Rightarrow> pubkey \<Rightarrow> state_update list \<Rightarrow> instruction list" where
  "event_ixs program_id authority us = map (\<lambda>(k, p). event_ix program_id authority k p) (events us)"

lemma emit_events_Inr:
  "emit_events M pid ea sp b us = Inr ixs \<longleftrightarrow>
     ixs = event_ixs pid (ai_key ea) us \<and>
     list_all (\<lambda>ix. mm_invoke_signed M ix [ea, sp] [EVENT_AUTHORITY_SEED, [b]] = Inr ()) ixs"
proof (induction us arbitrary: ixs)
  case Nil
  then show ?case by (auto simp: event_ixs_def)
next
  case (Cons u us)
  show ?case
  proof (cases u)
    case (Store d)
    with Cons.IH [of ixs] show ?thesis by (simp add: event_ixs_def)
  next
    case (Event k p)
    let ?ix = "event_ix pid (ai_key ea) k p"
    have "emit_events M pid ea sp b (u # us) = Inr ixs \<longleftrightarrow>
        mm_invoke_signed M ?ix [ea, sp] [EVENT_AUTHORITY_SEED, [b]] = Inr () \<and>
        (\<exists>ys. emit_events M pid ea sp b us = Inr ys \<and> ?ix # ys = ixs)"
      by (simp add: Event Let_def)
    also have "\<dots> \<longleftrightarrow> ixs = ?ix # event_ixs pid (ai_key ea) us \<and>
        list_all (\<lambda>ix. mm_invoke_signed M ix [ea, sp] [EVENT_AUTHORITY_SEED, [b]] = Inr ()) ixs"
      unfolding Cons.IH by auto
    finally show ?thesis by (simp add: Event event_ixs_def)
  qed
qed

text \<open>
  The conditions of a settle: the state account, the payload's bindings, the certificate, the
  two accounts of the self-invocation, one store, small events with their buffers, and room in
  the counter.
\<close>

definition settle_conditions ::
  "runtime \<Rightarrow> jito \<Rightarrow> syscalls \<Rightarrow> pubkey \<Rightarrow> settle_accounts \<Rightarrow> settle_args \<Rightarrow> bytes32 \<Rightarrow> bool" where
  "settle_conditions R J S program_id accounts args root =
     (case accounts of (state, ncn_config, ncn, snapshot, restaking_config, ea, sp, buffer) \<Rightarrow>
        let p = sa_payload args in
        gk_state_load R program_id state True = Inr () \<and>
        sp_ix_discriminator p = SETTLE_DISCRIMINATOR \<and> sp_state_pda p = key_of state \<and>
        sp_transition_index p = gk_transition_count (body state) \<and> wf_settlement_payload p \<and>
        verify_certificate_readonly R J S NCN_PROGRAM_ID (Some (ncn_config, ncn, snapshot, restaking_config))
          (sc_sha256 S (enc_settlement_payload p)) (sa_aggregated_g2 args) (sa_aggregated_signature args)
          (sa_operators_signature_bitmap args) (sa_expected_generation args) = Inr () \<and>
        ai_key ea = fst (find_event_authority R program_id) \<and> ai_key sp = program_id \<and>
        stores (sp_updates p) = [root] \<and>
        list_all (event_ok (\<lambda>d. verify_story_meta R S program_id (key_of state) (sp_transition_index p) d buffer))
          (events (sp_updates p)) \<and>
        Suc (unat (gk_transition_count (body state))) < 2 ^ 64)"

definition settled :: "bytes32 \<Rightarrow> gk_state \<Rightarrow> gk_state" where
  "settled root s = s\<lparr>gk_commitment_root := root, gk_transition_count := gk_transition_count s + 1\<rparr>"

lemma settle_Inr:
  "process_settle R M J S program_id (Some (state, cfg, ncn, snap, rc, ea, sp, buffer)) args = Inr (t, ixs) \<longleftrightarrow>
     (\<exists>root. settle_conditions R J S program_id (state, cfg, ncn, snap, rc, ea, sp, buffer) args root \<and>
        t = set_body (settled root (body state)) state \<and>
        ixs = event_ixs program_id (ai_key ea) (sp_updates (sa_payload args)) \<and>
        list_all (\<lambda>ix. mm_invoke_signed M ix [ea, sp]
          [EVENT_AUTHORITY_SEED, [snd (find_event_authority R program_id)]] = Inr ()) ixs)"
  (is "?l \<longleftrightarrow> ?r")
proof
  assume ?l
  then show ?r
    by (auto simp: process_settle_def settle_conditions_def settled_def Let_def payload_digest_Inr
        verify_certificate_inline_def check_updates_Inr emit_events_Inr apply_settle_Inr
        split: if_splits prod.splits dest!: gk_state_view_Inr)
next
  assume ?r
  then show ?l
    by (auto simp: process_settle_def settle_conditions_def settled_def Let_def payload_digest_Inr
        verify_certificate_inline_def check_updates_Inr emit_events_Inr apply_settle_Inr
        gk_state_load_Inr split: prod.splits intro!: exI [of _ "Some _"])
qed

text \<open>
  C7: A settle succeeds exactly under its conditions, and then it writes the one store as the
  commitment root, increases the transition count by one, leaves every other field and account
  alone, and emits exactly the payload's events, in order, signed by the event authority.
\<close>

theorem settle_iff:
  "process_settle R M J S program_id (Some (state, cfg, ncn, snap, rc, ea, sp, buffer)) args = Inr (t, ixs) \<longleftrightarrow>
     (\<exists>root. settle_conditions R J S program_id (state, cfg, ncn, snap, rc, ea, sp, buffer) args root \<and>
        t = set_body ((body state)\<lparr>gk_commitment_root := root,
          gk_transition_count := gk_transition_count (body state) + 1\<rparr>) state \<and>
        ixs = event_ixs program_id (ai_key ea) (sp_updates (sa_payload args)) \<and>
        list_all (\<lambda>ix. mm_invoke_signed M ix [ea, sp]
          [EVENT_AUTHORITY_SEED, [snd (find_event_authority R program_id)]] = Inr ()) ixs)"
  unfolding settle_Inr settled_def ..

subsection \<open>Histories of settlements\<close>

text \<open>
  A settle on one state account; runtime, clock, certificates and the other accounts may be
  different in every call.  The other instructions only read an existing state account.
\<close>

record settle_call =
  sc_runtime :: runtime
  sc_memory :: memory
  sc_jito :: jito
  sc_syscalls :: syscalls
  sc_rest :: "config pod_account \<times> raw_account \<times> snapshot pod_account \<times> raw_account \<times>
    account_info \<times> account_info \<times> raw_account option"
  sc_args :: settle_args

definition settle_step :: "pubkey \<Rightarrow> settle_call \<Rightarrow> gk_state pod_account \<Rightarrow> program_error + gk_state pod_account" where
  "settle_step program_id c state =
     try_bind (process_settle (sc_runtime c) (sc_memory c) (sc_jito c) (sc_syscalls c) program_id
       (Some (state, sc_rest c)) (sc_args c)) (\<lambda>(state, events). Inr state)"

definition call_index :: "settle_call \<Rightarrow> nat" where
  "call_index c = unat (sp_transition_index (sa_payload (sc_args c)))"

lemma settle_step_Inr:
  assumes "settle_step program_id c s = Inr t"
  shows "call_index c = unat (gk_transition_count (body s)) \<and>
    (\<exists>root. stores (sp_updates (sa_payload (sc_args c))) = [root] \<and>
       t = set_body (settled root (body s)) s) \<and>
    unat (gk_transition_count (body t)) = Suc (unat (gk_transition_count (body s)))"
proof -
  obtain cfg ncn snap rc ea sp buffer where "sc_rest c = (cfg, ncn, snap, rc, ea, sp, buffer)"
    by (cases "sc_rest c") auto
  with assms obtain root where root: "settle_conditions (sc_runtime c) (sc_jito c) (sc_syscalls c) program_id
      (s, cfg, ncn, snap, rc, ea, sp, buffer) (sc_args c) root" and t: "t = set_body (settled root (body s)) s"
    by (auto simp: settle_step_def settle_Inr)
  from root have "Suc (unat (gk_transition_count (body s))) < 2 ^ 64"
    by (simp add: settle_conditions_def Let_def)
  then have "unat (gk_transition_count (body s) + 1) = Suc (unat (gk_transition_count (body s)))"
    by (simp add: unat_word_ariths)
  with root t show ?thesis
    by (auto simp: settle_conditions_def Let_def call_index_def settled_def)
qed

interpretation settlements: exact_counter "settle_step program_id" any any
  "\<lambda>s. unat (gk_transition_count (body s))" for program_id
  by unfold_locales (auto dest: settle_step_Inr)

lemma accepted_indices:
  "map call_index (accepted (settle_step pid) cs s) =
     [unat (gk_transition_count (body s)) ..<
      unat (gk_transition_count (body s)) + length (accepted (settle_step pid) cs s)]"
proof (induction cs arbitrary: s)
  case Nil
  then show ?case by simp
next
  case (Cons c cs)
  show ?case
  proof (cases "settle_step pid c s")
    case (Inl e)
    with Cons.IH [of s] show ?thesis by simp
  next
    case (Inr t)
    have upt: "[k ..< Suc (k + n)] = k # [Suc k ..< Suc k + n]" for k n
      by (simp add: upt_conv_Cons del: upt_Suc)
    from Inr settle_step_Inr [OF Inr] Cons.IH [of t] show ?thesis
      by (simp only: accepted.simps sum.case list.map list.size upt add_Suc_right add_0_right)
  qed
qed

text \<open>
  C8: Over any sequence of settle calls the accepted payloads carry consecutive transition
  indices from the state's count on, so no payload is ever settled twice and none is skipped;
  and the count is advanced by the number of accepted ones.
\<close>

theorem settlements_consecutive:
  "map call_index (accepted (settle_step pid) cs s) =
     [unat (gk_transition_count (body s)) ..<
      unat (gk_transition_count (body s)) + length (accepted (settle_step pid) cs s)] \<and>
   unat (gk_transition_count (body (run_all (settle_step pid) cs s))) =
     unat (gk_transition_count (body s)) + length (accepted (settle_step pid) cs s)"
  using accepted_indices [of pid cs s] settlements.run_exact [where s = s and ops = cs] by auto

subsection \<open>A concrete settle\<close>

definition sample_payload :: "u64 \<Rightarrow> state_update list \<Rightarrow> settlement_payload" where
  "sample_payload i us = \<lparr>sp_transition_index = i, sp_state_pda = 72,
     sp_ix_discriminator = SETTLE_DISCRIMINATOR, sp_updates = us\<rparr>"

definition sample_settle_args :: "u64 \<Rightarrow> state_update list \<Rightarrow> settle_args" where
  "sample_settle_args i us = \<lparr>sa_payload = sample_payload i us, sa_aggregated_g2 = bg_c2 tri_group 1,
     sa_aggregated_signature = 1, sa_operators_signature_bitmap = [1], sa_expected_generation = 2\<rparr>"

definition sample_memory :: memory where
  "sample_memory = \<lparr>mm_allocate = (\<lambda>_ _ n _. Inr (replicate (unat n) 0)),
     mm_realloc = (\<lambda>_ d n. Inr (take n d @ replicate (n - length d) 0)),
     mm_invoke_signed = (\<lambda>_ _ _. Inr ())\<rparr>"

text \<open>A state, and the accounts of an NCN.\<close>

definition foreign_state :: "gk_state pod_account" where
  "foreign_state = \<lparr>ac_info = sample_info 72 43,
     ac_data = \<lparr>pd_len = GK_STATE_SIZE, pd_first = GK_STATE_DISCRIMINATOR,
       pd_body = gk_state_new 2001 5 6 7 255\<rparr>\<rparr>"

definition ncn_pod :: "pubkey \<Rightarrow> nat \<Rightarrow> u8 \<Rightarrow> 'b \<Rightarrow> 'b pod_account" where
  "ncn_pod key len first b = \<lparr>ac_info = sample_info key NCN_PROGRAM_ID,
     ac_data = \<lparr>pd_len = len, pd_first = first, pd_body = b\<rparr>\<rparr>"

definition settle_config :: config where
  "settle_config = config_new 1 6 10 100 5 20 sample_fees (sw_new 0) 255"

lemma ncn_pod_simps [simp]:
  "ac_info (ncn_pod k n f b) = sample_info k NCN_PROGRAM_ID"
  "ac_data (ncn_pod k n f b) = \<lparr>pd_len = n, pd_first = f, pd_body = b\<rparr>"
  "pod_first (ncn_pod k n f b) = (if n = 0 then None else Some f)"
  "pod_view sample_runtime d m (ncn_pod k n f b) =
     (if n \<noteq> 0 \<and> f = d \<and> n = m then Inr b else Inl PE_InvalidAccountData)"
  by (auto simp: ncn_pod_def pod_first_def pod_view_def)

lemma sample_state_pdas [simp]:
  "rt_find_program_address sample_runtime seeds p = (of_nat (sum_list (map length seeds)), 255)"
  "rt_create_program_address sample_runtime seeds p = Some (of_nat (sum_list (map length seeds) - 1))"
  by (simp_all add: sample_runtime_def)

lemma length_settlement_seeds [simp]:
  "length GK_STATE_SEED = 8" "length GK_BUFFER_SEED = 9" "length EVENT_AUTHORITY_SEED = 18"
  by (simp_all add: GK_STATE_SEED_def GK_BUFFER_SEED_def EVENT_AUTHORITY_SEED_def ascii_def)

lemma sample_certificate_verifies:
  "verify_certificate_readonly sample_runtime sample_jito tri_syscalls NCN_PROGRAM_ID
     (Some (ncn_pod 38 CONFIG_SIZE 1 settle_config, sample_raw 1 1001,
       ncn_pod 40 SNAPSHOT_SIZE (discriminator D_Snapshot) sample_snapshot, sample_raw 6 1001))
     digest (bg_c2 tri_group 1) 1 [1] 2 = Inr ()"
proof -
  have size: "SNAPSHOT_SIZE \<noteq> 0" "CONFIG_SIZE \<noteq> 0" by (simp_all add: SNAPSHOT_SIZE_def CONFIG_SIZE_def)
  have view: "config_view sample_runtime (ncn_pod 38 CONFIG_SIZE 1 settle_config) = Inr settle_config"
    using size by (simp add: config_view_def)
  have c: "cf_consensus_threshold_bps settle_config = 6667" "cf_valid_slots_after_consensus settle_config = 100"
    by (simp_all add: settle_config_def config_new_def DEFAULT_CONSENSUS_THRESHOLD_BPS_def)
  show ?thesis
    using sample_iff [of digest] sample_conditions size
    by (simp add: verify_certificate_readonly_def sample_loads view c snapshot_view_def)
qed

lemma foreign_loads: "gk_state_load sample_runtime 43 foreign_state True = Inr ()"
  unfolding gk_state_load_Inr
  by (simp add: foreign_state_def pod_first_def gk_state_view_def pod_view_def gk_state_pda_def GK_STATE_SIZE_def)

theorem digest_binds_payload_witness:
  "sample_payload 0 [] \<noteq> sample_payload 1 [] \<and>
   enc_settlement_payload (sample_payload 0 []) \<noteq> enc_settlement_payload (sample_payload 1 []) \<and>
   sc_sha256 tri_syscalls (enc_settlement_payload (sample_payload 0 [])) =
     sc_sha256 tri_syscalls (enc_settlement_payload (sample_payload 1 []))"
proof -
  have "payload_digest tri_syscalls (sample_payload i []) = Inr (MessageDigest 1)" for i
    by (simp add: payload_digest_Inr wf_settlement_payload_def wf_vec_def sample_payload_def tri_syscalls_def)
  moreover have "sample_payload 0 [] \<noteq> sample_payload 1 []" by (simp add: sample_payload_def)
  ultimately show ?thesis using digest_binds_payload [of tri_syscalls "sample_payload 0 []" _ "sample_payload 1 []"] by blast
qed

text \<open>An account list with no accounts in it.\<close>

definition no_accounts :: settlement_accounts where
  "no_accounts = \<lparr>sx_initialize_state = None, sx_write_buffer = None, sx_settle = None,
     sx_close_buffer = None, sx_emit_event = None\<rparr>"

theorem built_instructions_dispatch_witness:
  "\<exists>ix. settle_ix sample_runtime SETTLEMENT_PROGRAM_ID 72 38 1 40 6 None (sample_settle_args 0 [Store 99]) = Inr ix \<and>
     settlement_process_instruction sample_runtime sample_memory sample_jito tri_syscalls (ix_program_id ix)
       no_accounts (ix_data ix) = Inl PE_NotEnoughAccountKeys"
proof -
  obtain ix1 where 1: "initialize_state_ix sample_runtime SETTLEMENT_PROGRAM_ID 72 1 6
      \<lparr>is_app_id = 5, is_sim_profile_id = 6, is_env_commitment = 7\<rparr> = Inr ix1"
    by (auto simp: initialize_state_ix_def encode_ix_def try_to_vec_def)
  obtain ix2 where 2: "write_buffer_ix sample_runtime SETTLEMENT_PROGRAM_ID 72 49 6
      \<lparr>wb_transition_index = 0, wb_offset = 0, wb_bytes = [7], wb_max_size = 2\<rparr> = Inr ix2"
    by (auto simp: write_buffer_ix_def encode_ix_def try_to_vec_def wf_write_buffer_args_def)
  obtain ix3 where 3: "settle_ix sample_runtime SETTLEMENT_PROGRAM_ID 72 38 1 40 6 None
      (sample_settle_args 0 [Store 99]) = Inr ix3"
    by (auto simp: settle_ix_def encode_ix_def try_to_vec_def wf_settle_args_def sample_settle_args_def
        sample_payload_def wf_settlement_payload_def wf_vec_def wf_state_update_def Let_def)
  obtain ix4 where 4: "close_buffer_ix sample_runtime SETTLEMENT_PROGRAM_ID 72 49 6
      \<lparr>cb_transition_index = 3\<rparr> = Inr ix4"
    by (auto simp: close_buffer_ix_def encode_ix_def try_to_vec_def)
  show ?thesis
    using built_instructions_dispatch [OF 1 2 3 4, of sample_memory sample_jito tri_syscalls no_accounts] 3
    by (simp add: no_accounts_def process_settle_def)
qed

end
