(* ===== verification/Buffer_Properties.thy ===== *)
theory Buffer_Properties
  imports Settle_Properties
begin

text \<open>
  The buffers: writing into one refines an update of its content, sequential chunks stage a
  story that a settle then accepts, the size never exceeds the recorded maximum, and only the
  recorded payer gets the rent back, after the transition settled.
\<close>

subsection \<open>Writing refines updating the content\<close>

text \<open>
  The content of a buffer with room for \<open>m\<close> bytes after a write at \<open>off\<close>: it grows, when it
  must, by at most 10,240 zero bytes, and not beyond \<open>m\<close>.
\<close>

definition grown_len :: "nat \<Rightarrow> nat \<Rightarrow> nat \<Rightarrow> nat" where
  "grown_len m n e = (if e \<le> n then n else min (n + 10240) m)"

definition stage :: "nat \<Rightarrow> bytes \<Rightarrow> nat \<Rightarrow> bytes \<Rightarrow> bytes option" where
  "stage m c off bs =
     (let e = off + length bs; n = grown_len m (length c) e
      in if e \<le> m \<and> e \<le> n then Some (put_range (c @ replicate (n - length c) 0) off bs) else None)"

text \<open>The realloc of the runtime does not fail.\<close>

definition realloc_total :: "memory \<Rightarrow> bool" where
  "realloc_total M \<longleftrightarrow> (\<forall>i d n. is_ok (mm_realloc M i d n))"

lemma memory_realloc:
  assumes "memory_laws M" "realloc_total M"
  shows "mm_realloc M i d n = Inr (take n d @ replicate (n - length d) 0)"
proof -
  from assms(2) obtain d' where "mm_realloc M i d n = Inr d'"
    unfolding realloc_total_def is_ok_iff by blast
  with assms(1) show ?thesis by (auto simp: memory_laws_def)
qed

lemma put_range_append: "a + length ys \<le> length xs \<Longrightarrow> put_range (xs @ zs) a ys = put_range xs a ys @ zs"
  by (simp add: put_range_def)

lemma put_range_buffer:
  "a + length ys \<le> length c \<Longrightarrow> put_range (buffer_of c p m) a ys = buffer_of (put_range c a ys) p m"
  by (simp add: buffer_of_def put_range_append)

lemma take_buffer_of [simp]: "take (length c) (buffer_of c p m) = c"
  by (simp add: buffer_of_def)

lemma append_buffer_of:
  "append_chunk (buffer_of c p m) off bs (unat off + length bs) =
     (if unat off + length bs \<le> length c then Inr (buffer_of (put_range c (unat off) bs) p m)
      else Inl (from_settlement SE_InvalidBufferBounds))"
  by (simp add: append_chunk_def buffer_content_len_def put_checked_def put_range_buffer)

lemma grown_content:
  assumes "length c < n"
  shows "take n (put_range (buffer_of c p m @ replicate (n - length c) 0) (length c)
    (replicate BUFFER_TRAILER_LEN 0)) = c @ replicate (n - length c) 0"
proof -
  have "put_range (buffer_of c p m @ replicate (n - length c) 0) (length c) (replicate BUFFER_TRAILER_LEN 0) =
      c @ replicate BUFFER_TRAILER_LEN 0 @ replicate (n - length c) 0"
    by (simp add: put_range_def buffer_of_def BUFFER_TRAILER_LEN_def)
  then show ?thesis using assms by (simp add: replicate_add [symmetric])
qed

lemma grow_buffer_of:
  assumes M: "memory_laws M" "realloc_total M" and c: "length c \<le> unat m" and e: "e \<le> unat m"
  shows "grow_buffer M i (buffer_of c p m) p m e =
    (if e \<le> grown_len (unat m) (length c) e
     then Inr (buffer_of (c @ replicate (grown_len (unat m) (length c) e - length c) 0) p m)
     else Inl (from_settlement SE_InvalidBufferBounds))"
proof (cases "e \<le> length c")
  case True
  have "unat m < 2 ^ 32" using unat_lt_length [of m] by simp
  with True c show ?thesis
    by (simp add: grow_buffer_def Let_def grown_len_def usize_add_def BUFFER_TRAILER_LEN_def)
next
  case False
  let ?n = "min (length c + 10240) (unat m)"
  have m: "unat m < 2 ^ 32" using unat_lt_length [of m] by simp
  have n: "length c < ?n" using False c e by simp
  have step: "min (length c + BUFFER_TRAILER_LEN + MAX_PERMITTED_DATA_INCREASE) (unat m + BUFFER_TRAILER_LEN) =
      ?n + BUFFER_TRAILER_LEN"
    by (simp add: MAX_PERMITTED_DATA_INCREASE_def min_def)
  have take: "take (?n + BUFFER_TRAILER_LEN) (buffer_of c p m) = buffer_of c p m"
    using n by simp
  have sums: "usize_add x e BUFFER_TRAILER_LEN = Inr (e + BUFFER_TRAILER_LEN)"
    "usize_add x (length c + BUFFER_TRAILER_LEN) MAX_PERMITTED_DATA_INCREASE =
       Inr (length c + BUFFER_TRAILER_LEN + MAX_PERMITTED_DATA_INCREASE)"
    "usize_add x (unat m) BUFFER_TRAILER_LEN = Inr (unat m + BUFFER_TRAILER_LEN)" for x :: program_error
    using m c e by (simp_all add: usize_add_def BUFFER_TRAILER_LEN_def MAX_PERMITTED_DATA_INCREASE_def)
  have len: "grown_len (unat m) (length c) e = ?n" using False by (simp add: grown_len_def)
  show ?thesis
    using False grown_content [OF n, of p m] n unfolding len
    by (simp add: grow_buffer_def Let_def sums step memory_realloc [OF M] take
        buffer_content_len_def put_checked_def del: min_less_iff_conj min.bounded_iff)
qed

lemma write_chunk_stage:
  assumes M: "memory_laws M" "realloc_total M" and c: "length c \<le> unat m"
  shows "result_ok (write_chunk M i (buffer_of c p m) args) =
    map_option (\<lambda>c'. buffer_of c' p m) (stage (unat m) c (unat (wb_offset args)) (wb_bytes args))"
proof (cases "unat (wb_offset args) + length (wb_bytes args) \<le> unat m")
  case False
  then show ?thesis
    by (simp add: write_chunk_def stage_def Let_def usize_add_def)
next
  case True
  let ?e = "unat (wb_offset args) + length (wb_bytes args)"
  let ?n = "grown_len (unat m) (length c) ?e"
  have m: "unat m < 2 ^ 32" using unat_lt_length [of m] by simp
  have "length c \<le> ?n" using c by (simp add: grown_len_def)
  then show ?thesis
    using True m c
    by (simp add: write_chunk_def usize_add_def grow_buffer_of [OF M c True] append_buffer_of stage_def Let_def)
qed

text \<open>
  C14: Writing a chunk into a buffer refines the update of its content: the trailer keeps payer and
  maximum at the new end, the bytes that were the old trailer become zero content, the chunk
  stands at its offset, everything else stays, and the write is refused exactly when it would pass
  the maximum or the growth of one instruction.
\<close>

theorem write_chunk_refines:
  assumes "memory_laws M" "realloc_total M" "length c \<le> unat m"
  shows "result_ok (write_chunk M i (buffer_of c p m) args) =
    map_option (\<lambda>c'. buffer_of c' p m) (stage (unat m) c (unat (wb_offset args)) (wb_bytes args))"
  by (rule write_chunk_stage [OF assms])

subsection \<open>Staging a story in chunks\<close>

fun write_chunks :: "memory \<Rightarrow> account_info \<Rightarrow> bytes \<Rightarrow> nat \<Rightarrow> bytes list \<Rightarrow> program_error + bytes" where
  "write_chunks M info data off [] = Inr data"
| "write_chunks M info data off (chunk # chunks) =
     try_bind (write_chunk M info data \<lparr>wb_transition_index = 0, wb_offset = of_nat off,
       wb_bytes = chunk, wb_max_size = 0\<rparr>) (\<lambda>data.
     write_chunks M info data (off + length chunk) chunks)"

lemma stage_next:
  assumes "off \<le> length c" "length c \<le> m" "off + length bs \<le> m" "length bs \<le> 10240"
  shows "\<exists>c'. stage m c off bs = Some c' \<and> take (off + length bs) c' = take off c @ bs \<and>
    off + length bs \<le> length c' \<and> length c' \<le> m"
  using assms by (auto simp: stage_def Let_def grown_len_def put_range_def)

lemma write_chunks_stage:
  assumes M: "memory_laws M" "realloc_total M"
  shows "list_all (\<lambda>b. length b \<le> 10240) chunks \<Longrightarrow> length c \<le> unat (m :: u32) \<Longrightarrow> off \<le> length c \<Longrightarrow>
    off + length (concat chunks) \<le> unat m \<Longrightarrow>
    \<exists>c'. write_chunks M i (buffer_of c p m) off chunks = Inr (buffer_of c' p m) \<and>
      take (off + length (concat chunks)) c' = take off c @ concat chunks \<and>
      off + length (concat chunks) \<le> length c' \<and> length c' \<le> unat m"
proof (induction chunks arbitrary: c off)
  case Nil
  then show ?case by auto
next
  case (Cons b bs)
  let ?args = "\<lparr>wb_transition_index = 0, wb_offset = of_nat off, wb_bytes = b, wb_max_size = 0\<rparr>"
  have "off < 2 ^ 32" using Cons.prems unat_lt_length [of m] by simp
  then have off: "unat (of_nat off :: u32) = off" by (simp add: unat_of_nat take_bit_nat_eq_self)
  obtain c' where c': "stage (unat m) c off b = Some c'" "take (off + length b) c' = take off c @ b"
    "off + length b \<le> length c'" "length c' \<le> unat m"
    using stage_next [of off c "unat m" b] Cons.prems by auto
  then have "write_chunk M i (buffer_of c p m) ?args = Inr (buffer_of c' p m)"
    using write_chunk_stage [OF M, of c m i p ?args] Cons.prems off by simp
  moreover have "\<exists>c''. write_chunks M i (buffer_of c' p m) (off + length b) bs = Inr (buffer_of c'' p m) \<and>
      take (off + length b + length (concat bs)) c'' = take (off + length b) c' @ concat bs \<and>
      off + length b + length (concat bs) \<le> length c'' \<and> length c'' \<le> unat m"
    using Cons.prems c' by (intro Cons.IH) auto
  ultimately show ?case using c'(2) by (auto simp: add.assoc)
qed

lemma verify_story_meta_Inr:
  "verify_story_meta R S pid state_key i d (Some b) = Inr () \<longleftrightarrow>
     (\<exists>meta. d = enc_story_meta meta \<and> ai_owner (ac_info b) = pid \<and>
        key_of b = fst (find_buffer_program_address R pid state_key i) \<and> sm_buffer meta = key_of b \<and>
        unat (sm_len meta) + BUFFER_TRAILER_LEN \<le> length (ac_data b) \<and>
        sc_sha256 S (take (unat (sm_len meta)) (ac_data b)) = sm_story_sha256 meta)"
proof -
  note decode = codec.try_from_slice_iff [OF story_meta_codec, of d]
  show ?thesis
  proof (cases "try_from_slice dec_story_meta d")
    case (Inl e)
    then have "d \<noteq> enc_story_meta meta" for meta using decode [of meta] by simp
    with Inl show ?thesis by (simp add: verify_story_meta_def)
  next
    case (Inr meta)
    then have "d = enc_story_meta m \<longleftrightarrow> m = meta" for m using decode [of m] by auto
    with Inr show ?thesis
      by (auto simp: verify_story_meta_def Let_def buffer_content_len_def get_range_def split: if_splits)
  qed
qed

lemma story_staged:
  assumes M: "memory_laws M" "realloc_total M"
    and chunks: "list_all (\<lambda>b. length b \<le> 10240) chunks" "concat chunks = story"
    and fits: "length story \<le> unat (m :: u32)" "length c \<le> unat m"
    and b: "ac_data b = buffer_of c p m" "ai_owner (ac_info b) = pid"
      "key_of b = fst (find_buffer_program_address R pid state_key i)"
  shows "\<exists>data. write_chunks M (ac_info b) (ac_data b) 0 chunks = Inr data \<and>
    take (length story) data = story \<and>
    verify_story_meta R S pid state_key i (enc_story_meta \<lparr>sm_story_sha256 = sc_sha256 S story,
      sm_buffer = key_of b, sm_len = of_nat (length story)\<rparr>) (Some (b\<lparr>ac_data := data\<rparr>)) = Inr ()"
proof -
  obtain c' where c': "write_chunks M (ac_info b) (buffer_of c p m) 0 chunks = Inr (buffer_of c' p m)"
    "take (length story) c' = story" "length story \<le> length c'"
    using write_chunks_stage [OF M chunks(1) fits(2), of 0 "ac_info b" p] chunks(2) fits(1) by auto
  then have story: "take (length story) (buffer_of c' p m) = story" by (simp add: buffer_of_def)
  have "length story < 2 ^ 32" using fits(1) unat_lt_length [of m] by simp
  then have "unat (of_nat (length story) :: u32) = length story"
    by (simp add: unat_of_nat take_bit_nat_eq_self)
  with c' story b show ?thesis
    by (intro exI [of _ "buffer_of c' p m"])
      (auto simp: verify_story_meta_Inr intro!: exI [of _ "\<lparr>sm_story_sha256 = sc_sha256 S story,
        sm_buffer = key_of b, sm_len = of_nat (length story)\<rparr>"])
qed

text \<open>
  C15: Staging works: a story that fits the buffer, written in order in chunks of at most 10,240
  bytes, is completely staged whatever the buffer contained, and a story event with its hash and
  length is then accepted by the settle's check.
\<close>

theorem story_staged_verifies:
  assumes M: "memory_laws M" "realloc_total M"
    and chunks: "list_all (\<lambda>b. length b \<le> 10240) chunks" "concat chunks = story"
    and fits: "length story \<le> unat (m :: u32)" "length c \<le> unat m"
    and b: "ac_data b = buffer_of c p m" "ai_owner (ac_info b) = pid"
      "key_of b = fst (find_buffer_program_address R pid state_key i)"
  shows "\<exists>data. write_chunks M (ac_info b) (ac_data b) 0 chunks = Inr data \<and>
    take (length story) data = story \<and>
    verify_story_meta R S pid state_key i (enc_story_meta \<lparr>sm_story_sha256 = sc_sha256 S story,
      sm_buffer = key_of b, sm_len = of_nat (length story)\<rparr>) (Some (b\<lparr>ac_data := data\<rparr>)) = Inr ()"
  by (rule story_staged [OF assms])

subsection \<open>The recorded maximum\<close>

lemma write_chunk_bounds:
  assumes M: "memory_laws M" and w: "write_chunk M i data args = Inr data'"
    and trailer: "read_buffer_trailer data = Inr (p, m)" and len: "length data \<le> unat m + BUFFER_TRAILER_LEN"
  shows "read_buffer_trailer data' = Inr (p, m) \<and> length data' \<le> unat m + BUFFER_TRAILER_LEN \<and>
    length data' \<le> length data + 10240"
proof -
  define c where "c = take (length data - BUFFER_TRAILER_LEN) data"
  have data: "data = buffer_of c p m" unfolding c_def by (rule is_buffer [OF trailer])
  have c: "length c \<le> unat m" using len data by simp
  let ?M = "M\<lparr>mm_realloc := \<lambda>i d n. Inr (take n d @ replicate (n - length d) 0)\<rparr>"
  have "mm_realloc M i d n = Inr d' \<Longrightarrow> d' = take n d @ replicate (n - length d) 0" for d n d'
    using M by (simp add: memory_laws_def)
  then have "grow_buffer M i d p m e = Inr d' \<Longrightarrow> grow_buffer ?M i d p m e = Inr d'" for d p m e d'
    by (fastforce simp: grow_buffer_def Let_def split: if_splits)
  then have "write_chunk ?M i data args = Inr data'"
    using w by (fastforce simp: write_chunk_def split: if_splits prod.splits)
  moreover have "memory_laws ?M" "realloc_total ?M"
    using M by (simp_all add: memory_laws_def realloc_total_def)
  ultimately obtain c' where "stage (unat m) c (unat (wb_offset args)) (wb_bytes args) = Some c'"
    "data' = buffer_of c' p m"
    using write_chunk_stage [of ?M c m i p args] c data by (auto simp: map_option_case split: option.splits)
  then show ?thesis
    using c data by (auto simp: stage_def Let_def grown_len_def split: if_splits)
qed

text \<open>Writes by anyone, each with its own runtime.\<close>

definition buffer_step :: "memory \<times> account_info \<times> write_buffer_args \<Rightarrow> bytes \<Rightarrow> program_error + bytes" where
  "buffer_step op data = (case op of (M, i, args) \<Rightarrow> write_chunk M i data args)"

definition buffer_op_ok :: "memory \<times> account_info \<times> write_buffer_args \<Rightarrow> bool" where
  "buffer_op_ok op \<longleftrightarrow> memory_laws (fst op)"

interpretation buffer_writes: transactional buffer_step buffer_op_ok
  "\<lambda>data. read_buffer_trailer data = Inr (p, m) \<and> length data \<le> unat m + BUFFER_TRAILER_LEN" for p m
  by unfold_locales (auto simp: buffer_step_def buffer_op_ok_def dest: write_chunk_bounds split: prod.splits)

lemma short_buffer_rejects:
  assumes "length (ac_data b) \<le> unat m + BUFFER_TRAILER_LEN" "unat (m :: u32) < unat (sm_len meta)"
  shows "verify_story_meta R S pid k i (enc_story_meta meta) (Some b) \<noteq> Inr ()"
  using assms codec.enc_inject [OF story_meta_codec, of meta]
  by (auto simp: verify_story_meta_Inr)

lemma create_pda_account_Inr:
  assumes "create_pda_account R alloc payer a p n rn seeds = Inr (payer', a')"
  shows "ai_key payer' = ai_key payer \<and> key_of a' = key_of a \<and>
    (\<exists>info. alloc info (ac_data a) (of_nat n) seeds = Inr (ac_data a'))"
  using assms by (auto simp: create_pda_account_def Let_def split: if_splits prod.splits)

lemma memory_allocate: "memory_laws M \<Longrightarrow> mm_allocate M i d n seeds = Inr d' \<Longrightarrow> d' = replicate (unat n) 0"
  unfolding memory_laws_def by blast

lemma created_buffer:
  assumes M: "memory_laws M" and c: "create_buffer R M pid k bump payer b args = Inr (payer', b')"
  shows "ac_data b' = buffer_of (replicate (min (unat (wb_max_size args)) 10204) 0) (ai_key payer) (wb_max_size args) \<and>
    key_of b' = key_of b \<and> unat (wb_max_size args) \<le> MAX_BUFFER_CONTENT_LEN"
proof -
  let ?m = "unat (wb_max_size args)"
  have n: "unat (of_nat (min (?m + 36) 10240) :: u64) = min (?m + 36) 10240"
    by (simp add: unat_of_nat take_bit_nat_eq_self)
  from c obtain d payer'' a where m: "?m \<le> MAX_BUFFER_CONTENT_LEN" and
    cr: "create_pda_account R (mm_allocate M) payer b pid (min (?m + BUFFER_TRAILER_LEN) MAX_PERMITTED_DATA_INCREASE)
        (?m + BUFFER_TRAILER_LEN) (buffer_seeds k (wb_transition_index args) @ [[bump]]) = Inr (payer'', a)" and
    w: "write_buffer_trailer (ac_data a) (ai_key payer'') (wb_max_size args) = Inr d" and b': "b' = a\<lparr>ac_data := d\<rparr>"
    by (auto simp: create_buffer_def Let_def split: if_splits)
  have data: "ac_data a = replicate (min (?m + 36) 10240) 0"
    using create_pda_account_Inr [OF cr] n
    by (auto simp: BUFFER_TRAILER_LEN_def MAX_PERMITTED_DATA_INCREASE_def dest: memory_allocate [OF M])
  have "min (?m + 36) 10240 - 36 = min ?m 10204" "min (min ?m 10204) (min (?m + 36) 10240) = min ?m 10204"
    by (simp_all add: min_def)
  then show ?thesis
    using w b' data m create_pda_account_Inr [OF cr]
    by (auto simp: BUFFER_TRAILER_LEN_def take_replicate split: if_splits)
qed

lemma write_buffer_created:
  assumes M: "memory_laws M" and fresh: "ac_data b = []" "ai_owner (ac_info b) \<noteq> pid"
    and w: "process_write_buffer R M pid (Some (state, b, payer, sys)) args = Inr (b', payer')"
  shows "read_buffer_trailer (ac_data b') = Inr (ai_key payer, wb_max_size args) \<and>
    length (ac_data b') \<le> unat (wb_max_size args) + BUFFER_TRAILER_LEN"
proof -
  from w fresh obtain bump payer'' a d where
    cr: "create_buffer R M pid (key_of state) bump payer b args = Inr (payer'', a)" and
    wr: "write_chunk M (ac_info a) (ac_data a) args = Inr d" and b': "b' = a\<lparr>ac_data := d\<rparr>"
    by (auto simp: process_write_buffer_def split: if_splits prod.splits)
  have a: "read_buffer_trailer (ac_data a) = Inr (ai_key payer, wb_max_size args)"
    "length (ac_data a) \<le> unat (wb_max_size args) + BUFFER_TRAILER_LEN"
    using created_buffer [OF M cr] by auto
  show ?thesis using write_chunk_bounds [OF M wr a] b' by simp
qed

text \<open>
  C35: The first writer of a buffer, whoever it is, fixes its rent payer and its maximum for ever:
  whatever is written afterwards and by whom, the buffer never holds more than that maximum, and
  no story longer than it can be settled from it.
\<close>

theorem first_writer_fixes_maximum:
  assumes M: "memory_laws M" and fresh: "ac_data b = []" "ai_owner (ac_info b) \<noteq> pid"
    and w: "process_write_buffer R M pid (Some (state, b, payer, sys)) args = Inr (b', payer')"
    and ops: "list_all buffer_op_ok ops" and long: "unat (wb_max_size args) < unat (sm_len meta)"
  shows "read_buffer_trailer (run_all buffer_step ops (ac_data b')) = Inr (ai_key payer, wb_max_size args) \<and>
    length (run_all buffer_step ops (ac_data b')) \<le> unat (wb_max_size args) + 36 \<and>
    verify_story_meta R S pid (key_of state) (wb_transition_index args) (enc_story_meta meta)
      (Some (b'\<lparr>ac_data := run_all buffer_step ops (ac_data b')\<rparr>)) \<noteq> Inr ()"
proof -
  have inv: "read_buffer_trailer (run_all buffer_step ops (ac_data b')) = Inr (ai_key payer, wb_max_size args) \<and>
      length (run_all buffer_step ops (ac_data b')) \<le> unat (wb_max_size args) + BUFFER_TRAILER_LEN"
    using buffer_writes.run_inv [OF write_buffer_created [OF M fresh w] ops] .
  then show ?thesis
    using short_buffer_rejects [where b = "b'\<lparr>ac_data := run_all buffer_step ops (ac_data b')\<rparr>", OF _ long]
    by (simp add: BUFFER_TRAILER_LEN_def)
qed

subsection \<open>Closing\<close>

text \<open>
  A buffer is closed exactly by its recorded payer's signature after its transition settled;
  all its lamports, and nothing else, go to the payer, and the account is emptied and given back
  to the system program.
\<close>

theorem close_buffer_iff:
  "process_close_buffer R M pid (Some (state, b, payer)) args = Inr (b', payer') \<longleftrightarrow>
     gk_state_load R pid state False = Inr () \<and> rt_load_signer R payer True = Inr () \<and>
     ai_owner (ac_info b) = pid \<and>
     key_of b = fst (rt_find_program_address R
       [GK_BUFFER_SEED, b32 (key_of state), le_bytes 8 (cb_transition_index args)] pid) \<and>
     cb_transition_index args < gk_transition_count (body state) \<and>
     (\<exists>m. read_buffer_trailer (ac_data b) = Inr (ai_key payer, m)) \<and>
     unat (ai_lamports payer) + unat (ai_lamports (ac_info b)) < 2 ^ 64 \<and>
     payer' = payer\<lparr>ai_lamports := ai_lamports payer + ai_lamports (ac_info b)\<rparr> \<and>
     (\<exists>d. mm_realloc M ((ac_info b)\<lparr>ai_lamports := 0, ai_owner := rt_system_program_id R\<rparr>) (ac_data b) 0 = Inr d \<and>
        b' = b\<lparr>ac_info := (ac_info b)\<lparr>ai_lamports := 0, ai_owner := rt_system_program_id R\<rparr>, ac_data := d\<rparr>)"
  (is "?l \<longleftrightarrow> ?r")
proof
  assume ?l
  then show ?r
    by (auto simp: process_close_buffer_def find_buffer_program_address_def buffer_seeds_def Let_def
        checked_add_def not_le split: if_splits prod.splits dest!: gk_state_view_Inr)
next
  assume ?r
  then show ?l
    by (auto simp: process_close_buffer_def find_buffer_program_address_def buffer_seeds_def Let_def
        checked_add_def not_le gk_state_load_Inr split: prod.splits)
qed

subsection \<open>Concrete buffers\<close>

lemma sample_memory_laws: "memory_laws sample_memory" "realloc_total sample_memory"
  by (simp_all add: memory_laws_def realloc_total_def sample_memory_def)

definition sample_write :: "bytes \<Rightarrow> u32 \<Rightarrow> write_buffer_args" where
  "sample_write bs m = \<lparr>wb_transition_index = 0, wb_offset = 0, wb_bytes = bs, wb_max_size = m\<rparr>"

definition sample_buffer :: "pubkey \<Rightarrow> bytes \<Rightarrow> raw_account" where
  "sample_buffer owner data = \<lparr>ac_info = sample_info 49 owner, ac_data = data\<rparr>"

lemma sample_buffer_simps [simp]:
  "ac_info (sample_buffer p d) = sample_info 49 p" "ac_data (sample_buffer p d) = d"
  by (simp_all add: sample_buffer_def)

lemma sample_buffer_address [simp]:
  "find_buffer_program_address sample_runtime p k i = (49, 255, buffer_seeds k i)"
  by (simp add: find_buffer_program_address_def buffer_seeds_def)

lemma sample_sha256: "sc_sha256 tri_syscalls bs = 1"
  by (simp add: tri_syscalls_def)

lemma sample_stage: "stage 2 [0, 0] 0 [7] = Some [7, 0]"
  by (simp add: stage_def grown_len_def put_range_def)

theorem write_chunk_refines_witness:
  "result_ok (write_chunk sample_memory (sample_info 49 43) (buffer_of [0, 0] 6 2) (sample_write [7] 0)) =
     Some (buffer_of [7, 0] 6 2)"
  using write_chunk_refines [OF sample_memory_laws, of "[0, 0]" 2 "sample_info 49 43" 6 "sample_write [7] 0"]
  by (simp add: sample_write_def sample_stage)

theorem story_staged_verifies_witness:
  "\<exists>data. write_chunks sample_memory (sample_info 49 43) (buffer_of [] 6 3) 0 [[1, 2], [3]] = Inr data \<and>
     take 3 data = [1, 2, 3] \<and>
     verify_story_meta sample_runtime tri_syscalls 43 72 0 (enc_story_meta \<lparr>sm_story_sha256 = 1,
       sm_buffer = 49, sm_len = 3\<rparr>) (Some (sample_buffer 43 data)) = Inr ()"
  using story_staged_verifies [OF sample_memory_laws, where chunks = "[[1, 2], [3]]" and story = "[1, 2, 3]"
      and m = 3 and c = "[]" and p = 6 and b = "sample_buffer 43 (buffer_of [] 6 3)" and pid = 43
      and R = sample_runtime and state_key = 72 and i = 0 and S = tri_syscalls]
  by (simp add: sample_sha256 sample_buffer_def numeral_3_eq_3 [symmetric])

lemma sample_first_write:
  "process_write_buffer sample_runtime sample_memory 43
     (Some (foreign_state, sample_buffer 0 [], sample_info 6 0, sample_info 0 0)) (sample_write [7] 2) =
   Inr (sample_buffer 43 (buffer_of [7, 0] 6 2), sample_info 6 0)"
proof -
  have load: "gk_state_load sample_runtime 43 foreign_state False = Inr ()"
    using foreign_loads by (simp add: gk_state_load_Inr)
  have view: "gk_state_view sample_runtime foreign_state = Inr (gk_state_new 2001 5 6 7 255)"
    using foreign_loads by (simp add: gk_state_load_Inr foreign_state_def)
  have rent: "saturating_sub (38 :: u64) 1000000 = 0" by (simp add: saturating_sub_def)
  have "create_buffer sample_runtime sample_memory 43 (key_of foreign_state) 255 (sample_info 6 0)
      (sample_buffer 0 []) (sample_write [7] 2) = Inr (sample_info 6 0, sample_buffer 43 (buffer_of [0, 0] 6 2))"
    by (simp add: create_buffer_def create_pda_account_def sample_write_def Let_def rent sample_memory_def
        MAX_BUFFER_CONTENT_LEN_def BUFFER_TRAILER_LEN_def MAX_PERMITTED_DATA_INCREASE_def usize_add_def)
      (simp add: sample_buffer_def sample_info_def numeral_2_eq_2)
  moreover have "write_chunk sample_memory (sample_info 49 43) (buffer_of [0, 0] 6 2) (sample_write [7] 2) =
      Inr (buffer_of [7, 0] 6 2)"
    using write_chunk_stage [OF sample_memory_laws, of "[0, 0]" 2 "sample_info 49 43" 6 "sample_write [7] 2"]
    by (simp add: sample_write_def sample_stage)
  ultimately show ?thesis
    using load view
    by (simp add: process_write_buffer_def gk_state_new_def sample_write_def foreign_state_def sample_buffer_def)
qed

theorem first_writer_fixes_maximum_witness:
  "verify_story_meta sample_runtime tri_syscalls 43 72 0
     (enc_story_meta \<lparr>sm_story_sha256 = 1, sm_buffer = 49, sm_len = 3\<rparr>)
     (Some (sample_buffer 43 (run_all buffer_step [(sample_memory, sample_info 49 43, sample_write [1, 2, 3] 3)]
       (buffer_of [7, 0] 6 2)))) \<noteq> Inr ()"
  using first_writer_fixes_maximum [OF sample_memory_laws(1) _ _ sample_first_write,
      where ops = "[(sample_memory, sample_info 49 43, sample_write [1, 2, 3] 3)]"
        and meta = "\<lparr>sm_story_sha256 = 1, sm_buffer = 49, sm_len = 3\<rparr>" and S = tri_syscalls]
  by (simp add: buffer_op_ok_def sample_memory_laws sample_write_def foreign_state_def)
    (simp add: sample_buffer_def)

end
