(* ===== verification/Rust_Strings.thy ===== *)
theory Rust_Strings
  imports Bytes
begin

text \<open>
  Strings of the host tools, as the standard library has them.  A Rust \<open>String\<close> is its UTF-8
  bytes; \<open>std::str::from_utf8\<close> accepts exactly the well-formed byte sequences: no overlong form,
  no surrogate, nothing above \<open>0x10FFFF\<close>.  \<open>split\<close> on an ASCII character, \<open>trim\<close> with the white
  space of Unicode, \<open>trim_start_matches\<close> and \<open>parse\<close> of the unsigned types follow.
\<close>

type_synonym rust_string = bytes

definition continuation :: "u8 \<Rightarrow> bool" where
  "continuation b \<longleftrightarrow> 0x80 \<le> b \<and> b \<le> 0xBF"

text \<open>The second byte that a lead byte of a three- or four-byte sequence allows.\<close>

definition second_of_3 :: "u8 \<Rightarrow> u8 \<Rightarrow> bool" where
  "second_of_3 a b \<longleftrightarrow> continuation b \<and> (a = 0xE0 \<longrightarrow> 0xA0 \<le> b) \<and> (a = 0xED \<longrightarrow> b \<le> 0x9F)"

definition second_of_4 :: "u8 \<Rightarrow> u8 \<Rightarrow> bool" where
  "second_of_4 a b \<longleftrightarrow> continuation b \<and> (a = 0xF0 \<longrightarrow> 0x90 \<le> b) \<and> (a = 0xF4 \<longrightarrow> b \<le> 0x8F)"

fun valid_utf8 :: "bytes \<Rightarrow> bool" where
  "valid_utf8 [] = True"
| "valid_utf8 (a # bs) =
     (if a < 0x80 then valid_utf8 bs
      else if 0xC2 \<le> a \<and> a \<le> 0xDF then
        (case bs of b # r \<Rightarrow> continuation b \<and> valid_utf8 r | _ \<Rightarrow> False)
      else if 0xE0 \<le> a \<and> a \<le> 0xEF then
        (case bs of b # c # r \<Rightarrow> second_of_3 a b \<and> continuation c \<and> valid_utf8 r | _ \<Rightarrow> False)
      else if 0xF0 \<le> a \<and> a \<le> 0xF4 then
        (case bs of b # c # d # r \<Rightarrow> second_of_4 a b \<and> continuation c \<and> continuation d \<and> valid_utf8 r
         | _ \<Rightarrow> False)
      else False)"

definition from_utf8 :: "bytes \<Rightarrow> rust_string option" where
  "from_utf8 bs = (if valid_utf8 bs then Some bs else None)"

lemma valid_utf8_ascii: "list_all (\<lambda>b. b < 0x80) bs \<Longrightarrow> valid_utf8 bs"
  by (induction bs) auto

lemma from_utf8_Some [simp]: "from_utf8 bs = Some s \<longleftrightarrow> valid_utf8 bs \<and> s = bs"
  by (auto simp: from_utf8_def)

subsection \<open>Splitting and trimming\<close>

fun split_at_char :: "u8 \<Rightarrow> rust_string \<Rightarrow> rust_string list" where
  "split_at_char c [] = [[]]"
| "split_at_char c (x # xs) =
     (if x = c then [] # split_at_char c xs
      else case split_at_char c xs of [] \<Rightarrow> [[x]] | w # ws \<Rightarrow> (x # w) # ws)"

lemma split_at_char_not_Nil [simp]: "split_at_char c xs \<noteq> []"
  by (induction xs) (auto split: list.splits)

lemma split_at_char_word: "c \<notin> set w \<Longrightarrow> split_at_char c w = [w]"
  by (induction w) auto

lemma split_at_char_cons: "c \<notin> set w \<Longrightarrow> split_at_char c (w @ c # ws) = w # split_at_char c ws"
  by (induction w) auto

text \<open>\<open>join\<close> puts the separator between the parts; splitting undoes it.\<close>

fun join_with :: "u8 \<Rightarrow> rust_string list \<Rightarrow> rust_string" where
  "join_with c [] = []"
| "join_with c [w] = w"
| "join_with c (w # v # ws) = w @ c # join_with c (v # ws)"

lemma split_join:
  "ws \<noteq> [] \<Longrightarrow> list_all (\<lambda>w. c \<notin> set w) ws \<Longrightarrow> split_at_char c (join_with c ws) = ws"
  by (induction c ws rule: join_with.induct) (simp_all add: split_at_char_word split_at_char_cons)

text \<open>The white-space characters of one, two and three bytes.\<close>

definition white1 :: "u8 \<Rightarrow> bool" where
  "white1 a \<longleftrightarrow> a = 0x20 \<or> 0x09 \<le> a \<and> a \<le> 0x0D"

definition white2 :: "u8 \<Rightarrow> u8 \<Rightarrow> bool" where
  "white2 a b \<longleftrightarrow> a = 0xC2 \<and> (b = 0x85 \<or> b = 0xA0)"

definition white3 :: "u8 \<Rightarrow> u8 \<Rightarrow> u8 \<Rightarrow> bool" where
  "white3 a b c \<longleftrightarrow>
     a = 0xE1 \<and> b = 0x9A \<and> c = 0x80 \<or> a = 0xE3 \<and> b = 0x80 \<and> c = 0x80 \<or>
     a = 0xE2 \<and> b = 0x80 \<and> (0x80 \<le> c \<and> c \<le> 0x8A \<or> c = 0xA8 \<or> c = 0xA9 \<or> c = 0xAF) \<or>
     a = 0xE2 \<and> b = 0x81 \<and> c = 0x9F"

text \<open>The number of bytes of the white-space character a string starts with, or zero.\<close>

fun white_space_prefix :: "bytes \<Rightarrow> nat" where
  "white_space_prefix [] = 0"
| "white_space_prefix [a] = (if white1 a then 1 else 0)"
| "white_space_prefix [a, b] = (if white1 a then 1 else if white2 a b then 2 else 0)"
| "white_space_prefix (a # b # c # r) =
     (if white1 a then 1 else if white2 a b then 2 else if white3 a b c then 3 else 0)"

lemma white_space_prefix_le: "white_space_prefix bs \<le> length bs"
  by (cases bs rule: white_space_prefix.cases) auto

text \<open>The same for the last character.\<close>

definition white_space_suffix :: "bytes \<Rightarrow> nat" where
  "white_space_suffix bs =
     (let n = length bs in
      if n \<ge> 1 \<and> white_space_prefix (drop (n - 1) bs) = 1 then 1
      else if n \<ge> 2 \<and> white_space_prefix (drop (n - 2) bs) = 2 then 2
      else if n \<ge> 3 \<and> white_space_prefix (drop (n - 3) bs) = 3 then 3
      else 0)"

function trim_start :: "rust_string \<Rightarrow> rust_string" where
  "trim_start bs =
     (if white_space_prefix bs = 0 then bs else trim_start (drop (white_space_prefix bs) bs))"
  by auto

termination trim_start
proof (relation "measure length")
  fix bs :: rust_string
  assume "white_space_prefix bs \<noteq> 0"
  then show "(drop (white_space_prefix bs) bs, bs) \<in> measure length"
    using white_space_prefix_le [of bs] by (cases bs) simp_all
qed simp

function trim_end :: "rust_string \<Rightarrow> rust_string" where
  "trim_end bs =
     (if white_space_suffix bs = 0 then bs
      else trim_end (take (length bs - white_space_suffix bs) bs))"
  by auto

termination trim_end
proof (relation "measure length")
  fix bs :: rust_string
  assume "white_space_suffix bs \<noteq> 0"
  then show "(take (length bs - white_space_suffix bs) bs, bs) \<in> measure length"
    by (auto simp: white_space_suffix_def Let_def split: if_splits)
qed simp

declare trim_start.simps [simp del] trim_end.simps [simp del]

definition trim :: "rust_string \<Rightarrow> rust_string" where
  "trim bs = trim_end (trim_start bs)"

text \<open>A string of printable ASCII characters without spaces is its own trim.\<close>

definition printable :: "rust_string \<Rightarrow> bool" where
  "printable bs \<longleftrightarrow> list_all (\<lambda>b. 0x21 \<le> b \<and> b \<le> 0x7E) bs"

lemma printable_not_white:
  assumes "(0x21 :: u8) \<le> a" "a \<le> 0x7E"
  shows "\<not> white1 a" "\<not> white2 a b" "\<not> white3 a b c"
  using assms by (auto simp: white1_def white2_def white3_def word_le_nat_alt)

lemma white_space_prefix_printable: "printable bs \<Longrightarrow> white_space_prefix bs = 0"
  by (cases bs rule: white_space_prefix.cases) (simp_all add: printable_def printable_not_white)

lemma printable_drop: "printable bs \<Longrightarrow> printable (drop n bs)"
  by (auto simp: printable_def list_all_iff dest: in_set_dropD)

lemma trim_printable [simp]: "printable bs \<Longrightarrow> trim bs = bs"
  by (simp add: trim_def trim_start.simps [of bs] trim_end.simps [of bs] white_space_suffix_def
      white_space_prefix_printable printable_drop)

text \<open>\<open>trim_start_matches\<close> removes a prefix as often as it occurs.\<close>

function trim_start_matches :: "bytes \<Rightarrow> rust_string \<Rightarrow> rust_string" where
  "trim_start_matches pat bs =
     (if pat \<noteq> [] \<and> take (length pat) bs = pat then trim_start_matches pat (drop (length pat) bs) else bs)"
  by auto

termination trim_start_matches
proof (relation "measure (length \<circ> snd)")
  fix pat bs :: bytes
  assume "pat \<noteq> [] \<and> take (length pat) bs = pat"
  then show "((pat, drop (length pat) bs), pat, bs) \<in> measure (length \<circ> snd)"
    by (cases bs) auto
qed simp

declare trim_start_matches.simps [simp del]

subsection \<open>Decimal numbers\<close>

text \<open>
  \<open>str::parse\<close> of an unsigned type with the values below \<open>bound\<close>: an optional plus sign, at least
  one digit, and an error as soon as the value overflows.
\<close>

fun parse_digits :: "nat \<Rightarrow> nat \<Rightarrow> rust_string \<Rightarrow> nat option" where
  "parse_digits bound value [] = Some value"
| "parse_digits bound value (d # ds) =
     (if 0x30 \<le> d \<and> d \<le> 0x39 \<and> value * 10 + (unat d - 0x30) < bound
      then parse_digits bound (value * 10 + (unat d - 0x30)) ds
      else None)"

definition parse_unsigned :: "nat \<Rightarrow> rust_string \<Rightarrow> nat option" where
  "parse_unsigned bound s =
     (let digits = (case s of c # r \<Rightarrow> if c = 0x2B then r else s | [] \<Rightarrow> s)
      in if digits = [] then None else parse_digits bound 0 digits)"

text \<open>The decimal form of a number, and that \<open>parse\<close> reads it back within the type's range.\<close>

fun decimal :: "nat \<Rightarrow> rust_string" where
  "decimal n = (if n < 10 then [of_nat (0x30 + n)] else decimal (n div 10) @ [of_nat (0x30 + n mod 10)])"

declare decimal.simps [simp del]

lemma parse_digits_append:
  "parse_digits bound v (xs @ ys) = Option.bind (parse_digits bound v xs) (\<lambda>w. parse_digits bound w ys)"
  by (induction xs arbitrary: v) auto

lemma digit_byte:
  assumes "d < 10"
  shows "(0x30 :: u8) \<le> 0x30 + of_nat d" "0x30 + of_nat d \<le> (0x39 :: u8)"
    "unat (0x30 + of_nat d :: u8) = 0x30 + d"
proof -
  have d: "unat (of_nat d :: u8) = d"
    using assms by (simp add: unat_of_nat take_bit_nat_eq_self)
  then show u: "unat (0x30 + of_nat d :: u8) = 0x30 + d"
    using assms by (simp add: unat_word_ariths)
  show "(0x30 :: u8) \<le> 0x30 + of_nat d" "0x30 + of_nat d \<le> (0x39 :: u8)"
    using assms by (simp_all only: word_le_nat_alt u) simp_all
qed

lemma parse_digits_decimal: "parse_digits bound 0 (decimal n) = (if n < bound then Some n else None)"
proof (induction n rule: decimal.induct)
  case (1 n)
  show ?case
  proof (cases "n < 10")
    case True
    then show ?thesis using digit_byte [of n] by (subst decimal.simps) simp
  next
    case False
    then have "n div 10 * 10 + n mod 10 = n" "n div 10 \<le> n" by simp_all
    with False 1 digit_byte [of "n mod 10"] show ?thesis
      by (subst decimal.simps) (auto simp: parse_digits_append)
  qed
qed

lemma decimal_bytes: "list_all (\<lambda>b. 0x30 \<le> b \<and> b \<le> 0x39) (decimal n)" "decimal n \<noteq> []"
proof -
  show "list_all (\<lambda>b. 0x30 \<le> b \<and> b \<le> 0x39) (decimal n)"
  proof (induction n rule: decimal.induct)
    case (1 n)
    then show ?case using digit_byte [of n] digit_byte [of "n mod 10"] by (subst decimal.simps) simp
  qed
  show "decimal n \<noteq> []" by (subst decimal.simps) simp
qed

lemma parse_unsigned_decimal: "parse_unsigned bound (decimal n) = (if n < bound then Some n else None)"
proof -
  have "c \<noteq> 0x2B" if "decimal n = c # r" for c r
    using decimal_bytes(1) [of n] that by auto
  then show ?thesis
    using decimal_bytes(2) [of n] parse_digits_decimal [of bound n]
    by (auto simp: parse_unsigned_def split: list.splits)
qed

end
