(* ===== verification/Producer.thy ===== *)
theory Producer
  imports Wire Rust_Strings
begin

text \<open>
  The payload producer (\<open>llm_payload_producer/src/lib.rs\<close>): it turns the result of a model run
  into the settlement payload and a JSON fixture, and re-verifies a fixture.  The crate declares
  the same wire types as \<open>settlement_core\<close>, so the payload, its updates and the story event are
  those of theory \<open>Wire\<close>; every function of the crate is a definition here, the token-id variant
  (its section 8) included.  The \<open>hex\<close> and \<open>base64\<close> crates are parameters.
\<close>

record text_codecs =
  tc_hex_encode :: "bytes \<Rightarrow> rust_string"
  tc_base64_encode :: "bytes \<Rightarrow> rust_string"
  tc_base64_decode :: "rust_string \<Rightarrow> bytes option"

text \<open>What the documentation of the crates promises: decoding inverts encoding.\<close>

definition text_laws :: "text_codecs \<Rightarrow> bool" where
  "text_laws T \<longleftrightarrow> (\<forall>bs. tc_base64_decode T (tc_base64_encode T bs) = Some bs)"

datatype producer_error =
    PR_Utf8Error
  | PR_TryFromIntError
  | PR_Base64Error
  | PR_BorshError
  | PR_RoundTripMismatch
  | PR_DigestMismatch
  | PR_StoryHashMismatch
  | PR_NotOneStore
  | PR_UnknownDiscriminant
  | PR_MetaHashMismatch
  | PR_MetaLenMismatch
  | PR_MissingStoryMeta
  | PR_CommitmentRootMismatch
  | PR_PromptIdsMismatch
  | PR_AnswerIdsMismatch
  | PR_ManifestMismatch
  | PR_MissingQwenAnswer

subsection \<open>Hashes and discriminants\<close>

definition STORY_META_EVENT_SEED :: bytes where "STORY_META_EVENT_SEED = ascii ''gk:story_meta''"
definition QWEN_ANSWER_EVENT_SEED :: bytes where "QWEN_ANSWER_EVENT_SEED = ascii ''gk:qwen_answer''"

text \<open>The first eight bytes of a hash.\<close>

definition hash_prefix :: "bytes32 \<Rightarrow> bytes8" where
  "hash_prefix h = be_word (take 8 (be_bytes 32 h))"

definition story_meta_discriminant :: "syscalls \<Rightarrow> bytes8" where
  "story_meta_discriminant S = hash_prefix (sc_sha256 S STORY_META_EVENT_SEED)"

definition qwen_answer_discriminant :: "syscalls \<Rightarrow> bytes8" where
  "qwen_answer_discriminant S = hash_prefix (sc_sha256 S QWEN_ANSWER_EVENT_SEED)"

subsection \<open>Story payloads and fixtures\<close>

record producer_inputs =
  pi_prompt :: rust_string
  pi_story :: bytes
  pi_new_root :: bytes32
  pi_transition_index :: u64
  pi_state_pda :: bytes32
  pi_ix_discriminator :: bytes8
  pi_buffer :: bytes32

text \<open>\<open>u32::try_from\<close> on a length.\<close>

definition u32_try_from :: "nat \<Rightarrow> producer_error + u32" where
  "u32_try_from n = (if n < 2 ^ 32 then Inr (of_nat n) else Inl PR_TryFromIntError)"

definition build_payload :: "syscalls \<Rightarrow> producer_inputs \<Rightarrow> producer_error + settlement_payload" where
  "build_payload S i =
     try_bind (u32_try_from (length (pi_story i))) (\<lambda>len.
     let meta = \<lparr>sm_story_sha256 = sc_sha256 S (pi_story i), sm_buffer = pi_buffer i, sm_len = len\<rparr> in
     try_bind (try_to_vec enc_story_meta any PR_BorshError meta) (\<lambda>meta_bytes.
     Inr \<lparr>sp_transition_index = pi_transition_index i, sp_state_pda = pi_state_pda i,
       sp_ix_discriminator = pi_ix_discriminator i,
       sp_updates = [Store (pi_new_root i), Event (story_meta_discriminant S) meta_bytes]\<rparr>))"

definition producer_payload_digest :: "syscalls \<Rightarrow> settlement_payload \<Rightarrow> producer_error + bytes32" where
  "producer_payload_digest S p =
     try_bind (try_to_vec enc_settlement_payload wf_settlement_payload PR_BorshError p) (\<lambda>bytes.
     Inr (sc_sha256 S bytes))"

record fixture_source =
  fs_sim_command :: rust_string
  fs_solidity_sdk_commit :: rust_string

record fixture =
  fx_prompt :: rust_string
  fx_story_utf8 :: rust_string
  fx_story_sha256_hex :: rust_string
  fx_payload_borsh_base64 :: rust_string
  fx_digest_hex :: rust_string
  fx_source :: fixture_source

definition make_fixture ::
  "syscalls \<Rightarrow> text_codecs \<Rightarrow> producer_inputs \<Rightarrow> fixture_source \<Rightarrow> producer_error + fixture" where
  "make_fixture S T i source =
     try_bind (ok_or PR_Utf8Error (from_utf8 (pi_story i))) (\<lambda>story_utf8.
     try_bind (build_payload S i) (\<lambda>payload.
     try_bind (try_to_vec enc_settlement_payload wf_settlement_payload PR_BorshError payload) (\<lambda>payload_bytes.
     Inr \<lparr>fx_prompt = pi_prompt i, fx_story_utf8 = story_utf8,
       fx_story_sha256_hex = tc_hex_encode T (be_bytes 32 (sc_sha256 S (pi_story i))),
       fx_payload_borsh_base64 = tc_base64_encode T payload_bytes,
       fx_digest_hex = tc_hex_encode T (be_bytes 32 (sc_sha256 S payload_bytes)),
       fx_source = source\<rparr>)))"

record verified_fixture =
  vf_payload :: settlement_payload
  vf_digest :: bytes32
  vf_new_root :: bytes32
  vf_story_meta :: story_meta

text \<open>
  The part the two verifications share: the payload decodes and re-encodes to the same bytes,
  and its digest is the fixture's.
\<close>

definition decode_payload ::
  "syscalls \<Rightarrow> text_codecs \<Rightarrow> rust_string \<Rightarrow> rust_string \<Rightarrow> producer_error + settlement_payload \<times> bytes32" where
  "decode_payload S T payload_base64 digest_hex =
     try_bind (ok_or PR_Base64Error (tc_base64_decode T payload_base64)) (\<lambda>payload_bytes.
     try_bind (map_err (\<lambda>_. PR_BorshError) (try_from_slice dec_settlement_payload payload_bytes)) (\<lambda>payload.
     try_bind (try_to_vec enc_settlement_payload wf_settlement_payload PR_BorshError payload) (\<lambda>encoded.
     if encoded \<noteq> payload_bytes then Inl PR_RoundTripMismatch
     else
       let digest = sc_sha256 S payload_bytes in
       if tc_hex_encode T (be_bytes 32 digest) \<noteq> digest_hex then Inl PR_DigestMismatch
       else Inr (payload, digest))))"

definition is_store :: "state_update \<Rightarrow> bool" where
  "is_store u = (case u of Store root \<Rightarrow> True | Event discriminant payload \<Rightarrow> False)"

definition single_store :: "state_update list \<Rightarrow> producer_error + bytes32" where
  "single_store updates =
     (case filter is_store updates of
        [Store new_root] \<Rightarrow> Inr new_root
      | _ \<Rightarrow> Inl PR_NotOneStore)"

text \<open>The loop over the events: each one is checked, the last one is kept.\<close>

fun scan_events ::
  "(bytes8 \<Rightarrow> bytes \<Rightarrow> producer_error + 'a) \<Rightarrow> 'a option \<Rightarrow> state_update list \<Rightarrow> producer_error + 'a option" where
  "scan_events check found [] = Inr found"
| "scan_events check found (Store root # updates) = scan_events check found updates"
| "scan_events check found (Event discriminant payload # updates) =
     try_bind (check discriminant payload) (\<lambda>x. scan_events check (Some x) updates)"

definition check_story_event ::
  "syscalls \<Rightarrow> bytes32 \<Rightarrow> nat \<Rightarrow> bytes8 \<Rightarrow> bytes \<Rightarrow> producer_error + story_meta" where
  "check_story_event S story_hash story_len discriminant event_payload =
     (if discriminant \<noteq> story_meta_discriminant S then Inl PR_UnknownDiscriminant
      else
        try_bind (map_err (\<lambda>_. PR_BorshError) (try_from_slice dec_story_meta event_payload)) (\<lambda>meta.
        if sm_story_sha256 meta \<noteq> story_hash then Inl PR_MetaHashMismatch
        else if unat (sm_len meta) \<noteq> story_len then Inl PR_MetaLenMismatch
        else Inr meta))"

definition verify_fixture ::
  "syscalls \<Rightarrow> text_codecs \<Rightarrow> fixture \<Rightarrow> producer_error + verified_fixture" where
  "verify_fixture S T f =
     try_bind (decode_payload S T (fx_payload_borsh_base64 f) (fx_digest_hex f)) (\<lambda>(payload, digest).
     let story_hash = sc_sha256 S (fx_story_utf8 f) in
     if tc_hex_encode T (be_bytes 32 story_hash) \<noteq> fx_story_sha256_hex f then Inl PR_StoryHashMismatch
     else
       try_bind (single_store (sp_updates payload)) (\<lambda>new_root.
       try_bind (scan_events (check_story_event S story_hash (length (fx_story_utf8 f))) None
         (sp_updates payload)) (\<lambda>found.
       try_bind (ok_or PR_MissingStoryMeta found) (\<lambda>story_meta.
       Inr \<lparr>vf_payload = payload, vf_digest = digest, vf_new_root = new_root,
         vf_story_meta = story_meta\<rparr>))))"

subsection \<open>Token-id answers\<close>

definition MODEL_QWEN3_0_6B :: u8 where "MODEL_QWEN3_0_6B = 0"
definition MODEL_QWEN3_5_35B :: u8 where "MODEL_QWEN3_5_35B = 1"

record qwen_answer =
  qa_model :: u8
  qa_prompt_ids :: "u32 list"
  qa_answer_ids :: "u32 list"
  qa_manifest :: bytes32

definition qwen_answer_fields :: "qwen_answer \<Rightarrow> u8 \<times> u32 list \<times> u32 list \<times> bytes32" where
  "qwen_answer_fields a = (qa_model a, qa_prompt_ids a, qa_answer_ids a, qa_manifest a)"

definition qwen_answer_of :: "u8 \<times> u32 list \<times> u32 list \<times> bytes32 \<Rightarrow> qwen_answer" where
  "qwen_answer_of = (\<lambda>(m, p, a, h). \<lparr>qa_model = m, qa_prompt_ids = p, qa_answer_ids = a, qa_manifest = h\<rparr>)"

definition enc_qwen_answer :: "qwen_answer \<Rightarrow> bytes" where
  "enc_qwen_answer a =
     enc_pair enc_byte (enc_pair (enc_vec (le_bytes 4)) (enc_pair (enc_vec (le_bytes 4)) (be_bytes 32)))
       (qwen_answer_fields a)"

definition dec_qwen_answer :: "bytes \<Rightarrow> (qwen_answer \<times> bytes) option" where
  "dec_qwen_answer = dec_map qwen_answer_of
     (dec_pair dec_byte (dec_pair (dec_vec (dec_le 4)) (dec_pair (dec_vec (dec_le 4)) (dec_be 32))))"

definition wf_qwen_answer :: "qwen_answer \<Rightarrow> bool" where
  "wf_qwen_answer a \<longleftrightarrow> length (qa_prompt_ids a) < 2 ^ 32 \<and> length (qa_answer_ids a) < 2 ^ 32"

interpretation qwen_fields: codec_image
  "enc_pair enc_byte (enc_pair (enc_vec (le_bytes 4 :: u32 \<Rightarrow> bytes)) (enc_pair (enc_vec (le_bytes 4 :: u32 \<Rightarrow> bytes)) (be_bytes 32)))"
  "dec_pair dec_byte (dec_pair (dec_vec (dec_le 4)) (dec_pair (dec_vec (dec_le 4)) (dec_be 32)))"
  "wf_pair any (wf_pair (wf_vec any) (wf_pair (wf_vec any) any))" qwen_answer_of qwen_answer_fields
  by (intro codec_image.intro codec_rules codec_image_axioms.intro)
    (auto simp: qwen_answer_of_def qwen_answer_fields_def)

interpretation qwen_codec: codec enc_qwen_answer dec_qwen_answer wf_qwen_answer
proof -
  have "wf_qwen_answer = (\<lambda>y. wf_pair any (wf_pair (wf_vec any) (wf_pair (wf_vec any) any)) (qwen_answer_fields y))"
    by (rule ext) (simp add: wf_qwen_answer_def wf_pair_def qwen_answer_fields_def wf_vec_def list_all_iff)
  then show "codec enc_qwen_answer dec_qwen_answer wf_qwen_answer"
    using qwen_fields.codec_of_image by (simp add: enc_qwen_answer_def [abs_def] dec_qwen_answer_def)
qed

lemmas qwen_codec_rule [codec_rules] = qwen_codec.codec_axioms

record qwen_inputs =
  qi_prompt :: rust_string
  qi_model :: u8
  qi_prompt_ids :: "u32 list"
  qi_answer_ids :: "u32 list"
  qi_manifest :: bytes32
  qi_new_root :: bytes32
  qi_transition_index :: u64
  qi_state_pda :: bytes32
  qi_ix_discriminator :: bytes8

definition build_qwen_payload :: "syscalls \<Rightarrow> qwen_inputs \<Rightarrow> producer_error + settlement_payload" where
  "build_qwen_payload S i =
     (let answer = \<lparr>qa_model = qi_model i, qa_prompt_ids = qi_prompt_ids i, qa_answer_ids = qi_answer_ids i,
        qa_manifest = qi_manifest i\<rparr> in
      try_bind (try_to_vec enc_qwen_answer wf_qwen_answer PR_BorshError answer) (\<lambda>answer_bytes.
      Inr \<lparr>sp_transition_index = qi_transition_index i, sp_state_pda = qi_state_pda i,
        sp_ix_discriminator = qi_ix_discriminator i,
        sp_updates = [Store (qi_new_root i), Event (qwen_answer_discriminant S) answer_bytes]\<rparr>))"

record qwen_fixture_source =
  qs_cmd :: rust_string
  qs_sdk_commit :: rust_string

record qwen_fixture =
  qf_prompt :: rust_string
  qf_prompt_ids :: "u32 list"
  qf_answer_ids :: "u32 list"
  qf_answer_text :: rust_string
  qf_commitment_root :: rust_string
  qf_manifest :: rust_string
  qf_payload_borsh_base64 :: rust_string
  qf_digest_hex :: rust_string
  qf_source :: qwen_fixture_source

definition make_qwen_fixture ::
  "syscalls \<Rightarrow> text_codecs \<Rightarrow> qwen_inputs \<Rightarrow> rust_string \<Rightarrow> qwen_fixture_source \<Rightarrow>
   producer_error + qwen_fixture" where
  "make_qwen_fixture S T i answer_text source =
     try_bind (build_qwen_payload S i) (\<lambda>payload.
     try_bind (try_to_vec enc_settlement_payload wf_settlement_payload PR_BorshError payload) (\<lambda>payload_bytes.
     Inr \<lparr>qf_prompt = qi_prompt i, qf_prompt_ids = qi_prompt_ids i, qf_answer_ids = qi_answer_ids i,
       qf_answer_text = answer_text,
       qf_commitment_root = tc_hex_encode T (be_bytes 32 (qi_new_root i)),
       qf_manifest = tc_hex_encode T (be_bytes 32 (qi_manifest i)),
       qf_payload_borsh_base64 = tc_base64_encode T payload_bytes,
       qf_digest_hex = tc_hex_encode T (be_bytes 32 (sc_sha256 S payload_bytes)),
       qf_source = source\<rparr>))"

record verified_qwen_fixture =
  vq_payload :: settlement_payload
  vq_digest :: bytes32
  vq_new_root :: bytes32
  vq_answer :: qwen_answer

definition check_qwen_event ::
  "syscalls \<Rightarrow> text_codecs \<Rightarrow> qwen_fixture \<Rightarrow> bytes8 \<Rightarrow> bytes \<Rightarrow> producer_error + qwen_answer" where
  "check_qwen_event S T f discriminant event_payload =
     (if discriminant \<noteq> qwen_answer_discriminant S then Inl PR_UnknownDiscriminant
      else
        try_bind (map_err (\<lambda>_. PR_BorshError) (try_from_slice dec_qwen_answer event_payload)) (\<lambda>decoded.
        if qa_prompt_ids decoded \<noteq> qf_prompt_ids f then Inl PR_PromptIdsMismatch
        else if qa_answer_ids decoded \<noteq> qf_answer_ids f then Inl PR_AnswerIdsMismatch
        else if tc_hex_encode T (be_bytes 32 (qa_manifest decoded)) \<noteq> qf_manifest f then Inl PR_ManifestMismatch
        else Inr decoded))"

definition verify_qwen_fixture ::
  "syscalls \<Rightarrow> text_codecs \<Rightarrow> qwen_fixture \<Rightarrow> producer_error + verified_qwen_fixture" where
  "verify_qwen_fixture S T f =
     try_bind (decode_payload S T (qf_payload_borsh_base64 f) (qf_digest_hex f)) (\<lambda>(payload, digest).
     try_bind (single_store (sp_updates payload)) (\<lambda>new_root.
     if tc_hex_encode T (be_bytes 32 new_root) \<noteq> qf_commitment_root f then Inl PR_CommitmentRootMismatch
     else
       try_bind (scan_events (check_qwen_event S T f) None (sp_updates payload)) (\<lambda>found.
       try_bind (ok_or PR_MissingQwenAnswer found) (\<lambda>answer.
       Inr \<lparr>vq_payload = payload, vq_digest = digest, vq_new_root = new_root, vq_answer = answer\<rparr>))))"

end
