(* ===== verification/Producer_Properties.thy ===== *)
theory Producer_Properties
  imports Buffer_Properties Producer
begin

text \<open>
  What the producer's fixtures mean: a fixture it makes verifies, verification is exactly the
  list of its conditions, and the payloads it builds pass the settlement program's checks.
\<close>

subsection \<open>The steps of a verification\<close>

lemma filter_is_store: "filter is_store us = map Store (stores us)"
  by (induction us) (auto simp: is_store_def stores_def split: state_update.splits)

lemma single_store_Inr: "single_store us = Inr r \<longleftrightarrow> stores us = [r]"
  by (auto simp: single_store_def filter_is_store split: list.splits state_update.splits)

text \<open>The value the loop over the events keeps.\<close>

definition last_event ::
  "(bytes8 \<Rightarrow> bytes \<Rightarrow> producer_error + 'a) \<Rightarrow> 'a option \<Rightarrow> state_update list \<Rightarrow> 'a option" where
  "last_event check found us =
     (if events us = [] then found else result_ok (case last (events us) of (k, p) \<Rightarrow> check k p))"

lemma scan_events_Inr:
  "scan_events check found us = Inr r \<longleftrightarrow>
     list_all (\<lambda>(k, p). is_ok (check k p)) (events us) \<and> r = last_event check found us"
proof (induction check found us rule: scan_events.induct)
  case (1 check found)
  then show ?case by (auto simp: last_event_def)
next
  case (2 check found root us)
  then show ?case by (simp add: last_event_def)
next
  case (3 check found k p us)
  show ?case
  proof (cases "check k p")
    case (Inl e)
    then show ?thesis by simp
  next
    case (Inr x)
    with 3 [OF Inr] show ?thesis by (auto simp: last_event_def)
  qed
qed

lemma decode_payload_Inr:
  "decode_payload S T encoded hex = Inr (p, d) \<longleftrightarrow>
     wf_settlement_payload p \<and> tc_base64_decode T encoded = Some (enc_settlement_payload p) \<and>
     d = sc_sha256 S (enc_settlement_payload p) \<and> tc_hex_encode T (be_bytes 32 d) = hex"
  by (auto simp: decode_payload_def try_to_vec_def Let_def payload_codec.try_from_slice_iff)

lemma story_event_Inr:
  "check_story_event S h n k p = Inr m \<longleftrightarrow>
     k = story_meta_discriminant S \<and> p = enc_story_meta m \<and> sm_story_sha256 m = h \<and> unat (sm_len m) = n"
  by (auto simp: check_story_event_def codec.try_from_slice_iff [OF story_meta_codec])

lemma qwen_event_Inr:
  "check_qwen_event S T f k p = Inr a \<longleftrightarrow>
     k = qwen_answer_discriminant S \<and> wf_qwen_answer a \<and> p = enc_qwen_answer a \<and>
     qa_prompt_ids a = qf_prompt_ids f \<and> qa_answer_ids a = qf_answer_ids f \<and>
     tc_hex_encode T (be_bytes 32 (qa_manifest a)) = qf_manifest f"
  by (auto simp: check_qwen_event_def qwen_codec.try_from_slice_iff)

lemma enc_story_meta_inject [simp]: "enc_story_meta m = enc_story_meta m' \<longleftrightarrow> m = m'"
  by (metis codec.try_from_slice_iff [OF story_meta_codec] sum.inject(2))

lemma enc_qwen_answer_inject: "wf_qwen_answer a \<Longrightarrow> wf_qwen_answer a' \<Longrightarrow> enc_qwen_answer a = enc_qwen_answer a' \<longleftrightarrow> a = a'"
  by (metis qwen_codec.try_from_slice_iff sum.inject(2))

subsection \<open>Story fixtures\<close>

definition story_event_ok :: "syscalls \<Rightarrow> rust_string \<Rightarrow> bytes8 \<times> bytes \<Rightarrow> bool" where
  "story_event_ok S story e \<longleftrightarrow> fst e = story_meta_discriminant S \<and>
     (\<exists>m. snd e = enc_story_meta m \<and> sm_story_sha256 m = sc_sha256 S story \<and> unat (sm_len m) = length story)"

lemma verify_fixture_Inr:
  "verify_fixture S T f = Inr v \<longleftrightarrow>
     wf_settlement_payload (vf_payload v) \<and>
     tc_base64_decode T (fx_payload_borsh_base64 f) = Some (enc_settlement_payload (vf_payload v)) \<and>
     vf_digest v = sc_sha256 S (enc_settlement_payload (vf_payload v)) \<and>
     tc_hex_encode T (be_bytes 32 (vf_digest v)) = fx_digest_hex f \<and>
     tc_hex_encode T (be_bytes 32 (sc_sha256 S (fx_story_utf8 f))) = fx_story_sha256_hex f \<and>
     stores (sp_updates (vf_payload v)) = [vf_new_root v] \<and>
     list_all (story_event_ok S (fx_story_utf8 f)) (events (sp_updates (vf_payload v))) \<and>
     events (sp_updates (vf_payload v)) \<noteq> [] \<and>
     snd (last (events (sp_updates (vf_payload v)))) = enc_story_meta (vf_story_meta v)"
  (is "?l \<longleftrightarrow> ?r")
proof -
  let ?c = "check_story_event S (sc_sha256 S (fx_story_utf8 f)) (length (fx_story_utf8 f))"
  have ok: "is_ok (?c k p) \<longleftrightarrow> story_event_ok S (fx_story_utf8 f) (k, p)" for k p
    by (auto simp: is_ok_iff story_event_Inr story_event_ok_def)
  have oks: "list_all (\<lambda>(k, p). is_ok (?c k p)) es \<longleftrightarrow> list_all (story_event_ok S (fx_story_utf8 f)) es" for es
    by (auto simp: list_all_iff ok)
  have found: "last_event ?c None us = Some m \<longleftrightarrow>
      events us \<noteq> [] \<and> snd (last (events us)) = enc_story_meta m"
    if "list_all (story_event_ok S (fx_story_utf8 f)) (events us)" for us m
  proof (cases "events us = []")
    case False
    then have "story_event_ok S (fx_story_utf8 f) (last (events us))"
      using that by (simp add: list_all_iff)
    then show ?thesis
      using False by (cases "last (events us)") (auto simp: last_event_def story_event_Inr story_event_ok_def)
  qed (simp add: last_event_def)
  show ?thesis
    by (cases v) (auto simp: verify_fixture_def Let_def decode_payload_Inr single_store_Inr scan_events_Inr
        oks found)
qed

lemma build_payload_Inr:
  "build_payload S i = Inr p \<longleftrightarrow>
     length (pi_story i) < 2 ^ 32 \<and>
     p = \<lparr>sp_transition_index = pi_transition_index i, sp_state_pda = pi_state_pda i,
       sp_ix_discriminator = pi_ix_discriminator i,
       sp_updates = [Store (pi_new_root i), Event (story_meta_discriminant S)
         (enc_story_meta \<lparr>sm_story_sha256 = sc_sha256 S (pi_story i), sm_buffer = pi_buffer i,
           sm_len = of_nat (length (pi_story i))\<rparr>)]\<rparr>"
  by (auto simp: build_payload_def u32_try_from_def try_to_vec_def Let_def)

lemma length_enc_story_meta [simp]: "length (enc_story_meta m) = 68"
  by (simp add: enc_story_meta_def enc_pair_def story_meta_fields_def)

lemma build_payload_wf: "build_payload S i = Inr p \<Longrightarrow> wf_settlement_payload p"
  by (simp add: build_payload_Inr wf_settlement_payload_def wf_vec_def wf_state_update_def)

lemma unat_of_nat_u32: "n < 2 ^ 32 \<Longrightarrow> unat (of_nat n :: u32) = n"
  by (simp add: unat_of_nat take_bit_nat_eq_self)

lemma make_fixture_Inr:
  "make_fixture S T i src = Inr f \<longleftrightarrow>
     valid_utf8 (pi_story i) \<and> (\<exists>p. build_payload S i = Inr p \<and>
       f = \<lparr>fx_prompt = pi_prompt i, fx_story_utf8 = pi_story i,
         fx_story_sha256_hex = tc_hex_encode T (be_bytes 32 (sc_sha256 S (pi_story i))),
         fx_payload_borsh_base64 = tc_base64_encode T (enc_settlement_payload p),
         fx_digest_hex = tc_hex_encode T (be_bytes 32 (sc_sha256 S (enc_settlement_payload p))),
         fx_source = src\<rparr>)"
  by (auto simp: make_fixture_def try_to_vec_def dest: build_payload_wf)

text \<open>
  The producer's round trip: from a story that is valid UTF-8 and shorter than four gibibytes
  it makes a fixture, the fixture verifies, and the verification returns the built payload, the
  digest operators sign, the new root and the story's hash, buffer and length; from any other
  story it makes none.
\<close>

theorem fixture_roundtrip:
  assumes "text_laws T"
  shows "case make_fixture S T i src of
     Inr f \<Rightarrow> valid_utf8 (pi_story i) \<and> length (pi_story i) < 2 ^ 32 \<and>
       (\<exists>p. build_payload S i = Inr p \<and> fx_story_utf8 f = pi_story i \<and>
         verify_fixture S T f = Inr \<lparr>vf_payload = p, vf_digest = sc_sha256 S (enc_settlement_payload p),
           vf_new_root = pi_new_root i,
           vf_story_meta = \<lparr>sm_story_sha256 = sc_sha256 S (pi_story i), sm_buffer = pi_buffer i,
             sm_len = of_nat (length (pi_story i))\<rparr>\<rparr>)
   | Inl e \<Rightarrow> \<not> valid_utf8 (pi_story i) \<and> e = PR_Utf8Error \<or>
       2 ^ 32 \<le> length (pi_story i) \<and> e = PR_TryFromIntError"
proof (cases "make_fixture S T i src")
  case (Inl e)
  then show ?thesis
    by (auto simp: make_fixture_def try_to_vec_def from_utf8_def build_payload_def u32_try_from_def
        wf_settlement_payload_def wf_vec_def wf_state_update_def Let_def split: if_splits)
next
  case (Inr f)
  then obtain p where p: "valid_utf8 (pi_story i)" "build_payload S i = Inr p"
    and f: "f = \<lparr>fx_prompt = pi_prompt i, fx_story_utf8 = pi_story i,
      fx_story_sha256_hex = tc_hex_encode T (be_bytes 32 (sc_sha256 S (pi_story i))),
      fx_payload_borsh_base64 = tc_base64_encode T (enc_settlement_payload p),
      fx_digest_hex = tc_hex_encode T (be_bytes 32 (sc_sha256 S (enc_settlement_payload p))),
      fx_source = src\<rparr>"
    by (auto simp: make_fixture_Inr)
  from p(2) have len: "length (pi_story i) < 2 ^ 32" by (simp add: build_payload_Inr)
  have "verify_fixture S T f = Inr \<lparr>vf_payload = p, vf_digest = sc_sha256 S (enc_settlement_payload p),
      vf_new_root = pi_new_root i,
      vf_story_meta = \<lparr>sm_story_sha256 = sc_sha256 S (pi_story i), sm_buffer = pi_buffer i,
        sm_len = of_nat (length (pi_story i))\<rparr>\<rparr>"
    using p assms build_payload_wf [OF p(2)] len
    by (auto simp: f verify_fixture_Inr build_payload_Inr story_event_ok_def text_laws_def unat_of_nat_u32)
  with Inr p len f show ?thesis by simp
qed

text \<open>
  C19: Verification of a fixture accepts exactly when the payload decodes canonically, the two hashes
  are those of the payload and the story, there is one store, there is an event, and every event
  is a story event with the story's hash and length; it returns the payload, its digest, the
  stored root and the last event.
\<close>

theorem verify_fixture_iff:
  "verify_fixture S T f = Inr v \<longleftrightarrow>
     wf_settlement_payload (vf_payload v) \<and>
     tc_base64_decode T (fx_payload_borsh_base64 f) = Some (enc_settlement_payload (vf_payload v)) \<and>
     vf_digest v = sc_sha256 S (enc_settlement_payload (vf_payload v)) \<and>
     tc_hex_encode T (be_bytes 32 (vf_digest v)) = fx_digest_hex f \<and>
     tc_hex_encode T (be_bytes 32 (sc_sha256 S (fx_story_utf8 f))) = fx_story_sha256_hex f \<and>
     stores (sp_updates (vf_payload v)) = [vf_new_root v] \<and>
     list_all (story_event_ok S (fx_story_utf8 f)) (events (sp_updates (vf_payload v))) \<and>
     events (sp_updates (vf_payload v)) \<noteq> [] \<and>
     snd (last (events (sp_updates (vf_payload v)))) = enc_story_meta (vf_story_meta v)"
  by (rule verify_fixture_Inr)

subsection \<open>From the producer to the settlement program\<close>

text \<open>
  A produced story settles: when the story is staged in chunks of at most 10,240 bytes in the
  buffer account the payload names, the settlement program's check of the payload's updates
  accepts and yields exactly the producer's new root.
\<close>

theorem produced_story_settles:
  assumes M: "memory_laws M" "realloc_total M"
    and seed: "story_meta_discriminant S = STORY_META_DISCRIMINANT"
    and p: "build_payload S i = Inr p"
    and chunks: "list_all (\<lambda>b. length b \<le> 10240) chunks" "concat chunks = pi_story i"
    and fits: "length (pi_story i) \<le> unat (m :: u32)" "length c \<le> unat m"
    and b: "ac_data b = buffer_of c payer m" "ai_owner (ac_info b) = pid" "key_of b = pi_buffer i"
      "key_of b = fst (find_buffer_program_address R pid (pi_state_pda i) (pi_transition_index i))"
  shows "\<exists>data. write_chunks M (ac_info b) (ac_data b) 0 chunks = Inr data \<and>
    check_updates (\<lambda>e. verify_story_meta R S pid (sp_state_pda p) (sp_transition_index p) e
      (Some (b\<lparr>ac_data := data\<rparr>))) None (sp_updates p) = Inr (Some (pi_new_root i))"
proof -
  obtain data where data: "write_chunks M (ac_info b) (ac_data b) 0 chunks = Inr data"
    "verify_story_meta R S pid (pi_state_pda i) (pi_transition_index i) (enc_story_meta
      \<lparr>sm_story_sha256 = sc_sha256 S (pi_story i), sm_buffer = key_of b,
        sm_len = of_nat (length (pi_story i))\<rparr>) (Some (b\<lparr>ac_data := data\<rparr>)) = Inr ()"
    using story_staged [OF M chunks fits b(1,2,4), of S] by blast
  then show ?thesis
    using p b(3) seed
    by (auto simp: build_payload_Inr check_updates_Inr event_ok_def MAX_EVENT_CPI_DATA_LEN_def)
qed

subsection \<open>Token-id answers\<close>

definition qwen_event_ok :: "syscalls \<Rightarrow> text_codecs \<Rightarrow> qwen_fixture \<Rightarrow> bytes8 \<times> bytes \<Rightarrow> bool" where
  "qwen_event_ok S T f e \<longleftrightarrow> fst e = qwen_answer_discriminant S \<and>
     (\<exists>a. wf_qwen_answer a \<and> snd e = enc_qwen_answer a \<and> qa_prompt_ids a = qf_prompt_ids f \<and>
       qa_answer_ids a = qf_answer_ids f \<and> tc_hex_encode T (be_bytes 32 (qa_manifest a)) = qf_manifest f)"

lemma verify_qwen_fixture_Inr:
  "verify_qwen_fixture S T f = Inr v \<longleftrightarrow>
     decode_payload S T (qf_payload_borsh_base64 f) (qf_digest_hex f) = Inr (vq_payload v, vq_digest v) \<and>
     stores (sp_updates (vq_payload v)) = [vq_new_root v] \<and>
     tc_hex_encode T (be_bytes 32 (vq_new_root v)) = qf_commitment_root f \<and>
     list_all (qwen_event_ok S T f) (events (sp_updates (vq_payload v))) \<and>
     events (sp_updates (vq_payload v)) \<noteq> [] \<and> wf_qwen_answer (vq_answer v) \<and>
     snd (last (events (sp_updates (vq_payload v)))) = enc_qwen_answer (vq_answer v)"
proof -
  let ?c = "check_qwen_event S T f"
  have ok: "is_ok (?c k p) \<longleftrightarrow> qwen_event_ok S T f (k, p)" for k p
    by (auto simp: is_ok_iff qwen_event_Inr qwen_event_ok_def)
  have oks: "list_all (\<lambda>(k, p). is_ok (?c k p)) es \<longleftrightarrow> list_all (qwen_event_ok S T f) es" for es
    by (auto simp: list_all_iff ok)
  have found: "last_event ?c None us = Some a \<longleftrightarrow>
      events us \<noteq> [] \<and> wf_qwen_answer a \<and> snd (last (events us)) = enc_qwen_answer a"
    if "list_all (qwen_event_ok S T f) (events us)" for us a
  proof (cases "events us = []")
    case False
    then have "qwen_event_ok S T f (last (events us))"
      using that by (simp add: list_all_iff)
    then show ?thesis
      using False by (cases "last (events us)")
        (auto simp: last_event_def qwen_event_Inr qwen_event_ok_def enc_qwen_answer_inject)
  qed (simp add: last_event_def)
  show ?thesis
    by (cases v) (auto simp: verify_qwen_fixture_def Let_def single_store_Inr scan_events_Inr oks found)
qed

lemma build_qwen_payload_Inr:
  "build_qwen_payload S i = Inr p \<longleftrightarrow>
     length (qi_prompt_ids i) < 2 ^ 32 \<and> length (qi_answer_ids i) < 2 ^ 32 \<and>
     p = \<lparr>sp_transition_index = qi_transition_index i, sp_state_pda = qi_state_pda i,
       sp_ix_discriminator = qi_ix_discriminator i,
       sp_updates = [Store (qi_new_root i), Event (qwen_answer_discriminant S)
         (enc_qwen_answer \<lparr>qa_model = qi_model i, qa_prompt_ids = qi_prompt_ids i,
           qa_answer_ids = qi_answer_ids i, qa_manifest = qi_manifest i\<rparr>)]\<rparr>"
  by (auto simp: build_qwen_payload_def try_to_vec_def Let_def wf_qwen_answer_def)

lemma length_enc_vec_u32: "length (enc_vec (le_bytes 4 :: u32 \<Rightarrow> bytes) xs) = 4 + 4 * length xs"
proof -
  have "length (concat (map (le_bytes 4 :: u32 \<Rightarrow> bytes) xs)) = 4 * length xs" by (induction xs) simp_all
  then show ?thesis by (simp add: enc_vec_def)
qed

lemma length_enc_qwen_answer:
  "length (enc_qwen_answer a) = 41 + 4 * (length (qa_prompt_ids a) + length (qa_answer_ids a))"
  by (simp add: enc_qwen_answer_def enc_pair_def qwen_answer_fields_def length_enc_vec_u32 enc_byte_def)

lemma make_qwen_fixture_Inr:
  "make_qwen_fixture S T i answer_text src = Inr f \<longleftrightarrow>
     (\<exists>p. build_qwen_payload S i = Inr p \<and> wf_settlement_payload p \<and>
       f = \<lparr>qf_prompt = qi_prompt i, qf_prompt_ids = qi_prompt_ids i, qf_answer_ids = qi_answer_ids i,
         qf_answer_text = answer_text, qf_commitment_root = tc_hex_encode T (be_bytes 32 (qi_new_root i)),
         qf_manifest = tc_hex_encode T (be_bytes 32 (qi_manifest i)),
         qf_payload_borsh_base64 = tc_base64_encode T (enc_settlement_payload p),
         qf_digest_hex = tc_hex_encode T (be_bytes 32 (sc_sha256 S (enc_settlement_payload p))),
         qf_source = src\<rparr>)"
  by (auto simp: make_qwen_fixture_def try_to_vec_def)

text \<open>
  A token-id fixture verifies as it was made, and a verified fixture is bound by its payload:
  every fixture with the same payload bytes that verifies too has the same token ids, commitment
  root, manifest and digest, so a change of one of them is detected.
\<close>

theorem qwen_fixture_bound:
  assumes T: "text_laws T" and make: "make_qwen_fixture S T i answer_text src = Inr f"
  shows "(\<exists>p. build_qwen_payload S i = Inr p \<and>
      verify_qwen_fixture S T f = Inr \<lparr>vq_payload = p, vq_digest = sc_sha256 S (enc_settlement_payload p),
        vq_new_root = qi_new_root i, vq_answer = \<lparr>qa_model = qi_model i, qa_prompt_ids = qi_prompt_ids i,
          qa_answer_ids = qi_answer_ids i, qa_manifest = qi_manifest i\<rparr>\<rparr>) \<and>
    (is_ok (verify_qwen_fixture S T g) \<and> qf_payload_borsh_base64 g = qf_payload_borsh_base64 f \<longrightarrow>
      qf_prompt_ids g = qi_prompt_ids i \<and> qf_answer_ids g = qi_answer_ids i \<and>
      qf_commitment_root g = qf_commitment_root f \<and> qf_manifest g = qf_manifest f \<and>
      qf_digest_hex g = qf_digest_hex f)"
proof -
  obtain a where a_eq: "a = \<lparr>qa_model = qi_model i, qa_prompt_ids = qi_prompt_ids i,
    qa_answer_ids = qi_answer_ids i, qa_manifest = qi_manifest i\<rparr>" by blast
  then have fields: "qa_prompt_ids a = qi_prompt_ids i" "qa_answer_ids a = qi_answer_ids i"
    "qa_manifest a = qi_manifest i" by simp_all
  obtain p where p: "build_qwen_payload S i = Inr p" "wf_settlement_payload p"
    and f: "f = \<lparr>qf_prompt = qi_prompt i, qf_prompt_ids = qi_prompt_ids i, qf_answer_ids = qi_answer_ids i,
      qf_answer_text = answer_text, qf_commitment_root = tc_hex_encode T (be_bytes 32 (qi_new_root i)),
      qf_manifest = tc_hex_encode T (be_bytes 32 (qi_manifest i)),
      qf_payload_borsh_base64 = tc_base64_encode T (enc_settlement_payload p),
      qf_digest_hex = tc_hex_encode T (be_bytes 32 (sc_sha256 S (enc_settlement_payload p))),
      qf_source = src\<rparr>"
    using make by (auto simp: make_qwen_fixture_Inr)
  have a: "wf_qwen_answer a" using p(1) by (simp add: build_qwen_payload_Inr wf_qwen_answer_def fields)
  have updates: "sp_updates p = [Store (qi_new_root i), Event (qwen_answer_discriminant S) (enc_qwen_answer a)]"
    using p(1) by (simp add: build_qwen_payload_Inr a_eq)
  have decode: "tc_base64_decode T (qf_payload_borsh_base64 f) = Some (enc_settlement_payload p)"
    using T by (simp add: f text_laws_def)
  have "verify_qwen_fixture S T f = Inr \<lparr>vq_payload = p, vq_digest = sc_sha256 S (enc_settlement_payload p),
      vq_new_root = qi_new_root i, vq_answer = a\<rparr>"
    using p(2) a T unfolding verify_qwen_fixture_Inr
    by (auto simp: f updates fields decode_payload_Inr qwen_event_ok_def text_laws_def)
  moreover have "qf_prompt_ids g = qi_prompt_ids i \<and> qf_answer_ids g = qi_answer_ids i \<and>
      qf_commitment_root g = qf_commitment_root f \<and> qf_manifest g = qf_manifest f \<and>
      qf_digest_hex g = qf_digest_hex f"
    if g: "verify_qwen_fixture S T g = Inr v" "qf_payload_borsh_base64 g = qf_payload_borsh_base64 f" for v
  proof -
    from g decode have enc: "wf_settlement_payload (vq_payload v)"
      "enc_settlement_payload (vq_payload v) = enc_settlement_payload p"
      and hex: "tc_hex_encode T (be_bytes 32 (sc_sha256 S (enc_settlement_payload p))) = qf_digest_hex g"
      by (auto simp: verify_qwen_fixture_Inr decode_payload_Inr)
    then have "vq_payload v = p"
      by (metis p(2) payload_codec.try_from_slice_iff sum.inject(2))
    with g(1) hex a show ?thesis
      by (auto simp: verify_qwen_fixture_Inr updates qwen_event_ok_def f fields [symmetric] enc_qwen_answer_inject)
  qed
  ultimately show ?thesis using p(1) unfolding a_eq by (auto simp: is_ok_iff)
qed

text \<open>
  The size of an answer that settles: the payload of a token-id answer passes the settlement
  program's check of the updates exactly when prompt and answer together have at most 2547
  tokens, although the producer's own limit is only on the answer and its self-check accepts more.
\<close>

theorem qwen_payload_settles_iff:
  assumes p: "build_qwen_payload S i = Inr p"
    and seed: "qwen_answer_discriminant S \<noteq> STORY_META_DISCRIMINANT"
  shows "check_updates verify None (sp_updates p) =
     (if length (qi_prompt_ids i) + length (qi_answer_ids i) \<le> 2547 then Inr (Some (qi_new_root i))
      else Inl (from_settlement SE_EventTooLarge))"
  using assms
  by (auto simp: build_qwen_payload_Inr length_enc_qwen_answer MAX_EVENT_CPI_DATA_LEN_def)

subsection \<open>Concrete inputs\<close>

definition sample_text :: text_codecs where
  "sample_text = \<lparr>tc_hex_encode = rev, tc_base64_encode = rev, tc_base64_decode = \<lambda>bs. Some (rev bs)\<rparr>"

lemma sample_text_laws: "text_laws sample_text"
  by (simp add: text_laws_def sample_text_def)

definition sample_story :: producer_inputs where
  "sample_story = \<lparr>pi_prompt = [104, 105], pi_story = [1, 2, 3], pi_new_root = 99, pi_transition_index = 0,
     pi_state_pda = 72, pi_ix_discriminator = SETTLE_DISCRIMINATOR, pi_buffer = 49\<rparr>"

definition sample_provenance :: fixture_source where
  "sample_provenance = \<lparr>fs_sim_command = [120], fs_solidity_sdk_commit = [121]\<rparr>"

theorem fixture_roundtrip_witness:
  "\<exists>f. make_fixture tri_syscalls sample_text sample_story sample_provenance = Inr f \<and>
     is_ok (verify_fixture tri_syscalls sample_text f)"
proof -
  obtain f where "make_fixture tri_syscalls sample_text sample_story sample_provenance = Inr f"
    by (auto simp: make_fixture_Inr build_payload_Inr sample_story_def)
  with fixture_roundtrip [OF sample_text_laws, where S = tri_syscalls and i = sample_story and src = sample_provenance]
  show ?thesis by (auto simp: is_ok_iff)
qed

text \<open>Hashes that begin with given bytes.\<close>

definition prefix_syscalls :: "bytes8 \<Rightarrow> syscalls" where
  "prefix_syscalls d = tri_syscalls\<lparr>sc_sha256 := \<lambda>bs. push_bit 192 (ucast d)\<rparr>"

lemma le_bytes_add: "le_bytes (m + n) w = le_bytes m w @ le_bytes n (drop_bit (8 * m) w)"
  by (induction m arbitrary: w) (simp_all add: drop_bit_drop_bit add.commute)

lemma le_bytes_ucast:
  "LENGTH('a) \<le> LENGTH('b) \<Longrightarrow> le_bytes n (ucast w :: 'b::len word) = le_bytes n (w :: 'a::len word)"
proof (induction n arbitrary: w)
  case (Suc n)
  have "drop_bit 8 (ucast w :: 'b word) = ucast (drop_bit 8 w)"
    using Suc.prems by (intro bit_word_eqI) (auto simp: bit_simps dest: bit_imp_le_length)
  moreover have "(ucast (ucast w :: 'b word) :: u8) = ucast w"
    using Suc.prems by (intro bit_word_eqI) (auto simp: bit_simps dest: bit_imp_le_length)
  ultimately show ?case using Suc by simp
qed simp

lemma hash_prefix_pinned: "hash_prefix (push_bit 192 (ucast d)) = d"
proof -
  let ?w = "push_bit 192 (ucast d) :: bytes32"
  have "drop_bit 192 ?w = ucast d"
    by (intro bit_word_eqI) (auto simp: bit_simps dest: bit_imp_le_length)
  then have "take 8 (be_bytes 32 ?w) = be_bytes 8 d"
    using le_bytes_add [of 24 8 ?w] le_bytes_ucast [of 8 d, where 'b = 256] by (simp add: be_bytes_def)
  then show ?thesis by (simp add: hash_prefix_def be_word_be_bytes)
qed

lemma prefix_discriminants [simp]:
  "story_meta_discriminant (prefix_syscalls d) = d" "qwen_answer_discriminant (prefix_syscalls d) = d"
  by (simp_all add: story_meta_discriminant_def qwen_answer_discriminant_def prefix_syscalls_def
      hash_prefix_pinned)

theorem produced_story_settles_witness:
  "\<exists>p data. build_payload (prefix_syscalls STORY_META_DISCRIMINANT) sample_story = Inr p \<and>
     write_chunks sample_memory (sample_info 49 43) (buffer_of [] 6 3) 0 [[1, 2], [3]] = Inr data \<and>
     check_updates (\<lambda>e. verify_story_meta sample_runtime (prefix_syscalls STORY_META_DISCRIMINANT) 43 72 0 e
       (Some (sample_buffer 43 data))) None (sp_updates p) = Inr (Some 99)"
proof -
  obtain p where p: "build_payload (prefix_syscalls STORY_META_DISCRIMINANT) sample_story = Inr p"
    by (auto simp: build_payload_Inr sample_story_def)
  then have "sp_state_pda p = 72" "sp_transition_index p = 0"
    by (auto simp: build_payload_Inr sample_story_def)
  with p show ?thesis
    using produced_story_settles [OF sample_memory_laws _ p, where chunks = "[[1, 2], [3]]" and m = 3
        and c = "[]" and payer = 6 and b = "sample_buffer 43 (buffer_of [] 6 3)" and pid = 43
        and R = sample_runtime]
    by (simp add: sample_buffer_def sample_story_def)
qed

definition sample_qwen :: qwen_inputs where
  "sample_qwen = \<lparr>qi_prompt = [104, 105], qi_model = MODEL_QWEN3_0_6B, qi_prompt_ids = [151644, 872, 198],
     qi_answer_ids = [785, 6722], qi_manifest = 3, qi_new_root = 99, qi_transition_index = 0,
     qi_state_pda = 72, qi_ix_discriminator = SETTLE_DISCRIMINATOR\<rparr>"

definition sample_qwen_fixture :: "u32 list \<Rightarrow> qwen_fixture" where
  "sample_qwen_fixture answer_ids = (case make_qwen_fixture tri_syscalls sample_text sample_qwen [120]
      \<lparr>qs_cmd = [120], qs_sdk_commit = [121]\<rparr> of Inr f \<Rightarrow> f\<lparr>qf_answer_ids := answer_ids\<rparr>)"

lemma sample_qwen_made:
  "make_qwen_fixture tri_syscalls sample_text sample_qwen [120] \<lparr>qs_cmd = [120], qs_sdk_commit = [121]\<rparr> =
     Inr (sample_qwen_fixture [785, 6722])"
proof -
  obtain p where p: "build_qwen_payload tri_syscalls sample_qwen = Inr p"
    by (auto simp: build_qwen_payload_Inr sample_qwen_def)
  then have "wf_settlement_payload p"
    by (simp add: build_qwen_payload_Inr wf_settlement_payload_def wf_vec_def wf_state_update_def
        length_enc_qwen_answer sample_qwen_def)
  with p obtain f where "make_qwen_fixture tri_syscalls sample_text sample_qwen [120]
      \<lparr>qs_cmd = [120], qs_sdk_commit = [121]\<rparr> = Inr f" "qf_answer_ids f = qi_answer_ids sample_qwen"
    by (simp add: make_qwen_fixture_Inr)
  then show ?thesis by (simp add: sample_qwen_fixture_def sample_qwen_def)
qed

lemma sample_qwen_change:
  "sample_qwen_fixture ids = (sample_qwen_fixture [785, 6722])\<lparr>qf_answer_ids := ids\<rparr>"
  by (subst sample_qwen_fixture_def) (simp only: sample_qwen_made sum.case)

theorem qwen_fixture_bound_witness:
  "is_ok (verify_qwen_fixture tri_syscalls sample_text (sample_qwen_fixture [785, 6722])) \<and>
   \<not> is_ok (verify_qwen_fixture tri_syscalls sample_text (sample_qwen_fixture [784, 6722]))"
proof -
  have "qf_payload_borsh_base64 (sample_qwen_fixture [784, 6722]) =
      qf_payload_borsh_base64 (sample_qwen_fixture [785, 6722])"
    "qf_answer_ids (sample_qwen_fixture [784, 6722]) = [784, 6722]"
    by (simp_all add: sample_qwen_change [of "[784, 6722]"])
  then show ?thesis
    using qwen_fixture_bound [OF sample_text_laws sample_qwen_made, of "sample_qwen_fixture [784, 6722]"]
    by (auto simp: is_ok_iff sample_qwen_def)
qed

theorem qwen_payload_settles_iff_witness:
  "\<exists>p. build_qwen_payload (prefix_syscalls 5) (sample_qwen\<lparr>qi_prompt_ids := replicate 2546 7\<rparr>) = Inr p \<and>
     check_updates (\<lambda>_. Inr ()) None (sp_updates p) = Inl (from_settlement SE_EventTooLarge)"
proof -
  let ?i = "sample_qwen\<lparr>qi_prompt_ids := replicate 2546 7\<rparr>"
  obtain p where p: "build_qwen_payload (prefix_syscalls 5) ?i = Inr p"
    by (auto simp: build_qwen_payload_Inr sample_qwen_def)
  have "(5 :: bytes8) \<noteq> STORY_META_DISCRIMINANT" by (simp add: STORY_META_DISCRIMINANT_def)
  with qwen_payload_settles_iff [OF p] p show ?thesis by (auto simp: sample_qwen_def)
qed

end
