(* ===== verification/Host_Keys.thy ===== *)
theory Host_Keys
  imports Bls_Group Rust_Strings
begin

text \<open>
  The host side of the keys: sampling a secret key and deriving the G2 key (\<open>privkey.rs\<close>,
  \<open>g2_point.rs\<close>, compiled only off-chain), and the command line's key storage, proof of
  possession and aggregation of signatures (\<open>cli/src/bls_keys.rs\<close>).  The \<open>ark\<close>, \<open>hex\<close> and \<open>rand\<close>
  crates, the clock and the textual form of addresses are parameters.
\<close>

subsection \<open>The curve library\<close>

text \<open>
  \<open>'p\<close> is the library's type of affine points, \<open>ak_fr_deserialize\<close> reads a scalar as its value.
\<close>

record 'p ark =
  ak_fr_deserialize :: "bytes \<Rightarrow> nat option"
  ak_g2_generator :: 'p
  ak_g2_deserialize :: "bytes \<Rightarrow> 'p option"
  ak_g2_add :: "'p \<Rightarrow> 'p \<Rightarrow> 'p"
  ak_g2_mul :: "'p \<Rightarrow> nat \<Rightarrow> 'p"
  ak_g2_serialize :: "'p \<Rightarrow> bytes64 option"

text \<open>\<open>reverse\<close> of a byte array.\<close>

definition reverse64 :: "bytes64 \<Rightarrow> bytes64" where
  "reverse64 w = be_word (rev (be_bytes 64 w))"

definition g2_checked_add :: "syscalls \<Rightarrow> 'p ark \<Rightarrow> g2_point \<Rightarrow> g2_point \<Rightarrow> g2_point option" where
  "g2_checked_add S A p q = result_ok (
     try_bind (g2_compress S p) (\<lambda>s0.
     try_bind (g2_compress S q) (\<lambda>s1.
     try_bind (ok_or G2PointCompressionError (ak_g2_deserialize A (rev (b64 (g2c_bytes s0))))) (\<lambda>a.
     try_bind (ok_or G2PointCompressionError (ak_g2_deserialize A (rev (b64 (g2c_bytes s1))))) (\<lambda>b.
     try_bind (ok_or SerializationError (ak_g2_serialize A (ak_g2_add A a b))) (\<lambda>bytes.
     map_err (\<lambda>_. G2PointDecompressionError) (g2_decompress S (G2CompressedPoint (reverse64 bytes)))))))))"

definition g2_add_op :: "syscalls \<Rightarrow> 'p ark \<Rightarrow> g2_point \<Rightarrow> g2_point \<Rightarrow> program_error + g2_point" where
  "g2_add_op S A p q = ok_or PE_Panic (g2_checked_add S A p q)"

definition g2c_from_priv_key :: "'p ark \<Rightarrow> priv_key \<Rightarrow> ncn_error + g2_compressed_point" where
  "g2c_from_priv_key A k =
     try_bind (ok_or SecretKeyError (ak_fr_deserialize A (rev (b32 (priv_bytes k))))) (\<lambda>secret_key.
     try_bind (ok_or G2PointCompressionError
       (ak_g2_serialize A (ak_g2_mul A (ak_g2_generator A) secret_key))) (\<lambda>bytes.
     Inr (G2CompressedPoint (reverse64 bytes))))"

definition g2_from_priv_key :: "syscalls \<Rightarrow> 'p ark \<Rightarrow> priv_key \<Rightarrow> ncn_error + g2_point" where
  "g2_from_priv_key S A k =
     try_bind (g2c_from_priv_key A k) (\<lambda>c.
     map_err (\<lambda>_. G2PointDecompressionError) (g2_decompress S c))"

text \<open>
  \<open>PrivKey::from_random\<close> samples until the value is below the group order.  The generator's
  output is a stream; the loop may run forever, so not returning is \<open>None\<close>.
\<close>

partial_function (option) from_random :: "(nat \<Rightarrow> bytes32) \<Rightarrow> nat \<Rightarrow> priv_key option" where
  "from_random rng n =
     (if unat (rng n) < FR_MODULUS then Some (PrivKey (rng n)) else from_random rng (Suc n))"

subsection \<open>Key sets\<close>

record bls_key_set =
  ks_private_key :: bytes32
  ks_g1_pubkey :: bytes32
  ks_g2_pubkey :: bytes64
  ks_operator :: rust_string
  ks_created_at :: rust_string

type_synonym bls_key_storage = "rust_string \<rightharpoonup> bls_key_set"

definition bls_key_storage_new :: bls_key_storage where "bls_key_storage_new = Map.empty"

datatype keys_error =
    KE_Panic
  | KE_G1PublicKey
  | KE_G2PublicKey
  | KE_InvalidOperator
  | KE_Signature
  | KE_ReadFile
  | KE_ParseFile
  | KE_SaveFile
  | KE_BadHex
  | KE_BadLength
  | KE_CountMismatch
  | KE_DecompressG2
  | KE_NoSignatures
  | KE_NoG2Keys
  | KE_CompressSignature
  | KE_CompressG2

text \<open>\<open>map_err(|e| anyhow!(..))\<close> on a step that may also panic.\<close>

definition or_keys :: "keys_error \<Rightarrow> program_error + 'a \<Rightarrow> keys_error + 'a" where
  "or_keys e m = map_err (\<lambda>x. if x = PE_Panic then KE_Panic else e) m"

text \<open>
  The host: the curve library, the random stream, the clock, the textual form of addresses, hex
  decoding, and whether a write to the key file succeeds.
\<close>

record 'p host =
  hs_ark :: "'p ark"
  hs_rng :: "nat \<Rightarrow> bytes32"
  hs_now :: rust_string
  hs_pubkey_to_string :: "pubkey \<Rightarrow> rust_string"
  hs_pubkey_from_str :: "rust_string \<Rightarrow> pubkey option"
  hs_hex_decode :: "rust_string \<Rightarrow> bytes option"
  hs_file_writable :: bool

definition key_set_of :: "syscalls \<Rightarrow> 'p host \<Rightarrow> pubkey \<Rightarrow> priv_key \<Rightarrow> keys_error + bls_key_set" where
  "key_set_of S H operator privkey =
     try_bind (or_keys KE_G1PublicKey (g1c_from_priv_key S privkey)) (\<lambda>g1_compressed.
     try_bind (map_err (\<lambda>_. KE_G2PublicKey) (g2c_from_priv_key (hs_ark H) privkey)) (\<lambda>g2_compressed.
     Inr \<lparr>ks_private_key = priv_bytes privkey, ks_g1_pubkey = g1c_bytes g1_compressed,
       ks_g2_pubkey = g2c_bytes g2_compressed, ks_operator = hs_pubkey_to_string H operator,
       ks_created_at = hs_now H\<rparr>))"

definition generate_bls_keypair ::
  "syscalls \<Rightarrow> 'p host \<Rightarrow> pubkey \<Rightarrow> (keys_error + bls_key_set) option" where
  "generate_bls_keypair S H operator = map_option (key_set_of S H operator) (from_random (hs_rng H) 0)"

definition generate_signature ::
  "syscalls \<Rightarrow> 'p host \<Rightarrow> bls_key_set \<Rightarrow> pubkey \<Rightarrow> keys_error + bytes64" where
  "generate_signature S H key_set ncn =
     (let privkey = PrivKey (ks_private_key key_set) in
      try_bind (ok_or KE_InvalidOperator (hs_pubkey_from_str H (ks_operator key_set))) (\<lambda>operator.
      let pop_digest = pop_message_digest S ncn operator (ks_g1_pubkey key_set) in
      try_bind (or_keys KE_Signature (sign S privkey pop_digest)) (\<lambda>signature.
      Inr (g1_bytes signature))))"

definition generate_signature_from_private_key ::
  "syscalls \<Rightarrow> bytes32 \<Rightarrow> bytes32 \<Rightarrow> keys_error + bytes64" where
  "generate_signature_from_private_key S private_key message =
     try_bind (or_keys KE_Signature (sign S (PrivKey private_key) (MessageDigest message))) (\<lambda>signature.
     Inr (g1_bytes signature))"

subsection \<open>The key file\<close>

text \<open>The file as the JSON library reads it.\<close>

datatype keys_file = KF_missing | KF_unreadable | KF_malformed | KF_storage bls_key_storage

definition load_keys_from_file :: "keys_file \<Rightarrow> keys_error + bls_key_storage" where
  "load_keys_from_file file = (case file of
     KF_missing \<Rightarrow> Inr bls_key_storage_new
   | KF_unreadable \<Rightarrow> Inl KE_ReadFile
   | KF_malformed \<Rightarrow> Inl KE_ParseFile
   | KF_storage storage \<Rightarrow> Inr storage)"

definition save_keys_to_file :: "'p host \<Rightarrow> bls_key_storage \<Rightarrow> keys_error + keys_file" where
  "save_keys_to_file H storage = (if hs_file_writable H then Inr (KF_storage storage) else Inl KE_SaveFile)"

text \<open>The result carries the key set and the file; on an error the file is as it was.\<close>

definition get_or_generate_keys ::
  "syscalls \<Rightarrow> 'p host \<Rightarrow> pubkey \<Rightarrow> keys_file \<Rightarrow> (keys_error + bls_key_set \<times> keys_file) option" where
  "get_or_generate_keys S H operator file =
     (let operator_str = hs_pubkey_to_string H operator in
      case load_keys_from_file file of
        Inl e \<Rightarrow> Some (Inl e)
      | Inr storage \<Rightarrow>
          (case storage operator_str of
             Some existing_keys \<Rightarrow> Some (Inr (existing_keys, file))
           | None \<Rightarrow>
               map_option (\<lambda>generated.
                 try_bind generated (\<lambda>key_set.
                 try_bind (save_keys_to_file H (storage(operator_str \<mapsto> key_set))) (\<lambda>file.
                 Inr (key_set, file))))
               (generate_bls_keypair S H operator)))"

definition hex_to_bytes :: "'p host \<Rightarrow> nat \<Rightarrow> rust_string \<Rightarrow> keys_error + bytes" where
  "hex_to_bytes H n hex_str =
     try_bind (ok_or KE_BadHex (hs_hex_decode H hex_str)) (\<lambda>bytes.
     if length bytes \<noteq> n then Inl KE_BadLength else Inr bytes)"

text \<open>The replacement of both public keys, when both are given.\<close>

definition use_given_keys ::
  "'p host \<Rightarrow> rust_string \<Rightarrow> rust_string \<Rightarrow> bls_key_set \<Rightarrow> keys_error + bls_key_set" where
  "use_given_keys H g1 g2 keys =
     try_bind (hex_to_bytes H 32 g1) (\<lambda>g1_bytes.
     try_bind (hex_to_bytes H 64 g2) (\<lambda>g2_bytes.
     Inr (keys\<lparr>ks_g1_pubkey := be_word g1_bytes, ks_g2_pubkey := be_word g2_bytes\<rparr>)))"

definition generate_or_use_keys ::
  "syscalls \<Rightarrow> 'p host \<Rightarrow> pubkey \<Rightarrow> keys_file \<Rightarrow> rust_string option \<Rightarrow> rust_string option \<Rightarrow>
   (keys_error + bls_key_set \<times> keys_file) option" where
  "generate_or_use_keys S H operator file g1_pubkey g2_pubkey =
     (let operator_str = hs_pubkey_to_string H operator in
      case load_keys_from_file file of
        Inl e \<Rightarrow> Some (Inl e)
      | Inr storage \<Rightarrow>
          (case storage operator_str of
             Some existing_keys \<Rightarrow>
               Some (case (g1_pubkey, g2_pubkey) of
                 (Some g1, Some g2) \<Rightarrow>
                   try_bind (use_given_keys H g1 g2 existing_keys) (\<lambda>updated_keys.
                   try_bind (save_keys_to_file H (storage(operator_str \<mapsto> updated_keys))) (\<lambda>file.
                   Inr (updated_keys, file)))
               | _ \<Rightarrow> Inr (existing_keys, file))
           | None \<Rightarrow>
               map_option (\<lambda>generated.
                 try_bind generated (\<lambda>key_set.
                 try_bind (case (g1_pubkey, g2_pubkey) of
                     (Some g1, Some g2) \<Rightarrow> use_given_keys H g1 g2 key_set
                   | _ \<Rightarrow> Inr key_set) (\<lambda>key_set.
                 try_bind (save_keys_to_file H (storage(operator_str \<mapsto> key_set))) (\<lambda>file.
                 Inr (key_set, file)))))
               (generate_bls_keypair S H operator)))"

subsection \<open>Aggregation\<close>

record aggregation_result =
  ar_aggregated_signature :: bytes32
  ar_aggregated_g2 :: bytes64
  ar_signers_bitmap :: bytes

text \<open>The three loops over the lists of hex strings.\<close>

fun parse_signatures :: "'p host \<Rightarrow> rust_string list \<Rightarrow> keys_error + g1_point list" where
  "parse_signatures H [] = Inr []"
| "parse_signatures H (sig_hex # rest) =
     try_bind (hex_to_bytes H 64 (trim sig_hex)) (\<lambda>sig_bytes.
     try_bind (parse_signatures H rest) (\<lambda>points.
     Inr (G1Point (be_word sig_bytes) # points)))"

fun check_g1_keys :: "'p host \<Rightarrow> rust_string list \<Rightarrow> keys_error + unit" where
  "check_g1_keys H [] = Inr ()"
| "check_g1_keys H (g1_hex # rest) =
     try_bind (hex_to_bytes H 32 (trim g1_hex)) (\<lambda>_. check_g1_keys H rest)"

fun parse_g2_keys :: "syscalls \<Rightarrow> 'p host \<Rightarrow> rust_string list \<Rightarrow> keys_error + g2_point list" where
  "parse_g2_keys S H [] = Inr []"
| "parse_g2_keys S H (g2_hex # rest) =
     try_bind (hex_to_bytes H 64 (trim g2_hex)) (\<lambda>g2_bytes.
     try_bind (map_err (\<lambda>_. KE_DecompressG2)
       (g2_decompress S (G2CompressedPoint (be_word g2_bytes)))) (\<lambda>g2_point.
     try_bind (parse_g2_keys S H rest) (\<lambda>points.
     Inr (g2_point # points))))"

text \<open>\<open>into_iter().reduce(|acc, x| acc + x)\<close> with an addition that may panic.\<close>

fun sum_from :: "('a \<Rightarrow> 'a \<Rightarrow> program_error + 'a) \<Rightarrow> 'a \<Rightarrow> 'a list \<Rightarrow> program_error + 'a" where
  "sum_from add acc [] = Inr acc"
| "sum_from add acc (x # xs) = try_bind (add acc x) (\<lambda>acc. sum_from add acc xs)"

definition reduce_points ::
  "keys_error \<Rightarrow> ('a \<Rightarrow> 'a \<Rightarrow> program_error + 'a) \<Rightarrow> 'a list \<Rightarrow> keys_error + 'a" where
  "reduce_points none add xs =
     (case xs of [] \<Rightarrow> Inl none | x # xs \<Rightarrow> or_keys none (sum_from add x xs))"

definition aggregate_signatures_and_keys ::
  "syscalls \<Rightarrow> 'p host \<Rightarrow> rust_string \<Rightarrow> rust_string \<Rightarrow> rust_string \<Rightarrow> rust_string \<Rightarrow>
   keys_error + aggregation_result" where
  "aggregate_signatures_and_keys S H signatures g1_public_keys g2_public_keys signers_bitmap =
     (let signature_list = split_at_char 0x2C signatures;
          g1_list = split_at_char 0x2C g1_public_keys;
          g2_list = split_at_char 0x2C g2_public_keys
      in if length signature_list \<noteq> length g1_list \<or> length signature_list \<noteq> length g2_list
         then Inl KE_CountMismatch
         else
           try_bind (ok_or KE_BadHex (hs_hex_decode H signers_bitmap)) (\<lambda>bitmap_bytes.
           try_bind (parse_signatures H signature_list) (\<lambda>signatures_vec.
           try_bind (check_g1_keys H g1_list) (\<lambda>_.
           try_bind (parse_g2_keys S H g2_list) (\<lambda>g2_points_vec.
           try_bind (reduce_points KE_NoSignatures (g1_add_op S) signatures_vec) (\<lambda>aggregated_signature.
           try_bind (reduce_points KE_NoG2Keys (g2_add_op S (hs_ark H)) g2_points_vec) (\<lambda>aggregated_g2.
           try_bind (map_err (\<lambda>_. KE_CompressSignature) (g1_compress S aggregated_signature)) (\<lambda>signature.
           try_bind (map_err (\<lambda>_. KE_CompressG2) (g2_compress S aggregated_g2)) (\<lambda>g2.
           Inr \<lparr>ar_aggregated_signature = g1c_bytes signature, ar_aggregated_g2 = g2c_bytes g2,
             ar_signers_bitmap = bitmap_bytes\<rparr>)))))))))"

end
