(* ===== verification/Host_Properties.thy ===== *)
theory Host_Properties
  imports Operator_Handlers Host_Keys
begin

text \<open>
  The host tools agree with the program: generated keys register, aggregated signatures verify,
  and the key file keeps every operator's key.
\<close>

subsection \<open>What the curve library promises\<close>

text \<open>
  In exponents: addition, multiplication of the generator, serialisation and deserialisation of
  compressed points agree with the runtime's, and a scalar is accepted exactly below the group order.
  The identity is the exception: the runtime compresses it to zeros, which the library refuses to
  read, while the library writes it with its infinity flag, which the runtime reads as the identity.
\<close>

definition ark_laws :: "syscalls \<Rightarrow> 'p ark \<Rightarrow> bls_group \<Rightarrow> (nat \<Rightarrow> 'p) \<Rightarrow> bool" where
  "ark_laws S A G point \<longleftrightarrow>
     (\<forall>k. sc_g2_compress S (bg_e2 G k) = Some (bg_c2 G k)) \<and>
     (\<forall>k. ak_g2_deserialize A (rev (b64 (bg_c2 G k))) =
        (if k mod bg_order G = 0 then None else Some (point k))) \<and>
     (\<forall>j k. ak_g2_add A (point j) (point k) = point (j + k)) \<and>
     (\<forall>k. ak_g2_mul A (ak_g2_generator A) k = point k) \<and>
     (\<forall>k. \<exists>w. ak_g2_serialize A (point k) = Some w \<and>
        sc_g2_decompress S (reverse64 w) = Some (bg_e2 G k) \<and>
        (k mod bg_order G \<noteq> 0 \<longrightarrow> reverse64 w = bg_c2 G k)) \<and>
     (\<forall>s. ak_fr_deserialize A (rev (b32 s)) = (if unat s < FR_MODULUS then Some (unat s) else None))"

lemma ark_lawsD:
  assumes "ark_laws S A G point"
  shows "sc_g2_compress S (bg_e2 G k) = Some (bg_c2 G k)"
    "ak_g2_deserialize A (rev (b64 (bg_c2 G k))) = (if k mod bg_order G = 0 then None else Some (point k))"
    "ak_g2_add A (point j) (point k) = point (j + k)"
    "ak_g2_mul A (ak_g2_generator A) k = point k"
    "ak_fr_deserialize A (rev (b32 s)) = (if unat s < FR_MODULUS then Some (unat s) else None)"
    "\<exists>w. ak_g2_serialize A (point k) = Some w \<and> sc_g2_decompress S (reverse64 w) = Some (bg_e2 G k) \<and>
       (k mod bg_order G \<noteq> 0 \<longrightarrow> reverse64 w = bg_c2 G k)"
  using assms unfolding ark_laws_def by blast+

lemma ark_add:
  assumes "ark_laws S A G point"
  shows "g2_checked_add S A (G2Point (bg_e2 G j)) (G2Point (bg_e2 G k)) =
    (if j mod bg_order G \<noteq> 0 \<and> k mod bg_order G \<noteq> 0 then Some (G2Point (bg_e2 G (j + k))) else None)"
proof -
  obtain w where "ak_g2_serialize A (point (j + k)) = Some w"
    "sc_g2_decompress S (reverse64 w) = Some (bg_e2 G (j + k))"
    using ark_lawsD(6) [OF assms] by blast
  then show ?thesis
    using ark_lawsD(1-3) [OF assms] by (simp add: g2_checked_add_def g2_compress_def g2_decompress_def)
qed

lemma ark_key:
  assumes "ark_laws S A G point"
  shows "\<exists>c. g2c_from_priv_key A (PrivKey k) =
      (if unat k < FR_MODULUS then Inr (G2CompressedPoint c) else Inl SecretKeyError) \<and>
    sc_g2_decompress S c = Some (bg_e2 G (unat k)) \<and>
    (unat k mod bg_order G \<noteq> 0 \<longrightarrow> c = bg_c2 G (unat k))"
proof -
  obtain w where "ak_g2_serialize A (point (unat k)) = Some w"
    "sc_g2_decompress S (reverse64 w) = Some (bg_e2 G (unat k))"
    "unat k mod bg_order G \<noteq> 0 \<longrightarrow> reverse64 w = bg_c2 G (unat k)"
    using ark_lawsD(6) [OF assms] by blast
  then show ?thesis
    by (intro exI [of _ "reverse64 w"])
      (simp add: g2c_from_priv_key_def ark_lawsD(4) [OF assms] ark_lawsD(5) [OF assms])
qed

subsection \<open>Sampling\<close>

lemma from_random_first:
  "n \<le> m \<Longrightarrow> (\<forall>i. n \<le> i \<and> i < m \<longrightarrow> FR_MODULUS \<le> unat (rng i)) \<Longrightarrow> unat (rng m) < FR_MODULUS \<Longrightarrow>
     from_random rng n = Some (PrivKey (rng m))"
proof (induction "m - n" arbitrary: n)
  case 0
  then show ?case by (simp add: from_random.simps [of rng n])
next
  case (Suc d)
  then have "FR_MODULUS \<le> unat (rng n)" "from_random rng (Suc n) = Some (PrivKey (rng m))" by auto
  then show ?case by (simp add: from_random.simps [of rng n])
qed

lemma from_random_sound:
  "from_random rng n = Some k \<Longrightarrow>
     \<exists>m \<ge> n. k = PrivKey (rng m) \<and> unat (rng m) < FR_MODULUS \<and> (\<forall>i. n \<le> i \<and> i < m \<longrightarrow> FR_MODULUS \<le> unat (rng i))"
proof (induction rng n k rule: from_random.raw_induct [rotated, consumes 1, case_names sample])
  case (sample f rng n k)
  show ?case
  proof (cases "unat (rng n) < FR_MODULUS")
    case True
    with sample(2) show ?thesis by (intro exI [of _ n]) auto
  next
    case False
    with sample(2) have "f rng (Suc n) = Some k" by simp
    from sample(1) [OF this] obtain m where m: "Suc n \<le> m" "k = PrivKey (rng m)" "unat (rng m) < FR_MODULUS"
      "\<forall>i. Suc n \<le> i \<and> i < m \<longrightarrow> FR_MODULUS \<le> unat (rng i)" by (elim exE conjE) rule
    have "FR_MODULUS \<le> unat (rng i)" if "n \<le> i" "i < m" for i
      using m(4) False that by (cases "i = n") (simp_all add: not_less)
    with m show ?thesis by (intro exI [of _ m]) simp
  qed
qed

text \<open>
  Sampling a secret key returns exactly when the random stream ever yields a value below the
  group order, and then it returns the first such value; so a returned key is a scalar, and a
  stream that never yields one is the only way not to return.
\<close>

theorem from_random_terminates_iff:
  "(from_random rng 0 = None \<longleftrightarrow> (\<forall>n. FR_MODULUS \<le> unat (rng n))) \<and>
   (from_random rng 0 = Some k \<longleftrightarrow>
     (\<exists>m. k = PrivKey (rng m) \<and> unat (rng m) < FR_MODULUS \<and> (\<forall>i < m. FR_MODULUS \<le> unat (rng i))))"
proof -
  have some: "from_random rng 0 = Some k \<longleftrightarrow>
      (\<exists>m. k = PrivKey (rng m) \<and> unat (rng m) < FR_MODULUS \<and> (\<forall>i < m. FR_MODULUS \<le> unat (rng i)))" for k
    using from_random_sound [of rng 0 k] from_random_first [of 0 _ rng] by auto
  have "from_random rng 0 \<noteq> None" if "unat (rng n) < FR_MODULUS" for n
  proof -
    define m where "m = (LEAST n. unat (rng n) < FR_MODULUS)"
    have "unat (rng m) < FR_MODULUS" using that unfolding m_def by (rule LeastI)
    moreover have "\<forall>i < m. FR_MODULUS \<le> unat (rng i)"
      unfolding m_def using not_less_Least by fastforce
    ultimately show ?thesis using some [of "PrivKey (rng m)"] by auto
  qed
  moreover have "from_random rng 0 = None" if "\<forall>n. FR_MODULUS \<le> unat (rng n)"
  proof (cases "from_random rng 0")
    case (Some k)
    with some [of k] that show ?thesis by (auto simp: not_less [symmetric])
  qed
  ultimately show ?thesis using some [of k] by (auto simp: not_less [symmetric])
qed

subsection \<open>Generated keys register\<close>

text \<open>The textual form of an address reads back.\<close>

definition host_laws :: "'p host \<Rightarrow> bool" where
  "host_laws H \<longleftrightarrow> (\<forall>p. hs_pubkey_from_str H (hs_pubkey_to_string H p) = Some p)"

lemma key_set_of_Inr:
  assumes "bls_laws S G" "ark_laws S (hs_ark H) G point"
  shows "\<exists>c. key_set_of S H operator (PrivKey k) =
      (if unat k < FR_MODULUS
       then Inr \<lparr>ks_private_key = k, ks_g1_pubkey = bg_c1 G (unat k), ks_g2_pubkey = c,
         ks_operator = hs_pubkey_to_string H operator, ks_created_at = hs_now H\<rparr>
       else Inl KE_G2PublicKey) \<and>
    sc_g2_decompress S c = Some (bg_e2 G (unat k)) \<and>
    (unat k mod bg_order G \<noteq> 0 \<longrightarrow> c = bg_c2 G (unat k))"
proof -
  obtain c where "g2c_from_priv_key (hs_ark H) (PrivKey k) =
      (if unat k < FR_MODULUS then Inr (G2CompressedPoint c) else Inl SecretKeyError)"
    "sc_g2_decompress S c = Some (bg_e2 G (unat k))"
    "unat k mod bg_order G \<noteq> 0 \<longrightarrow> c = bg_c2 G (unat k)"
    using ark_key [OF assms(2)] by blast
  then show ?thesis
    by (intro exI [of _ c]) (simp add: key_set_of_def bls_compressed_key [OF assms(1)] or_keys_def)
qed

text \<open>
  C17: What the command line generates, the program accepts: if sampling returns, key generation
  succeeds, and when the proof-of-possession digest hashes to the curve, the signature it makes
  for the NCN passes the registration check of the program for that NCN, operator and key pair.
\<close>

theorem generated_keys_register:
  assumes L: "bls_laws S G" "ark_laws S (hs_ark H) G point" "host_laws H"
    and sampled: "from_random (hs_rng H) 0 = Some (PrivKey k)"
    and hash: "try_hash_to_curve S (pop_message_digest S ncn operator (bg_c1 G (unat k))) =
      Inr (G1Point (bg_e1 G h))"
  shows "\<exists>ks signature. generate_bls_keypair S H operator = Some (Inr ks) \<and>
    generate_signature S H ks ncn = Inr signature \<and>
    register_operator_proof S ncn operator (ks_g1_pubkey ks) (ks_g2_pubkey ks) signature = Inr ()"
proof -
  have "unat k < FR_MODULUS" using from_random_sound [OF sampled] by auto
  then obtain c where ks: "key_set_of S H operator (PrivKey k) = Inr \<lparr>ks_private_key = k,
      ks_g1_pubkey = bg_c1 G (unat k), ks_g2_pubkey = c,
      ks_operator = hs_pubkey_to_string H operator, ks_created_at = hs_now H\<rparr>"
    and c: "sc_g2_decompress S c = Some (bg_e2 G (unat k))"
    using key_set_of_Inr [OF L(1,2), of operator k] by auto
  have "((h + \<gamma>) * unat k) mod bg_order G = (h * unat k + unat k * \<gamma>) mod bg_order G" for \<gamma>
    by (simp add: algebra_simps)
  then have "verify_operator_registeration S (G2Point (bg_e2 G (unat k))) (G1Point (bg_e1 G (h * unat k)))
      (bg_c1 G (unat k)) (pop_message_digest S ncn operator (bg_c1 G (unat k))) = Inr ()"
    by (simp add: bls_verify_registration [OF L(1) hash bls_decompress [OF L(1)]] Let_def)
  then show ?thesis
    using ks sampled L(3)
    by (simp add: generate_bls_keypair_def generate_signature_def bls_sign [OF L(1) hash] or_keys_def
        host_laws_def register_operator_proof_def g2_decompress_def c)
qed

subsection \<open>The key file\<close>

lemma get_or_generate_keys_Some:
  "get_or_generate_keys S H operator file = Some (Inr (ks, file')) \<longleftrightarrow>
     (\<exists>storage. load_keys_from_file file = Inr storage \<and>
       (if storage (hs_pubkey_to_string H operator) = None
        then generate_bls_keypair S H operator = Some (Inr ks) \<and> hs_file_writable H \<and>
          file' = KF_storage (storage(hs_pubkey_to_string H operator \<mapsto> ks))
        else storage (hs_pubkey_to_string H operator) = Some ks \<and> file' = file))"
  by (auto simp: get_or_generate_keys_def save_keys_to_file_def Let_def split: sum.splits option.splits if_splits)

text \<open>
  C23: The key file is stable: after a call that returns a key set, the file holds it under the
  operator's name, every other entry is as before, and every later call for that operator, with
  any randomness and clock, returns the same keys and leaves the file as it is.
\<close>

theorem keys_are_kept:
  assumes get: "get_or_generate_keys S H operator file = Some (Inr (ks, file'))"
    and same: "hs_pubkey_to_string H' operator = hs_pubkey_to_string H operator"
  shows "get_or_generate_keys S' H' operator file' = Some (Inr (ks, file')) \<and>
    (\<exists>storage storage'. load_keys_from_file file = Inr storage \<and> load_keys_from_file file' = Inr storage' \<and>
      storage' (hs_pubkey_to_string H operator) = Some ks \<and>
      (\<forall>name. name \<noteq> hs_pubkey_to_string H operator \<longrightarrow> storage' name = storage name))"
proof -
  obtain storage where storage: "load_keys_from_file file = Inr storage"
    and cases: "if storage (hs_pubkey_to_string H operator) = None
      then generate_bls_keypair S H operator = Some (Inr ks) \<and> hs_file_writable H \<and>
        file' = KF_storage (storage(hs_pubkey_to_string H operator \<mapsto> ks))
      else storage (hs_pubkey_to_string H operator) = Some ks \<and> file' = file"
    using get unfolding get_or_generate_keys_Some by blast
  obtain storage' where "load_keys_from_file file' = Inr storage'"
    "storage' (hs_pubkey_to_string H operator) = Some ks"
    "\<forall>name. name \<noteq> hs_pubkey_to_string H operator \<longrightarrow> storage' name = storage name"
    using storage cases by (auto simp: load_keys_from_file_def split: if_splits)
  then show ?thesis using storage same by (auto simp: get_or_generate_keys_Some)
qed

subsection \<open>Aggregation\<close>

lemma g1_sum:
  assumes "bls_laws S G"
  shows "sum_from (g1_add_op S) (G1Point (bg_e1 G a)) (map (\<lambda>k. G1Point (bg_e1 G k)) ks) =
    Inr (G1Point (bg_e1 G (a + sum_list ks)))"
  by (induction ks arbitrary: a) (simp_all add: g1_add_op_def bls_add [OF assms] add.assoc)

text \<open>
  The keys the library can add from left to right: no key is the identity, and no sum but the last.
\<close>

fun addable_from :: "bls_group \<Rightarrow> nat \<Rightarrow> nat list \<Rightarrow> bool" where
  "addable_from G a [] = True"
| "addable_from G a (k # ks) =
     (a mod bg_order G \<noteq> 0 \<and> k mod bg_order G \<noteq> 0 \<and> addable_from G (a + k) ks)"

definition addable :: "bls_group \<Rightarrow> nat list \<Rightarrow> bool" where
  "addable G ks = (case ks of [] \<Rightarrow> True | k # ks \<Rightarrow> addable_from G k ks)"

lemma g2_sum:
  assumes "ark_laws S A G point"
  shows "sum_from (g2_add_op S A) (G2Point (bg_e2 G a)) (map (\<lambda>k. G2Point (bg_e2 G k)) ks) =
    (if addable_from G a ks then Inr (G2Point (bg_e2 G (a + sum_list ks))) else Inl PE_Panic)"
  by (induction ks arbitrary: a) (simp_all add: g2_add_op_def ark_add [OF assms] add.assoc)

text \<open>A list of hex strings that decode to given arrays.\<close>

definition decode_to :: "'p host \<Rightarrow> bytes list \<Rightarrow> rust_string list \<Rightarrow> bool" where
  "decode_to H bs hexes \<longleftrightarrow> map (\<lambda>s. hs_hex_decode H (trim s)) hexes = map Some bs"

lemma decode_to_Cons: "decode_to H (b # bs) hexes \<longleftrightarrow>
  (\<exists>s rest. hexes = s # rest \<and> hs_hex_decode H (trim s) = Some b \<and> decode_to H bs rest)"
  by (cases hexes) (auto simp: decode_to_def)

lemma decode_to_Nil [simp]: "decode_to H [] hexes \<longleftrightarrow> hexes = []"
  by (auto simp: decode_to_def)

lemma parse_signatures_points:
  "decode_to H (map (\<lambda>k. b64 (bg_e1 G k)) ks) hexes \<Longrightarrow>
     parse_signatures H hexes = Inr (map (\<lambda>k. G1Point (bg_e1 G k)) ks)"
  by (induction ks arbitrary: hexes) (auto simp: decode_to_Cons hex_to_bytes_def be_word_be_bytes)

lemma check_g1_keys_ok:
  "decode_to H bs hexes \<Longrightarrow> list_all (\<lambda>b. length b = 32) bs \<Longrightarrow> check_g1_keys H hexes = Inr ()"
  by (induction bs arbitrary: hexes) (auto simp: decode_to_Cons hex_to_bytes_def)

lemma parse_g2_keys_points:
  assumes "bls_laws S G"
  shows "decode_to H (map (\<lambda>k. b64 (bg_c2 G k)) ks) hexes \<Longrightarrow>
     parse_g2_keys S H hexes = Inr (map (\<lambda>k. G2Point (bg_e2 G k)) ks)"
  by (induction ks arbitrary: hexes)
    (auto simp: decode_to_Cons hex_to_bytes_def be_word_be_bytes g2_decompress_def bls_decompress2 [OF assms])

lemma aggregate_points:
  assumes L: "bls_laws S G" "ark_laws S (hs_ark H) G point"
    and ks: "ks \<noteq> []" and bitmap: "hs_hex_decode H signers_bitmap = Some bm"
    and s: "decode_to H (map (\<lambda>k. b64 (bg_e1 G (h * k))) ks) (split_at_char 0x2C signatures)"
    and g1: "decode_to H (map (\<lambda>k. b32 (bg_c1 G k)) ks) (split_at_char 0x2C g1_public_keys)"
    and g2: "decode_to H (map (\<lambda>k. b64 (bg_c2 G k)) ks) (split_at_char 0x2C g2_public_keys)"
  shows "aggregate_signatures_and_keys S H signatures g1_public_keys g2_public_keys signers_bitmap =
    (if addable G ks
     then Inr \<lparr>ar_aggregated_signature = bg_c1 G (h * sum_list ks), ar_aggregated_g2 = bg_c2 G (sum_list ks),
       ar_signers_bitmap = bm\<rparr>
     else Inl KE_Panic)"
proof -
  have lengths: "length (split_at_char 0x2C signatures) = length ks"
    "length (split_at_char 0x2C g1_public_keys) = length ks"
    "length (split_at_char 0x2C g2_public_keys) = length ks"
    using s g1 g2 by (auto simp: decode_to_def dest: arg_cong [of _ _ length])
  have "parse_signatures H (split_at_char 0x2C signatures) = Inr (map (\<lambda>k. G1Point (bg_e1 G (h * k))) ks)"
    using parse_signatures_points [of H G "map ((*) h) ks"] s by (simp add: comp_def)
  moreover have "check_g1_keys H (split_at_char 0x2C g1_public_keys) = Inr ()"
    by (rule check_g1_keys_ok [OF g1]) (simp add: list_all_iff)
  moreover have "sum_list (map ((*) h) ks) = h * sum_list ks"
    by (simp add: sum_list_const_mult)
  moreover obtain k rest where "ks = k # rest" using ks by (cases ks) auto
  ultimately show ?thesis
    using g1_sum [OF L(1), of "h * k" "map ((*) h) rest"] g2_sum [OF L(2), of k rest]
      parse_g2_keys_points [OF L(1) g2] bitmap lengths ark_lawsD(1) [OF L(2)] bls_compress [OF L(1)]
    by (simp add: aggregate_signatures_and_keys_def reduce_points_def or_keys_def comp_def
        g1_compress_def g2_compress_def addable_def)
qed

text \<open>
  C16: The command line's aggregate is the certificate the program accepts.  Take a snapshot whose
  entries' keys are points and whose non-zero aggregate is the sum of the live ones, and the
  signatures and keys of the signers of a bitmap, in any order.  The aggregation returns if no key
  and no partial sum of G2 keys is the identity, and panics otherwise; what it returns passes
  certificate verification exactly when the stake conditions hold for the bitmap.
\<close>

theorem aggregate_verifies:
  assumes L: "bls_laws S G" "ark_laws S (hs_ark H) G point"
    and ks: "ks \<noteq> []" and bitmap: "hs_hex_decode H signers_bitmap = Some bm"
    and s: "decode_to H (map (\<lambda>k. b64 (bg_e1 G (h * k))) ks) (split_at_char 0x2C signatures)"
    and g1: "decode_to H (map (\<lambda>k. b32 (bg_c1 G k)) ks) (split_at_char 0x2C g1_public_keys)"
    and g2: "decode_to H (map (\<lambda>k. b64 (bg_c2 G k)) ks) (split_at_char 0x2C g2_public_keys)"
    and h: "try_hash_to_curve S (MessageDigest digest) = Inr (G1Point (bg_e1 G h))"
    and keys: "entry_keys S G key (take (unat (ss_operators_registered snap)) (ss_operator_snapshots snap))"
    and agg: "sc_g1_decompress S (ss_total_aggregated_g1_pubkey snap) =
      Some (bg_e1 G (live_keys key (take (unat (ss_operators_registered snap)) (ss_operator_snapshots snap))))"
    and nonzero: "ss_total_aggregated_g1_pubkey snap \<noteq> 0"
    and signers: "sum_list ks =
      signer_keys key bm 0 (take (unat (ss_operators_registered snap)) (ss_operator_snapshots snap))"
  shows "(if addable G ks
    then \<exists>r. aggregate_signatures_and_keys S H signatures g1_public_keys g2_public_keys signers_bitmap = Inr r \<and>
      (verify_certificate S snap bps window len slot digest (ar_aggregated_g2 r) (ar_aggregated_signature r)
         (ar_signers_bitmap r) gen = Inr () \<longleftrightarrow>
       certificate_conditions snap bps window len slot bm gen)
    else aggregate_signatures_and_keys S H signatures g1_public_keys g2_public_keys signers_bitmap = Inl KE_Panic)"
  using aggregate_points [OF L ks bitmap s g1 g2]
    verify_certificate_iff [OF L(1) h keys agg nonzero signers bls_decompress [OF L(1), of "h * sum_list ks"]]
  by simp

subsection \<open>Concrete inputs\<close>

text \<open>The curve library over the group of order three: its points are exponents.\<close>

definition tri_ark :: "nat ark" where
  "tri_ark = \<lparr>
     ak_fr_deserialize = (\<lambda>bs. let s = unat (be_word (rev bs) :: bytes32)
       in if s < FR_MODULUS then Some s else None),
     ak_g2_generator = 1,
     ak_g2_deserialize = (\<lambda>bs. let k = unat (be_word (rev bs) :: bytes64) in if k = 0 then None else Some k),
     ak_g2_add = (\<lambda>j k. (j + k) mod 3),
     ak_g2_mul = (\<lambda>j k. (j * k) mod 3),
     ak_g2_serialize = (\<lambda>k. Some (reverse64 (of_nat k)))\<rparr>"

lemma reverse64_reverse64: "reverse64 (reverse64 w) = w"
  using be_bytes_be_word [of "rev (be_bytes 64 w)", where 'a = 512]
  by (simp add: reverse64_def be_word_be_bytes)

lemma tri_ark_laws: "ark_laws tri_syscalls tri_ark tri_group (\<lambda>k. k mod 3)"
proof -
  have "unat (of_nat (k mod 3) :: bytes64) = k mod 3" "(of_nat (k mod 3) :: bytes64) < 3" for k
    by (rule mod_3_cases [of k]; simp)+
  then show ?thesis
    unfolding ark_laws_def
    by (simp add: tri_ark_def tri_group_def be_word_be_bytes reverse64_reverse64 mod_simps)
      (simp add: tri_syscalls_def tri_log2_e2)
qed

text \<open>Addresses as their bytes, and a hex decoder that reads a letter as a repeated byte.\<close>

definition tri_host :: "nat host" where
  "tri_host = \<lparr>hs_ark = tri_ark, hs_rng = (\<lambda>n. if n = 0 then - 1 else 2), hs_now = [],
     hs_pubkey_to_string = be_bytes 32, hs_pubkey_from_str = (\<lambda>s. Some (be_word s)),
     hs_hex_decode = (\<lambda>s. if s = [0x61] then Some [1] else if s = [0x62] then Some (b64 (tri_e1 1))
       else if s = [0x63] then Some (b32 1) else if s = [0x64] then Some (b64 1) else None),
     hs_file_writable = True\<rparr>"

lemma tri_host_laws: "host_laws tri_host"
  by (simp add: host_laws_def tri_host_def be_word_be_bytes)

lemma tri_sampled: "from_random (hs_rng tri_host) 0 = Some (PrivKey 2)"
  using from_random_first [of 0 1 "hs_rng tri_host"]
  by (simp add: tri_host_def FR_MODULUS_value unsigned_minus_1_eq_mask mask_eq_exp_minus_1)

theorem from_random_terminates_iff_witness:
  "from_random (\<lambda>n. if n = 0 then - 1 else 2) 0 = Some (PrivKey 2) \<and> from_random (\<lambda>n. - 1) 0 = None"
  using from_random_terminates_iff [of "\<lambda>n. if n = 0 then - 1 else 2" "PrivKey 2"]
    from_random_terminates_iff [of "\<lambda>n. - 1"]
  by (auto simp: FR_MODULUS_value unsigned_minus_1_eq_mask mask_eq_exp_minus_1 intro!: exI [of _ 1])

theorem generated_keys_register_witness:
  "\<exists>ks signature. generate_bls_keypair tri_syscalls tri_host 7 = Some (Inr ks) \<and>
     generate_signature tri_syscalls tri_host ks 5 = Inr signature \<and>
     register_operator_proof tri_syscalls 5 7 (ks_g1_pubkey ks) (ks_g2_pubkey ks) signature = Inr ()"
proof (rule generated_keys_register [OF tri_laws _ tri_host_laws tri_sampled tri_hash])
  show "ark_laws tri_syscalls (hs_ark tri_host) tri_group (\<lambda>k. k mod 3)"
    using tri_ark_laws by (simp add: tri_host_def)
qed

theorem keys_are_kept_witness:
  "\<exists>ks file. get_or_generate_keys tri_syscalls tri_host 7 KF_missing = Some (Inr (ks, file)) \<and>
     get_or_generate_keys tri_syscalls (tri_host\<lparr>hs_rng := \<lambda>n. 1\<rparr>) 7 file = Some (Inr (ks, file))"
proof -
  have "ark_laws tri_syscalls (hs_ark tri_host) tri_group (\<lambda>k. k mod 3)"
    using tri_ark_laws by (simp add: tri_host_def)
  from key_set_of_Inr [OF tri_laws this, of 7 2] obtain k where "generate_bls_keypair tri_syscalls tri_host 7 = Some (Inr k)"
    by (auto simp: generate_bls_keypair_def tri_sampled FR_MODULUS_value)
  then have get: "get_or_generate_keys tri_syscalls tri_host 7 KF_missing =
      Some (Inr (k, KF_storage (bls_key_storage_new(hs_pubkey_to_string tri_host 7 \<mapsto> k))))"
    by (simp add: get_or_generate_keys_Some load_keys_from_file_def bls_key_storage_new_def tri_host_def)
  with keys_are_kept [OF get, of "tri_host\<lparr>hs_rng := \<lambda>n. 1\<rparr>" tri_syscalls] show ?thesis
    by auto
qed

theorem aggregate_verifies_witness:
  "\<exists>r. aggregate_signatures_and_keys tri_syscalls tri_host [0x62] [0x63] [0x64] [0x61] = Inr r \<and>
     verify_certificate tri_syscalls sample_snapshot 6667 100 100 50 9 (ar_aggregated_g2 r)
       (ar_aggregated_signature r) (ar_signers_bitmap r) 2 = Inr ()"
proof -
  have ark: "ark_laws tri_syscalls (hs_ark tri_host) tri_group (\<lambda>k. k mod 3)"
    using tri_ark_laws by (simp add: tri_host_def)
  have trims: "trim [0x62] = [0x62]" "trim [0x63] = [0x63]" "trim [0x64] = [0x64]"
    by (simp_all add: printable_def)
  have bitmap: "hs_hex_decode tri_host [0x61] = Some [1]" by (simp add: tri_host_def)
  have decodes: "decode_to tri_host (map (\<lambda>k. b64 (bg_e1 tri_group (1 * k))) [1]) (split_at_char 0x2C [0x62])"
    "decode_to tri_host (map (\<lambda>k. b32 (bg_c1 tri_group k)) [1]) (split_at_char 0x2C [0x63])"
    "decode_to tri_host (map (\<lambda>k. b64 (bg_c2 tri_group k)) [1]) (split_at_char 0x2C [0x64])"
    by (simp_all add: decode_to_def trims) (simp_all add: tri_host_def tri_group_def)
  have signers: "sum_list [1] = signer_keys (\<lambda>_. 1) [1] 0
      (take (unat (ss_operators_registered sample_snapshot)) (ss_operator_snapshots sample_snapshot))"
    using sample_keys(4) by simp
  show ?thesis
    using aggregate_verifies [OF tri_laws ark _ bitmap decodes tri_hash sample_keys(1-3) signers,
        where bps = 6667 and window = 100 and len = 100 and slot = 50 and gen = 2 and digest = 9]
      sample_conditions by (simp add: addable_def)
qed

end
