(* ===== verification/End_To_End.thy ===== *)
theory End_To_End
  imports Producer_Properties Host_Properties
begin

text \<open>
  The parts together: a story payload made by the producer, staged in its buffer, signed by the
  operators of a snapshot with any history, aggregated by the command line and settled.
\<close>

subsection \<open>The accounts of a certificate\<close>

definition certificate_accounts ::
  "runtime \<Rightarrow> jito \<Rightarrow> config pod_account \<Rightarrow> raw_account \<Rightarrow> snapshot pod_account \<Rightarrow> raw_account \<Rightarrow>
   u16 \<Rightarrow> u64 \<Rightarrow> u64 \<Rightarrow> u64 \<Rightarrow> bool" where
  "certificate_accounts R J cfg ncn snap rc bps window len slot \<longleftrightarrow>
     config_load R NCN_PROGRAM_ID cfg (key_of ncn) False = Inr () \<and>
     jt_ncn_load J (jt_restaking_id J) ncn False = Inr () \<and>
     snapshot_load R NCN_PROGRAM_ID snap (key_of ncn) False = Inr () \<and>
     jt_config_load J (jt_restaking_id J) rc False = Inr () \<and>
     (case config_view R cfg of
        Inr c \<Rightarrow> cf_consensus_threshold_bps c = bps \<and> cf_valid_slots_after_consensus c = window
      | Inl e \<Rightarrow> False) \<and>
     jt_epoch_length J (ac_data rc) = Inr len \<and> clock_slot R = Inr slot \<and>
     snapshot_view R snap = Inr (body snap)"

lemma certificate_accounts_verify:
  "certificate_accounts R J cfg ncn snap rc bps window len slot \<Longrightarrow>
     verify_certificate_readonly R J S NCN_PROGRAM_ID (Some (cfg, ncn, snap, rc)) digest g2 sg bm gen =
     verify_certificate S (body snap) bps window len slot digest g2 sg bm gen"
  by (auto simp: certificate_accounts_def verify_certificate_readonly_def split: sum.splits)

subsection \<open>From the story to the settled root\<close>

text \<open>
  C3: A quorum settles a produced story, and nothing less does.  Take a payload built by the producer
  for the state's next transition, its story staged in order in its buffer; an NCN whose snapshot has
  any history without stray rotations (as in C5), its live entries all among the first
  \<open>operators_registered\<close> ones and no operator twice; and signers none of whose keys or partial sums of
  keys is the identity.  Then the command line aggregates the signatures they made for the payload's
  digest, and a settle with that aggregate writes the producer's root and advances the count by one if
  the stake conditions hold for the bitmap and the aggregate key is not the identity's encoding, and
  is refused otherwise.
\<close>

theorem quorum_settles_story:
  assumes L: "bls_laws S G" "ark_laws S (hs_ark H) G point" and M: "memory_laws M" "realloc_total M"
    and p: "build_payload S i = Inr p" and seed: "story_meta_discriminant S = STORY_META_DISCRIMINANT"
    and state: "gk_state_load R pid state True = Inr ()" "pi_state_pda i = key_of state"
      "pi_ix_discriminator i = SETTLE_DISCRIMINATOR" "pi_transition_index i = gk_transition_count (body state)"
      "Suc (unat (gk_transition_count (body state))) < 2 ^ 64"
    and chunks: "list_all (\<lambda>b. length b \<le> 10240) chunks" "concat chunks = pi_story i"
    and fits: "length (pi_story i) \<le> unat (m :: u32)" "length c \<le> unat m"
    and b: "ac_data b = buffer_of c payer m" "ai_owner (ac_info b) = pid" "key_of b = pi_buffer i"
      "key_of b = fst (find_buffer_program_address R pid (pi_state_pda i) (pi_transition_index i))"
    and accounts: "certificate_accounts R J cfg ncn snap rc bps window len slot"
    and events: "ai_key ea = fst (find_event_authority R pid)" "ai_key sp = pid"
      "\<forall>ix. mm_invoke_signed M ix [ea, sp] [EVENT_AUTHORITY_SEED, [snd (find_event_authority R pid)]] = Inr ()"
    and clean: "guarded_run (snapshot_step S) (\<lambda>op u. rotates_to_point S op \<and> \<not> stray_rotation op u) ops
      (snapshot_initialize s0 n bump sl minimum)"
    and snapshot: "body snap = run_all (snapshot_step S) ops (snapshot_initialize s0 n bump sl minimum)"
      "dense (body snap)"
      "es = take (unat (ss_operators_registered (body snap))) (ss_operator_snapshots (body snap))"
      "entry_keys S G key es"
    and hash: "try_hash_to_curve S (MessageDigest (sc_sha256 S (enc_settlement_payload p))) = Inr (G1Point (bg_e1 G h))"
    and signers: "ks \<noteq> []" "addable G ks" "sum_list ks = signer_keys key bm 0 es"
      "hs_hex_decode H signers_bitmap = Some bm"
      "decode_to H (map (\<lambda>k. b64 (bg_e1 G (h * k))) ks) (split_at_char 0x2C signatures)"
      "decode_to H (map (\<lambda>k. b32 (bg_c1 G k)) ks) (split_at_char 0x2C g1_public_keys)"
      "decode_to H (map (\<lambda>k. b64 (bg_c2 G k)) ks) (split_at_char 0x2C g2_public_keys)"
  shows "\<exists>data r. write_chunks M (ac_info b) (ac_data b) 0 chunks = Inr data \<and>
    aggregate_signatures_and_keys S H signatures g1_public_keys g2_public_keys signers_bitmap = Inr r \<and>
    (let settle = process_settle R M J S pid
           (Some (state, cfg, ncn, snap, rc, ea, sp, Some (b\<lparr>ac_data := data\<rparr>)))
           \<lparr>sa_payload = p, sa_aggregated_g2 = ar_aggregated_g2 r,
             sa_aggregated_signature = ar_aggregated_signature r,
             sa_operators_signature_bitmap = ar_signers_bitmap r, sa_expected_generation = gen\<rparr>
     in if certificate_conditions (body snap) bps window len slot bm gen \<and>
          ss_total_aggregated_g1_pubkey (body snap) \<noteq> 0
        then \<exists>ixs. settle = Inr (set_body ((body state)\<lparr>gk_commitment_root := pi_new_root i,
          gk_transition_count := gk_transition_count (body state) + 1\<rparr>) state, ixs)
        else \<not> is_ok settle)"
proof -
  let ?digest = "sc_sha256 S (enc_settlement_payload p)"
  obtain data where data: "write_chunks M (ac_info b) (ac_data b) 0 chunks = Inr data"
    "verify_story_meta R S pid (pi_state_pda i) (pi_transition_index i) (enc_story_meta
      \<lparr>sm_story_sha256 = sc_sha256 S (pi_story i), sm_buffer = key_of b,
        sm_len = of_nat (length (pi_story i))\<rparr>) (Some (b\<lparr>ac_data := data\<rparr>)) = Inr ()"
    using story_staged [OF M chunks fits b(1,2,4), of S] by blast
  have inv: "apk_inv S G (body snap)" unfolding snapshot(1) by (rule history_apk_inv [OF L(1) clean])
  note keys = snapshot(4) [unfolded snapshot(3)]
  note agg = aggregate_points [OF L signers(1,4-7), unfolded if_P [OF signers(2)]]
  have certificate: "verify_certificate_readonly R J S NCN_PROGRAM_ID (Some (cfg, ncn, snap, rc)) ?digest
      (bg_c2 G (sum_list ks)) (bg_c1 G (h * sum_list ks)) bm gen = Inr () \<longleftrightarrow>
      certificate_conditions (body snap) bps window len slot bm gen \<and> ss_total_aggregated_g1_pubkey (body snap) \<noteq> 0"
    unfolding certificate_accounts_verify [OF accounts]
    using verify_certificate_any_key [OF L(1) hash keys history_aggregate [OF L(1) inv snapshot(2) keys]
        signers(3) [unfolded snapshot(3)] bls_decompress2 [OF L(1), of "sum_list ks"]
        bls_decompress [OF L(1), of "h * sum_list ks"]]
      combined_equation_honest [OF L(1) refl]
    by simp
  have settle: "settle_conditions R J S pid (state, cfg, ncn, snap, rc, ea, sp, Some (b\<lparr>ac_data := data\<rparr>))
      \<lparr>sa_payload = p, sa_aggregated_g2 = bg_c2 G (sum_list ks),
        sa_aggregated_signature = bg_c1 G (h * sum_list ks), sa_operators_signature_bitmap = bm,
        sa_expected_generation = gen\<rparr> root \<longleftrightarrow>
      (certificate_conditions (body snap) bps window len slot bm gen \<and>
       ss_total_aggregated_g1_pubkey (body snap) \<noteq> 0) \<and> root = pi_new_root i" for root
    using p data(2) b(3) seed state events certificate build_payload_wf [OF p]
    by (auto simp: settle_conditions_def build_payload_Inr event_ok_def MAX_EVENT_CPI_DATA_LEN_def
        stores_def events_def)
  show ?thesis
    using data(1) agg settle events(3)
    by (auto simp: Let_def is_ok_iff settle_Inr settled_def list_all_iff)
qed

subsection \<open>A certificate of another NCN\<close>

text \<open>
  C9: A settle is not bound to the NCN of the state.  Take any NCN, with its configuration, restaking
  accounts and a snapshot on which a bitmap of its operators reaches the quorum, and any state account
  of the settlement program, whatever NCN its \<open>gk_ncn\<close> names.  The secrets of those operators are
  enough: their certificate for the payload that stores a root of their choice settles the state.
\<close>

theorem settle_accepts_foreign_ncn:
  assumes L: "bls_laws S G"
    and accounts: "certificate_accounts R J cfg ncn snap rc bps window len slot"
    and quorum: "certificate_conditions (body snap) bps window len slot bm gen"
      "ss_total_aggregated_g1_pubkey (body snap) \<noteq> 0"
    and es: "es = take (unat (ss_operators_registered (body snap))) (ss_operator_snapshots (body snap))"
    and keys: "entry_keys S G key es"
      "sc_g1_decompress S (ss_total_aggregated_g1_pubkey (body snap)) = Some (bg_e1 G (live_keys key es))"
    and state: "gk_state_load R pid state True = Inr ()" "Suc (unat (gk_transition_count (body state))) < 2 ^ 64"
    and payload: "p = \<lparr>sp_transition_index = gk_transition_count (body state), sp_state_pda = key_of state,
      sp_ix_discriminator = SETTLE_DISCRIMINATOR, sp_updates = [Store root]\<rparr>"
    and hash: "try_hash_to_curve S (MessageDigest (sc_sha256 S (enc_settlement_payload p))) = Inr (G1Point (bg_e1 G h))"
    and events: "ai_key ea = fst (find_event_authority R pid)" "ai_key sp = pid"
  shows "process_settle R M J S pid (Some (state, cfg, ncn, snap, rc, ea, sp, None))
      \<lparr>sa_payload = p, sa_aggregated_g2 = bg_c2 G (signer_keys key bm 0 es),
        sa_aggregated_signature = bg_c1 G (h * signer_keys key bm 0 es),
        sa_operators_signature_bitmap = bm, sa_expected_generation = gen\<rparr> =
    Inr (set_body ((body state)\<lparr>gk_commitment_root := root,
      gk_transition_count := gk_transition_count (body state) + 1\<rparr>) state, [])"
proof -
  have "verify_certificate_readonly R J S NCN_PROGRAM_ID (Some (cfg, ncn, snap, rc))
      (sc_sha256 S (enc_settlement_payload p)) (bg_c2 G (signer_keys key bm 0 es))
      (bg_c1 G (h * signer_keys key bm 0 es)) bm gen = Inr ()"
    unfolding certificate_accounts_verify [OF accounts]
    using verify_certificate_iff [OF L hash keys [unfolded es] quorum(2) refl bls_decompress [OF L]] quorum(1)
    by (simp add: es)
  moreover have "wf_settlement_payload p"
    by (simp add: payload wf_settlement_payload_def wf_vec_def wf_state_update_def)
  ultimately show ?thesis
    unfolding settle_Inr using state events
    by (intro exI [of _ root]) (simp add: settle_conditions_def Let_def payload settled_def event_ixs_def)
qed

text \<open>
  A runtime whose addresses distinguish the NCNs: the sum of the seeds, read as numbers, and of the
  program's id.
\<close>

definition seed_address :: "bytes list \<Rightarrow> pubkey" where
  "seed_address seeds = sum_list (map be_word seeds)"

definition seed_runtime :: runtime where
  "seed_runtime = sample_runtime\<lparr>rt_find_program_address := \<lambda>seeds p. (seed_address seeds + p, 255),
     rt_create_program_address := \<lambda>seeds p. Some (seed_address (butlast seeds) + p)\<rparr>"

definition victim_state :: "gk_state pod_account" where
  "victim_state = \<lparr>ac_info = sample_info (fst (gk_state_find seed_runtime 43 2001 5)) 43,
     ac_data = \<lparr>pd_len = GK_STATE_SIZE, pd_first = GK_STATE_DISCRIMINATOR,
       pd_body = gk_state_new 2001 5 6 7 255\<rparr>\<rparr>"

definition own_config :: "config pod_account" where
  "own_config = ncn_pod (fst (config_find seed_runtime NCN_PROGRAM_ID 1)) CONFIG_SIZE 1 settle_config"

definition own_snapshot :: "snapshot pod_account" where
  "own_snapshot = ncn_pod (fst (snapshot_find seed_runtime NCN_PROGRAM_ID 1)) SNAPSHOT_SIZE
     (discriminator D_Snapshot) sample_snapshot"

lemma seed_addresses:
  "fst (config_find seed_runtime p n) = be_word CONFIG_SEED + n + p"
  "fst (snapshot_find seed_runtime p n) = be_word SNAPSHOT_SEED + n + p"
  "fst (gk_state_find seed_runtime p n a) = be_word GK_STATE_SEED + (n + a) + p"
  "gk_state_pda seed_runtime s p = Some (be_word GK_STATE_SEED + (gk_ncn s + gk_app_id s) + p)"
  by (simp_all add: config_find_def snapshot_find_def gk_state_find_def gk_state_pda_def seed_runtime_def
      seed_address_def config_seeds_def snapshot_seeds_def gk_state_seeds_def be_word_be_bytes)

lemma victim_loads: "gk_state_load seed_runtime 43 victim_state True = Inr ()"
proof -
  have "rt_try_from_slice seed_runtime = rt_try_from_slice sample_runtime" by (simp add: seed_runtime_def)
  then show ?thesis
    unfolding gk_state_load_Inr
    by (simp add: victim_state_def seed_addresses pod_first_def gk_state_view_def pod_view_def GK_STATE_SIZE_def
        gk_state_new_def)
qed

lemma own_accounts:
  "certificate_accounts seed_runtime sample_jito own_config (sample_raw 1 1001) own_snapshot (sample_raw 6 1001)
     6667 100 100 50"
proof -
  have size: "SNAPSHOT_SIZE \<noteq> 0" "CONFIG_SIZE \<noteq> 0" by (simp_all add: SNAPSHOT_SIZE_def CONFIG_SIZE_def)
  have slice: "rt_try_from_slice seed_runtime = rt_try_from_slice sample_runtime"
    "rt_clock seed_runtime = rt_clock sample_runtime"
    by (simp_all add: seed_runtime_def)
  then have view: "pod_view seed_runtime d m a = pod_view sample_runtime d m a" for d m and a :: "'b pod_account"
    by (simp add: pod_view_def)
  have c: "cf_consensus_threshold_bps settle_config = 6667" "cf_valid_slots_after_consensus settle_config = 100"
    by (simp_all add: settle_config_def config_new_def DEFAULT_CONSENSUS_THRESHOLD_BPS_def)
  show ?thesis
    using size
    by (simp add: certificate_accounts_def own_config_def own_snapshot_def config_load_def snapshot_load_def
        check_load_def config_view_def snapshot_view_def view slice c sample_loads)
qed

theorem settle_accepts_foreign_ncn_witness:
  "gk_ncn (body victim_state) \<noteq> key_of (sample_raw 1 1001) \<and>
   key_of own_config \<noteq> fst (config_find seed_runtime NCN_PROGRAM_ID (gk_ncn (body victim_state))) \<and>
   key_of own_snapshot \<noteq> fst (snapshot_find seed_runtime NCN_PROGRAM_ID (gk_ncn (body victim_state))) \<and>
   (\<exists>args. process_settle seed_runtime sample_memory sample_jito tri_syscalls 43
      (Some (victim_state, own_config, sample_raw 1 1001, own_snapshot, sample_raw 6 1001,
        sample_info (fst (find_event_authority seed_runtime 43)) 0, sample_info 43 0, None)) args =
    Inr (set_body ((body victim_state)\<lparr>gk_commitment_root := 99, gk_transition_count := 1\<rparr>) victim_state, []))"
proof -
  have snap: "body own_snapshot = sample_snapshot" by (simp add: own_snapshot_def)
  have ncn: "gk_ncn (body victim_state) = 2001" "gk_transition_count (body victim_state) = 0"
    by (simp_all add: victim_state_def gk_state_new_def)
  have "\<exists>args. process_settle seed_runtime sample_memory sample_jito tri_syscalls 43
      (Some (victim_state, own_config, sample_raw 1 1001, own_snapshot, sample_raw 6 1001,
        sample_info (fst (find_event_authority seed_runtime 43)) 0, sample_info 43 0, None)) args =
    Inr (set_body ((body victim_state)\<lparr>gk_commitment_root := 99,
      gk_transition_count := gk_transition_count (body victim_state) + 1\<rparr>) victim_state, [])"
    by (rule exI, rule settle_accepts_foreign_ncn [OF tri_laws own_accounts _ _ refl _ _ victim_loads _ refl tri_hash,
        where bm = "[1]" and gen = 2 and key = "\<lambda>_. 1"])
      (use sample_conditions sample_keys(1-3) in \<open>simp_all add: snap ncn\<close>)
  then show ?thesis
    by (simp add: ncn seed_addresses own_config_def own_snapshot_def)
qed

subsection \<open>A concrete run\<close>

text \<open>The group of order three with a hash that also gives the seed of the story event its known prefix.\<close>

definition story_syscalls :: syscalls where
  "story_syscalls = tri_syscalls\<lparr>sc_sha256 := \<lambda>bs.
     if bs = STORY_META_EVENT_SEED then push_bit 192 (ucast STORY_META_DISCRIMINANT) else 1\<rparr>"

lemma story_laws: "bls_laws story_syscalls tri_group" "ark_laws story_syscalls tri_ark tri_group (\<lambda>k. k mod 3)"
  using tri_laws tri_ark_laws by (simp_all add: story_syscalls_def bls_laws_def ark_laws_def)

lemma story_seed: "story_meta_discriminant story_syscalls = STORY_META_DISCRIMINANT"
  by (simp add: story_meta_discriminant_def story_syscalls_def hash_prefix_pinned)

lemma story_hash: "try_hash_to_curve story_syscalls d = Inr (G1Point (bg_e1 tri_group 1))"
proof -
  have "length (hash_preimage d 0) \<noteq> length STORY_META_EVENT_SEED"
    by (simp add: hash_preimage_def STORY_META_EVENT_SEED_def ascii_def)
  then have "hash_preimage d 0 \<noteq> STORY_META_EVENT_SEED" by metis
  then have "hash_attempt story_syscalls d 0 = Some (G1Point (tri_e1 1))"
    by (simp add: hash_attempt_def story_syscalls_def tri_syscalls_def x_candidate_def
        NORMALIZE_MODULUS_value MODULUS_value)
  then have "find_map (hash_attempt story_syscalls d) [0..<255] = Some (G1Point (tri_e1 1))"
    unfolding find_map_Some_iff by (intro exI [of _ 0]) simp
  then show ?thesis by (simp add: try_hash_to_curve_def tri_group_def)
qed

text \<open>The history of theory \<open>Snapshot_History\<close> with a delegation of 700 to its operator.\<close>

definition staked_snapshot :: snapshot where
  "staked_snapshot = history_1\<lparr>ss_operator_snapshots := staked_entry # replicate 255 operator_snapshot_default\<rparr>"

lemma staked_delegation:
  "os_snapshot_delegation history_entry 50 0 (sw_new 700) (sw_new 700) (sw_new 100) = Inr staked_entry"
proof -
  have "history_entry\<lparr>os_ncn_operator_index := 0\<rparr> = history_entry" "staked_entry\<lparr>os_ncn_operator_index := 0\<rparr> = staked_entry"
    by (simp_all add: history_entry_def staked_entry_def)
  with staked_delegation_at [of 0] show ?thesis by simp
qed

lemma staked_step:
  "snapshot_step story_syscalls (SO_delegate 11 50 0 (sw_new 700) (sw_new 700)) history_1 = Inr staked_snapshot"
proof -
  have minimum: "ss_minimum_stake history_1 = sw_new 100"
    by (simp add: history_1_def history_0_def snapshot_initialize_def)
  have index: "os_ncn_operator_index staked_entry = 0" by (simp add: staked_entry_def history_entry_def)
  show ?thesis
    by (simp add: snapshot_step_def snapshot_delegate_def history_find minimum staked_delegation index)
      (simp add: update_operator_snapshot_def set_last_snapshot_slot_def staked_snapshot_def history_1_def)
qed

lemma story_step: "snapshot_step story_syscalls (SO_register q t a i j g) = snapshot_step tri_syscalls (SO_register q t a i j g)"
proof -
  have "g1_decompress story_syscalls = g1_decompress tri_syscalls" "g1_compress story_syscalls = g1_compress tri_syscalls"
    "g1_checked_add story_syscalls = g1_checked_add tri_syscalls"
    "sc_g1_decompress story_syscalls = sc_g1_decompress tri_syscalls"
    by (simp_all add: fun_eq_iff g1_decompress_def g1_compress_def g1_checked_add_def story_syscalls_def)
  then show ?thesis
    by (intro ext) (simp add: snapshot_step_def snapshot_register_def register_operator_g1_pubkey_def
        add_g1_pubkey_to_total_agg_def cong: if_cong)
qed

lemma staked_run:
  "run_all (snapshot_step story_syscalls) [SO_register 11 50 True 0 3 1, SO_delegate 11 50 0 (sw_new 700) (sw_new 700)]
     history_0 = staked_snapshot"
  by (simp add: story_step history_1 staked_step)

lemma staked_clean:
  "clean_history story_syscalls [SO_register 11 50 True 0 3 1, SO_delegate 11 50 0 (sw_new 700) (sw_new 700)] history_0"
  by (simp add: story_step history_1 staked_step rotates_to_point_def stray_rotation_def)

lemma staked_fields:
  "ss_operators_registered staked_snapshot = 1" "ss_generation staked_snapshot = 1"
  "ss_last_snapshot_slot staked_snapshot = 50" "ss_total_aggregated_g1_pubkey staked_snapshot = 1"
  "take (Suc 0) (ss_operator_snapshots staked_snapshot) = [staked_entry]"
  "ss_operator_snapshots staked_snapshot ! 0 = staked_entry"
  by (simp_all add: staked_snapshot_def history_1_def)

lemma staked_entry_facts:
  "entry_live staked_entry" "os_operator staked_entry = 11" "os_g1_pubkey staked_entry = 1"
  "entry_epoch 100 staked_entry = 0" "stake_at 0 100 staked_entry = 700" "min_stake_at 0 100 staked_entry"
  by (simp_all add: staked_entry_def history_entry_def operator_snapshot_default_def entry_epoch_def
      stake_at_def min_stake_at_def sw_new_def)

lemma staked_dense: "dense staked_snapshot"
proof -
  have "\<not> entry_live operator_snapshot_default" by (simp add: operator_snapshot_default_def)
  then show ?thesis
    by (auto simp: dense_def keyed_def staked_snapshot_def history_1_def nth_Cons MAX_OPERATORS_def
        split: nat.splits)
qed

lemma staked_conditions: "certificate_conditions staked_snapshot 6667 100 100 50 [1] 1"
  by (simp add: certificate_conditions_def staked_fields Let_def staked_entry_facts sample_bits div_ceil_def
      less_Suc_eq)

definition staked_pod :: "snapshot pod_account" where
  "staked_pod = ncn_pod 40 SNAPSHOT_SIZE (discriminator D_Snapshot) staked_snapshot"

lemma staked_accounts:
  "certificate_accounts sample_runtime sample_jito (ncn_pod 38 CONFIG_SIZE 1 settle_config)
     (sample_raw 1 1001) staked_pod (sample_raw 6 1001) 6667 100 100 50"
proof -
  have size: "SNAPSHOT_SIZE \<noteq> 0" "CONFIG_SIZE \<noteq> 0" by (simp_all add: SNAPSHOT_SIZE_def CONFIG_SIZE_def)
  have view: "config_view sample_runtime (ncn_pod 38 CONFIG_SIZE 1 settle_config) = Inr settle_config"
    using size by (simp add: config_view_def)
  have c: "cf_consensus_threshold_bps settle_config = 6667" "cf_valid_slots_after_consensus settle_config = 100"
    by (simp_all add: settle_config_def config_new_def DEFAULT_CONSENSUS_THRESHOLD_BPS_def)
  show ?thesis
    using size by (simp add: certificate_accounts_def staked_pod_def sample_loads view c snapshot_view_def)
qed

definition story_state :: "gk_state pod_account" where
  "story_state = \<lparr>ac_info = sample_info 72 43,
     ac_data = \<lparr>pd_len = GK_STATE_SIZE, pd_first = GK_STATE_DISCRIMINATOR,
       pd_body = gk_state_new 1 5 6 7 255\<rparr>\<rparr>"

lemma story_state_loads: "gk_state_load sample_runtime 43 story_state True = Inr ()"
  unfolding gk_state_load_Inr
  by (simp add: story_state_def pod_first_def gk_state_view_def pod_view_def gk_state_pda_def GK_STATE_SIZE_def)

theorem quorum_settles_story_witness:
  "\<exists>p data r ixs. build_payload story_syscalls sample_story = Inr p \<and>
    write_chunks sample_memory (sample_info 49 43) (buffer_of [] 6 3) 0 [[1, 2], [3]] = Inr data \<and>
    aggregate_signatures_and_keys story_syscalls tri_host [0x62] [0x63] [0x64] [0x61] = Inr r \<and>
    process_settle sample_runtime sample_memory sample_jito story_syscalls 43
      (Some (story_state, ncn_pod 38 CONFIG_SIZE 1 settle_config, sample_raw 1 1001, staked_pod,
        sample_raw 6 1001, sample_info 18 0, sample_info 43 0, Some (sample_buffer 43 data)))
      \<lparr>sa_payload = p, sa_aggregated_g2 = ar_aggregated_g2 r, sa_aggregated_signature = ar_aggregated_signature r,
        sa_operators_signature_bitmap = ar_signers_bitmap r, sa_expected_generation = 1\<rparr> =
      Inr (set_body ((body story_state)\<lparr>gk_commitment_root := 99, gk_transition_count := 1\<rparr>) story_state, ixs)"
proof -
  obtain p where p: "build_payload story_syscalls sample_story = Inr p"
    by (auto simp: build_payload_Inr sample_story_def)
  have ark: "ark_laws story_syscalls (hs_ark tri_host) tri_group (\<lambda>k. k mod 3)"
    using story_laws(2) by (simp add: tri_host_def)
  have trims: "trim [0x62] = [0x62]" "trim [0x63] = [0x63]" "trim [0x64] = [0x64]"
    by (simp_all add: printable_def)
  have bitmap: "hs_hex_decode tri_host [0x61] = Some [1]" by (simp add: tri_host_def)
  have decodes: "decode_to tri_host (map (\<lambda>k. b64 (bg_e1 tri_group (1 * k))) [1]) (split_at_char 0x2C [0x62])"
    "decode_to tri_host (map (\<lambda>k. b32 (bg_c1 tri_group k)) [1]) (split_at_char 0x2C [0x63])"
    "decode_to tri_host (map (\<lambda>k. b64 (bg_c2 tri_group k)) [1]) (split_at_char 0x2C [0x64])"
    by (simp_all add: decode_to_def trims) (simp_all add: tri_host_def tri_group_def)
  have snap: "body staked_pod = staked_snapshot" by (simp add: staked_pod_def)
  have es: "[staked_entry] = take (unat (ss_operators_registered (body staked_pod))) (ss_operator_snapshots (body staked_pod))"
    by (simp add: snap staked_fields)
  have keys: "entry_keys story_syscalls tri_group (\<lambda>_. 1) [staked_entry]"
    by (simp add: entry_keys_def staked_entry_facts) (simp add: story_syscalls_def sample_point)
  have signers: "sum_list [1] = signer_keys (\<lambda>_. 1) [1] 0 [staked_entry]"
    by (simp add: signer_keys_def staked_entry_facts sample_bits)
  have state: "pi_state_pda sample_story = key_of story_state" "pi_ix_discriminator sample_story = SETTLE_DISCRIMINATOR"
    "pi_transition_index sample_story = gk_transition_count (body story_state)"
    "gk_transition_count (body story_state) = 0" "pi_new_root sample_story = 99"
    by (simp_all add: sample_story_def story_state_def gk_state_new_def)
  have chunks: "list_all (\<lambda>b. length b \<le> 10240) [[1, 2], [3 :: u8]]" "concat [[1, 2], [3]] = pi_story sample_story"
    "length (pi_story sample_story) \<le> unat (3 :: u32)" "length ([] :: bytes) \<le> unat (3 :: u32)"
    by (simp_all add: sample_story_def)
  have buffer: "ac_data (sample_buffer 43 (buffer_of [] 6 3)) = buffer_of [] 6 3"
    "ai_owner (ac_info (sample_buffer 43 (buffer_of [] 6 3))) = 43"
    "key_of (sample_buffer 43 (buffer_of [] 6 3)) = pi_buffer sample_story"
    "key_of (sample_buffer 43 (buffer_of [] 6 3)) = fst (find_buffer_program_address sample_runtime 43
       (pi_state_pda sample_story) (pi_transition_index sample_story))"
    by (simp_all add: sample_story_def)
  have events: "ai_key (sample_info 18 0) = fst (find_event_authority sample_runtime 43)" "ai_key (sample_info 43 0) = 43"
    "\<forall>ix. mm_invoke_signed sample_memory ix [sample_info 18 0, sample_info 43 0]
       [EVENT_AUTHORITY_SEED, [snd (find_event_authority sample_runtime 43)]] = Inr ()"
    by (simp_all add: find_event_authority_def sample_memory_def)
  have reach: "body staked_pod = run_all (snapshot_step story_syscalls)
      [SO_register 11 50 True 0 3 1, SO_delegate 11 50 0 (sw_new 700) (sw_new 700)] history_0" "dense (body staked_pod)"
    unfolding staked_run snap by (rule refl, rule staked_dense)
  have sums: "[1 :: nat] \<noteq> []" "addable tri_group [1]" by (simp_all add: addable_def)
  have "Suc (unat (gk_transition_count (body story_state))) < 2 ^ 64" by (simp add: state)
  from quorum_settles_story [OF story_laws(1) ark sample_memory_laws p story_seed story_state_loads state(1-3) this
      chunks buffer staked_accounts events staked_clean [unfolded history_0_def] reach [unfolded history_0_def]
      es keys story_hash sums signers bitmap decodes, where gen = 1]
  show ?thesis
    using p staked_conditions by (auto simp: Let_def snap state sample_buffer_def staked_fields)
qed

end
