(* ===== verification/Producer_Command.thy ===== *)
theory Producer_Command
  imports Producer_Properties
begin

text \<open>
  The command around the producer (\<open>llm_payload_producer/src/main.rs\<close>): it parses its arguments, makes
  the fixture, verifies it and writes it.  The files are a map from paths to contents; a file that
  cannot be written stays as it is.  The \<open>hex\<close> decoder and the JSON form of a fixture are parameters.
\<close>

subsection \<open>Arguments\<close>

record producer_args =
  pa_mode :: rust_string
  pa_prompt :: rust_string
  pa_story_file :: "rust_string option"
  pa_buffer :: "rust_string option"
  pa_prompt_ids :: "rust_string option"
  pa_answer_ids :: "rust_string option"
  pa_answer_text :: "rust_string option"
  pa_manifest :: "rust_string option"
  pa_model :: u8
  pa_new_root :: rust_string
  pa_transition_index :: u64
  pa_state_pda :: rust_string
  pa_ix_discriminator :: rust_string
  pa_sim_command :: rust_string
  pa_solidity_sdk_commit :: rust_string
  pa_out :: rust_string

datatype command_error =
    PC_MissingArgument
  | PC_ReadFile
  | PC_InvalidHex
  | PC_HexLength
  | PC_BadU32
  | PC_NoAnswerIds
  | PC_TooManyAnswerIds
  | PC_Make producer_error
  | PC_SelfCheck producer_error
  | PC_Json
  | PC_WriteFile
  | PC_UnknownMode

type_synonym file_map = "rust_string \<rightharpoonup> bytes"

record producer_host =
  ph_hex_decode :: "rust_string \<Rightarrow> bytes option"
  ph_json :: "fixture \<Rightarrow> rust_string option"
  ph_qwen_json :: "qwen_fixture \<Rightarrow> rust_string option"
  ph_writable :: "rust_string \<Rightarrow> bool"

definition parse_hex :: "producer_host \<Rightarrow> nat \<Rightarrow> rust_string \<Rightarrow> command_error + bytes" where
  "parse_hex P n value =
     try_bind (ok_or PC_InvalidHex (ph_hex_decode P (trim_start_matches (ascii ''0x'') value))) (\<lambda>raw.
     if length raw \<noteq> n then Inl PC_HexLength else Inr raw)"

text \<open>\<open>collect\<close> of results: the first error, or all values.\<close>

fun parse_u32s :: "rust_string list \<Rightarrow> command_error + u32 list" where
  "parse_u32s [] = Inr []"
| "parse_u32s (s # ss) =
     try_bind (ok_or PC_BadU32 (parse_unsigned (2 ^ 32) s)) (\<lambda>n.
     try_bind (parse_u32s ss) (\<lambda>ns. Inr (of_nat n # ns)))"

definition parse_u32_list :: "rust_string \<Rightarrow> command_error + u32 list" where
  "parse_u32_list value = parse_u32s (filter (\<lambda>s. s \<noteq> []) (map trim (split_at_char 0x2C value)))"

definition required :: "'a option \<Rightarrow> command_error + 'a" where
  "required arg = ok_or PC_MissingArgument arg"

subsection \<open>Story mode\<close>

definition story_inputs :: "producer_host \<Rightarrow> producer_args \<Rightarrow> file_map \<Rightarrow> command_error + producer_inputs" where
  "story_inputs P args files =
     try_bind (required (pa_story_file args)) (\<lambda>story_file.
     try_bind (required (pa_buffer args)) (\<lambda>buffer.
     try_bind (ok_or PC_ReadFile (files story_file)) (\<lambda>story.
     try_bind (parse_hex P 32 (pa_new_root args)) (\<lambda>new_root.
     try_bind (parse_hex P 32 (pa_state_pda args)) (\<lambda>state_pda.
     try_bind (parse_hex P 8 (pa_ix_discriminator args)) (\<lambda>ix_discriminator.
     try_bind (parse_hex P 32 buffer) (\<lambda>buffer.
     Inr \<lparr>pi_prompt = pa_prompt args, pi_story = story, pi_new_root = be_word new_root,
       pi_transition_index = pa_transition_index args, pi_state_pda = be_word state_pda,
       pi_ix_discriminator = be_word ix_discriminator, pi_buffer = be_word buffer\<rparr>)))))))"

text \<open>The output file: the JSON form and a newline.\<close>

definition write_json ::
  "producer_host \<Rightarrow> rust_string \<Rightarrow> rust_string option \<Rightarrow> file_map \<Rightarrow> command_error + file_map" where
  "write_json P out json files =
     try_bind (ok_or PC_Json json) (\<lambda>text.
     if ph_writable P out then Inr (files(out \<mapsto> text @ [0x0A])) else Inl PC_WriteFile)"

definition story_source :: "producer_args \<Rightarrow> fixture_source" where
  "story_source args = \<lparr>fs_sim_command = pa_sim_command args,
     fs_solidity_sdk_commit = pa_solidity_sdk_commit args\<rparr>"

definition run_story ::
  "syscalls \<Rightarrow> text_codecs \<Rightarrow> producer_host \<Rightarrow> producer_args \<Rightarrow> file_map \<Rightarrow> command_error + file_map" where
  "run_story S T P args files =
     try_bind (story_inputs P args files) (\<lambda>inputs.
     try_bind (map_err PC_Make (make_fixture S T inputs (story_source args))) (\<lambda>fixture.
     try_bind (map_err PC_SelfCheck (verify_fixture S T fixture)) (\<lambda>verified.
     write_json P (pa_out args) (ph_json P fixture) files)))"

subsection \<open>Token-id mode\<close>

definition qwen_command_inputs :: "producer_host \<Rightarrow> producer_args \<Rightarrow> command_error + qwen_inputs \<times> rust_string" where
  "qwen_command_inputs P args =
     try_bind (try_bind (required (pa_prompt_ids args)) parse_u32_list) (\<lambda>prompt_ids.
     try_bind (try_bind (required (pa_answer_ids args)) parse_u32_list) (\<lambda>answer_ids.
     try_bind (required (pa_answer_text args)) (\<lambda>answer_text.
     try_bind (try_bind (required (pa_manifest args)) (parse_hex P 32)) (\<lambda>manifest.
     if answer_ids = [] then Inl PC_NoAnswerIds
     else if length answer_ids > 24 then Inl PC_TooManyAnswerIds
     else
       try_bind (parse_hex P 32 (pa_new_root args)) (\<lambda>new_root.
       try_bind (parse_hex P 32 (pa_state_pda args)) (\<lambda>state_pda.
       try_bind (parse_hex P 8 (pa_ix_discriminator args)) (\<lambda>ix_discriminator.
       Inr (\<lparr>qi_prompt = pa_prompt args, qi_model = pa_model args, qi_prompt_ids = prompt_ids,
         qi_answer_ids = answer_ids, qi_manifest = be_word manifest, qi_new_root = be_word new_root,
         qi_transition_index = pa_transition_index args, qi_state_pda = be_word state_pda,
         qi_ix_discriminator = be_word ix_discriminator\<rparr>, answer_text))))))))"

definition qwen_source :: "producer_args \<Rightarrow> qwen_fixture_source" where
  "qwen_source args = \<lparr>qs_cmd = pa_sim_command args, qs_sdk_commit = pa_solidity_sdk_commit args\<rparr>"

definition run_qwen ::
  "syscalls \<Rightarrow> text_codecs \<Rightarrow> producer_host \<Rightarrow> producer_args \<Rightarrow> file_map \<Rightarrow> command_error + file_map" where
  "run_qwen S T P args files =
     try_bind (qwen_command_inputs P args) (\<lambda>(inputs, answer_text).
     try_bind (map_err PC_Make (make_qwen_fixture S T inputs answer_text (qwen_source args))) (\<lambda>fixture.
     try_bind (map_err PC_SelfCheck (verify_qwen_fixture S T fixture)) (\<lambda>verified.
     write_json P (pa_out args) (ph_qwen_json P fixture) files)))"

definition run_producer ::
  "syscalls \<Rightarrow> text_codecs \<Rightarrow> producer_host \<Rightarrow> producer_args \<Rightarrow> file_map \<Rightarrow> command_error + file_map" where
  "run_producer S T P args files =
     (if pa_mode args = ascii ''story'' then run_story S T P args files
      else if pa_mode args = ascii ''qwen'' then run_qwen S T P args files
      else Inl PC_UnknownMode)"

subsection \<open>What is written\<close>

lemma write_json_Inr:
  "write_json P path json files = Inr files' \<longleftrightarrow>
     (\<exists>text. json = Some text \<and> ph_writable P path \<and> files' = files(path \<mapsto> text @ [0x0A]))"
  by (cases json) (auto simp: write_json_def)

lemma made_fixture_verifies:
  assumes "text_laws T" "make_fixture S T i src = Inr f"
  shows "\<exists>v. verify_fixture S T f = Inr v \<and> build_payload S i = Inr (vf_payload v)"
  using fixture_roundtrip [OF assms(1), where S = S and i = i and src = src] by (auto simp: assms(2))

lemma made_qwen_fixture_verifies:
  assumes "text_laws T" "make_qwen_fixture S T i answer_text src = Inr f"
  shows "\<exists>v. verify_qwen_fixture S T f = Inr v \<and> build_qwen_payload S i = Inr (vq_payload v)"
  using qwen_fixture_bound [OF assms, of f] by fastforce

lemma run_story_Inr:
  assumes "text_laws T"
  shows "run_story S T P args files = Inr files' \<longleftrightarrow>
    (\<exists>i f. story_inputs P args files = Inr i \<and> make_fixture S T i (story_source args) = Inr f \<and>
       write_json P (pa_out args) (ph_json P f) files = Inr files')"
  using made_fixture_verifies [OF assms] by (auto simp: run_story_def) fastforce

lemma run_qwen_Inr:
  assumes "text_laws T"
  shows "run_qwen S T P args files = Inr files' \<longleftrightarrow>
    (\<exists>i answer_text f. qwen_command_inputs P args = Inr (i, answer_text) \<and>
       make_qwen_fixture S T i answer_text (qwen_source args) = Inr f \<and>
       write_json P (pa_out args) (ph_qwen_json P f) files = Inr files')"
  using made_qwen_fixture_verifies [OF assms] by (auto simp: run_qwen_def) fastforce

lemma map_err_eq_Inl: "map_err g m = Inl e \<longleftrightarrow> (\<exists>e'. m = Inl e' \<and> e = g e')"
  by (cases m) auto

lemma no_self_check_error:
  assumes "text_laws T"
  shows "run_producer S T P args files \<noteq> Inl (PC_SelfCheck e)"
proof -
  have required: "required arg \<noteq> Inl (PC_SelfCheck e)" for arg :: "'b option"
    by (cases arg) (simp_all add: required_def ok_or_def)
  have hex: "parse_hex P n v \<noteq> Inl (PC_SelfCheck e)" for n v
    by (auto simp: parse_hex_def try_bind_eq_Inl)
  have "parse_u32s ss \<noteq> Inl (PC_SelfCheck e)" for ss
    by (induction ss) (auto simp: try_bind_eq_Inl)
  then have ids: "parse_u32_list v \<noteq> Inl (PC_SelfCheck e)" for v
    by (simp add: parse_u32_list_def)
  have written: "write_json P path json files \<noteq> Inl (PC_SelfCheck e)" for path json
    by (auto simp: write_json_def try_bind_eq_Inl)
  have "story_inputs P args files \<noteq> Inl (PC_SelfCheck e)"
    using required hex by (auto simp: story_inputs_def try_bind_eq_Inl)
  then have story: "run_story S T P args files \<noteq> Inl (PC_SelfCheck e)"
    using written made_fixture_verifies [OF assms]
    by (force simp: run_story_def try_bind_eq_Inl map_err_eq_Inl)
  have "qwen_command_inputs P args \<noteq> Inl (PC_SelfCheck e)"
    using required hex ids by (auto simp: qwen_command_inputs_def try_bind_eq_Inl)
  then have "run_qwen S T P args files \<noteq> Inl (PC_SelfCheck e)"
    using written made_qwen_fixture_verifies [OF assms]
    by (force simp: run_qwen_def try_bind_eq_Inl map_err_eq_Inl)
  with story show ?thesis by (simp add: run_producer_def)
qed

text \<open>
  C20: The producer command writes one file, the output, and only a fixture that verifies; and it
  writes whenever its arguments are readable, the fixture can be made and the file can be written: the
  self-check before writing never stops it.  In each mode the payload of the written fixture is the
  one built from the arguments.
\<close>

theorem producer_writes_verified:
  assumes T: "text_laws T"
  shows "(run_producer S T P args files = Inr files' \<longleftrightarrow>
      ph_writable P (pa_out args) \<and>
      (\<exists>json. files' = files(pa_out args \<mapsto> json @ [0x0A]) \<and>
        (pa_mode args = ascii ''story'' \<and>
           (\<exists>i f v. story_inputs P args files = Inr i \<and> make_fixture S T i (story_source args) = Inr f \<and>
              verify_fixture S T f = Inr v \<and> build_payload S i = Inr (vf_payload v) \<and> ph_json P f = Some json) \<or>
         pa_mode args = ascii ''qwen'' \<and>
           (\<exists>i answer_text f v. qwen_command_inputs P args = Inr (i, answer_text) \<and>
              make_qwen_fixture S T i answer_text (qwen_source args) = Inr f \<and>
              verify_qwen_fixture S T f = Inr v \<and> build_qwen_payload S i = Inr (vq_payload v) \<and>
              ph_qwen_json P f = Some json)))) \<and>
    run_producer S T P args files \<noteq> Inl (PC_SelfCheck e)" (is "(_ \<longleftrightarrow> ?written) \<and> _")
proof -
  have modes: "ascii ''story'' \<noteq> ascii ''qwen''" by (simp add: ascii_def)
  note runs = run_producer_def run_story_Inr [OF T] run_qwen_Inr [OF T] write_json_Inr
  consider (story) "pa_mode args = ascii ''story''" | (qwen) "pa_mode args = ascii ''qwen''"
    | (unknown) "pa_mode args \<noteq> ascii ''story''" "pa_mode args \<noteq> ascii ''qwen''" by blast
  then show ?thesis
  proof (cases; intro conjI no_self_check_error [OF T])
    assume "pa_mode args = ascii ''story''"
    with modes show "run_producer S T P args files = Inr files' \<longleftrightarrow> ?written"
      using made_fixture_verifies [OF T] by (simp add: runs) blast
  next
    assume "pa_mode args = ascii ''qwen''"
    with modes show "run_producer S T P args files = Inr files' \<longleftrightarrow> ?written"
      using made_qwen_fixture_verifies [OF T] by (simp add: runs) blast
  qed (simp add: run_producer_def)
qed

text \<open>
  The updates of a token-id payload pass the settlement program's check exactly if the event they
  carry inline is small enough.
\<close>

lemma qwen_updates_checked:
  assumes "build_qwen_payload S i = Inr p" "qwen_answer_discriminant S \<noteq> STORY_META_DISCRIMINANT"
  shows "check_updates verify None (sp_updates p) =
     (if length (qi_prompt_ids i) + length (qi_answer_ids i) \<le> 2547 then Inr (Some (qi_new_root i))
      else Inl (from_settlement SE_EventTooLarge))"
  using assms by (auto simp: build_qwen_payload_Inr length_enc_qwen_answer MAX_EVENT_CPI_DATA_LEN_def)

definition qwen_answer_of :: "qwen_inputs \<Rightarrow> qwen_answer" where
  "qwen_answer_of i = \<lparr>qa_model = qi_model i, qa_prompt_ids = qi_prompt_ids i, qa_answer_ids = qi_answer_ids i,
     qa_manifest = qi_manifest i\<rparr>"

lemma qwen_payload_events:
  "build_qwen_payload S i = Inr p \<Longrightarrow>
     events (sp_updates p) = [(qwen_answer_discriminant S, enc_qwen_answer (qwen_answer_of i))]"
  by (simp add: build_qwen_payload_Inr qwen_answer_of_def events_def)

text \<open>
  C21: What the command promises of a token-id answer and what the settlement program takes differ.
  The command caps the answer at 24 ids, because the answer is carried inline by the event, and does
  not look at the length of the prompt, whose ids the same event carries.  Take a payload the command
  wrote for a state's next transition and a certificate for it that verifies: the settle handler
  stores the root, advances the count by one and emits the answer's event if prompt and answer have
  at most 2547 ids together, and refuses the payload as too large otherwise.  (These are the program's
  own checks; what a transaction can carry is not in the model, and is less.)
\<close>

theorem written_answer_settles_iff:
  assumes T: "text_laws T" and mode: "pa_mode args = ascii ''qwen''"
    and run: "run_producer S T P args files = Inr files'"
    and seed: "qwen_answer_discriminant S \<noteq> STORY_META_DISCRIMINANT"
    and i: "qwen_command_inputs P args = Inr (i, answer_text)" and p: "build_qwen_payload S i = Inr p"
    and state: "gk_state_load R pid state True = Inr ()" "qi_state_pda i = key_of state"
      "qi_ix_discriminator i = SETTLE_DISCRIMINATOR" "qi_transition_index i = gk_transition_count (body state)"
      "Suc (unat (gk_transition_count (body state))) < 2 ^ 64"
    and certificate: "verify_certificate_readonly R J S NCN_PROGRAM_ID (Some (cfg, ncn, snap, rc))
      (sc_sha256 S (enc_settlement_payload p)) g2 sg bm gen = Inr ()"
    and signed: "ai_key ea = fst (find_event_authority R pid)" "ai_key sp = pid"
      "\<forall>ix. mm_invoke_signed M ix [ea, sp] [EVENT_AUTHORITY_SEED, [snd (find_event_authority R pid)]] = Inr ()"
  shows "1 \<le> length (qi_answer_ids i) \<and> length (qi_answer_ids i) \<le> 24 \<and>
    process_settle R M J S pid (Some (state, cfg, ncn, snap, rc, ea, sp, buffer))
      \<lparr>sa_payload = p, sa_aggregated_g2 = g2, sa_aggregated_signature = sg,
        sa_operators_signature_bitmap = bm, sa_expected_generation = gen\<rparr> =
    (if length (qi_prompt_ids i) + length (qi_answer_ids i) \<le> 2547
     then Inr (set_body ((body state)\<lparr>gk_commitment_root := qi_new_root i,
            gk_transition_count := gk_transition_count (body state) + 1\<rparr>) state,
          [event_ix pid (ai_key ea) (qwen_answer_discriminant S) (enc_qwen_answer (qwen_answer_of i))])
     else Inl (from_settlement SE_EventTooLarge))"
proof -
  have "ascii ''qwen'' \<noteq> ascii ''story''" by (simp add: ascii_def)
  with run mode i p have good: "wf_settlement_payload p"
    by (auto simp: run_producer_def run_qwen_Inr [OF T] make_qwen_fixture_Inr)
  have ids: "1 \<le> length (qi_answer_ids i)" "length (qi_answer_ids i) \<le> 24"
    using i by (auto simp: qwen_command_inputs_def Suc_le_eq split: if_splits)
  have fields: "sp_ix_discriminator p = SETTLE_DISCRIMINATOR" "sp_state_pda p = key_of state"
    "sp_transition_index p = gk_transition_count (body state)"
    using p state by (simp_all add: build_qwen_payload_Inr)
  have view: "gk_state_view R state = Inr (body state)" using state(1) by (simp add: gk_state_load_Inr)
  have applied: "apply_settle (body state) root = Inr (settled root (body state))" for root
    using state(5) by (simp add: apply_settle_Inr settled_def)
  obtain a b where ab: "find_event_authority R pid = (a, b)" by fastforce
  have emitted: "emit_events M pid ea sp b (sp_updates p) =
      Inr [event_ix pid a (qwen_answer_discriminant S) (enc_qwen_answer (qwen_answer_of i))]"
    unfolding emit_events_Inr using signed(1,3) by (simp add: event_ixs_def qwen_payload_events [OF p] ab)
  have digest: "payload_digest S p = Inr (MessageDigest (sc_sha256 S (enc_settlement_payload p)))"
    using good by (simp add: payload_digest_Inr)
  show ?thesis
    using ids certificate
    by (simp add: process_settle_def state(1) fields view digest applied emitted signed ab verify_certificate_inline_def
        qwen_updates_checked [OF p seed] settled_def)
qed

subsection \<open>Concrete inputs\<close>

text \<open>A decoder that reads the string 8 as the settle discriminator and every other as the number 72.\<close>

definition sample_producer_host :: producer_host where
  "sample_producer_host = \<lparr>ph_hex_decode = (\<lambda>s. Some (if s = [0x38] then be_bytes 8 SETTLE_DISCRIMINATOR
       else be_bytes 32 (72 :: bytes32))),
     ph_json = (\<lambda>f. Some (fx_story_utf8 f)), ph_qwen_json = (\<lambda>f. Some (qf_answer_text f)),
     ph_writable = (\<lambda>_. True)\<rparr>"

definition sample_args :: "rust_string \<Rightarrow> producer_args" where
  "sample_args mode = \<lparr>pa_mode = mode, pa_prompt = [104], pa_story_file = Some [1], pa_buffer = Some [9],
     pa_prompt_ids = Some [0x37], pa_answer_ids = Some [0x38], pa_answer_text = Some [120],
     pa_manifest = Some [9], pa_model = 0, pa_new_root = [9], pa_transition_index = 0, pa_state_pda = [9],
     pa_ix_discriminator = [0x38], pa_sim_command = [120], pa_solidity_sdk_commit = [121], pa_out = [2]\<rparr>"

lemma sample_not_0x: "trim_start_matches (ascii ''0x'') [b] = [b]"
  by (subst trim_start_matches.simps) (simp add: ascii_def)

lemma sample_hex [simp]:
  "parse_hex sample_producer_host 32 [9] = Inr (be_bytes 32 (72 :: bytes32))"
  "parse_hex sample_producer_host 8 [0x38] = Inr (be_bytes 8 SETTLE_DISCRIMINATOR)"
  by (simp_all add: parse_hex_def sample_not_0x sample_producer_host_def)

lemma sample_ids [simp]: "parse_u32_list [0x37] = Inr [7]" "parse_u32_list [0x38] = Inr [8]"
  by (simp_all add: parse_u32_list_def printable_def parse_unsigned_def)

theorem producer_writes_verified_witness:
  "run_producer tri_syscalls sample_text sample_producer_host (sample_args (ascii ''story''))
     [[1] \<mapsto> [104, 105]] = Inr [[1] \<mapsto> [104, 105], [2] \<mapsto> [104, 105, 10]]"
proof -
  let ?args = "sample_args (ascii ''story'')"
  obtain i where i: "story_inputs sample_producer_host ?args [[1] \<mapsto> [104, 105]] = Inr i"
    "pi_story i = [104, 105]"
    by (simp add: story_inputs_def sample_args_def required_def)
  then obtain f where f: "make_fixture tri_syscalls sample_text i (story_source ?args) = Inr f"
    "fx_story_utf8 f = [104, 105]"
    by (auto simp: make_fixture_Inr build_payload_Inr)
  obtain v where "verify_fixture tri_syscalls sample_text f = Inr v" "build_payload tri_syscalls i = Inr (vf_payload v)"
    using made_fixture_verifies [OF sample_text_laws f(1)] by blast
  with i f producer_writes_verified [OF sample_text_laws, of tri_syscalls sample_producer_host ?args
      "[[1] \<mapsto> [104, 105]]" "[[1] \<mapsto> [104, 105], [2] \<mapsto> [104, 105, 10]]"]
  show ?thesis by (auto simp: sample_producer_host_def sample_args_def fun_eq_iff)
qed

lemma tri_discriminant: "qwen_answer_discriminant tri_syscalls \<noteq> STORY_META_DISCRIMINANT"
proof -
  have "take 8 (be_bytes 32 (1 :: bytes32)) = [0, 0, 0, 0, 0, 0, 0, 0]"
    by (simp add: be_bytes_def le_bytes_numeral)
  then have "qwen_answer_discriminant tri_syscalls = be_word [0, 0, 0, 0, 0, 0, 0, 0]"
    by (simp add: qwen_answer_discriminant_def hash_prefix_def tri_syscalls_def)
  then show ?thesis by (simp add: STORY_META_DISCRIMINANT_def be_word_def)
qed

theorem written_answer_settles_iff_witness:
  "\<exists>p ix. process_settle sample_runtime sample_memory sample_jito tri_syscalls 43
      (Some (foreign_state, ncn_pod 38 CONFIG_SIZE 1 settle_config, sample_raw 1 1001,
        ncn_pod 40 SNAPSHOT_SIZE (discriminator D_Snapshot) sample_snapshot, sample_raw 6 1001,
        sample_info 18 0, sample_info 43 0, None))
      \<lparr>sa_payload = p, sa_aggregated_g2 = bg_c2 tri_group 1, sa_aggregated_signature = 1,
        sa_operators_signature_bitmap = [1], sa_expected_generation = 2\<rparr> =
    Inr (set_body ((body foreign_state)\<lparr>gk_commitment_root := 72, gk_transition_count := 1\<rparr>) foreign_state, [ix])"
proof -
  let ?args = "sample_args (ascii ''qwen'')"
  define i where "i = \<lparr>qi_prompt = [104], qi_model = 0, qi_prompt_ids = [7], qi_answer_ids = [8],
    qi_manifest = 72, qi_new_root = 72, qi_transition_index = 0, qi_state_pda = 72,
    qi_ix_discriminator = SETTLE_DISCRIMINATOR\<rparr>"
  have i: "qwen_command_inputs sample_producer_host ?args = Inr (i, [120])"
    by (simp add: qwen_command_inputs_def sample_args_def required_def i_def be_word_be_bytes)
  obtain p where p: "build_qwen_payload tri_syscalls i = Inr p"
    by (auto simp: build_qwen_payload_Inr i_def)
  then have "wf_settlement_payload p"
    by (simp add: build_qwen_payload_Inr wf_settlement_payload_def wf_vec_def wf_state_update_def
        length_enc_qwen_answer i_def)
  with p obtain f where f: "make_qwen_fixture tri_syscalls sample_text i [120] (qwen_source ?args) = Inr f"
    by (simp add: make_qwen_fixture_Inr)
  have "run_qwen tri_syscalls sample_text sample_producer_host ?args Map.empty =
      Inr [[2] \<mapsto> qf_answer_text f @ [0x0A]]"
    unfolding run_qwen_Inr [OF sample_text_laws]
    by (intro exI [of _ i] exI [of _ "[120]"] exI [of _ f] conjI i f)
      (simp add: write_json_Inr sample_producer_host_def sample_args_def)
  then have run: "run_producer tri_syscalls sample_text sample_producer_host ?args Map.empty =
      Inr [[2] \<mapsto> qf_answer_text f @ [0x0A]]"
    by (simp add: run_producer_def) (simp add: sample_args_def ascii_def)
  have mode: "pa_mode ?args = ascii ''qwen''" by (simp add: sample_args_def)
  have state: "qi_state_pda i = key_of foreign_state" "qi_ix_discriminator i = SETTLE_DISCRIMINATOR"
    "qi_transition_index i = gk_transition_count (body foreign_state)"
    "Suc (unat (gk_transition_count (body foreign_state))) < 2 ^ 64"
    by (simp_all add: i_def foreign_state_def gk_state_new_def)
  have authority: "ai_key (sample_info 18 0) = fst (find_event_authority sample_runtime 43)"
    "ai_key (sample_info 43 0) = 43"
    "\<forall>ix. mm_invoke_signed sample_memory ix [sample_info 18 0, sample_info 43 0]
      [EVENT_AUTHORITY_SEED, [snd (find_event_authority sample_runtime 43)]] = Inr ()"
    by (simp_all add: find_event_authority_def sample_memory_def)
  have numbers: "length (qi_prompt_ids i) + length (qi_answer_ids i) \<le> 2547" "qi_new_root i = 72"
    "gk_transition_count (body foreign_state) = 0"
    by (simp_all add: i_def foreign_state_def gk_state_new_def)
  show ?thesis
    using written_answer_settles_iff [OF sample_text_laws mode run tri_discriminant i p foreign_loads state
        sample_certificate_verifies authority, of None] numbers
    by auto
qed

end
