(* ===== verification/Client.thy ===== *)
theory Client
  imports Entrypoint Wire
begin

text \<open>
  The generated Rust client (\<open>clients/rust/ncn_program/src/generated/instructions\<close>): for each of the
  fourteen instructions its account struct, its argument struct, the function that builds the
  instruction from them, and the builder, whose fields are optional until \<open>instruction()\<close> unwraps
  them.  The record of the accounts is polymorphic: with public keys it is the account struct, with
  optional public keys the fields of the builder, with account infos the struct of the CPI form.
  A setter of a builder is the update of its field.  A panic (an unset field, a byte vector that
  does not fit its length prefix) is \<open>PE_Panic\<close>.
\<close>

text \<open>The discriminator followed by the Borsh form of the arguments.\<close>

definition client_data :: "bytes \<Rightarrow> ('a \<Rightarrow> bytes) \<Rightarrow> ('a \<Rightarrow> bool) \<Rightarrow> 'a \<Rightarrow> program_error + bytes" where
  "client_data data enc well_formed args =
     try_bind (try_to_vec enc well_formed PE_Panic args) (\<lambda>bytes. Inr (data @ bytes))"

definition client_ix :: "account_meta list \<Rightarrow> bytes \<Rightarrow> instruction" where
  "client_ix accounts data =
     \<lparr>ix_program_id = NCN_PROGRAM_ID, ix_accounts = accounts, ix_data = data\<rparr>"

text \<open>\<open>expect\<close> and the default of the system program.\<close>

definition expect :: "'a option \<Rightarrow> program_error + 'a" where "expect x = ok_or PE_Panic x"

lemma expect_simps [simp]: "expect (Some x) = Inr x" "expect None = Inl PE_Panic"
  by (simp_all add: expect_def)

definition SYSTEM_PROGRAM_ID :: pubkey where
  "SYSTEM_PROGRAM_ID = declare_id ''11111111111111111111111111111111''"

subsection \<open>InitializeConfig\<close>

record 'k initialize_config_accounts =
  ic_config :: 'k
  ic_ncn :: 'k
  ic_ncn_fee_wallet :: 'k
  ic_ncn_admin :: 'k
  ic_tie_breaker_admin :: 'k
  ic_account_payer :: 'k
  ic_system_program :: 'k

record initialize_config_args =
  ic_epochs_before_stall :: u64
  ic_epochs_after_consensus_before_close :: u64
  ic_valid_slots_after_consensus :: u64
  ic_minimum_stake :: u128
  ic_ncn_fee_bps :: u16

definition enc_initialize_config_args :: "initialize_config_args \<Rightarrow> bytes" where
  "enc_initialize_config_args args =
     le_bytes 8 (ic_epochs_before_stall args) @
     le_bytes 8 (ic_epochs_after_consensus_before_close args) @
     le_bytes 8 (ic_valid_slots_after_consensus args) @
     le_bytes 16 (ic_minimum_stake args) @
     le_bytes 2 (ic_ncn_fee_bps args)"

definition initialize_config_data :: bytes where "initialize_config_data = [0]"

definition initialize_config_instruction ::
  "pubkey initialize_config_accounts \<Rightarrow> initialize_config_args \<Rightarrow> account_meta list \<Rightarrow> program_error + instruction" where
  "initialize_config_instruction self args remaining_accounts =
     try_bind (client_data initialize_config_data enc_initialize_config_args any args) (\<lambda>data.
     Inr (client_ix
       ([meta_new (ic_config self) False, meta_readonly (ic_ncn self) False,
         meta_readonly (ic_ncn_fee_wallet self) False, meta_readonly (ic_ncn_admin self) True,
         meta_readonly (ic_tie_breaker_admin self) False, meta_new (ic_account_payer self) False,
         meta_readonly (ic_system_program self) False]
         @ remaining_accounts) data))"

record initialize_config_builder =
  icb_accounts :: "pubkey option initialize_config_accounts"
  icb_epochs_before_stall :: "u64 option"
  icb_epochs_after_consensus_before_close :: "u64 option"
  icb_valid_slots_after_consensus :: "u64 option"
  icb_minimum_stake :: "u128 option"
  icb_ncn_fee_bps :: "u16 option"
  icb_remaining_accounts :: "account_meta list"

definition initialize_config_builder_new :: initialize_config_builder where
  "initialize_config_builder_new = \<lparr>icb_accounts = \<lparr>ic_config = None, ic_ncn = None, ic_ncn_fee_wallet = None, ic_ncn_admin = None,
       ic_tie_breaker_admin = None, ic_account_payer = None, ic_system_program = None\<rparr>,
     icb_epochs_before_stall = None, icb_epochs_after_consensus_before_close = None,
     icb_valid_slots_after_consensus = None, icb_minimum_stake = None, icb_ncn_fee_bps = None,
     icb_remaining_accounts = []\<rparr>"

definition initialize_config_build :: "initialize_config_builder \<Rightarrow> program_error + instruction" where
  "initialize_config_build self =
     (let accounts = icb_accounts self in
      try_bind (expect (ic_config accounts)) (\<lambda>config.
      try_bind (expect (ic_ncn accounts)) (\<lambda>ncn.
      try_bind (expect (ic_ncn_fee_wallet accounts)) (\<lambda>ncn_fee_wallet.
      try_bind (expect (ic_ncn_admin accounts)) (\<lambda>ncn_admin.
      try_bind (expect (ic_tie_breaker_admin accounts)) (\<lambda>tie_breaker_admin.
      try_bind (expect (ic_account_payer accounts)) (\<lambda>account_payer.
      try_bind (expect (icb_epochs_before_stall self)) (\<lambda>arg_epochs_before_stall.
      try_bind (expect (icb_epochs_after_consensus_before_close self)) (\<lambda>arg_epochs_after_consensus_before_close.
      try_bind (expect (icb_valid_slots_after_consensus self)) (\<lambda>arg_valid_slots_after_consensus.
      try_bind (expect (icb_minimum_stake self)) (\<lambda>arg_minimum_stake.
      try_bind (expect (icb_ncn_fee_bps self)) (\<lambda>arg_ncn_fee_bps.
      initialize_config_instruction
        \<lparr>ic_config = config, ic_ncn = ncn, ic_ncn_fee_wallet = ncn_fee_wallet,
         ic_ncn_admin = ncn_admin, ic_tie_breaker_admin = tie_breaker_admin,
         ic_account_payer = account_payer,
         ic_system_program = (case ic_system_program accounts of Some k \<Rightarrow> k | None \<Rightarrow> SYSTEM_PROGRAM_ID)\<rparr>
        \<lparr>ic_epochs_before_stall = arg_epochs_before_stall,
         ic_epochs_after_consensus_before_close = arg_epochs_after_consensus_before_close,
         ic_valid_slots_after_consensus = arg_valid_slots_after_consensus,
         ic_minimum_stake = arg_minimum_stake, ic_ncn_fee_bps = arg_ncn_fee_bps\<rparr>
        (icb_remaining_accounts self)))))))))))))"

subsection \<open>InitializeVaultRegistry\<close>

record 'k initialize_vault_registry_accounts =
  ivr_config :: 'k
  ivr_vault_registry :: 'k
  ivr_ncn :: 'k
  ivr_account_payer :: 'k
  ivr_system_program :: 'k

definition initialize_vault_registry_data :: bytes where "initialize_vault_registry_data = [1]"

definition initialize_vault_registry_instruction ::
  "pubkey initialize_vault_registry_accounts \<Rightarrow> account_meta list \<Rightarrow> program_error + instruction" where
  "initialize_vault_registry_instruction self remaining_accounts =
     Inr (client_ix
       ([meta_readonly (ivr_config self) False, meta_new (ivr_vault_registry self) False,
         meta_readonly (ivr_ncn self) False, meta_new (ivr_account_payer self) False,
         meta_readonly (ivr_system_program self) False]
         @ remaining_accounts) initialize_vault_registry_data)"

record initialize_vault_registry_builder =
  ivrb_accounts :: "pubkey option initialize_vault_registry_accounts"
  ivrb_remaining_accounts :: "account_meta list"

definition initialize_vault_registry_builder_new :: initialize_vault_registry_builder where
  "initialize_vault_registry_builder_new = \<lparr>ivrb_accounts = \<lparr>ivr_config = None, ivr_vault_registry = None, ivr_ncn = None, ivr_account_payer = None,
       ivr_system_program = None\<rparr>,
     ivrb_remaining_accounts = []\<rparr>"

definition initialize_vault_registry_build :: "initialize_vault_registry_builder \<Rightarrow> program_error + instruction" where
  "initialize_vault_registry_build self =
     (let accounts = ivrb_accounts self in
      try_bind (expect (ivr_config accounts)) (\<lambda>config.
      try_bind (expect (ivr_vault_registry accounts)) (\<lambda>vault_registry.
      try_bind (expect (ivr_ncn accounts)) (\<lambda>ncn.
      try_bind (expect (ivr_account_payer accounts)) (\<lambda>account_payer.
      initialize_vault_registry_instruction
        \<lparr>ivr_config = config, ivr_vault_registry = vault_registry, ivr_ncn = ncn,
         ivr_account_payer = account_payer,
         ivr_system_program = (case ivr_system_program accounts of Some k \<Rightarrow> k | None \<Rightarrow> SYSTEM_PROGRAM_ID)\<rparr>
        (ivrb_remaining_accounts self))))))"

subsection \<open>RegisterVault\<close>

record 'k register_vault_accounts =
  rv_config :: 'k
  rv_vault_registry :: 'k
  rv_ncn :: 'k
  rv_vault :: 'k
  rv_ncn_vault_ticket :: 'k

definition register_vault_data :: bytes where "register_vault_data = [2]"

definition register_vault_instruction ::
  "pubkey register_vault_accounts \<Rightarrow> account_meta list \<Rightarrow> program_error + instruction" where
  "register_vault_instruction self remaining_accounts =
     Inr (client_ix
       ([meta_readonly (rv_config self) False, meta_new (rv_vault_registry self) False,
         meta_readonly (rv_ncn self) False, meta_readonly (rv_vault self) False,
         meta_readonly (rv_ncn_vault_ticket self) False]
         @ remaining_accounts) register_vault_data)"

record register_vault_builder =
  rvb_accounts :: "pubkey option register_vault_accounts"
  rvb_remaining_accounts :: "account_meta list"

definition register_vault_builder_new :: register_vault_builder where
  "register_vault_builder_new = \<lparr>rvb_accounts = \<lparr>rv_config = None, rv_vault_registry = None, rv_ncn = None, rv_vault = None,
       rv_ncn_vault_ticket = None\<rparr>,
     rvb_remaining_accounts = []\<rparr>"

definition register_vault_build :: "register_vault_builder \<Rightarrow> program_error + instruction" where
  "register_vault_build self =
     (let accounts = rvb_accounts self in
      try_bind (expect (rv_config accounts)) (\<lambda>config.
      try_bind (expect (rv_vault_registry accounts)) (\<lambda>vault_registry.
      try_bind (expect (rv_ncn accounts)) (\<lambda>ncn.
      try_bind (expect (rv_vault accounts)) (\<lambda>vault.
      try_bind (expect (rv_ncn_vault_ticket accounts)) (\<lambda>ncn_vault_ticket.
      register_vault_instruction
        \<lparr>rv_config = config, rv_vault_registry = vault_registry, rv_ncn = ncn, rv_vault = vault,
         rv_ncn_vault_ticket = ncn_vault_ticket\<rparr>
        (rvb_remaining_accounts self)))))))"

subsection \<open>RegisterOperator\<close>

record 'k register_operator_accounts =
  ro_config :: 'k
  ro_ncn_operator_account :: 'k
  ro_ncn :: 'k
  ro_operator :: 'k
  ro_operator_admin :: 'k
  ro_ncn_operator_state :: 'k
  ro_snapshot :: 'k
  ro_restaking_config :: 'k
  ro_account_payer :: 'k
  ro_system_program :: 'k

record register_operator_args =
  ro_g1_pubkey :: bytes32
  ro_g2_pubkey :: bytes64
  ro_signature :: bytes64

definition enc_register_operator_args :: "register_operator_args \<Rightarrow> bytes" where
  "enc_register_operator_args args =
     be_bytes 32 (ro_g1_pubkey args) @
     be_bytes 64 (ro_g2_pubkey args) @
     be_bytes 64 (ro_signature args)"

definition register_operator_data :: bytes where "register_operator_data = [3]"

definition register_operator_instruction ::
  "pubkey register_operator_accounts \<Rightarrow> register_operator_args \<Rightarrow> account_meta list \<Rightarrow> program_error + instruction" where
  "register_operator_instruction self args remaining_accounts =
     try_bind (client_data register_operator_data enc_register_operator_args any args) (\<lambda>data.
     Inr (client_ix
       ([meta_readonly (ro_config self) False, meta_new (ro_ncn_operator_account self) False,
         meta_readonly (ro_ncn self) False, meta_readonly (ro_operator self) False,
         meta_readonly (ro_operator_admin self) True,
         meta_readonly (ro_ncn_operator_state self) False, meta_new (ro_snapshot self) False,
         meta_readonly (ro_restaking_config self) False, meta_new (ro_account_payer self) False,
         meta_readonly (ro_system_program self) False]
         @ remaining_accounts) data))"

record register_operator_builder =
  rob_accounts :: "pubkey option register_operator_accounts"
  rob_g1_pubkey :: "bytes32 option"
  rob_g2_pubkey :: "bytes64 option"
  rob_signature :: "bytes64 option"
  rob_remaining_accounts :: "account_meta list"

definition register_operator_builder_new :: register_operator_builder where
  "register_operator_builder_new = \<lparr>rob_accounts = \<lparr>ro_config = None, ro_ncn_operator_account = None, ro_ncn = None, ro_operator = None,
       ro_operator_admin = None, ro_ncn_operator_state = None, ro_snapshot = None,
       ro_restaking_config = None, ro_account_payer = None, ro_system_program = None\<rparr>,
     rob_g1_pubkey = None, rob_g2_pubkey = None, rob_signature = None, rob_remaining_accounts = []\<rparr>"

definition register_operator_build :: "register_operator_builder \<Rightarrow> program_error + instruction" where
  "register_operator_build self =
     (let accounts = rob_accounts self in
      try_bind (expect (ro_config accounts)) (\<lambda>config.
      try_bind (expect (ro_ncn_operator_account accounts)) (\<lambda>ncn_operator_account.
      try_bind (expect (ro_ncn accounts)) (\<lambda>ncn.
      try_bind (expect (ro_operator accounts)) (\<lambda>operator.
      try_bind (expect (ro_operator_admin accounts)) (\<lambda>operator_admin.
      try_bind (expect (ro_ncn_operator_state accounts)) (\<lambda>ncn_operator_state.
      try_bind (expect (ro_snapshot accounts)) (\<lambda>snapshot.
      try_bind (expect (ro_restaking_config accounts)) (\<lambda>restaking_config.
      try_bind (expect (ro_account_payer accounts)) (\<lambda>account_payer.
      try_bind (expect (rob_g1_pubkey self)) (\<lambda>arg_g1_pubkey.
      try_bind (expect (rob_g2_pubkey self)) (\<lambda>arg_g2_pubkey.
      try_bind (expect (rob_signature self)) (\<lambda>arg_signature.
      register_operator_instruction
        \<lparr>ro_config = config, ro_ncn_operator_account = ncn_operator_account, ro_ncn = ncn,
         ro_operator = operator, ro_operator_admin = operator_admin,
         ro_ncn_operator_state = ncn_operator_state, ro_snapshot = snapshot,
         ro_restaking_config = restaking_config, ro_account_payer = account_payer,
         ro_system_program = (case ro_system_program accounts of Some k \<Rightarrow> k | None \<Rightarrow> SYSTEM_PROGRAM_ID)\<rparr>
        \<lparr>ro_g1_pubkey = arg_g1_pubkey, ro_g2_pubkey = arg_g2_pubkey, ro_signature = arg_signature\<rparr>
        (rob_remaining_accounts self))))))))))))))"

subsection \<open>UpdateOperatorBN128Keys\<close>

record 'k update_operator_keys_accounts =
  uk_config :: 'k
  uk_ncn_operator_account :: 'k
  uk_ncn :: 'k
  uk_operator :: 'k
  uk_operator_admin :: 'k
  uk_snapshot :: 'k

record update_operator_keys_args =
  uk_g1_pubkey :: bytes32
  uk_g2_pubkey :: bytes64
  uk_signature :: bytes64

definition enc_update_operator_keys_args :: "update_operator_keys_args \<Rightarrow> bytes" where
  "enc_update_operator_keys_args args =
     be_bytes 32 (uk_g1_pubkey args) @
     be_bytes 64 (uk_g2_pubkey args) @
     be_bytes 64 (uk_signature args)"

definition update_operator_keys_data :: bytes where "update_operator_keys_data = [4]"

definition update_operator_keys_instruction ::
  "pubkey update_operator_keys_accounts \<Rightarrow> update_operator_keys_args \<Rightarrow> account_meta list \<Rightarrow> program_error + instruction" where
  "update_operator_keys_instruction self args remaining_accounts =
     try_bind (client_data update_operator_keys_data enc_update_operator_keys_args any args) (\<lambda>data.
     Inr (client_ix
       ([meta_readonly (uk_config self) False, meta_new (uk_ncn_operator_account self) False,
         meta_readonly (uk_ncn self) False, meta_readonly (uk_operator self) False,
         meta_readonly (uk_operator_admin self) True, meta_new (uk_snapshot self) False]
         @ remaining_accounts) data))"

record update_operator_keys_builder =
  ukb_accounts :: "pubkey option update_operator_keys_accounts"
  ukb_g1_pubkey :: "bytes32 option"
  ukb_g2_pubkey :: "bytes64 option"
  ukb_signature :: "bytes64 option"
  ukb_remaining_accounts :: "account_meta list"

definition update_operator_keys_builder_new :: update_operator_keys_builder where
  "update_operator_keys_builder_new = \<lparr>ukb_accounts = \<lparr>uk_config = None, uk_ncn_operator_account = None, uk_ncn = None, uk_operator = None,
       uk_operator_admin = None, uk_snapshot = None\<rparr>,
     ukb_g1_pubkey = None, ukb_g2_pubkey = None, ukb_signature = None, ukb_remaining_accounts = []\<rparr>"

definition update_operator_keys_build :: "update_operator_keys_builder \<Rightarrow> program_error + instruction" where
  "update_operator_keys_build self =
     (let accounts = ukb_accounts self in
      try_bind (expect (uk_config accounts)) (\<lambda>config.
      try_bind (expect (uk_ncn_operator_account accounts)) (\<lambda>ncn_operator_account.
      try_bind (expect (uk_ncn accounts)) (\<lambda>ncn.
      try_bind (expect (uk_operator accounts)) (\<lambda>operator.
      try_bind (expect (uk_operator_admin accounts)) (\<lambda>operator_admin.
      try_bind (expect (uk_snapshot accounts)) (\<lambda>snapshot.
      try_bind (expect (ukb_g1_pubkey self)) (\<lambda>arg_g1_pubkey.
      try_bind (expect (ukb_g2_pubkey self)) (\<lambda>arg_g2_pubkey.
      try_bind (expect (ukb_signature self)) (\<lambda>arg_signature.
      update_operator_keys_instruction
        \<lparr>uk_config = config, uk_ncn_operator_account = ncn_operator_account, uk_ncn = ncn,
         uk_operator = operator, uk_operator_admin = operator_admin, uk_snapshot = snapshot\<rparr>
        \<lparr>uk_g1_pubkey = arg_g1_pubkey, uk_g2_pubkey = arg_g2_pubkey, uk_signature = arg_signature\<rparr>
        (ukb_remaining_accounts self)))))))))))"

subsection \<open>RemoveOperator\<close>

record 'k remove_operator_accounts =
  rmo_config :: 'k
  rmo_ncn :: 'k
  rmo_operator :: 'k
  rmo_admin :: 'k
  rmo_snapshot :: 'k

definition remove_operator_data :: bytes where "remove_operator_data = [5]"

definition remove_operator_instruction ::
  "pubkey remove_operator_accounts \<Rightarrow> account_meta list \<Rightarrow> program_error + instruction" where
  "remove_operator_instruction self remaining_accounts =
     Inr (client_ix
       ([meta_readonly (rmo_config self) False, meta_readonly (rmo_ncn self) False,
         meta_readonly (rmo_operator self) False, meta_readonly (rmo_admin self) True,
         meta_new (rmo_snapshot self) False]
         @ remaining_accounts) remove_operator_data)"

record remove_operator_builder =
  rmob_accounts :: "pubkey option remove_operator_accounts"
  rmob_remaining_accounts :: "account_meta list"

definition remove_operator_builder_new :: remove_operator_builder where
  "remove_operator_builder_new = \<lparr>rmob_accounts = \<lparr>rmo_config = None, rmo_ncn = None, rmo_operator = None, rmo_admin = None, rmo_snapshot = None\<rparr>,
     rmob_remaining_accounts = []\<rparr>"

definition remove_operator_build :: "remove_operator_builder \<Rightarrow> program_error + instruction" where
  "remove_operator_build self =
     (let accounts = rmob_accounts self in
      try_bind (expect (rmo_config accounts)) (\<lambda>config.
      try_bind (expect (rmo_ncn accounts)) (\<lambda>ncn.
      try_bind (expect (rmo_operator accounts)) (\<lambda>operator.
      try_bind (expect (rmo_admin accounts)) (\<lambda>admin.
      try_bind (expect (rmo_snapshot accounts)) (\<lambda>snapshot.
      remove_operator_instruction
        \<lparr>rmo_config = config, rmo_ncn = ncn, rmo_operator = operator, rmo_admin = admin,
         rmo_snapshot = snapshot\<rparr>
        (rmob_remaining_accounts self)))))))"

subsection \<open>UpdateOperatorIpPort\<close>

record 'k update_operator_ip_port_accounts =
  uip_config :: 'k
  uip_ncn_operator_account :: 'k
  uip_ncn :: 'k
  uip_operator :: 'k
  uip_operator_admin :: 'k

record update_operator_ip_port_args =
  uip_ip_address :: u32
  uip_port :: u16

definition enc_update_operator_ip_port_args :: "update_operator_ip_port_args \<Rightarrow> bytes" where
  "enc_update_operator_ip_port_args args =
     be_bytes 4 (uip_ip_address args) @
     le_bytes 2 (uip_port args)"

definition update_operator_ip_port_data :: bytes where "update_operator_ip_port_data = [6]"

definition update_operator_ip_port_instruction ::
  "pubkey update_operator_ip_port_accounts \<Rightarrow> update_operator_ip_port_args \<Rightarrow> account_meta list \<Rightarrow> program_error + instruction" where
  "update_operator_ip_port_instruction self args remaining_accounts =
     try_bind (client_data update_operator_ip_port_data enc_update_operator_ip_port_args any args) (\<lambda>data.
     Inr (client_ix
       ([meta_readonly (uip_config self) False, meta_new (uip_ncn_operator_account self) False,
         meta_readonly (uip_ncn self) False, meta_readonly (uip_operator self) False,
         meta_readonly (uip_operator_admin self) True]
         @ remaining_accounts) data))"

record update_operator_ip_port_builder =
  uipb_accounts :: "pubkey option update_operator_ip_port_accounts"
  uipb_ip_address :: "u32 option"
  uipb_port :: "u16 option"
  uipb_remaining_accounts :: "account_meta list"

definition update_operator_ip_port_builder_new :: update_operator_ip_port_builder where
  "update_operator_ip_port_builder_new = \<lparr>uipb_accounts = \<lparr>uip_config = None, uip_ncn_operator_account = None, uip_ncn = None, uip_operator = None,
       uip_operator_admin = None\<rparr>,
     uipb_ip_address = None, uipb_port = None, uipb_remaining_accounts = []\<rparr>"

definition update_operator_ip_port_build :: "update_operator_ip_port_builder \<Rightarrow> program_error + instruction" where
  "update_operator_ip_port_build self =
     (let accounts = uipb_accounts self in
      try_bind (expect (uip_config accounts)) (\<lambda>config.
      try_bind (expect (uip_ncn_operator_account accounts)) (\<lambda>ncn_operator_account.
      try_bind (expect (uip_ncn accounts)) (\<lambda>ncn.
      try_bind (expect (uip_operator accounts)) (\<lambda>operator.
      try_bind (expect (uip_operator_admin accounts)) (\<lambda>operator_admin.
      try_bind (expect (uipb_ip_address self)) (\<lambda>arg_ip_address.
      try_bind (expect (uipb_port self)) (\<lambda>arg_port.
      update_operator_ip_port_instruction
        \<lparr>uip_config = config, uip_ncn_operator_account = ncn_operator_account, uip_ncn = ncn,
         uip_operator = operator, uip_operator_admin = operator_admin\<rparr>
        \<lparr>uip_ip_address = arg_ip_address, uip_port = arg_port\<rparr>
        (uipb_remaining_accounts self)))))))))"

subsection \<open>InitializeSnapshot\<close>

record 'k initialize_snapshot_accounts =
  isn_ncn :: 'k
  isn_snapshot :: 'k
  isn_account_payer :: 'k
  isn_system_program :: 'k

definition initialize_snapshot_data :: bytes where "initialize_snapshot_data = [7]"

definition initialize_snapshot_instruction ::
  "pubkey initialize_snapshot_accounts \<Rightarrow> account_meta list \<Rightarrow> program_error + instruction" where
  "initialize_snapshot_instruction self remaining_accounts =
     Inr (client_ix
       ([meta_readonly (isn_ncn self) False, meta_new (isn_snapshot self) False,
         meta_new (isn_account_payer self) False, meta_readonly (isn_system_program self) False]
         @ remaining_accounts) initialize_snapshot_data)"

record initialize_snapshot_builder =
  isnb_accounts :: "pubkey option initialize_snapshot_accounts"
  isnb_remaining_accounts :: "account_meta list"

definition initialize_snapshot_builder_new :: initialize_snapshot_builder where
  "initialize_snapshot_builder_new = \<lparr>isnb_accounts = \<lparr>isn_ncn = None, isn_snapshot = None, isn_account_payer = None, isn_system_program = None\<rparr>,
     isnb_remaining_accounts = []\<rparr>"

definition initialize_snapshot_build :: "initialize_snapshot_builder \<Rightarrow> program_error + instruction" where
  "initialize_snapshot_build self =
     (let accounts = isnb_accounts self in
      try_bind (expect (isn_ncn accounts)) (\<lambda>ncn.
      try_bind (expect (isn_snapshot accounts)) (\<lambda>snapshot.
      try_bind (expect (isn_account_payer accounts)) (\<lambda>account_payer.
      initialize_snapshot_instruction
        \<lparr>isn_ncn = ncn, isn_snapshot = snapshot, isn_account_payer = account_payer,
         isn_system_program = (case isn_system_program accounts of Some k \<Rightarrow> k | None \<Rightarrow> SYSTEM_PROGRAM_ID)\<rparr>
        (isnb_remaining_accounts self)))))"

subsection \<open>ReallocSnapshot\<close>

record 'k realloc_snapshot_accounts =
  rsn_ncn :: 'k
  rsn_config :: 'k
  rsn_snapshot :: 'k
  rsn_account_payer :: 'k
  rsn_system_program :: 'k

definition realloc_snapshot_data :: bytes where "realloc_snapshot_data = [8]"

definition realloc_snapshot_instruction ::
  "pubkey realloc_snapshot_accounts \<Rightarrow> account_meta list \<Rightarrow> program_error + instruction" where
  "realloc_snapshot_instruction self remaining_accounts =
     Inr (client_ix
       ([meta_readonly (rsn_ncn self) False, meta_readonly (rsn_config self) False,
         meta_new (rsn_snapshot self) False, meta_new (rsn_account_payer self) False,
         meta_readonly (rsn_system_program self) False]
         @ remaining_accounts) realloc_snapshot_data)"

record realloc_snapshot_builder =
  rsnb_accounts :: "pubkey option realloc_snapshot_accounts"
  rsnb_remaining_accounts :: "account_meta list"

definition realloc_snapshot_builder_new :: realloc_snapshot_builder where
  "realloc_snapshot_builder_new = \<lparr>rsnb_accounts = \<lparr>rsn_ncn = None, rsn_config = None, rsn_snapshot = None, rsn_account_payer = None,
       rsn_system_program = None\<rparr>,
     rsnb_remaining_accounts = []\<rparr>"

definition realloc_snapshot_build :: "realloc_snapshot_builder \<Rightarrow> program_error + instruction" where
  "realloc_snapshot_build self =
     (let accounts = rsnb_accounts self in
      try_bind (expect (rsn_ncn accounts)) (\<lambda>ncn.
      try_bind (expect (rsn_config accounts)) (\<lambda>config.
      try_bind (expect (rsn_snapshot accounts)) (\<lambda>snapshot.
      try_bind (expect (rsn_account_payer accounts)) (\<lambda>account_payer.
      realloc_snapshot_instruction
        \<lparr>rsn_ncn = ncn, rsn_config = config, rsn_snapshot = snapshot,
         rsn_account_payer = account_payer,
         rsn_system_program = (case rsn_system_program accounts of Some k \<Rightarrow> k | None \<Rightarrow> SYSTEM_PROGRAM_ID)\<rparr>
        (rsnb_remaining_accounts self))))))"

subsection \<open>SnapshotVaultOperatorDelegation\<close>

record 'k snapshot_vault_operator_delegation_accounts =
  svd_config :: 'k
  svd_restaking_config :: 'k
  svd_ncn :: 'k
  svd_operator :: 'k
  svd_vault :: 'k
  svd_vault_ncn_ticket :: 'k
  svd_ncn_vault_ticket :: 'k
  svd_ncn_operator_state :: 'k
  svd_vault_operator_delegation :: 'k
  svd_snapshot :: 'k
  svd_vault_registry :: 'k

definition snapshot_vault_operator_delegation_data :: bytes where "snapshot_vault_operator_delegation_data = [9]"

definition snapshot_vault_operator_delegation_instruction ::
  "pubkey snapshot_vault_operator_delegation_accounts \<Rightarrow> account_meta list \<Rightarrow> program_error + instruction" where
  "snapshot_vault_operator_delegation_instruction self remaining_accounts =
     Inr (client_ix
       ([meta_readonly (svd_config self) False, meta_readonly (svd_restaking_config self) False,
         meta_readonly (svd_ncn self) False, meta_readonly (svd_operator self) False,
         meta_readonly (svd_vault self) False, meta_readonly (svd_vault_ncn_ticket self) False,
         meta_readonly (svd_ncn_vault_ticket self) False,
         meta_readonly (svd_ncn_operator_state self) False,
         meta_readonly (svd_vault_operator_delegation self) False,
         meta_new (svd_snapshot self) False, meta_readonly (svd_vault_registry self) False]
         @ remaining_accounts) snapshot_vault_operator_delegation_data)"

record snapshot_vault_operator_delegation_builder =
  svdb_accounts :: "pubkey option snapshot_vault_operator_delegation_accounts"
  svdb_remaining_accounts :: "account_meta list"

definition snapshot_vault_operator_delegation_builder_new :: snapshot_vault_operator_delegation_builder where
  "snapshot_vault_operator_delegation_builder_new = \<lparr>svdb_accounts = \<lparr>svd_config = None, svd_restaking_config = None, svd_ncn = None, svd_operator = None,
       svd_vault = None, svd_vault_ncn_ticket = None, svd_ncn_vault_ticket = None,
       svd_ncn_operator_state = None, svd_vault_operator_delegation = None, svd_snapshot = None,
       svd_vault_registry = None\<rparr>,
     svdb_remaining_accounts = []\<rparr>"

definition snapshot_vault_operator_delegation_build :: "snapshot_vault_operator_delegation_builder \<Rightarrow> program_error + instruction" where
  "snapshot_vault_operator_delegation_build self =
     (let accounts = svdb_accounts self in
      try_bind (expect (svd_config accounts)) (\<lambda>config.
      try_bind (expect (svd_restaking_config accounts)) (\<lambda>restaking_config.
      try_bind (expect (svd_ncn accounts)) (\<lambda>ncn.
      try_bind (expect (svd_operator accounts)) (\<lambda>operator.
      try_bind (expect (svd_vault accounts)) (\<lambda>vault.
      try_bind (expect (svd_vault_ncn_ticket accounts)) (\<lambda>vault_ncn_ticket.
      try_bind (expect (svd_ncn_vault_ticket accounts)) (\<lambda>ncn_vault_ticket.
      try_bind (expect (svd_ncn_operator_state accounts)) (\<lambda>ncn_operator_state.
      try_bind (expect (svd_vault_operator_delegation accounts)) (\<lambda>vault_operator_delegation.
      try_bind (expect (svd_snapshot accounts)) (\<lambda>snapshot.
      try_bind (expect (svd_vault_registry accounts)) (\<lambda>vault_registry.
      snapshot_vault_operator_delegation_instruction
        \<lparr>svd_config = config, svd_restaking_config = restaking_config, svd_ncn = ncn,
         svd_operator = operator, svd_vault = vault, svd_vault_ncn_ticket = vault_ncn_ticket,
         svd_ncn_vault_ticket = ncn_vault_ticket, svd_ncn_operator_state = ncn_operator_state,
         svd_vault_operator_delegation = vault_operator_delegation, svd_snapshot = snapshot,
         svd_vault_registry = vault_registry\<rparr>
        (svdb_remaining_accounts self)))))))))))))"

subsection \<open>VerifyCertificate\<close>

record 'k verify_certificate_accounts =
  vc_ncn_config :: 'k
  vc_ncn :: 'k
  vc_snapshot :: 'k
  vc_restaking_config :: 'k

record verify_certificate_args =
  vc_digest :: bytes32
  vc_aggregated_g2 :: bytes64
  vc_aggregated_signature :: bytes32
  vc_operators_signature_bitmap :: bytes
  vc_expected_generation :: u64

definition enc_verify_certificate_args :: "verify_certificate_args \<Rightarrow> bytes" where
  "enc_verify_certificate_args args =
     be_bytes 32 (vc_digest args) @
     be_bytes 64 (vc_aggregated_g2 args) @
     be_bytes 32 (vc_aggregated_signature args) @
     enc_blob (vc_operators_signature_bitmap args) @
     le_bytes 8 (vc_expected_generation args)"

definition verify_certificate_data :: bytes where "verify_certificate_data = [10]"

definition verify_certificate_instruction ::
  "pubkey verify_certificate_accounts \<Rightarrow> verify_certificate_args \<Rightarrow> account_meta list \<Rightarrow> program_error + instruction" where
  "verify_certificate_instruction self args remaining_accounts =
     try_bind (client_data verify_certificate_data enc_verify_certificate_args (\<lambda>a. wf_blob (vc_operators_signature_bitmap a)) args) (\<lambda>data.
     Inr (client_ix
       ([meta_readonly (vc_ncn_config self) False, meta_readonly (vc_ncn self) False,
         meta_readonly (vc_snapshot self) False, meta_readonly (vc_restaking_config self) False]
         @ remaining_accounts) data))"

record verify_certificate_builder =
  vcb_accounts :: "pubkey option verify_certificate_accounts"
  vcb_digest :: "bytes32 option"
  vcb_aggregated_g2 :: "bytes64 option"
  vcb_aggregated_signature :: "bytes32 option"
  vcb_operators_signature_bitmap :: "bytes option"
  vcb_expected_generation :: "u64 option"
  vcb_remaining_accounts :: "account_meta list"

definition verify_certificate_builder_new :: verify_certificate_builder where
  "verify_certificate_builder_new = \<lparr>vcb_accounts = \<lparr>vc_ncn_config = None, vc_ncn = None, vc_snapshot = None, vc_restaking_config = None\<rparr>,
     vcb_digest = None, vcb_aggregated_g2 = None, vcb_aggregated_signature = None,
     vcb_operators_signature_bitmap = None, vcb_expected_generation = None,
     vcb_remaining_accounts = []\<rparr>"

definition verify_certificate_build :: "verify_certificate_builder \<Rightarrow> program_error + instruction" where
  "verify_certificate_build self =
     (let accounts = vcb_accounts self in
      try_bind (expect (vc_ncn_config accounts)) (\<lambda>ncn_config.
      try_bind (expect (vc_ncn accounts)) (\<lambda>ncn.
      try_bind (expect (vc_snapshot accounts)) (\<lambda>snapshot.
      try_bind (expect (vc_restaking_config accounts)) (\<lambda>restaking_config.
      try_bind (expect (vcb_digest self)) (\<lambda>arg_digest.
      try_bind (expect (vcb_aggregated_g2 self)) (\<lambda>arg_aggregated_g2.
      try_bind (expect (vcb_aggregated_signature self)) (\<lambda>arg_aggregated_signature.
      try_bind (expect (vcb_operators_signature_bitmap self)) (\<lambda>arg_operators_signature_bitmap.
      try_bind (expect (vcb_expected_generation self)) (\<lambda>arg_expected_generation.
      verify_certificate_instruction
        \<lparr>vc_ncn_config = ncn_config, vc_ncn = ncn, vc_snapshot = snapshot,
         vc_restaking_config = restaking_config\<rparr>
        \<lparr>vc_digest = arg_digest, vc_aggregated_g2 = arg_aggregated_g2,
         vc_aggregated_signature = arg_aggregated_signature,
         vc_operators_signature_bitmap = arg_operators_signature_bitmap,
         vc_expected_generation = arg_expected_generation\<rparr>
        (vcb_remaining_accounts self)))))))))))"

subsection \<open>AdminSetParameters\<close>

record 'k admin_set_parameters_accounts =
  asp_config :: 'k
  asp_ncn :: 'k
  asp_ncn_admin :: 'k

record admin_set_parameters_args =
  asp_starting_valid_epoch :: "u64 option"
  asp_epochs_before_stall :: "u64 option"
  asp_epochs_after_consensus_before_close :: "u64 option"
  asp_valid_slots_after_consensus :: "u64 option"
  asp_minimum_stake :: "u128 option"
  asp_consensus_threshold_bps :: "u16 option"

definition enc_admin_set_parameters_args :: "admin_set_parameters_args \<Rightarrow> bytes" where
  "enc_admin_set_parameters_args args =
     enc_option (le_bytes 8) (asp_starting_valid_epoch args) @
     enc_option (le_bytes 8) (asp_epochs_before_stall args) @
     enc_option (le_bytes 8) (asp_epochs_after_consensus_before_close args) @
     enc_option (le_bytes 8) (asp_valid_slots_after_consensus args) @
     enc_option (le_bytes 16) (asp_minimum_stake args) @
     enc_option (le_bytes 2) (asp_consensus_threshold_bps args)"

definition admin_set_parameters_data :: bytes where "admin_set_parameters_data = [11]"

definition admin_set_parameters_instruction ::
  "pubkey admin_set_parameters_accounts \<Rightarrow> admin_set_parameters_args \<Rightarrow> account_meta list \<Rightarrow> program_error + instruction" where
  "admin_set_parameters_instruction self args remaining_accounts =
     try_bind (client_data admin_set_parameters_data enc_admin_set_parameters_args any args) (\<lambda>data.
     Inr (client_ix
       ([meta_new (asp_config self) False, meta_readonly (asp_ncn self) False,
         meta_readonly (asp_ncn_admin self) True]
         @ remaining_accounts) data))"

record admin_set_parameters_builder =
  aspb_accounts :: "pubkey option admin_set_parameters_accounts"
  aspb_starting_valid_epoch :: "u64 option"
  aspb_epochs_before_stall :: "u64 option"
  aspb_epochs_after_consensus_before_close :: "u64 option"
  aspb_valid_slots_after_consensus :: "u64 option"
  aspb_minimum_stake :: "u128 option"
  aspb_consensus_threshold_bps :: "u16 option"
  aspb_remaining_accounts :: "account_meta list"

definition admin_set_parameters_builder_new :: admin_set_parameters_builder where
  "admin_set_parameters_builder_new = \<lparr>aspb_accounts = \<lparr>asp_config = None, asp_ncn = None, asp_ncn_admin = None\<rparr>,
     aspb_starting_valid_epoch = None, aspb_epochs_before_stall = None,
     aspb_epochs_after_consensus_before_close = None, aspb_valid_slots_after_consensus = None,
     aspb_minimum_stake = None, aspb_consensus_threshold_bps = None, aspb_remaining_accounts = []\<rparr>"

definition admin_set_parameters_build :: "admin_set_parameters_builder \<Rightarrow> program_error + instruction" where
  "admin_set_parameters_build self =
     (let accounts = aspb_accounts self in
      try_bind (expect (asp_config accounts)) (\<lambda>config.
      try_bind (expect (asp_ncn accounts)) (\<lambda>ncn.
      try_bind (expect (asp_ncn_admin accounts)) (\<lambda>ncn_admin.
      admin_set_parameters_instruction
        \<lparr>asp_config = config, asp_ncn = ncn, asp_ncn_admin = ncn_admin\<rparr>
        \<lparr>asp_starting_valid_epoch = aspb_starting_valid_epoch self,
         asp_epochs_before_stall = aspb_epochs_before_stall self,
         asp_epochs_after_consensus_before_close = aspb_epochs_after_consensus_before_close self,
         asp_valid_slots_after_consensus = aspb_valid_slots_after_consensus self,
         asp_minimum_stake = aspb_minimum_stake self,
         asp_consensus_threshold_bps = aspb_consensus_threshold_bps self\<rparr>
        (aspb_remaining_accounts self)))))"

subsection \<open>AdminSetNewAdmin\<close>

record 'k admin_set_new_admin_accounts =
  asna_config :: 'k
  asna_ncn :: 'k
  asna_ncn_admin :: 'k
  asna_new_admin :: 'k

record admin_set_new_admin_args =
  asna_role :: config_admin_role

definition enc_admin_set_new_admin_args :: "admin_set_new_admin_args \<Rightarrow> bytes" where
  "enc_admin_set_new_admin_args args =
     enc_config_admin_role (asna_role args)"

definition admin_set_new_admin_data :: bytes where "admin_set_new_admin_data = [12]"

definition admin_set_new_admin_instruction ::
  "pubkey admin_set_new_admin_accounts \<Rightarrow> admin_set_new_admin_args \<Rightarrow> account_meta list \<Rightarrow> program_error + instruction" where
  "admin_set_new_admin_instruction self args remaining_accounts =
     try_bind (client_data admin_set_new_admin_data enc_admin_set_new_admin_args any args) (\<lambda>data.
     Inr (client_ix
       ([meta_new (asna_config self) False, meta_readonly (asna_ncn self) False,
         meta_readonly (asna_ncn_admin self) True, meta_readonly (asna_new_admin self) False]
         @ remaining_accounts) data))"

record admin_set_new_admin_builder =
  asnab_accounts :: "pubkey option admin_set_new_admin_accounts"
  asnab_role :: "config_admin_role option"
  asnab_remaining_accounts :: "account_meta list"

definition admin_set_new_admin_builder_new :: admin_set_new_admin_builder where
  "admin_set_new_admin_builder_new = \<lparr>asnab_accounts = \<lparr>asna_config = None, asna_ncn = None, asna_ncn_admin = None, asna_new_admin = None\<rparr>,
     asnab_role = None, asnab_remaining_accounts = []\<rparr>"

definition admin_set_new_admin_build :: "admin_set_new_admin_builder \<Rightarrow> program_error + instruction" where
  "admin_set_new_admin_build self =
     (let accounts = asnab_accounts self in
      try_bind (expect (asna_config accounts)) (\<lambda>config.
      try_bind (expect (asna_ncn accounts)) (\<lambda>ncn.
      try_bind (expect (asna_ncn_admin accounts)) (\<lambda>ncn_admin.
      try_bind (expect (asna_new_admin accounts)) (\<lambda>new_admin.
      try_bind (expect (asnab_role self)) (\<lambda>arg_role.
      admin_set_new_admin_instruction
        \<lparr>asna_config = config, asna_ncn = ncn, asna_ncn_admin = ncn_admin,
         asna_new_admin = new_admin\<rparr>
        \<lparr>asna_role = arg_role\<rparr>
        (asnab_remaining_accounts self)))))))"

subsection \<open>AdminRegisterStMint\<close>

record 'k admin_register_st_mint_accounts =
  arsm_config :: 'k
  arsm_ncn :: 'k
  arsm_st_mint :: 'k
  arsm_vault_registry :: 'k
  arsm_admin :: 'k

record admin_register_st_mint_args =
  arsm_weight_bps :: u16

definition enc_admin_register_st_mint_args :: "admin_register_st_mint_args \<Rightarrow> bytes" where
  "enc_admin_register_st_mint_args args =
     le_bytes 2 (arsm_weight_bps args)"

definition admin_register_st_mint_data :: bytes where "admin_register_st_mint_data = [13]"

definition admin_register_st_mint_instruction ::
  "pubkey admin_register_st_mint_accounts \<Rightarrow> admin_register_st_mint_args \<Rightarrow> account_meta list \<Rightarrow> program_error + instruction" where
  "admin_register_st_mint_instruction self args remaining_accounts =
     try_bind (client_data admin_register_st_mint_data enc_admin_register_st_mint_args any args) (\<lambda>data.
     Inr (client_ix
       ([meta_readonly (arsm_config self) False, meta_readonly (arsm_ncn self) False,
         meta_readonly (arsm_st_mint self) False, meta_new (arsm_vault_registry self) False,
         meta_new (arsm_admin self) True]
         @ remaining_accounts) data))"

record admin_register_st_mint_builder =
  arsmb_accounts :: "pubkey option admin_register_st_mint_accounts"
  arsmb_weight_bps :: "u16 option"
  arsmb_remaining_accounts :: "account_meta list"

definition admin_register_st_mint_builder_new :: admin_register_st_mint_builder where
  "admin_register_st_mint_builder_new = \<lparr>arsmb_accounts = \<lparr>arsm_config = None, arsm_ncn = None, arsm_st_mint = None, arsm_vault_registry = None,
       arsm_admin = None\<rparr>,
     arsmb_weight_bps = None, arsmb_remaining_accounts = []\<rparr>"

definition admin_register_st_mint_build :: "admin_register_st_mint_builder \<Rightarrow> program_error + instruction" where
  "admin_register_st_mint_build self =
     (let accounts = arsmb_accounts self in
      try_bind (expect (arsm_config accounts)) (\<lambda>config.
      try_bind (expect (arsm_ncn accounts)) (\<lambda>ncn.
      try_bind (expect (arsm_st_mint accounts)) (\<lambda>st_mint.
      try_bind (expect (arsm_vault_registry accounts)) (\<lambda>vault_registry.
      try_bind (expect (arsm_admin accounts)) (\<lambda>admin.
      try_bind (expect (arsmb_weight_bps self)) (\<lambda>arg_weight_bps.
      admin_register_st_mint_instruction
        \<lparr>arsm_config = config, arsm_ncn = ncn, arsm_st_mint = st_mint,
         arsm_vault_registry = vault_registry, arsm_admin = admin\<rparr>
        \<lparr>arsm_weight_bps = arg_weight_bps\<rparr>
        (arsmb_remaining_accounts self))))))))"

subsection \<open>All the calls\<close>

datatype client_call =
    CallInitializeConfig "pubkey initialize_config_accounts" initialize_config_args
  | CallInitializeVaultRegistry "pubkey initialize_vault_registry_accounts"
  | CallRegisterVault "pubkey register_vault_accounts"
  | CallRegisterOperator "pubkey register_operator_accounts" register_operator_args
  | CallUpdateOperatorBN128Keys "pubkey update_operator_keys_accounts" update_operator_keys_args
  | CallRemoveOperator "pubkey remove_operator_accounts"
  | CallUpdateOperatorIpPort "pubkey update_operator_ip_port_accounts" update_operator_ip_port_args
  | CallInitializeSnapshot "pubkey initialize_snapshot_accounts"
  | CallReallocSnapshot "pubkey realloc_snapshot_accounts"
  | CallSnapshotVaultOperatorDelegation "pubkey snapshot_vault_operator_delegation_accounts"
  | CallVerifyCertificate "pubkey verify_certificate_accounts" verify_certificate_args
  | CallAdminSetParameters "pubkey admin_set_parameters_accounts" admin_set_parameters_args
  | CallAdminSetNewAdmin "pubkey admin_set_new_admin_accounts" admin_set_new_admin_args
  | CallAdminRegisterStMint "pubkey admin_register_st_mint_accounts" admin_register_st_mint_args

fun client_instruction :: "client_call \<Rightarrow> account_meta list \<Rightarrow> program_error + instruction" where
  "client_instruction (CallInitializeConfig accounts args) remaining = initialize_config_instruction accounts args remaining"
| "client_instruction (CallInitializeVaultRegistry accounts) remaining = initialize_vault_registry_instruction accounts remaining"
| "client_instruction (CallRegisterVault accounts) remaining = register_vault_instruction accounts remaining"
| "client_instruction (CallRegisterOperator accounts args) remaining = register_operator_instruction accounts args remaining"
| "client_instruction (CallUpdateOperatorBN128Keys accounts args) remaining = update_operator_keys_instruction accounts args remaining"
| "client_instruction (CallRemoveOperator accounts) remaining = remove_operator_instruction accounts remaining"
| "client_instruction (CallUpdateOperatorIpPort accounts args) remaining = update_operator_ip_port_instruction accounts args remaining"
| "client_instruction (CallInitializeSnapshot accounts) remaining = initialize_snapshot_instruction accounts remaining"
| "client_instruction (CallReallocSnapshot accounts) remaining = realloc_snapshot_instruction accounts remaining"
| "client_instruction (CallSnapshotVaultOperatorDelegation accounts) remaining = snapshot_vault_operator_delegation_instruction accounts remaining"
| "client_instruction (CallVerifyCertificate accounts args) remaining = verify_certificate_instruction accounts args remaining"
| "client_instruction (CallAdminSetParameters accounts args) remaining = admin_set_parameters_instruction accounts args remaining"
| "client_instruction (CallAdminSetNewAdmin accounts args) remaining = admin_set_new_admin_instruction accounts args remaining"
| "client_instruction (CallAdminRegisterStMint accounts args) remaining = admin_register_st_mint_instruction accounts args remaining"

text \<open>The instruction of the program that a call means.\<close>

fun call_instruction :: "client_call \<Rightarrow> ncn_instruction" where
  "call_instruction (CallInitializeConfig accounts args) = InitializeConfig
     (ic_epochs_before_stall args) (ic_epochs_after_consensus_before_close args)
     (ic_valid_slots_after_consensus args) (ic_minimum_stake args) (ic_ncn_fee_bps args)"
| "call_instruction (CallInitializeVaultRegistry accounts) = InitializeVaultRegistry"
| "call_instruction (CallRegisterVault accounts) = RegisterVault"
| "call_instruction (CallRegisterOperator accounts args) = RegisterOperator
     (ro_g1_pubkey args) (ro_g2_pubkey args) (ro_signature args)"
| "call_instruction (CallUpdateOperatorBN128Keys accounts args) = UpdateOperatorBN128Keys
     (uk_g1_pubkey args) (uk_g2_pubkey args) (uk_signature args)"
| "call_instruction (CallRemoveOperator accounts) = RemoveOperator"
| "call_instruction (CallUpdateOperatorIpPort accounts args) = UpdateOperatorIpPort
     (uip_ip_address args) (uip_port args)"
| "call_instruction (CallInitializeSnapshot accounts) = InitializeSnapshot"
| "call_instruction (CallReallocSnapshot accounts) = ReallocSnapshot"
| "call_instruction (CallSnapshotVaultOperatorDelegation accounts) = SnapshotVaultOperatorDelegation"
| "call_instruction (CallVerifyCertificate accounts args) = VerifyCertificate
     (vc_digest args) (vc_aggregated_g2 args) (vc_aggregated_signature args)
     (vc_operators_signature_bitmap args) (vc_expected_generation args)"
| "call_instruction (CallAdminSetParameters accounts args) = AdminSetParameters
     (asp_starting_valid_epoch args) (asp_epochs_before_stall args)
     (asp_epochs_after_consensus_before_close args) (asp_valid_slots_after_consensus args)
     (asp_minimum_stake args) (asp_consensus_threshold_bps args)"
| "call_instruction (CallAdminSetNewAdmin accounts args) = AdminSetNewAdmin
     (asna_role args)"
| "call_instruction (CallAdminRegisterStMint accounts args) = AdminRegisterStMint
     (arsm_weight_bps args)"

text \<open>The accounts of a call with their signer and writable flags, as the program declares them.\<close>

fun declared_accounts :: "client_call \<Rightarrow> (pubkey \<times> bool \<times> bool) list" where
  "declared_accounts (CallInitializeConfig accounts args) =
     [(ic_config accounts, False, True), (ic_ncn accounts, False, False),
      (ic_ncn_fee_wallet accounts, False, False), (ic_ncn_admin accounts, True, False),
      (ic_tie_breaker_admin accounts, False, False), (ic_account_payer accounts, False, True),
      (ic_system_program accounts, False, False)]"
| "declared_accounts (CallInitializeVaultRegistry accounts) =
     [(ivr_config accounts, False, False), (ivr_vault_registry accounts, False, True),
      (ivr_ncn accounts, False, False), (ivr_account_payer accounts, False, True),
      (ivr_system_program accounts, False, False)]"
| "declared_accounts (CallRegisterVault accounts) =
     [(rv_config accounts, False, False), (rv_vault_registry accounts, False, True),
      (rv_ncn accounts, False, False), (rv_vault accounts, False, False),
      (rv_ncn_vault_ticket accounts, False, False)]"
| "declared_accounts (CallRegisterOperator accounts args) =
     [(ro_config accounts, False, False), (ro_ncn_operator_account accounts, False, True),
      (ro_ncn accounts, False, False), (ro_operator accounts, False, False),
      (ro_operator_admin accounts, True, False), (ro_ncn_operator_state accounts, False, False),
      (ro_snapshot accounts, False, True), (ro_restaking_config accounts, False, False),
      (ro_account_payer accounts, False, True), (ro_system_program accounts, False, False)]"
| "declared_accounts (CallUpdateOperatorBN128Keys accounts args) =
     [(uk_config accounts, False, False), (uk_ncn_operator_account accounts, False, True),
      (uk_ncn accounts, False, False), (uk_operator accounts, False, False),
      (uk_operator_admin accounts, True, False), (uk_snapshot accounts, False, True)]"
| "declared_accounts (CallRemoveOperator accounts) =
     [(rmo_config accounts, False, False), (rmo_ncn accounts, False, False),
      (rmo_operator accounts, False, False), (rmo_admin accounts, True, False),
      (rmo_snapshot accounts, False, True)]"
| "declared_accounts (CallUpdateOperatorIpPort accounts args) =
     [(uip_config accounts, False, False), (uip_ncn_operator_account accounts, False, True),
      (uip_ncn accounts, False, False), (uip_operator accounts, False, False),
      (uip_operator_admin accounts, True, False)]"
| "declared_accounts (CallInitializeSnapshot accounts) =
     [(isn_ncn accounts, False, False), (isn_snapshot accounts, False, True),
      (isn_account_payer accounts, False, True), (isn_system_program accounts, False, False)]"
| "declared_accounts (CallReallocSnapshot accounts) =
     [(rsn_ncn accounts, False, False), (rsn_config accounts, False, False),
      (rsn_snapshot accounts, False, True), (rsn_account_payer accounts, False, True),
      (rsn_system_program accounts, False, False)]"
| "declared_accounts (CallSnapshotVaultOperatorDelegation accounts) =
     [(svd_config accounts, False, False), (svd_restaking_config accounts, False, False),
      (svd_ncn accounts, False, False), (svd_operator accounts, False, False),
      (svd_vault accounts, False, False), (svd_vault_ncn_ticket accounts, False, False),
      (svd_ncn_vault_ticket accounts, False, False),
      (svd_ncn_operator_state accounts, False, False),
      (svd_vault_operator_delegation accounts, False, False), (svd_snapshot accounts, False, True),
      (svd_vault_registry accounts, False, False)]"
| "declared_accounts (CallVerifyCertificate accounts args) =
     [(vc_ncn_config accounts, False, False), (vc_ncn accounts, False, False),
      (vc_snapshot accounts, False, False), (vc_restaking_config accounts, False, False)]"
| "declared_accounts (CallAdminSetParameters accounts args) =
     [(asp_config accounts, False, True), (asp_ncn accounts, False, False),
      (asp_ncn_admin accounts, True, False)]"
| "declared_accounts (CallAdminSetNewAdmin accounts args) =
     [(asna_config accounts, False, True), (asna_ncn accounts, False, False),
      (asna_ncn_admin accounts, True, False), (asna_new_admin accounts, False, False)]"
| "declared_accounts (CallAdminRegisterStMint accounts args) =
     [(arsm_config accounts, False, False), (arsm_ncn accounts, False, False),
      (arsm_st_mint accounts, False, False), (arsm_vault_registry accounts, False, True),
      (arsm_admin accounts, True, True)]"

definition meta_of :: "pubkey \<times> bool \<times> bool \<Rightarrow> account_meta" where
  "meta_of a = (case a of (key, is_signer, is_writable) \<Rightarrow>
     \<lparr>am_pubkey = key, am_is_signer = is_signer, am_is_writable = is_writable\<rparr>)"

end
