(* ===== verification/Client_Properties.thy ===== *)
theory Client_Properties
  imports Client
begin

text \<open>
  The client and the program agree: every instruction the client builds is the byte form of the
  instruction the call means, on the accounts the program declares for it, and is therefore
  dispatched to its handler.
\<close>

lemmas call_data_simps =
  initialize_config_data_def initialize_vault_registry_data_def register_vault_data_def
  register_operator_data_def update_operator_keys_data_def remove_operator_data_def
  update_operator_ip_port_data_def initialize_snapshot_data_def realloc_snapshot_data_def
  snapshot_vault_operator_delegation_data_def verify_certificate_data_def admin_set_parameters_data_def
  admin_set_new_admin_data_def admin_register_st_mint_data_def
  enc_initialize_config_args_def enc_register_operator_args_def enc_update_operator_keys_args_def
  enc_update_operator_ip_port_args_def enc_verify_certificate_args_def enc_admin_set_parameters_args_def
  enc_admin_set_new_admin_args_def enc_admin_register_st_mint_args_def

lemmas call_simps =
  initialize_config_instruction_def initialize_vault_registry_instruction_def
  register_vault_instruction_def register_operator_instruction_def update_operator_keys_instruction_def
  remove_operator_instruction_def update_operator_ip_port_instruction_def
  initialize_snapshot_instruction_def realloc_snapshot_instruction_def
  snapshot_vault_operator_delegation_instruction_def verify_certificate_instruction_def
  admin_set_parameters_instruction_def admin_set_new_admin_instruction_def
  admin_register_st_mint_instruction_def

text \<open>What a call has to become: the declared accounts, then the extra ones, and the encoded instruction.\<close>

definition call_form :: "client_call \<Rightarrow> account_meta list \<Rightarrow> instruction" where
  "call_form call remaining =
     \<lparr>ix_program_id = NCN_PROGRAM_ID, ix_accounts = map meta_of (declared_accounts call) @ remaining,
      ix_data = enc_ncn_instruction (call_instruction call)\<rparr>"

lemma call_form_simps [simp]:
  "ix_program_id (call_form call remaining) = NCN_PROGRAM_ID"
  "ix_accounts (call_form call remaining) = map meta_of (declared_accounts call) @ remaining"
  "ix_data (call_form call remaining) = enc_ncn_instruction (call_instruction call)"
  by (simp_all add: call_form_def)

lemma client_instruction_form:
  "client_instruction call remaining =
     (if wf_ncn_instruction (call_instruction call) then Inr (call_form call remaining) else Inl PE_Panic)"
  by (cases call)
    (simp_all add: call_simps call_data_simps call_form_def client_data_def client_ix_def meta_of_def
      meta_new_def meta_readonly_def wf_ncn_instruction_def try_to_vec_def enc_pair_def split_beta)

text \<open>
  C28: The client's fourteen instruction builders fit the program: a call succeeds exactly if its
  byte vector fits a 32-bit length prefix (only a certificate's bitmap can fail, with a panic), and
  the instruction is addressed to the program, carries the byte form of the instruction the call
  means, and lists the accounts in the order and with the signer and writable flags the program
  declares, followed by the remaining accounts.
\<close>

theorem client_calls_well_formed:
  "client_instruction call remaining =
     (if wf_ncn_instruction (call_instruction call)
      then Inr \<lparr>ix_program_id = NCN_PROGRAM_ID,
        ix_accounts = map meta_of (declared_accounts call) @ remaining,
        ix_data = enc_ncn_instruction (call_instruction call)\<rparr>
      else Inl PE_Panic)"
  by (simp add: client_instruction_form call_form_def)

lemma dispatch_encoded:
  "wf_ncn_instruction ix \<Longrightarrow>
   ncn_process_instruction R J P S NCN_PROGRAM_ID A (enc_ncn_instruction ix) =
     run_ncn_instruction R J P S NCN_PROGRAM_ID A ix"
  by (simp add: ncn_process_instruction_def ncn_codec.try_from_slice_iff [THEN iffD2])

text \<open>
  C29: Whatever the client builds, the program's entrypoint runs the handler of the instruction the
  call means, with the call's arguments, and nothing else.
\<close>

theorem client_calls_dispatch:
  assumes "client_instruction call remaining = Inr ix"
  shows "ncn_process_instruction R J P S (ix_program_id ix) A (ix_data ix) =
    run_ncn_instruction R J P S NCN_PROGRAM_ID A (call_instruction call)"
  using assms by (auto simp: client_instruction_form dispatch_encoded split: if_splits)

text \<open>Building a certificate check for a bitmap of two bytes.\<close>

theorem client_calls_dispatch_witness:
  "\<exists>ix. client_instruction (CallVerifyCertificate \<lparr>vc_ncn_config = 1, vc_ncn = 2, vc_snapshot = 3,
       vc_restaking_config = 4\<rparr> \<lparr>vc_digest = 5, vc_aggregated_g2 = 6, vc_aggregated_signature = 7,
       vc_operators_signature_bitmap = [1, 2], vc_expected_generation = 8\<rparr>) [] = Inr ix \<and>
     (\<forall>R J P S A. ncn_process_instruction R J P S (ix_program_id ix) A (ix_data ix) =
       run_ncn_instruction R J P S NCN_PROGRAM_ID A (VerifyCertificate 5 6 7 [1, 2] 8))"
proof -
  let ?call = "CallVerifyCertificate \<lparr>vc_ncn_config = 1, vc_ncn = 2, vc_snapshot = 3,
       vc_restaking_config = 4\<rparr> \<lparr>vc_digest = 5, vc_aggregated_g2 = 6, vc_aggregated_signature = 7,
       vc_operators_signature_bitmap = [1, 2], vc_expected_generation = 8\<rparr>"
  have built: "client_instruction ?call [] = Inr (call_form ?call [])"
    unfolding client_instruction_form by (simp add: wf_ncn_instruction_def)
  have means: "call_instruction ?call = VerifyCertificate 5 6 7 [1, 2] 8" by simp
  show ?thesis
    by (intro exI [of _ "call_form ?call []"] conjI allI built client_calls_dispatch [OF built, unfolded means])
qed

end
