(* ===== verification/Cli_Rpc.thy ===== *)
theory Cli_Rpc
  imports Client Host_Keys Vault_Registry Snapshot
begin

text \<open>
  The command line's handler and what it reads from the chain (\<open>cli/src/handler.rs\<close>,
  \<open>cli/src/getters.rs\<close>).  A command is a function of the world that returns a result and the next
  world; the world and the RPC node's answers are parameters.  Waiting and logging are left out.
\<close>

subsection \<open>Commands\<close>

datatype cli_error =
    CE_Rpc
  | CE_Send
  | CE_NoKeypair
  | CE_NoNcn
  | CE_AccountNotFound
  | CE_NotCreated
  | CE_OperatorNotFound
  | CE_InvalidIp
  | CE_InvalidOctet
  | CE_NoSnapshot
  | CE_Parse
  | CE_PartialKeys
  | CE_Keys keys_error
  | CE_Program program_error
  | CE_Panic

type_synonym ('w, 'a) command = "'w \<Rightarrow> (cli_error + 'a) \<times> 'w"

definition cmd_ok :: "'a \<Rightarrow> ('w, 'a) command" where "cmd_ok x w = (Inr x, w)"

definition cmd_err :: "cli_error \<Rightarrow> ('w, 'a) command" where "cmd_err e w = (Inl e, w)"

definition cmd_bind :: "('w, 'a) command \<Rightarrow> ('a \<Rightarrow> ('w, 'b) command) \<Rightarrow> ('w, 'b) command" where
  "cmd_bind m f w = (case m w of (Inl e, w') \<Rightarrow> (Inl e, w') | (Inr x, w') \<Rightarrow> f x w')"

definition cmd_lift :: "cli_error + 'a \<Rightarrow> ('w, 'a) command" where "cmd_lift r w = (r, w)"

text \<open>\<open>?\<close> on a program's error, and the unwinding of a panic.\<close>

definition cli_error_of :: "program_error \<Rightarrow> cli_error" where
  "cli_error_of e = (if e = PE_Panic then CE_Panic else CE_Program e)"

definition cmd_program :: "program_error + 'a \<Rightarrow> ('w, 'a) command" where
  "cmd_program r = cmd_lift (map_err cli_error_of r)"

text \<open>\<open>let result = command.await\<close>: an error becomes a value, a panic does not.\<close>

definition cmd_try :: "('w, 'a) command \<Rightarrow> ('w, cli_error + 'a) command" where
  "cmd_try m w = (case m w of (r, w') \<Rightarrow> if r = Inl CE_Panic then (Inl CE_Panic, w') else (Inr r, w'))"

text \<open>\<open>for x in xs { f(x)?; }\<close>\<close>

fun cmd_each :: "('a \<Rightarrow> ('w, unit) command) \<Rightarrow> 'a list \<Rightarrow> ('w, unit) command" where
  "cmd_each f [] = cmd_ok ()"
| "cmd_each f (x # xs) = cmd_bind (f x) (\<lambda>_. cmd_each f xs)"

subsection \<open>The outside\<close>

record rpc_account =
  ra_owner :: pubkey
  ra_lamports :: u64
  ra_data :: bytes

record transaction =
  tx_instructions :: "instruction list"
  tx_payer :: pubkey
  tx_signers :: "pubkey list"
  tx_blockhash :: bytes32

datatype send_mode = Skip_preflight | Preflight

datatype account_filter = Data_size nat | Memcmp nat bytes

record 'w rpc =
  rpc_get_account :: "pubkey \<Rightarrow> ('w, rpc_account option) command"
  rpc_get_program_accounts :: "pubkey \<Rightarrow> account_filter list \<Rightarrow> ('w, (pubkey \<times> rpc_account) list) command"
  rpc_get_epoch :: "('w, u64) command"
  rpc_get_slot :: "('w, u64) command"
  rpc_get_absolute_slot :: "('w, u64) command"
  rpc_get_minimum_balance :: "nat \<Rightarrow> ('w, u64) command"
  rpc_get_latest_blockhash :: "('w, bytes32) command"
  rpc_send :: "send_mode \<Rightarrow> transaction \<Rightarrow> ('w, bytes64) command"

text \<open>
  The account data of this repository's types, the addresses and the account data of the restaking
  and vault programs, and the instructions of other programs.
\<close>

record vault_config_view =
  vcv_epoch_length :: u64
  vcv_epoch_from_slot :: "u64 \<Rightarrow> program_error + u64"

record account_decoders =
  ad_config :: "bytes \<Rightarrow> program_error + config"
  ad_vault_registry :: "bytes \<Rightarrow> program_error + vault_registry"
  ad_snapshot :: "bytes \<Rightarrow> program_error + snapshot"
  ad_operator_state_operator :: "bytes \<Rightarrow> program_error + pubkey"
  ad_operator_state_size :: nat
  ad_ncn_vault_ticket_vault :: "bytes \<Rightarrow> program_error + pubkey"
  ad_ncn_vault_ticket_size :: nat
  ad_delegation_index_operator :: "bytes \<Rightarrow> program_error + u64 \<times> pubkey"
  ad_delegation_size :: nat
  ad_vault_config :: "bytes \<Rightarrow> program_error + vault_config_view"
  ad_ncn_operator_account :: "bytes \<Rightarrow> program_error + ncn_operator_account"
  ad_operator_vault_ticket_state :: "bytes \<Rightarrow> program_error + slot_toggle"
  ad_staked_amount :: "bytes \<Rightarrow> program_error + u64"
  ad_vault_size :: nat
  ad_vault_discriminator :: u8
  ad_tracker_last_updated_index :: "bytes \<Rightarrow> program_error + u64"

record jito_addresses =
  ja_restaking_config :: "pubkey \<Rightarrow> pubkey"
  ja_ncn_operator_state :: "pubkey \<Rightarrow> pubkey \<Rightarrow> pubkey \<Rightarrow> pubkey"
  ja_ncn_vault_ticket :: "pubkey \<Rightarrow> pubkey \<Rightarrow> pubkey \<Rightarrow> pubkey"
  ja_vault_ncn_ticket :: "pubkey \<Rightarrow> pubkey \<Rightarrow> pubkey \<Rightarrow> pubkey"
  ja_operator_vault_ticket :: "pubkey \<Rightarrow> pubkey \<Rightarrow> pubkey \<Rightarrow> pubkey"
  ja_vault_operator_delegation :: "pubkey \<Rightarrow> pubkey \<Rightarrow> pubkey \<Rightarrow> pubkey"
  ja_vault_config :: "pubkey \<Rightarrow> pubkey"
  ja_vault_update_state_tracker :: "pubkey \<Rightarrow> pubkey \<Rightarrow> u64 \<Rightarrow> pubkey"

record foreign_instructions =
  fi_compute_unit_price :: "u64 \<Rightarrow> instruction"
  fi_compute_unit_limit :: "u32 \<Rightarrow> instruction"
  fi_transfer :: "pubkey \<Rightarrow> pubkey \<Rightarrow> u64 \<Rightarrow> instruction"
  fi_initialize_tracker :: "pubkey \<Rightarrow> pubkey \<Rightarrow> pubkey \<Rightarrow> pubkey \<Rightarrow> pubkey \<Rightarrow> instruction"
  fi_crank_tracker :: "pubkey \<Rightarrow> pubkey \<Rightarrow> pubkey \<Rightarrow> pubkey \<Rightarrow> pubkey \<Rightarrow> instruction"
  fi_close_tracker :: "pubkey \<Rightarrow> pubkey \<Rightarrow> pubkey \<Rightarrow> pubkey \<Rightarrow> u64 \<Rightarrow> instruction"

record 'w cli_env =
  ce_rpc :: "'w rpc"
  ce_runtime :: runtime
  ce_jito :: jito
  ce_decoders :: account_decoders
  ce_addresses :: jito_addresses
  ce_foreign :: foreign_instructions

subsection \<open>The handler\<close>

record cli_handler =
  ch_keypair :: "pubkey option"
  ch_restaking_program_id :: pubkey
  ch_vault_program_id :: pubkey
  ch_ncn_program_id :: pubkey
  ch_ncn :: "pubkey option"
  ch_vault :: pubkey
  ch_epoch :: u64
  ch_retries :: u64
  ch_priority_fee_micro_lamports :: u64

definition handler_keypair :: "cli_handler \<Rightarrow> ('w, pubkey) command" where
  "handler_keypair h = cmd_lift (ok_or CE_NoKeypair (ch_keypair h))"

definition handler_ncn :: "cli_handler \<Rightarrow> ('w, pubkey) command" where
  "handler_ncn h = cmd_lift (ok_or CE_NoNcn (ch_ncn h))"

definition program_accounts_config :: "nat \<Rightarrow> pubkey \<Rightarrow> account_filter list" where
  "program_accounts_config size_of account_pubkey =
     [Data_size (size_of + 8), Memcmp 8 (be_bytes 32 account_pubkey)]"

subsection \<open>Getters\<close>

definition get_account :: "'w cli_env \<Rightarrow> pubkey \<Rightarrow> ('w, rpc_account option) command" where
  "get_account E account = rpc_get_account (ce_rpc E) account"

text \<open>An account that must exist, read with the decoder of its type.\<close>

definition get_decoded :: "'w cli_env \<Rightarrow> pubkey \<Rightarrow> (bytes \<Rightarrow> program_error + 'a) \<Rightarrow> ('w, 'a) command" where
  "get_decoded E address decode =
     cmd_bind (get_account E address) (\<lambda>account.
     case account of None \<Rightarrow> cmd_err CE_AccountNotFound
     | Some a \<Rightarrow> cmd_program (decode (ra_data a)))"

definition get_current_epoch :: "'w cli_env \<Rightarrow> ('w, u64) command" where
  "get_current_epoch E = rpc_get_epoch (ce_rpc E)"

definition get_current_slot :: "'w cli_env \<Rightarrow> ('w, u64) command" where
  "get_current_slot E = rpc_get_slot (ce_rpc E)"

definition get_current_epoch_and_slot :: "'w cli_env \<Rightarrow> ('w, u64 \<times> u64) command" where
  "get_current_epoch_and_slot E =
     cmd_bind (get_current_epoch E) (\<lambda>epoch.
     cmd_bind (get_current_slot E) (\<lambda>slot.
     cmd_ok (epoch, slot)))"

text \<open>The loop of at most \<open>MAX_RETRIES\<close> attempts, then the default.\<close>

fun epoch_and_slot_attempts :: "nat \<Rightarrow> 'w cli_env \<Rightarrow> ('w, u64 \<times> u64) command" where
  "epoch_and_slot_attempts 0 E = cmd_ok (0, 0)"
| "epoch_and_slot_attempts (Suc n) E =
     cmd_bind (cmd_try (get_current_epoch_and_slot E)) (\<lambda>result.
     case result of Inr r \<Rightarrow> cmd_ok r | Inl e \<Rightarrow> epoch_and_slot_attempts n E)"

definition get_guaranteed_epoch_and_slot :: "'w cli_env \<Rightarrow> ('w, u64 \<times> u64) command" where
  "get_guaranteed_epoch_and_slot E = epoch_and_slot_attempts 10 E"

definition get_ncn_program_config :: "'w cli_env \<Rightarrow> cli_handler \<Rightarrow> ('w, config) command" where
  "get_ncn_program_config E h =
     cmd_bind (handler_ncn h) (\<lambda>ncn.
     get_decoded E (fst (config_find (ce_runtime E) (ch_ncn_program_id h) ncn)) (ad_config (ce_decoders E)))"

definition get_vault_registry :: "'w cli_env \<Rightarrow> cli_handler \<Rightarrow> ('w, vault_registry) command" where
  "get_vault_registry E h =
     cmd_bind (handler_ncn h) (\<lambda>ncn.
     get_decoded E (fst (vault_registry_find (ce_runtime E) (ch_ncn_program_id h) ncn))
       (ad_vault_registry (ce_decoders E)))"

definition get_snapshot :: "'w cli_env \<Rightarrow> cli_handler \<Rightarrow> ('w, snapshot) command" where
  "get_snapshot E h =
     cmd_bind (handler_ncn h) (\<lambda>ncn.
     get_decoded E (fst (snapshot_find (ce_runtime E) (ch_ncn_program_id h) ncn))
       (ad_snapshot (ce_decoders E)))"

definition cli_get_operator_snapshot ::
  "'w cli_env \<Rightarrow> cli_handler \<Rightarrow> pubkey \<Rightarrow> ('w, operator_snapshot) command" where
  "cli_get_operator_snapshot E h operator =
     cmd_bind (get_snapshot E h) (\<lambda>snapshot.
     cmd_lift (ok_or CE_OperatorNotFound (find_operator_snapshot snapshot operator)))"

definition get_account_payer :: "'w cli_env \<Rightarrow> cli_handler \<Rightarrow> ('w, rpc_account) command" where
  "get_account_payer E h =
     cmd_bind (handler_ncn h) (\<lambda>ncn.
     cmd_bind (get_account E (fst (account_payer_find (ce_runtime E) (ch_ncn_program_id h) ncn))) (\<lambda>account.
     cmd_lift (ok_or CE_AccountNotFound account)))"

definition get_restaking_config :: "'w cli_env \<Rightarrow> cli_handler \<Rightarrow> ('w, u64) command" where
  "get_restaking_config E h =
     get_decoded E (ja_restaking_config (ce_addresses E) (ch_restaking_program_id h))
       (jt_epoch_length (ce_jito E))"

definition get_vault_config :: "'w cli_env \<Rightarrow> cli_handler \<Rightarrow> ('w, vault_config_view) command" where
  "get_vault_config E h =
     get_decoded E (ja_vault_config (ce_addresses E) (ch_vault_program_id h)) (ad_vault_config (ce_decoders E))"

definition get_vault :: "'w cli_env \<Rightarrow> pubkey \<Rightarrow> ('w, vault_view) command" where
  "get_vault E vault = get_decoded E vault (jt_vault (ce_jito E))"

definition get_vault_update_state_tracker ::
  "'w cli_env \<Rightarrow> cli_handler \<Rightarrow> pubkey \<Rightarrow> u64 \<Rightarrow> ('w, u64) command" where
  "get_vault_update_state_tracker E h vault ncn_epoch =
     get_decoded E (ja_vault_update_state_tracker (ce_addresses E) (ch_vault_program_id h) vault ncn_epoch)
       (ad_tracker_last_updated_index (ce_decoders E))"

text \<open>The accounts of a program that decode; those that do not are dropped.\<close>

definition decoded_accounts :: "(bytes \<Rightarrow> program_error + 'a) \<Rightarrow> (pubkey \<times> rpc_account) list \<Rightarrow> 'a list" where
  "decoded_accounts decode results = List.map_filter (\<lambda>r. result_ok (decode (ra_data (snd r)))) results"

definition get_all_operators_in_ncn :: "'w cli_env \<Rightarrow> cli_handler \<Rightarrow> ('w, pubkey list) command" where
  "get_all_operators_in_ncn E h =
     cmd_bind (handler_ncn h) (\<lambda>ncn.
     cmd_bind (rpc_get_program_accounts (ce_rpc E) (ch_restaking_program_id h)
       (program_accounts_config (ad_operator_state_size (ce_decoders E)) ncn)) (\<lambda>results.
     cmd_ok (decoded_accounts (ad_operator_state_operator (ce_decoders E)) results)))"

definition get_all_vaults_in_ncn :: "'w cli_env \<Rightarrow> cli_handler \<Rightarrow> ('w, pubkey list) command" where
  "get_all_vaults_in_ncn E h =
     cmd_bind (handler_ncn h) (\<lambda>ncn.
     cmd_bind (rpc_get_program_accounts (ce_rpc E) (ch_restaking_program_id h)
       (program_accounts_config (ad_ncn_vault_ticket_size (ce_decoders E)) ncn)) (\<lambda>results.
     cmd_ok (decoded_accounts (ad_ncn_vault_ticket_vault (ce_decoders E)) results)))"

text \<open>\<open>sort_by_cached_key\<close> is the stable sort.\<close>

definition get_all_sorted_operators_for_vault ::
  "'w cli_env \<Rightarrow> cli_handler \<Rightarrow> pubkey \<Rightarrow> ('w, pubkey list) command" where
  "get_all_sorted_operators_for_vault E h vault =
     cmd_bind (rpc_get_program_accounts (ce_rpc E) (ch_vault_program_id h)
       (program_accounts_config (ad_delegation_size (ce_decoders E)) vault)) (\<lambda>results.
     cmd_ok (map snd (sort_key fst (decoded_accounts (ad_delegation_index_operator (ce_decoders E)) results))))"

end
