(* ===== verification/Cli_Instructions.thy ===== *)
theory Cli_Instructions
  imports Cli_Rpc Rust_Strings
begin

text \<open>
  The commands of the command line that build and send instructions (\<open>cli/src/instructions.rs\<close>): the
  account addresses they derive, the transactions they send with their retries, the accounts they
  create, and the cranks over vaults and operators.
\<close>

subsection \<open>Sending\<close>

definition signed_transaction :: "instruction list \<Rightarrow> pubkey \<Rightarrow> pubkey list \<Rightarrow> bytes32 \<Rightarrow> transaction" where
  "signed_transaction instructions keypair signing_keypairs blockhash =
     \<lparr>tx_instructions = instructions, tx_payer = keypair, tx_signers = keypair # signing_keypairs,
      tx_blockhash = blockhash\<rparr>"

text \<open>The attempts with the priority fee, then the last one without it.\<close>

fun send_attempts ::
  "'w cli_env \<Rightarrow> nat \<Rightarrow> u64 \<Rightarrow> instruction list \<Rightarrow> pubkey \<Rightarrow> pubkey list \<Rightarrow> ('w, bytes64) command" where
  "send_attempts E 0 priority_fee instructions keypair signing_keypairs =
     cmd_bind (rpc_get_latest_blockhash (ce_rpc E)) (\<lambda>blockhash.
     cmd_bind (cmd_try (rpc_send (ce_rpc E) Preflight
       (signed_transaction instructions keypair signing_keypairs blockhash))) (\<lambda>result.
     case result of Inl e \<Rightarrow> cmd_err CE_Send | Inr signature \<Rightarrow> cmd_ok signature))"
| "send_attempts E (Suc n) priority_fee instructions keypair signing_keypairs =
     cmd_bind (rpc_get_latest_blockhash (ce_rpc E)) (\<lambda>blockhash.
     cmd_bind (cmd_try (rpc_send (ce_rpc E) Skip_preflight
       (signed_transaction (fi_compute_unit_price (ce_foreign E) priority_fee # instructions)
         keypair signing_keypairs blockhash))) (\<lambda>result.
     case result of
       Inl e \<Rightarrow> send_attempts E n priority_fee instructions keypair signing_keypairs
     | Inr signature \<Rightarrow> cmd_ok signature))"

definition send_transactions ::
  "'w cli_env \<Rightarrow> cli_handler \<Rightarrow> instruction list \<Rightarrow> pubkey list \<Rightarrow> ('w, bytes64) command" where
  "send_transactions E h instructions signing_keypairs =
     cmd_bind (handler_keypair h) (\<lambda>keypair.
     send_attempts E (unat (ch_retries h)) (ch_priority_fee_micro_lamports h) instructions keypair
       signing_keypairs)"

definition send_and_log_transaction ::
  "'w cli_env \<Rightarrow> cli_handler \<Rightarrow> instruction list \<Rightarrow> pubkey list \<Rightarrow> ('w, unit) command" where
  "send_and_log_transaction E h instructions signing_keypairs =
     cmd_bind (send_transactions E h instructions signing_keypairs) (\<lambda>_. cmd_ok ())"

subsection \<open>Addresses\<close>

abbreviation config_address :: "'w cli_env \<Rightarrow> cli_handler \<Rightarrow> pubkey \<Rightarrow> pubkey" where
  "config_address E h ncn \<equiv> fst (config_find (ce_runtime E) (ch_ncn_program_id h) ncn)"

abbreviation vault_registry_address :: "'w cli_env \<Rightarrow> cli_handler \<Rightarrow> pubkey \<Rightarrow> pubkey" where
  "vault_registry_address E h ncn \<equiv> fst (vault_registry_find (ce_runtime E) (ch_ncn_program_id h) ncn)"

abbreviation snapshot_address :: "'w cli_env \<Rightarrow> cli_handler \<Rightarrow> pubkey \<Rightarrow> pubkey" where
  "snapshot_address E h ncn \<equiv> fst (snapshot_find (ce_runtime E) (ch_ncn_program_id h) ncn)"

abbreviation account_payer_address :: "'w cli_env \<Rightarrow> cli_handler \<Rightarrow> pubkey \<Rightarrow> pubkey" where
  "account_payer_address E h ncn \<equiv> fst (account_payer_find (ce_runtime E) (ch_ncn_program_id h) ncn)"

abbreviation operator_account_address :: "'w cli_env \<Rightarrow> cli_handler \<Rightarrow> pubkey \<Rightarrow> pubkey \<Rightarrow> pubkey" where
  "operator_account_address E h ncn operator \<equiv>
     fst (ncn_operator_account_find (ce_runtime E) (ch_ncn_program_id h) ncn operator)"

subsection \<open>Administration\<close>

definition create_config_ix ::
  "'w cli_env \<Rightarrow> cli_handler \<Rightarrow> pubkey \<Rightarrow> pubkey \<Rightarrow> pubkey \<Rightarrow> u16 \<Rightarrow> pubkey option \<Rightarrow> u64 \<Rightarrow> u64 \<Rightarrow> u64 \<Rightarrow> u128 \<Rightarrow>
   program_error + instruction" where
  "create_config_ix E h keypair ncn ncn_fee_wallet fee_bps tie_breaker_admin epochs_before_stall
     valid_slots_after_consensus epochs_after_consensus_before_close minimum_stake =
     initialize_config_build (initialize_config_builder_new
       \<lparr>icb_accounts := \<lparr>ic_config = Some (config_address E h ncn), ic_ncn = Some ncn,
          ic_ncn_fee_wallet = Some ncn_fee_wallet, ic_ncn_admin = Some keypair,
          ic_tie_breaker_admin = Some (case tie_breaker_admin of Some k \<Rightarrow> k | None \<Rightarrow> keypair),
          ic_account_payer = Some (account_payer_address E h ncn),
          ic_system_program = Some SYSTEM_PROGRAM_ID\<rparr>,
        icb_epochs_before_stall := Some epochs_before_stall,
        icb_epochs_after_consensus_before_close := Some epochs_after_consensus_before_close,
        icb_valid_slots_after_consensus := Some valid_slots_after_consensus,
        icb_minimum_stake := Some minimum_stake, icb_ncn_fee_bps := Some fee_bps\<rparr>)"

definition admin_create_config ::
  "'w cli_env \<Rightarrow> cli_handler \<Rightarrow> pubkey \<Rightarrow> u16 \<Rightarrow> pubkey option \<Rightarrow> u64 \<Rightarrow> u64 \<Rightarrow> u64 \<Rightarrow> u128 \<Rightarrow> ('w, unit) command" where
  "admin_create_config E h ncn_fee_wallet fee_bps tie_breaker_admin epochs_before_stall
     valid_slots_after_consensus epochs_after_consensus_before_close minimum_stake =
     cmd_bind (handler_keypair h) (\<lambda>keypair.
     cmd_bind (handler_ncn h) (\<lambda>ncn.
     cmd_bind (cmd_program (create_config_ix E h keypair ncn ncn_fee_wallet fee_bps tie_breaker_admin
       epochs_before_stall valid_slots_after_consensus epochs_after_consensus_before_close minimum_stake))
       (\<lambda>initialize_config_ix.
     cmd_bind (cmd_bind (get_account E (ch_ncn_program_id h)) (\<lambda>program.
       cmd_lift (ok_or CE_AccountNotFound program))) (\<lambda>_.
     send_and_log_transaction E h [initialize_config_ix] []))))"

definition register_st_mint_ix ::
  "'w cli_env \<Rightarrow> cli_handler \<Rightarrow> pubkey \<Rightarrow> pubkey \<Rightarrow> pubkey \<Rightarrow> u16 \<Rightarrow> program_error + instruction" where
  "register_st_mint_ix E h keypair ncn st_mint weight_bps =
     admin_register_st_mint_build (admin_register_st_mint_builder_new
       \<lparr>arsmb_accounts := \<lparr>arsm_config = Some (config_address E h ncn), arsm_ncn = Some ncn,
          arsm_st_mint = Some st_mint, arsm_vault_registry = Some (vault_registry_address E h ncn),
          arsm_admin = Some keypair\<rparr>,
        arsmb_weight_bps := Some weight_bps\<rparr>)"

definition cli_register_st_mint ::
  "'w cli_env \<Rightarrow> cli_handler \<Rightarrow> pubkey \<Rightarrow> u16 \<Rightarrow> ('w, unit) command" where
  "cli_register_st_mint E h vault weight_bps =
     cmd_bind (handler_keypair h) (\<lambda>keypair.
     cmd_bind (handler_ncn h) (\<lambda>ncn.
     cmd_bind (get_vault E vault) (\<lambda>vault_account.
     cmd_bind (cmd_program (register_st_mint_ix E h keypair ncn (vv_supported_mint vault_account) weight_bps))
       (\<lambda>ix. send_and_log_transaction E h [ix] []))))"

definition set_new_admin_ix ::
  "'w cli_env \<Rightarrow> cli_handler \<Rightarrow> pubkey \<Rightarrow> pubkey \<Rightarrow> pubkey \<Rightarrow> config_admin_role \<Rightarrow> program_error + instruction" where
  "set_new_admin_ix E h keypair ncn new_admin role =
     admin_set_new_admin_build (admin_set_new_admin_builder_new
       \<lparr>asnab_accounts := \<lparr>asna_config = Some (config_address E h ncn), asna_ncn = Some ncn,
          asna_ncn_admin = Some keypair, asna_new_admin = Some new_admin\<rparr>,
        asnab_role := Some role\<rparr>)"

definition cli_set_new_admin ::
  "'w cli_env \<Rightarrow> cli_handler \<Rightarrow> pubkey \<Rightarrow> bool \<Rightarrow> ('w, unit) command" where
  "cli_set_new_admin E h new_admin set_tie_breaker_admin =
     cmd_bind (handler_keypair h) (\<lambda>keypair.
     cmd_bind (handler_ncn h) (\<lambda>ncn.
     cmd_each (\<lambda>(should_set, role).
       if \<not> should_set then cmd_ok ()
       else
         cmd_bind (cmd_program (set_new_admin_ix E h keypair ncn new_admin role)) (\<lambda>ix.
         send_and_log_transaction E h [ix] [])) [(set_tie_breaker_admin, TieBreakerAdmin)]))"

definition set_parameters_ix ::
  "'w cli_env \<Rightarrow> cli_handler \<Rightarrow> pubkey \<Rightarrow> pubkey \<Rightarrow> u64 option \<Rightarrow> u64 option \<Rightarrow> u64 option \<Rightarrow> u64 option \<Rightarrow>
   program_error + instruction" where
  "set_parameters_ix E h keypair ncn epochs_before_stall epochs_after_consensus_before_close
     valid_slots_after_consensus starting_valid_epoch =
     (let ix = admin_set_parameters_builder_new
        \<lparr>aspb_accounts := \<lparr>asp_config = Some (config_address E h ncn), asp_ncn = Some ncn,
           asp_ncn_admin = Some keypair\<rparr>\<rparr>;
        ix = (case epochs_before_stall of Some epochs \<Rightarrow> ix\<lparr>aspb_epochs_before_stall := Some epochs\<rparr> | None \<Rightarrow> ix);
        ix = (case epochs_after_consensus_before_close of
            Some epochs \<Rightarrow> ix\<lparr>aspb_epochs_after_consensus_before_close := Some epochs\<rparr> | None \<Rightarrow> ix);
        ix = (case valid_slots_after_consensus of
            Some slots \<Rightarrow> ix\<lparr>aspb_valid_slots_after_consensus := Some slots\<rparr> | None \<Rightarrow> ix);
        ix = (case starting_valid_epoch of Some epoch \<Rightarrow> ix\<lparr>aspb_starting_valid_epoch := Some epoch\<rparr> | None \<Rightarrow> ix)
      in admin_set_parameters_build ix)"

definition cli_set_parameters ::
  "'w cli_env \<Rightarrow> cli_handler \<Rightarrow> u64 option \<Rightarrow> u64 option \<Rightarrow> u64 option \<Rightarrow> u64 option \<Rightarrow> ('w, unit) command" where
  "cli_set_parameters E h epochs_before_stall epochs_after_consensus_before_close
     valid_slots_after_consensus starting_valid_epoch =
     cmd_bind (handler_keypair h) (\<lambda>keypair.
     cmd_bind (handler_ncn h) (\<lambda>ncn.
     cmd_bind (cmd_program (set_parameters_ix E h keypair ncn epochs_before_stall
       epochs_after_consensus_before_close valid_slots_after_consensus starting_valid_epoch)) (\<lambda>ix.
     send_and_log_transaction E h [ix] [])))"

text \<open>The amount is the one \<open>sol_to_lamports\<close> computes.\<close>

definition admin_fund_account_payer :: "'w cli_env \<Rightarrow> cli_handler \<Rightarrow> u64 \<Rightarrow> ('w, unit) command" where
  "admin_fund_account_payer E h lamports =
     cmd_bind (handler_keypair h) (\<lambda>keypair.
     cmd_bind (handler_ncn h) (\<lambda>ncn.
     send_and_log_transaction E h
       [fi_transfer (ce_foreign E) keypair (account_payer_address E h ncn) lamports] []))"

subsection \<open>Vaults and operators\<close>

text \<open>
  The reallocations a command sends for an account of a size, computed in the source with a division
  of doubles that is exact enough for its \<open>ceil\<close>: both numbers are far below \<open>2 ^ 53\<close>.
\<close>

definition num_reallocs :: "nat \<Rightarrow> nat" where
  "num_reallocs account_size =
     max ((account_size + unat MAX_REALLOC_BYTES - 1) div unat MAX_REALLOC_BYTES - 1) 1"

definition initialize_vault_registry_ix :: "'w cli_env \<Rightarrow> cli_handler \<Rightarrow> pubkey \<Rightarrow> program_error + instruction" where
  "initialize_vault_registry_ix E h ncn =
     initialize_vault_registry_build (initialize_vault_registry_builder_new
       \<lparr>ivrb_accounts := \<lparr>ivr_config = Some (config_address E h ncn),
          ivr_vault_registry = Some (vault_registry_address E h ncn), ivr_ncn = Some ncn,
          ivr_account_payer = Some (account_payer_address E h ncn), ivr_system_program = None\<rparr>\<rparr>)"

definition create_vault_registry :: "'w cli_env \<Rightarrow> cli_handler \<Rightarrow> ('w, unit) command" where
  "create_vault_registry E h =
     cmd_bind (handler_ncn h) (\<lambda>ncn.
     cmd_bind (get_account E (vault_registry_address E h ncn)) (\<lambda>vault_registry_account.
     cmd_bind (if vault_registry_account = None
       then cmd_bind (cmd_program (initialize_vault_registry_ix E h ncn)) (\<lambda>ix.
         send_and_log_transaction E h [ix] [])
       else cmd_ok ()) (\<lambda>_.
     send_and_log_transaction E h [fi_compute_unit_limit (ce_foreign E) 1400000] [])))"

definition get_or_create_vault_registry :: "'w cli_env \<Rightarrow> cli_handler \<Rightarrow> ('w, vault_registry) command" where
  "get_or_create_vault_registry E h =
     cmd_bind (handler_ncn h) (\<lambda>ncn.
     cmd_bind (get_account E (vault_registry_address E h ncn)) (\<lambda>account.
     case account of
       Some a \<Rightarrow> cmd_program (ad_vault_registry (ce_decoders E) (ra_data a))
     | None \<Rightarrow>
         cmd_bind (create_vault_registry E h) (\<lambda>_.
         get_decoded E (vault_registry_address E h ncn) (ad_vault_registry (ce_decoders E)))))"

definition register_vault_ix :: "'w cli_env \<Rightarrow> cli_handler \<Rightarrow> pubkey \<Rightarrow> pubkey \<Rightarrow> program_error + instruction" where
  "register_vault_ix E h ncn vault =
     register_vault_build (register_vault_builder_new
       \<lparr>rvb_accounts := \<lparr>rv_config = Some (config_address E h ncn),
          rv_vault_registry = Some (vault_registry_address E h ncn), rv_ncn = Some ncn,
          rv_vault = Some vault,
          rv_ncn_vault_ticket = Some (ja_ncn_vault_ticket (ce_addresses E) (ch_restaking_program_id h) ncn vault)\<rparr>\<rparr>)"

definition cli_register_vault :: "'w cli_env \<Rightarrow> cli_handler \<Rightarrow> pubkey \<Rightarrow> ('w, unit) command" where
  "cli_register_vault E h vault =
     cmd_bind (handler_ncn h) (\<lambda>ncn.
     cmd_bind (cmd_program (register_vault_ix E h ncn vault)) (\<lambda>ix.
     send_and_log_transaction E h [ix] []))"

definition register_operator_ix ::
  "'w cli_env \<Rightarrow> cli_handler \<Rightarrow> pubkey \<Rightarrow> pubkey \<Rightarrow> pubkey \<Rightarrow> bytes32 \<Rightarrow> bytes64 \<Rightarrow> bytes64 \<Rightarrow>
   program_error + instruction" where
  "register_operator_ix E h keypair ncn operator g1_pubkey g2_pubkey signature =
     register_operator_build (register_operator_builder_new
       \<lparr>rob_accounts := \<lparr>ro_config = Some (config_address E h ncn),
          ro_ncn_operator_account = Some (operator_account_address E h ncn operator),
          ro_ncn = Some ncn, ro_operator = Some operator, ro_operator_admin = Some keypair,
          ro_ncn_operator_state = Some (ja_ncn_operator_state (ce_addresses E) (ch_restaking_program_id h) ncn operator),
          ro_snapshot = Some (snapshot_address E h ncn),
          ro_restaking_config = Some (ja_restaking_config (ce_addresses E) (ch_restaking_program_id h)),
          ro_account_payer = Some (account_payer_address E h ncn),
          ro_system_program = Some SYSTEM_PROGRAM_ID\<rparr>,
        rob_g1_pubkey := Some g1_pubkey, rob_g2_pubkey := Some g2_pubkey, rob_signature := Some signature\<rparr>)"

definition cli_register_operator ::
  "'w cli_env \<Rightarrow> cli_handler \<Rightarrow> pubkey \<Rightarrow> bytes32 \<Rightarrow> bytes64 \<Rightarrow> bytes64 \<Rightarrow> ('w, unit) command" where
  "cli_register_operator E h operator g1_pubkey g2_pubkey signature =
     cmd_bind (handler_keypair h) (\<lambda>keypair.
     cmd_bind (handler_ncn h) (\<lambda>ncn.
     cmd_bind (cmd_program (register_operator_ix E h keypair ncn operator g1_pubkey g2_pubkey signature)) (\<lambda>ix.
     send_and_log_transaction E h [ix, fi_compute_unit_limit (ce_foreign E) 1400000] [])))"

text \<open>\<open>part.parse::<u8>()\<close> for every part, and the octets in network order.\<close>

fun parse_octets :: "rust_string list \<Rightarrow> cli_error + u8 list" where
  "parse_octets [] = Inr []"
| "parse_octets (part # parts) =
     try_bind (ok_or CE_InvalidOctet (parse_unsigned 256 part)) (\<lambda>octet.
     try_bind (parse_octets parts) (\<lambda>octets. Inr (of_nat octet # octets)))"

definition parse_ip_address :: "rust_string \<Rightarrow> cli_error + u32" where
  "parse_ip_address ip_str =
     (let parts = split_at_char 0x2E ip_str in
      if length parts \<noteq> 4 then Inl CE_InvalidIp
      else try_bind (parse_octets parts) (\<lambda>ip_bytes. Inr (be_word ip_bytes)))"

definition update_operator_ip_port_ix ::
  "'w cli_env \<Rightarrow> cli_handler \<Rightarrow> pubkey \<Rightarrow> pubkey \<Rightarrow> pubkey \<Rightarrow> u32 \<Rightarrow> u16 \<Rightarrow> program_error + instruction" where
  "update_operator_ip_port_ix E h keypair ncn operator ip_bytes port =
     update_operator_ip_port_build (update_operator_ip_port_builder_new
       \<lparr>uipb_accounts := \<lparr>uip_config = Some (config_address E h ncn),
          uip_ncn_operator_account = Some (operator_account_address E h ncn operator),
          uip_ncn = Some ncn, uip_operator = Some operator, uip_operator_admin = Some keypair\<rparr>,
        uipb_ip_address := Some ip_bytes, uipb_port := Some port\<rparr>)"

definition cli_update_operator_ip_port ::
  "'w cli_env \<Rightarrow> cli_handler \<Rightarrow> pubkey \<Rightarrow> rust_string \<Rightarrow> u16 \<Rightarrow> ('w, unit) command" where
  "cli_update_operator_ip_port E h operator ip_address port =
     cmd_bind (handler_keypair h) (\<lambda>keypair.
     cmd_bind (handler_ncn h) (\<lambda>ncn.
     cmd_bind (cmd_lift (parse_ip_address ip_address)) (\<lambda>ip_bytes.
     cmd_bind (cmd_program (update_operator_ip_port_ix E h keypair ncn operator ip_bytes port)) (\<lambda>ix.
     send_and_log_transaction E h [ix, fi_compute_unit_limit (ce_foreign E) 400000] []))))"

definition remove_operator_ix ::
  "'w cli_env \<Rightarrow> cli_handler \<Rightarrow> pubkey \<Rightarrow> pubkey \<Rightarrow> pubkey \<Rightarrow> program_error + instruction" where
  "remove_operator_ix E h keypair ncn operator =
     remove_operator_build (remove_operator_builder_new
       \<lparr>rmob_accounts := \<lparr>rmo_config = Some (config_address E h ncn), rmo_ncn = Some ncn,
          rmo_operator = Some operator, rmo_admin = Some keypair,
          rmo_snapshot = Some (snapshot_address E h ncn)\<rparr>\<rparr>)"

definition cli_remove_operator :: "'w cli_env \<Rightarrow> cli_handler \<Rightarrow> pubkey \<Rightarrow> ('w, unit) command" where
  "cli_remove_operator E h operator =
     cmd_bind (handler_keypair h) (\<lambda>keypair.
     cmd_bind (handler_ncn h) (\<lambda>ncn.
     cmd_bind (cmd_program (remove_operator_ix E h keypair ncn operator)) (\<lambda>ix.
     send_and_log_transaction E h [ix] [])))"

subsection \<open>The snapshot\<close>

definition initialize_snapshot_ix :: "'w cli_env \<Rightarrow> cli_handler \<Rightarrow> pubkey \<Rightarrow> program_error + instruction" where
  "initialize_snapshot_ix E h ncn =
     initialize_snapshot_build (initialize_snapshot_builder_new
       \<lparr>isnb_accounts := \<lparr>isn_ncn = Some ncn, isn_snapshot = Some (snapshot_address E h ncn),
          isn_account_payer = Some (account_payer_address E h ncn),
          isn_system_program = Some SYSTEM_PROGRAM_ID\<rparr>\<rparr>)"

definition realloc_snapshot_ix :: "'w cli_env \<Rightarrow> cli_handler \<Rightarrow> pubkey \<Rightarrow> program_error + instruction" where
  "realloc_snapshot_ix E h ncn =
     realloc_snapshot_build (realloc_snapshot_builder_new
       \<lparr>rsnb_accounts := \<lparr>rsn_ncn = Some ncn, rsn_config = Some (config_address E h ncn),
          rsn_snapshot = Some (snapshot_address E h ncn),
          rsn_account_payer = Some (account_payer_address E h ncn),
          rsn_system_program = Some SYSTEM_PROGRAM_ID\<rparr>\<rparr>)"

definition create_snapshot :: "'w cli_env \<Rightarrow> cli_handler \<Rightarrow> ('w, unit) command" where
  "create_snapshot E h =
     cmd_bind (handler_ncn h) (\<lambda>ncn.
     cmd_bind (cmd_program (initialize_snapshot_ix E h ncn)) (\<lambda>initialize_ix.
     cmd_bind (send_and_log_transaction E h [initialize_ix] []) (\<lambda>_.
     cmd_bind (cmd_program (realloc_snapshot_ix E h ncn)) (\<lambda>realloc_ix.
     send_and_log_transaction E h
       (fi_compute_unit_limit (ce_foreign E) 1400000 # replicate (num_reallocs SNAPSHOT_SIZE) realloc_ix) []))))"

text \<open>\<open>check_created\<close>: at most \<open>CREATE_GET_RETRIES\<close> further reads.\<close>

fun await_account :: "'w cli_env \<Rightarrow> nat \<Rightarrow> pubkey \<Rightarrow> ('w, rpc_account option) command" where
  "await_account E 0 address = get_account E address"
| "await_account E (Suc n) address =
     cmd_bind (get_account E address) (\<lambda>account.
     case account of Some a \<Rightarrow> cmd_ok (Some a) | None \<Rightarrow> await_account E n address)"

definition CREATE_GET_RETRIES :: nat where "CREATE_GET_RETRIES = 3"

definition check_created :: "'w cli_env \<Rightarrow> pubkey \<Rightarrow> ('w, unit) command" where
  "check_created E address =
     cmd_bind (await_account E CREATE_GET_RETRIES address) (\<lambda>account.
     if account = None then cmd_err CE_NotCreated else cmd_ok ())"

definition get_or_create_snapshot :: "'w cli_env \<Rightarrow> cli_handler \<Rightarrow> ('w, snapshot) command" where
  "get_or_create_snapshot E h =
     cmd_bind (handler_ncn h) (\<lambda>ncn.
     cmd_bind (get_account E (snapshot_address E h ncn)) (\<lambda>account.
     cmd_bind
       (if (case account of None \<Rightarrow> True | Some a \<Rightarrow> length (ra_data a) < SNAPSHOT_SIZE)
        then cmd_bind (create_snapshot E h) (\<lambda>_. check_created E (snapshot_address E h ncn))
        else cmd_ok ()) (\<lambda>_.
     get_snapshot E h)))"

definition snapshot_delegation_ix ::
  "'w cli_env \<Rightarrow> cli_handler \<Rightarrow> pubkey \<Rightarrow> pubkey \<Rightarrow> pubkey \<Rightarrow> program_error + instruction" where
  "snapshot_delegation_ix E h ncn vault operator =
     snapshot_vault_operator_delegation_build (snapshot_vault_operator_delegation_builder_new
       \<lparr>svdb_accounts := \<lparr>svd_config = Some (config_address E h ncn),
          svd_restaking_config = Some (ja_restaking_config (ce_addresses E) (ch_restaking_program_id h)),
          svd_ncn = Some ncn, svd_operator = Some operator, svd_vault = Some vault,
          svd_vault_ncn_ticket = Some (ja_vault_ncn_ticket (ce_addresses E) (ch_vault_program_id h) vault ncn),
          svd_ncn_vault_ticket = Some (ja_ncn_vault_ticket (ce_addresses E) (ch_restaking_program_id h) ncn vault),
          svd_ncn_operator_state = Some (ja_ncn_operator_state (ce_addresses E) (ch_restaking_program_id h) ncn operator),
          svd_vault_operator_delegation =
            Some (ja_vault_operator_delegation (ce_addresses E) (ch_vault_program_id h) vault operator),
          svd_snapshot = Some (snapshot_address E h ncn),
          svd_vault_registry = Some (vault_registry_address E h ncn)\<rparr>\<rparr>)"

definition cli_snapshot_delegation ::
  "'w cli_env \<Rightarrow> cli_handler \<Rightarrow> pubkey \<Rightarrow> pubkey \<Rightarrow> ('w, unit) command" where
  "cli_snapshot_delegation E h vault operator =
     cmd_bind (handler_ncn h) (\<lambda>ncn.
     cmd_bind (cmd_program (snapshot_delegation_ix E h ncn vault operator)) (\<lambda>ix.
     send_and_log_transaction E h [ix] []))"

definition verify_certificate_ix ::
  "'w cli_env \<Rightarrow> cli_handler \<Rightarrow> pubkey \<Rightarrow> bytes32 \<Rightarrow> bytes32 \<Rightarrow> bytes64 \<Rightarrow> bytes \<Rightarrow> u64 \<Rightarrow>
   program_error + instruction" where
  "verify_certificate_ix E h ncn digest agg_sig apk2 signers_bitmap expected_generation =
     verify_certificate_build (verify_certificate_builder_new
       \<lparr>vcb_accounts := \<lparr>vc_ncn_config = Some (config_address E h ncn), vc_ncn = Some ncn,
          vc_snapshot = Some (snapshot_address E h ncn),
          vc_restaking_config = Some (ja_restaking_config (ce_addresses E) (ch_restaking_program_id h))\<rparr>,
        vcb_digest := Some digest, vcb_aggregated_g2 := Some apk2, vcb_aggregated_signature := Some agg_sig,
        vcb_operators_signature_bitmap := Some signers_bitmap,
        vcb_expected_generation := Some expected_generation\<rparr>)"

definition cli_verify_certificate ::
  "'w cli_env \<Rightarrow> cli_handler \<Rightarrow> bytes32 \<Rightarrow> bytes32 \<Rightarrow> bytes64 \<Rightarrow> bytes \<Rightarrow> u64 \<Rightarrow> ('w, unit) command" where
  "cli_verify_certificate E h digest agg_sig apk2 signers_bitmap expected_generation =
     cmd_bind (handler_ncn h) (\<lambda>ncn.
     cmd_bind (cmd_program (verify_certificate_ix E h ncn digest agg_sig apk2 signers_bitmap expected_generation))
       (\<lambda>ix. send_and_log_transaction E h [ix] []))"

end
