(* ===== verification/Keeper.thy ===== *)
theory Keeper
  imports Cli_Instructions
begin

text \<open>
  The cranks over vaults and operators (\<open>cli/src/instructions.rs\<close>) and the keeper that runs them: its
  state (\<open>cli/src/keeper/keeper_state.rs\<close>) and one round of its loop
  (\<open>cli/src/keeper/keeper_loop.rs\<close>).
\<close>

subsection \<open>The vault update\<close>

text \<open>The error of a step is logged and the next step goes on; a panic ends the command.\<close>

definition cmd_logged :: "('w, unit) command \<Rightarrow> ('w, unit) command" where
  "cmd_logged m = cmd_bind (cmd_try m) (\<lambda>_. cmd_ok ())"

text \<open>The operator to begin with: the one after the last updated index.\<close>

definition starting_index :: "u64 \<Rightarrow> u64 \<Rightarrow> nat \<Rightarrow> nat" where
  "starting_index last_updated_index ncn_epoch operators =
     (if last_updated_index = u64_max then unat ncn_epoch mod operators
      else (unat last_updated_index + 1) mod operators)"

definition crank_order :: "nat \<Rightarrow> 'a list \<Rightarrow> 'a list" where
  "crank_order start xs = map (\<lambda>index. xs ! ((start + index) mod length xs)) [0 ..< length xs]"

definition crank_trackers ::
  "'w cli_env \<Rightarrow> cli_handler \<Rightarrow> pubkey \<Rightarrow> pubkey \<Rightarrow> u64 \<Rightarrow> pubkey \<Rightarrow> pubkey \<Rightarrow> ('w, unit) command" where
  "crank_trackers E h payer vault ncn_epoch vault_config vault_update_state_tracker =
     cmd_bind (get_all_sorted_operators_for_vault E h vault) (\<lambda>all_operators.
     if all_operators = [] then cmd_ok ()
     else
       cmd_bind (get_vault_update_state_tracker E h vault ncn_epoch) (\<lambda>last_updated_index.
       cmd_each (\<lambda>operator. cmd_logged (send_and_log_transaction E h
           [fi_crank_tracker (ce_foreign E) vault operator vault_config
             (ja_vault_operator_delegation (ce_addresses E) (ch_vault_program_id h) vault operator)
             vault_update_state_tracker] [payer]))
         (crank_order (starting_index last_updated_index ncn_epoch (length all_operators)) all_operators)))"

definition full_vault_update :: "'w cli_env \<Rightarrow> cli_handler \<Rightarrow> pubkey \<Rightarrow> ('w, unit) command" where
  "full_vault_update E h vault =
     cmd_bind (handler_keypair h) (\<lambda>payer.
     cmd_bind (get_current_slot E) (\<lambda>current_slot.
     cmd_bind (get_vault_config E h) (\<lambda>vault_config_account.
     cmd_bind (cmd_program (vcv_epoch_from_slot vault_config_account current_slot)) (\<lambda>ncn_epoch.
     cmd_bind (get_vault E vault) (\<lambda>vault_account.
     cmd_bind (get_current_slot E) (\<lambda>current_slot.
     cmd_bind (cmd_program (vv_is_update_needed vault_account current_slot
       (vcv_epoch_length vault_config_account))) (\<lambda>needed.
     if \<not> needed then cmd_ok ()
     else
       let vault_config = ja_vault_config (ce_addresses E) (ch_vault_program_id h);
           tracker = ja_vault_update_state_tracker (ce_addresses E) (ch_vault_program_id h) vault ncn_epoch in
       cmd_bind (get_account E tracker) (\<lambda>tracker_account.
       cmd_bind (if tracker_account = None
         then cmd_logged (send_and_log_transaction E h
           [fi_initialize_tracker (ce_foreign E) vault tracker SYSTEM_PROGRAM_ID payer vault_config] [payer])
         else cmd_ok ()) (\<lambda>_.
       cmd_bind (crank_trackers E h payer vault ncn_epoch vault_config tracker) (\<lambda>_.
       cmd_bind (get_account E tracker) (\<lambda>tracker_account.
       if tracker_account \<noteq> None
       then cmd_logged (send_and_log_transaction E h
         [fi_close_tracker (ce_foreign E) vault tracker payer vault_config ncn_epoch] [payer])
       else cmd_ok ())))))))))))"

subsection \<open>Cranks\<close>

definition registry_vaults :: "vault_registry \<Rightarrow> pubkey list" where
  "registry_vaults r = map ve_vault (get_valid_vault_entries r)"

definition crank_register_vaults :: "'w cli_env \<Rightarrow> cli_handler \<Rightarrow> ('w, unit) command" where
  "crank_register_vaults E h =
     cmd_bind (get_all_vaults_in_ncn E h) (\<lambda>all_ncn_vaults.
     cmd_bind (get_or_create_vault_registry E h) (\<lambda>vault_registry.
     let all_registered_vaults = registry_vaults vault_registry;
         vaults_to_register = filter (\<lambda>vault. vault \<notin> set all_registered_vaults) all_ncn_vaults in
     cmd_each (\<lambda>vault. cmd_logged (cli_register_vault E h vault)) vaults_to_register))"

definition crank_snapshot :: "'w cli_env \<Rightarrow> cli_handler \<Rightarrow> ('w, unit) command" where
  "crank_snapshot E h =
     cmd_bind (get_vault_registry E h) (\<lambda>vault_registry.
     cmd_bind (get_all_operators_in_ncn E h) (\<lambda>operators.
     cmd_bind (get_or_create_snapshot E h) (\<lambda>_.
     cmd_bind (handler_ncn h) (\<lambda>_.
     case registry_vaults vault_registry of
       [] \<Rightarrow> cmd_err CE_Panic
     | vault # _ \<Rightarrow>
         cmd_bind (cmd_logged (full_vault_update E h vault)) (\<lambda>_.
         cmd_each (\<lambda>operator.
           cmd_bind (cmd_try (cli_get_operator_snapshot E h operator)) (\<lambda>result.
           case result of
             Inl e \<Rightarrow> cmd_ok ()
           | Inr _ \<Rightarrow> cmd_logged (cli_snapshot_delegation E h vault operator))) operators)))))"

text \<open>
  The entries whose stake the crank records: active, last recorded before the epoch.  The division
  of an entry's slot by the epoch length fails on the first entry when the length is zero.
\<close>

definition entry_due :: "u64 \<Rightarrow> u64 \<Rightarrow> operator_snapshot \<Rightarrow> ncn_error + bool" where
  "entry_due epoch_length epoch e =
     try_bind (get_epoch (os_last_snapshot_slot e) epoch_length) (\<lambda>last_snapshot_epoch.
     Inr (os_is_active e \<and> last_snapshot_epoch < epoch))"

fun due_operators :: "u64 \<Rightarrow> u64 \<Rightarrow> operator_snapshot list \<Rightarrow> ncn_error + pubkey list" where
  "due_operators epoch_length epoch [] = Inr []"
| "due_operators epoch_length epoch (e # es) =
     try_bind (entry_due epoch_length epoch e) (\<lambda>due.
     try_bind (due_operators epoch_length epoch es) (\<lambda>operators.
     Inr (if due then os_operator e # operators else operators)))"

definition crank_snapshot_unupdated :: "'w cli_env \<Rightarrow> cli_handler \<Rightarrow> u64 \<Rightarrow> ('w, unit) command" where
  "crank_snapshot_unupdated E h epoch =
     cmd_bind (get_vault_registry E h) (\<lambda>vault_registry.
     case registry_vaults vault_registry of
       [] \<Rightarrow> cmd_ok ()
     | vault # _ \<Rightarrow>
         cmd_bind (get_snapshot E h) (\<lambda>snapshot.
         cmd_bind (cmd_logged (full_vault_update E h vault)) (\<lambda>_.
         cmd_bind (get_restaking_config E h) (\<lambda>epoch_length.
         cmd_bind (cmd_program (lift_ncn (due_operators epoch_length epoch (ss_operator_snapshots snapshot))))
           (\<lambda>operators_to_snapshot.
         cmd_each (\<lambda>operator. cmd_logged (cli_snapshot_delegation E h vault operator))
           operators_to_snapshot)))))"

subsection \<open>The keeper's state\<close>

record keeper_state =
  ks_epoch :: u64
  ks_snapshot_address :: pubkey
  ks_snapshot :: "snapshot option"
  ks_should_snapshot :: bool
  ks_operators_to_snapshot :: "pubkey list"

definition keeper_state_default :: keeper_state where
  "keeper_state_default = \<lparr>ks_epoch = 0, ks_snapshot_address = default_pubkey, ks_snapshot = None,
     ks_should_snapshot = False, ks_operators_to_snapshot = []\<rparr>"

text \<open>Its methods run on the world and the state; a failure keeps what was written before it.\<close>

type_synonym ('w, 'a) keeper_method = "('w \<times> keeper_state, 'a) command"

definition outside :: "('w, 'a) command \<Rightarrow> ('w, 'a) keeper_method" where
  "outside m ws = (case m (fst ws) of (r, w) \<Rightarrow> (r, (w, snd ws)))"

definition self :: "('w, keeper_state) keeper_method" where "self ws = (Inr (snd ws), ws)"

definition modify_self :: "(keeper_state \<Rightarrow> keeper_state) \<Rightarrow> ('w, unit) keeper_method" where
  "modify_self f ws = (Inr (), (fst ws, f (snd ws)))"

definition operator_needs_snapshot ::
  "'w cli_env \<Rightarrow> cli_handler \<Rightarrow> u64 \<Rightarrow> pubkey \<Rightarrow> snapshot \<Rightarrow> ('w, bool) command" where
  "operator_needs_snapshot E h epoch operator snapshot =
     (case List.find (\<lambda>e. os_operator e = operator) (ss_operator_snapshots snapshot) of
        None \<Rightarrow> cmd_ok True
      | Some e \<Rightarrow>
          cmd_bind (get_restaking_config E h) (\<lambda>epoch_length.
          cmd_program (lift_ncn (entry_due epoch_length epoch e))))"

fun collect_operators ::
  "'w cli_env \<Rightarrow> cli_handler \<Rightarrow> snapshot \<Rightarrow> pubkey list \<Rightarrow> ('w, unit) keeper_method" where
  "collect_operators E h snapshot [] = cmd_ok ()"
| "collect_operators E h snapshot (operator # operators) =
     cmd_bind self (\<lambda>st.
     cmd_bind (outside (operator_needs_snapshot E h (ks_epoch st) operator snapshot)) (\<lambda>needs_snapshot.
     cmd_bind (if needs_snapshot
       then modify_self (\<lambda>st. st\<lparr>ks_operators_to_snapshot := ks_operators_to_snapshot st @ [operator]\<rparr>)
       else cmd_ok ()) (\<lambda>_.
     collect_operators E h snapshot operators)))"

definition update_operators_to_snapshot :: "'w cli_env \<Rightarrow> cli_handler \<Rightarrow> ('w, unit) keeper_method" where
  "update_operators_to_snapshot E h =
     cmd_bind (outside (get_all_operators_in_ncn E h)) (\<lambda>all_operators.
     cmd_bind (modify_self (\<lambda>st. st\<lparr>ks_operators_to_snapshot := []\<rparr>)) (\<lambda>_.
     cmd_bind self (\<lambda>st.
     cmd_bind (case ks_snapshot st of
         Some snapshot \<Rightarrow> collect_operators E h snapshot all_operators
       | None \<Rightarrow> modify_self (\<lambda>st. st\<lparr>ks_operators_to_snapshot := all_operators\<rparr>)) (\<lambda>_.
     modify_self (\<lambda>st. st\<lparr>ks_should_snapshot := (ks_operators_to_snapshot st \<noteq> [])\<rparr>)))))"

definition forget_snapshot :: "keeper_state \<Rightarrow> keeper_state" where
  "forget_snapshot st =
     st\<lparr>ks_snapshot := None, ks_should_snapshot := False, ks_operators_to_snapshot := []\<rparr>"

definition update_state :: "'w cli_env \<Rightarrow> cli_handler \<Rightarrow> ('w, unit) keeper_method" where
  "update_state E h =
     cmd_bind self (\<lambda>st.
     cmd_bind (outside (get_account E (ks_snapshot_address st))) (\<lambda>raw_account.
     case raw_account of
       None \<Rightarrow> modify_self forget_snapshot
     | Some a \<Rightarrow>
         if length (ra_data a) < SNAPSHOT_SIZE then modify_self forget_snapshot
         else
           cmd_bind (outside (cmd_program (ad_snapshot (ce_decoders E) (ra_data a)))) (\<lambda>account_data.
           cmd_bind (modify_self (\<lambda>st. st\<lparr>ks_snapshot := Some account_data\<rparr>)) (\<lambda>_.
           update_operators_to_snapshot E h))))"

definition fetch :: "'w cli_env \<Rightarrow> cli_handler \<Rightarrow> u64 \<Rightarrow> ('w, unit) keeper_method" where
  "fetch E h epoch =
     cmd_bind (outside (handler_ncn h)) (\<lambda>ncn.
     cmd_bind (modify_self (\<lambda>st. st\<lparr>ks_snapshot_address := snapshot_address E h ncn\<rparr>)) (\<lambda>_.
     cmd_bind (modify_self (\<lambda>st. st\<lparr>ks_epoch := epoch\<rparr>)) (\<lambda>_.
     update_state E h)))"

definition keeper_snapshot :: "keeper_state \<Rightarrow> cli_error + snapshot" where
  "keeper_snapshot st = ok_or CE_NoSnapshot (ks_snapshot st)"

subsection \<open>The loop\<close>

text \<open>
  One round for the epoch the node reports: refresh the state, and crank if an operator is due.  An
  error of a phase ends the round; a panic ends the keeper.
\<close>

definition refresh :: "'w cli_env \<Rightarrow> cli_handler \<Rightarrow> u64 \<Rightarrow> ('w, unit) keeper_method" where
  "refresh E h epoch =
     cmd_bind self (\<lambda>st. if ks_epoch st \<noteq> epoch then fetch E h epoch else update_state E h)"

definition keeper_round :: "'w cli_env \<Rightarrow> cli_handler \<Rightarrow> ('w, unit) keeper_method" where
  "keeper_round E h =
     cmd_bind (outside (get_guaranteed_epoch_and_slot E)) (\<lambda>(current_epoch, _).
     cmd_logged (
       cmd_bind (refresh E h current_epoch) (\<lambda>_.
       cmd_bind self (\<lambda>st.
       if ks_should_snapshot st then outside (crank_snapshot_unupdated E h current_epoch) else cmd_ok ()))))"

fun keeper_rounds :: "'w cli_env \<Rightarrow> cli_handler \<Rightarrow> nat \<Rightarrow> ('w, unit) keeper_method" where
  "keeper_rounds E h 0 = cmd_ok ()"
| "keeper_rounds E h (Suc n) = cmd_bind (keeper_round E h) (\<lambda>_. keeper_rounds E h n)"

text \<open>The keeper up to a number of rounds: it first creates the snapshot account.\<close>

definition startup_ncn_keeper :: "'w cli_env \<Rightarrow> cli_handler \<Rightarrow> nat \<Rightarrow> ('w, unit) keeper_method" where
  "startup_ncn_keeper E h rounds =
     cmd_bind (outside (get_or_create_snapshot E h)) (\<lambda>_.
     cmd_bind (modify_self (\<lambda>_. keeper_state_default)) (\<lambda>_.
     keeper_rounds E h rounds))"

end
