(* ===== verification/Cli_Properties.thy ===== *)
theory Cli_Properties
  imports Client_Properties Keeper Operator_Properties
begin

text \<open>
  How the command line sends: the client calls its builders make; at most one more attempt than the
  configured retries; addresses and octets that survive their text form; and exactly the
  reallocations the snapshot account needs.
\<close>

subsection \<open>Running commands\<close>

lemma cmd_ok_apply [simp]: "cmd_ok x w = (Inr x, w)" by (simp add: cmd_ok_def)

lemma cmd_err_apply [simp]: "cmd_err e w = (Inl e, w)" by (simp add: cmd_err_def)

lemma cmd_lift_apply [simp]: "cmd_lift r w = (r, w)" by (simp add: cmd_lift_def)

lemma cmd_program_apply [simp]: "cmd_program r w = (map_err cli_error_of r, w)"
  by (simp add: cmd_program_def)

lemma cmd_bind_apply: "cmd_bind m f w = (case m w of (Inl e, w') \<Rightarrow> (Inl e, w') | (Inr x, w') \<Rightarrow> f x w')"
  by (simp add: cmd_bind_def)

lemma cmd_bind_Inr [simp]: "m w = (Inr x, w') \<Longrightarrow> cmd_bind m f w = f x w'"
  by (simp add: cmd_bind_def)

lemma cmd_bind_Inl [simp]: "m w = (Inl e, w') \<Longrightarrow> cmd_bind m f w = (Inl e, w')"
  by (simp add: cmd_bind_def)

lemma cmd_bind_result:
  "cmd_bind m f w = (Inr y, w'') \<longleftrightarrow> (\<exists>x w'. m w = (Inr x, w') \<and> f x w' = (Inr y, w''))"
  by (auto simp: cmd_bind_def split: prod.splits sum.splits)

lemma cmd_bind_E:
  assumes "cmd_bind m f w = (r, w'')"
  obtains e where "m w = (Inl e, w'')" "r = Inl e"
  | x w' where "m w = (Inr x, w')" "f x w' = (r, w'')"
  using assms by (auto simp: cmd_bind_def split: prod.splits sum.splits)

lemma cmd_try_apply:
  "cmd_try m w = (case m w of (r, w') \<Rightarrow> if r = Inl CE_Panic then (Inl CE_Panic, w') else (Inr r, w'))"
  by (simp add: cmd_try_def)

lemma handler_apply [simp]:
  "handler_keypair h w = (ok_or CE_NoKeypair (ch_keypair h), w)"
  "handler_ncn h w = (ok_or CE_NoNcn (ch_ncn h), w)"
  by (simp_all add: handler_keypair_def handler_ncn_def)

subsection \<open>The instructions\<close>

lemmas builder_simps =
  create_config_ix_def initialize_config_build_def initialize_config_builder_new_def
  register_st_mint_ix_def admin_register_st_mint_build_def admin_register_st_mint_builder_new_def
  set_new_admin_ix_def admin_set_new_admin_build_def admin_set_new_admin_builder_new_def
  set_parameters_ix_def admin_set_parameters_build_def admin_set_parameters_builder_new_def
  initialize_vault_registry_ix_def initialize_vault_registry_build_def initialize_vault_registry_builder_new_def
  register_vault_ix_def register_vault_build_def register_vault_builder_new_def
  register_operator_ix_def register_operator_build_def register_operator_builder_new_def
  update_operator_ip_port_ix_def update_operator_ip_port_build_def update_operator_ip_port_builder_new_def
  remove_operator_ix_def remove_operator_build_def remove_operator_builder_new_def
  initialize_snapshot_ix_def initialize_snapshot_build_def initialize_snapshot_builder_new_def
  realloc_snapshot_ix_def realloc_snapshot_build_def realloc_snapshot_builder_new_def
  snapshot_delegation_ix_def snapshot_vault_operator_delegation_build_def
  snapshot_vault_operator_delegation_builder_new_def
  verify_certificate_ix_def verify_certificate_build_def verify_certificate_builder_new_def

text \<open>The calls the commands make, on the addresses they derive.\<close>

definition initialize_snapshot_call :: "'w cli_env \<Rightarrow> cli_handler \<Rightarrow> pubkey \<Rightarrow> client_call" where
  "initialize_snapshot_call E h ncn = CallInitializeSnapshot
     \<lparr>isn_ncn = ncn, isn_snapshot = snapshot_address E h ncn,
      isn_account_payer = account_payer_address E h ncn, isn_system_program = SYSTEM_PROGRAM_ID\<rparr>"

definition realloc_snapshot_call :: "'w cli_env \<Rightarrow> cli_handler \<Rightarrow> pubkey \<Rightarrow> client_call" where
  "realloc_snapshot_call E h ncn = CallReallocSnapshot
     \<lparr>rsn_ncn = ncn, rsn_config = config_address E h ncn, rsn_snapshot = snapshot_address E h ncn,
      rsn_account_payer = account_payer_address E h ncn, rsn_system_program = SYSTEM_PROGRAM_ID\<rparr>"

definition delegation_call :: "'w cli_env \<Rightarrow> cli_handler \<Rightarrow> pubkey \<Rightarrow> pubkey \<Rightarrow> pubkey \<Rightarrow> client_call" where
  "delegation_call E h ncn vault operator = CallSnapshotVaultOperatorDelegation
     \<lparr>svd_config = config_address E h ncn,
      svd_restaking_config = ja_restaking_config (ce_addresses E) (ch_restaking_program_id h),
      svd_ncn = ncn, svd_operator = operator, svd_vault = vault,
      svd_vault_ncn_ticket = ja_vault_ncn_ticket (ce_addresses E) (ch_vault_program_id h) vault ncn,
      svd_ncn_vault_ticket = ja_ncn_vault_ticket (ce_addresses E) (ch_restaking_program_id h) ncn vault,
      svd_ncn_operator_state = ja_ncn_operator_state (ce_addresses E) (ch_restaking_program_id h) ncn operator,
      svd_vault_operator_delegation =
        ja_vault_operator_delegation (ce_addresses E) (ch_vault_program_id h) vault operator,
      svd_snapshot = snapshot_address E h ncn, svd_vault_registry = vault_registry_address E h ncn\<rparr>"

lemma client_form_of:
  "client_instruction call rem = r \<Longrightarrow> wf_ncn_instruction (call_instruction call) \<Longrightarrow> r = Inr (call_form call rem)"
  by (auto simp: client_instruction_form)

lemma snapshot_instructions:
  "initialize_snapshot_ix E h ncn = Inr (call_form (initialize_snapshot_call E h ncn) [])"
  "realloc_snapshot_ix E h ncn = Inr (call_form (realloc_snapshot_call E h ncn) [])"
  "snapshot_delegation_ix E h ncn vault operator = Inr (call_form (delegation_call E h ncn vault operator) [])"
  unfolding initialize_snapshot_call_def realloc_snapshot_call_def delegation_call_def
  by (rule client_form_of, simp add: builder_simps, simp add: wf_ncn_instruction_def)+

definition needs_only :: "pubkey \<Rightarrow> instruction \<Rightarrow> bool" where
  "needs_only keypair ix \<longleftrightarrow> list_all (\<lambda>m. am_is_signer m \<longrightarrow> am_pubkey m = keypair) (ix_accounts ix)"

lemma needs_only_call [simp]:
  "needs_only k (call_form call []) \<longleftrightarrow> list_all (\<lambda>(key, s, w). s \<longrightarrow> key = k) (declared_accounts call)"
  by (auto simp: needs_only_def list_all_iff meta_of_def)

lemma set_parameters_form:
  "set_parameters_ix E h k n stall close slots start = admin_set_parameters_instruction
     \<lparr>asp_config = config_address E h n, asp_ncn = n, asp_ncn_admin = k\<rparr>
     \<lparr>asp_starting_valid_epoch = start, asp_epochs_before_stall = stall,
      asp_epochs_after_consensus_before_close = close, asp_valid_slots_after_consensus = slots,
      asp_minimum_stake = None, asp_consensus_threshold_bps = None\<rparr> []"
  by (cases stall; cases close; cases slots; cases start; simp add: builder_simps)

subsection \<open>Attempts\<close>

text \<open>A history of the world that records every transaction sent and whether it was accepted.\<close>

record attempt =
  at_mode :: send_mode
  at_transaction :: transaction
  at_accepted :: bool

definition records_sends :: "'w cli_env \<Rightarrow> ('w \<Rightarrow> attempt list) \<Rightarrow> bool" where
  "records_sends E log \<longleftrightarrow>
     (\<forall>w. log (snd (rpc_get_latest_blockhash (ce_rpc E) w)) = log w) \<and>
     (\<forall>mode tx w. log (snd (rpc_send (ce_rpc E) mode tx w)) =
        log w @ [\<lparr>at_mode = mode, at_transaction = tx, at_accepted = is_ok (fst (rpc_send (ce_rpc E) mode tx w))\<rparr>])"

text \<open>The transaction of the attempt after \<open>i\<close> others, and a course of attempts.\<close>

definition attempt_fits ::
  "'w cli_env \<Rightarrow> nat \<Rightarrow> u64 \<Rightarrow> instruction list \<Rightarrow> pubkey list \<Rightarrow> nat \<Rightarrow> attempt \<Rightarrow> bool" where
  "attempt_fits E retries fee ixs signers i a \<longleftrightarrow>
     tx_signers (at_transaction a) = signers \<and>
     (if i < retries
      then at_mode a = Skip_preflight \<and>
        tx_instructions (at_transaction a) = fi_compute_unit_price (ce_foreign E) fee # ixs
      else at_mode a = Preflight \<and> tx_instructions (at_transaction a) = ixs)"

definition course ::
  "'w cli_env \<Rightarrow> nat \<Rightarrow> u64 \<Rightarrow> instruction list \<Rightarrow> pubkey list \<Rightarrow> bool \<Rightarrow> attempt list \<Rightarrow> bool" where
  "course E retries fee ixs signers success ts \<longleftrightarrow>
     length ts \<le> retries + 1 \<and>
     (\<forall>i < length ts. attempt_fits E retries fee ixs signers i (ts ! i)) \<and>
     (\<forall>i. i + 1 < length ts \<longrightarrow> \<not> at_accepted (ts ! i)) \<and>
     (success \<longleftrightarrow> ts \<noteq> [] \<and> at_accepted (last ts))"

lemma course_Nil: "course E n fee ixs signers False []"
  by (simp add: course_def)

lemma course_last: "attempt_fits E n fee ixs signers 0 a \<Longrightarrow> course E n fee ixs signers (at_accepted a) [a]"
  by (simp add: course_def)

lemma course_Cons:
  assumes "attempt_fits E (Suc n) fee ixs signers 0 a" "\<not> at_accepted a" "course E n fee ixs signers ok ts"
  shows "course E (Suc n) fee ixs signers ok (a # ts)"
proof -
  have "attempt_fits E n fee ixs signers i b \<longleftrightarrow> attempt_fits E (Suc n) fee ixs signers (Suc i) b" for i b
    by (simp add: attempt_fits_def)
  with assms show ?thesis
    by (auto simp: course_def nth_Cons split: nat.splits)
qed

lemma signed_transaction_simps [simp]:
  "tx_instructions (signed_transaction ixs k ks b) = ixs" "tx_signers (signed_transaction ixs k ks b) = k # ks"
  by (simp_all add: signed_transaction_def)

text \<open>One attempt: no blockhash, or one more recorded transaction whose result goes on.\<close>

lemma attempt_step:
  assumes "records_sends E log"
    and run: "cmd_bind (rpc_get_latest_blockhash (ce_rpc E)) (\<lambda>b.
      cmd_bind (cmd_try (rpc_send (ce_rpc E) mode (signed_transaction ixs k ks b))) f) w = (r, w')"
  obtains (none) "log w' = log w" "\<not> is_ok r"
  | (panic) b where "log w' = log w @ [\<lparr>at_mode = mode, at_transaction = signed_transaction ixs k ks b,
      at_accepted = False\<rparr>]" "\<not> is_ok r"
  | (sent) b q w2 where "log w2 = log w @ [\<lparr>at_mode = mode, at_transaction = signed_transaction ixs k ks b,
      at_accepted = is_ok q\<rparr>]" "f q w2 = (r, w')"
proof (cases rule: cmd_bind_E [OF run])
  case (1 e)
  then have "log w' = log w" using assms(1) by (metis records_sends_def snd_conv)
  then show ?thesis using none 1(2) by simp
next
  case (2 b w1)
  obtain q w2 where q: "rpc_send (ce_rpc E) mode (signed_transaction ixs k ks b) w1 = (q, w2)" by fastforce
  have "log w1 = log w" using assms(1) 2(1) by (metis records_sends_def snd_conv)
  then have sent_log: "log w2 = log w @ [\<lparr>at_mode = mode, at_transaction = signed_transaction ixs k ks b,
      at_accepted = is_ok q\<rparr>]"
    using assms(1) q by (metis fst_conv records_sends_def snd_conv)
  show ?thesis
  proof (cases "q = Inl CE_Panic")
    case True
    then have "r = Inl CE_Panic" "w' = w2" using 2(2) q by (simp_all add: cmd_bind_def cmd_try_def)
    then show ?thesis using panic sent_log True by simp
  next
    case False
    then have "f q w2 = (r, w')" using 2(2) q by (simp add: cmd_bind_def cmd_try_def)
    then show ?thesis by (rule sent [OF sent_log])
  qed
qed

lemma send_attempts_course:
  assumes "records_sends E log" "send_attempts E n fee ixs k ks w = (r, w')"
  shows "\<exists>ts. log w' = log w @ ts \<and> course E n fee ixs (k # ks) (is_ok r) ts"
  using assms(2)
proof (induction n arbitrary: w)
  case 0
  show ?case
  proof (rule attempt_step [OF assms(1) 0 [unfolded send_attempts.simps]])
    assume "log w' = log w" "\<not> is_ok r"
    then show ?case using course_Nil by (intro exI [of _ "[]"]) simp
  next
    fix b
    let ?a = "\<lparr>at_mode = Preflight, at_transaction = signed_transaction ixs k ks b, at_accepted = False\<rparr>"
    assume "log w' = log w @ [?a]" "\<not> is_ok r"
    then show ?case using course_last [of E 0 fee ixs "k # ks" ?a]
      by (intro exI [of _ "[?a]"]) (simp add: attempt_fits_def)
  next
    fix b and q :: "cli_error + bytes64" and w2
    let ?a = "\<lparr>at_mode = Preflight, at_transaction = signed_transaction ixs k ks b, at_accepted = is_ok q\<rparr>"
    assume "log w2 = log w @ [?a]" "(case q of Inl e \<Rightarrow> cmd_err CE_Send | Inr signature \<Rightarrow> cmd_ok signature) w2 = (r, w')"
    then show ?case using course_last [of E 0 fee ixs "k # ks" ?a]
      by (intro exI [of _ "[?a]"]) (auto simp: attempt_fits_def split: sum.splits)
  qed
next
  case (Suc n)
  let ?ixs = "fi_compute_unit_price (ce_foreign E) fee # ixs"
  have fits: "attempt_fits E (Suc n) fee ixs (k # ks) 0
      \<lparr>at_mode = Skip_preflight, at_transaction = signed_transaction ?ixs k ks b, at_accepted = acc\<rparr>" for b acc
    by (simp add: attempt_fits_def)
  show ?case
  proof (rule attempt_step [OF assms(1) Suc.prems [unfolded send_attempts.simps]])
    assume "log w' = log w" "\<not> is_ok r"
    then show ?case using course_Nil by (intro exI [of _ "[]"]) simp
  next
    fix b
    assume "log w' = log w @ [\<lparr>at_mode = Skip_preflight, at_transaction = signed_transaction ?ixs k ks b,
      at_accepted = False\<rparr>]" "\<not> is_ok r"
    then show ?case using course_last [OF fits [of b False]] by auto
  next
    fix b and q :: "cli_error + bytes64" and w2
    let ?a = "\<lparr>at_mode = Skip_preflight, at_transaction = signed_transaction ?ixs k ks b, at_accepted = is_ok q\<rparr>"
    assume log2: "log w2 = log w @ [?a]"
      and next': "(case q of Inl e \<Rightarrow> send_attempts E n fee ixs k ks | Inr signature \<Rightarrow> cmd_ok signature) w2 = (r, w')"
    show ?case
    proof (cases q)
      case (Inl e)
      with next' obtain ts where ts: "log w' = log w2 @ ts" "course E n fee ixs (k # ks) (is_ok r) ts"
        using Suc.IH by auto
      then show ?thesis using course_Cons [OF fits [of b "is_ok q"] _ ts(2)] Inl log2
        by (intro exI [of _ "?a # ts"]) simp
    next
      case (Inr sg)
      then show ?thesis using course_last [OF fits [of b "is_ok q"]] log2 next' by auto
    qed
  qed
qed

text \<open>
  Sending is bounded and honest about its result: a command makes at most one attempt more than
  the configured retries; all attempts carry the same instructions for the same signers, those
  within the retries with the priority fee and without a preflight check, the last one without the
  fee and with the check; no attempt follows one that was accepted; and the command succeeds exactly
  if its last attempt was accepted.
\<close>

theorem send_transactions_attempts:
  assumes "records_sends E log" "ch_keypair h = Some keypair"
    and "send_transactions E h ixs signers w = (r, w')"
  shows "\<exists>ts. log w' = log w @ ts \<and> length ts \<le> unat (ch_retries h) + 1 \<and>
    (\<forall>i < length ts. attempt_fits E (unat (ch_retries h)) (ch_priority_fee_micro_lamports h) ixs
       (keypair # signers) i (ts ! i)) \<and>
    (\<forall>i. i + 1 < length ts \<longrightarrow> \<not> at_accepted (ts ! i)) \<and>
    (is_ok r \<longleftrightarrow> ts \<noteq> [] \<and> at_accepted (last ts))"
  using send_attempts_course [OF assms(1), of "unat (ch_retries h)" "ch_priority_fee_micro_lamports h" ixs
      keypair signers w r w'] assms(2,3)
  by (simp add: send_transactions_def cmd_bind_def course_def)

subsection \<open>Addresses of operators\<close>

lemma parse_octets_decimal:
  "list_all (\<lambda>n. n < 256) ns \<Longrightarrow> parse_octets (map decimal ns) = Inr (map of_nat ns)"
  by (induction ns) (simp_all add: parse_unsigned_decimal)

lemma decimal_no_dot: "0x2E \<notin> set (decimal n)"
  using decimal_bytes(1) [of n] by (auto simp: list_all_iff)

text \<open>
  The text form of an IPv4 address is read back as its four octets in network order: for every
  address the dotted decimal form parses, and to that address.
\<close>

theorem ip_address_roundtrip:
  "parse_ip_address (join_with 0x2E (map (\<lambda>b. decimal (unat b)) (be_bytes 4 ip))) = Inr ip"
proof -
  let ?ns = "map unat (be_bytes 4 ip)"
  have split: "split_at_char 0x2E (join_with 0x2E (map decimal ?ns)) = map decimal ?ns"
    by (rule split_join) (simp_all add: decimal_no_dot list_all_iff flip: length_0_conv)
  have "list_all (\<lambda>n. n < 256) ?ns" using unat_lt_length [where 'a = 8] by (simp add: list_all_iff)
  from parse_octets_decimal [OF this] show ?thesis
    using split by (simp add: parse_ip_address_def comp_def be_word_be_bytes)
qed

subsection \<open>The reallocations of a new snapshot\<close>

lemma num_reallocs_snapshot: "num_reallocs SNAPSHOT_SIZE = 19"
  by (simp add: num_reallocs_def SNAPSHOT_SIZE_def OPERATOR_SNAPSHOT_SIZE_def MAX_REALLOC_BYTES_def
      MAX_PERMITTED_DATA_INCREASE_def)

text \<open>
  The command that creates the snapshot sends exactly the reallocations the program needs: when
  all the reallocations of its transaction succeed on the account the initialisation left (10,240
  bytes, no discriminator), the account has its full size, its discriminator, and a snapshot
  initialised by the last of the calls; after any smaller number it is not usable yet.
\<close>

theorem created_snapshot_complete:
  assumes ok: "list_all realloc_call_ok cs"
    and fresh: "pd_len (ac_data a) = 10240" "pd_first (ac_data a) \<noteq> discriminator D_Snapshot"
    and all: "accepted (realloc_step pid) cs a = cs"
  shows "(pd_first (ac_data (run_all (realloc_step pid) cs a)) = discriminator D_Snapshot \<longleftrightarrow>
      num_reallocs SNAPSHOT_SIZE \<le> length cs) \<and>
    (length cs = num_reallocs SNAPSHOT_SIZE \<longrightarrow>
      pd_len (ac_data (run_all (realloc_step pid) cs a)) = SNAPSHOT_SIZE \<and>
      initialised_by (cs ! 18) (body (run_all (realloc_step pid) cs a)))"
proof -
  have size: "SNAPSHOT_SIZE = 197505" by (simp add: SNAPSHOT_SIZE_def OPERATOR_SNAPSHOT_SIZE_def)
  have "grown [] (body a) a" using fresh by (simp add: grown_def size)
  from grown_run [OF this ok, of pid] all
  have "grown cs (body a) (run_all (realloc_step pid) cs a)" by simp
  then show ?thesis unfolding num_reallocs_snapshot by (auto simp: grown_def size split: if_splits)
qed

subsection \<open>Concrete commands\<close>

text \<open>A node that answers from a script: \<open>True\<close> accepts the next transaction.\<close>

type_synonym script = "attempt list \<times> bool list"

definition script_rpc :: "script rpc" where
  "script_rpc = \<lparr>rpc_get_account = (\<lambda>k. cmd_ok None), rpc_get_program_accounts = (\<lambda>p fs. cmd_ok []),
     rpc_get_epoch = cmd_ok 0, rpc_get_slot = cmd_ok 50, rpc_get_absolute_slot = cmd_ok 50, rpc_get_minimum_balance = (\<lambda>n. cmd_ok (of_nat n)),
     rpc_get_latest_blockhash = cmd_ok 7, rpc_send = (\<lambda>mode tx (log, script).
       case script of
         True # bs \<Rightarrow> (Inr 1, (log @ [\<lparr>at_mode = mode, at_transaction = tx, at_accepted = True\<rparr>], bs))
       | _ \<Rightarrow> (Inl CE_Rpc, (log @ [\<lparr>at_mode = mode, at_transaction = tx, at_accepted = False\<rparr>], tl script)))\<rparr>"

definition foreign_ix :: "nat \<Rightarrow> instruction" where
  "foreign_ix n = \<lparr>ix_program_id = 5, ix_accounts = [], ix_data = [of_nat n]\<rparr>"

definition sample_foreign :: foreign_instructions where
  "sample_foreign = \<lparr>fi_compute_unit_price = (\<lambda>_. foreign_ix 0), fi_compute_unit_limit = (\<lambda>_. foreign_ix 1),
     fi_transfer = (\<lambda>_ _ _. foreign_ix 2), fi_initialize_tracker = (\<lambda>_ _ _ _ _. foreign_ix 3),
     fi_crank_tracker = (\<lambda>_ _ _ _ _. foreign_ix 4), fi_close_tracker = (\<lambda>_ _ _ _ _. foreign_ix 5)\<rparr>"

definition sample_jito_addresses :: jito_addresses where
  "sample_jito_addresses = \<lparr>ja_restaking_config = (\<lambda>_. 6), ja_ncn_operator_state = (\<lambda>_ _ q. 100 + q),
     ja_ncn_vault_ticket = (\<lambda>_ _ v. 200 + v), ja_vault_ncn_ticket = (\<lambda>_ v _. 300 + v), ja_operator_vault_ticket = (\<lambda>_ q v. 600 + q + v),
     ja_vault_operator_delegation = (\<lambda>_ v q. 400 + v + q), ja_vault_config = (\<lambda>_. 7),
     ja_vault_update_state_tracker = (\<lambda>_ v e. 500 + v)\<rparr>"

definition sample_decoders :: "snapshot \<Rightarrow> vault_registry \<Rightarrow> account_decoders" where
  "sample_decoders s r = \<lparr>ad_config = (\<lambda>_. Inl PE_InvalidAccountData), ad_vault_registry = (\<lambda>_. Inr r),
     ad_snapshot = (\<lambda>_. Inr s), ad_operator_state_operator = (\<lambda>_. Inr 11), ad_operator_state_size = 0,
     ad_ncn_vault_ticket_vault = (\<lambda>_. Inr 31), ad_ncn_vault_ticket_size = 0,
     ad_delegation_index_operator = (\<lambda>_. Inr (0, 11)), ad_delegation_size = 0,
     ad_vault_config = (\<lambda>_. Inr \<lparr>vcv_epoch_length = 100, vcv_epoch_from_slot = (\<lambda>slot. Inr (slot div 100))\<rparr>),
     ad_ncn_operator_account = (\<lambda>_. Inl PE_InvalidAccountData), ad_operator_vault_ticket_state = (\<lambda>_. Inr sample_toggle),
     ad_staked_amount = (\<lambda>_. Inr 1000), ad_vault_size = 0, ad_vault_discriminator = 2,
     ad_tracker_last_updated_index = (\<lambda>_. Inr 0)\<rparr>"

definition sample_handler :: cli_handler where
  "sample_handler = \<lparr>ch_keypair = Some 9, ch_restaking_program_id = 1001, ch_vault_program_id = 1002,
     ch_ncn_program_id = NCN_PROGRAM_ID, ch_ncn = Some 1, ch_vault = 31, ch_epoch = 0, ch_retries = 2,
     ch_priority_fee_micro_lamports = 3\<rparr>"

lemma sample_handler_simps [simp]:
  "ch_keypair sample_handler = Some 9" "ch_ncn sample_handler = Some 1" "ch_retries sample_handler = 2"
  "ch_priority_fee_micro_lamports sample_handler = 3" "ch_ncn_program_id sample_handler = NCN_PROGRAM_ID"
  "ch_restaking_program_id sample_handler = 1001" "ch_vault_program_id sample_handler = 1002"
  by (simp_all add: sample_handler_def)

definition sample_env :: "'w rpc \<Rightarrow> snapshot \<Rightarrow> vault_registry \<Rightarrow> 'w cli_env" where
  "sample_env rpc s r = \<lparr>ce_rpc = rpc, ce_runtime = sample_runtime, ce_jito = sample_jito,
     ce_decoders = sample_decoders s r, ce_addresses = sample_jito_addresses, ce_foreign = sample_foreign\<rparr>"

lemma sample_env_simps [simp]:
  "ce_rpc (sample_env rpc s r) = rpc" "ce_runtime (sample_env rpc s r) = sample_runtime"
  "ce_jito (sample_env rpc s r) = sample_jito" "ce_decoders (sample_env rpc s r) = sample_decoders s r"
  "ce_addresses (sample_env rpc s r) = sample_jito_addresses" "ce_foreign (sample_env rpc s r) = sample_foreign"
  by (simp_all add: sample_env_def)

text \<open>Two retries: the first attempt is refused, the second accepted.\<close>

theorem send_transactions_attempts_witness:
  "\<exists>ts. fst (snd (send_transactions (sample_env script_rpc sample_snapshot sample_vaults) sample_handler [foreign_ix 9] [] ([], [False, True]))) = ts \<and>
     length ts \<le> 3 \<and> ts \<noteq> [] \<and> at_accepted (last ts)"
proof -
  let ?E = "sample_env script_rpc sample_snapshot sample_vaults"
  have rec: "records_sends ?E fst"
    by (auto simp: records_sends_def script_rpc_def split: list.splits bool.splits)
  obtain r w' where run: "send_transactions ?E sample_handler [foreign_ix 9] [] ([], [False, True]) = (r, w')"
    by (rule prod.exhaust)
  have two: "(2 :: nat) = Suc (Suc 0)" by simp
  have "is_ok (fst (send_attempts ?E 2 3 [foreign_ix 9] 9 [] ([], [False, True])))"
    unfolding two by (simp add: script_rpc_def cmd_bind_def cmd_try_def)
  then have "is_ok r" using run by (simp add: send_transactions_def cmd_bind_def)
  then show ?thesis
    using send_transactions_attempts [OF rec _ run, of 9] run by auto
qed

theorem created_snapshot_complete_witness:
  "pd_first (ac_data (run_all (realloc_step 42) [sample_realloc_call] (sample_pod 40 10240 0 sample_snapshot)))
     \<noteq> discriminator D_Snapshot"
proof -
  let ?a = "sample_pod 40 10240 0 sample_snapshot"
  obtain b where "realloc_step 42 sample_realloc_call ?a = Inr b" using sample_realloc by blast
  then have "accepted (realloc_step 42) [sample_realloc_call] ?a = [sample_realloc_call]" by simp
  from created_snapshot_complete [of "[sample_realloc_call]" ?a 42, OF _ _ _ this]
  show ?thesis by (simp add: sample_realloc_ok num_reallocs_snapshot)
qed

end
