(* ===== verification/Keeper_Chain.thy ===== *)
theory Keeper_Chain
  imports Cli_Properties
begin

text \<open>
  The chain the keeper talks to: what its reads return, which operators are due, the relation
  between the worlds before and after a command, the laws of the node, and a node with one
  registered operator that satisfies them.
\<close>

subsection \<open>Reading the state\<close>

lemma outside_apply: "outside m (w, st) = (case m w of (r, w') \<Rightarrow> (r, (w', st)))"
  by (simp add: outside_def)

lemma outside_eq [simp]: "m w = (r, w') \<Longrightarrow> outside m (w, st) = (r, (w', st))"
  by (simp add: outside_def)

lemma self_apply [simp]: "self (w, st) = (Inr st, (w, st))"
  by (simp add: self_def)

lemma modify_self_apply [simp]: "modify_self f (w, st) = (Inr (), (w, f st))"
  by (simp add: modify_self_def)

text \<open>A node that answers reads from the state of the chain and changes nothing.\<close>

definition answers :: "'w cli_env \<Rightarrow> ('w \<Rightarrow> pubkey \<Rightarrow> rpc_account option) \<Rightarrow> bool" where
  "answers E view \<longleftrightarrow> (\<forall>k w. rpc_get_account (ce_rpc E) k w = (Inr (view w k), w))"

lemma get_account_answers: "answers E view \<Longrightarrow> get_account E k w = (Inr (view w k), w)"
  by (simp add: answers_def get_account_def)

lemma get_decoded_answers:
  "answers E view \<Longrightarrow> view w k = Some a \<Longrightarrow> decode (ra_data a) = Inr x \<Longrightarrow> get_decoded E k decode w = (Inr x, w)"
  by (simp add: get_decoded_def get_account_answers)

text \<open>
  An operator is due when it has no entry in the snapshot, or an active one last recorded before the
  epoch.
\<close>

definition entry_behind :: "u64 \<Rightarrow> u64 \<Rightarrow> operator_snapshot \<Rightarrow> bool" where
  "entry_behind epoch_length epoch e \<longleftrightarrow>
     os_is_active e \<and> unat (os_last_snapshot_slot e) div unat epoch_length < unat epoch"

definition operator_due :: "u64 \<Rightarrow> u64 \<Rightarrow> snapshot \<Rightarrow> pubkey \<Rightarrow> bool" where
  "operator_due epoch_length epoch s operator =
     (case List.find (\<lambda>e. os_operator e = operator) (ss_operator_snapshots s) of
        None \<Rightarrow> True
      | Some e \<Rightarrow> entry_behind epoch_length epoch e)"

lemma entry_due_behind: "l \<noteq> 0 \<Longrightarrow> entry_due l epoch e = Inr (entry_behind l epoch e)"
  by (simp add: entry_due_def get_epoch_def checked_div_def entry_behind_def word_less_nat_alt unat_div)

lemma due_operators_behind:
  "l \<noteq> 0 \<Longrightarrow> due_operators l epoch es = Inr (map os_operator (filter (entry_behind l epoch) es))"
  by (induction es) (simp_all add: entry_due_behind)

lemma needs_snapshot_due:
  assumes "get_restaking_config E h w = (Inr l, w)" "l \<noteq> 0"
  shows "operator_needs_snapshot E h epoch operator s w = (Inr (operator_due l epoch s operator), w)"
  using assms by (simp add: operator_needs_snapshot_def operator_due_def entry_due_behind split: option.splits)

lemma collect_operators_due:
  assumes "get_restaking_config E h w = (Inr l, w)" "l \<noteq> 0"
  shows "collect_operators E h s operators (w, st) =
    (Inr (), (w, st\<lparr>ks_operators_to_snapshot :=
       ks_operators_to_snapshot st @ filter (operator_due l (ks_epoch st) s) operators\<rparr>))"
  by (induction operators arbitrary: st)
    (simp_all add: needs_snapshot_due [OF assms])

lemma update_operators_due:
  assumes "get_restaking_config E h w = (Inr l, w)" "l \<noteq> 0"
    and "get_all_operators_in_ncn E h w = (Inr operators, w)" "ks_snapshot st = Some s"
  shows "update_operators_to_snapshot E h (w, st) =
    (Inr (), (w, st\<lparr>ks_should_snapshot := (filter (operator_due l (ks_epoch st) s) operators \<noteq> []),
       ks_operators_to_snapshot := filter (operator_due l (ks_epoch st) s) operators\<rparr>))"
  using assms(4) by (simp add: update_operators_to_snapshot_def assms(3) collect_operators_due [OF assms(1,2)])

lemma update_state_due:
  assumes ans: "answers E view" and conf: "get_restaking_config E h w = (Inr l, w)" "l \<noteq> 0"
    and ops: "get_all_operators_in_ncn E h w = (Inr operators, w)"
  shows "update_state E h (w, st) =
    (case view w (ks_snapshot_address st) of
       None \<Rightarrow> (Inr (), (w, forget_snapshot st))
     | Some a \<Rightarrow>
         if length (ra_data a) < SNAPSHOT_SIZE then (Inr (), (w, forget_snapshot st))
         else (case ad_snapshot (ce_decoders E) (ra_data a) of
             Inl e \<Rightarrow> (Inl (cli_error_of e), (w, st))
           | Inr s \<Rightarrow> (Inr (), (w, st\<lparr>ks_snapshot := Some s,
               ks_should_snapshot := (filter (operator_due l (ks_epoch st) s) operators \<noteq> []),
               ks_operators_to_snapshot := filter (operator_due l (ks_epoch st) s) operators\<rparr>))))"
  by (auto simp: update_state_def get_account_answers [OF ans] update_operators_due [OF conf ops]
      split: option.splits sum.splits)

subsection \<open>Running a command keeps a relation\<close>

text \<open>Every run of the command relates the world before it to the world after it.\<close>

definition keeps :: "('w \<Rightarrow> 'w \<Rightarrow> bool) \<Rightarrow> ('w, 'a) command \<Rightarrow> bool" where
  "keeps Q m \<longleftrightarrow> (\<forall>w r w'. m w = (r, w') \<longrightarrow> Q w w')"

named_theorems keeps_rules

lemma keepsD: "keeps Q m \<Longrightarrow> m w = (r, w') \<Longrightarrow> Q w w'"
  by (auto simp: keeps_def)

lemma keeps_bind [keeps_rules]:
  assumes "transp Q" "keeps Q m" "\<And>x w w'. m w = (Inr x, w') \<Longrightarrow> keeps Q (f x)"
  shows "keeps Q (cmd_bind m f)"
  unfolding keeps_def
proof (intro allI impI)
  fix w r w'
  assume "cmd_bind m f w = (r, w')"
  then show "Q w w'"
  proof (cases rule: cmd_bind_E)
    case (1 e)
    then show ?thesis using assms(2) by (auto intro: keepsD)
  next
    case (2 x v)
    then show ?thesis using assms(1) keepsD [OF assms(2) 2(1)] keepsD [OF assms(3) [OF 2(1)] 2(2)]
      by (auto dest: transpD)
  qed
qed

lemma keeps_pure [keeps_rules]:
  assumes "reflp Q"
  shows "keeps Q (cmd_ok x)" "keeps Q (cmd_err e)" "keeps Q (cmd_lift r)" "keeps Q (cmd_program p)"
    "keeps Q (handler_keypair h)" "keeps Q (handler_ncn h)"
  using assms by (simp_all add: keeps_def reflpD)

lemma keeps_try [keeps_rules]: "keeps Q m \<Longrightarrow> keeps Q (cmd_try m)"
  by (force simp: keeps_def cmd_try_apply split: prod.splits if_splits)

lemma keeps_logged [keeps_rules]: "reflp Q \<Longrightarrow> transp Q \<Longrightarrow> keeps Q m \<Longrightarrow> keeps Q (cmd_logged m)"
  unfolding cmd_logged_def by (intro keeps_rules)

lemma keeps_each [keeps_rules]:
  "reflp Q \<Longrightarrow> transp Q \<Longrightarrow> (\<And>x. x \<in> set xs \<Longrightarrow> keeps Q (f x)) \<Longrightarrow> keeps Q (cmd_each f xs)"
  by (induction xs) (auto intro!: keeps_rules)

text \<open>The reads of the keeper keep the relation.\<close>

definition reads_keep :: "'w cli_env \<Rightarrow> ('w \<Rightarrow> 'w \<Rightarrow> bool) \<Rightarrow> bool" where
  "reads_keep E Q \<longleftrightarrow> (\<forall>k. keeps Q (rpc_get_account (ce_rpc E) k)) \<and>
     (\<forall>p fs. keeps Q (rpc_get_program_accounts (ce_rpc E) p fs)) \<and> keeps Q (rpc_get_epoch (ce_rpc E)) \<and>
     keeps Q (rpc_get_slot (ce_rpc E)) \<and> keeps Q (rpc_get_latest_blockhash (ce_rpc E))"

definition sends_keep :: "'w cli_env \<Rightarrow> ('w \<Rightarrow> 'w \<Rightarrow> bool) \<Rightarrow> instruction list \<Rightarrow> bool" where
  "sends_keep E Q ixs \<longleftrightarrow> (\<forall>mode tx. tx_instructions tx = ixs \<longrightarrow> keeps Q (rpc_send (ce_rpc E) mode tx))"

lemma send_attempts_keep:
  assumes "reflp Q" "transp Q" "reads_keep E Q" "sends_keep E Q ixs"
    and "sends_keep E Q (fi_compute_unit_price (ce_foreign E) fee # ixs)"
  shows "keeps Q (send_attempts E n fee ixs k ks)"
proof (induction n)
  case 0
  then show ?case using assms
    by (auto simp: reads_keep_def sends_keep_def intro!: keeps_rules split: sum.splits)
next
  case (Suc n)
  then show ?case using assms
    by (auto simp: reads_keep_def sends_keep_def intro!: keeps_rules split: sum.splits)
qed

lemma send_and_log_keep:
  assumes "reflp Q" "transp Q" "reads_keep E Q" "sends_keep E Q ixs"
    and "\<And>fee. sends_keep E Q (fi_compute_unit_price (ce_foreign E) fee # ixs)"
  shows "keeps Q (send_and_log_transaction E h ixs ks)"
  unfolding send_and_log_transaction_def send_transactions_def
  by (intro keeps_rules assms send_attempts_keep)

subsection \<open>What a recorded delegation does to the snapshot\<close>

definition entry_refreshed :: "u64 \<Rightarrow> u64 \<Rightarrow> operator_snapshot \<Rightarrow> operator_snapshot \<Rightarrow> bool" where
  "entry_refreshed epoch_length epoch e e' \<longleftrightarrow>
     os_operator e' = os_operator e \<and> os_is_active e' = os_is_active e \<and>
     os_ncn_operator_index e' = os_ncn_operator_index e \<and> os_g1_pubkey e' = os_g1_pubkey e \<and>
     os_slot_created e' = os_slot_created e \<and> os_operator_index e' = os_operator_index e \<and>
     \<not> entry_behind epoch_length epoch e'"

text \<open>What a delegation leaves of the snapshot: all but the entries and the slot of the last record.\<close>

definition snapshot_frame ::
  "snapshot \<Rightarrow> (pubkey \<times> u8 \<times> u64) \<times> (u64 \<times> u64) \<times> bytes32 \<times> stake_weights \<times> u64" where
  "snapshot_frame s = ((ss_ncn s, ss_bump s, ss_slot_created s),
     (ss_operators_registered s, ss_operators_can_vote_count s), ss_total_aggregated_g1_pubkey s,
     ss_minimum_stake s, ss_generation s)"

text \<open>Some of the entries of the operators have been refreshed, nothing else has changed.\<close>

definition refreshed :: "u64 \<Rightarrow> u64 \<Rightarrow> pubkey set \<Rightarrow> snapshot \<Rightarrow> snapshot \<Rightarrow> bool" where
  "refreshed epoch_length epoch ps s t \<longleftrightarrow>
     snapshot_frame t = snapshot_frame s \<and>
     length (ss_operator_snapshots t) = length (ss_operator_snapshots s) \<and>
     (\<forall>i < length (ss_operator_snapshots s).
        ss_operator_snapshots t ! i = ss_operator_snapshots s ! i \<or>
        os_operator (ss_operator_snapshots s ! i) \<in> ps \<and>
        entry_refreshed epoch_length epoch (ss_operator_snapshots s ! i) (ss_operator_snapshots t ! i))"

lemma refreshed_refl: "refreshed l epoch ps s s"
  by (simp add: refreshed_def)

lemma entry_refreshed_trans:
  "entry_refreshed l epoch e e' \<Longrightarrow> entry_refreshed l epoch e' e'' \<Longrightarrow> entry_refreshed l epoch e e''"
  by (simp add: entry_refreshed_def)

lemma refreshed_trans:
  assumes "refreshed l epoch ps s t" "refreshed l epoch ps t u"
  shows "refreshed l epoch ps s u"
  unfolding refreshed_def
proof (intro conjI allI impI)
  show "snapshot_frame u = snapshot_frame s" "length (ss_operator_snapshots u) = length (ss_operator_snapshots s)"
    using assms by (simp_all add: refreshed_def)
  fix i assume i: "i < length (ss_operator_snapshots s)"
  let ?e = "\<lambda>s. ss_operator_snapshots s ! i"
  from assms i have
    "?e t = ?e s \<or> os_operator (?e s) \<in> ps \<and> entry_refreshed l epoch (?e s) (?e t)"
    "?e u = ?e t \<or> os_operator (?e t) \<in> ps \<and> entry_refreshed l epoch (?e t) (?e u)"
    by (simp_all add: refreshed_def)
  then show "?e u = ?e s \<or> os_operator (?e s) \<in> ps \<and> entry_refreshed l epoch (?e s) (?e u)"
    by (elim disjE conjE) (auto dest: entry_refreshed_trans)
qed

lemma refreshed_update:
  assumes "i < length (ss_operator_snapshots s)" "ss_operator_snapshots t = (ss_operator_snapshots s)[i := e]"
    and "os_operator (ss_operator_snapshots s ! i) \<in> ps"
    and "entry_refreshed l epoch (ss_operator_snapshots s ! i) e" "snapshot_frame t = snapshot_frame s"
  shows "refreshed l epoch ps s t"
  using assms by (auto simp: refreshed_def nth_list_update)

lemma delegation_refreshes:
  assumes shape: "shape_inv s" and del: "snapshot_delegate p slot k w nw s = Inr t"
    and now: "unat epoch \<le> unat slot div unat l"
  obtains i e where "position (is_entry_of p) (ss_operator_snapshots s) = Some i"
    "i < length (ss_operator_snapshots s)" "os_operator (ss_operator_snapshots s ! i) = p"
    "ss_operator_snapshots t = (ss_operator_snapshots s)[i := e]"
    "entry_refreshed l epoch (ss_operator_snapshots s ! i) e" "shape_inv t" "snapshot_frame t = snapshot_frame s"
proof -
  from del obtain e e' where f: "find_operator_snapshot s p = Some e"
    and e': "os_snapshot_delegation e slot k w nw (ss_minimum_stake s) = Inr e'"
    and t: "ss_operator_snapshots t = (ss_operator_snapshots s)[unat (os_ncn_operator_index e') := e']"
      "ss_operators_registered t = ss_operators_registered s" "snapshot_frame t = snapshot_frame s"
    by (auto simp: snapshot_delegate_def update_operator_snapshot_def set_last_snapshot_slot_def snapshot_frame_def
        split: if_splits)
  from find_entry [OF shape f] obtain i where
    i: "position (is_entry_of p) (ss_operator_snapshots s) = Some i" "i < MAX_OPERATORS"
      "e = ss_operator_snapshots s ! i" "entry_live e" "os_operator e = p"
      "unat (os_ncn_operator_index e) = i" "entry_ok e" "i \<in> live_slots s" by blast
  note frame = delegation_entry_frame [OF e']
  have t1: "ss_operator_snapshots t = (ss_operator_snapshots s)[i := e']" using t(1) frame i(6) by simp
  have "shape_inv t"
    by (rule shape_update [OF shape i(2) t1]) (simp_all add: frame i(4,6,8) t(2) os_snapshot_delegation_step(1) [OF i(7) e'])
  moreover have "os_is_active e' = os_is_active e" "os_slot_created e' = os_slot_created e"
      "os_operator_index e' = os_operator_index e"
    using e' by (auto simp: os_snapshot_delegation_def split: if_splits)
  then have "entry_refreshed l epoch e e'"
    using frame now by (simp add: entry_refreshed_def entry_behind_def)
  moreover have "i < length (ss_operator_snapshots s)" using shape i(2) by (simp add: shape_inv_def)
  ultimately show ?thesis using that [of i e'] i t1 t(3) by simp
qed

subsection \<open>The chain the keeper talks to\<close>

text \<open>
  The accounts and the runtime of the program in every world, with the restaking program, the
  arithmetic and the syscalls the program runs on.
\<close>

record ('w, 'p) chain =
  cn_view :: "'w \<Rightarrow> pubkey \<Rightarrow> rpc_account option"
  cn_runtime :: "'w \<Rightarrow> runtime"
  cn_slot :: "'w \<Rightarrow> u64"
  cn_jito :: jito
  cn_precise :: "'p precise_ops"
  cn_syscalls :: syscalls

definition snapshot_on :: "'w cli_env \<Rightarrow> cli_handler \<Rightarrow> pubkey \<Rightarrow> ('w, 'p) chain \<Rightarrow> 'w \<Rightarrow> snapshot option" where
  "snapshot_on E h ncn C w =
     (case cn_view C w (snapshot_address E h ncn) of
        None \<Rightarrow> None
      | Some a \<Rightarrow> result_ok (ad_snapshot (ce_decoders E) (ra_data a)))"

text \<open>The snapshot stays and the clock does not go back.\<close>

definition calm :: "'w cli_env \<Rightarrow> cli_handler \<Rightarrow> pubkey \<Rightarrow> ('w, 'p) chain \<Rightarrow> 'w \<Rightarrow> 'w \<Rightarrow> bool" where
  "calm E h ncn C w w' \<longleftrightarrow> snapshot_on E h ncn C w' = snapshot_on E h ncn C w \<and> cn_slot C w \<le> cn_slot C w'"

text \<open>The program ran the delegation instruction on the accounts it names and its effect was stored.\<close>

definition delegation_accounts :: "ncn_accounts \<Rightarrow> pubkey list \<Rightarrow> snapshot \<Rightarrow> bool" where
  "delegation_accounts A keys s \<longleftrightarrow>
     (\<exists>config rc ncn operator vault vnt nvt nos vod snap reg.
        nx_snapshot_delegation A = Some (config, rc, ncn, operator, vault, vnt, nvt, nos, vod, snap, reg) \<and>
        keys = [key_of config, key_of rc, key_of ncn, key_of operator, key_of vault, key_of vnt, key_of nvt,
          key_of nos, key_of vod, key_of snap, key_of reg] \<and> body snap = s)"

definition delegation_executed ::
  "'w cli_env \<Rightarrow> cli_handler \<Rightarrow> pubkey \<Rightarrow> ('w, 'p) chain \<Rightarrow> instruction \<Rightarrow> 'w \<Rightarrow> 'w \<Rightarrow> bool" where
  "delegation_executed E h ncn C ix w w' \<longleftrightarrow>
     (\<exists>s A a. snapshot_on E h ncn C w = Some s \<and> delegation_accounts A (map am_pubkey (ix_accounts ix)) s \<and>
        clock_slot (cn_runtime C w) = Inr (cn_slot C w) \<and>
        ncn_process_instruction (cn_runtime C w) (cn_jito C) (cn_precise C) (cn_syscalls C) NCN_PROGRAM_ID A
          (ix_data ix) = Inr (NX_snapshot a) \<and>
        snapshot_on E h ncn C w' = Some (body a) \<and> cn_slot C w \<le> cn_slot C w')"

text \<open>
  What the keeper relies on: reads return what the chain holds and do not disturb it; nobody else
  changes the snapshot meanwhile, so that a transaction without an instruction of the program leaves
  it alone; a delegation transaction either is refused and has no effect on it or executes the program
  (whatever the node then reports); the restaking program's epoch length is fixed.
\<close>

definition foreign :: "instruction list \<Rightarrow> bool" where
  "foreign ixs \<longleftrightarrow> list_all (\<lambda>ix. ix_program_id ix \<noteq> NCN_PROGRAM_ID) ixs"

definition chain_laws :: "'w cli_env \<Rightarrow> cli_handler \<Rightarrow> pubkey \<Rightarrow> ('w, 'p) chain \<Rightarrow> u64 \<Rightarrow> bool" where
  "chain_laws E h ncn C epoch_length \<longleftrightarrow>
     ch_ncn h = Some ncn \<and> epoch_length \<noteq> 0 \<and>
     (\<forall>k w x w'. rpc_get_account (ce_rpc E) k w = (Inr x, w') \<longrightarrow> x = cn_view C w k) \<and>
     reads_keep E (calm E h ncn C) \<and>
     (\<forall>ixs. foreign ixs \<longrightarrow> sends_keep E (calm E h ncn C) ixs) \<and>
     (\<forall>fee. foreign [fi_compute_unit_price (ce_foreign E) fee]) \<and>
     (\<forall>a b c d e. foreign [fi_initialize_tracker (ce_foreign E) a b c d e] \<and>
        foreign [fi_crank_tracker (ce_foreign E) a b c d e]) \<and>
     (\<forall>a b c d e. foreign [fi_close_tracker (ce_foreign E) a b c d e]) \<and>
     (\<forall>w a. cn_view C w (ja_restaking_config (ce_addresses E) (ch_restaking_program_id h)) = Some a \<longrightarrow>
        jt_epoch_length (ce_jito E) (ra_data a) = Inr epoch_length) \<and>
     (\<forall>vault operator pre mode tx w r w'. foreign pre \<longrightarrow>
        tx_instructions tx = pre @ [call_form (delegation_call E h ncn vault operator) []] \<longrightarrow>
        rpc_send (ce_rpc E) mode tx w = (r, w') \<longrightarrow>
        calm E h ncn C w w' \<and> \<not> is_ok r \<or>
        delegation_executed E h ncn C (call_form (delegation_call E h ncn vault operator) []) w w')"

lemma chain_lawsD:
  assumes "chain_laws E h ncn C l"
  shows "ch_ncn h = Some ncn" "l \<noteq> 0" "reads_keep E (calm E h ncn C)"
    "rpc_get_account (ce_rpc E) k w = (Inr x, w') \<Longrightarrow> x = cn_view C w k"
    "foreign ixs \<Longrightarrow> sends_keep E (calm E h ncn C) ixs"
    "foreign [fi_compute_unit_price (ce_foreign E) fee]"
    "foreign [fi_initialize_tracker (ce_foreign E) a b c d e]" "foreign [fi_crank_tracker (ce_foreign E) a b c d e]"
    "foreign [fi_close_tracker (ce_foreign E) a b c d slot]"
    "cn_view C w (ja_restaking_config (ce_addresses E) (ch_restaking_program_id h)) = Some ac \<Longrightarrow>
       jt_epoch_length (ce_jito E) (ra_data ac) = Inr l"
    "foreign pre \<Longrightarrow> tx_instructions tx = pre @ [call_form (delegation_call E h ncn vault operator) []] \<Longrightarrow>
       rpc_send (ce_rpc E) mode tx w = (r, w') \<Longrightarrow> calm E h ncn C w w' \<and> \<not> is_ok r \<or>
       delegation_executed E h ncn C (call_form (delegation_call E h ncn vault operator) []) w w'"
  using assms unfolding chain_laws_def by (elim conjE; simp; fail)+

text \<open>An executed delegation refreshes the entry of its operator.\<close>

lemma delegation_executed_refreshes:
  assumes run: "delegation_executed E h ncn C (call_form (delegation_call E h ncn vault operator) []) w w'"
    and s: "snapshot_on E h ncn C w = Some s" "shape_inv s"
    and now: "unat epoch \<le> unat (cn_slot C w) div unat l"
  obtains i e t where "snapshot_on E h ncn C w' = Some t" "shape_inv t"
    "position (is_entry_of operator) (ss_operator_snapshots s) = Some i"
    "i < length (ss_operator_snapshots s)" "os_operator (ss_operator_snapshots s ! i) = operator"
    "ss_operator_snapshots t = (ss_operator_snapshots s)[i := e]"
    "entry_refreshed l epoch (ss_operator_snapshots s ! i) e" "snapshot_frame t = snapshot_frame s"
proof -
  let ?R = "cn_runtime C w" and ?call = "delegation_call E h ncn vault operator"
  have means: "call_instruction ?call = SnapshotVaultOperatorDelegation" by (simp add: delegation_call_def)
  from run s obtain A a where A: "delegation_accounts A (map am_pubkey (ix_accounts (call_form ?call []))) s"
    and clock: "clock_slot ?R = Inr (cn_slot C w)"
    and exec: "ncn_process_instruction ?R (cn_jito C) (cn_precise C) (cn_syscalls C) NCN_PROGRAM_ID A
      (ix_data (call_form ?call [])) = Inr (NX_snapshot a)"
    and t: "snapshot_on E h ncn C w' = Some (body a)"
    by (auto simp: delegation_executed_def)
  from A obtain config rc n op v vnt nvt nos vod snap reg where
    nx: "nx_snapshot_delegation A = Some (config, rc, n, op, v, vnt, nvt, nos, vod, snap, reg)"
    and op: "key_of op = operator" and snap: "body snap = s"
    by (auto simp: delegation_accounts_def delegation_call_def meta_of_def)
  have "run_ncn_instruction ?R (cn_jito C) (cn_precise C) (cn_syscalls C) NCN_PROGRAM_ID A
      SnapshotVaultOperatorDelegation = Inr (NX_snapshot a)"
    using exec means dispatch_encoded [of SnapshotVaultOperatorDelegation ?R "cn_jito C" "cn_precise C"
        "cn_syscalls C" A] by (simp add: wf_ncn_instruction_def)
  then have "process_snapshot_vault_operator_delegation ?R (cn_jito C) (cn_precise C) NCN_PROGRAM_ID
      (Some (config, rc, n, op, v, vnt, nvt, nos, vod, snap, reg)) = Inr a"
    by (auto simp: nx)
  from delegation_handler [OF this, of "cn_syscalls C"] clock op snap obtain k x y where
    "snapshot_delegate operator (cn_slot C w) k x y s = Inr (body a)"
    by (auto simp: snapshot_step_def)
  from delegation_refreshes [OF s(2) this now] show ?thesis using that t by metis
qed

subsection \<open>A node with one operator\<close>

text \<open>
  The program's accounts on the node, with operator 11 registered and never recorded; the epoch of
  the restaking program has ten slots and the slot is 50.
\<close>

definition own_pod :: "pubkey \<Rightarrow> nat \<Rightarrow> u8 \<Rightarrow> 'b \<Rightarrow> 'b pod_account" where
  "own_pod key len first b = \<lparr>ac_info = sample_info key NCN_PROGRAM_ID,
     ac_data = \<lparr>pd_len = len, pd_first = first, pd_body = b\<rparr>\<rparr>"

lemma own_pod_simps [simp]:
  "ac_info (own_pod k n f b) = sample_info k NCN_PROGRAM_ID"
  "pod_first (own_pod k n f b) = (if n = 0 then None else Some f)"
  "body (own_pod k n f b) = b" "set_body c (own_pod k n f b) = own_pod k n f c"
  "pod_view sample_runtime d m (own_pod k n f b) =
     (if n \<noteq> 0 \<and> f = d \<and> n = m then Inr b else Inl PE_InvalidAccountData)"
  by (auto simp: own_pod_def pod_first_def set_body_def pod_view_def)

definition keeper_jito :: jito where "keeper_jito = sample_jito\<lparr>jt_epoch_length := \<lambda>_. Inr 10\<rparr>"

definition keeper_delegation_accounts where
  "keeper_delegation_accounts =
    (own_pod 38 CONFIG_SIZE (discriminator D_Config) sample_config, sample_raw 6 1001, sample_raw 1 1001,
     sample_raw 11 1001, sample_raw 9 1002, sample_raw 309 1002, sample_raw 209 1001, sample_raw 111 1001,
     sample_raw 420 1002, own_pod 40 SNAPSHOT_SIZE (discriminator D_Snapshot) history_1,
     own_pod 46 VAULT_REGISTRY_SIZE (discriminator D_VaultRegistry) sample_vaults)"

lemma sample_weight: "get_vault_weight_bps sample_vaults 9 = Inr 10000"
  by (simp add: get_vault_weight_bps_def sample_vaults_def sample_registry_def vault_registry_new_def
      MAX_VAULTS_def replicate_update_0 vault_entry_new_def ve_is_empty_def MAX_ST_MINTS_def st_mint_entry_new_def)

lemma history_delegation:
  "\<exists>e. os_snapshot_delegation history_entry 50 0 (sw_new 1000) (sw_new 900) (ss_minimum_stake history_1) = Inr e \<and>
     os_ncn_operator_index e = 0"
  by (simp add: os_snapshot_delegation_def history_entry_def operator_snapshot_default_def MAX_VAULTS_def
      upsert_contribution_def vault_contribution_default_def vault_contribution_new_def vc_is_empty_def
      replicate_update_0 EMPTY_REGISTRY_SLOT_def sw_increment_def increment_stake_weight_def checked_add_def
      sw_default_def sw_new_def)

lemma keeper_delegation:
  "\<exists>s. process_snapshot_vault_operator_delegation sample_runtime keeper_jito precise_u128 NCN_PROGRAM_ID
     (Some keeper_delegation_accounts) = Inr (own_pod 40 SNAPSHOT_SIZE (discriminator D_Snapshot) s)"
proof -
  obtain e where e: "os_snapshot_delegation history_entry 50 0 (sw_new 1000) (sw_new 900)
      (ss_minimum_stake history_1) = Inr e" "os_ncn_operator_index e = 0" using history_delegation by blast
  have "length (ss_operator_snapshots history_1) = 256" by (simp add: history_1_def)
  then obtain s where "update_operator_snapshot history_1 0 e = Inr s"
    by (simp add: update_operator_snapshot_def)
  then show ?thesis
    by (simp add: process_snapshot_vault_operator_delegation_def keeper_delegation_accounts_def sample_loads
        keeper_jito_def load_delegation_accounts_def load_ncn_epoch_def checked_div_def history_find
        snapshot_view_def registry_view_def SNAPSHOT_SIZE_def OPERATOR_SNAPSHOT_SIZE_def VAULT_REGISTRY_SIZE_def
        CONFIG_SIZE_def vault_ncn_connection_active_def operator_ncn_connection_active_def sample_vault_slot
        sample_weight weighted_stakes_def calculate_stake_weights_def precise_u128_def checked_sub_def
        apply_weight_Inr e) blast
qed

definition delegated_history :: snapshot where
  "delegated_history =
     (case process_snapshot_vault_operator_delegation sample_runtime keeper_jito precise_u128 NCN_PROGRAM_ID
        (Some keeper_delegation_accounts) of Inr a \<Rightarrow> body a | Inl _ \<Rightarrow> history_1)"

text \<open>Its snapshot account before and after the delegation, and its answers.\<close>

definition keeper_view :: "bool \<Rightarrow> pubkey \<Rightarrow> rpc_account option" where
  "keeper_view w k = Some \<lparr>ra_owner = NCN_PROGRAM_ID, ra_lamports = 1, ra_data = replicate SNAPSHOT_SIZE (of_bool w)\<rparr>"

definition keeper_decoders :: account_decoders where
  "keeper_decoders = sample_decoders history_1 sample_vaults\<lparr>ad_snapshot :=
     \<lambda>d. Inr (if hd d = 0 then history_1 else delegated_history)\<rparr>"

definition keeper_base :: "bool cli_env" where
  "keeper_base = \<lparr>ce_rpc = \<lparr>rpc_get_account = (\<lambda>k w. (Inr (keeper_view w k), w)),
       rpc_get_program_accounts = (\<lambda>_ _ w. (Inr [(100, the (keeper_view w 0))], w)),
       rpc_get_epoch = cmd_ok 5, rpc_get_slot = cmd_ok 50, rpc_get_absolute_slot = cmd_ok 50, rpc_get_minimum_balance = (\<lambda>n. cmd_ok (of_nat n)),
       rpc_get_latest_blockhash = cmd_ok 7, rpc_send = (\<lambda>_ _. cmd_err CE_Rpc)\<rparr>,
     ce_runtime = sample_runtime, ce_jito = keeper_jito, ce_decoders = keeper_decoders,
     ce_addresses = sample_jito_addresses, ce_foreign = sample_foreign\<rparr>"

definition keeper_ix :: instruction where
  "keeper_ix = call_form (delegation_call keeper_base sample_handler 1 9 11) []"

text \<open>The node executes the delegation once and takes the transactions of the other programs.\<close>

definition keeper_send :: "send_mode \<Rightarrow> transaction \<Rightarrow> (bool, bytes64) command" where
  "keeper_send mode tx w =
     (if foreign (tx_instructions tx) then (Inr 1, w)
      else if \<not> w \<and> foreign (butlast (tx_instructions tx)) \<and> last (tx_instructions tx) = keeper_ix
      then (Inr 1, True)
      else (Inl CE_Rpc, w))"

definition keeper_env :: "bool cli_env" where
  "keeper_env = keeper_base\<lparr>ce_rpc := (ce_rpc keeper_base)\<lparr>rpc_send := keeper_send\<rparr>\<rparr>"

definition keeper_chain :: "(bool, u128) chain" where
  "keeper_chain = \<lparr>cn_view = keeper_view, cn_runtime = \<lambda>_. sample_runtime, cn_slot = \<lambda>_. 50,
     cn_jito = keeper_jito, cn_precise = precise_u128, cn_syscalls = tri_syscalls\<rparr>"

lemma keeper_env_simps [simp]:
  "rpc_get_account (ce_rpc keeper_env) = (\<lambda>k w. (Inr (keeper_view w k), w))"
  "rpc_get_program_accounts (ce_rpc keeper_env) = (\<lambda>_ _ w. (Inr [(100, the (keeper_view w 0))], w))"
  "rpc_get_epoch (ce_rpc keeper_env) = cmd_ok 5" "rpc_get_slot (ce_rpc keeper_env) = cmd_ok 50"
  "rpc_get_latest_blockhash (ce_rpc keeper_env) = cmd_ok 7" "rpc_send (ce_rpc keeper_env) = keeper_send"
  "ce_runtime keeper_env = sample_runtime" "ce_jito keeper_env = keeper_jito"
  "ce_decoders keeper_env = keeper_decoders" "ce_addresses keeper_env = sample_jito_addresses"
  "ce_foreign keeper_env = sample_foreign"
  by (simp_all add: keeper_env_def keeper_base_def)

lemma keeper_chain_simps [simp]:
  "cn_view keeper_chain = keeper_view" "cn_runtime keeper_chain = (\<lambda>_. sample_runtime)"
  "cn_slot keeper_chain = (\<lambda>_. 50)" "cn_jito keeper_chain = keeper_jito"
  "cn_precise keeper_chain = precise_u128" "cn_syscalls keeper_chain = tri_syscalls"
  by (simp_all add: keeper_chain_def)

lemma keeper_call: "delegation_call keeper_env sample_handler = delegation_call keeper_base sample_handler"
  by (intro ext) (simp add: delegation_call_def keeper_env_def keeper_base_def)

lemma keeper_snapshot_on:
  "snapshot_on keeper_env sample_handler 1 keeper_chain w = Some (if w then delegated_history else history_1)"
  by (simp add: snapshot_on_def keeper_view_def keeper_decoders_def SNAPSHOT_SIZE_def)

lemma keeper_executed:
  "delegation_executed keeper_env sample_handler 1 keeper_chain keeper_ix False True"
proof -
  let ?A = "sample_ncn_accounts\<lparr>nx_snapshot_delegation := Some keeper_delegation_accounts\<rparr>"
  obtain s where s: "process_snapshot_vault_operator_delegation sample_runtime keeper_jito precise_u128 NCN_PROGRAM_ID
      (Some keeper_delegation_accounts) = Inr (own_pod 40 SNAPSHOT_SIZE (discriminator D_Snapshot) s)"
    using keeper_delegation by blast
  let ?snap = "own_pod 40 SNAPSHOT_SIZE (discriminator D_Snapshot) s"
  have "delegation_accounts ?A (map am_pubkey (ix_accounts keeper_ix)) history_1"
    by (simp add: delegation_accounts_def keeper_delegation_accounts_def keeper_ix_def delegation_call_def
        meta_of_def keeper_base_def
        sample_jito_addresses_def)
  moreover have "ncn_process_instruction sample_runtime keeper_jito precise_u128 tri_syscalls NCN_PROGRAM_ID ?A
      (ix_data keeper_ix) = Inr (NX_snapshot ?snap)"
    using dispatch_encoded [of SnapshotVaultOperatorDelegation sample_runtime keeper_jito precise_u128 tri_syscalls ?A] s
    by (simp add: wf_ncn_instruction_def keeper_ix_def delegation_call_def)
  moreover have "delegated_history = s" by (simp add: delegated_history_def s)
  ultimately show ?thesis
    by (simp add: delegation_executed_def keeper_snapshot_on clock_slot_def) (metis own_pod_simps(3))
qed

lemma not_foreign_call: "\<not> foreign (pre @ [call_form c []])" by (simp add: foreign_def)

lemma keeper_chain_laws: "chain_laws keeper_env sample_handler 1 keeper_chain 10"
proof -
  have calm: "calm keeper_env sample_handler 1 keeper_chain w w" for w by (simp add: calm_def)
  have "keeper_send mode tx w = (r, w') \<Longrightarrow>
      calm keeper_env sample_handler 1 keeper_chain w w' \<and> \<not> is_ok r \<or>
      delegation_executed keeper_env sample_handler 1 keeper_chain
        (call_form (delegation_call keeper_env sample_handler 1 vault operator) []) w w'"
    if pre: "foreign pre" "tx_instructions tx = pre @ [call_form (delegation_call keeper_env sample_handler 1 vault operator) []]"
    for vault operator pre mode tx w r w'
    using that keeper_executed not_foreign_call [of pre] calm
    by (auto simp: keeper_send_def split: if_splits)
  then show ?thesis
    unfolding chain_laws_def
    by (auto simp: reads_keep_def sends_keep_def keeps_def calm keeper_send_def foreign_def sample_foreign_def
        foreign_ix_def keeper_view_def keeper_jito_def NCN_PROGRAM_ID_value)
qed

lemma keeper_view_data [simp]:
  "keeper_view w k \<noteq> None" "keeper_view w k = Some a \<Longrightarrow> length (ra_data a) = SNAPSHOT_SIZE \<and> ra_data a \<noteq> []"
  by (auto simp: keeper_view_def SNAPSHOT_SIZE_def)

lemma keeper_answers: "answers keeper_env keeper_view" by (simp add: answers_def)

lemma keeper_restaking: "get_restaking_config keeper_env sample_handler w = (Inr 10, w)"
  by (simp add: get_restaking_config_def get_decoded_def get_account_def keeper_view_def keeper_jito_def)

lemma keeper_operators: "get_all_operators_in_ncn keeper_env sample_handler w = (Inr [11], w)"
  by (simp add: get_all_operators_in_ncn_def decoded_accounts_def keeper_decoders_def sample_decoders_def)

lemma keeper_registry: "get_vault_registry keeper_env sample_handler w = (Inr sample_vaults, w)"
  "registry_vaults sample_vaults = [9]"
  by (simp_all add: get_vault_registry_def get_decoded_def get_account_def keeper_view_def keeper_decoders_def
      sample_decoders_def registry_vaults_def get_valid_vault_entries_def sample_vaults_def
      sample_registry_def vault_registry_new_def replicate_update_0 vault_entry_new_def ve_is_empty_def MAX_VAULTS_def
      vault_entry_default_def EMPTY_SLOT_REGISTERED_def)

lemma keeper_vault_update: "fst (full_vault_update keeper_env sample_handler 9 w) \<noteq> Inl CE_Panic"
  by (simp add: full_vault_update_def get_current_slot_def get_vault_config_def get_vault_def get_decoded_def
      get_account_def keeper_view_def keeper_decoders_def sample_decoders_def keeper_jito_def cmd_bind_apply)

end
