(* ===== verification/Keeper_Properties.thy ===== *)
theory Keeper_Properties
  imports Keeper_Chain
begin

text \<open>
  What the keeper does: its refresh computes the operators whose stake is not recorded for the
  epoch, its crank records exactly those that have an active entry, and the cases it cannot handle.
\<close>

subsection \<open>The refresh\<close>

text \<open>
  C30: A round's refresh brings the keeper's state to the epoch.  From any state whose address is right
  when its epoch is, and with reads that succeed: if the snapshot account is missing or not yet of
  full size, the keeper holds no snapshot and has nothing to do; if it decodes, the keeper holds it,
  its list is exactly the opted-in operators that have no entry or an active entry last recorded
  before the epoch, in the node's order, and it will snapshot exactly if that list is not empty; if
  it does not decode the refresh fails with only epoch and address updated.
\<close>

theorem keeper_refresh:
  assumes "answers E view" and "get_restaking_config E h w = (Inr l, w)" "l \<noteq> 0"
    and "get_all_operators_in_ncn E h w = (Inr operators, w)" and "ch_ncn h = Some ncn"
    and "ks_epoch st = epoch \<Longrightarrow> ks_snapshot_address st = snapshot_address E h ncn"
  shows "refresh E h epoch (w, st) =
    (case view w (snapshot_address E h ncn) of
       None \<Rightarrow> (Inr (), (w, \<lparr>ks_epoch = epoch, ks_snapshot_address = snapshot_address E h ncn,
         ks_snapshot = None, ks_should_snapshot = False, ks_operators_to_snapshot = []\<rparr>))
     | Some a \<Rightarrow>
         if length (ra_data a) < SNAPSHOT_SIZE
         then (Inr (), (w, \<lparr>ks_epoch = epoch, ks_snapshot_address = snapshot_address E h ncn,
           ks_snapshot = None, ks_should_snapshot = False, ks_operators_to_snapshot = []\<rparr>))
         else (case ad_snapshot (ce_decoders E) (ra_data a) of
             Inl e \<Rightarrow> (Inl (cli_error_of e), (w, st\<lparr>ks_epoch := epoch, ks_snapshot_address := snapshot_address E h ncn\<rparr>))
           | Inr s \<Rightarrow> (Inr (), (w, \<lparr>ks_epoch = epoch, ks_snapshot_address = snapshot_address E h ncn,
               ks_snapshot = Some s,
               ks_should_snapshot = (\<exists>p \<in> set operators. operator_due l epoch s p),
               ks_operators_to_snapshot = filter (operator_due l epoch s) operators\<rparr>))))"
proof -
  have f: "(filter (operator_due l epoch s) operators \<noteq> []) = (\<exists>p \<in> set operators. operator_due l epoch s p)" for s
    by (simp add: filter_empty_conv)
  show ?thesis
  proof (cases "ks_epoch st = epoch")
    case True
    with assms(6) have "st = st\<lparr>ks_epoch := epoch, ks_snapshot_address := snapshot_address E h ncn\<rparr>" by simp
    with True assms(6) show ?thesis
      by (simp add: refresh_def update_state_due [OF assms(1-4)] forget_snapshot_def f [symmetric]
          split: option.splits sum.splits)
  next
    case False
    then show ?thesis
      by (simp add: refresh_def fetch_def assms(5) update_state_due [OF assms(1-4)] forget_snapshot_def f [symmetric]
          split: option.splits sum.splits)
  qed
qed

text \<open>
  In epoch 0 the keeper does nothing at all: its state starts at epoch 0 with the default address,
  and only a change of epoch makes it derive the snapshot's address, so as long as the node reports
  epoch 0 every round reads the account at the default address, finds no snapshot there, and sends
  nothing, whatever the snapshot account holds.
\<close>

theorem keeper_idle_in_epoch_zero:
  assumes "answers E view" and "\<And>a. view w default_pubkey = Some a \<Longrightarrow> length (ra_data a) < SNAPSHOT_SIZE"
    and "rpc_get_epoch (ce_rpc E) w = (Inr 0, w)" "rpc_get_slot (ce_rpc E) w = (Inr slot, w)"
  shows "keeper_rounds E h n (w, keeper_state_default) = (Inr (), (w, keeper_state_default))"
proof (induction n)
  case 0
  show ?case by simp
next
  case (Suc n)
  have es: "get_guaranteed_epoch_and_slot E w = (Inr (0, slot), w)"
    using assms(3,4) by (simp add: get_guaranteed_epoch_and_slot_def get_current_epoch_and_slot_def
        get_current_epoch_def get_current_slot_def cmd_bind_def cmd_try_def eval_nat_numeral)
  have "refresh E h 0 (w, keeper_state_default) = (Inr (), (w, keeper_state_default))"
    using assms(2) by (auto simp: refresh_def update_state_def get_account_answers [OF assms(1)]
        keeper_state_default_def forget_snapshot_def split: option.splits)
  then have "keeper_round E h (w, keeper_state_default) = (Inr (), (w, keeper_state_default))"
    by (simp add: keeper_round_def es cmd_logged_def cmd_try_apply keeper_state_default_def)
  with Suc show ?case by simp
qed

subsection \<open>The crank\<close>

text \<open>The worlds a crank can lead to: entries of the operators refreshed, nothing else changed.\<close>

definition cranked ::
  "'w cli_env \<Rightarrow> cli_handler \<Rightarrow> pubkey \<Rightarrow> ('w, 'p) chain \<Rightarrow> u64 \<Rightarrow> u64 \<Rightarrow> pubkey set \<Rightarrow> 'w \<Rightarrow> 'w \<Rightarrow> bool" where
  "cranked E h ncn C l epoch ps w w' \<longleftrightarrow>
     cn_slot C w \<le> cn_slot C w' \<and>
     (\<forall>s. snapshot_on E h ncn C w = Some s \<longrightarrow> shape_inv s \<longrightarrow> unat epoch \<le> unat (cn_slot C w) div unat l \<longrightarrow>
        (\<exists>t. snapshot_on E h ncn C w' = Some t \<and> shape_inv t \<and> refreshed l epoch ps s t))"

lemma cranked_refl: "reflp (cranked E h ncn C l epoch ps)"
  by (auto simp: reflp_def cranked_def refreshed_refl)

lemma div_slot_mono: "n \<le> unat (a :: u64) div m \<Longrightarrow> a \<le> b \<Longrightarrow> n \<le> unat b div m"
  by (meson div_le_mono le_trans word_le_nat_alt)

lemma cranked_trans: "transp (cranked E h ncn C l epoch ps)"
proof (rule transpI)
  fix u v w
  assume a: "cranked E h ncn C l epoch ps u v" "cranked E h ncn C l epoch ps v w"
  show "cranked E h ncn C l epoch ps u w"
    unfolding cranked_def
  proof (intro conjI allI impI)
    show "cn_slot C u \<le> cn_slot C w" using a unfolding cranked_def by (blast intro: order_trans)
    fix s assume s: "snapshot_on E h ncn C u = Some s" "shape_inv s" "unat epoch \<le> unat (cn_slot C u) div unat l"
    with a(1) obtain t where t: "snapshot_on E h ncn C v = Some t" "shape_inv t" "refreshed l epoch ps s t"
      unfolding cranked_def by blast
    have "unat epoch \<le> unat (cn_slot C v) div unat l"
      using s(3) a(1) div_slot_mono by (auto simp: cranked_def)
    with a(2) t obtain x where "snapshot_on E h ncn C w = Some x" "shape_inv x" "refreshed l epoch ps t x"
      unfolding cranked_def by blast
    with refreshed_trans [OF t(3)] show
      "\<exists>t. snapshot_on E h ncn C w = Some t \<and> shape_inv t \<and> refreshed l epoch ps s t" by blast
  qed
qed

lemma calm_cranked: "calm E h ncn C w w' \<Longrightarrow> cranked E h ncn C l epoch ps w w'"
  by (simp add: calm_def cranked_def refreshed_refl)

lemma keeps_mono: "keeps Q m \<Longrightarrow> (\<And>w w'. Q w w' \<Longrightarrow> Q' w w') \<Longrightarrow> keeps Q' m"
  by (auto simp: keeps_def)

lemma reads_keep_mono: "reads_keep E Q \<Longrightarrow> (\<And>w w'. Q w w' \<Longrightarrow> Q' w w') \<Longrightarrow> reads_keep E Q'"
  unfolding reads_keep_def by (blast intro: keeps_mono)

lemma sends_keep_mono: "sends_keep E Q ixs \<Longrightarrow> (\<And>w w'. Q w w' \<Longrightarrow> Q' w w') \<Longrightarrow> sends_keep E Q' ixs"
  unfolding sends_keep_def by (blast intro: keeps_mono)

lemma calm_refl: "reflp (calm E h ncn C)" and calm_trans: "transp (calm E h ncn C)"
  by (auto simp: reflp_def transp_def calm_def)

text \<open>Reading commands.\<close>

lemma getters_keep:
  assumes "reflp Q" "transp Q" "reads_keep E Q"
  shows "keeps Q (get_account E k)" "keeps Q (get_decoded E k d)" "keeps Q (get_current_slot E)"
    "keeps Q (get_vault_registry E h)" "keeps Q (get_snapshot E h)" "keeps Q (get_restaking_config E h)"
    "keeps Q (get_vault E v)" "keeps Q (get_vault_config E h)" "keeps Q (get_vault_update_state_tracker E h v ep)"
    "keeps Q (get_all_sorted_operators_for_vault E h v)"
proof -
  note r = keeps_rules assms(1,2)
  show ga: "keeps Q (get_account E k)" for k using assms(3) by (simp add: reads_keep_def get_account_def)
  show gd: "keeps Q (get_decoded E k d)" for k and d :: "bytes \<Rightarrow> program_error + 'x"
    unfolding get_decoded_def by (auto intro!: r ga split: option.splits)
  show "keeps Q (get_current_slot E)" using assms(3) by (simp add: reads_keep_def get_current_slot_def)
  show "keeps Q (get_vault_registry E h)" "keeps Q (get_snapshot E h)" "keeps Q (get_restaking_config E h)"
    "keeps Q (get_vault E v)" "keeps Q (get_vault_config E h)" "keeps Q (get_vault_update_state_tracker E h v ep)"
    unfolding get_vault_registry_def get_snapshot_def get_restaking_config_def get_vault_def get_vault_config_def
      get_vault_update_state_tracker_def by (intro r gd)+
  show "keeps Q (get_all_sorted_operators_for_vault E h v)"
    unfolding get_all_sorted_operators_for_vault_def using assms(3) by (auto simp: reads_keep_def intro!: r)
qed

lemma foreign_send_keep:
  assumes "chain_laws E h ncn C l" "foreign [ix]"
  shows "keeps (calm E h ncn C) (send_and_log_transaction E h [ix] ks)"
  using assms(2) chain_lawsD(6) [OF assms(1)]
  by (intro send_and_log_keep calm_refl calm_trans chain_lawsD [OF assms(1)]) (auto simp: foreign_def)

lemma vault_update_keeps:
  assumes L: "chain_laws E h ncn C l"
  shows "keeps (calm E h ncn C) (full_vault_update E h vault)"
proof -
  note r = keeps_rules calm_refl calm_trans getters_keep [OF calm_refl calm_trans chain_lawsD(3) [OF L]]
    foreign_send_keep [OF L] chain_lawsD(7,8,9) [OF L]
  have "keeps (calm E h ncn C) (crank_trackers E h payer vault ncn_epoch vc tr)" for payer ncn_epoch vc tr
    unfolding crank_trackers_def by (auto intro!: r)
  then show ?thesis unfolding full_vault_update_def Let_def by (auto intro!: r)
qed

lemma delegation_keeps:
  assumes L: "chain_laws E h ncn C l" and p: "operator \<in> ps"
  shows "keeps (cranked E h ncn C l epoch ps) (cli_snapshot_delegation E h vault operator)"
proof -
  let ?Q = "cranked E h ncn C l epoch ps" and ?ix = "call_form (delegation_call E h ncn vault operator) []"
  note r = keeps_rules cranked_refl cranked_trans
  have sends: "sends_keep E ?Q (pre @ [?ix])" if pre: "foreign pre" for pre
    unfolding sends_keep_def keeps_def
  proof (intro allI impI)
    fix mode tx w r w'
    assume tx: "tx_instructions tx = pre @ [?ix]" and run: "rpc_send (ce_rpc E) mode tx w = (r, w')"
    from chain_lawsD(11) [OF L pre tx run]
    consider "calm E h ncn C w w'" | (exec) "delegation_executed E h ncn C ?ix w w'" by blast
    then show "?Q w w'"
    proof cases
      case 1
      then show ?thesis by (rule calm_cranked)
    next
      case exec
      show ?thesis unfolding cranked_def
      proof (intro conjI allI impI)
        show "cn_slot C w \<le> cn_slot C w'" using exec by (auto simp: delegation_executed_def)
        fix s assume s: "snapshot_on E h ncn C w = Some s" "shape_inv s" "unat epoch \<le> unat (cn_slot C w) div unat l"
        show "\<exists>t. snapshot_on E h ncn C w' = Some t \<and> shape_inv t \<and> refreshed l epoch ps s t"
          by (rule delegation_executed_refreshes [OF exec s]) (use p in \<open>auto intro: refreshed_update\<close>)
      qed
    qed
  qed
  have reads: "reads_keep E ?Q" by (rule reads_keep_mono [OF chain_lawsD(3) [OF L] calm_cranked])
  have "keeps ?Q (send_and_log_transaction E h [?ix] [])"
    using sends [of "[]"] sends [OF chain_lawsD(6) [OF L]]
    by (intro send_and_log_keep cranked_refl cranked_trans reads) (simp_all add: foreign_def)
  then show ?thesis unfolding cli_snapshot_delegation_def
    by (auto simp: chain_lawsD(1) [OF L] snapshot_instructions intro!: r)
qed

text \<open>The crank's last part, for the snapshot it read: the vault update and the due operators.\<close>

definition behind_operators :: "u64 \<Rightarrow> u64 \<Rightarrow> snapshot \<Rightarrow> pubkey list" where
  "behind_operators l epoch s = map os_operator (filter (entry_behind l epoch) (ss_operator_snapshots s))"

definition crank_tail :: "'w cli_env \<Rightarrow> cli_handler \<Rightarrow> u64 \<Rightarrow> pubkey \<Rightarrow> snapshot \<Rightarrow> ('w, unit) command" where
  "crank_tail E h epoch vault s =
     cmd_bind (cmd_logged (full_vault_update E h vault)) (\<lambda>_.
     cmd_bind (get_restaking_config E h) (\<lambda>epoch_length.
     cmd_bind (cmd_program (lift_ncn (due_operators epoch_length epoch (ss_operator_snapshots s))))
       (\<lambda>operators. cmd_each (\<lambda>operator. cmd_logged (cli_snapshot_delegation E h vault operator)) operators)))"

lemma restaking_config_law:
  assumes L: "chain_laws E h ncn C l" and run: "get_restaking_config E h w = (Inr x, w')"
  shows "x = l"
proof -
  let ?k = "ja_restaking_config (ce_addresses E) (ch_restaking_program_id h)"
  from run obtain a v where "rpc_get_account (ce_rpc E) ?k w = (Inr (Some a), v)"
    and x: "jt_epoch_length (ce_jito E) (ra_data a) = Inr x"
    by (auto simp: get_restaking_config_def get_decoded_def get_account_def cmd_bind_result split: option.splits)
  from chain_lawsD(4) [OF L this(1)] have "cn_view C w ?k = Some a" by simp
  from chain_lawsD(10) [OF L this] x show ?thesis by simp
qed

lemma crank_tail_keeps:
  assumes L: "chain_laws E h ncn C l"
  shows "keeps (cranked E h ncn C l epoch (set (behind_operators l epoch s))) (crank_tail E h epoch vault s)"
proof -
  let ?Q = "cranked E h ncn C l epoch (set (behind_operators l epoch s))"
  note r = keeps_rules cranked_refl cranked_trans
  have vault: "keeps ?Q (full_vault_update E h vault)"
    by (rule keeps_mono [OF vault_update_keeps [OF L] calm_cranked])
  have conf: "keeps ?Q (get_restaking_config E h)"
    by (rule getters_keep [OF cranked_refl cranked_trans reads_keep_mono [OF chain_lawsD(3) [OF L] calm_cranked]])
  have ops: "keeps ?Q (cmd_bind (cmd_program (lift_ncn (due_operators x epoch (ss_operator_snapshots s))))
      (\<lambda>operators. cmd_each (\<lambda>operator. cmd_logged (cli_snapshot_delegation E h vault operator)) operators))"
    if "x = l" for x
    using that by (intro r delegation_keeps [OF L])
      (auto simp: due_operators_behind [OF chain_lawsD(2) [OF L]] behind_operators_def)
  show ?thesis unfolding crank_tail_def
    by (intro keeps_bind [OF cranked_trans] keeps_logged [OF cranked_refl cranked_trans] vault conf
        ops [OF restaking_config_law [OF L]])
qed

lemma crank_split:
  "crank_snapshot_unupdated E h epoch =
     cmd_bind (get_vault_registry E h) (\<lambda>vault_registry.
     case registry_vaults vault_registry of
       [] \<Rightarrow> cmd_ok ()
     | vault # _ \<Rightarrow> cmd_bind (get_snapshot E h) (\<lambda>s. crank_tail E h epoch vault s))"
  unfolding crank_snapshot_unupdated_def crank_tail_def [abs_def] ..

lemma get_snapshot_law:
  assumes L: "chain_laws E h ncn C l" and run: "get_snapshot E h w = (Inr s, w')"
  shows "snapshot_on E h ncn C w = Some s"
proof -
  let ?k = "snapshot_address E h ncn"
  from run obtain a v where "rpc_get_account (ce_rpc E) ?k w = (Inr (Some a), v)"
    and x: "ad_snapshot (ce_decoders E) (ra_data a) = Inr s"
    by (auto simp: get_snapshot_def get_decoded_def get_account_def chain_lawsD(1) [OF L] cmd_bind_result
        split: option.splits)
  from chain_lawsD(4) [OF L this(1)] have "cn_view C w ?k = Some a" by simp
  with x show ?thesis by (simp add: snapshot_on_def)
qed

lemma crank_cranked:
  assumes L: "chain_laws E h ncn C l" and s: "snapshot_on E h ncn C w = Some s"
    and run: "crank_snapshot_unupdated E h epoch w = (r, w')"
  shows "cranked E h ncn C l epoch (set (behind_operators l epoch s)) w w'"
proof -
  let ?Q = "cranked E h ncn C l epoch (set (behind_operators l epoch s))"
  note calmI = getters_keep [OF calm_refl calm_trans chain_lawsD(3) [OF L]]
  note [trans] = transpD [OF cranked_trans]
  show ?thesis
  proof (cases rule: cmd_bind_E [OF run [unfolded crank_split]])
    case (1 e)
    show ?thesis by (rule calm_cranked [OF keepsD [OF calmI(4) 1(1)]])
  next
    case (2 reg w1)
    have w1: "calm E h ncn C w w1" by (rule keepsD [OF calmI(4) 2(1)])
    show ?thesis
    proof (cases "registry_vaults reg")
      case Nil
      then show ?thesis using 2(2) w1 calm_cranked by auto
    next
      case (Cons vault vs)
      then have tail: "cmd_bind (get_snapshot E h) (\<lambda>s. crank_tail E h epoch vault s) w1 = (r, w')" using 2(2) by simp
      show ?thesis
      proof (cases rule: cmd_bind_E [OF tail])
        case (1 e)
        then show ?thesis using keepsD [OF calmI(5)] w1 calm_trans calm_cranked by (metis transpD)
      next
        case (2 s' w2)
        have "s' = s" using get_snapshot_law [OF L 2(1)] w1 s by (simp add: calm_def)
        then have "?Q w2 w'" using keepsD [OF crank_tail_keeps [OF L]] 2(2) by blast
        moreover have "?Q w w2" using w1 keepsD [OF calmI(5) 2(1)] calm_trans calm_cranked by (metis transpD)
        ultimately show ?thesis by (meson cranked_trans transpD)
      qed
    qed
  qed
qed

text \<open>
  C27: The crank changes only what it is for.  On a node whose reads are true, with nobody else
  changing the snapshot meanwhile, and whichever of the crank's transactions are refused, executed, or
  executed and reported as failed: the snapshot afterwards is the one before except for the slot of
  the last record and the entries of operators that were behind, whose identity, key, index and
  activity stay and which now count as recorded in the epoch.  Generation, aggregate key, counts and
  minimum stake stay, and no entry of an operator that was up to date is touched.
\<close>

theorem crank_refreshes_only_due:
  assumes "chain_laws E h ncn C l" and "snapshot_on E h ncn C w = Some s" "shape_inv s"
    and "unat epoch \<le> unat (cn_slot C w) div unat l"
    and "crank_snapshot_unupdated E h epoch w = (r, w')"
  shows "\<exists>t. snapshot_on E h ncn C w' = Some t \<and> shape_inv t \<and>
    t\<lparr>ss_operator_snapshots := ss_operator_snapshots s, ss_last_snapshot_slot := ss_last_snapshot_slot s\<rparr> = s \<and>
    length (ss_operator_snapshots t) = length (ss_operator_snapshots s) \<and>
    (\<forall>i < length (ss_operator_snapshots s).
       let e = ss_operator_snapshots s ! i; e' = ss_operator_snapshots t ! i in
       e' = e \<or> (\<exists>d \<in> set (ss_operator_snapshots s). entry_behind l epoch d \<and> os_operator d = os_operator e) \<and>
         os_operator e' = os_operator e \<and> os_is_active e' = os_is_active e \<and>
         os_ncn_operator_index e' = os_ncn_operator_index e \<and> os_g1_pubkey e' = os_g1_pubkey e \<and>
         os_slot_created e' = os_slot_created e \<and> os_operator_index e' = os_operator_index e \<and>
         \<not> entry_behind l epoch e')"
proof -
  from crank_cranked [OF assms(1,2,5)] assms(2-4) obtain t where
    t: "snapshot_on E h ncn C w' = Some t" "shape_inv t"
      "refreshed l epoch (set (behind_operators l epoch s)) s t"
    unfolding cranked_def by blast
  moreover from t(3) have
    "t\<lparr>ss_operator_snapshots := ss_operator_snapshots s, ss_last_snapshot_slot := ss_last_snapshot_slot s\<rparr> = s"
    by (cases s, cases t) (simp add: refreshed_def snapshot_frame_def)
  ultimately show ?thesis
    by (intro exI [of _ t]) (fastforce simp: refreshed_def entry_refreshed_def behind_operators_def Let_def)
qed

subsection \<open>A crank on a reliable node\<close>

text \<open>The node answers reads and accepts the delegation of an operator that is behind.\<close>

definition serves ::
  "'w cli_env \<Rightarrow> cli_handler \<Rightarrow> pubkey \<Rightarrow> ('w, 'p) chain \<Rightarrow> u64 \<Rightarrow> u64 \<Rightarrow> pubkey \<Rightarrow> bool" where
  "serves E h ncn C l epoch vault \<longleftrightarrow>
     (\<forall>k w. is_ok (fst (rpc_get_account (ce_rpc E) k w))) \<and>
     (\<forall>w. is_ok (fst (rpc_get_latest_blockhash (ce_rpc E) w))) \<and>
     (\<forall>p pre mode tx w s e. foreign pre \<longrightarrow>
        tx_instructions tx = pre @ [call_form (delegation_call E h ncn vault p) []] \<longrightarrow>
        snapshot_on E h ncn C w = Some s \<longrightarrow> find_operator_snapshot s p = Some e \<longrightarrow> entry_behind l epoch e \<longrightarrow>
        is_ok (fst (rpc_send (ce_rpc E) mode tx w)))"

lemma servesD:
  assumes "serves E h ncn C l epoch vault"
  shows "\<exists>x w'. rpc_get_account (ce_rpc E) k w = (Inr x, w')"
    "\<exists>b w'. rpc_get_latest_blockhash (ce_rpc E) w = (Inr b, w')"
    "foreign pre \<Longrightarrow> tx_instructions tx = pre @ [call_form (delegation_call E h ncn vault p) []] \<Longrightarrow>
     snapshot_on E h ncn C w = Some s \<Longrightarrow> find_operator_snapshot s p = Some e \<Longrightarrow> entry_behind l epoch e \<Longrightarrow>
     \<exists>q w'. rpc_send (ce_rpc E) mode tx w = (Inr q, w')"
  using assms unfolding serves_def is_ok_iff by (metis prod.collapse)+

text \<open>On such a node the delegation of an operator behind is executed by its first transaction.\<close>

lemma delegation_executes:
  assumes L: "chain_laws E h ncn C l" and srv: "serves E h ncn C l epoch vault" and key: "ch_keypair h = Some k"
    and s: "snapshot_on E h ncn C w = Some s" and behind: "find_operator_snapshot s p = Some e" "entry_behind l epoch e"
    and run: "cli_snapshot_delegation E h vault p w = (r, w')"
  shows "r = Inr () \<and> (\<exists>v. calm E h ncn C w v \<and>
    delegation_executed E h ncn C (call_form (delegation_call E h ncn vault p) []) v w')"
proof -
  let ?ix = "call_form (delegation_call E h ncn vault p) []"
  let ?fee = "fi_compute_unit_price (ce_foreign E) (ch_priority_fee_micro_lamports h)"
  obtain b v where b: "rpc_get_latest_blockhash (ce_rpc E) w = (Inr b, v)" using servesD(2) [OF srv] by blast
  have calm: "calm E h ncn C w v"
    using chain_lawsD(3) [OF L] b by (auto simp: reads_keep_def dest: keepsD)
  then have v: "snapshot_on E h ncn C v = Some s" using s by (simp add: calm_def)
  have sent: "\<exists>q u. rpc_send (ce_rpc E) mode (signed_transaction (pre @ [?ix]) k [] b) v = (Inr q, u)"
    if "foreign pre" for mode pre
    by (rule servesD(3) [OF srv that _ v behind]) simp
  obtain pre mode q u where pre: "foreign pre" and
    q: "rpc_send (ce_rpc E) mode (signed_transaction (pre @ [?ix]) k [] b) v = (Inr q, u)"
    and end': "send_attempts E (unat (ch_retries h)) (ch_priority_fee_micro_lamports h) [?ix] k [] w = (Inr q, u)"
  proof (cases "unat (ch_retries h)")
    case 0
    then show ?thesis using that [of "[]" Preflight] sent [of "[]" Preflight] b
      by (auto simp: foreign_def cmd_try_apply)
  next
    case (Suc n)
    have fee: "foreign [?fee]" by (rule chain_lawsD(6) [OF L])
    obtain q u where q: "rpc_send (ce_rpc E) Skip_preflight (signed_transaction ([?fee] @ [?ix]) k [] b) v = (Inr q, u)"
      using sent [OF fee] by blast
    then have "send_attempts E (unat (ch_retries h)) (ch_priority_fee_micro_lamports h) [?ix] k [] w = (Inr q, u)"
      using Suc b by (simp add: cmd_try_apply cmd_bind_apply)
    with fee q show ?thesis by (rule that)
  qed
  have "r = Inr ()" "w' = u"
    using run end' by (simp_all add: cli_snapshot_delegation_def chain_lawsD(1) [OF L] snapshot_instructions
        send_and_log_transaction_def send_transactions_def key)
  with chain_lawsD(11) [OF L pre _ q] calm show ?thesis by auto
qed

lemma refreshed_position:
  assumes "refreshed l epoch ps s t"
  shows "position (is_entry_of p) (ss_operator_snapshots t) = position (is_entry_of p) (ss_operator_snapshots s)"
proof (rule position_cong_nth)
  show "length (ss_operator_snapshots t) = length (ss_operator_snapshots s)"
    using assms by (simp add: refreshed_def)
  show "is_entry_of p (ss_operator_snapshots t ! i) = is_entry_of p (ss_operator_snapshots s ! i)"
    if "i < length (ss_operator_snapshots s)" for i
    using assms that by (auto simp: refreshed_def entry_refreshed_def is_entry_of_def)
qed

lemma refreshed_not_behind:
  "refreshed l epoch ps s t \<Longrightarrow> i < length (ss_operator_snapshots s) \<Longrightarrow>
     \<not> entry_behind l epoch (ss_operator_snapshots s ! i) \<Longrightarrow> \<not> entry_behind l epoch (ss_operator_snapshots t ! i)"
  by (auto simp: refreshed_def entry_refreshed_def)

lemma cmd_logged_result: "m w = (r, w') \<Longrightarrow> r \<noteq> Inl CE_Panic \<Longrightarrow> cmd_logged m w = (Inr (), w')"
  by (simp add: cmd_logged_def cmd_try_apply cmd_bind_apply)

text \<open>Refreshing one operator's entry leaves what is found for the others.\<close>

lemma find_other_operator:
  assumes "position (is_entry_of p) (ss_operator_snapshots s) = Some i" "i < length (ss_operator_snapshots s)"
    and "ss_operator_snapshots t = (ss_operator_snapshots s)[i := e]"
    and "entry_refreshed l epoch (ss_operator_snapshots s ! i) e" "p' \<noteq> p" "snapshot_frame t = snapshot_frame s"
  shows "find_operator_snapshot t p' = find_operator_snapshot s p'"
proof -
  have ref: "refreshed l epoch UNIV s t" by (rule refreshed_update [OF assms(2,3) _ assms(4,6)]) simp
  have "is_entry_of p (ss_operator_snapshots s ! i)" using position_SomeD [OF assms(1)] by simp
  then have other: "position (is_entry_of p') (ss_operator_snapshots s) \<noteq> Some i"
    using assms(5) by (auto simp: is_entry_of_def dest!: position_SomeD)
  show ?thesis
    using refreshed_position [OF ref, of p'] other assms(2,3)
    by (cases "position (is_entry_of p') (ss_operator_snapshots s)") (auto simp: find_operator_snapshot_def find_position)
qed

lemma delegations_complete:
  assumes L: "chain_laws E h ncn C l" and srv: "serves E h ncn C l epoch vault" and key: "ch_keypair h = Some k"
  shows "snapshot_on E h ncn C w = Some s \<Longrightarrow> shape_inv s \<Longrightarrow> unat epoch \<le> unat (cn_slot C w) div unat l \<Longrightarrow>
    distinct ops \<Longrightarrow> \<forall>p \<in> set ops. \<exists>e. find_operator_snapshot s p = Some e \<and> entry_behind l epoch e \<Longrightarrow>
    cmd_each (\<lambda>operator. cmd_logged (cli_snapshot_delegation E h vault operator)) ops w = (r, w') \<Longrightarrow>
    r = Inr () \<and> (\<exists>t. snapshot_on E h ncn C w' = Some t \<and> refreshed l epoch UNIV s t \<and>
      (\<forall>p \<in> set ops. \<forall>i. position (is_entry_of p) (ss_operator_snapshots s) = Some i \<longrightarrow>
         \<not> entry_behind l epoch (ss_operator_snapshots t ! i)))"
proof (induction ops arbitrary: w s)
  case Nil
  then show ?case by (auto simp: refreshed_refl)
next
  case (Cons p ops)
  obtain q u where q: "cli_snapshot_delegation E h vault p w = (q, u)" by fastforce
  obtain e0 where "find_operator_snapshot s p = Some e0" "entry_behind l epoch e0" using Cons.prems(5) by auto
  from delegation_executes [OF L srv key Cons.prems(1) this q] obtain v where
    ok: "q = Inr ()" and calm: "calm E h ncn C w v"
    and exec: "delegation_executed E h ncn C (call_form (delegation_call E h ncn vault p) []) v u" by blast
  have v: "snapshot_on E h ncn C v = Some s" "unat epoch \<le> unat (cn_slot C v) div unat l"
    using calm Cons.prems(1,3) div_slot_mono by (auto simp: calm_def)
  obtain i e s' where s': "snapshot_on E h ncn C u = Some s'" "shape_inv s'"
    and i: "position (is_entry_of p) (ss_operator_snapshots s) = Some i" "i < length (ss_operator_snapshots s)"
      "os_operator (ss_operator_snapshots s ! i) = p"
      "ss_operator_snapshots s' = (ss_operator_snapshots s)[i := e]"
      "entry_refreshed l epoch (ss_operator_snapshots s ! i) e" "snapshot_frame s' = snapshot_frame s"
    by (rule delegation_executed_refreshes [OF exec v(1) Cons.prems(2) v(2)])
  have step: "refreshed l epoch UNIV s s'" by (rule refreshed_update [OF i(2,4) _ i(5,6)]) simp
  have now: "unat epoch \<le> unat (cn_slot C u) div unat l"
    using exec v(2) div_slot_mono by (auto simp: delegation_executed_def)
  have rest: "cmd_each (\<lambda>operator. cmd_logged (cli_snapshot_delegation E h vault operator)) ops u = (r, w')"
    using Cons.prems(6) cmd_logged_result [of "cli_snapshot_delegation E h vault p", OF q] ok by simp
  have others: "\<forall>p' \<in> set ops. \<exists>e. find_operator_snapshot s' p' = Some e \<and> entry_behind l epoch e"
  proof
    fix p' assume p': "p' \<in> set ops"
    then have "p' \<noteq> p" using Cons.prems(4) by auto
    then show "\<exists>e. find_operator_snapshot s' p' = Some e \<and> entry_behind l epoch e"
      using Cons.prems(5) p' find_other_operator [OF i(1,2,4,5) _ i(6)] by simp
  qed
  from Cons.IH [OF s' now _ others rest] Cons.prems(4) obtain t where r: "r = Inr ()"
    and t: "snapshot_on E h ncn C w' = Some t" "refreshed l epoch UNIV s' t"
    "\<forall>p \<in> set ops. \<forall>i. position (is_entry_of p) (ss_operator_snapshots s') = Some i \<longrightarrow>
       \<not> entry_behind l epoch (ss_operator_snapshots t ! i)" by auto
  have "\<not> entry_behind l epoch (ss_operator_snapshots s' ! i)" using i by (simp add: entry_refreshed_def)
  then have "\<not> entry_behind l epoch (ss_operator_snapshots t ! i)"
    using refreshed_not_behind [OF t(2)] i(2,4) by simp
  then show ?case
    using r t refreshed_trans [OF step t(2)] refreshed_position [OF step] i(1) by (intro conjI exI [of _ t]) auto
qed

lemma refreshed_operators:
  "refreshed l epoch ps s t \<Longrightarrow> map os_operator (ss_operator_snapshots t) = map os_operator (ss_operator_snapshots s)"
  by (rule nth_equalityI) (auto simp: refreshed_def entry_refreshed_def)

text \<open>Every active entry is the first of its operator, as registration guarantees.\<close>

definition active_first :: "snapshot \<Rightarrow> bool" where
  "active_first s \<longleftrightarrow> (\<forall>i < length (ss_operator_snapshots s). os_is_active (ss_operator_snapshots s ! i) \<longrightarrow>
     position (is_entry_of (os_operator (ss_operator_snapshots s ! i))) (ss_operator_snapshots s) = Some i)"

lemma nothing_behind:
  assumes "active_first s" and "refreshed l epoch ps s t"
    and "\<forall>p \<in> set (behind_operators l epoch s). \<forall>i. position (is_entry_of p) (ss_operator_snapshots s) = Some i \<longrightarrow>
      \<not> entry_behind l epoch (ss_operator_snapshots t ! i)"
  shows "\<forall>e \<in> set (ss_operator_snapshots t). \<not> entry_behind l epoch e"
proof
  fix e assume "e \<in> set (ss_operator_snapshots t)"
  then obtain i where i: "i < length (ss_operator_snapshots s)" "e = ss_operator_snapshots t ! i"
    using assms(2) by (auto simp: in_set_conv_nth refreshed_def)
  let ?d = "ss_operator_snapshots s ! i"
  show "\<not> entry_behind l epoch e"
  proof (cases "entry_behind l epoch ?d")
    case True
    then have "position (is_entry_of (os_operator ?d)) (ss_operator_snapshots s) = Some i"
      using assms(1) i(1) by (simp add: active_first_def entry_behind_def)
    moreover have "os_operator ?d \<in> set (behind_operators l epoch s)"
      using True i(1) by (auto simp: behind_operators_def)
    ultimately show ?thesis using assms(3) i(2) by blast
  next
    case False
    then show ?thesis using refreshed_not_behind [OF assms(2) i(1)] i(2) by simp
  qed
qed

lemma distinct_map_filter_nth:
  "(\<And>i j. i < length xs \<Longrightarrow> j < length xs \<Longrightarrow> P (xs ! i) \<Longrightarrow> P (xs ! j) \<Longrightarrow> f (xs ! i) = f (xs ! j) \<Longrightarrow> i = j) \<Longrightarrow>
     distinct (map f (filter P xs))"
proof (induction xs)
  case (Cons x xs)
  have "distinct (map f (filter P xs))"
    using Cons.prems [of "Suc i" "Suc j" for i j] by (intro Cons.IH) simp
  moreover have "f x \<notin> f ` {y \<in> set xs. P y}" if "P x"
    using Cons.prems [of "Suc i" 0 for i] that by (force simp: in_set_conv_nth)
  ultimately show ?case by simp
qed simp

lemma behind_found:
  assumes "active_first s"
  shows "distinct (behind_operators l epoch s)"
    "\<forall>p \<in> set (behind_operators l epoch s). \<exists>e. find_operator_snapshot s p = Some e \<and> entry_behind l epoch e"
proof -
  let ?es = "ss_operator_snapshots s"
  have first: "position (is_entry_of (os_operator (?es ! i))) ?es = Some i"
    if "i < length ?es" "entry_behind l epoch (?es ! i)" for i
    using assms that by (simp add: active_first_def entry_behind_def)
  show "distinct (behind_operators l epoch s)"
    unfolding behind_operators_def by (rule distinct_map_filter_nth) (metis first option.inject)
  show "\<forall>p \<in> set (behind_operators l epoch s). \<exists>e. find_operator_snapshot s p = Some e \<and> entry_behind l epoch e"
    using first by (auto simp: behind_operators_def find_operator_snapshot_def find_position in_set_conv_nth)
qed

lemma restaking_config_served:
  assumes "chain_laws E h ncn C l" "serves E h ncn C l epoch vault"
    and "cn_view C w (ja_restaking_config (ce_addresses E) (ch_restaking_program_id h)) = Some a"
  shows "\<exists>w'. get_restaking_config E h w = (Inr l, w')"
proof -
  let ?k = "ja_restaking_config (ce_addresses E) (ch_restaking_program_id h)"
  obtain x w' where "rpc_get_account (ce_rpc E) ?k w = (Inr x, w')"
    using servesD(1) [OF assms(2)] by blast
  with chain_lawsD(4) [OF assms(1) this] chain_lawsD(10) [OF assms(1,3)] assms(3) show ?thesis
    by (simp add: get_restaking_config_def get_decoded_def get_account_def)
qed

lemma due_when_missing:
  assumes "\<forall>e \<in> set (ss_operator_snapshots t). \<not> entry_behind l epoch e"
  shows "operator_due l epoch t p \<longleftrightarrow> p \<notin> os_operator ` set (ss_operator_snapshots t)"
proof (cases "List.find (\<lambda>e. os_operator e = p) (ss_operator_snapshots t)")
  case None
  then have "p \<notin> os_operator ` set (ss_operator_snapshots t)" by (auto simp: find_None_iff)
  with None show ?thesis by (simp add: operator_due_def)
next
  case (Some e)
  then have "e \<in> set (ss_operator_snapshots t)" "os_operator e = p" by (auto simp: find_Some_iff)
  then show ?thesis using Some assms by (auto simp: operator_due_def)
qed

text \<open>
  C26: On a node that answers reads and accepts the delegations of the operators that are behind, one
  crank brings every registered operator up to date: if the registry has a vault, the snapshot
  account is readable and no vault update panics, the crank succeeds whatever the vault update
  does, and afterwards no active entry of the snapshot is recorded before the epoch.  The operators
  the keeper still counts as due are exactly those without an entry, which the crank never visits:
  if one of them is opted in, every later round cranks again for nothing.
\<close>

theorem crank_completes:
  assumes L: "chain_laws E h ncn C l" and srv: "serves E h ncn C l epoch vault" and key: "ch_keypair h = Some k"
    and s: "snapshot_on E h ncn C w = Some s" "shape_inv s" "active_first s"
    and now: "unat epoch \<le> unat (cn_slot C w) div unat l"
    and reg: "get_vault_registry E h w = (Inr reg, w1)" "registry_vaults reg = vault # vaults"
    and conf: "\<And>w. \<exists>a. cn_view C w (ja_restaking_config (ce_addresses E) (ch_restaking_program_id h)) = Some a"
    and calm_vault: "\<And>w. fst (full_vault_update E h vault w) \<noteq> Inl CE_Panic"
    and run: "crank_snapshot_unupdated E h epoch w = (r, w')"
  shows "r = Inr () \<and> (\<exists>t. snapshot_on E h ncn C w' = Some t \<and>
    (\<forall>e \<in> set (ss_operator_snapshots t). \<not> entry_behind l epoch e) \<and>
    (\<forall>p. operator_due l epoch t p \<longleftrightarrow> p \<notin> os_operator ` set (ss_operator_snapshots s)))"
proof -
  note calmI = getters_keep [OF calm_refl calm_trans chain_lawsD(3) [OF L]]
  have w1: "calm E h ncn C w w1" by (rule keepsD [OF calmI(4) reg(1)])
  let ?k = "snapshot_address E h ncn"
  obtain x w2 where x: "rpc_get_account (ce_rpc E) ?k w1 = (Inr x, w2)"
    using servesD(1) [OF srv] by blast
  have "snapshot_on E h ncn C w1 = Some s" using w1 s(1) by (simp add: calm_def)
  then obtain a where a: "cn_view C w1 ?k = Some a" "ad_snapshot (ce_decoders E) (ra_data a) = Inr s"
    by (auto simp: snapshot_on_def split: option.splits)
  have "x = Some a" using chain_lawsD(4) [OF L x] a(1) by simp
  then have read: "get_snapshot E h w1 = (Inr s, w2)"
    using x a(2) by (simp add: get_snapshot_def get_decoded_def get_account_def chain_lawsD(1) [OF L])
  obtain q w3 where q: "full_vault_update E h vault w2 = (q, w3)" by fastforce
  have logged: "cmd_logged (full_vault_update E h vault) w2 = (Inr (), w3)"
    by (rule cmd_logged_result [where m = "full_vault_update E h vault", OF q]) (metis calm_vault q fst_conv)
  obtain w4 where w4: "get_restaking_config E h w3 = (Inr l, w4)"
    using restaking_config_served [OF L srv] conf by blast
  have c4: "calm E h ncn C w w4"
    using w1 keepsD [OF calmI(5) read] keepsD [OF vault_update_keeps [OF L] q] keepsD [OF calmI(6) w4]
    by (meson calm_trans transpD)
  have rest: "cmd_each (\<lambda>operator. cmd_logged (cli_snapshot_delegation E h vault operator))
      (behind_operators l epoch s) w4 = (r, w')"
    using run by (simp add: crank_split reg read crank_tail_def logged w4
        due_operators_behind [OF chain_lawsD(2) [OF L]] behind_operators_def)
  from c4 s(1) now have "snapshot_on E h ncn C w4 = Some s" "unat epoch \<le> unat (cn_slot C w4) div unat l"
    using div_slot_mono by (auto simp: calm_def)
  from delegations_complete [OF L srv key this(1) s(2) this(2) behind_found [OF s(3)] rest] obtain t where
    t: "r = Inr ()" "snapshot_on E h ncn C w' = Some t" "refreshed l epoch UNIV s t"
      "\<forall>p \<in> set (behind_operators l epoch s). \<forall>i. position (is_entry_of p) (ss_operator_snapshots s) = Some i \<longrightarrow>
         \<not> entry_behind l epoch (ss_operator_snapshots t ! i)" by blast
  note finished = nothing_behind [OF s(3) t(3,4)]
  have "operator_due l epoch t p \<longleftrightarrow> p \<notin> os_operator ` set (ss_operator_snapshots s)" for p
    unfolding due_when_missing [OF finished] using arg_cong [OF refreshed_operators [OF t(3)], of set] by simp
  with t(1,2) finished show ?thesis by blast
qed

subsection \<open>The node with one operator\<close>

lemma history_shape: "shape_inv history_1"
proof -
  have "apk_inv tri_syscalls tri_group (run_all (snapshot_step tri_syscalls) [SO_register 11 50 True 0 3 1] history_0)"
    unfolding history_0_def by (rule history_apk_inv [OF tri_laws history_clean])
  then show ?thesis unfolding history_run by (simp add: apk_inv_def)
qed

lemma history_behind: "e \<in> set (ss_operator_snapshots history_1) \<Longrightarrow> os_is_active e \<Longrightarrow> e = history_entry"
  by (auto simp: history_1_def operator_snapshot_default_def)

lemma history_active_first: "active_first history_1"
proof -
  have "i = 0" if "i < 256" "os_is_active (ss_operator_snapshots history_1 ! i)" for i
    using that by (cases i) (simp_all add: history_1_def operator_snapshot_default_def)
  moreover have "length (ss_operator_snapshots history_1) = 256" by (simp add: history_1_def)
  moreover have "position (is_entry_of (os_operator (ss_operator_snapshots history_1 ! 0))) (ss_operator_snapshots history_1)
      = Some 0"
    by (simp add: history_1_def is_entry_of_def history_entry_def)
  ultimately show ?thesis unfolding active_first_def by metis
qed

lemma delegated_up_to_date: "e \<in> set (ss_operator_snapshots delegated_history) \<Longrightarrow> \<not> entry_behind 10 5 e"
proof -
  assume e: "e \<in> set (ss_operator_snapshots delegated_history)"
  have s: "snapshot_on keeper_env sample_handler 1 keeper_chain False = Some history_1"
    "unat (5 :: u64) \<le> unat (cn_slot keeper_chain False) div unat (10 :: u64)"
    by (simp_all add: keeper_snapshot_on)
  obtain i d t where
    "snapshot_on keeper_env sample_handler 1 keeper_chain True = Some t" "shape_inv t"
    "position (is_entry_of 11) (ss_operator_snapshots history_1) = Some i" "i < length (ss_operator_snapshots history_1)"
    "os_operator (ss_operator_snapshots history_1 ! i) = 11"
    "ss_operator_snapshots t = (ss_operator_snapshots history_1)[i := d]"
    "entry_refreshed 10 5 (ss_operator_snapshots history_1 ! i) d"
    by (rule delegation_executed_refreshes [OF keeper_executed [unfolded keeper_ix_def keeper_call [symmetric]]
          s(1) history_shape s(2)])
  then have "i = 0" "ss_operator_snapshots delegated_history = (ss_operator_snapshots history_1)[i := d]"
    "\<not> entry_behind 10 5 d"
    by (simp_all add: keeper_snapshot_on entry_refreshed_def) (simp add: history_1_def history_entry_def is_entry_of_def)
  then show ?thesis using e by (auto simp: history_1_def entry_behind_def operator_snapshot_default_def)
qed

lemma keeper_serves: "serves keeper_env sample_handler 1 keeper_chain 10 5 9"
proof -
  have "p = 11 \<and> \<not> w" if s: "snapshot_on keeper_env sample_handler 1 keeper_chain w = Some s"
    and e: "find_operator_snapshot s p = Some e" "entry_behind 10 5 e" for p w s e
  proof -
    have in_s: "e \<in> set (ss_operator_snapshots s)" "os_operator e = p"
      using e(1) by (auto simp: find_operator_snapshot_def find_Some_iff is_entry_of_def)
    moreover from this s e(2) have "\<not> w" using delegated_up_to_date by (auto simp: keeper_snapshot_on)
    ultimately have "e = history_entry"
      using s e(2) history_behind by (simp add: keeper_snapshot_on entry_behind_def)
    then show ?thesis using in_s \<open>\<not> w\<close> by (simp add: history_entry_def)
  qed
  then show ?thesis
    by (auto simp: serves_def keeper_send_def keeper_ix_def keeper_call)
qed

theorem keeper_refresh_witness:
  "ks_should_snapshot (snd (snd (refresh keeper_env sample_handler 5 (False, keeper_state_default)))) \<and>
   ks_operators_to_snapshot (snd (snd (refresh keeper_env sample_handler 5 (False, keeper_state_default)))) = [11]"
proof -
  have "operator_due 10 5 history_1 11"
    by (simp add: operator_due_def entry_behind_def history_1_def history_entry_def operator_snapshot_default_def)
  moreover have "ks_epoch keeper_state_default = 5 \<Longrightarrow> ks_snapshot_address keeper_state_default = x" for x
    by (simp add: keeper_state_default_def)
  ultimately show ?thesis
    using keeper_refresh [OF keeper_answers keeper_restaking _ keeper_operators, of 1 keeper_state_default 5 False]
    by (simp add: keeper_view_def keeper_decoders_def SNAPSHOT_SIZE_def)
qed

theorem keeper_idle_in_epoch_zero_witness:
  "keeper_rounds (sample_env script_rpc sample_snapshot sample_vaults) sample_handler 3 (([], []), keeper_state_default)
     = (Inr (), (([], []), keeper_state_default))"
  by (rule keeper_idle_in_epoch_zero [where view = "\<lambda>_ _. None" and slot = 50])
    (simp_all add: answers_def script_rpc_def)

theorem crank_refreshes_only_due_witness:
  "\<exists>t. snapshot_on keeper_env sample_handler 1 keeper_chain (snd (crank_snapshot_unupdated keeper_env sample_handler 5 False))
     = Some t \<and> shape_inv t"
proof -
  obtain r w' where run: "crank_snapshot_unupdated keeper_env sample_handler 5 False = (r, w')" by (rule prod.exhaust)
  have "snapshot_on keeper_env sample_handler 1 keeper_chain False = Some history_1" by (simp add: keeper_snapshot_on)
  from crank_refreshes_only_due [OF keeper_chain_laws this history_shape _ run] show ?thesis by (auto simp: run)
qed

theorem crank_completes_witness:
  "\<exists>t. snapshot_on keeper_env sample_handler 1 keeper_chain (snd (crank_snapshot_unupdated keeper_env sample_handler 5 False))
     = Some t \<and> (\<forall>e \<in> set (ss_operator_snapshots t). \<not> entry_behind 10 5 e)"
proof -
  obtain r w' where run: "crank_snapshot_unupdated keeper_env sample_handler 5 False = (r, w')" by (rule prod.exhaust)
  show ?thesis
    using crank_completes [OF keeper_chain_laws keeper_serves _ _ history_shape history_active_first _
        keeper_registry(1,2) _ keeper_vault_update run, of 9]
    by (simp add: keeper_snapshot_on run keeper_view_def)
qed

end
