(* ===== verification/Cli_Tickets.thy ===== *)
theory Cli_Tickets
  imports Cli_Rpc
begin

text \<open>
  The other getters of the command line (\<open>cli/src/getters.rs\<close>): single accounts of the restaking and
  vault programs, lists of accounts, and the tickets that tell how an operator, a vault and the NCN
  are connected.
\<close>

subsection \<open>Single accounts\<close>

definition get_ncn :: "'w cli_env \<Rightarrow> cli_handler \<Rightarrow> ('w, ncn_view) command" where
  "get_ncn E h = cmd_bind (handler_ncn h) (\<lambda>ncn. get_decoded E ncn (jt_ncn (ce_jito E)))"

definition get_operator :: "'w cli_env \<Rightarrow> pubkey \<Rightarrow> ('w, operator_view) command" where
  "get_operator E operator = get_decoded E operator (jt_operator (ce_jito E))"

definition get_ncn_operator_state ::
  "'w cli_env \<Rightarrow> cli_handler \<Rightarrow> pubkey \<Rightarrow> ('w, ncn_operator_state_view) command" where
  "get_ncn_operator_state E h operator =
     cmd_bind (handler_ncn h) (\<lambda>ncn.
     get_decoded E (ja_ncn_operator_state (ce_addresses E) (ch_restaking_program_id h) ncn operator)
       (jt_ncn_operator_state (ce_jito E)))"

definition get_vault_ncn_ticket :: "'w cli_env \<Rightarrow> cli_handler \<Rightarrow> pubkey \<Rightarrow> ('w, slot_toggle) command" where
  "get_vault_ncn_ticket E h vault =
     cmd_bind (handler_ncn h) (\<lambda>ncn.
     get_decoded E (ja_vault_ncn_ticket (ce_addresses E) (ch_vault_program_id h) vault ncn)
       (jt_vault_ncn_ticket_state (ce_jito E)))"

definition get_ncn_vault_ticket :: "'w cli_env \<Rightarrow> cli_handler \<Rightarrow> pubkey \<Rightarrow> ('w, slot_toggle) command" where
  "get_ncn_vault_ticket E h vault =
     cmd_bind (handler_ncn h) (\<lambda>ncn.
     get_decoded E (ja_ncn_vault_ticket (ce_addresses E) (ch_restaking_program_id h) ncn vault)
       (jt_ncn_vault_ticket_state (ce_jito E)))"

text \<open>The staked amount of a delegation beside what the program reads of it.\<close>

definition delegation_of :: "'w cli_env \<Rightarrow> bytes \<Rightarrow> program_error + u64 \<times> vault_operator_delegation" where
  "delegation_of E data =
     try_bind (ad_staked_amount (ce_decoders E) data) (\<lambda>staked_amount.
     try_bind (jt_vault_operator_delegation (ce_jito E) data) (\<lambda>d.
     Inr (staked_amount, d)))"

definition get_vault_operator_delegation ::
  "'w cli_env \<Rightarrow> cli_handler \<Rightarrow> pubkey \<Rightarrow> pubkey \<Rightarrow> ('w, u64 \<times> vault_operator_delegation) command" where
  "get_vault_operator_delegation E h vault operator =
     get_decoded E (ja_vault_operator_delegation (ce_addresses E) (ch_vault_program_id h) vault operator)
       (delegation_of E)"

definition get_operator_vault_ticket ::
  "'w cli_env \<Rightarrow> cli_handler \<Rightarrow> pubkey \<Rightarrow> pubkey \<Rightarrow> ('w, slot_toggle) command" where
  "get_operator_vault_ticket E h vault operator =
     get_decoded E (ja_operator_vault_ticket (ce_addresses E) (ch_restaking_program_id h) operator vault)
       (ad_operator_vault_ticket_state (ce_decoders E))"

subsection \<open>Lists\<close>

text \<open>The slot in which an operator must be active, checked as the release profile does.\<close>

definition active_slot_of :: "u64 \<Rightarrow> cli_error + u64" where
  "active_slot_of epoch =
     ok_or CE_Panic (case checked_mul epoch DEFAULT_SLOTS_PER_EPOCH of
       None \<Rightarrow> None | Some first_slot \<Rightarrow> checked_add first_slot 1)"

text \<open>Operators whose state cannot be read are skipped; a state that cannot be computed panics.\<close>

fun active_operators ::
  "'w cli_env \<Rightarrow> cli_handler \<Rightarrow> u64 \<Rightarrow> pubkey list \<Rightarrow> ('w, pubkey list) command" where
  "active_operators E h active_slot [] = cmd_ok []"
| "active_operators E h active_slot (operator # operators) =
     cmd_bind (cmd_try (get_ncn_operator_state E h operator)) (\<lambda>result.
     case result of
       Inl e \<Rightarrow> active_operators E h active_slot operators
     | Inr ncn_operator_state \<Rightarrow>
         cmd_bind (cmd_lift (map_err (\<lambda>_. CE_Panic)
           (tg_state (nos_ncn_opt_in_state ncn_operator_state) active_slot DEFAULT_SLOTS_PER_EPOCH))) (\<lambda>state.
         cmd_bind (active_operators E h active_slot operators) (\<lambda>rest.
         cmd_ok (if state = Active then operator # rest else rest))))"

definition get_all_active_operators_in_ncn :: "'w cli_env \<Rightarrow> cli_handler \<Rightarrow> u64 \<Rightarrow> ('w, pubkey list) command" where
  "get_all_active_operators_in_ncn E h epoch =
     cmd_bind (cmd_lift (active_slot_of epoch)) (\<lambda>active_slot.
     cmd_bind (get_all_operators_in_ncn E h) (active_operators E h active_slot))"

definition get_all_vaults :: "'w cli_env \<Rightarrow> cli_handler \<Rightarrow> ('w, pubkey list) command" where
  "get_all_vaults E h =
     cmd_bind (rpc_get_program_accounts (ce_rpc E) (ch_vault_program_id h)
       [Data_size (ad_vault_size (ce_decoders E) + 8), Memcmp 0 [ad_vault_discriminator (ce_decoders E)]])
       (\<lambda>results. cmd_ok (map fst results))"

definition get_total_epoch_rent_cost :: "'w cli_env \<Rightarrow> cli_handler \<Rightarrow> ('w, u64) command" where
  "get_total_epoch_rent_cost E h =
     cmd_bind (get_all_operators_in_ncn E h) (\<lambda>_.
     cmd_bind (rpc_get_minimum_balance (ce_rpc E) SNAPSHOT_SIZE) (\<lambda>rent_cost.
     cmd_bind (rpc_get_minimum_balance (ce_rpc E) SNAPSHOT_SIZE) (\<lambda>_.
     cmd_bind (rpc_get_minimum_balance (ce_rpc E) VAULT_REGISTRY_SIZE) (\<lambda>_.
     cmd_ok rent_cost))))"

text \<open>\<open>handler.ncn().unwrap()\<close>: a missing NCN is a panic here.\<close>

definition get_all_ncn_operator_accounts ::
  "'w cli_env \<Rightarrow> cli_handler \<Rightarrow> ('w, (pubkey \<times> ncn_operator_account) list) command" where
  "get_all_ncn_operator_accounts E h =
     cmd_bind (cmd_lift (ok_or CE_Panic (ch_ncn h))) (\<lambda>ncn.
     cmd_bind (rpc_get_program_accounts (ce_rpc E) (ch_ncn_program_id h)
       [Memcmp 0 [discriminator D_OperatorRegistry], Data_size NCN_OPERATOR_ACCOUNT_SIZE, Memcmp 8 (be_bytes 32 ncn)])
       (\<lambda>results.
     cmd_ok (List.map_filter (\<lambda>r. map_option (\<lambda>account. (fst r, account))
       (result_ok (ad_ncn_operator_account (ce_decoders E) (ra_data (snd r))))) results)))"

subsection \<open>Tickets\<close>

record ncn_tickets =
  nt_slot :: u64
  nt_epoch_length :: u64
  nt_ncn :: pubkey
  nt_vault :: pubkey
  nt_vault_account :: vault_view
  nt_operator :: pubkey
  nt_ncn_vault_ticket_address :: pubkey
  nt_ncn_vault_ticket :: "slot_toggle option"
  nt_vault_ncn_ticket_address :: pubkey
  nt_vault_ncn_ticket :: "slot_toggle option"
  nt_vault_operator_delegation_address :: pubkey
  nt_vault_operator_delegation :: "(u64 \<times> vault_operator_delegation) option"
  nt_operator_vault_ticket_address :: pubkey
  nt_operator_vault_ticket :: "slot_toggle option"
  nt_ncn_operator_state_address :: pubkey
  nt_ncn_operator_state :: "ncn_operator_state_view option"

definition TICKET_DNE :: u8 where "TICKET_DNE = 0"
definition TICKET_STAKE :: u8 where "TICKET_STAKE = 10"
definition TICKET_NO_STAKE :: u8 where "TICKET_NO_STAKE = 11"
definition TICKET_STATE_OFFSET :: u8 where "TICKET_STATE_OFFSET = 100"
definition TICKET_INACTIVE :: u8 where "TICKET_INACTIVE = TICKET_STATE_OFFSET"
definition TICKET_WARM_UP :: u8 where "TICKET_WARM_UP = TICKET_STATE_OFFSET + 1"
definition TICKET_ACTIVE :: u8 where "TICKET_ACTIVE = TICKET_STATE_OFFSET + 2"
definition TICKET_COOLDOWN :: u8 where "TICKET_COOLDOWN = TICKET_STATE_OFFSET + 3"

lemmas ticket_codes = TICKET_DNE_def TICKET_STAKE_def TICKET_NO_STAKE_def TICKET_STATE_OFFSET_def
  TICKET_INACTIVE_def TICKET_WARM_UP_def TICKET_ACTIVE_def TICKET_COOLDOWN_def

text \<open>\<open>.await.ok()\<close> with the error logged.\<close>

definition cmd_ok_of :: "('w, 'a) command \<Rightarrow> ('w, 'a option) command" where
  "cmd_ok_of m = cmd_bind (cmd_try m) (\<lambda>result. cmd_ok (result_ok result))"

definition tickets_fetch ::
  "'w cli_env \<Rightarrow> cli_handler \<Rightarrow> pubkey \<Rightarrow> pubkey \<Rightarrow> u64 \<Rightarrow> u64 \<Rightarrow> ('w, ncn_tickets) command" where
  "tickets_fetch E h operator vault slot epoch_length =
     cmd_bind (handler_ncn h) (\<lambda>ncn.
     cmd_bind (get_vault E vault) (\<lambda>vault_account.
     cmd_bind (cmd_ok_of (get_ncn_vault_ticket E h vault)) (\<lambda>ncn_vault_ticket.
     cmd_bind (cmd_ok_of (get_vault_ncn_ticket E h vault)) (\<lambda>vault_ncn_ticket.
     cmd_bind (cmd_ok_of (get_vault_operator_delegation E h vault operator)) (\<lambda>vault_operator_delegation.
     cmd_bind (cmd_ok_of (get_operator_vault_ticket E h vault operator)) (\<lambda>operator_vault_ticket.
     cmd_bind (cmd_ok_of (get_ncn_operator_state E h operator)) (\<lambda>ncn_operator_state.
     cmd_ok \<lparr>nt_slot = slot, nt_epoch_length = epoch_length, nt_ncn = ncn, nt_vault = vault,
       nt_vault_account = vault_account, nt_operator = operator,
       nt_ncn_vault_ticket_address =
         ja_ncn_vault_ticket (ce_addresses E) (ch_restaking_program_id h) ncn vault,
       nt_ncn_vault_ticket = ncn_vault_ticket,
       nt_vault_ncn_ticket_address = ja_vault_ncn_ticket (ce_addresses E) (ch_vault_program_id h) vault ncn,
       nt_vault_ncn_ticket = vault_ncn_ticket,
       nt_vault_operator_delegation_address =
         ja_vault_operator_delegation (ce_addresses E) (ch_vault_program_id h) vault operator,
       nt_vault_operator_delegation = vault_operator_delegation,
       nt_operator_vault_ticket_address =
         ja_operator_vault_ticket (ce_addresses E) (ch_restaking_program_id h) operator vault,
       nt_operator_vault_ticket = operator_vault_ticket,
       nt_ncn_operator_state_address =
         ja_ncn_operator_state (ce_addresses E) (ch_restaking_program_id h) ncn operator,
       nt_ncn_operator_state = ncn_operator_state\<rparr>)))))))"

definition tickets_st_mint :: "ncn_tickets \<Rightarrow> pubkey" where
  "tickets_st_mint t = vv_supported_mint (nt_vault_account t)"

text \<open>An overflow of the total security is a panic.\<close>

definition tickets_delegation :: "ncn_tickets \<Rightarrow> cli_error + u64 \<times> u64 \<times> u64" where
  "tickets_delegation t =
     (case nt_vault_operator_delegation t of
        None \<Rightarrow> Inr (0, 0, 0)
      | Some (staked_amount, d) \<Rightarrow>
          map_err (\<lambda>_. CE_Panic) (try_bind (vod_total_security d) (\<lambda>total_security.
            Inr (staked_amount, vod_cooling_down_amount d, total_security))))"

text \<open>\<open>state as u8\<close>, by the order of the enumeration, and the code of an optional connection.\<close>

fun state_code :: "slot_toggle_state \<Rightarrow> u8" where
  "state_code Inactive = 0"
| "state_code WarmUp = 1"
| "state_code Active = 2"
| "state_code Cooldown = 3"

definition connection_code :: "ncn_tickets \<Rightarrow> slot_toggle option \<Rightarrow> u8" where
  "connection_code t toggle =
     (case toggle of
        None \<Rightarrow> TICKET_DNE
      | Some st \<Rightarrow>
          (case tg_state st (nt_slot t) (nt_epoch_length t) of
             Inl e \<Rightarrow> TICKET_DNE
           | Inr state \<Rightarrow> state_code state + TICKET_STATE_OFFSET))"

definition tickets_ncn_operator :: "ncn_tickets \<Rightarrow> u8" where
  "tickets_ncn_operator t = connection_code t (map_option nos_ncn_opt_in_state (nt_ncn_operator_state t))"

definition tickets_operator_ncn :: "ncn_tickets \<Rightarrow> u8" where
  "tickets_operator_ncn t = connection_code t (map_option nos_operator_opt_in_state (nt_ncn_operator_state t))"

definition tickets_ncn_vault :: "ncn_tickets \<Rightarrow> u8" where
  "tickets_ncn_vault t = connection_code t (nt_ncn_vault_ticket t)"

definition tickets_vault_ncn :: "ncn_tickets \<Rightarrow> u8" where
  "tickets_vault_ncn t = connection_code t (nt_vault_ncn_ticket t)"

definition tickets_operator_vault :: "ncn_tickets \<Rightarrow> u8" where
  "tickets_operator_vault t = connection_code t (nt_operator_vault_ticket t)"

definition tickets_vault_operator :: "ncn_tickets \<Rightarrow> u8" where
  "tickets_vault_operator t =
     (case nt_vault_operator_delegation t of
        None \<Rightarrow> TICKET_DNE
      | Some (_, d) \<Rightarrow>
          (case vod_total_security d of
             Inr total_security \<Rightarrow> if total_security > 0 then TICKET_STAKE else TICKET_NO_STAKE
           | Inl e \<Rightarrow> TICKET_NO_STAKE))"

text \<open>\<open>mapM\<close> of a command over a list, as the loops that push one result per round.\<close>

fun cmd_collect :: "('a \<Rightarrow> ('w, 'b) command) \<Rightarrow> 'a list \<Rightarrow> ('w, 'b list) command" where
  "cmd_collect f [] = cmd_ok []"
| "cmd_collect f (x # xs) = cmd_bind (f x) (\<lambda>y. cmd_bind (cmd_collect f xs) (\<lambda>ys. cmd_ok (y # ys)))"

definition get_all_tickets :: "'w cli_env \<Rightarrow> cli_handler \<Rightarrow> ('w, ncn_tickets list) command" where
  "get_all_tickets E h =
     cmd_bind (get_all_vaults_in_ncn E h) (\<lambda>all_vaults.
     cmd_bind (get_all_operators_in_ncn E h) (\<lambda>all_operators.
     cmd_bind (get_restaking_config E h) (\<lambda>epoch_length.
     cmd_bind (rpc_get_absolute_slot (ce_rpc E)) (\<lambda>slot.
     cmd_collect (\<lambda>(operator, vault). tickets_fetch E h operator vault slot epoch_length)
       (List.product all_operators all_vaults)))))"

text \<open>The codes tell the states of a connection apart, and from a missing one.\<close>

lemma connection_code_iff:
  "connection_code t toggle = TICKET_DNE \<longleftrightarrow>
     (\<forall>st state. toggle = Some st \<longrightarrow> tg_state st (nt_slot t) (nt_epoch_length t) \<noteq> Inr state)"
  "connection_code t toggle = TICKET_ACTIVE \<longleftrightarrow>
     (\<exists>st. toggle = Some st \<and> tg_state st (nt_slot t) (nt_epoch_length t) = Inr Active)"
proof -
  have codes: "state_code x + TICKET_STATE_OFFSET \<noteq> TICKET_DNE"
    "state_code x + TICKET_STATE_OFFSET = TICKET_ACTIVE \<longleftrightarrow> x = Active" for x
    by (cases x; simp add: ticket_codes)+
  show "connection_code t toggle = TICKET_DNE \<longleftrightarrow>
      (\<forall>st state. toggle = Some st \<longrightarrow> tg_state st (nt_slot t) (nt_epoch_length t) \<noteq> Inr state)"
    using codes(1) by (auto simp: connection_code_def split: option.splits sum.splits)
  have "TICKET_DNE \<noteq> TICKET_ACTIVE" by (simp add: ticket_codes)
  then show "connection_code t toggle = TICKET_ACTIVE \<longleftrightarrow>
      (\<exists>st. toggle = Some st \<and> tg_state st (nt_slot t) (nt_epoch_length t) = Inr Active)"
    using codes(2) by (auto simp: connection_code_def split: option.splits sum.splits)
qed

end
