(* ===== verification/Cli_Commands.thy ===== *)
theory Cli_Commands
  imports Keeper Cli_Tickets Host_Keys
begin

text \<open>
  The command line as a whole (\<open>cli/src/args.rs\<close>, \<open>cli/src/handler.rs\<close>): the handler made from the
  arguments, and what each command does.  Besides the world a command sees the key files of the host.
  A command that samples a key may not return, which is \<open>None\<close>.  What is only printed is left out.
\<close>

subsection \<open>The handler from the arguments\<close>

text \<open>The URL of the node and the switches for output and help are left out; the node is a parameter.\<close>

record cli_args =
  ca_commitment :: rust_string
  ca_transaction_retries :: u64
  ca_priority_fee_micro_lamports :: u64
  ca_ncn_program_id :: rust_string
  ca_restaking_program_id :: rust_string
  ca_vault_program_id :: rust_string
  ca_token_program_id :: rust_string
  ca_ncn :: "rust_string option"
  ca_vault :: rust_string
  ca_epoch :: "u64 option"
  ca_keypair_path :: "rust_string option"

text \<open>The parser of commitments, the key pairs stored on the host, and \<open>sol_to_lamports\<close> on doubles.\<close>

record 'f cli_io =
  ci_commitment_ok :: "rust_string \<Rightarrow> bool"
  ci_read_keypair_file :: "rust_string \<Rightarrow> pubkey option"
  ci_sol_to_lamports :: "'f \<Rightarrow> u64"

definition pubkey_arg :: "'p host \<Rightarrow> rust_string \<Rightarrow> cli_error + pubkey" where
  "pubkey_arg H s = ok_or CE_Parse (hs_pubkey_from_str H s)"

definition optional_arg :: "('a \<Rightarrow> cli_error + 'b) \<Rightarrow> 'a option \<Rightarrow> cli_error + 'b option" where
  "optional_arg f x = (case x of None \<Rightarrow> Inr None | Some y \<Rightarrow> try_bind (f y) (\<lambda>z. Inr (Some z)))"

definition from_args :: "'p host \<Rightarrow> 'f cli_io \<Rightarrow> 'w cli_env \<Rightarrow> cli_args \<Rightarrow> ('w, cli_handler) command" where
  "from_args H io E args =
     cmd_bind (cmd_lift (if ci_commitment_ok io (ca_commitment args) then Inr () else Inl CE_Parse)) (\<lambda>_.
     cmd_bind (cmd_lift (optional_arg (\<lambda>path. ok_or CE_NoKeypair (ci_read_keypair_file io path))
       (ca_keypair_path args))) (\<lambda>keypair.
     cmd_bind (cmd_lift (pubkey_arg H (ca_restaking_program_id args))) (\<lambda>restaking_program_id.
     cmd_bind (cmd_lift (pubkey_arg H (ca_vault_program_id args))) (\<lambda>vault_program_id.
     cmd_bind (cmd_lift (pubkey_arg H (ca_ncn_program_id args))) (\<lambda>ncn_program_id.
     cmd_bind (cmd_lift (pubkey_arg H (ca_token_program_id args))) (\<lambda>_.
     cmd_bind (cmd_lift (optional_arg (pubkey_arg H) (ca_ncn args))) (\<lambda>ncn.
     cmd_bind (cmd_lift (pubkey_arg H (ca_vault args))) (\<lambda>vault.
     cmd_bind (case ca_epoch args of Some epoch \<Rightarrow> cmd_ok epoch | None \<Rightarrow> rpc_get_epoch (ce_rpc E)) (\<lambda>epoch.
     cmd_ok \<lparr>ch_keypair = keypair, ch_restaking_program_id = restaking_program_id,
       ch_vault_program_id = vault_program_id, ch_ncn_program_id = ncn_program_id, ch_ncn = ncn,
       ch_vault = vault, ch_epoch = epoch, ch_retries = ca_transaction_retries args,
       ch_priority_fee_micro_lamports = ca_priority_fee_micro_lamports args\<rparr>)))))))))"

text \<open>The getter that also creates the snapshot account; the commands use the one of \<open>Cli_Instructions\<close>.\<close>

definition getter_get_or_create_snapshot :: "'w cli_env \<Rightarrow> cli_handler \<Rightarrow> ('w, snapshot) command" where
  "getter_get_or_create_snapshot E h =
     cmd_bind (handler_ncn h) (\<lambda>ncn.
     cmd_bind (get_account E (snapshot_address E h ncn)) (\<lambda>account.
     case account of
       Some a \<Rightarrow> cmd_program (ad_snapshot (ce_decoders E) (ra_data a))
     | None \<Rightarrow>
         cmd_bind (create_snapshot E h) (\<lambda>_.
         get_decoded E (snapshot_address E h ncn) (ad_snapshot (ce_decoders E)))))"

subsection \<open>Commands\<close>

datatype 'f program_command =
    Cmd_RunKeeper
  | Cmd_CrankRegisterVaults
  | Cmd_CrankSnapshot
  | Cmd_CrankSnapshotUnupdated
  | Cmd_AdminCreateConfig rust_string u64 u64 u64 u64 "rust_string option" u128
  | Cmd_AdminRegisterStMint u16
  | Cmd_AdminSetTieBreaker u8
  | Cmd_AdminSetParameters "u64 option" "u64 option" "u64 option" "u64 option"
  | Cmd_AdminSetNewAdmin rust_string bool
  | Cmd_AdminFundAccountPayer 'f
  | Cmd_CreateVaultRegistry
  | Cmd_RegisterVault
  | Cmd_RegisterOperator rust_string "rust_string option" "rust_string option" "rust_string option" rust_string
  | Cmd_RemoveOperator rust_string
  | Cmd_UpdateOperatorIpPort rust_string rust_string u16
  | Cmd_CreateSnapshot
  | Cmd_SnapshotVaultOperatorDelegation rust_string
  | Cmd_VerifyCertificate rust_string rust_string rust_string rust_string "u64 option"
  | Cmd_GenerateVoteSignature rust_string rust_string
  | Cmd_AggregateSignatures rust_string rust_string rust_string rust_string
  | Cmd_GetNcn
  | Cmd_GetNcnOperatorState rust_string
  | Cmd_GetVaultNcnTicket
  | Cmd_GetNcnVaultTicket
  | Cmd_GetVaultOperatorDelegation rust_string
  | Cmd_GetAllTickets
  | Cmd_GetAllOperatorsInNcn
  | Cmd_GetAllVaultsInNcn
  | Cmd_GetAllNCNOperatorAccounts
  | Cmd_GetNCNProgramConfig
  | Cmd_GetVaultRegistry
  | Cmd_GetSnapshot
  | Cmd_GetOperatorSnapshot rust_string
  | Cmd_GetAccountPayer
  | Cmd_GetTotalEpochRentCost
  | Cmd_GetOperatorStakes
  | Cmd_GetVaultStakes
  | Cmd_GetVaultOperatorStakes
  | Cmd_FullUpdateVault

text \<open>Errors of the key tools.\<close>

definition keys_cli_error :: "keys_error \<Rightarrow> cli_error" where
  "keys_cli_error e = (if e = KE_Panic then CE_Panic else CE_Keys e)"

definition cmd_keys :: "keys_error + 'a \<Rightarrow> ('w, 'a) command" where
  "cmd_keys r = cmd_lift (map_err keys_cli_error r)"

definition cmd_print :: "('w, 'a) command \<Rightarrow> ('w, unit) command" where
  "cmd_print m = cmd_bind m (\<lambda>_. cmd_ok ())"

text \<open>
  \<open>RunKeeper\<close>: the keeper only ends by an error of its start or by a panic; it is run for a number of
  rounds.
\<close>

definition run_keeper :: "'w cli_env \<Rightarrow> cli_handler \<Rightarrow> nat \<Rightarrow> ('w, unit) command" where
  "run_keeper E h rounds w =
     (case startup_ncn_keeper E h rounds (w, keeper_state_default) of (r, (w', _)) \<Rightarrow> (r, w'))"

text \<open>The stakes of the operators in the snapshot, and a stake in percent of the minimum stake.\<close>

fun operator_stakes :: "'w cli_env \<Rightarrow> cli_handler \<Rightarrow> pubkey list \<Rightarrow> ('w, (pubkey \<times> u128) list) command" where
  "operator_stakes E h [] = cmd_ok []"
| "operator_stakes E h (operator # operators) =
     cmd_bind (cmd_try (cli_get_operator_snapshot E h operator)) (\<lambda>result.
     cmd_bind (operator_stakes E h operators) (\<lambda>stakes.
     cmd_ok (case result of
       Inr e \<Rightarrow> (operator, sw_weight (os_stake_weight e)) # stakes
     | Inl _ \<Rightarrow> stakes)))"

definition stake_percent :: "u128 \<Rightarrow> u128 \<Rightarrow> cli_error + u128 \<times> u128" where
  "stake_percent stake_weight minimum_stake =
     try_bind (ok_or CE_Panic (checked_mul stake_weight 10000)) (\<lambda>scaled.
     try_bind (ok_or CE_Panic (checked_div scaled minimum_stake)) (\<lambda>bps.
     Inr (bps div 100, bps mod 100)))"

definition show_operator_stakes :: "'w cli_env \<Rightarrow> cli_handler \<Rightarrow> ('w, (pubkey \<times> u128 \<times> u128) list) command" where
  "show_operator_stakes E h =
     cmd_bind (get_snapshot E h) (\<lambda>snapshot.
     cmd_bind (get_all_operators_in_ncn E h) (\<lambda>operators.
     cmd_bind (operator_stakes E h operators) (\<lambda>stakes.
     cmd_collect (\<lambda>(operator, stake_weight).
         cmd_bind (cmd_lift (stake_percent stake_weight (sw_weight (ss_minimum_stake snapshot))))
           (\<lambda>percent. cmd_ok (operator, percent)))
       (sort_key (\<lambda>(_, stake_weight). - int (unat stake_weight)) stakes))))"

text \<open>The table of vaults is never filled, so both commands only read.\<close>

definition read_vault_stakes :: "'w cli_env \<Rightarrow> cli_handler \<Rightarrow> ('w, unit) command" where
  "read_vault_stakes E h =
     cmd_bind (get_all_operators_in_ncn E h) (\<lambda>operators.
     cmd_bind (get_snapshot E h) (\<lambda>_.
     cmd_print (operator_stakes E h operators)))"

definition with_pubkey :: "'p host \<Rightarrow> rust_string \<Rightarrow> (pubkey \<Rightarrow> ('w, 'a) command) \<Rightarrow> ('w, 'a) command" where
  "with_pubkey H s f = cmd_bind (cmd_lift (pubkey_arg H s)) f"

subsection \<open>The keys of a registration\<close>

text \<open>
  Given in full, or given public keys beside the private key of the file, or both from the file.  A
  key set written to the file stays there when the signature fails.
\<close>

definition signed_keys ::
  "syscalls \<Rightarrow> 'p host \<Rightarrow> cli_handler \<Rightarrow> keys_file \<Rightarrow> (keys_error + bls_key_set \<times> keys_file) option \<Rightarrow>
   ((cli_error + bytes32 \<times> bytes64 \<times> bytes64) \<times> keys_file) option" where
  "signed_keys S H h file keys =
     (case keys of
        None \<Rightarrow> None
      | Some (Inl e) \<Rightarrow> Some (Inl (keys_cli_error e), file)
      | Some (Inr (key_set, file')) \<Rightarrow>
          Some (try_bind (ok_or CE_NoNcn (ch_ncn h)) (\<lambda>ncn.
            try_bind (map_err keys_cli_error (generate_signature S H key_set ncn)) (\<lambda>signature.
            Inr (ks_g1_pubkey key_set, ks_g2_pubkey key_set, signature))), file'))"

definition registration_keys ::
  "syscalls \<Rightarrow> 'p host \<Rightarrow> cli_handler \<Rightarrow> pubkey \<Rightarrow> keys_file \<Rightarrow> rust_string option \<Rightarrow> rust_string option \<Rightarrow>
   rust_string option \<Rightarrow> ((cli_error + bytes32 \<times> bytes64 \<times> bytes64) \<times> keys_file) option" where
  "registration_keys S H h operator file g1_pubkey g2_pubkey signature =
     (case (g1_pubkey, g2_pubkey, signature) of
        (Some g1, Some g2, Some sig) \<Rightarrow>
          Some (map_err keys_cli_error
            (try_bind (hex_to_bytes H 32 g1) (\<lambda>g1_bytes.
             try_bind (hex_to_bytes H 64 g2) (\<lambda>g2_bytes.
             try_bind (hex_to_bytes H 64 sig) (\<lambda>sig_bytes.
             Inr (be_word g1_bytes, be_word g2_bytes, be_word sig_bytes))))), file)
      | (Some g1, Some g2, None) \<Rightarrow>
          signed_keys S H h file (generate_or_use_keys S H operator file (Some g1) (Some g2))
      | (None, None, None) \<Rightarrow>
          signed_keys S H h file (generate_or_use_keys S H operator file None None)
      | _ \<Rightarrow> Some (Inl CE_PartialKeys, file))"

type_synonym key_files = "rust_string \<Rightarrow> keys_file"

definition register_operator_command ::
  "syscalls \<Rightarrow> 'p host \<Rightarrow> 'w cli_env \<Rightarrow> cli_handler \<Rightarrow> rust_string \<Rightarrow> rust_string option \<Rightarrow> rust_string option \<Rightarrow>
   rust_string option \<Rightarrow> rust_string \<Rightarrow> 'w \<times> key_files \<Rightarrow> ((cli_error + unit) \<times> 'w \<times> key_files) option" where
  "register_operator_command S H E h operator g1_pubkey g2_pubkey signature keys_file st =
     (case st of (w, files) \<Rightarrow>
       case pubkey_arg H operator of
         Inl e \<Rightarrow> Some (Inl e, (w, files))
       | Inr operator \<Rightarrow>
           (case registration_keys S H h operator (files keys_file) g1_pubkey g2_pubkey signature of
              None \<Rightarrow> None
            | Some (Inl e, file) \<Rightarrow> Some (Inl e, (w, files(keys_file := file)))
            | Some (Inr (g1_array, g2_array, sig_array), file) \<Rightarrow>
                Some (case cli_register_operator E h operator g1_array g2_array sig_array w of
                  (r, w') \<Rightarrow> (r, (w', files(keys_file := file))))))"

subsection \<open>The dispatch\<close>

text \<open>A command that uses no key file.\<close>

definition in_world ::
  "('w, unit) command \<Rightarrow> 'w \<times> key_files \<Rightarrow> ((cli_error + unit) \<times> 'w \<times> key_files) option" where
  "in_world m st = (case st of (w, files) \<Rightarrow> Some (case m w of (r, w') \<Rightarrow> (r, (w', files))))"

fun handle ::
  "syscalls \<Rightarrow> 'p host \<Rightarrow> 'f cli_io \<Rightarrow> 'w cli_env \<Rightarrow> cli_handler \<Rightarrow> nat \<Rightarrow> 'f program_command \<Rightarrow>
   'w \<times> key_files \<Rightarrow> ((cli_error + unit) \<times> 'w \<times> key_files) option" where
  "handle S H io E h rounds Cmd_RunKeeper = in_world (run_keeper E h rounds)"
| "handle S H io E h rounds Cmd_CrankRegisterVaults = in_world (crank_register_vaults E h)"
| "handle S H io E h rounds Cmd_CrankSnapshot = in_world (crank_snapshot E h)"
| "handle S H io E h rounds Cmd_CrankSnapshotUnupdated =
     in_world (crank_snapshot_unupdated E h (ch_epoch h))"
| "handle S H io E h rounds (Cmd_AdminCreateConfig ncn_fee_wallet fee_bps epochs_before_stall
     valid_slots_after_consensus epochs_after_consensus_before_close tie_breaker_admin minimum_stake) =
     in_world (cmd_bind (cmd_lift (optional_arg (pubkey_arg H) tie_breaker_admin)) (\<lambda>tie_breaker.
     with_pubkey H ncn_fee_wallet (\<lambda>ncn_fee_wallet.
     cmd_bind (cmd_lift (if unat fee_bps < 2 ^ 16 then Inr (ucast fee_bps) else Inl CE_Parse)) (\<lambda>fee_bps.
     admin_create_config E h ncn_fee_wallet fee_bps tie_breaker epochs_before_stall
       valid_slots_after_consensus epochs_after_consensus_before_close minimum_stake))))"
| "handle S H io E h rounds (Cmd_AdminRegisterStMint weight_bps) =
     in_world (cli_register_st_mint E h (ch_vault h) weight_bps)"
| "handle S H io E h rounds (Cmd_AdminSetTieBreaker _) = in_world (cmd_ok ())"
| "handle S H io E h rounds (Cmd_AdminSetParameters epochs_before_stall epochs_after_consensus_before_close
     valid_slots_after_consensus starting_valid_epoch) =
     in_world (cmd_bind (cli_set_parameters E h epochs_before_stall epochs_after_consensus_before_close
       valid_slots_after_consensus starting_valid_epoch) (\<lambda>_.
     cmd_print (get_ncn_program_config E h)))"
| "handle S H io E h rounds (Cmd_AdminSetNewAdmin new_admin set_tie_breaker_admin) =
     in_world (with_pubkey H new_admin (\<lambda>new_admin. cli_set_new_admin E h new_admin set_tie_breaker_admin))"
| "handle S H io E h rounds (Cmd_AdminFundAccountPayer amount_in_sol) =
     in_world (admin_fund_account_payer E h (ci_sol_to_lamports io amount_in_sol))"
| "handle S H io E h rounds Cmd_CreateVaultRegistry = in_world (create_vault_registry E h)"
| "handle S H io E h rounds Cmd_RegisterVault = in_world (cli_register_vault E h (ch_vault h))"
| "handle S H io E h rounds (Cmd_RegisterOperator operator g1_pubkey g2_pubkey signature keys_file) =
     register_operator_command S H E h operator g1_pubkey g2_pubkey signature keys_file"
| "handle S H io E h rounds (Cmd_RemoveOperator operator) =
     in_world (with_pubkey H operator (cli_remove_operator E h))"
| "handle S H io E h rounds (Cmd_UpdateOperatorIpPort operator ip_address port) =
     in_world (with_pubkey H operator (\<lambda>operator. cli_update_operator_ip_port E h operator ip_address port))"
| "handle S H io E h rounds Cmd_CreateSnapshot = in_world (create_snapshot E h)"
| "handle S H io E h rounds (Cmd_SnapshotVaultOperatorDelegation operator) =
     in_world (with_pubkey H operator (cli_snapshot_delegation E h (ch_vault h)))"
| "handle S H io E h rounds (Cmd_VerifyCertificate digest aggregated_signature aggregated_g2 signers_bitmap
     expected_generation) =
     in_world (cmd_bind (cmd_keys (hex_to_bytes H 32 digest)) (\<lambda>digest_bytes.
     cmd_bind (cmd_keys (hex_to_bytes H 32 aggregated_signature)) (\<lambda>agg_sig.
     cmd_bind (cmd_keys (hex_to_bytes H 64 aggregated_g2)) (\<lambda>apk2.
     cmd_bind (cmd_keys (ok_or KE_BadHex (hs_hex_decode H signers_bitmap))) (\<lambda>bitmap_bytes.
     cmd_bind (case expected_generation of Some generation \<Rightarrow> cmd_ok generation
       | None \<Rightarrow> cmd_bind (get_snapshot E h) (\<lambda>snapshot. cmd_ok (ss_generation snapshot)))
       (\<lambda>expected_generation.
     cli_verify_certificate E h (be_word digest_bytes) (be_word agg_sig) (be_word apk2) bitmap_bytes
       expected_generation))))))"
| "handle S H io E h rounds (Cmd_GenerateVoteSignature private_key message) =
     in_world (cmd_bind (cmd_keys (hex_to_bytes H 32 private_key)) (\<lambda>priv_key_bytes.
     cmd_bind (cmd_keys (hex_to_bytes H 32 message)) (\<lambda>message_bytes.
     cmd_print (cmd_keys (generate_signature_from_private_key S (be_word priv_key_bytes) (be_word message_bytes))))))"
| "handle S H io E h rounds (Cmd_AggregateSignatures signatures g1_public_keys g2_public_keys signers_bitmap) =
     in_world (cmd_print (cmd_keys (aggregate_signatures_and_keys S H signatures g1_public_keys g2_public_keys signers_bitmap)))"
| "handle S H io E h rounds Cmd_GetNcn = in_world (cmd_print (get_ncn E h))"
| "handle S H io E h rounds (Cmd_GetNcnOperatorState operator) =
     in_world (with_pubkey H operator (\<lambda>operator. cmd_print (get_ncn_operator_state E h operator)))"
| "handle S H io E h rounds Cmd_GetVaultNcnTicket =
     in_world (cmd_print (get_vault_ncn_ticket E h (ch_vault h)))"
| "handle S H io E h rounds Cmd_GetNcnVaultTicket =
     in_world (cmd_print (get_ncn_vault_ticket E h (ch_vault h)))"
| "handle S H io E h rounds (Cmd_GetVaultOperatorDelegation operator) =
     in_world (with_pubkey H operator (\<lambda>operator. cmd_print (get_vault_operator_delegation E h (ch_vault h) operator)))"
| "handle S H io E h rounds Cmd_GetAllTickets = in_world (cmd_print (get_all_tickets E h))"
| "handle S H io E h rounds Cmd_GetAllOperatorsInNcn =
     in_world (cmd_print (get_all_operators_in_ncn E h))"
| "handle S H io E h rounds Cmd_GetAllVaultsInNcn = in_world (cmd_print (get_all_vaults_in_ncn E h))"
| "handle S H io E h rounds Cmd_GetAllNCNOperatorAccounts =
     in_world (cmd_print (get_all_ncn_operator_accounts E h))"
| "handle S H io E h rounds Cmd_GetNCNProgramConfig =
     in_world (cmd_print (get_ncn_program_config E h))"
| "handle S H io E h rounds Cmd_GetVaultRegistry = in_world (cmd_print (get_vault_registry E h))"
| "handle S H io E h rounds Cmd_GetSnapshot = in_world (cmd_print (get_snapshot E h))"
| "handle S H io E h rounds (Cmd_GetOperatorSnapshot operator) =
     in_world (with_pubkey H operator (\<lambda>operator. cmd_print (cli_get_operator_snapshot E h operator)))"
| "handle S H io E h rounds Cmd_GetAccountPayer = in_world (cmd_print (get_account_payer E h))"
| "handle S H io E h rounds Cmd_GetTotalEpochRentCost =
     in_world (cmd_print (get_total_epoch_rent_cost E h))"
| "handle S H io E h rounds Cmd_GetOperatorStakes = in_world (cmd_print (show_operator_stakes E h))"
| "handle S H io E h rounds Cmd_GetVaultStakes = in_world (read_vault_stakes E h)"
| "handle S H io E h rounds Cmd_GetVaultOperatorStakes = in_world (read_vault_stakes E h)"
| "handle S H io E h rounds Cmd_FullUpdateVault = in_world (full_vault_update E h (ch_vault h))"

text \<open>The binary past its help page: the handler is made first, and its failure ends the program.\<close>

definition cli_main ::
  "syscalls \<Rightarrow> 'p host \<Rightarrow> 'f cli_io \<Rightarrow> 'w cli_env \<Rightarrow> cli_args \<Rightarrow> nat \<Rightarrow> 'f program_command \<Rightarrow>
   'w \<times> key_files \<Rightarrow> ((cli_error + unit) \<times> 'w \<times> key_files) option" where
  "cli_main S H io E args rounds action st =
     (case st of (w, files) \<Rightarrow>
       case from_args H io E args w of
         (Inl e, w) \<Rightarrow> Some (Inl e, (w, files))
       | (Inr h, w) \<Rightarrow> handle S H io E h rounds action (w, files))"

end
