(* ===== verification/Keeper_Metrics.thy ===== *)
theory Keeper_Metrics
  imports Cli_Tickets
begin

text \<open>
  The metrics of the keeper (\<open>cli/src/keeper/keeper_metrics.rs\<close>) as the list of the datapoints they
  submit, with information logging on, as the command line starts it.  The keeper itself only calls
  \<open>emit_error\<close> and \<open>emit_heartbeat\<close>.  Doubles and the text of addresses are parameters.
\<close>

subsection \<open>Datapoints\<close>

datatype 'f metric_value = MV_i64 int | MV_f64 'f | MV_bool bool | MV_string rust_string

record 'f metric_point =
  mp_name :: string
  mp_fields :: "(string \<times> 'f metric_value) list"

record 'f metric_host =
  mh_to_string :: "pubkey \<Rightarrow> rust_string"
  mh_of_u128 :: "u128 \<Rightarrow> 'f"
  mh_lamports_to_sol :: "u64 \<Rightarrow> 'f"
  mh_epoch_percentage :: "u64 \<Rightarrow> 'f"

text \<open>\<open>as i64\<close> wraps a \<open>u64\<close> and keeps smaller types and counts.\<close>

definition mv_u64 :: "u64 \<Rightarrow> 'f metric_value" where "mv_u64 x = MV_i64 (sint x)"
definition mv_u8 :: "u8 \<Rightarrow> 'f metric_value" where "mv_u8 x = MV_i64 (int (unat x))"
definition mv_u16 :: "u16 \<Rightarrow> 'f metric_value" where "mv_u16 x = MV_i64 (int (unat x))"

definition mv_pubkey :: "'f metric_host \<Rightarrow> pubkey \<Rightarrow> 'f metric_value" where
  "mv_pubkey M p = MV_string (mh_to_string M p)"

definition format_stake_weight :: "'f metric_host \<Rightarrow> u128 \<Rightarrow> 'f metric_value" where
  "format_stake_weight M x = MV_f64 (mh_of_u128 M x)"

definition format_token_amount :: "'f metric_host \<Rightarrow> u64 \<Rightarrow> 'f metric_value" where
  "format_token_amount M x = MV_f64 (mh_lamports_to_sol M x)"

text \<open>A report reads the world and appends datapoints; those before a failure stay.\<close>

type_synonym ('w, 'f, 'a) report = "('w \<times> 'f metric_point list, 'a) command"

definition reading :: "('w, 'a) command \<Rightarrow> ('w, 'f, 'a) report" where
  "reading m st = (case m (fst st) of (r, w) \<Rightarrow> (r, (w, snd st)))"

definition datapoint :: "string \<Rightarrow> (string \<times> 'f metric_value) list \<Rightarrow> ('w, 'f, unit) report" where
  "datapoint name kvs st = (Inr (), (fst st, snd st @ [\<lparr>mp_name = name, mp_fields = kvs\<rparr>]))"

definition epoch_datapoint :: "string \<Rightarrow> bool \<Rightarrow> (string \<times> 'f metric_value) list \<Rightarrow> ('w, 'f, unit) report" where
  "epoch_datapoint name is_current_epoch kvs =
     cmd_bind (datapoint name kvs) (\<lambda>_.
     if is_current_epoch then datapoint (name @ ''-current'') kvs else cmd_ok ())"

definition time_fields :: "u64 \<Rightarrow> u64 \<Rightarrow> (string \<times> 'f metric_value) list" where
  "time_fields current_epoch current_slot =
     [(''current-epoch'', mv_u64 current_epoch), (''current-slot'', mv_u64 current_slot)]"

definition emit_error :: "rust_string \<Rightarrow> rust_string \<Rightarrow> rust_string \<Rightarrow> u64 \<Rightarrow> ('w, 'f, unit) report" where
  "emit_error title error message keeper_epoch =
     datapoint ''ncn-program-keeper-error'' [(''command-title'', MV_string title), (''error'', MV_string error),
       (''message'', MV_string message), (''keeper-epoch'', mv_u64 keeper_epoch)]"

definition emit_heartbeat :: "u64 \<Rightarrow> ('w, 'f, unit) report" where
  "emit_heartbeat tick =
     cmd_bind (datapoint ''ncn-program-keeper-keeper-heartbeat-operations'' [(''tick'', mv_u64 tick)]) (\<lambda>_.
     datapoint ''ncn-program-keeper-keeper-heartbeat-metrics'' [(''tick'', mv_u64 tick)])"

subsection \<open>Metrics of the NCN\<close>

definition emit_ncn_metrics_epoch_slot :: "'f metric_host \<Rightarrow> 'w cli_env \<Rightarrow> cli_handler \<Rightarrow> ('w, 'f, unit) report" where
  "emit_ncn_metrics_epoch_slot M E h =
     cmd_bind (reading (handler_ncn h)) (\<lambda>ncn.
     cmd_bind (reading (get_current_epoch_and_slot E)) (\<lambda>(current_epoch, current_slot).
     datapoint ''ncn-program-keeper-em-epoch-slot'' (time_fields current_epoch current_slot @
       [(''epoch-percentage'', MV_f64 (mh_epoch_percentage M current_slot)), (''ncn'', mv_pubkey M ncn)])))"

definition emit_ncn_metrics_account_payer :: "'f metric_host \<Rightarrow> 'w cli_env \<Rightarrow> cli_handler \<Rightarrow> ('w, 'f, unit) report" where
  "emit_ncn_metrics_account_payer M E h =
     cmd_bind (reading (get_current_epoch_and_slot E)) (\<lambda>(current_epoch, current_slot).
     cmd_bind (reading (handler_ncn h)) (\<lambda>ncn.
     let account_payer_address = fst (account_payer_find (ce_runtime E) (ch_ncn_program_id h) ncn) in
     cmd_bind (reading (get_account_payer E h)) (\<lambda>account_payer.
     datapoint ''ncn-program-keeper-em-account-payer'' (time_fields current_epoch current_slot @
       [(''account-payer'', mv_pubkey M account_payer_address), (''balance'', mv_u64 (ra_lamports account_payer)),
        (''balance-sol'', format_token_amount M (ra_lamports account_payer))]))))"

text \<open>The fields of a vault, in the order of the ticket's datapoint.\<close>

definition ticket_fields ::
  "'f metric_host \<Rightarrow> u64 \<Rightarrow> ncn_tickets \<Rightarrow> u64 \<times> u64 \<times> u64 \<Rightarrow> bool \<Rightarrow> u64 \<Rightarrow> u64 \<Rightarrow>
   (string \<times> 'f metric_value) list" where
  "ticket_fields M vault_epoch_length t d is_update_needed current_epoch current_slot =
     (let g = vv_figures (nt_vault_account t) in
      case d of (staked_amount, cooling_down_amount, total_security) \<Rightarrow>
      time_fields current_epoch current_slot @
      [(''operator'', mv_pubkey M (nt_operator t)), (''vault'', mv_pubkey M (nt_vault t)),
       (''ticket-id'', MV_string (mh_to_string M (nt_ncn t) @ ascii ''-'' @ mh_to_string M (nt_vault t) @
          ascii ''-'' @ mh_to_string M (nt_operator t))),
       (''ncn-vault'', mv_u8 (tickets_ncn_vault t)), (''vault-ncn'', mv_u8 (tickets_vault_ncn t)),
       (''ncn-operator'', mv_u8 (tickets_ncn_operator t)), (''operator-ncn'', mv_u8 (tickets_operator_ncn t)),
       (''operator-vault'', mv_u8 (tickets_operator_vault t)), (''vault-operator'', mv_u8 (tickets_vault_operator t)),
       (''vod-staked-amount'', format_token_amount M staked_amount),
       (''vod-cooling-down-amount'', format_token_amount M cooling_down_amount),
       (''vod-total-security'', format_token_amount M total_security),
       (''vault-st-mint'', mv_pubkey M (tickets_st_mint t)),
       (''vault-tokens-deposited'', format_token_amount M (vg_tokens_deposited g)),
       (''vault-vrt-supply'', mv_u64 (vg_vrt_supply g)),
       (''vault-vrt-cooling-down-amount'', format_token_amount M (vg_vrt_cooling_down_amount g)),
       (''vault-vrt-enqueued-for-cooldown-amount'', format_token_amount M (vg_vrt_enqueued_for_cooldown_amount g)),
       (''vault-vrt-ready-to-claim-amount'', format_token_amount M (vg_vrt_ready_to_claim_amount g)),
       (''vault-is-update-needed'', MV_bool is_update_needed),
       (''vault-operator-count'', mv_u64 (vg_operator_count g)), (''vault-ncn-count'', mv_u64 (vg_ncn_count g)),
       (''vault-config-epoch-length'', mv_u64 vault_epoch_length),
       (''vault-total-staked-amount'', format_token_amount M (vg_staked_amount g)),
       (''vod-total-cooling-down-amount'', format_token_amount M (vod_cooling_down_amount (vg_delegation_state g)))])"

definition emit_ncn_metrics_tickets :: "'f metric_host \<Rightarrow> 'w cli_env \<Rightarrow> cli_handler \<Rightarrow> ('w, 'f, unit) report" where
  "emit_ncn_metrics_tickets M E h =
     cmd_bind (reading (get_current_epoch_and_slot E)) (\<lambda>(current_epoch, current_slot).
     cmd_bind (reading (get_vault_config E h)) (\<lambda>vault_config.
     let vault_epoch_length = vcv_epoch_length vault_config in
     cmd_bind (reading (get_all_tickets E h)) (\<lambda>all_tickets.
     cmd_each (\<lambda>t.
       cmd_bind (cmd_lift (tickets_delegation t)) (\<lambda>d.
       cmd_bind (cmd_program (vv_is_update_needed (nt_vault_account t) current_slot vault_epoch_length)) (\<lambda>needed.
       cmd_bind (cmd_program (vod_total_security (vg_delegation_state (vv_figures (nt_vault_account t)))))
         (\<lambda>total_security.
       datapoint ''ncn-program-keeper-em-ticket''
         (ticket_fields M vault_epoch_length t d needed current_epoch current_slot @
          [(''vod-total-total-security'', format_token_amount M total_security)])))))
       all_tickets)))"

definition emit_ncn_metrics_vault_operator_delegation ::
  "'f metric_host \<Rightarrow> 'w cli_env \<Rightarrow> cli_handler \<Rightarrow> ('w, 'f, unit) report" where
  "emit_ncn_metrics_vault_operator_delegation M E h =
     cmd_bind (reading (get_current_epoch_and_slot E)) (\<lambda>(current_epoch, current_slot).
     cmd_bind (reading (get_all_operators_in_ncn E h)) (\<lambda>all_operators.
     cmd_bind (reading (get_all_vaults_in_ncn E h)) (\<lambda>all_vaults.
     cmd_each (\<lambda>(operator, vault).
       cmd_bind (reading (cmd_try (get_vault_operator_delegation E h vault operator))) (\<lambda>result.
       case result of
         Inl e \<Rightarrow> cmd_ok ()
       | Inr (_, d) \<Rightarrow>
           cmd_bind (cmd_program (vod_total_security d)) (\<lambda>total_security.
           datapoint ''ncn-program-keeper-em-vault-operator-delegation'' (time_fields current_epoch current_slot @
             [(''vault'', mv_pubkey M vault), (''operator'', mv_pubkey M operator),
              (''delegation'', format_token_amount M total_security)]))))
       (List.product all_operators all_vaults))))"

definition emit_ncn_metrics_operators :: "'f metric_host \<Rightarrow> 'w cli_env \<Rightarrow> cli_handler \<Rightarrow> ('w, 'f, unit) report" where
  "emit_ncn_metrics_operators M E h =
     cmd_bind (reading (get_current_epoch_and_slot E)) (\<lambda>(current_epoch, current_slot).
     cmd_bind (reading (get_all_operators_in_ncn E h)) (\<lambda>all_operators.
     cmd_each (\<lambda>operator.
       cmd_bind (reading (get_operator E operator)) (\<lambda>operator_account.
       datapoint ''ncn-program-keeper-em-operator'' (time_fields current_epoch current_slot @
         [(''operator'', mv_pubkey M operator), (''fee'', mv_u16 (ov_fee_bps operator_account)),
          (''ncn-count'', mv_u64 (ov_ncn_count operator_account)), (''has-voted'', MV_i64 0)])))
       all_operators))"

definition emit_ncn_metrics_vault_registry ::
  "'f metric_host \<Rightarrow> 'w cli_env \<Rightarrow> cli_handler \<Rightarrow> ('w, 'f, unit) report" where
  "emit_ncn_metrics_vault_registry M E h =
     cmd_bind (reading (get_current_epoch_and_slot E)) (\<lambda>(current_epoch, current_slot).
     cmd_bind (reading (get_vault_registry E h)) (\<lambda>vault_registry.
     cmd_bind (datapoint ''ncn-program-keeper-em-vault-registry'' (time_fields current_epoch current_slot @
       [(''st-mints'', MV_i64 (int (st_mint_count vault_registry)))])) (\<lambda>_.
     cmd_bind (cmd_each (\<lambda>vault.
       if ve_is_empty vault then cmd_ok ()
       else
         cmd_bind (reading (get_vault E (ve_vault vault))) (\<lambda>vault_account.
         let g = vv_figures vault_account in
         datapoint ''ncn-program-keeper-em-vault-registry-vault'' (time_fields current_epoch current_slot @
           [(''vault'', mv_pubkey M (ve_vault vault)), (''st-mint'', mv_pubkey M (ve_st_mint vault)),
            (''index'', mv_u64 (ve_vault_index vault)),
            (''tokens-deposited'', format_token_amount M (vg_tokens_deposited g)),
            (''vrt-supply'', format_token_amount M (vg_vrt_supply g)),
            (''operator-count'', mv_u64 (vg_operator_count g)), (''ncn-count'', mv_u64 (vg_ncn_count g))])))
       (vr_vault_list vault_registry)) (\<lambda>_.
     cmd_each (\<lambda>st_mint.
       datapoint ''ncn-program-keeper-em-vault-registry-st-mint'' (time_fields current_epoch current_slot @
         [(''st-mint'', mv_pubkey M (sm_st_mint st_mint))]))
       (vr_st_mint_list vault_registry)))))"

definition emit_ncn_metrics_config :: "'f metric_host \<Rightarrow> 'w cli_env \<Rightarrow> cli_handler \<Rightarrow> ('w, 'f, unit) report" where
  "emit_ncn_metrics_config M E h =
     cmd_bind (reading (get_current_epoch_and_slot E)) (\<lambda>(current_epoch, current_slot).
     cmd_bind (reading (get_ncn_program_config E h)) (\<lambda>c.
     datapoint ''ncn-program-keeper-em-config'' (time_fields current_epoch current_slot @
       [(''epochs-after-consensus-before-close'', mv_u64 (cf_epochs_after_consensus_before_close c)),
        (''epochs-before-stall'', mv_u64 (cf_epochs_before_stall c)),
        (''starting-valid-epoch'', mv_u64 (cf_starting_valid_epoch c)),
        (''valid-slots-after-consensus'', mv_u64 (cf_valid_slots_after_consensus c)),
        (''tie-breaker-admin'', mv_pubkey M (cf_tie_breaker_admin c))])))"

definition emit_ncn_metrics :: "'f metric_host \<Rightarrow> 'w cli_env \<Rightarrow> cli_handler \<Rightarrow> bool \<Rightarrow> ('w, 'f, unit) report" where
  "emit_ncn_metrics M E h start_of_loop =
     cmd_bind (emit_ncn_metrics_epoch_slot M E h) (\<lambda>_.
     if start_of_loop
     then
       cmd_bind (emit_ncn_metrics_tickets M E h) (\<lambda>_.
       cmd_bind (emit_ncn_metrics_vault_operator_delegation M E h) (\<lambda>_.
       cmd_bind (emit_ncn_metrics_operators M E h) (\<lambda>_.
       cmd_bind (emit_ncn_metrics_vault_registry M E h) (\<lambda>_.
       cmd_bind (emit_ncn_metrics_config M E h) (\<lambda>_.
       emit_ncn_metrics_account_payer M E h)))))
     else cmd_ok ())"

subsection \<open>Metrics of an epoch\<close>

definition emit_epoch_metrics_operator_snapshot ::
  "'f metric_host \<Rightarrow> 'w cli_env \<Rightarrow> cli_handler \<Rightarrow> u64 \<Rightarrow> ('w, 'f, unit) report" where
  "emit_epoch_metrics_operator_snapshot M E h epoch =
     cmd_bind (reading (get_current_epoch_and_slot E)) (\<lambda>(current_epoch, current_slot).
     cmd_bind (reading (get_all_operators_in_ncn E h)) (\<lambda>all_operators.
     cmd_each (\<lambda>operator.
       cmd_bind (reading (cmd_try (cli_get_operator_snapshot E h operator))) (\<lambda>result.
       case result of
         Inl e \<Rightarrow> cmd_ok ()
       | Inr operator_snapshot \<Rightarrow>
           epoch_datapoint ''ncn-program-keeper-ee-operator-snapshot'' (current_epoch = epoch)
             (time_fields current_epoch current_slot @
              [(''keeper-epoch'', mv_u64 epoch), (''operator'', mv_pubkey M operator),
               (''is-active'', MV_bool (os_is_active operator_snapshot)),
               (''ncn-operator-index'', mv_u64 (os_ncn_operator_index operator_snapshot)),
               (''operator-fee-bps'', MV_i64 0),
               (''stake'', format_stake_weight M (sw_weight (os_stake_weight operator_snapshot)))])))
       all_operators))"

definition emit_epoch_metrics_snapshot ::
  "'f metric_host \<Rightarrow> 'w cli_env \<Rightarrow> cli_handler \<Rightarrow> u64 \<Rightarrow> ('w, 'f, unit) report" where
  "emit_epoch_metrics_snapshot M E h epoch =
     cmd_bind (reading (get_current_epoch_and_slot E)) (\<lambda>(current_epoch, current_slot).
     cmd_bind (reading (cmd_try (get_snapshot E h))) (\<lambda>result.
     case result of
       Inl e \<Rightarrow> cmd_ok ()
     | Inr snapshot \<Rightarrow>
         epoch_datapoint ''ncn-program-keeper-ee-epoch-snapshot'' (current_epoch = epoch)
           (time_fields current_epoch current_slot @
            [(''keeper-epoch'', mv_u64 epoch),
             (''total-stake'', format_stake_weight M (sw_weight (ss_minimum_stake snapshot))),
             (''valid-operator-vault-delegations'', mv_u64 (ss_operators_can_vote_count snapshot)),
             (''operators-registered'', mv_u64 (ss_operators_registered snapshot))])))"

text \<open>No epoch counts as completed, so the state's datapoint is never reached; the ballot box is gone.\<close>

definition emit_epoch_metrics_state :: "'w cli_env \<Rightarrow> u64 \<Rightarrow> ('w, 'f, unit) report" where
  "emit_epoch_metrics_state E epoch = cmd_bind (reading (get_current_epoch_and_slot E)) (\<lambda>_. cmd_ok ())"

definition emit_epoch_metrics_ballot_box :: "u64 \<Rightarrow> ('w, 'f, unit) report" where
  "emit_epoch_metrics_ballot_box epoch = cmd_ok ()"

definition emit_epoch_metrics :: "'f metric_host \<Rightarrow> 'w cli_env \<Rightarrow> cli_handler \<Rightarrow> u64 \<Rightarrow> ('w, 'f, unit) report" where
  "emit_epoch_metrics M E h epoch =
     cmd_bind (emit_epoch_metrics_state E epoch) (\<lambda>_.
     cmd_bind (emit_epoch_metrics_snapshot M E h epoch) (\<lambda>_.
     cmd_bind (emit_epoch_metrics_operator_snapshot M E h epoch) (\<lambda>_.
     emit_epoch_metrics_ballot_box epoch)))"

subsection \<open>What is submitted\<close>

lemma datapoint_run [simp]:
  "datapoint name kvs (w, ps) = (Inr (), (w, ps @ [\<lparr>mp_name = name, mp_fields = kvs\<rparr>]))"
  by (simp add: datapoint_def)

text \<open>A datapoint of the current epoch comes twice, the second time with the suffix.\<close>

lemma epoch_datapoint_run:
  "epoch_datapoint name current kvs (w, ps) = (Inr (), (w, ps @ \<lparr>mp_name = name, mp_fields = kvs\<rparr> #
     (if current then [\<lparr>mp_name = name @ ''-current'', mp_fields = kvs\<rparr>] else [])))"
  by (simp add: epoch_datapoint_def cmd_bind_def cmd_ok_def)

end
