(* ===== verification/Command_Properties.thy ===== *)
theory Command_Properties
  imports Cli_Commands Keeper_Metrics Host_Properties Cli_Properties
begin

text \<open>
  The commands of the command line: the public keys a caller may give with a registration, and the
  commands that only read.
\<close>

subsection \<open>Given public keys\<close>

lemma mod_eq_int: "a mod r = b mod r \<longleftrightarrow> int r dvd int a - int b"
  by (metis mod_eq_dvd_iff nat_int_comparison(1) zmod_int)

lemma cancel_add_mod:
  fixes a b c r :: nat
  shows "(c + a) mod r = (c + b) mod r \<longleftrightarrow> a mod r = b mod r"
  by (simp add: mod_eq_int)

lemma cancel_coprime_mod:
  fixes a b h r :: nat
  assumes "coprime h r"
  shows "(h * a) mod r = (h * b) mod r \<longleftrightarrow> a mod r = b mod r"
proof -
  have "coprime (int r) (int h)" using assms by (simp add: coprime_commute)
  then have "int r dvd int h * (int a - int b) \<longleftrightarrow> int r dvd int a - int b"
    by (rule coprime_dvd_mult_right_iff)
  then show ?thesis by (simp add: mod_eq_int [of "h * a"] mod_eq_int [of a] right_diff_distrib)
qed

text \<open>A key set made by the tools names its operator, and given keys replace the public ones only.\<close>

lemma use_given_keys_points:
  assumes "hs_hex_decode H g1 = Some (b32 c1)" "hs_hex_decode H g2 = Some (b64 c2)"
  shows "use_given_keys H g1 g2 keys = Inr (keys\<lparr>ks_g1_pubkey := c1, ks_g2_pubkey := c2\<rparr>)"
  using assms by (simp add: use_given_keys_def hex_to_bytes_def be_word_be_bytes)

lemma given_keys_Some:
  assumes stored: "load_keys_from_file file = Inr storage" and writable: "hs_file_writable H"
    and keys: "hs_hex_decode H g1 = Some (b32 c1)" "hs_hex_decode H g2 = Some (b64 c2)"
    and base: "storage (hs_pubkey_to_string H operator) = Some key_set \<or>
      storage (hs_pubkey_to_string H operator) = None \<and> generate_bls_keypair S H operator = Some (Inr key_set)"
  shows "generate_or_use_keys S H operator file (Some g1) (Some g2) =
    Some (Inr (key_set\<lparr>ks_g1_pubkey := c1, ks_g2_pubkey := c2\<rparr>,
      KF_storage (storage(hs_pubkey_to_string H operator \<mapsto> key_set\<lparr>ks_g1_pubkey := c1, ks_g2_pubkey := c2\<rparr>))))"
  using base stored writable
  by (auto simp: generate_or_use_keys_def use_given_keys_points [OF keys] save_keys_to_file_def Let_def)

lemma registration_proof_exponents:
  assumes L: "bls_laws S G"
    and hash: "try_hash_to_curve S (pop_message_digest S ncn operator (bg_c1 G b)) = Inr (G1Point (bg_e1 G h))"
    and unit: "coprime h (bg_order G)"
  shows "register_operator_proof S ncn operator (bg_c1 G b) (bg_c2 G b) (bg_e1 G (h * k)) = Inr () \<longleftrightarrow>
    b mod bg_order G = k mod bg_order G"
proof -
  have "((h + \<gamma>) * b) mod bg_order G = (h * k + b * \<gamma>) mod bg_order G \<longleftrightarrow>
      b mod bg_order G = k mod bg_order G" for \<gamma>
  proof -
    have "((h + \<gamma>) * b) mod bg_order G = (h * k + b * \<gamma>) mod bg_order G \<longleftrightarrow>
        (b * \<gamma> + h * b) mod bg_order G = (b * \<gamma> + h * k) mod bg_order G"
      by (simp add: algebra_simps)
    also have "\<dots> \<longleftrightarrow> (h * b) mod bg_order G = (h * k) mod bg_order G"
      by (rule cancel_add_mod)
    finally show ?thesis by (simp add: cancel_coprime_mod [OF unit])
  qed
  then show ?thesis
    by (simp add: register_operator_proof_def g2_decompress_def bls_decompress2 [OF L]
        bls_verify_registration [OF L hash bls_decompress [OF L]] Let_def)
qed

text \<open>
  C18: Public keys given without a signature are stored with the operator's private key in the key
  file, the saved one or a freshly sampled one, and the signature is made with that private key: the
  registration passes the program's check exactly if the given keys already are the public keys of
  that private key, while the file keeps the given keys in place of the matching ones either way.
\<close>

theorem given_keys_register_iff:
  assumes L: "bls_laws S G" "host_laws H"
    and stored: "load_keys_from_file keys_file = Inr storage" and writable: "hs_file_writable H"
    and base: "storage (hs_pubkey_to_string H operator) = Some key_set \<or>
      storage (hs_pubkey_to_string H operator) = None \<and> generate_bls_keypair S H operator = Some (Inr key_set)"
    and named: "ks_operator key_set = hs_pubkey_to_string H operator" and ncn: "ch_ncn h = Some ncn"
    and keys: "hs_hex_decode H g1 = Some (b32 (bg_c1 G b))" "hs_hex_decode H g2 = Some (b64 (bg_c2 G b))"
    and hash: "try_hash_to_curve S (pop_message_digest S ncn operator (bg_c1 G b)) = Inr (G1Point (bg_e1 G m))"
    and unit: "coprime m (bg_order G)"
  shows "\<exists>signature keys_file'.
    registration_keys S H h operator keys_file (Some g1) (Some g2) None =
      Some (Inr (bg_c1 G b, bg_c2 G b, signature), keys_file') \<and>
    keys_file' = KF_storage (storage(hs_pubkey_to_string H operator \<mapsto>
      key_set\<lparr>ks_g1_pubkey := bg_c1 G b, ks_g2_pubkey := bg_c2 G b\<rparr>)) \<and>
    (register_operator_proof S ncn operator (bg_c1 G b) (bg_c2 G b) signature = Inr () \<longleftrightarrow>
      b mod bg_order G = unat (ks_private_key key_set) mod bg_order G)"
proof -
  have "hs_pubkey_from_str H (hs_pubkey_to_string H operator) = Some operator"
    using L(2) by (simp add: host_laws_def)
  then have "generate_signature S H (key_set\<lparr>ks_g1_pubkey := bg_c1 G b, ks_g2_pubkey := bg_c2 G b\<rparr>) ncn =
      Inr (bg_e1 G (m * unat (ks_private_key key_set)))"
    by (simp add: generate_signature_def named bls_sign [OF L(1) hash] or_keys_def)
  then show ?thesis
    using registration_proof_exponents [OF L(1) hash unit] ncn
    by (simp add: registration_keys_def signed_keys_def given_keys_Some [OF stored writable keys base])
qed

subsection \<open>Commands that only read\<close>

text \<open>The environment with another way of sending transactions.\<close>

definition with_send ::
  "(send_mode \<Rightarrow> transaction \<Rightarrow> ('w, bytes64) command) \<Rightarrow> 'w cli_env \<Rightarrow> 'w cli_env" where
  "with_send f E = E\<lparr>ce_rpc := (ce_rpc E)\<lparr>rpc_send := f\<rparr>\<rparr>"

fun reads_only :: "'f program_command \<Rightarrow> bool" where
  "reads_only (Cmd_AdminSetTieBreaker _) = True"
| "reads_only (Cmd_GenerateVoteSignature _ _) = True"
| "reads_only (Cmd_AggregateSignatures _ _ _ _) = True"
| "reads_only Cmd_GetNcn = True"
| "reads_only (Cmd_GetNcnOperatorState _) = True"
| "reads_only Cmd_GetVaultNcnTicket = True"
| "reads_only Cmd_GetNcnVaultTicket = True"
| "reads_only (Cmd_GetVaultOperatorDelegation _) = True"
| "reads_only Cmd_GetAllTickets = True"
| "reads_only Cmd_GetAllOperatorsInNcn = True"
| "reads_only Cmd_GetAllVaultsInNcn = True"
| "reads_only Cmd_GetAllNCNOperatorAccounts = True"
| "reads_only Cmd_GetNCNProgramConfig = True"
| "reads_only Cmd_GetVaultRegistry = True"
| "reads_only Cmd_GetSnapshot = True"
| "reads_only (Cmd_GetOperatorSnapshot _) = True"
| "reads_only Cmd_GetAccountPayer = True"
| "reads_only Cmd_GetTotalEpochRentCost = True"
| "reads_only Cmd_GetOperatorStakes = True"
| "reads_only Cmd_GetVaultStakes = True"
| "reads_only Cmd_GetVaultOperatorStakes = True"
| "reads_only _ = False"

lemma with_send_fields [simp]:
  "ce_runtime (with_send f E) = ce_runtime E" "ce_jito (with_send f E) = ce_jito E"
  "ce_decoders (with_send f E) = ce_decoders E" "ce_addresses (with_send f E) = ce_addresses E"
  "rpc_get_program_accounts (ce_rpc (with_send f E)) = rpc_get_program_accounts (ce_rpc E)"
  "rpc_get_epoch (ce_rpc (with_send f E)) = rpc_get_epoch (ce_rpc E)"
  "rpc_get_absolute_slot (ce_rpc (with_send f E)) = rpc_get_absolute_slot (ce_rpc E)"
  "rpc_get_minimum_balance (ce_rpc (with_send f E)) = rpc_get_minimum_balance (ce_rpc E)"
  "get_account (with_send f E) = get_account E"
  by (simp_all add: with_send_def get_account_def fun_eq_iff)

lemma get_decoded_with_send [simp]: "get_decoded (with_send f E) = get_decoded E"
  by (simp add: get_decoded_def fun_eq_iff)

lemma delegation_of_with_send [simp]: "delegation_of (with_send f E) = delegation_of E"
  by (simp add: delegation_of_def fun_eq_iff)

lemma getters_with_send [simp]:
  "get_ncn (with_send f E) = get_ncn E"
  "get_ncn_operator_state (with_send f E) = get_ncn_operator_state E"
  "get_vault_ncn_ticket (with_send f E) = get_vault_ncn_ticket E"
  "get_ncn_vault_ticket (with_send f E) = get_ncn_vault_ticket E"
  "get_vault_operator_delegation (with_send f E) = get_vault_operator_delegation E"
  "get_operator_vault_ticket (with_send f E) = get_operator_vault_ticket E"
  "get_vault (with_send f E) = get_vault E"
  "get_restaking_config (with_send f E) = get_restaking_config E"
  "get_ncn_program_config (with_send f E) = get_ncn_program_config E"
  "get_vault_registry (with_send f E) = get_vault_registry E"
  "get_snapshot (with_send f E) = get_snapshot E"
  "get_account_payer (with_send f E) = get_account_payer E"
  "get_all_operators_in_ncn (with_send f E) = get_all_operators_in_ncn E"
  "get_all_vaults_in_ncn (with_send f E) = get_all_vaults_in_ncn E"
  "get_all_ncn_operator_accounts (with_send f E) = get_all_ncn_operator_accounts E"
  by (simp_all add: fun_eq_iff get_ncn_def get_ncn_operator_state_def get_vault_ncn_ticket_def
      get_ncn_vault_ticket_def get_vault_operator_delegation_def get_operator_vault_ticket_def get_vault_def
      get_restaking_config_def get_ncn_program_config_def get_vault_registry_def get_snapshot_def
      get_account_payer_def get_all_operators_in_ncn_def get_all_vaults_in_ncn_def
      get_all_ncn_operator_accounts_def)

lemma operator_stakes_with_send:
  "operator_stakes (with_send f E) h operators = operator_stakes E h operators"
  by (induction operators) (simp_all add: cli_get_operator_snapshot_def)

lemma reports_with_send [simp]:
  "get_total_epoch_rent_cost (with_send f E) = get_total_epoch_rent_cost E"
  "get_all_tickets (with_send f E) = get_all_tickets E"
  "cli_get_operator_snapshot (with_send f E) = cli_get_operator_snapshot E"
  "show_operator_stakes (with_send f E) = show_operator_stakes E"
  "read_vault_stakes (with_send f E) = read_vault_stakes E"
  by (simp_all add: fun_eq_iff get_total_epoch_rent_cost_def get_all_tickets_def tickets_fetch_def
      cli_get_operator_snapshot_def show_operator_stakes_def read_vault_stakes_def operator_stakes_with_send)

text \<open>The metrics only read, too.\<close>

lemma clock_with_send [simp]:
  "get_current_epoch_and_slot (with_send f E) = get_current_epoch_and_slot E"
  "get_vault_config (with_send f E) = get_vault_config E" "get_operator (with_send f E) = get_operator E"
  by (simp_all add: fun_eq_iff with_send_def get_current_epoch_and_slot_def get_current_epoch_def
      get_current_slot_def get_vault_config_def get_operator_def get_decoded_def get_account_def)

lemma metrics_send_nothing:
  "emit_ncn_metrics M (with_send f E) h start_of_loop = emit_ncn_metrics M E h start_of_loop"
  "emit_epoch_metrics M (with_send f E) h epoch = emit_epoch_metrics M E h epoch"
  by (simp_all add: emit_ncn_metrics_def emit_ncn_metrics_epoch_slot_def emit_ncn_metrics_tickets_def
      emit_ncn_metrics_vault_operator_delegation_def emit_ncn_metrics_operators_def
      emit_ncn_metrics_vault_registry_def emit_ncn_metrics_config_def emit_ncn_metrics_account_payer_def
      emit_epoch_metrics_def emit_epoch_metrics_state_def emit_epoch_metrics_snapshot_def
      emit_epoch_metrics_operator_snapshot_def cong: if_cong)

lemma in_world_Some: "\<exists>r w'. in_world m (w, files) = Some (r, (w', files))"
  by (cases "m w") (simp add: in_world_def)

lemma handle_reports:
  assumes "reads_only action"
  shows "handle S H io (with_send f E) h rounds action (w, files) = handle S H io E h rounds action (w, files)"
    "\<exists>r w'. handle S H io E h rounds action (w, files) = Some (r, (w', files))"
  using assms by (cases action; simp add: in_world_Some)+

lemma from_args_with_send: "from_args H io (with_send f E) = from_args H io E"
  by (rule ext) (simp add: from_args_def cong: option.case_cong)

text \<open>
  C22: The commands that report send no transaction and write no key file: run by the binary with any
  arguments, their result and the world they leave do not depend on what sending would do, and the key
  files are as before; they always return.
\<close>

theorem reports_send_nothing:
  assumes "reads_only action"
  shows "cli_main S H io (with_send f E) args rounds action (w, files) = cli_main S H io E args rounds action (w, files) \<and>
    (\<exists>r w'. cli_main S H io E args rounds action (w, files) = Some (r, (w', files)))"
  using handle_reports [OF assms]
  by (auto simp: cli_main_def from_args_with_send split: prod.splits sum.splits)

subsection \<open>Concrete inputs\<close>

definition sample_io :: "unit cli_io" where
  "sample_io = \<lparr>ci_commitment_ok = (\<lambda>_. True), ci_read_keypair_file = (\<lambda>_. Some 9), ci_sol_to_lamports = (\<lambda>_. 7)\<rparr>"

text \<open>The sampled private key is 2; the given keys belong to 1, so the registration is refused.\<close>

theorem given_keys_register_iff_witness:
  "\<exists>signature keys_file'.
    registration_keys tri_syscalls tri_host sample_handler 7 KF_missing (Some [0x63]) (Some [0x64]) None =
      Some (Inr (bg_c1 tri_group 1, bg_c2 tri_group 1, signature), keys_file') \<and>
    register_operator_proof tri_syscalls 1 7 (bg_c1 tri_group 1) (bg_c2 tri_group 1) signature \<noteq> Inr ()"
proof -
  have ark: "ark_laws tri_syscalls (hs_ark tri_host) tri_group (\<lambda>k. k mod 3)"
    using tri_ark_laws by (simp add: tri_host_def)
  define ks where "ks = \<lparr>ks_private_key = 2, ks_g1_pubkey = bg_c1 tri_group (unat (2 :: bytes32)),
    ks_g2_pubkey = bg_c2 tri_group (unat (2 :: bytes32)), ks_operator = hs_pubkey_to_string tri_host 7,
    ks_created_at = hs_now tri_host\<rparr>"
  have "unat (2 :: bytes32) mod bg_order tri_group \<noteq> 0" by (simp add: tri_group_def)
  then have "generate_bls_keypair tri_syscalls tri_host 7 = Some (Inr ks)"
    using key_set_of_Inr [OF tri_laws ark, of 7 2]
    by (auto simp: generate_bls_keypair_def tri_sampled FR_MODULUS_value ks_def)
  then have base: "bls_key_storage_new (hs_pubkey_to_string tri_host 7) = Some ks \<or>
      bls_key_storage_new (hs_pubkey_to_string tri_host 7) = None \<and>
      generate_bls_keypair tri_syscalls tri_host 7 = Some (Inr ks)"
    by (simp add: bls_key_storage_new_def)
  have keys: "hs_hex_decode tri_host [0x63] = Some (b32 (bg_c1 tri_group 1))"
    "hs_hex_decode tri_host [0x64] = Some (b64 (bg_c2 tri_group 1))"
    by (simp_all add: tri_host_def tri_group_def)
  have missing: "load_keys_from_file KF_missing = Inr bls_key_storage_new"
    and writable: "hs_file_writable tri_host" and unit: "coprime 1 (bg_order tri_group)"
    and named: "ks_operator ks = hs_pubkey_to_string tri_host 7"
    by (simp_all add: load_keys_from_file_def tri_host_def ks_def)
  have "1 mod bg_order tri_group \<noteq> unat (ks_private_key ks) mod bg_order tri_group"
    by (simp add: ks_def tri_group_def)
  with given_keys_register_iff [OF tri_laws tri_host_laws missing writable base named _ keys tri_hash unit,
      of sample_handler 1]
  show ?thesis by auto
qed

definition sample_cli_args :: cli_args where
  "sample_cli_args = \<lparr>ca_commitment = [], ca_transaction_retries = 2, ca_priority_fee_micro_lamports = 3,
     ca_ncn_program_id = [1], ca_restaking_program_id = [2], ca_vault_program_id = [3], ca_token_program_id = [4],
     ca_ncn = Some [5], ca_vault = [6], ca_epoch = None, ca_keypair_path = Some [7]\<rparr>"

text \<open>A node that would accept every transaction and one that would refuse all.\<close>

theorem reports_send_nothing_witness:
  "cli_main tri_syscalls tri_host sample_io
      (with_send (\<lambda>_ _. cmd_err CE_Rpc) (sample_env script_rpc sample_snapshot sample_vaults)) sample_cli_args 0
      Cmd_GetOperatorStakes (([], [True]), \<lambda>_. KF_missing) =
    cli_main tri_syscalls tri_host sample_io (sample_env script_rpc sample_snapshot sample_vaults) sample_cli_args 0
      Cmd_GetOperatorStakes (([], [True]), \<lambda>_. KF_missing)"
  using reports_send_nothing [of "Cmd_GetOperatorStakes :: unit program_command" tri_syscalls tri_host sample_io
      "\<lambda>_ _. cmd_err CE_Rpc" "sample_env script_rpc sample_snapshot sample_vaults" sample_cli_args 0
      "([], [True])" "\<lambda>_. KF_missing"] by simp

end
