(* ===== verification/Cli_Sends.thy ===== *)
theory Cli_Sends
  imports Keeper_Properties Command_Properties
begin

text \<open>
  What the binary sends: every transaction of every command, retries included, as it reaches the node.
  Its instructions are calls of the program on the accounts of the handler's NCN, each in its role,
  and the instructions of other programs around them; nothing needs a signature but the handler's.
\<close>

subsection \<open>The instructions\<close>

text \<open>
  A call of the program on the accounts of an NCN: every account is the one its name says, derived
  from the handler's programs.  (No command changes the keys of an operator.)
\<close>

fun addressed :: "'w cli_env \<Rightarrow> cli_handler \<Rightarrow> pubkey \<Rightarrow> pubkey \<Rightarrow> client_call \<Rightarrow> bool" where
  "addressed E h keypair ncn (CallInitializeConfig a args) \<longleftrightarrow>
     ic_config a = config_address E h ncn \<and> ic_ncn a = ncn \<and> ic_ncn_admin a = keypair \<and>
     ic_account_payer a = account_payer_address E h ncn \<and> ic_system_program a = SYSTEM_PROGRAM_ID"
| "addressed E h keypair ncn (CallInitializeVaultRegistry a) \<longleftrightarrow>
     ivr_config a = config_address E h ncn \<and> ivr_vault_registry a = vault_registry_address E h ncn \<and>
     ivr_ncn a = ncn \<and> ivr_account_payer a = account_payer_address E h ncn \<and>
     ivr_system_program a = SYSTEM_PROGRAM_ID"
| "addressed E h keypair ncn (CallRegisterVault a) \<longleftrightarrow>
     rv_config a = config_address E h ncn \<and> rv_vault_registry a = vault_registry_address E h ncn \<and> rv_ncn a = ncn \<and>
     rv_ncn_vault_ticket a = ja_ncn_vault_ticket (ce_addresses E) (ch_restaking_program_id h) ncn (rv_vault a)"
| "addressed E h keypair ncn (CallRegisterOperator a args) \<longleftrightarrow>
     ro_config a = config_address E h ncn \<and>
     ro_ncn_operator_account a = operator_account_address E h ncn (ro_operator a) \<and> ro_ncn a = ncn \<and>
     ro_operator_admin a = keypair \<and>
     ro_ncn_operator_state a =
       ja_ncn_operator_state (ce_addresses E) (ch_restaking_program_id h) ncn (ro_operator a) \<and>
     ro_snapshot a = snapshot_address E h ncn \<and>
     ro_restaking_config a = ja_restaking_config (ce_addresses E) (ch_restaking_program_id h) \<and>
     ro_account_payer a = account_payer_address E h ncn \<and> ro_system_program a = SYSTEM_PROGRAM_ID"
| "addressed E h keypair ncn (CallUpdateOperatorBN128Keys a args) \<longleftrightarrow> False"
| "addressed E h keypair ncn (CallRemoveOperator a) \<longleftrightarrow>
     rmo_config a = config_address E h ncn \<and> rmo_ncn a = ncn \<and> rmo_admin a = keypair \<and>
     rmo_snapshot a = snapshot_address E h ncn"
| "addressed E h keypair ncn (CallUpdateOperatorIpPort a args) \<longleftrightarrow>
     uip_config a = config_address E h ncn \<and>
     uip_ncn_operator_account a = operator_account_address E h ncn (uip_operator a) \<and> uip_ncn a = ncn \<and>
     uip_operator_admin a = keypair"
| "addressed E h keypair ncn (CallInitializeSnapshot a) \<longleftrightarrow>
     isn_ncn a = ncn \<and> isn_snapshot a = snapshot_address E h ncn \<and>
     isn_account_payer a = account_payer_address E h ncn \<and> isn_system_program a = SYSTEM_PROGRAM_ID"
| "addressed E h keypair ncn (CallReallocSnapshot a) \<longleftrightarrow>
     rsn_ncn a = ncn \<and> rsn_config a = config_address E h ncn \<and> rsn_snapshot a = snapshot_address E h ncn \<and>
     rsn_account_payer a = account_payer_address E h ncn \<and> rsn_system_program a = SYSTEM_PROGRAM_ID"
| "addressed E h keypair ncn (CallSnapshotVaultOperatorDelegation a) \<longleftrightarrow>
     svd_config a = config_address E h ncn \<and>
     svd_restaking_config a = ja_restaking_config (ce_addresses E) (ch_restaking_program_id h) \<and> svd_ncn a = ncn \<and>
     svd_vault_ncn_ticket a = ja_vault_ncn_ticket (ce_addresses E) (ch_vault_program_id h) (svd_vault a) ncn \<and>
     svd_ncn_vault_ticket a = ja_ncn_vault_ticket (ce_addresses E) (ch_restaking_program_id h) ncn (svd_vault a) \<and>
     svd_ncn_operator_state a =
       ja_ncn_operator_state (ce_addresses E) (ch_restaking_program_id h) ncn (svd_operator a) \<and>
     svd_vault_operator_delegation a =
       ja_vault_operator_delegation (ce_addresses E) (ch_vault_program_id h) (svd_vault a) (svd_operator a) \<and>
     svd_snapshot a = snapshot_address E h ncn \<and> svd_vault_registry a = vault_registry_address E h ncn"
| "addressed E h keypair ncn (CallVerifyCertificate a args) \<longleftrightarrow>
     vc_ncn_config a = config_address E h ncn \<and> vc_ncn a = ncn \<and> vc_snapshot a = snapshot_address E h ncn \<and>
     vc_restaking_config a = ja_restaking_config (ce_addresses E) (ch_restaking_program_id h)"
| "addressed E h keypair ncn (CallAdminSetParameters a args) \<longleftrightarrow>
     asp_config a = config_address E h ncn \<and> asp_ncn a = ncn \<and> asp_ncn_admin a = keypair"
| "addressed E h keypair ncn (CallAdminSetNewAdmin a args) \<longleftrightarrow>
     asna_config a = config_address E h ncn \<and> asna_ncn a = ncn \<and> asna_ncn_admin a = keypair"
| "addressed E h keypair ncn (CallAdminRegisterStMint a args) \<longleftrightarrow>
     arsm_config a = config_address E h ncn \<and> arsm_ncn a = ncn \<and>
     arsm_vault_registry a = vault_registry_address E h ncn \<and> arsm_admin a = keypair"

definition program_ix :: "'w cli_env \<Rightarrow> cli_handler \<Rightarrow> pubkey \<Rightarrow> instruction \<Rightarrow> bool" where
  "program_ix E h keypair ix \<longleftrightarrow>
     (\<exists>ncn call. ch_ncn h = Some ncn \<and> addressed E h keypair ncn call \<and>
        wf_ncn_instruction (call_instruction call) \<and> ix = call_form call [])"

text \<open>
  The instructions of other programs: the compute budget, the transfer to the account payer, and the
  update of a vault, whose tracker is the one of the vault and an epoch.
\<close>

inductive other_ix :: "'w cli_env \<Rightarrow> cli_handler \<Rightarrow> pubkey \<Rightarrow> instruction \<Rightarrow> bool"
  for E :: "'w cli_env" and h :: cli_handler and keypair :: pubkey where
  price: "other_ix E h keypair (fi_compute_unit_price (ce_foreign E) (ch_priority_fee_micro_lamports h))"
| limit: "units \<in> {400000, 1400000} \<Longrightarrow> other_ix E h keypair (fi_compute_unit_limit (ce_foreign E) units)"
| transfer: "ch_ncn h = Some ncn \<Longrightarrow>
    other_ix E h keypair (fi_transfer (ce_foreign E) keypair (account_payer_address E h ncn) lamports)"
| start_update: "tracker = ja_vault_update_state_tracker (ce_addresses E) (ch_vault_program_id h) vault epoch \<Longrightarrow>
    other_ix E h keypair (fi_initialize_tracker (ce_foreign E) vault tracker SYSTEM_PROGRAM_ID keypair
      (ja_vault_config (ce_addresses E) (ch_vault_program_id h)))"
| crank_update: "tracker = ja_vault_update_state_tracker (ce_addresses E) (ch_vault_program_id h) vault epoch \<Longrightarrow>
    other_ix E h keypair (fi_crank_tracker (ce_foreign E) vault operator
      (ja_vault_config (ce_addresses E) (ch_vault_program_id h))
      (ja_vault_operator_delegation (ce_addresses E) (ch_vault_program_id h) vault operator) tracker)"
| close_update: "tracker = ja_vault_update_state_tracker (ce_addresses E) (ch_vault_program_id h) vault epoch \<Longrightarrow>
    other_ix E h keypair (fi_close_tracker (ce_foreign E) vault tracker keypair
      (ja_vault_config (ce_addresses E) (ch_vault_program_id h)) epoch)"

definition good_ix :: "'w cli_env \<Rightarrow> cli_handler \<Rightarrow> pubkey \<Rightarrow> instruction \<Rightarrow> bool" where
  "good_ix E h keypair ix \<longleftrightarrow> program_ix E h keypair ix \<or> other_ix E h keypair ix"

lemma addressed_signer: "addressed E h k n call \<Longrightarrow> needs_only k (call_form call [])"
  by (cases call) simp_all

text \<open>What a builder returns is a call on the accounts of the NCN.\<close>

inductive built :: "'w cli_env \<Rightarrow> cli_handler \<Rightarrow> pubkey \<Rightarrow> pubkey \<Rightarrow> program_error + instruction \<Rightarrow> bool"
  for E :: "'w cli_env" and h :: cli_handler and keypair :: pubkey and ncn :: pubkey where
  "built E h keypair ncn (create_config_ix E h keypair ncn fee_wallet fee admin stall slots close stake)"
| "built E h keypair ncn (register_st_mint_ix E h keypair ncn st_mint weight)"
| "built E h keypair ncn (set_new_admin_ix E h keypair ncn new_admin role)"
| "built E h keypair ncn (set_parameters_ix E h keypair ncn stall' close' slots' start')"
| "built E h keypair ncn (initialize_vault_registry_ix E h ncn)"
| "built E h keypair ncn (register_vault_ix E h ncn vault)"
| "built E h keypair ncn (register_operator_ix E h keypair ncn operator g1 g2 sig)"
| "built E h keypair ncn (update_operator_ip_port_ix E h keypair ncn operator ip port)"
| "built E h keypair ncn (remove_operator_ix E h keypair ncn operator)"
| "built E h keypair ncn (initialize_snapshot_ix E h ncn)"
| "built E h keypair ncn (realloc_snapshot_ix E h ncn)"
| "built E h keypair ncn (snapshot_delegation_ix E h ncn vault operator)"
| "built E h keypair ncn (verify_certificate_ix E h ncn digest agg apk2 bitmap generation)"

lemma built_call: "built E h k n x \<Longrightarrow> \<exists>call. x = client_instruction call [] \<and> addressed E h k n call"
  by (cases rule: built.cases)
    (simp_all only: set_parameters_form, simp_all add: builder_simps,
    (simp only: client_instruction.simps [symmetric], rule exI, rule conjI, rule refl, simp)+)

lemma built_good: "built E h k n (Inr ix) \<Longrightarrow> ch_ncn h = Some n \<Longrightarrow> good_ix E h k ix"
  using built_call [of E h k n "Inr ix"]
  by (auto simp: good_ix_def program_ix_def client_instruction_form split: if_splits)

lemma built_eq: "x = Inr ix \<Longrightarrow> built E h k n x \<Longrightarrow> ch_ncn h = Some n \<Longrightarrow> good_ix E h k ix"
  by (simp add: built_good)

lemmas built_goods = built.intros [THEN [2] built_eq]

subsection \<open>What a node is sent\<close>

text \<open>A transaction paid and signed by the handler's key alone, of good instructions.\<close>

definition sent_by :: "'w cli_env \<Rightarrow> cli_handler \<Rightarrow> transaction \<Rightarrow> bool" where
  "sent_by E h tx \<longleftrightarrow> (\<exists>keypair. ch_keypair h = Some keypair \<and> tx_payer tx = keypair \<and>
     set (tx_signers tx) = {keypair} \<and> list_all (good_ix E h keypair) (tx_instructions tx))"

text \<open>A relation of worlds that reads and good transactions keep.\<close>

definition good_keep :: "'w cli_env \<Rightarrow> cli_handler \<Rightarrow> ('w \<Rightarrow> 'w \<Rightarrow> bool) \<Rightarrow> bool" where
  "good_keep E h Q \<longleftrightarrow> reflp Q \<and> transp Q \<and> reads_keep E Q \<and> keeps Q (rpc_get_absolute_slot (ce_rpc E)) \<and>
     (\<forall>n. keeps Q (rpc_get_minimum_balance (ce_rpc E) n)) \<and>
     (\<forall>mode tx. sent_by E h tx \<longrightarrow> keeps Q (rpc_send (ce_rpc E) mode tx))"

lemma good_keepD:
  assumes "good_keep E h Q"
  shows "reflp Q" "transp Q" "reads_keep E Q" "keeps Q (rpc_get_absolute_slot (ce_rpc E))"
    "keeps Q (rpc_get_minimum_balance (ce_rpc E) n)"
    "sent_by E h tx \<Longrightarrow> keeps Q (rpc_send (ce_rpc E) mode tx)"
    "keeps Q (rpc_get_epoch (ce_rpc E))" "keeps Q (rpc_get_slot (ce_rpc E))"
    "keeps Q (rpc_get_program_accounts (ce_rpc E) p fs)" "keeps Q (rpc_get_latest_blockhash (ce_rpc E))"
  using assms by (simp_all add: good_keep_def reads_keep_def)

lemma attempts_good:
  assumes L: "good_keep E h Q" and k: "ch_keypair h = Some k" "set ks \<subseteq> {k}"
    and ixs: "list_all (good_ix E h k) ixs"
  shows "keeps Q (send_attempts E n (ch_priority_fee_micro_lamports h) ixs k ks)"
proof -
  have good: "sent_by E h (signed_transaction ixs k ks b)"
    "sent_by E h (signed_transaction (fi_compute_unit_price (ce_foreign E) (ch_priority_fee_micro_lamports h) # ixs) k ks b)"
    for b
    using k ixs by (auto simp: sent_by_def good_ix_def signed_transaction_def intro: other_ix.price)
  show ?thesis
    by (induction n) (auto intro!: keeps_rules good_keepD [OF L] good split: sum.splits)
qed

lemma send_good:
  assumes L: "good_keep E h Q"
    and ixs: "\<And>k. ch_keypair h = Some k \<Longrightarrow> list_all (good_ix E h k) ixs \<and> set ks \<subseteq> {k}"
  shows "keeps Q (send_and_log_transaction E h ixs ks)"
  unfolding send_and_log_transaction_def send_transactions_def
  by (intro keeps_rules good_keepD [OF L] attempts_good [OF L]) (use ixs in auto)

lemma good_other: "other_ix E h k ix \<Longrightarrow> good_ix E h k ix"
  by (simp add: good_ix_def)

lemma limits_good [simp]:
  "good_ix E h k (fi_compute_unit_limit (ce_foreign E) 1400000)"
  "good_ix E h k (fi_compute_unit_limit (ce_foreign E) 400000)"
  by (rule good_other, rule other_ix.limit, simp)+

subsection \<open>The commands that send\<close>

lemma keeps_option: "keeps Q a \<Longrightarrow> (\<And>x. y = Some x \<Longrightarrow> keeps Q (b x)) \<Longrightarrow> keeps Q (case y of None \<Rightarrow> a | Some x \<Rightarrow> b x)"
  by (cases y) auto

lemma keeps_if: "(c \<Longrightarrow> keeps Q a) \<Longrightarrow> (\<not> c \<Longrightarrow> keeps Q b) \<Longrightarrow> keeps Q (if c then a else b)"
  by simp

lemma admin_commands_good:
  assumes L: "good_keep E h Q"
  shows "keeps Q (admin_create_config E h fw fee tb stall slots close stake)"
    "keeps Q (cli_register_st_mint E h vault weight)" "keeps Q (cli_set_new_admin E h new_admin b)"
    "keeps Q (cli_set_parameters E h stall' close' slots' start')" "keeps Q (admin_fund_account_payer E h lamports)"
proof -
  note r = keeps_rules keeps_if good_keepD(1,2) [OF L] send_good [OF L] getters_keep [OF good_keepD(1-3) [OF L]]
  note g = built_goods
  show "keeps Q (admin_create_config E h fw fee tb stall slots close stake)"
    unfolding admin_create_config_def by (intro r) (auto intro: g)
  show "keeps Q (cli_register_st_mint E h vault weight)"
    unfolding cli_register_st_mint_def by (intro r) (auto intro: g)
  show "keeps Q (cli_set_new_admin E h new_admin b)"
    unfolding cli_set_new_admin_def by (intro r) (auto intro!: r intro: g)
  show "keeps Q (cli_set_parameters E h stall' close' slots' start')"
    unfolding cli_set_parameters_def by (intro r) (auto intro: g)
  show "keeps Q (admin_fund_account_payer E h lamports)"
    unfolding admin_fund_account_payer_def by (intro r) (auto intro: good_other other_ix.transfer)
qed

lemma create_vault_registry_good:
  assumes L: "good_keep E h Q"
  shows "keeps Q (create_vault_registry E h)" "keeps Q (get_or_create_vault_registry E h)"
proof -
  note r = keeps_rules keeps_if keeps_option good_keepD(1,2) [OF L] send_good [OF L] getters_keep [OF good_keepD(1-3) [OF L]]
  show create: "keeps Q (create_vault_registry E h)"
    unfolding create_vault_registry_def by (intro r) (auto intro: built_goods)
  show "keeps Q (get_or_create_vault_registry E h)"
    unfolding get_or_create_vault_registry_def by (intro r create)
qed

lemma operator_commands_good:
  assumes L: "good_keep E h Q"
  shows "keeps Q (cli_register_vault E h vault)" "keeps Q (cli_register_operator E h operator g1 g2 sig)"
    "keeps Q (cli_update_operator_ip_port E h operator ip port)" "keeps Q (cli_remove_operator E h operator)"
    "keeps Q (cli_snapshot_delegation E h vault operator)"
    "keeps Q (cli_verify_certificate E h digest agg apk2 bitmap generation)"
proof -
  note r = keeps_rules keeps_if good_keepD(1,2) [OF L] send_good [OF L] getters_keep [OF good_keepD(1-3) [OF L]]
  show "keeps Q (cli_register_vault E h vault)"
    unfolding cli_register_vault_def by (intro r) (auto intro: built_goods)
  show "keeps Q (cli_register_operator E h operator g1 g2 sig)"
    unfolding cli_register_operator_def by (intro r) (auto intro: built_goods)
  show "keeps Q (cli_update_operator_ip_port E h operator ip port)"
    unfolding cli_update_operator_ip_port_def by (intro r) (auto intro: built_goods)
  show "keeps Q (cli_remove_operator E h operator)"
    unfolding cli_remove_operator_def by (intro r) (auto intro: built_goods)
  show "keeps Q (cli_snapshot_delegation E h vault operator)"
    unfolding cli_snapshot_delegation_def by (intro r) (auto intro: built_goods)
  show "keeps Q (cli_verify_certificate E h digest agg apk2 bitmap generation)"
    unfolding cli_verify_certificate_def by (intro r) (auto intro: built_goods)
qed

lemma create_snapshot_good:
  assumes L: "good_keep E h Q"
  shows "keeps Q (create_snapshot E h)" "keeps Q (get_or_create_snapshot E h)"
proof -
  note r = keeps_rules keeps_if keeps_option good_keepD(1,2) [OF L] send_good [OF L] getters_keep [OF good_keepD(1-3) [OF L]]
  show create: "keeps Q (create_snapshot E h)"
    unfolding create_snapshot_def by (intro r) (auto simp: list_all_iff intro: built_goods)
  have "keeps Q (await_account E n address)" for n address
    by (induction n) (auto intro!: r split: option.splits)
  then have "keeps Q (check_created E address)" for address
    unfolding check_created_def by (intro r)
  then show "keeps Q (get_or_create_snapshot E h)"
    unfolding get_or_create_snapshot_def by (intro r create)
qed

text \<open>The vault update, whose tracker is the one of the vault and an epoch.\<close>

lemma vault_update_good:
  assumes L: "good_keep E h Q"
  shows "keeps Q (full_vault_update E h vault)"
proof -
  note r = keeps_rules keeps_if good_keepD(1,2) [OF L] send_good [OF L] getters_keep [OF good_keepD(1-3) [OF L]]
  let ?config = "ja_vault_config (ce_addresses E) (ch_vault_program_id h)"
  have crank: "keeps Q (crank_trackers E h payer vault epoch ?config
      (ja_vault_update_state_tracker (ce_addresses E) (ch_vault_program_id h) vault epoch'))"
    if "ch_keypair h = Some payer" for payer epoch epoch'
    unfolding crank_trackers_def using that by (intro r) (auto intro: good_other other_ix.crank_update)
  show ?thesis
    unfolding full_vault_update_def Let_def
    by (intro r crank) (auto intro: good_other other_ix.start_update other_ix.close_update)
qed

lemma keeps_list: "keeps Q a \<Longrightarrow> (\<And>x xs. ys = x # xs \<Longrightarrow> keeps Q (b x xs)) \<Longrightarrow> keeps Q (case ys of [] \<Rightarrow> a | x # xs \<Rightarrow> b x xs)"
  by (cases ys) auto

lemma keeps_sum: "(\<And>e. y = Inl e \<Longrightarrow> keeps Q (a e)) \<Longrightarrow> (\<And>x. y = Inr x \<Longrightarrow> keeps Q (b x)) \<Longrightarrow>
    keeps Q (case y of Inl e \<Rightarrow> a e | Inr x \<Rightarrow> b x)"
  by (cases y) auto

lemma cranks_good:
  assumes L: "good_keep E h Q"
  shows "keeps Q (crank_register_vaults E h)" "keeps Q (crank_snapshot E h)"
    "keeps Q (crank_snapshot_unupdated E h epoch)"
proof -
  note r = keeps_rules keeps_if keeps_list keeps_sum good_keepD [OF L] getters_keep [OF good_keepD(1-3) [OF L]]
    operator_commands_good [OF L] create_snapshot_good [OF L] create_vault_registry_good [OF L] vault_update_good [OF L]
  show "keeps Q (crank_register_vaults E h)"
    unfolding crank_register_vaults_def get_all_vaults_in_ncn_def Let_def by (intro r)
  show "keeps Q (crank_snapshot E h)"
    unfolding crank_snapshot_def get_all_operators_in_ncn_def cli_get_operator_snapshot_def by (intro r)
  show "keeps Q (crank_snapshot_unupdated E h epoch)"
    unfolding crank_snapshot_unupdated_def by (intro r)
qed

subsection \<open>The keeper\<close>

definition on_world :: "('w \<Rightarrow> 'w \<Rightarrow> bool) \<Rightarrow> 'w \<times> keeper_state \<Rightarrow> 'w \<times> keeper_state \<Rightarrow> bool" where
  "on_world Q ws ws' \<longleftrightarrow> Q (fst ws) (fst ws')"

lemma on_world_keeps:
  "reflp Q \<Longrightarrow> reflp (on_world Q)" "transp Q \<Longrightarrow> transp (on_world Q)"
  "keeps Q m \<Longrightarrow> keeps (on_world Q) (outside m)"
  "reflp Q \<Longrightarrow> keeps (on_world Q) self" "reflp Q \<Longrightarrow> keeps (on_world Q) (modify_self f)"
  by (auto simp: on_world_def reflp_def transp_def keeps_def outside_def self_def modify_self_def split: prod.splits)

lemma keeper_good:
  assumes L: "good_keep E h Q"
  shows "keeps Q (run_keeper E h rounds)"
proof -
  note g = good_keepD [OF L]
  note r = keeps_rules keeps_if keeps_list keeps_sum keeps_option on_world_keeps g getters_keep [OF g(1-3)]
    create_snapshot_good [OF L] cranks_good [OF L]
  have attempts: "keeps Q (epoch_and_slot_attempts n E)" for n
    by (induction n) (simp_all only: epoch_and_slot_attempts.simps get_current_epoch_and_slot_def
      get_current_epoch_def get_current_slot_def, (intro r | assumption)+)
  have collect: "keeps (on_world Q) (collect_operators E h s operators)" for s operators
    by (induction operators) (simp_all only: collect_operators.simps operator_needs_snapshot_def, (intro r | assumption)+)
  have update: "keeps (on_world Q) (update_state E h)"
    unfolding update_state_def update_operators_to_snapshot_def get_all_operators_in_ncn_def by (intro r collect)
  have round: "keeps (on_world Q) (keeper_round E h)"
    unfolding keeper_round_def refresh_def fetch_def get_guaranteed_epoch_and_slot_def split_beta
    by (intro r attempts update)
  have "keeps (on_world Q) (keeper_rounds E h n)" for n
    by (induction n) (simp_all only: keeper_rounds.simps, (intro r round | simp)+)
  then have "keeps (on_world Q) (startup_ncn_keeper E h rounds)"
    unfolding startup_ncn_keeper_def by (intro r)
  then show ?thesis
    by (fastforce simp: keeps_def run_keeper_def on_world_def split: prod.splits)
qed

subsection \<open>The commands that report\<close>

lemma keeps_collect: "reflp Q \<Longrightarrow> transp Q \<Longrightarrow> (\<And>x. keeps Q (f x)) \<Longrightarrow> keeps Q (cmd_collect f xs)"
  by (induction xs) (auto intro!: keeps_rules)

lemma reports_good:
  assumes L: "good_keep E h Q"
  shows "keeps Q (cmd_print (get_ncn E h))" "keeps Q (cmd_print (get_ncn_operator_state E h operator))"
    "keeps Q (cmd_print (get_vault_ncn_ticket E h vault))" "keeps Q (cmd_print (get_ncn_vault_ticket E h vault))"
    "keeps Q (cmd_print (get_vault_operator_delegation E h vault operator))"
    "keeps Q (cmd_print (get_all_tickets E h))" "keeps Q (cmd_print (get_all_operators_in_ncn E h))"
    "keeps Q (cmd_print (get_all_vaults_in_ncn E h))" "keeps Q (cmd_print (get_all_ncn_operator_accounts E h))"
    "keeps Q (cmd_print (get_ncn_program_config E h))" "keeps Q (cmd_print (get_vault_registry E h))"
    "keeps Q (cmd_print (get_snapshot E h))" "keeps Q (cmd_print (cli_get_operator_snapshot E h operator))"
    "keeps Q (cmd_print (get_account_payer E h))" "keeps Q (cmd_print (get_total_epoch_rent_cost E h))"
    "keeps Q (cmd_print (show_operator_stakes E h))" "keeps Q (read_vault_stakes E h)"
proof -
  note g = good_keepD [OF L]
  note r = keeps_rules keeps_if keeps_list keeps_sum keeps_option g getters_keep [OF g(1-3)]
  note getters = get_ncn_def get_ncn_operator_state_def get_vault_ncn_ticket_def get_ncn_vault_ticket_def
    get_vault_operator_delegation_def get_operator_vault_ticket_def get_all_operators_in_ncn_def
    get_all_vaults_in_ncn_def get_all_ncn_operator_accounts_def get_ncn_program_config_def
    cli_get_operator_snapshot_def get_account_payer_def get_total_epoch_rent_cost_def
  show "keeps Q (cmd_print (get_ncn E h))" "keeps Q (cmd_print (get_ncn_operator_state E h operator))"
    "keeps Q (cmd_print (get_vault_ncn_ticket E h vault))" "keeps Q (cmd_print (get_ncn_vault_ticket E h vault))"
    "keeps Q (cmd_print (get_vault_operator_delegation E h vault operator))"
    "keeps Q (cmd_print (get_all_operators_in_ncn E h))"
    "keeps Q (cmd_print (get_all_vaults_in_ncn E h))" "keeps Q (cmd_print (get_all_ncn_operator_accounts E h))"
    "keeps Q (cmd_print (get_ncn_program_config E h))" "keeps Q (cmd_print (get_vault_registry E h))"
    "keeps Q (cmd_print (get_snapshot E h))" "keeps Q (cmd_print (cli_get_operator_snapshot E h operator))"
    "keeps Q (cmd_print (get_account_payer E h))" "keeps Q (cmd_print (get_total_epoch_rent_cost E h))"
    unfolding cmd_print_def getters by (intro r)+
  have "keeps Q (tickets_fetch E h operator vault slot len)" for operator vault slot len
    unfolding tickets_fetch_def cmd_ok_of_def getters by (intro r)
  then show "keeps Q (cmd_print (get_all_tickets E h))"
    unfolding cmd_print_def get_all_tickets_def getters split_beta by (intro r keeps_collect)
  have stakes: "keeps Q (operator_stakes E h operators)" for operators
    by (induction operators) (simp_all only: operator_stakes.simps cli_get_operator_snapshot_def, (intro r | assumption)+)
  show "keeps Q (cmd_print (show_operator_stakes E h))"
    unfolding cmd_print_def show_operator_stakes_def getters split_beta by (intro r stakes keeps_collect)
  show "keeps Q (read_vault_stakes E h)"
    unfolding read_vault_stakes_def cmd_print_def getters by (intro r stakes)
qed

subsection \<open>Everything the binary sends\<close>

text \<open>Any command, whatever it does to the key files, keeps what reads and good transactions keep.\<close>

definition runs_keep ::
  "('w \<Rightarrow> 'w \<Rightarrow> bool) \<Rightarrow> ('w \<times> key_files \<Rightarrow> ((cli_error + unit) \<times> 'w \<times> key_files) option) \<Rightarrow> bool" where
  "runs_keep Q m \<longleftrightarrow> (\<forall>w files r w' files'. m (w, files) = Some (r, (w', files')) \<longrightarrow> Q w w')"

lemma in_world_keeps: "keeps Q m \<Longrightarrow> runs_keep Q (in_world m)"
  by (auto simp: runs_keep_def in_world_def keeps_def split: prod.splits)

lemma register_operator_good:
  assumes L: "good_keep E h Q"
  shows "runs_keep Q (register_operator_command S H E h operator g1 g2 sig keys_file)"
proof -
  have "Q w w" for w using good_keepD(1) [OF L] by (simp add: reflpD)
  moreover have "Q w w'" if "cli_register_operator E h q a b c w = (r, w')" for q a b c w r w'
    using operator_commands_good(2) [OF L] that by (auto simp: keeps_def)
  ultimately show ?thesis
    by (auto simp: runs_keep_def register_operator_command_def split: sum.splits option.splits prod.splits)
qed

lemma handle_good:
  assumes L: "good_keep E h Q"
  shows "runs_keep Q (handle S H io E h rounds action)"
proof -
  note g = good_keepD [OF L]
  have pure: "keeps Q (cmd_keys x)" "keeps Q (cmd_print (cmd_keys y))" for x :: "keys_error + 'x" and y :: "keys_error + 'y"
    unfolding cmd_keys_def cmd_print_def by (intro keeps_rules g)+
  note r = keeps_rules keeps_option g getters_keep [OF g(1-3)] pure reports_good [OF L] admin_commands_good [OF L]
    create_vault_registry_good [OF L] operator_commands_good [OF L] create_snapshot_good [OF L]
    vault_update_good [OF L] cranks_good [OF L] keeper_good [OF L]
  show ?thesis
    by (cases action; simp only: handle.simps with_pubkey_def;
      (rule register_operator_good [OF L] | rule in_world_keeps, (intro r; fail)))
qed

text \<open>A log of the world that reads leave alone and every send, accepted or not, extends.\<close>

definition logs_all :: "'w cli_env \<Rightarrow> ('w \<Rightarrow> attempt list) \<Rightarrow> bool" where
  "logs_all E log \<longleftrightarrow> records_sends E log \<and> reads_keep E (\<lambda>w w'. log w' = log w) \<and>
     keeps (\<lambda>w w'. log w' = log w) (rpc_get_absolute_slot (ce_rpc E)) \<and>
     (\<forall>n. keeps (\<lambda>w w'. log w' = log w) (rpc_get_minimum_balance (ce_rpc E) n))"

definition sent_only :: "'w cli_env \<Rightarrow> cli_handler \<Rightarrow> ('w \<Rightarrow> attempt list) \<Rightarrow> 'w \<Rightarrow> 'w \<Rightarrow> bool" where
  "sent_only E h log w w' \<longleftrightarrow> (\<exists>as. log w' = log w @ as \<and> list_all (\<lambda>a. sent_by E h (at_transaction a)) as)"

lemma quiet_sent_only: "keeps (\<lambda>w w'. log w' = log w) m \<Longrightarrow> keeps (sent_only E h log) m"
  by (erule keeps_mono) (simp add: sent_only_def)

lemma sent_only_keeps:
  assumes L: "logs_all E log"
  shows "good_keep E h (sent_only E h log)"
proof -
  have "keeps (sent_only E h log) (rpc_send (ce_rpc E) mode tx)" if "sent_by E h tx" for mode tx
    unfolding keeps_def
  proof (intro allI impI)
    fix w r w' assume "rpc_send (ce_rpc E) mode tx w = (r, w')"
    then have "log w' = log w @ [\<lparr>at_mode = mode, at_transaction = tx, at_accepted = is_ok r\<rparr>]"
      using L by (metis fst_conv logs_all_def records_sends_def snd_conv)
    with that show "sent_only E h log w w'" by (simp add: sent_only_def)
  qed
  moreover have "reflp (sent_only E h log)" "transp (sent_only E h log)"
    by (auto simp: reflp_def transp_def sent_only_def)
  ultimately show ?thesis
    using L by (simp add: good_keep_def logs_all_def reads_keep_def quiet_sent_only)
qed

text \<open>
  C32: Everything the binary sends, in any run of any command with any arguments, is a transaction
  that the handler's key pays and that needs no other signature: each of its instructions either is a
  call of the program that the client can encode, on the accounts of the handler's NCN with every
  account in its role, in which no account but the handler's key has to sign; or is one of the
  instructions of other programs the commands use, on the handler's key and addresses.  This holds of
  every attempt, whether the node accepts it or not.
\<close>

theorem binary_sends:
  assumes "logs_all E log"
    and "cli_main S H io E args rounds action (w, files) = Some (r, (w', files'))"
  shows "\<exists>as. log w' = log w @ as \<and>
    (\<forall>a \<in> set as. \<exists>h keypair v. from_args H io E args w = (Inr h, v) \<and> ch_keypair h = Some keypair \<and>
       tx_payer (at_transaction a) = keypair \<and> set (tx_signers (at_transaction a)) = {keypair} \<and>
       (\<forall>ix \<in> set (tx_instructions (at_transaction a)).
          (\<exists>ncn call. ch_ncn h = Some ncn \<and> addressed E h keypair ncn call \<and>
             wf_ncn_instruction (call_instruction call) \<and> ix = call_form call [] \<and>
             (\<forall>m \<in> set (ix_accounts ix). am_is_signer m \<longrightarrow> am_pubkey m = keypair)) \<or>
          other_ix E h keypair ix))"
proof -
  obtain q v where args: "from_args H io E args w = (q, v)" by fastforce
  have "keeps (\<lambda>w w'. log w' = log w) (from_args H io E args)"
    using assms(1) unfolding from_args_def logs_all_def
    by (intro keeps_rules keeps_option) (auto simp: reads_keep_def reflp_def transp_def)
  then have quiet: "log v = log w" using args by (auto simp: keeps_def)
  show ?thesis
  proof (cases q)
    case (Inl e)
    with assms(2) args quiet show ?thesis by (auto simp: cli_main_def)
  next
    case (Inr h)
    have "runs_keep (sent_only E h log) (handle S H io E h rounds action)"
      by (rule handle_good [OF sent_only_keeps [OF assms(1)]])
    moreover have "handle S H io E h rounds action (v, files) = Some (r, (w', files'))"
      using assms(2) args Inr by (simp add: cli_main_def)
    ultimately have "sent_only E h log v w'" unfolding runs_keep_def by blast
    then obtain as where "log w' = log w @ as" "list_all (\<lambda>a. sent_by E h (at_transaction a)) as"
      using quiet by (auto simp: sent_only_def)
    then show ?thesis
      using args Inr addressed_signer
      by (fastforce simp: list_all_iff sent_by_def good_ix_def program_ix_def needs_only_def)
  qed
qed

subsection \<open>A run\<close>

lemma script_logs_all: "logs_all (sample_env script_rpc s r) fst"
  by (auto simp: logs_all_def records_sends_def reads_keep_def keeps_def script_rpc_def
      split: list.splits bool.splits)

text \<open>The registration of a vault, refused once and then accepted.\<close>

theorem binary_sends_witness:
  "\<exists>log files'. cli_main tri_syscalls tri_host sample_io (sample_env script_rpc sample_snapshot sample_vaults)
      sample_cli_args 0 Cmd_RegisterVault (([], [False, True]), \<lambda>_. KF_missing) =
      Some (Inr (), ((log, []), files')) \<and> length log = 2 \<and>
    (\<forall>a \<in> set log. tx_payer (at_transaction a) = 9 \<and> set (tx_signers (at_transaction a)) = {9})"
proof -
  let ?E = "sample_env script_rpc sample_snapshot sample_vaults"
  obtain h where h: "from_args tri_host sample_io ?E sample_cli_args ([], [False, True]) = (Inr h, ([], [False, True]))"
    "ch_keypair h = Some 9" "ch_ncn h = Some (be_word [5])" "unat (ch_retries h) = Suc (Suc 0)"
    by (simp add: from_args_def sample_io_def sample_cli_args_def tri_host_def pubkey_arg_def optional_arg_def
        script_rpc_def)
  obtain ix where ix: "register_vault_ix ?E h (be_word [5]) (ch_vault h) = Inr ix"
    using built_call [OF built.intros(6) [of ?E h 9 "be_word [5]" "ch_vault h"]]
    by (auto simp: client_instruction_form register_vault_ix_def builder_simps register_vault_instruction_def
        split: if_splits)
  obtain log where run: "cli_main tri_syscalls tri_host sample_io ?E sample_cli_args 0 Cmd_RegisterVault
      (([], [False, True]), \<lambda>_. KF_missing) = Some (Inr (), ((log, []), \<lambda>_. KF_missing))" "length log = 2"
    by (simp add: cli_main_def h in_world_def cli_register_vault_def ix send_and_log_transaction_def
        send_transactions_def cmd_try_apply cmd_bind_apply) (simp add: script_rpc_def cmd_try_apply cmd_bind_apply)
  from binary_sends [OF script_logs_all run(1)] h have
    "\<forall>a \<in> set log. tx_payer (at_transaction a) = 9 \<and> set (tx_signers (at_transaction a)) = {9}" by fastforce
  with run show ?thesis by blast
qed

end
