(* ===== verification/Crank_Properties.thy ===== *)
theory Crank_Properties
  imports Keeper_Chain
begin

text \<open>
  What the cranks around the snapshot do: the order in which the vault update visits the operators,
  and what becomes of a snapshot account whose creation stopped half way.
\<close>

subsection \<open>The order of the vault update\<close>

lemma crank_order_rotate: "crank_order start xs = rotate start xs"
  by (rule nth_equalityI) (simp_all add: crank_order_def nth_rotate add.commute)

text \<open>
  The vault update visits every operator of the vault exactly once and in turn: it begins with
  the operator after the one last updated (with the epoch's remainder when none was), goes on in the
  order of the vault's list and wraps around at its end.
\<close>

theorem crank_order_in_turn:
  assumes "operators \<noteq> []" and "last_updated_index = u64_max \<or> unat last_updated_index < length operators"
  shows "crank_order (starting_index last_updated_index epoch (length operators)) operators =
      (let k = if last_updated_index = u64_max then unat epoch mod length operators
               else unat last_updated_index + 1 in
       drop k operators @ take k operators)"
proof -
  let ?n = "length operators"
  have n: "0 < ?n" using assms(1) by simp
  show ?thesis
  proof (cases "last_updated_index = u64_max")
    case True
    then show ?thesis
      using n by (simp add: crank_order_rotate starting_index_def rotate_drop_take Let_def)
  next
    case False
    then have i: "unat last_updated_index < ?n" using assms(2) by simp
    show ?thesis
    proof (cases "unat last_updated_index + 1 = ?n")
      case True
      then show ?thesis using False by (simp add: crank_order_rotate starting_index_def)
    next
      case other: False
      then have "unat last_updated_index + 1 < ?n" using i by simp
      then show ?thesis using False by (simp add: crank_order_rotate starting_index_def rotate_drop_take)
    qed
  qed
qed

text \<open>Three operators, the first one updated last.\<close>

theorem crank_order_in_turn_witness:
  "crank_order (starting_index 0 7 3) [11, 12, 13 :: pubkey] = [12, 13, 11]"
  using crank_order_in_turn [of "[11, 12, 13 :: pubkey]" 0 7] by (simp add: eval_nat_numeral)

subsection \<open>Commands whose transactions are refused\<close>

text \<open>From worlds related to the given one the transaction is refused and leads to related worlds.\<close>

definition refused :: "'w cli_env \<Rightarrow> ('w \<Rightarrow> 'w \<Rightarrow> bool) \<Rightarrow> 'w \<Rightarrow> instruction list \<Rightarrow> bool" where
  "refused E Q w ixs \<longleftrightarrow> (\<forall>mode tx v r v'. Q w v \<longrightarrow> tx_instructions tx = ixs \<longrightarrow>
     rpc_send (ce_rpc E) mode tx v = (r, v') \<longrightarrow> \<not> is_ok r \<and> Q w v')"

lemma refusedD:
  "refused E Q w ixs \<Longrightarrow> Q w v \<Longrightarrow> rpc_send (ce_rpc E) mode (signed_transaction ixs k ks b) v = (r, v') \<Longrightarrow>
     (\<exists>e. r = Inl e) \<and> Q w v'"
  unfolding refused_def by (cases r) (force simp: signed_transaction_def is_ok_iff)+

lemma send_attempts_refused:
  assumes "transp Q" "reads_keep E Q" "refused E Q w ixs"
    and "refused E Q w (fi_compute_unit_price (ce_foreign E) fee # ixs)"
  shows "Q w v \<Longrightarrow> send_attempts E n fee ixs k ks v = (r, v') \<Longrightarrow> (\<exists>e. r = Inl e) \<and> Q w v'"
proof (induction n arbitrary: v)
  case 0
  show ?case
  proof (cases rule: cmd_bind_E [OF 0(2) [unfolded send_attempts.simps]])
    case (1 e)
    then show ?thesis using assms(1,2) 0(1) by (auto simp: reads_keep_def dest: keepsD transpD)
  next
    case (2 b u)
    obtain q u' where q: "rpc_send (ce_rpc E) Preflight (signed_transaction ixs k ks b) u = (q, u')" by fastforce
    have "Q w u" using 2(1) assms(1,2) 0(1) by (auto simp: reads_keep_def dest: keepsD transpD)
    from refusedD [OF assms(3) this q] 2(2) q show ?thesis by (auto simp: cmd_bind_apply cmd_try_apply split: if_splits)
  qed
next
  case (Suc n)
  show ?case
  proof (cases rule: cmd_bind_E [OF Suc.prems(2) [unfolded send_attempts.simps]])
    case (1 e)
    then show ?thesis using assms(1,2) Suc.prems(1) by (auto simp: reads_keep_def dest: keepsD transpD)
  next
    case (2 b u)
    obtain q u' where q: "rpc_send (ce_rpc E) Skip_preflight
        (signed_transaction (fi_compute_unit_price (ce_foreign E) fee # ixs) k ks b) u = (q, u')" by fastforce
    have "Q w u" using 2(1) assms(1,2) Suc.prems(1) by (auto simp: reads_keep_def dest: keepsD transpD)
    from refusedD [OF assms(4) this q] obtain e where e: "q = Inl e" "Q w u'" by blast
    show ?thesis
    proof (cases "e = CE_Panic")
      case True
      then show ?thesis using 2(2) q e by (auto simp: cmd_bind_apply cmd_try_apply)
    next
      case False
      then have "send_attempts E n fee ixs k ks u' = (r, v')"
        using 2(2) q e(1) by (simp add: cmd_bind_apply cmd_try_apply)
      then show ?thesis by (rule Suc.IH [OF e(2)])
    qed
  qed
qed

subsection \<open>A snapshot account created half way\<close>

definition same_snapshot :: "'w cli_env \<Rightarrow> cli_handler \<Rightarrow> pubkey \<Rightarrow> ('w, 'p) chain \<Rightarrow> 'w \<Rightarrow> 'w \<Rightarrow> bool" where
  "same_snapshot E h ncn C w w' \<longleftrightarrow>
     cn_view C w' (snapshot_address E h ncn) = cn_view C w (snapshot_address E h ncn)"

text \<open>The program ran the initialisation on the accounts it names, the snapshot's with its owner.\<close>

definition initialization_executed :: "'w cli_env \<Rightarrow> cli_handler \<Rightarrow> pubkey \<Rightarrow> ('w, 'p) chain \<Rightarrow> 'w \<Rightarrow> bool" where
  "initialization_executed E h ncn C w \<longleftrightarrow>
     (\<exists>A n snap payer sys eff. nx_initialize_snapshot A = Some (n, snap, payer, sys) \<and>
        [key_of n, key_of snap, ai_key payer, ai_key sys] =
          map am_pubkey (ix_accounts (call_form (initialize_snapshot_call E h ncn) [])) \<and>
        (\<forall>a. cn_view C w (snapshot_address E h ncn) = Some a \<longrightarrow> ai_owner (ac_info snap) = ra_owner a) \<and>
        ncn_process_instruction (cn_runtime C w) (cn_jito C) (cn_precise C) (cn_syscalls C) NCN_PROGRAM_ID A
          (ix_data (call_form (initialize_snapshot_call E h ncn) [])) = Inr eff)"

text \<open>
  What the creation relies on: reads return the chain's accounts and do not disturb the snapshot's;
  a transaction with the initialisation is either refused without effect or executes the program.
\<close>

definition creation_laws :: "'w cli_env \<Rightarrow> cli_handler \<Rightarrow> pubkey \<Rightarrow> ('w, 'p) chain \<Rightarrow> bool" where
  "creation_laws E h ncn C \<longleftrightarrow>
     ch_ncn h = Some ncn \<and> reads_keep E (same_snapshot E h ncn C) \<and>
     (\<forall>k w x w'. rpc_get_account (ce_rpc E) k w = (Inr x, w') \<longrightarrow> x = cn_view C w k) \<and>
     (\<forall>fee. foreign [fi_compute_unit_price (ce_foreign E) fee]) \<and>
     (\<forall>w. ownership_laws (cn_runtime C w) \<and> rt_system_program_id (cn_runtime C w) \<noteq> NCN_PROGRAM_ID) \<and>
     (\<forall>pre mode tx w r w'. foreign pre \<longrightarrow>
        tx_instructions tx = pre @ [call_form (initialize_snapshot_call E h ncn) []] \<longrightarrow>
        rpc_send (ce_rpc E) mode tx w = (r, w') \<longrightarrow>
        \<not> is_ok r \<and> same_snapshot E h ncn C w w' \<or> initialization_executed E h ncn C w)"

lemma creation_lawsD:
  assumes "creation_laws E h ncn C"
  shows "ch_ncn h = Some ncn" "reads_keep E (same_snapshot E h ncn C)"
    "rpc_get_account (ce_rpc E) k w = (Inr x, w') \<Longrightarrow> x = cn_view C w k"
    "foreign [fi_compute_unit_price (ce_foreign E) fee]"
    "ownership_laws (cn_runtime C w)" "rt_system_program_id (cn_runtime C w) \<noteq> NCN_PROGRAM_ID"
    "foreign pre \<Longrightarrow> tx_instructions tx = pre @ [call_form (initialize_snapshot_call E h ncn) []] \<Longrightarrow>
       rpc_send (ce_rpc E) mode tx w = (r, w') \<Longrightarrow>
       \<not> is_ok r \<and> same_snapshot E h ncn C w w' \<or> initialization_executed E h ncn C w"
  using assms unfolding creation_laws_def by (elim conjE; simp; fail)+

lemma same_snapshot_refl: "reflp (same_snapshot E h ncn C)" and same_snapshot_trans: "transp (same_snapshot E h ncn C)"
  by (auto simp: reflp_def transp_def same_snapshot_def)

lemma program_account_not_initialized:
  assumes L: "creation_laws E h ncn C"
    and a: "cn_view C w (snapshot_address E h ncn) = Some a" "ra_owner a = NCN_PROGRAM_ID"
  shows "\<not> initialization_executed E h ncn C w"
proof
  let ?call = "initialize_snapshot_call E h ncn" and ?R = "cn_runtime C w"
  assume "initialization_executed E h ncn C w"
  then obtain A n snap payer sys eff where nx: "nx_initialize_snapshot A = Some (n, snap, payer, sys)"
    and owner: "ai_owner (ac_info snap) = NCN_PROGRAM_ID"
    and exec: "ncn_process_instruction ?R (cn_jito C) (cn_precise C) (cn_syscalls C) NCN_PROGRAM_ID A
      (ix_data (call_form ?call [])) = Inr eff"
    using a unfolding initialization_executed_def by fastforce
  have "run_ncn_instruction ?R (cn_jito C) (cn_precise C) (cn_syscalls C) NCN_PROGRAM_ID A InitializeSnapshot = Inr eff"
    using exec dispatch_encoded [of InitializeSnapshot ?R "cn_jito C" "cn_precise C" "cn_syscalls C" A]
    by (simp add: wf_ncn_instruction_def initialize_snapshot_call_def)
  then have "rt_load_system_account ?R (ac_info snap) (pd_len (ac_data snap)) True = Inr ()"
    by (auto simp: nx process_initialize_snapshot_def)
  then have "ai_owner (ac_info snap) = rt_system_program_id ?R"
    using creation_lawsD(5) [OF L, of w] unfolding ownership_laws_def by blast
  then show False using creation_lawsD(6) [OF L, of w] owner by simp
qed

lemma initialization_refused:
  assumes L: "creation_laws E h ncn C" and pre: "foreign pre"
    and a: "cn_view C w (snapshot_address E h ncn) = Some a" "ra_owner a = NCN_PROGRAM_ID"
  shows "refused E (same_snapshot E h ncn C) w (pre @ [call_form (initialize_snapshot_call E h ncn) []])"
  unfolding refused_def
proof (intro allI impI)
  fix mode tx v r v'
  assume v: "same_snapshot E h ncn C w v" and tx: "tx_instructions tx = pre @ [call_form (initialize_snapshot_call E h ncn) []]"
    and send: "rpc_send (ce_rpc E) mode tx v = (r, v')"
  have "cn_view C v (snapshot_address E h ncn) = Some a" using v a by (simp add: same_snapshot_def)
  from creation_lawsD(7) [OF L pre tx send] program_account_not_initialized [OF L this a(2)] v
  show "\<not> is_ok r \<and> same_snapshot E h ncn C w v'" by (auto simp: same_snapshot_def)
qed

lemma create_snapshot_refused:
  assumes L: "creation_laws E h ncn C"
    and a: "cn_view C w (snapshot_address E h ncn) = Some a" "ra_owner a = NCN_PROGRAM_ID"
    and run: "create_snapshot E h w = (r, w')"
  shows "(\<exists>e. r = Inl e) \<and> same_snapshot E h ncn C w w'"
proof (cases "ch_keypair h")
  case None
  then show ?thesis using run
    by (auto simp: create_snapshot_def creation_lawsD(1) [OF L] snapshot_instructions send_and_log_transaction_def
        send_transactions_def cmd_bind_apply same_snapshot_def)
next
  case (Some k)
  let ?ix = "call_form (initialize_snapshot_call E h ncn) []"
  obtain q u where q: "send_attempts E (unat (ch_retries h)) (ch_priority_fee_micro_lamports h) [?ix] k [] w = (q, u)"
    by fastforce
  have "(\<exists>e. q = Inl e) \<and> same_snapshot E h ncn C w u"
    using initialization_refused [OF L creation_lawsD(4) [OF L] a] initialization_refused [OF L _ a, of "[]"]
    by (intro send_attempts_refused [OF same_snapshot_trans creation_lawsD(2) [OF L] _ _ _ q])
      (simp_all add: foreign_def same_snapshot_def)
  then show ?thesis using run q Some
    by (auto simp: create_snapshot_def creation_lawsD(1) [OF L] snapshot_instructions send_and_log_transaction_def
        send_transactions_def cmd_bind_apply)
qed

text \<open>
  C31: A snapshot account that was created but not grown to its full size is never completed by the
  command line: asked to get or create the snapshot it starts over with the initialisation, which
  the program refuses for an account it already owns, so the command fails, the account stays as it
  was, and the keeper, whose first step this is, does not start; nothing sends the reallocations
  that are missing.
\<close>

theorem partial_snapshot_never_completed:
  assumes L: "creation_laws E h ncn C"
    and a: "cn_view C w (snapshot_address E h ncn) = Some a" "ra_owner a = NCN_PROGRAM_ID"
      "length (ra_data a) < SNAPSHOT_SIZE"
    and run: "get_or_create_snapshot E h w = (r, w')"
  shows "\<exists>e. r = Inl e \<and> cn_view C w' (snapshot_address E h ncn) = Some a \<and>
    startup_ncn_keeper E h rounds (w, st) = (Inl e, (w', st))"
proof -
  have "(\<exists>e. r = Inl e) \<and> same_snapshot E h ncn C w w'"
  proof (cases "rpc_get_account (ce_rpc E) (snapshot_address E h ncn) w")
    case (Pair x u)
    have u: "same_snapshot E h ncn C w u"
      using creation_lawsD(2) [OF L] Pair by (auto simp: reads_keep_def dest: keepsD)
    show ?thesis
    proof (cases x)
      case (Inl e)
      then show ?thesis using run Pair u
        by (auto simp: get_or_create_snapshot_def creation_lawsD(1) [OF L] get_account_def cmd_bind_apply)
    next
      case (Inr y)
      with Pair creation_lawsD(3) [OF L] a(1) have y: "y = Some a" by metis
      obtain q v where q: "create_snapshot E h u = (q, v)" by fastforce
      have "cn_view C u (snapshot_address E h ncn) = Some a" using u a(1) by (simp add: same_snapshot_def)
      from create_snapshot_refused [OF L this a(2) q] u
      have "\<exists>e. q = Inl e" "same_snapshot E h ncn C w v" by (auto simp: same_snapshot_def)
      then show ?thesis using run Pair Inr y q a(3)
        by (auto simp: get_or_create_snapshot_def creation_lawsD(1) [OF L] get_account_def cmd_bind_apply)
    qed
  qed
  then obtain e where "r = Inl e" "same_snapshot E h ncn C w w'" by blast
  with run a(1) show ?thesis
    by (auto simp: same_snapshot_def startup_ncn_keeper_def outside_apply cmd_bind_apply)
qed

text \<open>A node with a snapshot account of the first allocation's size, which takes no transaction.\<close>

definition stuck_view :: "bool \<Rightarrow> pubkey \<Rightarrow> rpc_account option" where
  "stuck_view w k = Some \<lparr>ra_owner = NCN_PROGRAM_ID, ra_lamports = 1, ra_data = replicate 10240 0\<rparr>"

definition stuck_env :: "bool cli_env" where
  "stuck_env = keeper_base\<lparr>ce_rpc := (ce_rpc keeper_base)\<lparr>rpc_get_account := \<lambda>k w. (Inr (stuck_view w k), w)\<rparr>\<rparr>"

theorem partial_snapshot_never_completed_witness:
  "\<exists>e. get_or_create_snapshot stuck_env sample_handler False = (Inl e, snd (get_or_create_snapshot stuck_env sample_handler False))"
proof -
  let ?C = "keeper_chain\<lparr>cn_view := stuck_view\<rparr>"
  have "ownership_laws sample_runtime" by (auto simp: ownership_laws_def split: if_splits)
  then have L: "creation_laws stuck_env sample_handler 1 ?C"
    by (auto simp: creation_laws_def reads_keep_def keeps_def same_snapshot_def stuck_env_def keeper_base_def
        foreign_def sample_foreign_def foreign_ix_def NCN_PROGRAM_ID_value stuck_view_def)
  obtain r w' where run: "get_or_create_snapshot stuck_env sample_handler False = (r, w')" by (rule prod.exhaust)
  show ?thesis
    using partial_snapshot_never_completed [OF L _ _ _ run,
        of "\<lparr>ra_owner = NCN_PROGRAM_ID, ra_lamports = 1, ra_data = replicate 10240 0\<rparr>"]
    by (fastforce simp: stuck_view_def run SNAPSHOT_SIZE_def OPERATOR_SNAPSHOT_SIZE_def)
qed

end
