(* ===== verification/Spec2Isabelle.thy ===== *)
theory Spec2Isabelle
  imports Operator_Properties End_To_End Producer_Command Cli_Sends Crank_Properties
begin

text \<open>
  A verification library of the NCN program, the settlement program and the tools around them.

  \<^bold>\<open>The system.\<close>  A node consensus network (NCN) on Solana has operators with BLS keys on the curve
  BN254 and stake in vaults.  The NCN program (\<open>program/src\<close> over \<open>core/src\<close>) keeps, for each NCN, a
  configuration account, a registry of supported mints and vaults, one account per operator and the
  snapshot of the operator set: up to 256 entries with key, index and stake, the sum of the keys and
  a generation counter.  A certificate is a digest signed by some of the operators: their aggregated
  signature and G2 key, and a bitmap of those who signed.  The settlement program
  (\<open>settlement_program/src\<close> over \<open>settlement_core/src\<close>) advances an application's state by payloads
  that carry a certificate of the NCN, checked with the same code; long contents are staged before in
  buffers, and events are emitted by a call of the program to itself.  The payload producer
  (\<open>llm_payload_producer/src\<close>) turns the result of a model run into such a payload and makes
  replayable fixtures.  The command line (\<open>cli/src\<close>) makes operators' keys, aggregates signatures,
  builds every instruction of the NCN program through the generated client
  (\<open>clients/rust/ncn_program/src/generated\<close>) and sends them; its keeper records the operators'
  stakes in the snapshot once an epoch.

  \<^bold>\<open>The theories\<close>, in the order of their imports:

  \<^item> \<^bold>\<open>Shared.\<close>  \<open>Prelude\<close>: words of Rust's widths with checked and saturating operations,
    \<open>error + 'a\<close> for \<open>Result\<close> with \<open>try_bind\<close> for the question mark, runs of operations and the
    operations of a run that were accepted, \<open>position\<close> and other list lemmas.  \<open>Bytes\<close>, \<open>Borsh\<close>:
    byte orders and the serialisation of the wire types.  \<open>Interfaces\<close>: the locales below.
    \<open>Errors\<close>, \<open>Constants\<close>, \<open>Program_Ids\<close>, \<open>Precise\<close>.
  \<^item> \<^bold>\<open>Core.\<close>  \<open>Stake_Weight\<close>, \<open>Fees\<close>, \<open>Config\<close>, \<open>Vault_Registry\<close>, \<open>Operator_Account\<close>, \<open>Curve\<close> (points,
    signatures, hash to curve, challenges), \<open>Bls_Group\<close> (what the syscalls promise, and a group that
    satisfies it), \<open>Snapshot\<close>, \<open>Certificate\<close>, \<open>Snapshot_History\<close>: one theory per file of \<open>core/src\<close>,
    records for the accounts, one definition per method.
  \<^item> \<^bold>\<open>NCN program.\<close>  \<open>Accounts\<close> (account checks, derived addresses, the paying account),
    \<open>Admin_Handlers\<close>, \<open>Operator_Handlers\<close> (one definition per file of \<open>program/src\<close>, checks in the
    order of the source), \<open>Entrypoint\<close> (the fourteen instructions, their bytes and the dispatch),
    \<open>Sample_Chain\<close>, \<open>Admin_Properties\<close>, \<open>Operator_Properties\<close>.
  \<^item> \<^bold>\<open>Settlement program.\<close>  \<open>Wire\<close> (payloads and instruction arguments), \<open>Settlement_State\<close>,
    \<open>Settlement_Program\<close>, \<open>Settle_Properties\<close>, \<open>Buffer_Properties\<close>.
  \<^item> \<^bold>\<open>Host tools.\<close>  \<open>Rust_Strings\<close>, \<open>Host_Keys\<close>, \<open>Host_Properties\<close> (\<open>cli/src/bls_keys.rs\<close>),
    \<open>Producer\<close>, \<open>Producer_Properties\<close>, \<open>Producer_Command\<close> (its \<open>main.rs\<close>).
  \<^item> \<^bold>\<open>Client, command line, keeper.\<close>  \<open>Client\<close> (the fourteen generated builders),
    \<open>Client_Properties\<close>, \<open>Cli_Rpc\<close> (the node, the handler and the getters its commands use),
    \<open>Cli_Tickets\<close> (the other getters of \<open>getters.rs\<close>), \<open>Cli_Instructions\<close> (the commands of
    \<open>instructions.rs\<close>), \<open>Keeper\<close> (its cranks, \<open>keeper_state.rs\<close> and
    \<open>keeper_loop.rs\<close>), \<open>Keeper_Metrics\<close>, \<open>Cli_Commands\<close> (\<open>args.rs\<close> and the
    dispatch of \<open>handler.rs\<close>), \<open>Cli_Properties\<close>, \<open>Command_Properties\<close>, \<open>Keeper_Chain\<close>,
    \<open>Keeper_Properties\<close>, \<open>Crank_Properties\<close>, \<open>Cli_Sends\<close>.
  \<^item> \<^bold>\<open>All together.\<close>  \<open>End_To_End\<close>: from the producer's story over the operators' signatures and the
    command line's aggregate to the settled root.

  \<^bold>\<open>States and operations.\<close>  An account type of the source is a record with the source's fields
  (reserved bytes are left out, which changes sizes nowhere: sizes are constants of their own).  An
  account passed to an instruction is its runtime view (key, owner, lamports, signer and writable
  flags) with its data: the typed content for the program's accounts, bytes for those of other
  programs.  A handler is a function from the accounts to an error or the changed accounts, with its
  checks in the source's order, so that every early return is a branch; a panic is the error
  \<open>PE_Panic\<close>.  What an instruction does not return is unchanged, as the runtime discards the effects
  of a failing one; \<open>update_fee_config\<close>, which writes before it validates, returns what it wrote beside
  its result.  Byte arrays are words read in big-endian order, byte slices are lists.  A
  command of the command line is a function from the world to a result and a next world, for any type
  of worlds; the keeper's methods run on the world and the keeper's state and keep what they wrote
  before a failure.  Beside the world the command line sees its key files and the producer command a map
  from paths to contents.

  \<^bold>\<open>Interfaces.\<close>  \<open>slot_table\<close>: a fixed-length array used as a keyed table; the mint and vault tables
  of the registry and the contributions of an operator's entry are interpretations.  \<open>codec\<close>, with its
  extensions by images and sequences: a byte form with a decoder that inverts it exactly; every wire
  type is one, up to the instructions of both programs.  \<open>transactional\<close>, \<open>guarded_step\<close>,
  \<open>monotone_counter\<close>: operations that may be refused, what a run of them keeps (of all runs, or of
  those whose accepted steps satisfy a guard), and a counter no operation decreases; the snapshot, the fees, the configuration, the registry, the settlement state
  and the buffers are interpretations.

  \<^bold>\<open>What the lemmas show.\<close>

  \<^item> \<^bold>\<open>Certificates.\<close>  Which certificates verify, exactly, whatever G2 key and signature they carry,
    for a given snapshot and after a history: the signers' own key makes the challenge cancel, any
    other is bound by it.  What a verified one guarantees; that a change of the operator set or of a key
    invalidates all earlier ones.  The aggregate key is the sum of the keys of the operators in the
    snapshot, over registrations, removals, rotations and recorded delegations, in every history
    without a stray rotation: one by an operator without an entry while one operator is registered,
    which the handlers admit and which breaks the sum.
  \<^item> \<^bold>\<open>Instructions.\<close>  Every instruction leaves the snapshot alone, or makes an authorised step of
    these histories, or is a step of the account's creation (refinement); the entrypoint runs exactly
    the byte forms of the instructions; parameters stay in range, vaults keep slot and weight, an
    operator registers at most once over any sequence of instructions, the snapshot account is
    initialised by exactly the nineteenth growth step.
  \<^item> \<^bold>\<open>Settlement.\<close>  Byte form and payload determine each other, equal digests mean equal payloads
    or a collision, a settle is accepted exactly under its conditions and has exactly its effects,
    indices are consecutive, buffers refine byte strings, stories staged in chunks settle.  Over all
    parts: a quorum, and nothing less, settles a produced story.
  \<^item> \<^bold>\<open>Tools.\<close>  Generated keys register, aggregated signatures verify unless a key or a sum of keys is
    the identity (the aggregation panics), key files keep keys, fixtures verify exactly as documented;
    the producer command writes only fixtures that verify, and its own check before writing never
    fails.
  \<^item> \<^bold>\<open>Client and command line.\<close>  Each builder yields the byte form of its instruction on the
    declared accounts and flags, so the entrypoint runs what the call means; every transaction of every
    command is paid and signed by the handler's key alone and consists of such calls on the accounts of
    the handler's NCN and of named instructions of other programs; sending is bounded; the commands
    that report send nothing.  The keeper's refresh lists exactly the due operators; its crank changes
    nothing of the snapshot but the entries of operators that were behind and the slot of the last
    record, and refreshes them all on a node that serves it.
  \<^item> \<^bold>\<open>Defects.\<close>  Some properties state behaviour the code does not intend: any state of the
    settlement program settles with a certificate of any NCN, the identity key registers, a removed operator's rotation
    overwrites the aggregate key, a full set cannot rotate keys, an operator behind a gap of indices
    makes every certificate fail, the first writer of a buffer bounds it for ever, a snapshot account
    that stopped growing is never completed by the command line, the keeper does nothing in epoch 0,
    public keys given for a registration are signed for with another private key, a fee update that is
    refused has already written its fees, and the producer command writes token-id fixtures that the
    settlement program refuses.

  \<^bold>\<open>Parameters and hypotheses.\<close>  Code outside the repository is a parameter: the curve, hash and
  pairing syscalls (\<open>syscalls\<close>), the runtime (\<open>runtime\<close>, \<open>memory\<close>), the restaking and vault programs
  (\<open>jito\<close>, \<open>jito_addresses\<close>, \<open>account_decoders\<close>), \<open>spl_math\<close> (\<open>precise_ops\<close>), the host's curve library,
  random stream, text codecs and files (\<open>ark\<close>, \<open>host\<close>, \<open>text_codecs\<close>, \<open>cli_io\<close>, \<open>producer_host\<close>), the node (\<open>rpc\<close>) and other programs'
  instructions (\<open>foreign_instructions\<close>).  Where a property needs their documented behaviour it is a
  named hypothesis: \<open>bls_laws\<close> (points are multiples of generators of prime order and the pairing is
  bilinear), \<open>ark_laws\<close> (the host's library agrees with the syscalls' group, except at the identity of
  the second group: its zero bytes do not deserialise and it is serialised with a flag), \<open>host_laws\<close>, \<open>text_laws\<close>, \<open>precise_laws\<close>, \<open>memory_laws\<close> and \<open>realloc_total\<close>
  (new bytes are zero; growth succeeds), \<open>realloc_call_ok\<close>, \<open>allocation_laws\<close> (new bytes of an account are zero and
  reallocation keeps the old ones), \<open>same_chain\<close> (every instruction of a sequence runs with the same
  derivation of addresses), \<open>ownership_laws\<close> (\<open>assign\<close> sets the owner,
  only the system program's accounts are taken for new ones), \<open>answers\<close>, \<open>records_sends\<close>, \<open>logs_all\<close>,
  \<open>chain_laws\<close>, \<open>creation_laws\<close> (reads are true and do not change the program's accounts, and nobody
  else changes them meanwhile; a transaction is refused or executes the program) and \<open>serves\<close>.  Each is satisfied by a concrete instance used in the
  witnesses: the group of order three of \<open>Bls_Group\<close>, the chain of \<open>Sample_Chain\<close>, the nodes of
  \<open>Cli_Properties\<close> and \<open>Keeper_Chain\<close>.

  \<^bold>\<open>Bounds.\<close>  All loops of the source are bounded by its constants: 256 operators, 16 vaults, 64
  mints, 255 attempts of hash to curve, 10 reads of the epoch, the configured retries.  The only fuel
  is the number of rounds the keeper runs, over which its properties are quantified.  Sampling a
  secret key may run for ever and is a partial function; when it returns is a theorem.  A growth step
  is at most 10,240 bytes, so the snapshot's 197,505 bytes need the first allocation and 19 more; a
  token-id answer passes the program's bound of one event up to 2547 tokens, prompt included; what a
  transaction can carry is less and is not modelled.

  \<^bold>\<open>Not modelled.\<close>  The internals of the syscalls and of the other programs, compute budgets and
  transaction sizes; the \<open>Display\<close> implementations and logs; the parsing of arguments by the clap crate;
  waiting; the client's cross-program-invocation forms, which
  repeat the builders over account infos, and its JavaScript counterpart; \<open>core/src/operator_registry.rs\<close>,
  which is not compiled; tests, scripts and the frontend.
\<close>

end
